(* ===== verification/Prelude.thy ===== *)
theory Prelude
  imports Main "HOL-Library.Sublist"
begin

text \<open>
  Shared vocabulary of the development: the fragment of Go's \<open>strings\<close> and \<open>strconv\<close>
  packages that the backend uses, and the list lemmas the components share.

  A Go \<open>string\<close> is a sequence of bytes, so it is modelled by \<open>string\<close> (a list of
  \<open>char\<close>, and a \<open>char\<close> is one byte); \<open>len\<close> is \<open>length\<close>.  A Go function that
  returns only an \<open>error\<close> is modelled by a value of type \<open>'e option\<close>, where \<open>None\<close>
  is \<open>nil\<close>; a function that returns a value and an error is modelled by \<open>'e + 'a\<close>, with the
  error on the left.  Error texts become constructors of an error datatype per component.

  Unicode: the trimming functions recognise every white-space rune that Go's \<open>unicode.IsSpace\<close>
  lists, in its UTF-8 encoding.  \<open>ToLower\<close> maps the ASCII letters and the two non-ASCII runes
  whose lower case is an ASCII letter; the case of every other non-ASCII letter is left
  alone, so a comparison of the result with ASCII text is exact.
\<close>

named_theorems go_simps \<open>definitions of the Go library fragment, for unfolding\<close>

section \<open>Results\<close>

text \<open>Go's \<open>if err := f(); err != nil { return err }\<close> on \<open>error\<close> results.\<close>

primrec orElse :: "'e option \<Rightarrow> 'e option \<Rightarrow> 'e option" where
  "orElse None k = k"
| "orElse (Some e) k = Some e"

lemma orElse_None_iff [simp]: "orElse a b = None \<longleftrightarrow> a = None \<and> b = None"
  by (cases a) auto

text \<open>The guard \<open>if c { return e }\<close> in front of the rest of a function body.\<close>

abbreviation guard_err :: "bool \<Rightarrow> 'e \<Rightarrow> 'e option \<Rightarrow> 'e option" where
  "guard_err c e k \<equiv> (if c then Some e else k)"

text \<open>Go's loop that returns at the first element for which the body returns an error.\<close>

fun firstErr :: "('a \<Rightarrow> 'e option) \<Rightarrow> 'a list \<Rightarrow> 'e option" where
  "firstErr f [] = None"
| "firstErr f (x # xs) = (case f x of None \<Rightarrow> firstErr f xs | Some e \<Rightarrow> Some e)"

lemma firstErr_None_iff [simp]: "firstErr f xs = None \<longleftrightarrow> (\<forall>x\<in>set xs. f x = None)"
  by (induction xs) (auto split: option.splits)

lemma firstErr_SomeD: "firstErr f xs = Some e \<Longrightarrow> \<exists>x\<in>set xs. f x = Some e"
  by (induction xs) (auto split: option.splits)

section \<open>Package strings\<close>

abbreviation HasPrefix :: "string \<Rightarrow> string \<Rightarrow> bool" where
  "HasPrefix s p \<equiv> prefix p s"

abbreviation HasSuffix :: "string \<Rightarrow> string \<Rightarrow> bool" where
  "HasSuffix s p \<equiv> suffix p s"

abbreviation Contains :: "string \<Rightarrow> string \<Rightarrow> bool" where
  "Contains s p \<equiv> sublist p s"

definition ContainsAny :: "string \<Rightarrow> string \<Rightarrow> bool" where
  "ContainsAny s cs = list_ex (\<lambda>c. c \<in> set cs) s"

definition TrimPrefix :: "string \<Rightarrow> string \<Rightarrow> string" where
  "TrimPrefix s p = (if HasPrefix s p then drop (length p) s else s)"

definition TrimSuffix :: "string \<Rightarrow> string \<Rightarrow> string" where
  "TrimSuffix s p = (if HasSuffix s p then take (length s - length p) s else s)"

declare TrimPrefix_def [go_simps] TrimSuffix_def [go_simps] ContainsAny_def [go_simps]

lemma ContainsAny_iff: "ContainsAny s cs \<longleftrightarrow> (\<exists>c\<in>set s. c \<in> set cs)"
  by (auto simp: ContainsAny_def list_ex_iff)

lemma TrimPrefix_append [simp]: "TrimPrefix (p @ s) p = s"
  by (simp add: TrimPrefix_def)

lemma TrimSuffix_append [simp]: "TrimSuffix (s @ p) p = s"
  by (simp add: TrimSuffix_def suffix_def)

text \<open>The UTF-8 encodings of the runes for which \<open>unicode.IsSpace\<close> holds.\<close>

definition space_runes :: "string list" where
  "space_runes =
     [[CHR 0x20], [CHR 0x09], [CHR 0x0A], [CHR 0x0B], [CHR 0x0C], [CHR 0x0D],
      [CHR 0xC2, CHR 0x85], [CHR 0xC2, CHR 0xA0], [CHR 0xE1, CHR 0x9A, CHR 0x80],
      [CHR 0xE2, CHR 0x80, CHR 0x80], [CHR 0xE2, CHR 0x80, CHR 0x81], [CHR 0xE2, CHR 0x80, CHR 0x82],
      [CHR 0xE2, CHR 0x80, CHR 0x83], [CHR 0xE2, CHR 0x80, CHR 0x84], [CHR 0xE2, CHR 0x80, CHR 0x85],
      [CHR 0xE2, CHR 0x80, CHR 0x86], [CHR 0xE2, CHR 0x80, CHR 0x87], [CHR 0xE2, CHR 0x80, CHR 0x88],
      [CHR 0xE2, CHR 0x80, CHR 0x89], [CHR 0xE2, CHR 0x80, CHR 0x8A], [CHR 0xE2, CHR 0x80, CHR 0xA8],
      [CHR 0xE2, CHR 0x80, CHR 0xA9], [CHR 0xE2, CHR 0x80, CHR 0xAF], [CHR 0xE2, CHR 0x81, CHR 0x9F],
      [CHR 0xE3, CHR 0x80, CHR 0x80]]"

definition space_at :: "string list \<Rightarrow> string \<Rightarrow> nat" where
  "space_at rs s = (case find (\<lambda>r. prefix r s) rs of None \<Rightarrow> 0 | Some r \<Rightarrow> length r)"

text \<open>Drop the runes of a list \<open>rs\<close> from the front, as often as one is there.\<close>

function drop_runes :: "string list \<Rightarrow> string \<Rightarrow> string" where
  "drop_runes rs s =
     (if space_at rs s = 0 \<or> s = [] then s else drop_runes rs (drop (space_at rs s) s))"
  by pat_completeness auto
termination
  by (relation "measure (\<lambda>(rs, s). length s)") auto

declare drop_runes.simps [simp del]

definition TrimLeftSpace :: "string \<Rightarrow> string" where
  "TrimLeftSpace s = drop_runes space_runes s"

definition TrimRightSpace :: "string \<Rightarrow> string" where
  "TrimRightSpace s = rev (drop_runes (map rev space_runes) (rev s))"

definition TrimSpace :: "string \<Rightarrow> string" where
  "TrimSpace s = TrimRightSpace (TrimLeftSpace s)"

lemma drop_runes_suffix: "suffix (drop_runes rs s) s"
proof (induction rs s rule: drop_runes.induct)
  case (1 rs s)
  show ?case
  proof (cases "space_at rs s = 0 \<or> s = []")
    case True
    then show ?thesis by (simp add: drop_runes.simps [of rs s])
  next
    case False
    with 1 have "suffix (drop_runes rs (drop (space_at rs s) s)) (drop (space_at rs s) s)"
      by simp
    then have "suffix (drop_runes rs (drop (space_at rs s) s)) s"
      by (meson suffix_drop suffix_order.trans)
    with False show ?thesis by (simp add: drop_runes.simps [of rs s])
  qed
qed

lemma set_drop_runes: "set (drop_runes rs s) \<subseteq> set s"
  by (rule set_mono_suffix) (rule drop_runes_suffix)

lemma set_TrimSpace: "set (TrimSpace s) \<subseteq> set s"
  using set_drop_runes [of space_runes s]
    set_drop_runes [of "map rev space_runes" "rev (drop_runes space_runes s)"]
  by (auto simp: TrimSpace_def TrimLeftSpace_def TrimRightSpace_def)

lemma length_TrimSpace: "length (TrimSpace s) \<le> length s"
proof -
  have *: "length (drop_runes rs t) \<le> length t" for rs t
    using drop_runes_suffix [of rs t] by (rule suffix_length_le)
  show ?thesis
    using * [of "map rev space_runes" "rev (drop_runes space_runes s)"] * [of space_runes s]
    by (simp add: TrimSpace_def TrimLeftSpace_def TrimRightSpace_def)
qed

lemma TrimSpace_Nil [simp]: "TrimSpace [] = []"
  by (simp add: TrimSpace_def TrimLeftSpace_def TrimRightSpace_def drop_runes.simps)

lemma TrimSpace_nonempty: "TrimSpace s \<noteq> [] \<Longrightarrow> s \<noteq> []"
  by auto

lemma drop_runes_id:
  assumes "\<forall>r\<in>set rs. r \<noteq> [] \<and> (\<forall>c\<in>set s. c \<notin> set r)"
  shows "drop_runes rs s = s"
proof (cases s)
  case (Cons c t)
  have "\<not> prefix r s" if "r \<in> set rs" for r
    using assms that Cons by (cases r) auto
  then have "find (\<lambda>r. prefix r s) rs = None" by (simp add: find_None_iff)
  then have "space_at rs s = 0" by (simp add: space_at_def)
  then show ?thesis by (simp add: drop_runes.simps)
qed (simp add: drop_runes.simps)

text \<open>Text without bytes of a white-space rune is not changed by trimming.\<close>

lemma TrimSpace_id:
  assumes "\<forall>r\<in>set space_runes. \<forall>c\<in>set s. c \<notin> set r"
  shows "TrimSpace s = s"
proof -
  have nonempty: "\<forall>r\<in>set space_runes. r \<noteq> []" by (simp add: space_runes_def)
  have "drop_runes space_runes s = s" using assms nonempty by (intro drop_runes_id) auto
  moreover have "drop_runes (map rev space_runes) (rev s) = rev s"
    using assms nonempty by (intro drop_runes_id) auto
  ultimately show ?thesis by (simp add: TrimSpace_def TrimLeftSpace_def TrimRightSpace_def)
qed

text \<open>Splitting at a one-byte separator (\<open>strings.Split\<close>) and \<open>strings.Join\<close>.\<close>

fun split_at :: "char \<Rightarrow> string \<Rightarrow> string list" where
  "split_at c [] = [[]]"
| "split_at c (x # xs) =
     (if x = c then [] # split_at c xs
      else (case split_at c xs of [] \<Rightarrow> [[x]] | y # ys \<Rightarrow> (x # y) # ys))"

fun Join :: "string list \<Rightarrow> string \<Rightarrow> string" where
  "Join [] sep = []"
| "Join [x] sep = x"
| "Join (x # y # xs) sep = x @ sep @ Join (y # xs) sep"

lemma split_at_nonempty [simp]: "split_at c s \<noteq> []"
  by (induction s) (auto split: list.splits)

lemma Join_split_at: "Join (split_at c s) [c] = s"
proof (induction s)
  case (Cons x xs)
  obtain y ys where sp: "split_at c xs = y # ys"
    by (metis split_at_nonempty list.exhaust)
  with Cons show ?case by (cases ys) auto
qed simp

lemma split_at_no_sep: "\<forall>p\<in>set (split_at c s). c \<notin> set p"
  by (induction s) (auto split: list.splits)

lemma length_split_at: "length (split_at c s) = Suc (count_list s c)"
proof (induction s)
  case (Cons x xs)
  obtain y ys where "split_at c xs = y # ys"
    by (metis split_at_nonempty list.exhaust)
  with Cons show ?case by auto
qed simp

lemma split_at_absent: "c \<notin> set s \<Longrightarrow> split_at c s = [s]"
  by (induction s) auto

lemma split_at_append: "c \<notin> set s \<Longrightarrow> split_at c (s @ c # t) = s # split_at c t"
  by (induction s) auto

section \<open>Case mapping\<close>

definition lower_char :: "char \<Rightarrow> char" where
  "lower_char c = (let n = of_char c :: nat in if 65 \<le> n \<and> n \<le> 90 then char_of (n + 32) else c)"

text \<open>\<open>strings.ToLower\<close>: U+212A (Kelvin sign) becomes \<open>k\<close> and U+0130 becomes \<open>i\<close>.\<close>

fun ToLower :: "string \<Rightarrow> string" where
  "ToLower [] = []"
| "ToLower (c # s) =
     (if c = CHR 0xE2 \<and> take 2 s = [CHR 0x84, CHR 0xAA] then CHR ''k'' # ToLower (drop 2 s)
      else if c = CHR 0xC4 \<and> take 1 s = [CHR 0xB0] then CHR ''i'' # ToLower (drop 1 s)
      else lower_char c # ToLower s)"

text \<open>\<open>strings.EqualFold\<close>: U+212A folds with \<open>k\<close> and U+017F with \<open>s\<close>.\<close>

fun fold_canon :: "string \<Rightarrow> string" where
  "fold_canon [] = []"
| "fold_canon (c # s) =
     (if c = CHR 0xE2 \<and> take 2 s = [CHR 0x84, CHR 0xAA] then CHR ''k'' # fold_canon (drop 2 s)
      else if c = CHR 0xC5 \<and> take 1 s = [CHR 0xBF] then CHR ''s'' # fold_canon (drop 1 s)
      else lower_char c # fold_canon s)"

definition EqualFold :: "string \<Rightarrow> string \<Rightarrow> bool" where
  "EqualFold s t \<longleftrightarrow> fold_canon s = fold_canon t"

lemma EqualFold_refl [simp]: "EqualFold s s"
  by (simp add: EqualFold_def)

text \<open>\<open>strings.ReplaceAll\<close> with a one-byte pattern and the empty replacement.\<close>

definition remove_chars :: "char set \<Rightarrow> string \<Rightarrow> string" where
  "remove_chars cs s = filter (\<lambda>c. c \<notin> cs) s"

lemma remove_chars_idem [simp]: "remove_chars cs (remove_chars cs s) = remove_chars cs s"
  by (simp add: remove_chars_def)

section \<open>Character classes\<close>

definition is_lower :: "char \<Rightarrow> bool" where
  "is_lower c \<longleftrightarrow> 97 \<le> (of_char c :: nat) \<and> (of_char c :: nat) \<le> 122"

definition is_upper :: "char \<Rightarrow> bool" where
  "is_upper c \<longleftrightarrow> 65 \<le> (of_char c :: nat) \<and> (of_char c :: nat) \<le> 90"

definition is_digit :: "char \<Rightarrow> bool" where
  "is_digit c \<longleftrightarrow> 48 \<le> (of_char c :: nat) \<and> (of_char c :: nat) \<le> 57"

definition is_alnum :: "char \<Rightarrow> bool" where
  "is_alnum c \<longleftrightarrow> is_lower c \<or> is_upper c \<or> is_digit c"

declare is_lower_def [go_simps] is_upper_def [go_simps] is_digit_def [go_simps] is_alnum_def [go_simps]

section \<open>Package strconv: unsigned decimals\<close>

definition digit_char :: "nat \<Rightarrow> char" where
  "digit_char d = char_of (48 + d)"

definition digit_val :: "char \<Rightarrow> nat" where
  "digit_val c = of_char c - 48"

lemma of_digit_char [simp]: "d < 10 \<Longrightarrow> (of_char (digit_char d) :: nat) = 48 + d"
  by (simp add: digit_char_def)

lemma digit_val_digit_char [simp]: "d < 10 \<Longrightarrow> digit_val (digit_char d) = d"
  by (simp add: digit_val_def)

lemma is_digit_digit_char [simp]: "d < 10 \<Longrightarrow> is_digit (digit_char d)"
  by (simp add: is_digit_def)

fun FormatUint :: "nat \<Rightarrow> string" where
  "FormatUint n = (if n < 10 then [digit_char n] else FormatUint (n div 10) @ [digit_char (n mod 10)])"

declare FormatUint.simps [simp del]

definition digits_value :: "string \<Rightarrow> nat" where
  "digits_value s = foldl (\<lambda>v c. 10 * v + digit_val c) 0 s"

text \<open>
  \<open>strconv.ParseUint (s, 10, 64)\<close>: an empty string, a byte that is not a digit (a sign
  included) and a value that does not fit in 64 bits are errors.
\<close>

definition ParseUint64 :: "string \<Rightarrow> nat option" where
  "ParseUint64 s =
     (if s = [] \<or> \<not> list_all is_digit s \<or> 2 ^ 64 \<le> digits_value s then None
      else Some (digits_value s))"

lemma FormatUint_nonempty [simp]: "FormatUint n \<noteq> []"
  by (subst FormatUint.simps) simp

lemma FormatUint_digits: "list_all is_digit (FormatUint n)"
proof (induction n rule: FormatUint.induct)
  case (1 n)
  then show ?case by (cases "n < 10") (simp_all add: FormatUint.simps [of n])
qed

lemma digits_value_snoc: "digits_value (s @ [c]) = 10 * digits_value s + digit_val c"
  by (simp add: digits_value_def)

lemma digits_value_FormatUint [simp]: "digits_value (FormatUint n) = n"
proof (induction n rule: FormatUint.induct)
  case (1 n)
  then show ?case
    by (cases "n < 10") (simp_all add: FormatUint.simps [of n] digits_value_snoc, simp add: digits_value_def)
qed

lemma ParseUint64_FormatUint: "n < 2 ^ 64 \<Longrightarrow> ParseUint64 (FormatUint n) = Some n"
  by (simp add: ParseUint64_def FormatUint_digits)

section \<open>Lists\<close>

lemma take_append_le: "n \<le> length xs \<Longrightarrow> take n (xs @ ys) = take n xs"
  by simp

lemma find_Some_iff: "find P xs = Some x \<Longrightarrow> x \<in> set xs \<and> P x"
  by (induction xs) (auto split: if_splits)

end
