(* ===== verification/Rbac.thy ===== *)
theory Rbac
  imports Prelude
begin

text \<open>
  Role-based access control: \<open>src/backend/internal/rbac/rbac.go\<close>.  The engine is the Go
  map of maps \<open>grants\<close>; the inner map, whose values are always \<open>true\<close>, is the list of its
  keys.  \<open>Allowed\<close> follows the three direct look-ups and the wildcard loop of the source.  The lemmas
  show that the look-ups are special cases of one pattern match, and what the built-in roles can do.
\<close>

type_synonym engine = "string \<rightharpoonup> string list"

definition add :: "engine \<Rightarrow> string \<Rightarrow> string \<Rightarrow> engine" where
  "add e role permission =
     (let g = (case e role of None \<Rightarrow> [] | Some ps \<Rightarrow> ps)
      in e(role \<mapsto> (if permission \<in> set g then g else g @ [permission])))"

text \<open>Role names with non-ASCII letters are written as their UTF-8 bytes.\<close>

definition operador_impressao :: string where
  "operador_impressao = ''operador de impress'' @ [CHR 0xC3, CHR 0xA3] @ ''o''"

definition administrador_seguranca :: string where
  "administrador_seguranca = ''administrador de seguran'' @ [CHR 0xC3, CHR 0xA7] @ ''a''"

definition builtin_grants :: "(string \<times> string) list" where
  "builtin_grants =
     [(''auditor'', ''read:*''),
      (''operador de arquivos'', ''read:*''),
      (''operador de arquivos'', ''write:share''),
      (''operador de arquivos'', ''write:acl''),
      (''operador de arquivos'', ''write:file''),
      (''operador de arquivos'', ''operate:job''),
      (''operador de arquivos'', ''write:change''),
      (operador_impressao, ''read:*''),
      (operador_impressao, ''write:printer''),
      (operador_impressao, ''operate:job''),
      (''administrador Samba'', ''read:*''),
      (''administrador Samba'', ''write:share''),
      (''administrador Samba'', ''write:acl''),
      (''administrador Samba'', ''write:domain''),
      (''administrador Samba'', ''operate:samba''),
      (''administrador Samba'', ''operate:job''),
      (''administrador Samba'', ''write:change''),
      (''administrador Samba'', ''operate:change''),
      (''administrador do sistema'', ''*''),
      (administrador_seguranca, ''read:*''),
      (administrador_seguranca, ''write:audit''),
      (administrador_seguranca, ''write:logging''),
      (administrador_seguranca, ''write:rbac''),
      (administrador_seguranca, ''read:change''),
      (administrador_seguranca, ''approve:change'')]"

definition New :: engine where
  "New = foldl (\<lambda>e (role, permission). add e role permission) Map.empty builtin_grants"

definition grants_of :: "engine \<Rightarrow> string \<Rightarrow> string list" where
  "grants_of e role = (case e role of None \<Rightarrow> [] | Some ps \<Rightarrow> ps)"

fun Allowed :: "engine \<Rightarrow> string list \<Rightarrow> string \<Rightarrow> string \<Rightarrow> bool" where
  "Allowed e [] action resource = False"
| "Allowed e (role # roles) action resource =
     (let want = action @ '':'' @ resource;
          g = grants_of e role
      in if ''*'' \<in> set g \<or> want \<in> set g \<or> action @ '':*'' \<in> set g then True
         else if list_ex (\<lambda>p. HasSuffix p ''*'' \<and> HasPrefix want (TrimSuffix p ''*'')) g then True
         else Allowed e roles action resource)"

section \<open>Pattern semantics\<close>

text \<open>A grant matches a wanted permission literally, or as a prefix when it ends in a star.\<close>

definition grant_matches :: "string \<Rightarrow> string \<Rightarrow> bool" where
  "grant_matches p want \<longleftrightarrow>
     p = want \<or> (HasSuffix p ''*'' \<and> HasPrefix want (TrimSuffix p ''*''))"

lemma grant_matches_star [simp]: "grant_matches ''*'' want"
  by (simp add: grant_matches_def TrimSuffix_def suffix_def)

lemma grant_matches_action_star [simp]: "grant_matches (action @ '':*'') (action @ '':'' @ resource)"
proof -
  have "TrimSuffix ((action @ '':'') @ ''*'') ''*'' = action @ '':''"
    by (rule TrimSuffix_append)
  then show ?thesis by (simp add: grant_matches_def suffix_def)
qed

lemma grant_matches_refl [simp]: "grant_matches p p"
  by (simp add: grant_matches_def)

text \<open>The three look-ups and the wildcard loop for one role, as one match.\<close>

lemma role_lookup_iff:
  fixes want :: string
  assumes "want = action @ '':'' @ resource"
  shows "(''*'' \<in> set g \<or> want \<in> set g \<or> action @ '':*'' \<in> set g
      \<or> list_ex (\<lambda>p. HasSuffix p ''*'' \<and> HasPrefix want (TrimSuffix p ''*'')) g)
    \<longleftrightarrow> (\<exists>p\<in>set g. grant_matches p want)" (is "?lhs \<longleftrightarrow> ?rhs")
proof
  assume ?lhs
  then consider "''*'' \<in> set g" | "want \<in> set g" | "action @ '':*'' \<in> set g"
    | "list_ex (\<lambda>p. HasSuffix p ''*'' \<and> HasPrefix want (TrimSuffix p ''*'')) g"
    by blast
  then show ?rhs
  proof cases
    case 1
    then show ?thesis by (rule bexI [rotated]) simp
  next
    case 2
    then show ?thesis by (rule bexI [rotated]) simp
  next
    case 3
    then show ?thesis
      by (rule bexI [rotated]) (simp only: assms grant_matches_action_star)
  next
    case 4
    then show ?thesis by (auto simp: list_ex_iff grant_matches_def)
  qed
next
  assume ?rhs
  then show ?lhs by (auto simp: list_ex_iff grant_matches_def)
qed

lemma Allowed_Cons:
  "Allowed e (role # roles) action resource \<longleftrightarrow>
     (\<exists>p\<in>set (grants_of e role). grant_matches p (action @ '':'' @ resource))
       \<or> Allowed e roles action resource"
  unfolding Allowed.simps Let_def role_lookup_iff [OF refl, symmetric] by simp

declare Allowed.simps(2) [simp del]

lemma Allowed_iff:
  "Allowed e roles action resource \<longleftrightarrow>
     (\<exists>role\<in>set roles. \<exists>p\<in>set (grants_of e role). grant_matches p (action @ '':'' @ resource))"
  by (induction roles) (simp_all add: Allowed_Cons)

lemma Allowed_append [simp]:
  "Allowed e (xs @ ys) action resource \<longleftrightarrow> Allowed e xs action resource \<or> Allowed e ys action resource"
  by (auto simp: Allowed_iff)

lemma Allowed_mono: "set xs \<subseteq> set ys \<Longrightarrow> Allowed e xs action resource \<Longrightarrow> Allowed e ys action resource"
  by (auto simp: Allowed_iff)

section \<open>The built-in roles\<close>

lemma grants_of_New:
  "grants_of New role =
     (if role = ''auditor'' then [''read:*'']
      else if role = ''operador de arquivos'' then
        [''read:*'', ''write:share'', ''write:acl'', ''write:file'', ''operate:job'', ''write:change'']
      else if role = operador_impressao then [''read:*'', ''write:printer'', ''operate:job'']
      else if role = ''administrador Samba'' then
        [''read:*'', ''write:share'', ''write:acl'', ''write:domain'', ''operate:samba'', ''operate:job'',
         ''write:change'', ''operate:change'']
      else if role = ''administrador do sistema'' then [''*'']
      else if role = administrador_seguranca then
        [''read:*'', ''write:audit'', ''write:logging'', ''write:rbac'', ''read:change'', ''approve:change'']
      else [])"
  by (simp add: New_def builtin_grants_def add_def grants_of_def operador_impressao_def
      administrador_seguranca_def)

lemma grant_matches_literal:
  "\<not> HasSuffix p ''*'' \<Longrightarrow> grant_matches p want \<longleftrightarrow> p = want"
  by (simp add: grant_matches_def)

lemma grant_matches_read [simp]: "grant_matches ''read:*'' want \<longleftrightarrow> HasPrefix want ''read:''"
proof -
  have "TrimSuffix ''read:*'' ''*'' = ''read:''"
    by (simp add: TrimSuffix_def suffix_def)
  then show ?thesis by (auto simp: grant_matches_def suffix_def)
qed

lemma grant_matches_rollback:
  assumes "p \<in> set (grants_of New role)" and "grant_matches p (''rollback:'' @ resource)"
  shows "role = ''administrador do sistema''"
  using assms by (auto simp: grants_of_New grant_matches_literal suffix_def split: if_splits)

section \<open>Properties\<close>

text \<open>
  C25. The decision of \<open>Allowed\<close>, with its three direct look-ups and its wildcard loop, is exactly
  this: some role of the user holds a grant that equals \<open>action:resource\<close>, or that ends in a
  star and is, without the star, a prefix of it.
\<close>

theorem Allowed_pattern_semantics:
  "Allowed e roles action resource \<longleftrightarrow>
     (\<exists>role\<in>set roles. \<exists>p\<in>set (grants_of e role).
        p = action @ '':'' @ resource \<or>
        (HasSuffix p ''*'' \<and> HasPrefix (action @ '':'' @ resource) (TrimSuffix p ''*'')))"
  by (simp add: Allowed_iff grant_matches_def)

theorem Allowed_pattern_semantics_witness:
  "Allowed New [''auditor''] ''read'' ''share'' \<and> \<not> Allowed New [''auditor''] ''write'' ''share''"
  using Allowed_pattern_semantics [of New "[''auditor'']" "''read''" "''share''"]
    Allowed_pattern_semantics [of New "[''auditor'']" "''write''" "''share''"]
  by (simp add: grants_of_New suffix_def TrimSuffix_def)

text \<open>
  Segregation of duties in the built-in roles: a role that may both request a change and
  approve a change is the system administrator, and whoever may roll back any resource holds
  the system administrator role.
\<close>

theorem builtin_roles_segregate_duties:
  "(Allowed New [role] ''write'' ''change'' \<and> Allowed New [role] ''approve'' ''change''
      \<longrightarrow> role = ''administrador do sistema'')
   \<and> (Allowed New roles ''rollback'' resource \<longrightarrow> ''administrador do sistema'' \<in> set roles)"
proof
  show "Allowed New [role] ''write'' ''change'' \<and> Allowed New [role] ''approve'' ''change''
      \<longrightarrow> role = ''administrador do sistema''"
    by (auto simp: Allowed_iff grants_of_New grant_matches_literal suffix_def split: if_splits)
  show "Allowed New roles ''rollback'' resource \<longrightarrow> ''administrador do sistema'' \<in> set roles"
    by (auto simp: Allowed_iff dest!: grant_matches_rollback)
qed

theorem builtin_roles_segregate_duties_witness:
  "Allowed New [''administrador do sistema''] ''write'' ''change''
   \<and> Allowed New [''administrador do sistema''] ''approve'' ''change''
   \<and> Allowed New [''auditor'', ''administrador do sistema''] ''rollback'' ''job''
   \<and> \<not> Allowed New [''auditor''] ''rollback'' ''job''"
proof -
  have "\<not> Allowed New [''auditor''] ''rollback'' ''job''"
    using builtin_roles_segregate_duties [where role = "''auditor''" and roles = "[''auditor'']"] by auto
  then show ?thesis by (simp add: Allowed_iff grants_of_New operador_impressao_def)
qed

end
