(* ===== verification/Paths.thy ===== *)
theory Paths
  imports Prelude
begin

text \<open>
  Lexical path handling and the input validators of
  \<open>src/backend/internal/validation/paths.go\<close>.  \<open>Clean\<close> and \<open>IsAbs\<close> are Go's
  \<open>filepath.Clean\<close> and \<open>filepath.IsAbs\<close> on Unix, by the rules of their documentation: the
  path is split at slashes, empty and \<open>.\<close> elements vanish, an inner \<open>..\<close> cancels the
  element before it, a leading \<open>..\<close> of a rooted path vanishes, an empty result is \<open>.\<close>.
  The main lemma characterises the canonical absolute paths; the properties say exactly
  which strings the validators accept.
\<close>

section \<open>Package filepath\<close>

definition IsAbs :: "string \<Rightarrow> bool" where
  "IsAbs p \<longleftrightarrow> HasPrefix p ''/''"

definition clean_step :: "bool \<Rightarrow> string list \<Rightarrow> string \<Rightarrow> string list" where
  "clean_step rooted out c =
     (if c = [] \<or> c = ''.'' then out
      else if c = ''..'' then
        (if out \<noteq> [] \<and> hd out \<noteq> ''..'' then tl out else if rooted then out else c # out)
      else c # out)"

definition Clean :: "string \<Rightarrow> string" where
  "Clean p =
     (if p = [] then ''.''
      else let rooted = IsAbs p;
               out = rev (foldl (clean_step rooted) [] (split_at CHR ''/'' p));
               body = Join out ''/''
           in if rooted then CHR ''/'' # body else if body = [] then ''.'' else body)"

section \<open>Package validation\<close>

datatype validation_error =
    PathRequired | PathControlCharacter | PathNotCanonical | PathNotAbsolute | PathBlocked | PathOutsideRoots
  | FileNotCanonical | FileNotListed
  | FieldRequired string | FieldTooLong string | FieldNotSingleLine string
  | PrincipalCharacter | NameInvalid | NameCharacter | KeyLength | KeyCharacter

definition control_chars :: string where
  "control_chars = [CHR 0x00, CHR 0x0D, CHR 0x0A]"

definition allowedShareRoots :: "string list" where
  "allowedShareRoots = [''/srv/dados'', ''/var/lib/samba/printers'']"

definition blockedSystemRoots :: "string list" where
  "blockedSystemRoots =
     [''/boot'', ''/dev'', ''/proc'', ''/root'', ''/sbin'', ''/bin'', ''/lib'', ''/libexec'', ''/usr/bin'', ''/usr/sbin'']"

definition allowedConfigFiles :: "string list" where
  "allowedConfigFiles =
     [''/usr/local/etc/smb4.conf'', ''/etc/rc.conf'', ''/etc/fstab'', ''/etc/krb5.conf'', ''/etc/nsswitch.conf'',
      ''/etc/syslog.conf'', ''/usr/local/etc/cups/cupsd.conf'']"

text \<open>\<open>clean == root || strings.HasPrefix(clean, root+"/")\<close>, the test used for every root.\<close>

definition at_or_below :: "string \<Rightarrow> string \<Rightarrow> bool" where
  "at_or_below root p \<longleftrightarrow> p = root \<or> HasPrefix p (root @ ''/'')"

definition SharePath :: "string \<Rightarrow> validation_error option" where
  "SharePath path =
     (if path = [] then Some PathRequired
      else if ContainsAny path control_chars then Some PathControlCharacter
      else let clean = Clean path
           in if clean \<noteq> path then Some PathNotCanonical
              else if \<not> IsAbs clean then Some PathNotAbsolute
              else if list_ex (\<lambda>b. at_or_below b clean) blockedSystemRoots then Some PathBlocked
              else if list_ex (\<lambda>a. at_or_below a clean) allowedShareRoots then None
              else Some PathOutsideRoots)"

definition ConfigPath :: "string \<Rightarrow> validation_error option" where
  "ConfigPath path =
     (if path = [] \<or> ContainsAny path control_chars \<or> path \<noteq> Clean path \<or> \<not> IsAbs path then Some FileNotCanonical
      else if path \<notin> set allowedConfigFiles then Some FileNotListed
      else None)"

definition SingleLine :: "string \<Rightarrow> string \<Rightarrow> int \<Rightarrow> bool \<Rightarrow> validation_error option" where
  "SingleLine field val maxLength allowEmpty =
     (if \<not> allowEmpty \<and> TrimSpace val = [] then Some (FieldRequired field)
      else if maxLength > 0 \<and> int (length val) > maxLength then Some (FieldTooLong field)
      else if ContainsAny val control_chars then Some (FieldNotSingleLine field)
      else None)"

text \<open>
  The validators that loop over runes accept ASCII characters only, so a loop over bytes
  decides the same: no byte of a multi-byte rune is in the accepted set.
\<close>

definition Principal :: "string \<Rightarrow> validation_error option" where
  "Principal val =
     (case SingleLine ''principal'' val 256 False of
        Some e \<Rightarrow> Some e
      | None \<Rightarrow>
          (if list_all (\<lambda>c. is_alnum c \<or> c \<in> set ''._$@ -'' \<or> c = CHR 0x5C) val then None
           else Some PrincipalCharacter))"

definition ShareName :: "string \<Rightarrow> validation_error option" where
  "ShareName name =
     (if name = [] \<or> length name > 80 then Some NameInvalid
      else if list_all (\<lambda>c. is_alnum c \<or> c \<in> set ''._$-'') name then None
      else Some NameCharacter)"

definition IdempotencyKey :: "string \<Rightarrow> validation_error option" where
  "IdempotencyKey val =
     (if length val < 8 \<or> length val > 128 then Some KeyLength
      else if list_all (\<lambda>c. c = CHR ''-'' \<or> c = CHR ''_'' \<or> c = CHR ''.'' \<or> is_alnum c) val then None
      else Some KeyCharacter)"

section \<open>Canonical absolute paths\<close>

text \<open>A path element that \<open>Clean\<close> keeps.\<close>

definition proper :: "string \<Rightarrow> bool" where
  "proper c \<longleftrightarrow> c \<noteq> [] \<and> c \<noteq> ''.'' \<and> c \<noteq> ''..'' \<and> CHR ''/'' \<notin> set c"

text \<open>The absolute path with the given elements.\<close>

definition path_of :: "string list \<Rightarrow> string" where
  "path_of cs = concat (map (\<lambda>c. CHR ''/'' # c) cs)"

lemma path_of_simps [simp]:
  "path_of [] = []" "path_of (c # cs) = CHR ''/'' # c @ path_of cs" "path_of (as @ bs) = path_of as @ path_of bs"
  by (simp_all add: path_of_def)

lemma slash_Join: "cs \<noteq> [] \<Longrightarrow> CHR ''/'' # Join cs ''/'' = path_of cs"
  by (induction cs rule: list_nonempty_induct) (auto simp: neq_Nil_conv)

lemma split_at_append2: "split_at c (s @ c # t) = split_at c s @ split_at c t"
proof (induction s)
  case (Cons x s)
  obtain y ys where "split_at c s = y # ys"
    by (metis split_at_nonempty list.exhaust)
  with Cons show ?case by auto
qed simp

lemma split_at_path_of:
  assumes "list_all proper cs" and "cs \<noteq> []"
  shows "split_at CHR ''/'' (path_of cs) = [] # cs"
proof -
  have gen: "list_all proper cs \<Longrightarrow> CHR ''/'' \<notin> set c \<Longrightarrow> split_at CHR ''/'' (c @ path_of cs) = c # cs" for c
  proof (induction cs arbitrary: c)
    case (Cons d cs)
    then show ?case by (simp add: split_at_append proper_def)
  qed (simp add: split_at_absent)
  from gen [of "[]"] assms(1) show ?thesis by simp
qed

lemma clean_proper:
  "list_all proper cs \<Longrightarrow> foldl (clean_step rooted) out cs = rev cs @ out"
  by (induction cs arbitrary: out) (auto simp: clean_step_def proper_def)

lemma clean_step_proper:
  "list_all proper out \<Longrightarrow> CHR ''/'' \<notin> set c \<Longrightarrow> list_all proper (clean_step True out c)"
  by (cases out) (auto simp: clean_step_def proper_def)

lemma clean_rooted_proper:
  "list_all proper out \<Longrightarrow> \<forall>c\<in>set cs. CHR ''/'' \<notin> set c \<Longrightarrow> list_all proper (foldl (clean_step True) out cs)"
  by (induction cs arbitrary: out) (auto simp: clean_step_proper)

lemma Clean_absolute: "IsAbs p \<Longrightarrow> \<exists>cs. list_all proper cs \<and> Clean p = CHR ''/'' # Join cs ''/''"
proof -
  assume abs: "IsAbs p"
  let ?cs = "rev (foldl (clean_step True) [] (split_at CHR ''/'' p))"
  have "list_all proper ?cs"
    using clean_rooted_proper [of "[]"] split_at_no_sep by (simp add: list_all_rev)
  moreover have "Clean p = CHR ''/'' # Join ?cs ''/''"
    using abs by (auto simp: Clean_def IsAbs_def)
  ultimately show ?thesis by blast
qed

lemma Clean_path_of: "list_all proper cs \<Longrightarrow> cs \<noteq> [] \<Longrightarrow> Clean (path_of cs) = path_of cs"
proof -
  assume proper: "list_all proper cs" and ne: "cs \<noteq> []"
  have "path_of cs \<noteq> []" and abs: "IsAbs (path_of cs)"
    using ne by (cases cs; simp add: IsAbs_def)+
  moreover have "foldl (clean_step True) [] ([] # cs) = rev cs"
    using clean_proper [OF proper, of True "[]"] by (simp add: clean_step_def)
  ultimately show ?thesis
    using slash_Join [OF ne] by (simp add: Clean_def split_at_path_of [OF proper ne])
qed

lemma Clean_root [simp]: "Clean ''/'' = ''/''"
  by (simp add: Clean_def IsAbs_def clean_step_def)

lemma canonical_iff:
  "IsAbs p \<and> Clean p = p \<longleftrightarrow> p = ''/'' \<or> (\<exists>cs. cs \<noteq> [] \<and> list_all proper cs \<and> p = path_of cs)"
proof
  assume p: "IsAbs p \<and> Clean p = p"
  then obtain cs where cs: "list_all proper cs" and eq: "p = CHR ''/'' # Join cs ''/''"
    using Clean_absolute by metis
  show "p = ''/'' \<or> (\<exists>cs. cs \<noteq> [] \<and> list_all proper cs \<and> p = path_of cs)"
  proof (cases "cs = []")
    case False
    then show ?thesis using cs eq slash_Join by metis
  qed (simp add: eq)
next
  assume "p = ''/'' \<or> (\<exists>cs. cs \<noteq> [] \<and> list_all proper cs \<and> p = path_of cs)"
  then show "IsAbs p \<and> Clean p = p"
  proof (elim disjE exE conjE)
    assume "p = ''/''"
    then show ?thesis by (simp add: IsAbs_def)
  next
    fix cs assume cs: "cs \<noteq> []" "list_all proper cs" and p: "p = path_of cs"
    have "IsAbs (path_of cs)"
      using cs(1) by (cases cs) (simp_all add: IsAbs_def)
    with p Clean_path_of [OF cs(2,1)] show ?thesis by simp
  qed
qed

lemma path_of_inject:
  assumes "list_all proper as" and "list_all proper bs" and "path_of as = path_of bs"
  shows "as = bs"
proof (cases "as = [] \<or> bs = []")
  case True
  then show ?thesis using assms(3) by (cases as; cases bs; simp)
next
  case False
  then have "split_at CHR ''/'' (path_of as) = [] # as" and "split_at CHR ''/'' (path_of bs) = [] # bs"
    using assms(1,2) by (simp_all add: split_at_path_of)
  then show ?thesis unfolding assms(3) by simp
qed

lemma at_or_below_path_of:
  assumes "list_all proper rs" "rs \<noteq> []" "list_all proper cs" "cs \<noteq> []"
  shows "at_or_below (path_of rs) (path_of cs) \<longleftrightarrow> prefix rs cs"
proof
  assume "at_or_below (path_of rs) (path_of cs)"
  then consider "path_of cs = path_of rs" | t where "path_of cs = path_of rs @ CHR ''/'' # t"
    by (auto simp: at_or_below_def prefix_def)
  then show "prefix rs cs"
  proof cases
    case 1
    then show ?thesis using path_of_inject assms by blast
  next
    case (2 t)
    have "[] # cs = split_at CHR ''/'' (path_of rs @ CHR ''/'' # t)"
      using split_at_path_of [OF assms(3,4)] 2 by simp
    also have "\<dots> = ([] # rs) @ split_at CHR ''/'' t"
      using split_at_path_of [OF assms(1,2)] by (simp add: split_at_append2)
    finally show ?thesis by (simp add: prefix_def)
  qed
next
  assume "prefix rs cs"
  then obtain ds where "cs = rs @ ds" by (auto simp: prefix_def)
  then show "at_or_below (path_of rs) (path_of cs)"
    by (cases ds) (auto simp: at_or_below_def prefix_def)
qed

section \<open>The validators\<close>

lemma share_roots_path_of:
  "allowedShareRoots = map path_of [[''srv'', ''dados''], [''var'', ''lib'', ''samba'', ''printers'']]"
  by (simp add: allowedShareRoots_def)

lemma blocked_roots_path_of:
  "blockedSystemRoots =
     map path_of [[''boot''], [''dev''], [''proc''], [''root''], [''sbin''], [''bin''], [''lib''], [''libexec''],
       [''usr'', ''bin''], [''usr'', ''sbin'']]"
  by (simp add: blockedSystemRoots_def)

lemma below_share_root_iff:
  assumes "list_all proper cs" "cs \<noteq> []"
  shows "list_ex (\<lambda>a. at_or_below a (path_of cs)) allowedShareRoots \<longleftrightarrow>
    prefix [''srv'', ''dados''] cs \<or> prefix [''var'', ''lib'', ''samba'', ''printers''] cs"
proof -
  have "at_or_below (path_of [''srv'', ''dados'']) (path_of cs) = prefix [''srv'', ''dados''] cs"
    by (rule at_or_below_path_of) (use assms in \<open>simp_all add: proper_def\<close>)
  moreover have "at_or_below (path_of [''var'', ''lib'', ''samba'', ''printers'']) (path_of cs)
      = prefix [''var'', ''lib'', ''samba'', ''printers''] cs"
    by (rule at_or_below_path_of) (use assms in \<open>simp_all add: proper_def\<close>)
  ultimately show ?thesis by (simp add: share_roots_path_of del: path_of_simps)
qed

lemma blocked_root_head:
  assumes "list_all proper cs" "cs \<noteq> []" and "list_ex (\<lambda>b. at_or_below b (path_of cs)) blockedSystemRoots"
  shows "hd cs \<notin> {''srv'', ''var''}"
proof -
  have iff: "at_or_below (path_of rs) (path_of cs) \<longleftrightarrow> prefix rs cs" if "list_all proper rs" "rs \<noteq> []" for rs
    using at_or_below_path_of [OF that assms(1,2)] .
  have "list_ex (\<lambda>rs. prefix rs cs) [[''boot''], [''dev''], [''proc''], [''root''], [''sbin''], [''bin''], [''lib''],
      [''libexec''], [''usr'', ''bin''], [''usr'', ''sbin'']]"
    using assms(3) by (simp add: blocked_roots_path_of iff proper_def del: path_of_simps)
  then show ?thesis by (cases cs) auto
qed

lemma control_path_of:
  "ContainsAny (path_of cs) control_chars \<longleftrightarrow> list_ex (\<lambda>c. ContainsAny c control_chars) cs"
  by (induction cs) (auto simp: ContainsAny_iff control_chars_def)

lemma share_root_elements:
  assumes "root \<in> {[''srv'', ''dados''], [''var'', ''lib'', ''samba'', ''printers'']}"
  shows "list_all (\<lambda>c. proper c \<and> \<not> ContainsAny c control_chars) root" and "root \<noteq> []"
  using assms by (elim insertE emptyE; simp add: proper_def ContainsAny_def control_chars_def)+

text \<open>
  C26. \<open>SharePath\<close> accepts exactly the canonical paths of the two share volumes: an authorised
  root followed by any number of elements, each non-empty, free of slash and of NUL, CR and
  LF, and neither \<open>.\<close> nor \<open>..\<close>.  So no accepted path can leave its volume by
  traversal, and a sibling such as \<open>/srv/dados2\<close> is refused.
\<close>

theorem SharePath_accepts_iff:
  "SharePath p = None \<longleftrightarrow>
     (\<exists>root\<in>{[''srv'', ''dados''], [''var'', ''lib'', ''samba'', ''printers'']}. \<exists>cs.
        list_all (\<lambda>c. proper c \<and> \<not> ContainsAny c control_chars) cs \<and> p = path_of (root @ cs))"
  (is "_ \<longleftrightarrow> ?rhs")
proof
  assume ok: "SharePath p = None"
  then have canon: "IsAbs p" "Clean p = p" and noctl: "\<not> ContainsAny p control_chars"
    and below: "list_ex (\<lambda>a. at_or_below a p) allowedShareRoots"
    by (auto simp: SharePath_def Let_def split: if_splits)
  have "p \<noteq> ''/''"
    using below by (auto simp: allowedShareRoots_def at_or_below_def)
  then obtain cs where cs: "cs \<noteq> []" "list_all proper cs" and p: "p = path_of cs"
    using canon canonical_iff by blast
  from below have "prefix [''srv'', ''dados''] cs \<or> prefix [''var'', ''lib'', ''samba'', ''printers''] cs"
    unfolding p below_share_root_iff [OF cs(2,1)] .
  then obtain root ds where root: "root \<in> {[''srv'', ''dados''], [''var'', ''lib'', ''samba'', ''printers'']}"
    and cs_eq: "cs = root @ ds"
    unfolding prefix_def by blast
  have "list_all (\<lambda>c. proper c \<and> \<not> ContainsAny c control_chars) ds"
    using cs(2) noctl unfolding p cs_eq by (auto simp: list_all_iff list_ex_iff control_path_of simp del: path_of_simps)
  then show ?rhs using root p cs_eq by blast
next
  assume ?rhs
  then obtain root cs where root: "root \<in> {[''srv'', ''dados''], [''var'', ''lib'', ''samba'', ''printers'']}"
    and cs: "list_all (\<lambda>c. proper c \<and> \<not> ContainsAny c control_chars) cs" and p: "p = path_of (root @ cs)"
    by blast
  have all: "list_all proper (root @ cs)" and ne: "root @ cs \<noteq> []"
    using share_root_elements [OF root] cs by (auto simp: list_all_iff)
  have noctl: "\<not> ContainsAny p control_chars"
    using share_root_elements [OF root] cs unfolding p control_path_of by (auto simp: list_all_iff list_ex_iff)
  have "prefix [''srv'', ''dados''] (root @ cs) \<or> prefix [''var'', ''lib'', ''samba'', ''printers''] (root @ cs)"
    using root by auto
  then have below: "list_ex (\<lambda>a. at_or_below a p) allowedShareRoots"
    unfolding p below_share_root_iff [OF all ne] .
  have "hd (root @ cs) \<in> {''srv'', ''var''}"
    using root by auto
  then have nblocked: "\<not> list_ex (\<lambda>b. at_or_below b p) blockedSystemRoots"
    using blocked_root_head [OF all ne] unfolding p by blast
  have canon: "IsAbs p \<and> Clean p = p"
    using all ne p canonical_iff by blast
  then have "p \<noteq> []" by (auto simp: IsAbs_def)
  with canon noctl nblocked below show "SharePath p = None"
    by (simp add: SharePath_def)
qed

theorem SharePath_accepts_iff_witness:
  "SharePath ''/srv/dados/setor-a'' = None \<and> SharePath ''/srv/dados/../etc'' \<noteq> None"
proof
  show "SharePath ''/srv/dados/setor-a'' = None"
    unfolding SharePath_accepts_iff
    by (rule bexI [of _ "[''srv'', ''dados'']"], rule exI [of _ "[''setor-a'']"])
      (simp_all add: proper_def ContainsAny_iff control_chars_def)
  show "SharePath ''/srv/dados/../etc'' \<noteq> None"
    by (simp add: SharePath_def Clean_def IsAbs_def clean_step_def ContainsAny_iff control_chars_def)
qed

text \<open>
  \<open>ConfigPath\<close> accepts exactly the seven files of the allow-list: every listed path passes
  the canonical-form test, and nothing else is accepted.
\<close>

theorem ConfigPath_accepts_iff: "ConfigPath p = None \<longleftrightarrow> p \<in> set allowedConfigFiles"
proof -
  have "p \<in> set allowedConfigFiles \<Longrightarrow> p \<noteq> [] \<and> \<not> ContainsAny p control_chars \<and> Clean p = p \<and> IsAbs p"
    by (auto simp: allowedConfigFiles_def ContainsAny_iff control_chars_def Clean_def IsAbs_def clean_step_def)
  then show ?thesis by (auto simp: ConfigPath_def split: if_splits)
qed

text \<open>Accepted principals and share names are single lines: no NUL, CR or LF byte.\<close>

lemma control_char_cases: "c \<in> set control_chars \<Longrightarrow> (of_char c :: nat) \<in> {0, 10, 13}"
  by (auto simp: control_chars_def)

lemma Principal_single_line: "Principal v = None \<Longrightarrow> \<not> ContainsAny v control_chars"
  by (auto simp: Principal_def SingleLine_def split: option.splits if_splits)

lemma SingleLine_no_control: "SingleLine f v n b = None \<Longrightarrow> \<not> ContainsAny v control_chars"
  by (auto simp: SingleLine_def split: if_splits)

lemma ShareName_no_control: "ShareName v = None \<Longrightarrow> \<not> ContainsAny v control_chars"
  by (auto simp: ShareName_def ContainsAny_iff list_all_iff control_chars_def is_alnum_def is_lower_def
      is_upper_def is_digit_def split: if_splits)

lemma SharePath_no_control: "SharePath v = None \<Longrightarrow> \<not> ContainsAny v control_chars"
  by (auto simp: SharePath_def Let_def split: if_splits)

end
