(* ===== verification/GoTime.thy ===== *)
theory GoTime
  imports Prelude
begin

text \<open>
  Time in the backend.  A Go \<open>time.Time\<close> in UTC is its instant, an \<open>int\<close> of nanoseconds
  since the Unix epoch, and a \<open>time.Duration\<close> an \<open>int\<close> of nanoseconds; the backend only
  compares them and adds small durations, so the 64-bit width is not observable.

  The storage layer keeps instants as RFC 3339 text with the nanosecond layout of Go
  (\<open>time.RFC3339Nano\<close>), which drops trailing zeros of the fraction, and SQLite compares those columns
  as text.  A stored text is a \<open>stamp\<close>: the second that its 19-byte date and time part denotes (that
  part has fixed width and increases with the second, for the years 0 to 9999) and the rest of
  the text, the fraction followed by \<open>Z\<close>.  \<open>stamp_less\<close> is the byte order of the texts.
  The lemmas give the round trip through the text, and how far text order and time order agree.
\<close>

type_synonym time = int
type_synonym duration = int

abbreviation second :: duration where "second \<equiv> 1000000000"
abbreviation minute :: duration where "minute \<equiv> 60 * second"
abbreviation hour :: duration where "hour \<equiv> 60 * minute"
abbreviation millisecond :: duration where "millisecond \<equiv> 1000000"

text \<open>\<open>time.Time{}\<close>, 1 January of year 1, for which \<open>IsZero\<close> holds.\<close>

definition zero_time :: time where
  "zero_time = - 62135596800 * second"

section \<open>The fraction of a second as text\<close>

fun frac_digits :: "nat \<Rightarrow> nat \<Rightarrow> string" where
  "frac_digits 0 n = []"
| "frac_digits (Suc k) n = digit_char (n div 10 ^ k mod 10) # frac_digits k n"

definition strip_zeros :: "string \<Rightarrow> string" where
  "strip_zeros ds = rev (dropWhile (\<lambda>c. c = digit_char 0) (rev ds))"

definition frac_text :: "nat \<Rightarrow> string" where
  "frac_text n = (if n = 0 then ''Z'' else CHR ''.'' # strip_zeros (frac_digits 9 n) @ ''Z'')"

fun frac_value :: "nat \<Rightarrow> string \<Rightarrow> nat" where
  "frac_value k [] = 0"
| "frac_value k (c # cs) = digit_val c * 10 ^ (k - 1) + frac_value (k - 1) cs"

text \<open>Reading the fraction back: the digits between the dot and the final \<open>Z\<close>.\<close>

definition frac_parse :: "string \<Rightarrow> nat" where
  "frac_parse s = (case s of CHR ''.'' # ds \<Rightarrow> frac_value 9 (butlast ds) | _ \<Rightarrow> 0)"

datatype stamp = Stamp (stamp_sec: int) (stamp_frac: string)

definition format_time :: "time \<Rightarrow> stamp" where
  "format_time t = Stamp (t div second) (frac_text (nat (t mod second)))"

definition parse_time :: "stamp \<Rightarrow> time" where
  "parse_time s = stamp_sec s * second + int (frac_parse (stamp_frac s))"

text \<open>
  The full text, \<open>t.UTC().Format(time.RFC3339Nano)\<close>: the proleptic Gregorian date of the day, counted
  in 400-year eras that start on 1 March, the time of day, and the fraction.
\<close>

definition pad_digits :: "nat \<Rightarrow> nat \<Rightarrow> string" where
  "pad_digits w n = (let s = FormatUint n in replicate (w - length s) (digit_char 0) @ s)"

definition civil :: "int \<Rightarrow> int \<times> int \<times> int" where
  "civil days =
     (let z = days + 719468; era = z div 146097; doe = z mod 146097;
          yoe = (doe - doe div 1460 + doe div 36524 - doe div 146096) div 365;
          doy = doe - (365 * yoe + yoe div 4 - yoe div 100);
          mp = (5 * doy + 2) div 153;
          d = doy - (153 * mp + 2) div 5 + 1;
          m = (if mp < 10 then mp + 3 else mp - 9)
      in (yoe + era * 400 + (if m \<le> 2 then 1 else 0), m, d))"

definition RFC3339Nano :: "time \<Rightarrow> string" where
  "RFC3339Nano t =
     (let s = t div second; (y, m, d) = civil (s div 86400); sod = s mod 86400
      in (if y < 0 then CHR ''-'' # pad_digits 4 (nat (- y)) else pad_digits 4 (nat y))
         @ ''-'' @ pad_digits 2 (nat m) @ ''-'' @ pad_digits 2 (nat d) @ ''T''
         @ pad_digits 2 (nat (sod div 3600)) @ '':'' @ pad_digits 2 (nat (sod div 60 mod 60)) @ '':''
         @ pad_digits 2 (nat (sod mod 60)) @ frac_text (nat (t mod second)))"

text \<open>Byte order of strings, as in the \<open>BINARY\<close> collation.\<close>

fun bytes_less :: "string \<Rightarrow> string \<Rightarrow> bool" where
  "bytes_less [] ys = (ys \<noteq> [])"
| "bytes_less (x # xs) [] = False"
| "bytes_less (x # xs) (y # ys) =
     ((of_char x :: nat) < of_char y \<or> (x = y \<and> bytes_less xs ys))"

definition stamp_less :: "stamp \<Rightarrow> stamp \<Rightarrow> bool" where
  "stamp_less a b \<longleftrightarrow> stamp_sec a < stamp_sec b \<or> (stamp_sec a = stamp_sec b \<and> bytes_less (stamp_frac a) (stamp_frac b))"

definition stamp_le :: "stamp \<Rightarrow> stamp \<Rightarrow> bool" where
  "stamp_le a b \<longleftrightarrow> a = b \<or> stamp_less a b"

section \<open>Round trip\<close>

lemma length_frac_digits [simp]: "length (frac_digits k n) = k"
  by (induction k) auto

lemma frac_value_frac_digits: "frac_value k (frac_digits k n) = n mod 10 ^ k"
proof (induction k)
  case (Suc k)
  have "n mod 10 ^ Suc k = n div 10 ^ k mod 10 * 10 ^ k + n mod 10 ^ k"
    by (metis add.commute mod_mult2_eq mult.commute power_Suc)
  with Suc show ?case by simp
qed simp

lemma frac_value_zeros: "\<forall>c\<in>set cs. c = digit_char 0 \<Longrightarrow> frac_value k cs = 0"
  by (induction cs arbitrary: k) auto

lemma frac_value_append_zeros:
  "\<forall>c\<in>set zs. c = digit_char 0 \<Longrightarrow> frac_value k (cs @ zs) = frac_value k cs"
  by (induction cs arbitrary: k) (auto simp: frac_value_zeros)

lemma strip_zeros_append: "\<exists>zs. (\<forall>c\<in>set zs. c = digit_char 0) \<and> ds = strip_zeros ds @ zs"
proof -
  let ?P = "\<lambda>c. c = digit_char 0"
  have "ds = rev (dropWhile ?P (rev ds)) @ rev (takeWhile ?P (rev ds))"
    by (metis rev_append rev_rev_ident takeWhile_dropWhile_id)
  moreover have "\<forall>c\<in>set (rev (takeWhile ?P (rev ds))). c = digit_char 0"
    by (metis (mono_tags, lifting) set_rev set_takeWhileD)
  ultimately show ?thesis unfolding strip_zeros_def by blast
qed

lemma frac_value_strip_zeros: "frac_value k (strip_zeros ds) = frac_value k ds"
  using strip_zeros_append [of ds] frac_value_append_zeros by metis

lemma frac_parse_frac_text: "n < 1000000000 \<Longrightarrow> frac_parse (frac_text n) = n"
proof (cases "n = 0")
  case False
  assume n: "n < 1000000000"
  from False have "frac_parse (frac_text n) = frac_value 9 (strip_zeros (frac_digits 9 n))"
    by (simp add: frac_parse_def frac_text_def butlast_append)
  also have "\<dots> = n mod 10 ^ 9"
    by (simp only: frac_value_strip_zeros frac_value_frac_digits)
  finally show ?thesis using n by simp
qed (simp add: frac_parse_def frac_text_def)

lemma parse_format_time [simp]: "parse_time (format_time t) = t"
proof -
  have "nat (t mod second) < 1000000000" by simp
  then show ?thesis
    by (simp add: parse_time_def format_time_def frac_parse_frac_text)
qed

lemma format_time_inject [simp]: "format_time t = format_time u \<longleftrightarrow> t = u"
  by (metis parse_format_time)

text \<open>The text of an instant has no line break.\<close>

text \<open>Every byte of a time stamp is printable.\<close>

lemma digit_char_printable: "32 \<le> (of_char (digit_char (n mod 10)) :: nat)"
  by simp

lemma FormatUint_printable: "c \<in> set (FormatUint n) \<Longrightarrow> 32 \<le> (of_char c :: nat)"
  using FormatUint_digits [of n] by (auto simp: list_all_iff is_digit_def)

lemma pad_digits_printable: "c \<in> set (pad_digits w n) \<Longrightarrow> 32 \<le> (of_char c :: nat)"
  using digit_char_printable [of 0] FormatUint_printable [of c n] by (auto simp: pad_digits_def Let_def)

lemma frac_digits_printable: "c \<in> set (frac_digits k n) \<Longrightarrow> 32 \<le> (of_char c :: nat)"
  by (induction k) auto

lemma strip_zeros_subset: "set (strip_zeros ds) \<subseteq> set ds"
  by (auto simp: strip_zeros_def dest: set_dropWhileD)

lemma frac_text_printable: "c \<in> set (frac_text n) \<Longrightarrow> 32 \<le> (of_char c :: nat)"
  using strip_zeros_subset [of "frac_digits 9 n"] frac_digits_printable [of c 9 n]
  by (cases "n = 0") (auto simp: frac_text_def)

lemma RFC3339Nano_printable: "c \<in> set (RFC3339Nano t) \<Longrightarrow> 32 \<le> (of_char c :: nat)"
  by (auto simp: RFC3339Nano_def Let_def split_beta dest: pad_digits_printable frac_text_printable split: if_splits)

lemma RFC3339Nano_no_break: "CHR 0x0A \<notin> set (RFC3339Nano t)"
  using RFC3339Nano_printable [of "CHR 0x0A"] by auto

section \<open>Text order and time order\<close>

lemma bytes_less_irrefl [simp]: "\<not> bytes_less s s"
  by (induction s) auto

lemma stamp_less_irrefl [simp]: "\<not> stamp_less a a"
  by (simp add: stamp_less_def)

text \<open>Text order never errs by a second or more.\<close>

lemma stamp_less_imp: "stamp_less (format_time t) (format_time u) \<Longrightarrow> t < u + second"
proof -
  assume "stamp_less (format_time t) (format_time u)"
  then have "t div second \<le> u div second"
    by (auto simp: stamp_less_def format_time_def)
  moreover have "t < (t div second + 1) * second" and "u div second * second \<le> u"
    by presburger+
  ultimately show ?thesis by (simp add: algebra_simps)
qed

lemma stamp_less_if: "t + second \<le> u \<Longrightarrow> stamp_less (format_time t) (format_time u)"
proof -
  assume "t + second \<le> u"
  then have "(t + second) div second \<le> u div second" by (rule zdiv_mono1) simp
  moreover have "(t + second) div second = t div second + 1" by simp
  ultimately show ?thesis by (simp add: stamp_less_def format_time_def)
qed

lemma stamp_less_whole_seconds:
  "stamp_less (format_time (second * a)) (format_time (second * b)) \<longleftrightarrow> a < b"
  by (auto simp: stamp_less_def format_time_def)

text \<open>Within one second it can err: the text of a later instant can be the smaller one.\<close>

lemma frac_digits_9:
  "frac_digits 9 n =
     map (\<lambda>k. digit_char (n div 10 ^ k mod 10)) [8, 7, 6, 5, 4, 3, 2, 1, 0]"
proof -
  have "(9::nat) = Suc (Suc (Suc (Suc (Suc (Suc (Suc (Suc (Suc 0))))))))" by simp
  then show ?thesis by (simp only: frac_digits.simps) simp
qed

lemma stamp_order_inverted:
  "stamp_less (format_time (150 * millisecond)) (format_time (100 * millisecond))"
  by (simp add: stamp_less_def format_time_def frac_text_def strip_zeros_def frac_digits_9 digit_char_def)

end
