(* ===== verification/Json.thy ===== *)
theory Json
  imports GoTime
begin

text \<open>
  Go's \<open>encoding/json\<close> on the dynamically typed values the backend exchanges
  (\<open>map[string]any\<close>).  A Go map is an association list with distinct keys, in some iteration
  order.  Numbers are integers (\<open>int\<close> on the API side and integral \<open>float64\<close> values below
  \<open>1e21\<close> on the agent side print the same digits); \<open>JUnencodable\<close> stands for a Go value that
  \<open>json.Marshal\<close> refuses (a channel, a function, a NaN).  \<open>Marshal\<close> is the compact
  encoding with sorted keys, HTML escaping and replacement of invalid UTF-8, as Go 1.22 and later
  print it.
\<close>

datatype json =
    JNull | JBool bool | JNum int | JStr string | JArr "json list" | JObj "(string \<times> json) list"
  | JUnencodable

type_synonym object = "(string \<times> json) list"

text \<open>\<open>m[k] = v\<close> on an association list: replace in place, or add a new entry.\<close>

fun map_set :: "'k \<Rightarrow> 'v \<Rightarrow> ('k \<times> 'v) list \<Rightarrow> ('k \<times> 'v) list" where
  "map_set k v [] = [(k, v)]"
| "map_set k v ((k', v') # m) = (if k' = k then (k, v) # m else (k', v') # map_set k v m)"

text \<open>\<open>m[k]\<close> where a missing key reads as the nil slice.\<close>

definition map_get :: "'k \<Rightarrow> ('k \<times> 'v list) list \<Rightarrow> 'v list" where
  "map_get k m = (case map_of m k of None \<Rightarrow> [] | Some v \<Rightarrow> v)"

lemma map_of_map_set [simp]: "map_of (map_set k v m) = (map_of m)(k \<mapsto> v)"
  by (induction m) (auto simp: fun_eq_iff)

section \<open>UTF-8\<close>

definition in_bytes :: "nat \<Rightarrow> nat \<Rightarrow> char \<Rightarrow> bool" where
  "in_bytes lo hi c \<longleftrightarrow> lo \<le> (of_char c :: nat) \<and> (of_char c :: nat) \<le> hi"

abbreviation continuation :: "char \<Rightarrow> bool" where
  "continuation \<equiv> in_bytes 0x80 0xBF"

text \<open>\<open>utf8.DecodeRune\<close>: the length of the rune in front, 0 for an invalid encoding.\<close>

definition rune_len :: "string \<Rightarrow> nat" where
  "rune_len s =
     (case s of
        [] \<Rightarrow> 0
      | a # s1 \<Rightarrow>
          if in_bytes 0 0x7F a then 1
          else (case s1 of
             [] \<Rightarrow> 0
           | b # s2 \<Rightarrow>
               if in_bytes 0xC2 0xDF a then (if continuation b then 2 else 0)
               else (case s2 of
                  [] \<Rightarrow> 0
                | c # s3 \<Rightarrow>
                    if in_bytes 0xE0 0xEF a
                    then (if in_bytes (if a = CHR 0xE0 then 0xA0 else 0x80) (if a = CHR 0xED then 0x9F else 0xBF) b
                             \<and> continuation c then 3 else 0)
                    else (case s3 of
                       [] \<Rightarrow> 0
                     | d # _ \<Rightarrow>
                         if in_bytes 0xF0 0xF4 a
                            \<and> in_bytes (if a = CHR 0xF0 then 0x90 else 0x80) (if a = CHR 0xF4 then 0x8F else 0xBF) b
                            \<and> continuation c \<and> continuation d
                         then 4 else 0))))"

definition hex_char :: "nat \<Rightarrow> char" where
  "hex_char n = ''0123456789abcdef'' ! n"

definition escape_ascii :: "char \<Rightarrow> string" where
  "escape_ascii c =
     (let n = of_char c :: nat
      in if c = CHR 0x5C \<or> c = CHR 0x22 then [CHR 0x5C, c]
         else if n = 8 then CHR 0x5C # ''b'' else if n = 12 then CHR 0x5C # ''f''
         else if n = 10 then CHR 0x5C # ''n'' else if n = 13 then CHR 0x5C # ''r'' else if n = 9 then CHR 0x5C # ''t''
         else if n < 32 \<or> c \<in> {CHR ''<'', CHR ''>'', CHR ''&''}
           then CHR 0x5C # ''u00'' @ [hex_char (n div 16), hex_char (n mod 16)]
         else [c])"

function escape :: "string \<Rightarrow> string" where
  "escape s =
     (if s = [] then []
      else let n = rune_len s; r = take n s
        in if n = 0 then (CHR 0x5C # ''ufffd'') @ escape (drop 1 s)
           else (if n = 1 then escape_ascii (hd s)
                 else if r = [CHR 0xE2, CHR 0x80, CHR 0xA8] then CHR 0x5C # ''u2028''
                 else if r = [CHR 0xE2, CHR 0x80, CHR 0xA9] then CHR 0x5C # ''u2029''
                 else r) @ escape (drop n s))"
  by pat_completeness auto
termination
  by (relation "measure length") auto

declare escape.simps [simp del]

text \<open>The string that decoding the encoded string yields: invalid bytes become U+FFFD.\<close>

function valid_utf8 :: "string \<Rightarrow> string" where
  "valid_utf8 s =
     (if s = [] then []
      else let n = rune_len s
        in if n = 0 then [CHR 0xEF, CHR 0xBF, CHR 0xBD] @ valid_utf8 (drop 1 s)
           else take n s @ valid_utf8 (drop n s))"
  by pat_completeness auto
termination
  by (relation "measure length") auto

declare valid_utf8.simps [simp del]

section \<open>Encoding\<close>

definition quote :: "string \<Rightarrow> string" where
  "quote s = [CHR 0x22] @ escape s @ [CHR 0x22]"

definition FormatInt :: "int \<Rightarrow> string" where
  "FormatInt n = (if n < 0 then CHR ''-'' # FormatUint (nat (- n)) else FormatUint (nat n))"

fun insert_key :: "string \<times> 'a \<Rightarrow> (string \<times> 'a) list \<Rightarrow> (string \<times> 'a) list" where
  "insert_key p [] = [p]"
| "insert_key p (q # qs) = (if bytes_less (fst q) (fst p) then q # insert_key p qs else p # q # qs)"

definition sort_keys :: "(string \<times> 'a) list \<Rightarrow> (string \<times> 'a) list" where
  "sort_keys ps = foldr insert_key ps []"

primrec marshal :: "json \<Rightarrow> string" where
  "marshal JNull = ''null''"
| "marshal (JBool b) = (if b then ''true'' else ''false'')"
| "marshal (JNum n) = FormatInt n"
| "marshal (JStr s) = quote s"
| "marshal (JArr vs) = ''['' @ Join (map marshal vs) '','' @ '']''"
| "marshal (JObj m) =
     ''{'' @ Join (map (\<lambda>(k, v). quote k @ '':'' @ v) (sort_keys (map (map_prod id marshal) m))) '','' @ ''}''"
| "marshal JUnencodable = []"

primrec encodable :: "json \<Rightarrow> bool" where
  "encodable JNull = True"
| "encodable (JBool b) = True"
| "encodable (JNum n) = True"
| "encodable (JStr s) = True"
| "encodable (JArr vs) = list_all id (map encodable vs)"
| "encodable (JObj m) = list_all snd (map (map_prod id encodable) m)"
| "encodable JUnencodable = False"

definition Marshal :: "object \<Rightarrow> string option" where
  "Marshal m = (if encodable (JObj m) then Some (marshal (JObj m)) else None)"

text \<open>A value after \<open>json.Marshal\<close> and \<open>json.Unmarshal\<close>.\<close>

primrec decoded :: "json \<Rightarrow> json" where
  "decoded JNull = JNull"
| "decoded (JBool b) = JBool b"
| "decoded (JNum n) = JNum n"
| "decoded (JStr s) = JStr (valid_utf8 s)"
| "decoded (JArr vs) = JArr (map decoded vs)"
| "decoded (JObj m) =
     JObj (foldl (\<lambda>acc (k, v). map_set (valid_utf8 k) v acc) [] (sort_keys (map (map_prod id decoded) m)))"
| "decoded JUnencodable = JNull"

definition transport :: "object \<Rightarrow> object option" where
  "transport m = (if encodable (JObj m) then (case decoded (JObj m) of JObj m' \<Rightarrow> Some m' | _ \<Rightarrow> None) else None)"

section \<open>Lemmas\<close>

lemma transport_encodable: "transport m \<noteq> None \<longleftrightarrow> encodable (JObj m)"
  by (simp add: transport_def)

lemma escape_ascii_no_control: "c \<in> set (escape_ascii a) \<Longrightarrow> in_bytes 0 0x7F a \<Longrightarrow> 32 \<le> (of_char c :: nat)"
proof -
  have hex: "32 \<le> (of_char (hex_char n) :: nat)" if "n < 16" for n
  proof -
    have "\<forall>m\<in>{0..<16::nat}. 32 \<le> (of_char (hex_char m) :: nat)" by code_simp
    then show ?thesis using that by auto
  qed
  assume "c \<in> set (escape_ascii a)" and "in_bytes 0 0x7F a"
  then show ?thesis
    by (auto simp: escape_ascii_def Let_def in_bytes_def hex split: if_splits)
qed

lemma escape_Nil [simp]: "escape [] = []"
  by (simp add: escape.simps)

lemma escape_plain:
  assumes "is_alnum c \<or> c = CHR ''-'' \<or> c = CHR '':''"
  shows "escape (c # s) = c # escape s"
proof -
  have n: "32 \<le> (of_char c :: nat)" "(of_char c :: nat) \<le> 0x7F" using assms by (auto simp: go_simps)
  then have "rune_len (c # s) = 1" by (simp add: rune_len_def in_bytes_def)
  moreover have "c \<noteq> CHR 0x5C \<and> c \<noteq> CHR 0x22 \<and> c \<noteq> CHR ''<'' \<and> c \<noteq> CHR ''>'' \<and> c \<noteq> CHR ''&''"
    using assms by (auto simp: go_simps)
  then have "escape_ascii c = [c]" using n by (simp add: escape_ascii_def Let_def)
  ultimately show ?thesis by (subst escape.simps) simp
qed

end
