(* ===== verification/Protocol.thy ===== *)
theory Protocol
  imports Paths Json
begin

text \<open>
  The closed operation catalog of the privileged agent and its payload schemas:
  \<open>src/backend/internal/agent/protocol.go\<close>.  A loop over a Go map visits the order of the
  association list.  The catalog is built by the same intermediate specifications as in the source,
  so that its entries can be evaluated.
\<close>

section \<open>Values\<close>

record Request =
  rq_Operation :: string
  rq_OperationVersion :: int
  rq_RequestID :: string
  rq_Timestamp :: int
  rq_Nonce :: string
  rq_KeyID :: string
  rq_Payload :: object
  rq_Signature :: string

record Response =
  rs_RequestID :: string
  rs_Success :: bool
  rs_ExitCode :: int
  rs_Summary :: string
  rs_Stdout :: string
  rs_Stderr :: string
  rs_Data :: object
  rs_ErrorCode :: string

definition zero_Response :: Response where
  "zero_Response = \<lparr>rs_RequestID = [], rs_Success = False, rs_ExitCode = 0, rs_Summary = [], rs_Stdout = [],
     rs_Stderr = [], rs_Data = [], rs_ErrorCode = []\<rparr>"

abbreviation "RiskRead \<equiv> ''read''"
abbreviation "RiskLow \<equiv> ''low''"
abbreviation "RiskMedium \<equiv> ''medium''"
abbreviation "RiskHigh \<equiv> ''high''"
abbreviation "RiskDestructive \<equiv> ''destructive''"
abbreviation "RiskEmergency \<equiv> ''emergency''"
abbreviation "AccessReadOnly \<equiv> ''read-only''"
abbreviation "AccessMutating \<equiv> ''mutating''"
abbreviation "RollbackNone \<equiv> ''none''"
abbreviation "RollbackManual \<equiv> ''manual''"
abbreviation "RollbackRequired \<equiv> ''required''"
abbreviation "AuditMinimal \<equiv> ''minimal''"
abbreviation "AuditSecurity \<equiv> ''security''"
abbreviation "AuditFull \<equiv> ''full''"
abbreviation "FieldString \<equiv> ''string''"
abbreviation "FieldBool \<equiv> ''boolean''"
abbreviation "FieldNumber \<equiv> ''number''"
abbreviation "FieldObject \<equiv> ''object''"
abbreviation "FieldArray \<equiv> ''array''"

record FieldRule =
  fr_Type :: string
  fr_Required :: bool
  fr_Enum :: "string list"
  fr_MaxLength :: int
  fr_Sensitive :: bool

text \<open>A composite literal that gives the type only; the other fields are zero values.\<close>

definition rule_of :: "string \<Rightarrow> FieldRule" where
  "rule_of ty = \<lparr>fr_Type = ty, fr_Required = False, fr_Enum = [], fr_MaxLength = 0, fr_Sensitive = False\<rparr>"

record PayloadSchema =
  ps_Fields :: "(string \<times> FieldRule) list"
  ps_AdditionalProperties :: bool

definition schema :: "(string \<times> FieldRule) list \<Rightarrow> PayloadSchema" where
  "schema fs = \<lparr>ps_Fields = fs, ps_AdditionalProperties = False\<rparr>"

record OperationSpec =
  os_Name :: string
  os_Operation :: string
  os_Version :: int
  os_Payload :: PayloadSchema
  os_Risk :: string
  os_Access :: string
  os_TimeoutSeconds :: int
  os_LockRequired :: bool
  os_LockResource :: string
  os_Executables :: "string list"
  os_AllowedArguments :: "(string \<times> string list) list"
  os_AllowedPaths :: "string list"
  os_BackupRequired :: bool
  os_ApprovalRequired :: bool
  os_RequiredCapability :: string
  os_Rollback :: string
  os_SensitiveFields :: "string list"
  os_Audit :: string

section \<open>Building the catalog\<close>

fun contains :: "string list \<Rightarrow> string \<Rightarrow> bool" where
  "contains [] want = False"
| "contains (v # vs) want = (if v = want then True else contains vs want)"

definition readOperation :: "string \<Rightarrow> string \<Rightarrow> int \<Rightarrow> string \<Rightarrow> string list \<Rightarrow> OperationSpec" where
  "readOperation name capability timeout executable arguments =
     (let allowed = (if executable \<noteq> [] then map_set executable arguments [] else [])
      in \<lparr>os_Name = name, os_Operation = name, os_Version = 1, os_Payload = schema [],
          os_Risk = RiskRead, os_Access = AccessReadOnly, os_TimeoutSeconds = timeout,
          os_LockRequired = False, os_LockResource = [],
          os_Executables = [executable], os_AllowedArguments = allowed, os_AllowedPaths = [],
          os_BackupRequired = False, os_ApprovalRequired = False,
          os_RequiredCapability = capability, os_Rollback = RollbackNone,
          os_SensitiveFields = [], os_Audit = AuditMinimal\<rparr>)"

record catalogCommand =
  cc_path :: string
  cc_args :: "string list"

definition cmd :: "string \<Rightarrow> string list \<Rightarrow> catalogCommand" where
  "cmd p as = \<lparr>cc_path = p, cc_args = as\<rparr>"

definition add_argument :: "string \<Rightarrow> OperationSpec \<Rightarrow> string \<Rightarrow> OperationSpec" where
  "add_argument path spec argument =
     (if \<not> contains (map_get path (os_AllowedArguments spec)) argument
      then spec\<lparr>os_AllowedArguments :=
             map_set path (map_get path (os_AllowedArguments spec) @ [argument]) (os_AllowedArguments spec)\<rparr>
      else spec)"

definition add_command :: "OperationSpec \<Rightarrow> catalogCommand \<Rightarrow> OperationSpec" where
  "add_command spec command =
     (let spec1 = (if \<not> contains (os_Executables spec) (cc_path command)
                   then spec\<lparr>os_Executables := os_Executables spec @ [cc_path command]\<rparr> else spec)
      in foldl (add_argument (cc_path command)) spec1 (cc_args command))"

definition readInventoryOperation :: "string \<Rightarrow> string \<Rightarrow> int \<Rightarrow> int \<Rightarrow> catalogCommand list \<Rightarrow> OperationSpec" where
  "readInventoryOperation name capability timeout version commands =
     foldl add_command
       ((readOperation name capability timeout [] [])
          \<lparr>os_Version := version, os_Executables := [], os_AllowedArguments := []\<rparr>)
       commands"

definition mutatingOperation :: "string \<Rightarrow> string \<Rightarrow> string \<Rightarrow> int \<Rightarrow> OperationSpec" where
  "mutatingOperation name capability risk timeout =
     \<lparr>os_Name = name, os_Operation = name, os_Version = 1, os_Payload = schema [],
      os_Risk = risk, os_Access = AccessMutating, os_TimeoutSeconds = timeout,
      os_LockRequired = True, os_LockResource = ''operation'',
      os_Executables = [], os_AllowedArguments = [], os_AllowedPaths = [],
      os_BackupRequired = True, os_ApprovalRequired = True,
      os_RequiredCapability = capability, os_Rollback = RollbackRequired,
      os_SensitiveFields = [], os_Audit = AuditFull\<rparr>"

definition filesystemCommands :: "catalogCommand list" where
  "filesystemCommands =
     [cmd ''/sbin/mount'' [''-p''], cmd ''/bin/df'' [''-k''], cmd ''/bin/cat'' [''/etc/fstab'']]"

definition sambaCommands :: "catalogCommand list" where
  "sambaCommands =
     [cmd ''/usr/local/sbin/smbd'' [''-V''],
      cmd ''/usr/local/sbin/pkg'' [''query'', ''%n-%v'', ''samba423'', ''info''],
      cmd ''/usr/local/bin/testparm'' [''-s''],
      cmd ''/usr/local/bin/smbstatus'' [''--shares'', ''--locks'']]"

definition domainCommands :: "catalogCommand list" where
  "domainCommands =
     [cmd ''/usr/local/bin/testparm'' [''-s''], cmd ''/bin/cat'' [''/etc/resolv.conf''],
      cmd ''/usr/local/bin/wbinfo'' [''--ping-dc'']]"

definition cupsCommands :: "catalogCommand list" where
  "cupsCommands =
     [cmd ''/usr/local/sbin/pkg'' [''query'', ''%n-%v'', ''cups''], cmd ''/usr/local/sbin/cupsd'' [''-t''],
      cmd ''/usr/local/bin/lpstat'' [''-p'', ''-v'']]"

definition systemCommands :: "catalogCommand list" where
  "systemCommands =
     [cmd ''/bin/hostname'' [''-f''],
      cmd ''/sbin/sysctl'' [''-n'', ''kern.osrelease'', ''hw.machine'', ''hw.ncpu'', ''hw.physmem'', ''vm.loadavg''],
      cmd ''/sbin/ifconfig'' [''-l''],
      cmd ''/usr/bin/uptime'' [],
      cmd ''/usr/bin/ntpq'' [''-pn''],
      cmd ''/bin/date'' [''+%Z'']]
     @ filesystemCommands @ sambaCommands @ domainCommands @ cupsCommands"

definition capabilityCommands :: "catalogCommand list" where
  "capabilityCommands =
     sambaCommands @ domainCommands
     @ [cmd ''/bin/cat'' [''/etc/fstab''], cmd ''/usr/local/sbin/cupsd'' [''-t'']]"

definition systemInspect :: OperationSpec where
  "systemInspect =
     (readInventoryOperation ''system.inspect'' ''system.inspect'' 30 2 systemCommands)
       \<lparr>os_Payload := schema [(''dryRun'', rule_of FieldBool)]\<rparr>"

definition capabilitiesInspect :: OperationSpec where
  "capabilitiesInspect =
     readInventoryOperation ''capabilities.inspect'' ''capabilities.inspect'' 30 1 capabilityCommands"

definition filesystemInspect :: OperationSpec where
  "filesystemInspect =
     readInventoryOperation ''filesystem.inspect'' ''filesystem.inspect'' 20 2 filesystemCommands"

definition sambaInspect :: OperationSpec where
  "sambaInspect = readInventoryOperation ''samba.inspect'' ''samba.inspect'' 30 2 sambaCommands"

definition sambaValidate :: OperationSpec where
  "sambaValidate = readOperation ''samba.config.validate'' ''samba.testparm'' 30 ''/usr/local/bin/testparm'' [''-s'']"

definition domainDiagnose :: OperationSpec where
  "domainDiagnose =
     readInventoryOperation ''domain.member.diagnose'' ''domain.member.diagnose'' 30 2 domainCommands"

definition cupsInspect :: OperationSpec where
  "cupsInspect = readInventoryOperation ''cups.inspect'' ''cups.inspect'' 30 2 cupsCommands"

definition quotaRead :: OperationSpec where
  "quotaRead = readOperation ''quota.read'' ''quota.ufs.read'' 30 ''/usr/bin/quota'' [''-v'']"

definition service_ids :: "string list" where
  "service_ids = [''svc-smbd'', ''svc-winbindd'', ''svc-cupsd'']"

definition serviceStatus :: OperationSpec where
  "serviceStatus =
     (readOperation ''service.status'' ''service.status'' 15 ''/usr/sbin/service'' [])
       \<lparr>os_Payload := schema
          [(''serviceId'', (rule_of FieldString)\<lparr>fr_Required := True, fr_Enum := service_ids, fr_MaxLength := 32\<rparr>),
           (''action'', (rule_of FieldString)\<lparr>fr_Required := True, fr_Enum := [''health-check''], fr_MaxLength := 32\<rparr>)],
        os_AllowedArguments := [(''/usr/sbin/service'', [''samba_server'', ''winbindd'', ''cupsd'', ''status''])]\<rparr>"

definition aclRead :: OperationSpec where
  "aclRead =
     (readOperation ''acl.read'' ''acl.nfsv4.read'' 30 ''/bin/getfacl'' [])
       \<lparr>os_Payload := schema [(''path'', (rule_of FieldString)\<lparr>fr_Required := True, fr_MaxLength := 1024\<rparr>)],
        os_AllowedPaths := [''/srv/dados'', ''/var/lib/samba/printers'']\<rparr>"

definition shareCreate :: OperationSpec where
  "shareCreate =
     (mutatingOperation ''share.create'' ''share.write'' RiskMedium 90)
       \<lparr>os_Payload := schema [(''share'', (rule_of FieldObject)\<lparr>fr_Required := True\<rparr>), (''dryRun'', rule_of FieldBool)]\<rparr>"

definition configApply :: OperationSpec where
  "configApply =
     (mutatingOperation ''samba.config.apply'' ''samba.config.write'' RiskHigh 60)
       \<lparr>os_Payload := schema
          [(''path'', (rule_of FieldString)\<lparr>fr_Required := True, fr_MaxLength := 1024\<rparr>),
           (''content'', (rule_of FieldString)\<lparr>fr_Required := True, fr_MaxLength := 1048576, fr_Sensitive := True\<rparr>)],
        os_AllowedPaths := [''/usr/local/etc/smb4.conf'']\<rparr>"

definition servicePayload :: PayloadSchema where
  "servicePayload = schema
     [(''serviceId'', (rule_of FieldString)\<lparr>fr_Required := True, fr_Enum := service_ids, fr_MaxLength := 32\<rparr>),
      (''action'', (rule_of FieldString)
         \<lparr>fr_Required := True, fr_Enum := [''start'', ''stop'', ''restart'', ''reload'', ''health-check''],
          fr_MaxLength := 32\<rparr>)]"

definition backupCreate :: OperationSpec where
  "backupCreate =
     (mutatingOperation ''backup.create'' ''backup.create'' RiskLow 120)
       \<lparr>os_Access := AccessMutating, os_BackupRequired := False, os_Rollback := RollbackNone\<rparr>"

definition rollbackExecute :: OperationSpec where
  "rollbackExecute =
     (mutatingOperation ''rollback.execute'' ''rollback.execute'' RiskHigh 300)
       \<lparr>os_Payload := schema
          [(''sourceJobId'', (rule_of FieldString)\<lparr>fr_MaxLength := 128\<rparr>),
           (''backupId'', (rule_of FieldString)\<lparr>fr_MaxLength := 128\<rparr>),
           (''reason'', (rule_of FieldString)\<lparr>fr_MaxLength := 1024\<rparr>)]\<rparr>"

definition Catalog :: "(string \<times> OperationSpec) list" where
  "Catalog =
     [(''system.inspect'', systemInspect),
      (''capabilities.inspect'', capabilitiesInspect),
      (''filesystem.inspect'', filesystemInspect),
      (''samba.inspect'', sambaInspect),
      (''samba.config.validate'', sambaValidate),
      (''domain.member.diagnose'', domainDiagnose),
      (''cups.inspect'', cupsInspect),
      (''quota.read'', quotaRead),
      (''service.status'', serviceStatus),
      (''acl.read'', aclRead),
      (''share.create'', shareCreate),
      (''share.update'', mutatingOperation ''share.update'' ''share.write'' RiskMedium 90),
      (''share.disable'', mutatingOperation ''share.disable'' ''share.write'' RiskHigh 60),
      (''samba.config.apply'', configApply),
      (''samba.service.reload'',
        (mutatingOperation ''samba.service.reload'' ''samba.service.reload'' RiskHigh 30)\<lparr>os_Payload := servicePayload\<rparr>),
      (''samba.service.restart'',
        (mutatingOperation ''samba.service.restart'' ''samba.service.restart'' RiskHigh 60)\<lparr>os_Payload := servicePayload\<rparr>),
      (''service.restart'',
        (mutatingOperation ''service.restart'' ''service.restart'' RiskHigh 60)\<lparr>os_Payload := servicePayload\<rparr>),
      (''service.start'',
        (mutatingOperation ''service.start'' ''service.start'' RiskMedium 60)\<lparr>os_Payload := servicePayload\<rparr>),
      (''service.stop'',
        (mutatingOperation ''service.stop'' ''service.stop'' RiskHigh 60)\<lparr>os_Payload := servicePayload\<rparr>),
      (''service.reload'',
        (mutatingOperation ''service.reload'' ''service.reload'' RiskMedium 60)\<lparr>os_Payload := servicePayload\<rparr>),
      (''acl.apply'', mutatingOperation ''acl.apply'' ''acl.nfsv4.write'' RiskDestructive 300),
      (''quota.apply'', mutatingOperation ''quota.apply'' ''quota.ufs.write'' RiskMedium 60),
      (''logging.test'', mutatingOperation ''logging.test'' ''syslog.tls'' RiskMedium 30),
      (''backup.create'', backupCreate),
      (''rollback.execute'', rollbackExecute)]"

definition LookupOperation :: "string \<Rightarrow> OperationSpec option" where
  "LookupOperation name = map_of Catalog name"

section \<open>Validating the catalog\<close>

definition validRisk :: "string \<Rightarrow> bool" where
  "validRisk v \<longleftrightarrow> v \<in> {RiskRead, RiskLow, RiskMedium, RiskHigh, RiskDestructive, RiskEmergency}"

definition validRollback :: "string \<Rightarrow> bool" where
  "validRollback v \<longleftrightarrow> v \<in> {RollbackNone, RollbackManual, RollbackRequired}"

definition validAudit :: "string \<Rightarrow> bool" where
  "validAudit v \<longleftrightarrow> v \<in> {AuditMinimal, AuditSecurity, AuditFull}"

definition validFieldType :: "string \<Rightarrow> bool" where
  "validFieldType v \<longleftrightarrow> v \<in> {FieldString, FieldBool, FieldNumber, FieldObject, FieldArray}"

datatype catalog_error =
    CatalogEmpty | CatalogName string | CatalogVersionTimeout string | CatalogAccess string | CatalogIncomplete string
  | CatalogExecutable string | CatalogPath string | CatalogArguments string | CatalogArgument string
  | CatalogSchema string | CatalogEnum string

definition validate_arguments :: "string \<Rightarrow> OperationSpec \<Rightarrow> string \<times> string list \<Rightarrow> catalog_error option" where
  "validate_arguments key spec ea =
     (if \<not> contains (os_Executables spec) (fst ea) \<or> \<not> IsAbs (fst ea) then Some (CatalogArguments key)
      else firstErr (\<lambda>a. if a = [] \<or> ContainsAny a control_chars then Some (CatalogArgument key) else None) (snd ea))"

definition validate_field_rule :: "string \<Rightarrow> string \<times> FieldRule \<Rightarrow> catalog_error option" where
  "validate_field_rule key fr =
     (if fst fr = [] \<or> \<not> validFieldType (fr_Type (snd fr)) \<or> fr_MaxLength (snd fr) < 0 then Some (CatalogSchema key)
      else if fr_Enum (snd fr) \<noteq> [] \<and> fr_Type (snd fr) \<noteq> FieldString then Some (CatalogEnum key)
      else None)"

definition validate_entry :: "string \<times> OperationSpec \<Rightarrow> catalog_error option" where
  "validate_entry ks =
     (let key = fst ks; spec = snd ks
      in if key = [] \<or> os_Name spec \<noteq> key \<or> os_Operation spec \<noteq> key then Some (CatalogName key)
         else if os_Version spec < 1 \<or> os_TimeoutSeconds spec < 1 then Some (CatalogVersionTimeout key)
         else if os_Access spec \<noteq> AccessReadOnly \<and> os_Access spec \<noteq> AccessMutating then Some (CatalogAccess key)
         else if \<not> validRisk (os_Risk spec) \<or> \<not> validRollback (os_Rollback spec) \<or> \<not> validAudit (os_Audit spec)
           then Some (CatalogIncomplete key)
         else orElse (firstErr (\<lambda>x. if x = [] \<or> \<not> IsAbs x then Some (CatalogExecutable key) else None) (os_Executables spec))
             (orElse (firstErr (\<lambda>r. if \<not> IsAbs r \<or> Clean r \<noteq> r then Some (CatalogPath key) else None) (os_AllowedPaths spec))
             (orElse (firstErr (validate_arguments key spec) (os_AllowedArguments spec))
                (firstErr (validate_field_rule key) (ps_Fields (os_Payload spec))))))"

definition ValidateCatalog :: "(string \<times> OperationSpec) list \<Rightarrow> catalog_error option" where
  "ValidateCatalog catalog = (if catalog = [] then Some CatalogEmpty else firstErr validate_entry catalog)"

section \<open>Validating a payload\<close>

datatype payload_error =
    MissingField string | NotText string | TooLong string | NotInEnum string | NotBoolean string | NotNumeric string
  | NotObject string | NotArray string | BadSchema string | UnexpectedField string

definition validateField :: "string \<Rightarrow> json \<Rightarrow> FieldRule \<Rightarrow> payload_error option" where
  "validateField field val rule =
     (if fr_Type rule = FieldString then
        (case val of
           JStr text \<Rightarrow>
             if fr_MaxLength rule > 0 \<and> int (length text) > fr_MaxLength rule then Some (TooLong field)
             else if fr_Enum rule \<noteq> [] \<and> \<not> contains (fr_Enum rule) text then Some (NotInEnum field)
             else None
         | _ \<Rightarrow> Some (NotText field))
      else if fr_Type rule = FieldBool then (case val of JBool _ \<Rightarrow> None | _ \<Rightarrow> Some (NotBoolean field))
      else if fr_Type rule = FieldNumber then (case val of JNum _ \<Rightarrow> None | _ \<Rightarrow> Some (NotNumeric field))
      else if fr_Type rule = FieldObject then (case val of JObj _ \<Rightarrow> None | _ \<Rightarrow> Some (NotObject field))
      else if fr_Type rule = FieldArray then (case val of JArr _ \<Rightarrow> None | _ \<Rightarrow> Some (NotArray field))
      else Some (BadSchema field))"

definition validate_one :: "object \<Rightarrow> string \<times> FieldRule \<Rightarrow> payload_error option" where
  "validate_one payload fr =
     (case map_of payload (fst fr) of
        None \<Rightarrow> if fr_Required (snd fr) then Some (MissingField (fst fr)) else None
      | Some JNull \<Rightarrow> None
      | Some v \<Rightarrow> validateField (fst fr) v (snd fr))"

definition Validate :: "PayloadSchema \<Rightarrow> object \<Rightarrow> payload_error option" where
  "Validate s payload =
     orElse (firstErr (validate_one payload) (ps_Fields s))
       (if \<not> ps_AdditionalProperties s
        then firstErr (\<lambda>(field, _). if map_of (ps_Fields s) field = None then Some (UnexpectedField field) else None) payload
        else None)"

text \<open>
  \<open>validateTransportPayload\<close> first sends the payload through \<open>json.Marshal\<close> and
  \<open>json.Unmarshal\<close> (\<open>transport\<close>, \<open>None\<close> for its failure); a nil payload is \<open>None\<close>.
\<close>

datatype transport_error = EncodingFailed | Invalid payload_error

definition validateTransportPayload :: "OperationSpec \<Rightarrow> object option \<Rightarrow> transport_error option" where
  "validateTransportPayload spec payload =
     (case payload of
        None \<Rightarrow> map_option Invalid (Validate (os_Payload spec) [])
      | Some p \<Rightarrow>
          (case transport p of
             None \<Rightarrow> Some EncodingFailed
           | Some normalized \<Rightarrow> map_option Invalid (Validate (os_Payload spec) normalized)))"

definition IsMutation :: "OperationSpec \<Rightarrow> bool" where
  "IsMutation s \<longleftrightarrow> os_Access s = AccessMutating"

definition SensitiveField :: "OperationSpec \<Rightarrow> string \<Rightarrow> bool" where
  "SensitiveField s field =
     (if contains (os_SensitiveFields s) field then True
      else case map_of (ps_Fields (os_Payload s)) field of None \<Rightarrow> False | Some rule \<Rightarrow> fr_Sensitive rule)"

definition AllowsPath :: "OperationSpec \<Rightarrow> string \<Rightarrow> bool" where
  "AllowsPath s path =
     (let clean = Clean path
      in if \<not> IsAbs clean then False else list_ex (\<lambda>root. at_or_below root clean) (os_AllowedPaths s))"

section \<open>Lemmas\<close>

lemma contains_iff [simp]: "contains vs want \<longleftrightarrow> want \<in> set vs"
  by (induction vs) auto

lemma LookupOperation_in_Catalog: "LookupOperation name = Some spec \<Longrightarrow> (name, spec) \<in> set Catalog"
  by (simp add: LookupOperation_def map_of_SomeD)

text \<open>What one rule asks of a payload.\<close>

definition field_ok :: "object \<Rightarrow> string \<Rightarrow> FieldRule \<Rightarrow> bool" where
  "field_ok payload field rule \<longleftrightarrow>
     (case map_of payload field of
        None \<Rightarrow> \<not> fr_Required rule
      | Some v \<Rightarrow> v = JNull \<or> validateField field v rule = None)"

lemma validate_one_None: "validate_one payload (field, rule) = None \<longleftrightarrow> field_ok payload field rule"
  by (auto simp: validate_one_def field_ok_def split: option.splits json.splits)

lemma Validate_None_iff:
  "Validate s payload = None \<longleftrightarrow>
     (\<forall>(field, rule)\<in>set (ps_Fields s). field_ok payload field rule) \<and>
     (ps_AdditionalProperties s \<or> fst ` set payload \<subseteq> fst ` set (ps_Fields s))"
proof -
  have "firstErr (validate_one payload) (ps_Fields s) = None \<longleftrightarrow>
      (\<forall>(field, rule)\<in>set (ps_Fields s). field_ok payload field rule)"
    by (simp add: split_beta validate_one_None [symmetric])
  moreover have "firstErr (\<lambda>(field, _). if map_of (ps_Fields s) field = None then Some (UnexpectedField field) else None)
      payload = None \<longleftrightarrow> fst ` set payload \<subseteq> fst ` set (ps_Fields s)"
    by (auto simp: map_of_eq_None_iff split_beta split: if_splits)
  ultimately show ?thesis by (simp add: Validate_def)
qed

text \<open>
  The catalog passes its own start-up validation, so a server is never refused because of it (names agree
  with keys, versions and time-outs are positive, executables are absolute paths, every allow-listed argument belongs to a
  listed executable), and it keeps its policy: a mutating entry names no executable at all, takes a lock, asks for
  approval and full auditing; a read-only entry has risk \<open>read\<close>, takes no lock, changes no
  path and is audited minimally.
\<close>

theorem Catalog_policy:
  "ValidateCatalog Catalog = None \<and>
   list_all (\<lambda>(name, spec).
      if IsMutation spec
      then os_Executables spec = [] \<and> os_AllowedArguments spec = [] \<and> os_LockRequired spec \<and> os_ApprovalRequired spec
        \<and> os_Audit spec = AuditFull \<and> os_Risk spec \<noteq> RiskRead
      else os_Risk spec = RiskRead \<and> os_Executables spec \<noteq> [] \<and> \<not> os_LockRequired spec \<and> \<not> os_ApprovalRequired spec
        \<and> \<not> os_BackupRequired spec \<and> os_Rollback spec = RollbackNone) Catalog"
  by code_simp

lemmas Catalog_valid = Catalog_policy [THEN conjunct1]

text \<open>
  \<open>PayloadSchema.Validate\<close> accepts a payload exactly when every declared field that is
  required is present, every declared field that is present holds \<open>null\<close> or a value its rule
  accepts, and, unless additional properties are allowed, no other field occurs.
\<close>

theorem Validate_accepts_iff:
  "Validate s payload = None \<longleftrightarrow>
     (\<forall>(field, rule)\<in>set (ps_Fields s).
        (case map_of payload field of
           None \<Rightarrow> \<not> fr_Required rule
         | Some v \<Rightarrow> v = JNull \<or> validateField field v rule = None)) \<and>
     (ps_AdditionalProperties s \<or> fst ` set payload \<subseteq> fst ` set (ps_Fields s))"
  unfolding Validate_None_iff field_ok_def ..

theorem Validate_accepts_iff_witness:
  "Validate (os_Payload serviceStatus) [(''serviceId'', JStr ''svc-smbd''), (''action'', JStr ''health-check'')] = None
   \<and> Validate (os_Payload serviceStatus) [(''serviceId'', JStr ''svc-smbd''), (''action'', JStr ''stop'')] \<noteq> None"
  unfolding Validate_accepts_iff
  by (simp add: serviceStatus_def schema_def rule_of_def service_ids_def validateField_def)

text \<open>
  The keyword \<open>Required\<close> of a field rule does not exclude \<open>null\<close>: the schema of
  \<open>service.status\<close>, whose two fields are required and restricted to enumerations, accepts a
  payload in which both are \<open>null\<close>.
\<close>

theorem required_field_accepts_null:
  "Validate (os_Payload serviceStatus) [(''serviceId'', JNull), (''action'', JNull)] = None
   \<and> Validate (os_Payload serviceStatus) [] = Some (MissingField ''serviceId'')"
  by code_simp

end
