(* ===== verification/Hash.thy ===== *)
theory Hash
  imports Prelude "HOL-Library.Word"
begin

text \<open>
  The hash functions of Go's standard library that the backend calls: \<open>crypto/sha256\<close>,
  \<open>crypto/hmac\<close> over it, and \<open>encoding/hex\<close>.  The functions are the ones of FIPS 180-4 and
  RFC 2104 on byte strings, executable, with 32-bit words.  The lemmas are about lengths and
  shapes: nothing in the development assumes that the functions have no collisions.
\<close>

unbundle bit_operations_syntax

section \<open>SHA-256\<close>

text \<open>
  The constants are the first 32 bits of the fractional parts of the cube roots of the first 64 primes,
  and, for the initial state, of the square roots of the first 8.  The integer root is found bit by bit.
\<close>

definition primes_below :: "nat \<Rightarrow> nat list" where
  "primes_below n = filter (\<lambda>p. list_all (\<lambda>d. p mod d \<noteq> 0) [2..<p]) [2..<n]"

fun integer_root :: "nat \<Rightarrow> nat \<Rightarrow> nat \<Rightarrow> nat \<Rightarrow> nat" where
  "integer_root e n 0 acc = acc"
| "integer_root e n (Suc k) acc =
     integer_root e n k (let c = acc + 2 ^ k in if c ^ e \<le> n then c else acc)"

definition root_fraction :: "nat \<Rightarrow> nat \<Rightarrow> 32 word" where
  "root_fraction e p = of_nat (integer_root e (p * 2 ^ (32 * e)) 40 0)"

definition sha256_k :: "32 word list" where
  "sha256_k = map (root_fraction 3) (primes_below 312)"

type_synonym sha_state = "32 word \<times> 32 word \<times> 32 word \<times> 32 word \<times> 32 word \<times> 32 word \<times> 32 word \<times> 32 word"

definition sha256_init :: sha_state where
  "sha256_init =
     (root_fraction 2 2, root_fraction 2 3, root_fraction 2 5, root_fraction 2 7,
      root_fraction 2 11, root_fraction 2 13, root_fraction 2 17, root_fraction 2 19)"

definition rotr :: "nat \<Rightarrow> 32 word \<Rightarrow> 32 word" where
  "rotr n w = drop_bit n w OR push_bit (32 - n) w"

definition bytes_be :: "nat \<Rightarrow> nat \<Rightarrow> string" where
  "bytes_be k n = map (\<lambda>i. char_of (n div 256 ^ i)) (rev [0..<k])"

text \<open>The message followed by the byte 80, zeros up to 56 modulo 64, and the length in bits.\<close>

definition sha256_pad :: "string \<Rightarrow> string" where
  "sha256_pad s =
     s @ CHR 0x80 # replicate ((119 - length s mod 64) mod 64) (CHR 0x00) @ bytes_be 8 (8 * length s)"

fun words_be :: "string \<Rightarrow> 32 word list" where
  "words_be (a # b # c # d # s) =
     (of_char a * 2 ^ 24 + of_char b * 2 ^ 16 + of_char c * 2 ^ 8 + of_char d) # words_be s"
| "words_be _ = []"

text \<open>The message schedule, latest word first.\<close>

fun sha256_schedule :: "nat \<Rightarrow> 32 word list \<Rightarrow> 32 word list" where
  "sha256_schedule 0 ws = ws"
| "sha256_schedule (Suc n) ws =
     (let w15 = ws ! 14; w2 = ws ! 1;
          s0 = rotr 7 w15 XOR rotr 18 w15 XOR drop_bit 3 w15;
          s1 = rotr 17 w2 XOR rotr 19 w2 XOR drop_bit 10 w2
      in sha256_schedule n ((ws ! 15 + s0 + ws ! 6 + s1) # ws))"

definition sha256_round :: "sha_state \<Rightarrow> 32 word \<times> 32 word \<Rightarrow> sha_state" where
  "sha256_round st kw =
     (let (a, b, c, d, e, f, g, h) = st; (k, w) = kw;
          t1 = h + (rotr 6 e XOR rotr 11 e XOR rotr 25 e) + ((e AND f) XOR (NOT e AND g)) + k + w;
          t2 = (rotr 2 a XOR rotr 13 a XOR rotr 22 a) + ((a AND b) XOR (a AND c) XOR (b AND c))
      in (t1 + t2, a, b, c, d + t1, e, f, g))"

definition sha256_block :: "sha_state \<Rightarrow> 32 word list \<Rightarrow> sha_state" where
  "sha256_block st ws =
     (let (a, b, c, d, e, f, g, h) = st;
          (a', b', c', d', e', f', g', h') =
             foldl sha256_round st (zip sha256_k (rev (sha256_schedule 48 (rev ws))))
      in (a + a', b + b', c + c', d + d', e + e', f + f', g + g', h + h'))"

fun sha256_blocks :: "nat \<Rightarrow> sha_state \<Rightarrow> 32 word list \<Rightarrow> sha_state" where
  "sha256_blocks 0 st ws = st"
| "sha256_blocks (Suc n) st ws = sha256_blocks n (sha256_block st (take 16 ws)) (drop 16 ws)"

definition sha256_digest :: "sha_state \<Rightarrow> string" where
  "sha256_digest st =
     (let (a, b, c, d, e, f, g, h) = st
      in concat (map (\<lambda>w. bytes_be 4 (unat w)) [a, b, c, d, e, f, g, h]))"

definition sha256 :: "string \<Rightarrow> string" where
  "sha256 s =
     (let ws = words_be (sha256_pad s)
      in sha256_digest (sha256_blocks (length ws div 16) sha256_init ws))"

section \<open>HMAC with SHA-256, hexadecimal text\<close>

definition xor_byte :: "nat \<Rightarrow> char \<Rightarrow> char" where
  "xor_byte n c = char_of (of_char c XOR n)"

definition hmac_sha256 :: "string \<Rightarrow> string \<Rightarrow> string" where
  "hmac_sha256 key message =
     (let k0 = (if 64 < length key then sha256 key else key);
          k = k0 @ replicate (64 - length k0) (CHR 0x00)
      in sha256 (map (xor_byte 0x5c) k @ sha256 (map (xor_byte 0x36) k @ message)))"

definition hex_digits :: string where
  "hex_digits = ''0123456789abcdef''"

definition hex_encode :: "string \<Rightarrow> string" where
  "hex_encode s = concat (map (\<lambda>c. [hex_digits ! (of_char c div 16), hex_digits ! (of_char c mod 16)]) s)"

section \<open>Shapes\<close>

lemma length_bytes_be [simp]: "length (bytes_be k n) = k"
  by (simp add: bytes_be_def)

lemma length_sha256_digest [simp]: "length (sha256_digest st) = 32"
  by (simp add: sha256_digest_def split_beta)

lemma length_sha256 [simp]: "length (sha256 s) = 32"
  unfolding sha256_def Let_def by (rule length_sha256_digest)

lemma length_hmac_sha256 [simp]: "length (hmac_sha256 key m) = 32"
  unfolding hmac_sha256_def Let_def by (rule length_sha256)

lemma length_hex_encode [simp]: "length (hex_encode s) = 2 * length s"
  by (induction s) (simp_all add: hex_encode_def)

text \<open>The padded message is a whole number of 64-byte blocks, so no byte is left out of the hash.\<close>

lemma length_sha256_pad: "64 dvd length (sha256_pad s)"
proof -
  define m where "m = length s mod 64"
  have m: "m < 64" by (simp add: m_def)
  have "(119 - m) mod 64 = (if m < 56 then 55 - m else 119 - m)"
    using m by (auto simp: mod_if)
  moreover have "length s = 64 * (length s div 64) + m"
    by (simp add: m_def)
  then obtain q where q: "length s = 64 * q + m" by blast
  ultimately have "length (sha256_pad s) = 64 * (q + (if m < 56 then 1 else 2))"
    using m by (simp add: sha256_pad_def m_def [symmetric])
  then show ?thesis by simp
qed

end
