(* ===== verification/Base64.thy ===== *)
theory Base64
  imports Prelude
begin

text \<open>
  Go's \<open>encoding/base64\<close> without padding, for the two alphabets the backend uses:
  \<open>RawURLEncoding\<close> (signatures, tokens) and \<open>RawStdEncoding\<close> (password hashes).  Decoding
  skips carriage returns and line feeds, rejects bytes outside the alphabet and a last group of one
  character, and, not being strict, ignores the unused bits of the last character.
\<close>

definition alphabet_prefix :: string where
  "alphabet_prefix = ''ABCDEFGHIJKLMNOPQRSTUVWXYZabcdefghijklmnopqrstuvwxyz0123456789''"

definition url_alphabet :: string where "url_alphabet = alphabet_prefix @ ''-_''"
definition std_alphabet :: string where "std_alphabet = alphabet_prefix @ ''+/''"

fun sextets :: "nat list \<Rightarrow> nat list" where
  "sextets [] = []"
| "sextets [a] = [a div 4, a mod 4 * 16]"
| "sextets [a, b] = [a div 4, a mod 4 * 16 + b div 16, b mod 16 * 4]"
| "sextets (a # b # c # s) =
     a div 4 # (a mod 4 * 16 + b div 16) # (b mod 16 * 4 + c div 64) # c mod 64 # sextets s"

fun octets :: "nat list \<Rightarrow> nat list option" where
  "octets [] = Some []"
| "octets [w] = None"
| "octets [w, x] = Some [w * 4 + x div 16]"
| "octets [w, x, y] = Some [w * 4 + x div 16, x mod 16 * 16 + y div 4]"
| "octets (w # x # y # z # s) =
     map_option (\<lambda>r. (w * 4 + x div 16) # (x mod 16 * 16 + y div 4) # (y mod 4 * 64 + z) # r) (octets s)"

definition encode_with :: "string \<Rightarrow> string \<Rightarrow> string" where
  "encode_with alphabet s = map (\<lambda>n. alphabet ! n) (sextets (map of_char s))"

fun index_of :: "char \<Rightarrow> string \<Rightarrow> nat option" where
  "index_of c [] = None"
| "index_of c (x # xs) = (if x = c then Some 0 else map_option Suc (index_of c xs))"

fun indices :: "string \<Rightarrow> string \<Rightarrow> nat list option" where
  "indices alphabet [] = Some []"
| "indices alphabet (c # s) =
     (case index_of c alphabet of
        None \<Rightarrow> None
      | Some n \<Rightarrow> map_option (Cons n) (indices alphabet s))"

definition decode_with :: "string \<Rightarrow> string \<Rightarrow> string option" where
  "decode_with alphabet t =
     (case indices alphabet (filter (\<lambda>c. c \<noteq> CHR 0x0A \<and> c \<noteq> CHR 0x0D) t) of
        None \<Rightarrow> None
      | Some ns \<Rightarrow> map_option (map char_of) (octets ns))"

abbreviation RawURL_EncodeToString :: "string \<Rightarrow> string" where
  "RawURL_EncodeToString \<equiv> encode_with url_alphabet"
abbreviation RawURL_DecodeString :: "string \<Rightarrow> string option" where
  "RawURL_DecodeString \<equiv> decode_with url_alphabet"
abbreviation RawStd_EncodeToString :: "string \<Rightarrow> string" where
  "RawStd_EncodeToString \<equiv> encode_with std_alphabet"
abbreviation RawStd_DecodeString :: "string \<Rightarrow> string option" where
  "RawStd_DecodeString \<equiv> decode_with std_alphabet"

section \<open>Round trip\<close>

lemma octets_sextets: "\<forall>b\<in>set bs. b < 256 \<Longrightarrow> octets (sextets bs) = Some bs"
proof (induction bs rule: sextets.induct)
  case (2 a)
  then show ?case by simp
next
  case (3 a b)
  then have "b div 16 < 16" by auto
  with 3 show ?case by simp
next
  case (4 a b c s)
  then have "b div 16 < 16" "c div 64 < 4" by auto
  with 4 show ?case by simp
qed simp

lemma sextets_less: "\<forall>b\<in>set bs. b < 256 \<Longrightarrow> \<forall>n\<in>set (sextets bs). n < 64"
proof (induction bs rule: sextets.induct)
  case (2 a)
  then show ?case by simp
next
  case (3 a b)
  then have "b div 16 < 16" by auto
  with 3 show ?case by auto
next
  case (4 a b c s)
  then have "b div 16 < 16" "c div 64 < 4" by auto
  with 4 show ?case by auto
qed simp

lemma index_of_nth: "distinct xs \<Longrightarrow> n < length xs \<Longrightarrow> index_of (xs ! n) xs = Some n"
proof (induction xs arbitrary: n)
  case (Cons x xs)
  then show ?case by (cases n) auto
qed simp

lemma indices_nth:
  "distinct al \<Longrightarrow> \<forall>n\<in>set ns. n < length al \<Longrightarrow> indices al (map (\<lambda>n. al ! n) ns) = Some ns"
  by (induction ns) (auto simp: index_of_nth)

lemma decode_encode_with:
  assumes "distinct al" "length al = 64" "CHR 0x0A \<notin> set al" "CHR 0x0D \<notin> set al"
  shows "decode_with al (encode_with al s) = Some s"
proof -
  have bound: "\<forall>b\<in>set (map of_char s). b < (256 :: nat)" by auto
  have less: "\<forall>n\<in>set (sextets (map of_char s)). n < length al"
    using sextets_less [OF bound] assms(2) by simp
  then have "\<forall>c\<in>set (encode_with al s). c \<in> set al"
    by (auto simp: encode_with_def)
  then have "filter (\<lambda>c. c \<noteq> CHR 0x0A \<and> c \<noteq> CHR 0x0D) (encode_with al s) = encode_with al s"
    using assms(3,4) by (intro filter_True) auto
  then show ?thesis
    by (simp add: decode_with_def encode_with_def indices_nth [OF assms(1) less] octets_sextets [OF bound] comp_def)
qed

lemma decode_encode_url [simp]: "RawURL_DecodeString (RawURL_EncodeToString s) = Some s"
  by (rule decode_encode_with) (simp_all add: url_alphabet_def alphabet_prefix_def)

lemma decode_encode_std [simp]: "RawStd_DecodeString (RawStd_EncodeToString s) = Some s"
  by (rule decode_encode_with) (simp_all add: std_alphabet_def alphabet_prefix_def)

section \<open>Encoded text\<close>

lemma set_encode_with: "length al = 64 \<Longrightarrow> set (encode_with al s) \<subseteq> set al"
proof -
  assume al: "length al = 64"
  have "\<forall>b\<in>set (map of_char s). b < (256 :: nat)" by auto
  from sextets_less [OF this] al show ?thesis by (auto simp: encode_with_def)
qed

lemma encode_with_Nil: "encode_with al s = [] \<longleftrightarrow> s = []"
  by (cases "map of_char s :: nat list" rule: sextets.cases) (auto simp: encode_with_def)

text \<open>Encoded text has no white space, so trimming leaves it alone.\<close>

lemma TrimSpace_encode_url: "TrimSpace (RawURL_EncodeToString s) = RawURL_EncodeToString s"
proof (rule TrimSpace_id, intro ballI notI)
  fix r c
  assume r: "r \<in> set space_runes" "c \<in> set (RawURL_EncodeToString s)" "c \<in> set r"
  have "list_all (\<lambda>r. list_all (\<lambda>c. c \<notin> set url_alphabet) r) space_runes" by code_simp
  then have "c \<notin> set url_alphabet" using r(1,3) by (auto simp: list_all_iff)
  moreover have "length url_alphabet = 64" by (simp add: url_alphabet_def alphabet_prefix_def)
  then have "c \<in> set url_alphabet" using set_encode_with [of url_alphabet s] r(2) by blast
  ultimately show False ..
qed

end
