(* ===== verification/Signing.thy ===== *)
theory Signing
  imports Protocol Hash Base64
begin

text \<open>
  The signed envelope of a request: \<open>src/backend/internal/agent/signing.go\<close>.  The clock that
  \<open>VerifyWithKeyRing\<close> reads is an argument \<open>now\<close>.  \<open>hmac.Equal\<close> is equality of byte strings.
\<close>

datatype signing_error =
    CurrentKeyShort | CurrentIDMissing | PreviousKeyShort | PreviousIDMissing | SameKeyIDs
  | RequestMissing | PayloadSerialization | ErrInvalidTimestamp | ErrInvalidSignature | ErrUnknownKeyID

record KeyRing =
  kr_CurrentKey :: string
  kr_CurrentID :: string
  kr_PreviousKey :: string
  kr_PreviousID :: string

definition KeyRing_Validate :: "KeyRing \<Rightarrow> signing_error option" where
  "KeyRing_Validate k =
     (if length (kr_CurrentKey k) < 32 then Some CurrentKeyShort
      else if TrimSpace (kr_CurrentID k) = [] then Some CurrentIDMissing
      else if kr_PreviousKey k \<noteq> [] then
        (if length (kr_PreviousKey k) < 32 then Some PreviousKeyShort
         else if TrimSpace (kr_PreviousID k) = [] then Some PreviousIDMissing
         else if kr_PreviousID k = kr_CurrentID k then Some SameKeyIDs
         else None)
      else None)"

definition canonical_parts :: "Request \<Rightarrow> string \<Rightarrow> string list" where
  "canonical_parts r payload =
     [rq_Operation r, FormatInt (rq_OperationVersion r), rq_RequestID r, RFC3339Nano (rq_Timestamp r),
      rq_Nonce r, rq_KeyID r, payload]"

definition canonical :: "Request \<Rightarrow> signing_error + string" where
  "canonical r =
     (case Marshal (rq_Payload r) of
        None \<Rightarrow> Inl PayloadSerialization
      | Some payload \<Rightarrow> Inr (Join (canonical_parts r payload) [CHR 0x0A]))"

text \<open>
  \<open>SignWithKey\<close> changes the request it points to: the result is the request afterwards and the
  error.  The key identifier is set before the payload is serialized, so it stays on failure.
\<close>

definition SignWithKey :: "Request option \<Rightarrow> string \<Rightarrow> string \<Rightarrow> Request option \<times> signing_error option" where
  "SignWithKey r key keyID =
     (case r of
        None \<Rightarrow> (None, Some RequestMissing)
      | Some r \<Rightarrow>
          (let r1 = r\<lparr>rq_KeyID := keyID\<rparr>
           in case canonical r1 of
                Inl e \<Rightarrow> (Some r1, Some e)
              | Inr message \<Rightarrow>
                  (Some (r1\<lparr>rq_Signature := RawURL_EncodeToString (hmac_sha256 key message)\<rparr>), None)))"

definition Sign :: "Request option \<Rightarrow> string \<Rightarrow> Request option" where
  "Sign r key = fst (SignWithKey r key [])"

definition verificationKeys :: "KeyRing \<Rightarrow> string \<Rightarrow> signing_error + string list" where
  "verificationKeys k keyID =
     (if keyID = [] then
        Inr ([kr_CurrentKey k] @ (if kr_PreviousKey k \<noteq> [] then [kr_PreviousKey k] else []))
      else if keyID = kr_CurrentID k then Inr [kr_CurrentKey k]
      else if kr_PreviousKey k \<noteq> [] \<and> keyID = kr_PreviousID k then Inr [kr_PreviousKey k]
      else Inl ErrUnknownKeyID)"

fun any_mac_matches :: "string \<Rightarrow> string \<Rightarrow> string list \<Rightarrow> signing_error option" where
  "any_mac_matches signature message [] = Some ErrInvalidSignature"
| "any_mac_matches signature message (key # ks) =
     (if signature = hmac_sha256 key message then None else any_mac_matches signature message ks)"

definition VerifyWithKeyRing :: "time \<Rightarrow> Request \<Rightarrow> KeyRing \<Rightarrow> duration \<Rightarrow> signing_error option" where
  "VerifyWithKeyRing now r ks maxSkew =
     (case KeyRing_Validate ks of
        Some e \<Rightarrow> Some e
      | None \<Rightarrow>
          if rq_Timestamp r = zero_time \<or> maxSkew \<le> 0 then Some ErrInvalidTimestamp
          else if rq_Timestamp r < now - maxSkew \<or> rq_Timestamp r > now + maxSkew then Some ErrInvalidTimestamp
          else (case RawURL_DecodeString (rq_Signature r) of
             None \<Rightarrow> Some ErrInvalidSignature
           | Some signature \<Rightarrow>
               (case canonical r of
                  Inl e \<Rightarrow> Some e
                | Inr message \<Rightarrow>
                    (case verificationKeys ks (rq_KeyID r) of
                       Inl e \<Rightarrow> Some e
                     | Inr keysToTry \<Rightarrow> any_mac_matches signature message keysToTry))))"

definition Verify :: "time \<Rightarrow> Request \<Rightarrow> string \<Rightarrow> duration \<Rightarrow> signing_error option" where
  "Verify now r key maxSkew =
     VerifyWithKeyRing now r
       \<lparr>kr_CurrentKey = key, kr_CurrentID = ''legacy'', kr_PreviousKey = [], kr_PreviousID = []\<rparr> maxSkew"

section \<open>Lemmas\<close>

lemma any_mac_matches_None:
  "any_mac_matches signature message ks = None \<longleftrightarrow> (\<exists>key\<in>set ks. signature = hmac_sha256 key message)"
  by (induction ks) auto

lemma KeyRing_Validate_None:
  "KeyRing_Validate k = None \<longleftrightarrow>
     32 \<le> length (kr_CurrentKey k) \<and> TrimSpace (kr_CurrentID k) \<noteq> [] \<and>
     (kr_PreviousKey k \<noteq> [] \<longrightarrow>
        32 \<le> length (kr_PreviousKey k) \<and> TrimSpace (kr_PreviousID k) \<noteq> [] \<and> kr_PreviousID k \<noteq> kr_CurrentID k)"
  by (auto simp: KeyRing_Validate_def)

text \<open>The keys that a key identifier selects.\<close>

definition selected_keys :: "KeyRing \<Rightarrow> string \<Rightarrow> string set" where
  "selected_keys k keyID =
     {key. (key = kr_CurrentKey k \<and> (keyID = [] \<or> keyID = kr_CurrentID k)) \<or>
           (key = kr_PreviousKey k \<and> key \<noteq> [] \<and> (keyID = [] \<or> (keyID = kr_PreviousID k \<and> keyID \<noteq> kr_CurrentID k)))}"

lemma verificationKeys_set:
  "(\<exists>ks. verificationKeys k keyID = Inr ks \<and> key \<in> set ks) \<longleftrightarrow> key \<in> selected_keys k keyID"
  by (auto simp: verificationKeys_def selected_keys_def)

lemma VerifyWithKeyRing_None_iff:
  "VerifyWithKeyRing now r ks maxSkew = None \<longleftrightarrow>
     KeyRing_Validate ks = None \<and> rq_Timestamp r \<noteq> zero_time \<and> 0 < maxSkew \<and>
     \<bar>rq_Timestamp r - now\<bar> \<le> maxSkew \<and>
     (\<exists>message key. canonical r = Inr message \<and> key \<in> selected_keys ks (rq_KeyID r) \<and>
        RawURL_DecodeString (rq_Signature r) = Some (hmac_sha256 key message))"
proof -
  have window: "\<not> (rq_Timestamp r < now - maxSkew \<or> rq_Timestamp r > now + maxSkew) \<longleftrightarrow>
      \<bar>rq_Timestamp r - now\<bar> \<le> maxSkew" by linarith
  have "VerifyWithKeyRing now r ks maxSkew = None \<longleftrightarrow>
     KeyRing_Validate ks = None \<and> rq_Timestamp r \<noteq> zero_time \<and> 0 < maxSkew \<and>
     \<not> (rq_Timestamp r < now - maxSkew \<or> rq_Timestamp r > now + maxSkew) \<and>
     (\<exists>message key. canonical r = Inr message \<and>
        (\<exists>l. verificationKeys ks (rq_KeyID r) = Inr l \<and> key \<in> set l) \<and>
        RawURL_DecodeString (rq_Signature r) = Some (hmac_sha256 key message))"
    by (auto simp: VerifyWithKeyRing_def any_mac_matches_None split: option.splits sum.splits)
  then show ?thesis unfolding window verificationKeys_set .
qed

text \<open>Joining with line breaks loses nothing when all parts but the last have none.\<close>

lemma takeWhile_break: "c \<notin> set x \<Longrightarrow> takeWhile (\<lambda>d. d \<noteq> c) (x @ c # t) = x"
  by (induction x) auto

lemma Join_break_inject:
  assumes "length xs = length ys" "\<forall>s\<in>set xs. CHR 0x0A \<notin> set s" "\<forall>s\<in>set ys. CHR 0x0A \<notin> set s"
    and "Join (xs @ [p]) [CHR 0x0A] = Join (ys @ [q]) [CHR 0x0A]"
  shows "xs = ys \<and> p = q"
  using assms
proof (induction xs ys rule: list_induct2)
  case (Cons x xs y ys)
  have split: "Join ((z # zs) @ [w]) [CHR 0x0A] = z @ CHR 0x0A # Join (zs @ [w]) [CHR 0x0A]" for z zs w
    by (cases zs) auto
  from Cons.prems(3) have eq: "x @ CHR 0x0A # Join (xs @ [p]) [CHR 0x0A] = y @ CHR 0x0A # Join (ys @ [q]) [CHR 0x0A]"
    unfolding split .
  have nx: "CHR 0x0A \<notin> set x" and ny: "CHR 0x0A \<notin> set y" using Cons.prems by auto
  have "x = takeWhile (\<lambda>c. c \<noteq> CHR 0x0A) (x @ CHR 0x0A # Join (xs @ [p]) [CHR 0x0A])"
    using takeWhile_break [OF nx] by (rule sym)
  also have "\<dots> = y" unfolding eq using ny by (rule takeWhile_break)
  finally have "x = y" .
  with eq Cons show ?case by simp
qed simp

lemma FormatInt_no_break: "CHR 0x0A \<notin> set (FormatInt n)"
  using FormatUint_printable [of "CHR 0x0A"] by (auto simp: FormatInt_def)

lemma FormatUint_inject: "FormatUint m = FormatUint n \<Longrightarrow> m = n"
  by (metis digits_value_FormatUint)

lemma FormatUint_not_minus: "FormatUint m \<noteq> CHR ''-'' # s"
proof
  assume "FormatUint m = CHR ''-'' # s"
  with FormatUint_digits [of m] show False by (simp add: is_digit_def)
qed

lemma FormatInt_inject: "FormatInt m = FormatInt n \<Longrightarrow> m = n"
  using FormatUint_not_minus FormatUint_not_minus [symmetric]
  by (auto simp: FormatInt_def split: if_splits dest: FormatUint_inject)

text \<open>A request whose text fields have no line break.\<close>

definition unbroken :: "Request \<Rightarrow> bool" where
  "unbroken r \<longleftrightarrow> CHR 0x0A \<notin> set (rq_Operation r) \<union> set (rq_RequestID r) \<union> set (rq_Nonce r) \<union> set (rq_KeyID r)"

lemma canonical_inject:
  assumes "unbroken r" "unbroken s" "canonical r = Inr m" "canonical s = Inr m"
  shows "rq_Operation r = rq_Operation s \<and> rq_OperationVersion r = rq_OperationVersion s \<and>
    rq_RequestID r = rq_RequestID s \<and> RFC3339Nano (rq_Timestamp r) = RFC3339Nano (rq_Timestamp s) \<and>
    rq_Nonce r = rq_Nonce s \<and> rq_KeyID r = rq_KeyID s \<and> Marshal (rq_Payload r) = Marshal (rq_Payload s)"
proof -
  let ?front = "\<lambda>r. [rq_Operation r, FormatInt (rq_OperationVersion r), rq_RequestID r,
      RFC3339Nano (rq_Timestamp r), rq_Nonce r, rq_KeyID r]"
  obtain p q where p: "Marshal (rq_Payload r) = Some p" and q: "Marshal (rq_Payload s) = Some q"
    and eq: "Join (?front r @ [p]) [CHR 0x0A] = Join (?front s @ [q]) [CHR 0x0A]"
    using assms(3,4) by (auto simp: canonical_def canonical_parts_def split: option.splits)
  have "?front r = ?front s \<and> p = q"
    by (rule Join_break_inject [OF _ _ _ eq])
      (use assms(1,2) in \<open>auto simp: unbroken_def FormatInt_no_break RFC3339Nano_no_break\<close>)
  with p q show ?thesis by (auto dest: FormatInt_inject)
qed

lemma SignWithKey_Some:
  "SignWithKey (Some r) key keyID = (Some r', None) \<Longrightarrow>
     rq_KeyID r' = keyID \<and> rq_Timestamp r' = rq_Timestamp r \<and>
     (\<exists>message. canonical r' = Inr message \<and> RawURL_DecodeString (rq_Signature r') = Some (hmac_sha256 key message))"
  by (auto simp: SignWithKey_def Let_def canonical_def canonical_parts_def split: option.splits sum.splits)

lemma signed_accepted:
  assumes "SignWithKey (Some r) key keyID = (Some r', None)"
    and "KeyRing_Validate ks = None"
    and "(key = kr_CurrentKey ks \<and> keyID = kr_CurrentID ks) \<or>
         (key = kr_PreviousKey ks \<and> key \<noteq> [] \<and> keyID = kr_PreviousID ks)"
    and "rq_Timestamp r \<noteq> zero_time" and "0 < maxSkew" and "\<bar>rq_Timestamp r - now\<bar> \<le> maxSkew"
  shows "VerifyWithKeyRing now r' ks maxSkew = None"
proof -
  have "key \<in> selected_keys ks (rq_KeyID r')"
    using assms(2,3) SignWithKey_Some [OF assms(1)]
    by (auto simp: selected_keys_def KeyRing_Validate_None)
  then show ?thesis
    using assms(2,4-6) SignWithKey_Some [OF assms(1)] unfolding VerifyWithKeyRing_None_iff by auto
qed

section \<open>Properties\<close>

text \<open>
  Soundness and completeness of verification: \<open>VerifyWithKeyRing\<close> accepts a request exactly when
  the key ring is valid, the timestamp is set and lies within the skew of the clock on either side, and
  the signature decodes to the HMAC of the canonical message under a key that the request's key
  identifier selects.  An explicit identifier selects one key only; the empty one selects both keys of
  the rotation window.
\<close>

theorem VerifyWithKeyRing_accepts_iff:
  "VerifyWithKeyRing now r ks maxSkew = None \<longleftrightarrow>
     KeyRing_Validate ks = None \<and> rq_Timestamp r \<noteq> zero_time \<and> 0 < maxSkew \<and>
     \<bar>rq_Timestamp r - now\<bar> \<le> maxSkew \<and>
     (\<exists>message key. canonical r = Inr message \<and>
        ((key = kr_CurrentKey ks \<and> (rq_KeyID r = [] \<or> rq_KeyID r = kr_CurrentID ks)) \<or>
         (key = kr_PreviousKey ks \<and> key \<noteq> [] \<and>
            (rq_KeyID r = [] \<or> (rq_KeyID r = kr_PreviousID ks \<and> rq_KeyID r \<noteq> kr_CurrentID ks)))) \<and>
        RawURL_DecodeString (rq_Signature r) = Some (hmac_sha256 key message))"
  unfolding VerifyWithKeyRing_None_iff selected_keys_def mem_Collect_eq ..

text \<open>
  Round trip: what \<open>SignWithKey\<close> signs with a key of the ring, under that key's
  identifier, verifies at every clock within the skew of its timestamp; the previous key still verifies
  during rotation.
\<close>

theorem sign_then_verify:
  assumes "SignWithKey (Some r) key keyID = (Some r', None)"
    and "KeyRing_Validate ks = None"
    and "(key = kr_CurrentKey ks \<and> keyID = kr_CurrentID ks) \<or>
         (key = kr_PreviousKey ks \<and> key \<noteq> [] \<and> keyID = kr_PreviousID ks)"
    and "rq_Timestamp r \<noteq> zero_time" and "0 < maxSkew" and "\<bar>rq_Timestamp r - now\<bar> \<le> maxSkew"
  shows "VerifyWithKeyRing now r' ks maxSkew = None"
  using assms by (rule signed_accepted)

definition sample_request :: Request where
  "sample_request =
     \<lparr>rq_Operation = ''cups.inspect'', rq_OperationVersion = 2, rq_RequestID = ''req-1'',
      rq_Timestamp = 1700000000 * second, rq_Nonce = ''0123456789abcdef'', rq_KeyID = [], rq_Payload = [], rq_Signature = []\<rparr>"

definition sample_ring :: KeyRing where
  "sample_ring =
     \<lparr>kr_CurrentKey = replicate 32 (CHR ''k''), kr_CurrentID = ''2026-07'', kr_PreviousKey = [], kr_PreviousID = []\<rparr>"

lemma sample_ring_valid: "KeyRing_Validate sample_ring = None"
  by code_simp

lemma sample_canonical: "\<exists>m. canonical (sample_request\<lparr>rq_KeyID := i\<rparr>) = Inr m"
  by (simp add: canonical_def Marshal_def sample_request_def)

theorem sign_then_verify_witness:
  "\<exists>r'. SignWithKey (Some sample_request) (kr_CurrentKey sample_ring) ''2026-07'' = (Some r', None) \<and>
     VerifyWithKeyRing (1700000020 * second) r' sample_ring (30 * second) = None"
proof -
  obtain r' where r': "SignWithKey (Some sample_request) (kr_CurrentKey sample_ring) ''2026-07'' = (Some r', None)"
    using sample_canonical [of "''2026-07''"] by (auto simp: SignWithKey_def)
  moreover have "VerifyWithKeyRing (1700000020 * second) r' sample_ring (30 * second) = None"
    by (rule sign_then_verify [OF r' sample_ring_valid])
      (simp_all add: sample_ring_def sample_request_def zero_time_def)
  ultimately show ?thesis by blast
qed

text \<open>
  The signed message is unambiguous: two requests whose operation, identifiers and nonce have no
  line break and whose canonical messages are equal agree in operation, version, request
  identifier, timestamp text, nonce, key identifier and encoded payload.  No field can be moved across
  a separator to forge another request from an observed signature.
\<close>

theorem canonical_unambiguous:
  assumes "\<forall>s\<in>{r1, r2}. CHR 0x0A \<notin> set (rq_Operation s) \<union> set (rq_RequestID s) \<union> set (rq_Nonce s) \<union> set (rq_KeyID s)"
    and "canonical r1 = Inr m" and "canonical r2 = Inr m"
  shows "rq_Operation r1 = rq_Operation r2 \<and> rq_OperationVersion r1 = rq_OperationVersion r2 \<and>
    rq_RequestID r1 = rq_RequestID r2 \<and> RFC3339Nano (rq_Timestamp r1) = RFC3339Nano (rq_Timestamp r2) \<and>
    rq_Nonce r1 = rq_Nonce r2 \<and> rq_KeyID r1 = rq_KeyID r2 \<and> Marshal (rq_Payload r1) = Marshal (rq_Payload r2)"
  by (rule canonical_inject [OF _ _ assms(2,3)]) (use assms(1) in \<open>auto simp: unbroken_def\<close>)

theorem canonical_unambiguous_witness:
  "canonical sample_request \<noteq> canonical (sample_request\<lparr>rq_OperationVersion := 1\<rparr>)"
proof
  assume eq: "canonical sample_request = canonical (sample_request\<lparr>rq_OperationVersion := 1\<rparr>)"
  obtain m where m: "canonical sample_request = Inr m"
    using sample_canonical [of "[]"] by (auto simp: sample_request_def)
  have m': "canonical (sample_request\<lparr>rq_OperationVersion := 1\<rparr>) = Inr m"
    using m unfolding eq .
  have "rq_OperationVersion sample_request = rq_OperationVersion (sample_request\<lparr>rq_OperationVersion := 1\<rparr>)"
    using canonical_unambiguous [OF _ m m'] by (simp add: sample_request_def)
  then show False by (simp add: sample_request_def)
qed

end
