(* ===== verification/Nonce.thy ===== *)
theory Nonce
  imports Json "HOL-Library.Word" "HOL-Library.Multiset"
begin

text \<open>
  The replay cache of the agent: \<open>src/backend/internal/agent/nonce_store.go\<close>.  The cache is a record
  with an association list of nonces and expiry instants; the file it is persisted to, and the directory
  of that file, are the record \<open>disk\<close>.  A file keeps its size and the entries its JSON text
  decodes to (\<open>None\<close> when it does not decode), so that reading back what was written yields the same
  entries.  Each system call may fail: \<open>faults\<close> says which ones do during one call.  Go iterates
  over a map in any order and \<open>sort.Slice\<close> is not stable: \<open>shuffle\<close> is an arbitrary
  reordering of the entries applied before a stable sort.
\<close>

unbundle bit_operations_syntax

type_synonym entries = "(string \<times> time) list"

datatype nonce_error =
    ErrNonceReplay | ErrInvalidNonce | BadTTL | BadLimit | DirectoryInvalid | DirectoryPermissions
  | FileNotRegular | FilePermissions | FileTooLarge | FileInvalid | FileTooManyEntries | FileInvalidEntry
  | CacheTooLarge | MarshalFailed | SystemCall | PersistFailed nonce_error

record NonceStore =
  ns_path :: string
  ns_ttl :: duration
  ns_max :: int
  ns_entries :: entries

record dir_node =
  dn_symlink :: bool
  dn_dir :: bool
  dn_perm :: "32 word"

record file_node =
  fn_symlink :: bool
  fn_regular :: bool
  fn_perm :: "32 word"
  fn_size :: nat
  fn_entries :: "entries option"

record disk =
  dk_dir :: "dir_node option"
  dk_file :: "file_node option"

record faults =
  ft_mkdir :: bool
  ft_lstat_dir :: bool
  ft_lstat_file :: bool
  ft_read :: bool
  ft_create :: bool
  ft_chmod :: bool
  ft_write :: bool
  ft_sync :: bool
  ft_close :: bool
  ft_rename :: bool

text \<open>One call's environment: its faults, the order of map iteration, and the wall clock.\<close>

record nonce_env =
  ne_faults :: faults
  ne_shuffle :: "entries \<Rightarrow> entries"
  ne_clock :: time

section \<open>Operations\<close>

text \<open>The permission masks: \<open>0o700\<close> is 1C0, \<open>0o600\<close> is 180 and \<open>0o022\<close> is 12 in hexadecimal.\<close>

definition nonce_char :: "char \<Rightarrow> bool" where
  "nonce_char c \<longleftrightarrow> is_lower c \<or> is_upper c \<or> is_digit c \<or> c = CHR ''-'' \<or> c = CHR ''_''"

definition validateNonce :: "string \<Rightarrow> nonce_error option" where
  "validateNonce nonce =
     (if length nonce < 16 \<or> length nonce > 256 then Some ErrInvalidNonce
      else firstErr (\<lambda>c. if \<not> nonce_char c then Some ErrInvalidNonce else None) nonce)"

definition purgeLocked :: "time \<Rightarrow> NonceStore \<Rightarrow> NonceStore \<times> bool" where
  "purgeLocked now s =
     (s\<lparr>ns_entries := filter (\<lambda>(n, expiresAt). expiresAt > now) (ns_entries s)\<rparr>,
      list_ex (\<lambda>(n, expiresAt). \<not> expiresAt > now) (ns_entries s))"

definition trimLocked :: "(entries \<Rightarrow> entries) \<Rightarrow> NonceStore \<Rightarrow> NonceStore" where
  "trimLocked shuffle s =
     (if int (length (ns_entries s)) \<le> ns_max s then s
      else let sorted = sort_key snd (shuffle (ns_entries s));
               dropped = map fst (take (nat (int (length sorted) - ns_max s)) sorted)
           in s\<lparr>ns_entries := filter (\<lambda>(n, _). n \<notin> set dropped) (ns_entries s)\<rparr>)"

definition validateNonceDirectory :: "faults \<Rightarrow> bool \<Rightarrow> disk \<Rightarrow> nonce_error option \<times> disk" where
  "validateNonceDirectory ft create d =
     (let mkdir = (if \<not> create then (None, d)
                   else if ft_mkdir ft then (Some SystemCall, d)
                   else case dk_dir d of
                          None \<Rightarrow> (None, d\<lparr>dk_dir := Some \<lparr>dn_symlink = False, dn_dir = True, dn_perm = 0x1C0\<rparr>\<rparr>)
                        | Some n \<Rightarrow> (if \<not> dn_symlink n \<and> \<not> dn_dir n then Some SystemCall else None, d));
          d1 = snd mkdir
      in case fst mkdir of
           Some e \<Rightarrow> (Some e, d1)
         | None \<Rightarrow>
             if ft_lstat_dir ft then (Some SystemCall, d1)
             else case dk_dir d1 of
                    None \<Rightarrow> (if \<not> create then None else Some SystemCall, d1)
                  | Some n \<Rightarrow>
                      if dn_symlink n \<or> \<not> dn_dir n then (Some DirectoryInvalid, d1)
                      else if dn_perm n AND 0x12 \<noteq> 0 then (Some DirectoryPermissions, d1)
                      else (None, d1))"

definition year_of :: "time \<Rightarrow> int" where
  "year_of t = fst (civil (t div second div 86400))"

text \<open>\<open>json.Marshal\<close> of the file: a time outside the years 0 to 9999 has no encoding.\<close>

definition marshal_entries :: "entries \<Rightarrow> string option" where
  "marshal_entries es =
     (if list_all (\<lambda>(n, t). 0 \<le> year_of t \<and> year_of t \<le> 9999) es
      then Marshal [(''entries'', JObj (map (\<lambda>(n, t). (n, JStr (RFC3339Nano t))) es))] else None)"

definition persistLocked :: "faults \<Rightarrow> NonceStore \<Rightarrow> disk \<Rightarrow> nonce_error option \<times> disk" where
  "persistLocked ft s d =
     (if ns_path s = [] then (None, d)
      else case validateNonceDirectory ft True d of
        (Some e, d1) \<Rightarrow> (Some e, d1)
      | (None, d1) \<Rightarrow>
          (case marshal_entries (ns_entries s) of
             None \<Rightarrow> (Some MarshalFailed, d1)
           | Some data \<Rightarrow>
               if length data > 8 * 2 ^ 20 then (Some CacheTooLarge, d1)
               else if ft_create ft then (Some SystemCall, d1)
               else if ft_chmod ft then (Some SystemCall, d1)
               else if ft_write ft \<or> ft_sync ft \<or> ft_close ft then (Some SystemCall, d1)
               else if ft_rename ft then (Some SystemCall, d1)
               else (None, d1\<lparr>dk_file := Some \<lparr>fn_symlink = False, fn_regular = True, fn_perm = 0x180,
                                  fn_size = length data, fn_entries = Some (ns_entries s)\<rparr>\<rparr>)))"

definition load :: "faults \<Rightarrow> NonceStore \<Rightarrow> disk \<Rightarrow> nonce_error + NonceStore" where
  "load ft s d =
     (case fst (validateNonceDirectory ft False d) of
        Some e \<Rightarrow> Inl e
      | None \<Rightarrow>
          if ft_lstat_file ft then Inl SystemCall
          else case dk_file d of
            None \<Rightarrow> Inr s
          | Some f \<Rightarrow>
              if fn_symlink f \<or> \<not> fn_regular f then Inl FileNotRegular
              else if fn_perm f AND 0x12 \<noteq> 0 then Inl FilePermissions
              else if ft_read ft then Inl SystemCall
              else if fn_size f > 8 * 2 ^ 20 then Inl FileTooLarge
              else (case fn_entries f of
                 None \<Rightarrow> Inl FileInvalid
               | Some es \<Rightarrow>
                   if int (length es) > ns_max s then Inl FileTooManyEntries
                   else if list_ex (\<lambda>(n, _). validateNonce n \<noteq> None) es then Inl FileInvalidEntry
                   else Inr (s\<lparr>ns_entries := foldl (\<lambda>acc (n, e). map_set n e acc) (ns_entries s) es\<rparr>)))"

definition NewNonceStore :: "nonce_env \<Rightarrow> string \<Rightarrow> duration \<Rightarrow> int \<Rightarrow> disk \<Rightarrow> (nonce_error + NonceStore) \<times> disk" where
  "NewNonceStore env path ttl maxEntries d =
     (if ttl \<le> 0 then (Inl BadTTL, d)
      else if maxEntries < 128 then (Inl BadLimit, d)
      else let store = \<lparr>ns_path = TrimSpace path, ns_ttl = ttl, ns_max = maxEntries, ns_entries = []\<rparr>
        in if ns_path store = [] then (Inr store, d)
           else case load (ne_faults env) store d of
             Inl e \<Rightarrow> (Inl e, d)
           | Inr loaded \<Rightarrow>
               (case purgeLocked (ne_clock env) loaded of
                  (purged, False) \<Rightarrow> (Inr purged, d)
                | (purged, True) \<Rightarrow>
                    (case persistLocked (ne_faults env) purged d of
                       (Some e, d1) \<Rightarrow> (Inl e, d1)
                     | (None, d1) \<Rightarrow> (Inr purged, d1))))"

definition Use :: "nonce_env \<Rightarrow> string \<Rightarrow> time \<Rightarrow> NonceStore \<times> disk \<Rightarrow> nonce_error option \<times> NonceStore \<times> disk" where
  "Use env nonce now0 sd =
     (let s = fst sd; d = snd sd
      in case validateNonce nonce of
           Some e \<Rightarrow> (Some e, s, d)
         | None \<Rightarrow>
             let now = (if now0 = zero_time then ne_clock env else now0);
                 previous = ns_entries s;
                 s1 = fst (purgeLocked now s)
             in if map_of (ns_entries s1) nonce \<noteq> None then (Some ErrNonceReplay, s1, d)
                else let s2 = s1\<lparr>ns_entries := map_set nonce (now + ns_ttl s1) (ns_entries s1)\<rparr>;
                         s3 = trimLocked (ne_shuffle env) s2
                     in case persistLocked (ne_faults env) s3 d of
                          (Some e, d1) \<Rightarrow> (Some (PersistFailed e), s3\<lparr>ns_entries := previous\<rparr>, d1)
                        | (None, d1) \<Rightarrow> (None, s3, d1))"

section \<open>Invariant\<close>

definition store_ok :: "NonceStore \<Rightarrow> bool" where
  "store_ok s \<longleftrightarrow>
     128 \<le> ns_max s \<and> 0 < ns_ttl s \<and> distinct (map fst (ns_entries s)) \<and>
     int (length (ns_entries s)) \<le> ns_max s \<and> (\<forall>(n, e)\<in>set (ns_entries s). validateNonce n = None)"

text \<open>What the language promises of map iteration: every entry is visited once.\<close>

definition fair :: "nonce_env \<Rightarrow> bool" where
  "fair env \<longleftrightarrow> (\<forall>es. mset (ne_shuffle env es) = mset es)"

text \<open>
  \<open>pending n e k s\<close>: the nonce is recorded until \<open>e\<close>, and at least \<open>k\<close> further nonces
  fit before it can be the oldest of a full cache.
\<close>

definition later_count :: "string \<Rightarrow> time \<Rightarrow> entries \<Rightarrow> nat" where
  "later_count n e es = length (filter (\<lambda>(m, x). m \<noteq> n \<and> e \<le> x) es)"

definition pending :: "string \<Rightarrow> time \<Rightarrow> nat \<Rightarrow> NonceStore \<Rightarrow> bool" where
  "pending n e k s \<longleftrightarrow>
     map_of (ns_entries s) n = Some e \<and> int (later_count n e (ns_entries s) + k) < ns_max s"

lemma map_set_fresh: "map_of m k = None \<Longrightarrow> map_set k v m = m @ [(k, v)]"
  by (induction m) (auto split: if_splits)

lemma purgeLocked_fields [simp]:
  "ns_max (fst (purgeLocked now s)) = ns_max s" "ns_ttl (fst (purgeLocked now s)) = ns_ttl s"
  "ns_path (fst (purgeLocked now s)) = ns_path s"
  "ns_entries (fst (purgeLocked now s)) = filter (\<lambda>(n, e). e > now) (ns_entries s)"
  by (simp_all add: purgeLocked_def)

lemma trimLocked_fields [simp]:
  "ns_max (trimLocked sh s) = ns_max s" "ns_ttl (trimLocked sh s) = ns_ttl s" "ns_path (trimLocked sh s) = ns_path s"
  by (simp_all add: trimLocked_def Let_def)

lemma distinct_map_filter_fst: "distinct (map fst es) \<Longrightarrow> distinct (map fst (filter P es))"
  by (induction es) auto

lemma map_of_filter_Some:
  "distinct (map fst es) \<Longrightarrow> map_of (filter P es) n = Some e \<longleftrightarrow> map_of es n = Some e \<and> P (n, e)"
  by (simp add: distinct_map_filter_fst)

lemma later_count_filter: "later_count n e (filter P es) \<le> later_count n e es"
  by (induction es) (auto simp: later_count_def)

lemma length_filter_key:
  "distinct (map fst es) \<Longrightarrow> (k, x) \<in> set es \<Longrightarrow> Suc (length (filter (\<lambda>(n, _). n \<noteq> k) es)) = length es"
proof (induction es)
  case (Cons p es)
  show ?case
  proof (cases "fst p = k")
    case True
    have "k \<notin> fst ` set es" using True Cons.prems(1) by simp
    then have "\<forall>q\<in>set es. fst q \<noteq> k" by blast
    then have "filter (\<lambda>(n, _). n \<noteq> k) es = es" by (intro filter_True) auto
    with True show ?thesis by (cases p) auto
  next
    case False
    with Cons show ?thesis by (cases p) auto
  qed
qed simp

lemma later_count_all:
  assumes "distinct (map fst es)" "(n, e) \<in> set es" "\<forall>p\<in>set es. e \<le> snd p"
  shows "Suc (later_count n e es) = length es"
proof -
  have "later_count n e es = length (filter (\<lambda>(m, _). m \<noteq> n) es)"
    unfolding later_count_def using assms(3) by (intro arg_cong [where f = length] filter_cong) auto
  then show ?thesis using length_filter_key [OF assms(1,2)] by simp
qed

text \<open>A trim of a cache that is one over the limit drops exactly one entry, one that expires first.\<close>

lemma trimLocked_cases:
  assumes "distinct (map fst (ns_entries s))" "int (length (ns_entries s)) \<le> ns_max s + 1" "0 \<le> ns_max s"
    and "\<forall>es. mset (sh es) = mset es"
  obtains "int (length (ns_entries s)) \<le> ns_max s" "trimLocked sh s = s"
  | k x where "int (length (ns_entries s)) = ns_max s + 1" "(k, x) \<in> set (ns_entries s)"
      "\<forall>p\<in>set (ns_entries s). x \<le> snd p"
      "ns_entries (trimLocked sh s) = filter (\<lambda>(n, _). n \<noteq> k) (ns_entries s)"
proof (cases "int (length (ns_entries s)) \<le> ns_max s")
  case True
  then show ?thesis by (intro that(1)) (simp_all add: trimLocked_def)
next
  case False
  define l where "l = sort_key snd (sh (ns_entries s))"
  have len: "int (length (ns_entries s)) = ns_max s + 1" using False assms(2) by simp
  have m: "mset l = mset (ns_entries s)" using assms(4) by (simp add: l_def)
  then have "length l = length (ns_entries s)" by (rule mset_eq_length)
  with len have n: "nat (int (length l) - ns_max s) = 1" and "l \<noteq> []" using assms(3) by auto
  then obtain k x t where l: "l = (k, x) # t" by (metis list.exhaust surj_pair)
  have set: "set l = set (ns_entries s)" using m by (rule mset_eq_setD)
  have "sorted (map snd l)" by (simp add: l_def)
  then have "\<forall>p\<in>set l. x \<le> snd p" using l by auto
  then have "\<forall>p\<in>set (ns_entries s). x \<le> snd p" using set by simp
  moreover have "(k, x) \<in> set (ns_entries s)" using l set by auto
  moreover have "take (nat (int (length l) - ns_max s)) l = [(k, x)]" using n l by simp
  then have "ns_entries (trimLocked sh s) = filter (\<lambda>(n, _). n \<noteq> k) (ns_entries s)"
    using False by (simp add: trimLocked_def Let_def l_def [symmetric])
  ultimately show ?thesis using len by (intro that(2))
qed

lemma trimLocked_ok:
  assumes "distinct (map fst (ns_entries s))" "int (length (ns_entries s)) \<le> ns_max s + 1" "0 \<le> ns_max s"
    and "\<forall>es. mset (sh es) = mset es"
  shows "distinct (map fst (ns_entries (trimLocked sh s)))" "int (length (ns_entries (trimLocked sh s))) \<le> ns_max s"
    "set (ns_entries (trimLocked sh s)) \<subseteq> set (ns_entries s)"
  by (rule trimLocked_cases [OF assms]; use assms(1) in \<open>auto simp: distinct_map_filter_fst dest: length_filter_key\<close>)+

lemma trimLocked_keeps:
  assumes "distinct (map fst (ns_entries s))" "int (length (ns_entries s)) \<le> ns_max s + 1" "0 \<le> ns_max s"
    and "\<forall>es. mset (sh es) = mset es"
    and "map_of (ns_entries s) n = Some e" "int (later_count n e (ns_entries s)) < ns_max s"
  shows "map_of (ns_entries (trimLocked sh s)) n = Some e"
    "later_count n e (ns_entries (trimLocked sh s)) \<le> later_count n e (ns_entries s)"
proof -
  have "map_of (ns_entries (trimLocked sh s)) n = Some e \<and>
    later_count n e (ns_entries (trimLocked sh s)) \<le> later_count n e (ns_entries s)"
  proof (rule trimLocked_cases [OF assms(1-4)])
    fix k x
    assume len: "int (length (ns_entries s)) = ns_max s + 1" and k: "(k, x) \<in> set (ns_entries s)"
      and least: "\<forall>p\<in>set (ns_entries s). x \<le> snd p"
      and trim: "ns_entries (trimLocked sh s) = filter (\<lambda>(n, _). n \<noteq> k) (ns_entries s)"
    have "k \<noteq> n"
    proof
      assume "k = n"
      then have "x = e" using k assms(1,5) by (auto simp: map_of_eq_Some_iff)
      then show False
        using later_count_all [OF assms(1), of n e] k least len assms(6) \<open>k = n\<close> by simp
    qed
    then show ?thesis
      unfolding trim using assms(1,5) by (auto simp: map_of_filter_Some later_count_filter)
  qed (use assms(5) in auto)
  then show "map_of (ns_entries (trimLocked sh s)) n = Some e"
    "later_count n e (ns_entries (trimLocked sh s)) \<le> later_count n e (ns_entries s)" by auto
qed

section \<open>The interface of a replay guard\<close>

text \<open>
  What the agent's server relies on: a recorded nonce stays recorded until it expires, as long as
  fewer nonces than the guard's reserve are recorded after it, and is rejected meanwhile.
\<close>

definition run_uses :: "('env \<Rightarrow> string \<Rightarrow> time \<Rightarrow> 's \<Rightarrow> 'e option \<times> 's) \<Rightarrow> ('env \<times> string \<times> time) list \<Rightarrow> 's \<Rightarrow> 's" where
  "run_uses f calls s = foldl (\<lambda>s (env, n, t). snd (f env n t s)) s calls"

locale replay_guard =
  fixes record_use :: "'env \<Rightarrow> string \<Rightarrow> time \<Rightarrow> 's \<Rightarrow> 'e option \<times> 's"
    and ok :: "'s \<Rightarrow> bool" and good_env :: "'env \<Rightarrow> bool" and moment :: "'env \<Rightarrow> time \<Rightarrow> time"
    and held :: "string \<Rightarrow> time \<Rightarrow> nat \<Rightarrow> 's \<Rightarrow> bool" and replay :: 'e
  assumes keeps_ok: "ok s \<Longrightarrow> good_env env \<Longrightarrow> ok (snd (record_use env n t s))"
    and keeps_held: "ok s \<Longrightarrow> good_env env \<Longrightarrow> held n e (Suc k) s \<Longrightarrow> moment env t < e \<Longrightarrow>
          held n e k (snd (record_use env m t s))"
    and rejects_held: "ok s \<Longrightarrow> held n e k s \<Longrightarrow> moment env t < e \<Longrightarrow> fst (record_use env n t s) = Some replay"
begin

lemma run_keeps:
  assumes "ok s" "held n e (length calls + k) s" "\<forall>(env, m, t)\<in>set calls. good_env env \<and> moment env t < e"
  shows "ok (run_uses record_use calls s) \<and> held n e k (run_uses record_use calls s)"
  using assms
proof (induction calls arbitrary: s)
  case (Cons c calls)
  obtain env m t where c: "c = (env, m, t)" by (cases c)
  have "ok (snd (record_use env m t s))" using Cons.prems c by (auto intro: keeps_ok)
  moreover have "held n e (length calls + k) (snd (record_use env m t s))"
    using Cons.prems c by (intro keeps_held) auto
  ultimately show ?case using Cons c by (auto simp: run_uses_def)
qed (simp add: run_uses_def)

lemma replay_rejected:
  assumes "ok s" "held n e (length calls) s" "\<forall>(env, m, t)\<in>set calls. good_env env \<and> moment env t < e"
    and "moment env' t' < e"
  shows "fst (record_use env' n t' (run_uses record_use calls s)) = Some replay"
  using run_keeps [of s n e calls 0] assms by (auto intro: rejects_held)

end

section \<open>The cache is a replay guard\<close>

definition moment_of :: "nonce_env \<Rightarrow> time \<Rightarrow> time" where
  "moment_of env now0 = (if now0 = zero_time then ne_clock env else now0)"

text \<open>The cache after purging and recording, before it is persisted.\<close>

definition recorded :: "nonce_env \<Rightarrow> string \<Rightarrow> time \<Rightarrow> NonceStore \<Rightarrow> NonceStore" where
  "recorded env n now s =
     (let s1 = fst (purgeLocked now s)
      in trimLocked (ne_shuffle env) (s1\<lparr>ns_entries := ns_entries s1 @ [(n, now + ns_ttl s)]\<rparr>))"

lemma Use_cases:
  obtains (invalid) e where "validateNonce n = Some e" "Use env n t (s, d) = (Some e, s, d)"
  | (replayed) "validateNonce n = None" "map_of (ns_entries (fst (purgeLocked (moment_of env t) s))) n \<noteq> None"
      "Use env n t (s, d) = (Some ErrNonceReplay, fst (purgeLocked (moment_of env t) s), d)"
  | (failed) e d1 where "validateNonce n = None" "map_of (ns_entries (fst (purgeLocked (moment_of env t) s))) n = None"
      "persistLocked (ne_faults env) (recorded env n (moment_of env t) s) d = (Some e, d1)"
      "Use env n t (s, d) = (Some (PersistFailed e), s, d1)"
  | (accepted) d1 where "validateNonce n = None" "map_of (ns_entries (fst (purgeLocked (moment_of env t) s))) n = None"
      "persistLocked (ne_faults env) (recorded env n (moment_of env t) s) d = (None, d1)"
      "Use env n t (s, d) = (None, recorded env n (moment_of env t) s, d1)"
proof (cases "validateNonce n")
  case (Some e)
  then show ?thesis by (intro invalid) (simp_all add: Use_def)
next
  case None
  let ?p = "fst (purgeLocked (moment_of env t) s)"
  let ?r = "recorded env n (moment_of env t) s"
  show ?thesis
  proof (cases "map_of (ns_entries ?p) n = None")
    case True
    have r: "trimLocked (ne_shuffle env) (?p\<lparr>ns_entries := map_set n (moment_of env t + ns_ttl ?p) (ns_entries ?p)\<rparr>) = ?r"
      unfolding recorded_def map_set_fresh [OF True] by (simp add: Let_def)
    have restored: "?r\<lparr>ns_entries := ns_entries s\<rparr> = s"
      by (simp add: recorded_def Let_def trimLocked_def purgeLocked_def)
    obtain e d1 where pe: "persistLocked (ne_faults env) ?r d = (e, d1)" by (cases "persistLocked (ne_faults env) ?r d")
    have u: "Use env n t (s, d) = (case e of Some e \<Rightarrow> (Some (PersistFailed e), s, d1) | None \<Rightarrow> (None, ?r, d1))"
      using None True unfolding Use_def Let_def moment_of_def [symmetric] fst_conv snd_conv r restored pe
      by (auto split: option.splits)
    show ?thesis
    proof (cases e)
      case None
      with u pe True \<open>validateNonce n = None\<close> show ?thesis by (intro accepted) auto
    next
      case (Some e')
      with u pe True \<open>validateNonce n = None\<close> show ?thesis by (intro failed) auto
    qed
  next
    case False
    with None show ?thesis by (intro replayed) (auto simp: Use_def Let_def moment_of_def)
  qed
qed

lemma purge_ok: "store_ok s \<Longrightarrow> store_ok (fst (purgeLocked now s))"
proof -
  assume s: "store_ok s"
  have "int (length (filter (\<lambda>(n, e). e > now) (ns_entries s))) \<le> int (length (ns_entries s))"
    by simp
  then have "int (length (filter (\<lambda>(n, e). e > now) (ns_entries s))) \<le> ns_max s"
    using s unfolding store_ok_def by linarith
  with s show ?thesis by (auto simp: store_ok_def distinct_map_filter_fst)
qed

lemma recorded_ok:
  assumes "store_ok s" "fair env" "validateNonce n = None" "map_of (ns_entries (fst (purgeLocked now s))) n = None"
  shows "store_ok (recorded env n now s)"
proof -
  define s2 where "s2 = (fst (purgeLocked now s))\<lparr>ns_entries := ns_entries (fst (purgeLocked now s)) @ [(n, now + ns_ttl s)]\<rparr>"
  have p: "store_ok (fst (purgeLocked now s))" using assms(1) by (rule purge_ok)
  have *: "distinct (map fst (ns_entries s2))" "int (length (ns_entries s2)) \<le> ns_max s2 + 1" "0 \<le> ns_max s2"
    using p assms(4) by (auto simp: s2_def store_ok_def map_of_eq_None_iff simp del: purgeLocked_fields(4))
  have sh: "\<forall>es. mset (ne_shuffle env es) = mset es" using assms(2) by (simp add: fair_def)
  have r: "recorded env n now s = trimLocked (ne_shuffle env) s2" by (simp add: recorded_def s2_def Let_def)
  have "\<forall>(m, e)\<in>set (ns_entries s2). validateNonce m = None"
    using p assms(3) by (auto simp: s2_def store_ok_def)
  then have "\<forall>(m, e)\<in>set (ns_entries (trimLocked (ne_shuffle env) s2)). validateNonce m = None"
    using trimLocked_ok(3) [OF * sh] by blast
  then show ?thesis
    unfolding r using trimLocked_ok(1,2) [OF * sh] p by (simp add: store_ok_def s2_def)
qed

lemma Use_keeps_ok: "store_ok s \<Longrightarrow> fair env \<Longrightarrow> store_ok (fst (snd (Use env n t (s, d))))"
  by (rule Use_cases [of n env t s d]) (auto intro: purge_ok recorded_ok)

lemma purge_pending: "store_ok s \<Longrightarrow> pending n e k s \<Longrightarrow> now < e \<Longrightarrow> pending n e k (fst (purgeLocked now s))"
  using later_count_filter [of n e "\<lambda>(n, e). e > now" "ns_entries s"]
  by (auto simp: pending_def store_ok_def map_of_filter_Some)

lemma later_count_snoc: "later_count n e (es @ [(m, x)]) \<le> Suc (later_count n e es)"
  by (simp add: later_count_def)

lemma recorded_keeps:
  assumes "store_ok s" "fair env" "map_of (ns_entries (fst (purgeLocked now s))) m = None"
    and "pending n e (Suc k) s" "now < e"
  shows "pending n e k (recorded env m now s)"
proof -
  define es where "es = ns_entries (fst (purgeLocked now s))"
  define s2 where "s2 = (fst (purgeLocked now s))\<lparr>ns_entries := es @ [(m, now + ns_ttl s)]\<rparr>"
  have p: "store_ok (fst (purgeLocked now s))" using assms(1) by (rule purge_ok)
  have pe: "pending n e (Suc k) (fst (purgeLocked now s))" using assms(1,4,5) by (rule purge_pending)
  have n: "map_of es n = Some e" and c: "int (later_count n e es + Suc k) < ns_max s2"
    using pe by (simp_all add: pending_def es_def s2_def)
  have *: "distinct (map fst (ns_entries s2))" "int (length (ns_entries s2)) \<le> ns_max s2 + 1" "0 \<le> ns_max s2"
    using p assms(3) by (auto simp: s2_def es_def store_ok_def map_of_eq_None_iff simp del: purgeLocked_fields(4))
  have sh: "\<forall>es. mset (ne_shuffle env es) = mset es" using assms(2) by (simp add: fair_def)
  have n2: "map_of (ns_entries s2) n = Some e" using n by (simp add: s2_def)
  have c2: "later_count n e (ns_entries s2) \<le> Suc (later_count n e es)"
    by (simp add: s2_def later_count_snoc)
  then have c3: "int (later_count n e (ns_entries s2)) < ns_max s2" using c by linarith
  have r: "recorded env m now s = trimLocked (ne_shuffle env) s2" by (simp add: recorded_def s2_def es_def Let_def)
  show ?thesis
    using trimLocked_keeps [OF * sh n2 c3] c c2 unfolding r pending_def by auto
qed

lemma recorded_new:
  assumes "store_ok s" "fair env" "map_of (ns_entries (fst (purgeLocked now s))) n = None"
    and "int (later_count n (now + ns_ttl s) (ns_entries s) + k) < ns_max s"
  shows "pending n (now + ns_ttl s) k (recorded env n now s)"
proof -
  let ?e = "now + ns_ttl s"
  define es where "es = ns_entries (fst (purgeLocked now s))"
  define s2 where "s2 = (fst (purgeLocked now s))\<lparr>ns_entries := es @ [(n, ?e)]\<rparr>"
  have p: "store_ok (fst (purgeLocked now s))" using assms(1) by (rule purge_ok)
  have *: "distinct (map fst (ns_entries s2))" "int (length (ns_entries s2)) \<le> ns_max s2 + 1" "0 \<le> ns_max s2"
    using p assms(3) by (auto simp: s2_def es_def store_ok_def map_of_eq_None_iff simp del: purgeLocked_fields(4))
  have sh: "\<forall>es. mset (ne_shuffle env es) = mset es" using assms(2) by (simp add: fair_def)
  have n2: "map_of (ns_entries s2) n = Some ?e" using assms(3) by (simp add: s2_def es_def map_add_def)
  have "later_count n ?e (ns_entries s2) \<le> later_count n ?e (ns_entries s)"
    using later_count_filter [of n ?e "\<lambda>(n, e). e > now" "ns_entries s"] by (simp add: s2_def es_def later_count_def)
  then have c2: "int (later_count n ?e (ns_entries s2) + k) < ns_max s2" using assms(4) by (simp add: s2_def)
  then have c3: "int (later_count n ?e (ns_entries s2)) < ns_max s2" by simp
  have r: "recorded env n now s = trimLocked (ne_shuffle env) s2" by (simp add: recorded_def s2_def es_def Let_def)
  show ?thesis
    using trimLocked_keeps [OF * sh n2 c3] c2 unfolding r pending_def by auto
qed

lemma pending_mono: "pending n e (Suc k) s \<Longrightarrow> pending n e k s"
  by (simp add: pending_def)

lemma Use_keeps_pending:
  "store_ok s \<Longrightarrow> fair env \<Longrightarrow> pending n e (Suc k) s \<Longrightarrow> moment_of env t < e \<Longrightarrow>
     pending n e k (fst (snd (Use env m t (s, d))))"
  by (rule Use_cases [of m env t s d]) (auto intro: purge_pending pending_mono recorded_keeps)

lemma Use_rejects_pending:
  assumes "store_ok s" "pending n e k s" "moment_of env t < e"
  shows "fst (Use env n t (s, d)) = Some ErrNonceReplay"
proof -
  have "(n, e) \<in> set (ns_entries s)" using assms(2) by (simp add: pending_def map_of_SomeD)
  then have "validateNonce n = None" using assms(1) by (auto simp: store_ok_def)
  moreover have "map_of (ns_entries (fst (purgeLocked (moment_of env t) s))) n = Some e"
    using purge_pending [OF assms] by (simp add: pending_def)
  ultimately show ?thesis
    by (rule_tac Use_cases [of n env t s d]) auto
qed

interpretation nonces: replay_guard Use "\<lambda>sd. store_ok (fst sd)" fair moment_of "\<lambda>n e k sd. pending n e k (fst sd)" ErrNonceReplay
proof unfold_locales
  fix s :: "NonceStore \<times> disk" and env n t e k m
  show "store_ok (fst s) \<Longrightarrow> fair env \<Longrightarrow> store_ok (fst (snd (Use env n t s)))"
    by (cases s) (simp add: Use_keeps_ok)
  show "store_ok (fst s) \<Longrightarrow> fair env \<Longrightarrow> pending n e (Suc k) (fst s) \<Longrightarrow> moment_of env t < e \<Longrightarrow>
      pending n e k (fst (snd (Use env m t s)))"
    by (cases s) (simp add: Use_keeps_pending)
  show "store_ok (fst s) \<Longrightarrow> pending n e k (fst s) \<Longrightarrow> moment_of env t < e \<Longrightarrow>
      fst (Use env n t s) = Some ErrNonceReplay"
    by (cases s) (simp add: Use_rejects_pending)
qed

lemma Use_accepted_pending:
  assumes "store_ok s" "fair env" "Use env n t (s, d) = (None, sd')"
    and "int (later_count n (moment_of env t + ns_ttl s) (ns_entries s) + k) < ns_max s"
  shows "pending n (moment_of env t + ns_ttl s) k (fst sd')"
  using assms(3)
  by (rule_tac Use_cases [of n env t s d]) (auto intro!: recorded_new [OF assms(1,2) _ assms(4)])

section \<open>Persistence\<close>

lemma validateNonceDirectory_keeps_file: "validateNonceDirectory ft c d = (e, d') \<Longrightarrow> dk_file d' = dk_file d"
  by (auto simp: validateNonceDirectory_def Let_def split: option.splits if_splits)

lemma persistLocked_memory: "persistLocked ft s d = (r, d') \<Longrightarrow> ns_path s = [] \<Longrightarrow> r = None \<and> d' = d"
  by (auto simp: persistLocked_def)

lemma persistLocked_None:
  "persistLocked ft s d = (None, d') \<Longrightarrow> ns_path s \<noteq> [] \<Longrightarrow>
     \<exists>f. dk_file d' = Some f \<and> fn_entries f = Some (ns_entries s)"
  by (auto simp: persistLocked_def split: prod.splits option.splits if_splits)

lemma persistLocked_Some: "persistLocked ft s d = (Some e, d') \<Longrightarrow> dk_file d' = dk_file d"
  by (auto simp: persistLocked_def dest: validateNonceDirectory_keeps_file split: prod.splits option.splits if_splits)

lemma recorded_fields [simp]:
  "ns_max (recorded env n now s) = ns_max s" "ns_ttl (recorded env n now s) = ns_ttl s"
  "ns_path (recorded env n now s) = ns_path s"
  by (simp_all add: recorded_def Let_def)

lemma foldl_map_set_fresh:
  "distinct (map fst (acc @ es)) \<Longrightarrow> foldl (\<lambda>acc (n, e). map_set n e acc) acc es = acc @ es"
proof (induction es arbitrary: acc)
  case (Cons p es)
  obtain n e where p: "p = (n, e)" by (cases p)
  have "map_of acc n = None" using Cons.prems p by (auto simp: map_of_eq_None_iff)
  then show ?case using Cons p by (simp add: map_set_fresh)
qed simp

text \<open>Reading back a file that holds the entries of a sound cache yields these entries.\<close>

lemma load_persisted:
  assumes "dk_file d = Some f" "fn_entries f = Some (ns_entries s)" "store_ok s"
    and "load ft \<lparr>ns_path = p, ns_ttl = ttl, ns_max = ns_max s, ns_entries = []\<rparr> d = Inr s1"
  shows "s1 = \<lparr>ns_path = p, ns_ttl = ttl, ns_max = ns_max s, ns_entries = ns_entries s\<rparr>"
proof -
  have "foldl (\<lambda>acc (n, e). map_set n e acc) [] (ns_entries s) = ns_entries s"
    using foldl_map_set_fresh [of "[]" "ns_entries s"] assms(3) by (simp add: store_ok_def)
  then show ?thesis
    using assms(1,2,4) by (auto simp: load_def split: option.splits if_splits)
qed

lemma NewNonceStore_Inr:
  assumes "NewNonceStore env path ttl maxEntries d = (Inr s, d')" "TrimSpace path \<noteq> []"
  obtains s1 where "load (ne_faults env) \<lparr>ns_path = TrimSpace path, ns_ttl = ttl, ns_max = maxEntries, ns_entries = []\<rparr> d = Inr s1"
    "s = fst (purgeLocked (ne_clock env) s1)" "0 < ttl" "128 \<le> maxEntries"
  using assms by (auto simp: NewNonceStore_def Let_def split: sum.splits prod.splits bool.splits option.splits if_splits)

section \<open>Properties\<close>

text \<open>
  The bounded replay cache works: once \<open>Use\<close> has accepted a nonce at time \<open>t\<close>, it
  rejects that nonce at every later call before \<open>t\<close> plus the TTL, whatever calls (with whatever
  nonces, times, system-call failures and map orders) come in between, as long as their number, with the
  entries that expire no earlier than the nonce, stays below the limit of the cache.
\<close>

theorem Use_rejects_replay:
  assumes "store_ok s" "fair env" "Use env n t (s, d) = (None, sd')"
    and "int (later_count n (moment_of env t + ns_ttl s) (ns_entries s) + length calls) < ns_max s"
    and "\<forall>(env1, m, t1)\<in>set calls. fair env1 \<and> moment_of env1 t1 < moment_of env t + ns_ttl s"
    and "moment_of env' t' < moment_of env t + ns_ttl s"
  shows "fst (Use env' n t' (run_uses Use calls sd')) = Some ErrNonceReplay"
proof (rule nonces.replay_rejected [OF _ _ assms(5,6)])
  show "store_ok (fst sd')" using Use_keeps_ok [OF assms(1,2), of n t d] assms(3) by simp
  show "pending n (moment_of env t + ns_ttl s) (length calls) (fst sd')"
    using assms(1-4) by (rule Use_accepted_pending)
qed

definition no_faults :: faults where
  "no_faults = \<lparr>ft_mkdir = False, ft_lstat_dir = False, ft_lstat_file = False, ft_read = False, ft_create = False,
     ft_chmod = False, ft_write = False, ft_sync = False, ft_close = False, ft_rename = False\<rparr>"

definition plain_env :: "time \<Rightarrow> nonce_env" where
  "plain_env now = \<lparr>ne_faults = no_faults, ne_shuffle = (\<lambda>es. es), ne_clock = now\<rparr>"

definition empty_store :: NonceStore where
  "empty_store = \<lparr>ns_path = [], ns_ttl = 600 * second, ns_max = 128, ns_entries = []\<rparr>"

definition empty_disk :: disk where
  "empty_disk = \<lparr>dk_dir = None, dk_file = None\<rparr>"

lemma plain_env_fair: "fair (plain_env now)"
  by (simp add: fair_def plain_env_def)

lemma sample_store_ok: "store_ok (empty_store\<lparr>ns_path := p\<rparr>)"
  by (simp add: store_ok_def empty_store_def)

theorem Use_rejects_replay_witness:
  "fst (Use (plain_env 0) ''nonce-0123456789'' (30 * second)
     (run_uses Use [(plain_env 0, ''other-0123456789'', 20 * second)]
        (snd (Use (plain_env 0) ''nonce-0123456789'' (10 * second) (empty_store, empty_disk))))) = Some ErrNonceReplay"
proof (rule Use_rejects_replay [where s = empty_store and d = empty_disk and env = "plain_env 0" and t = "10 * second"])
  show "store_ok empty_store" using sample_store_ok [of "[]"] by (simp add: empty_store_def)
  show "fair (plain_env 0)" by (rule plain_env_fair)
  have "fst (Use (plain_env 0) ''nonce-0123456789'' (10 * second) (empty_store, empty_disk)) = None"
    by code_simp
  then show "Use (plain_env 0) ''nonce-0123456789'' (10 * second) (empty_store, empty_disk) =
      (None, snd (Use (plain_env 0) ''nonce-0123456789'' (10 * second) (empty_store, empty_disk)))"
    by (metis prod.collapse)
qed (simp_all add: empty_store_def later_count_def moment_of_def plain_env_fair zero_time_def)

text \<open>
  C9. Restarting the agent does not reopen the replay window: after \<open>Use\<close> accepted a nonce with a
  persistent cache, a store opened from the resulting disk with the same limit either fails to open or
  rejects the nonce until the TTL has passed.
\<close>

theorem restart_rejects_replay:
  assumes "store_ok s" "fair env" "Use env n t (s, d) = (None, s', d')"
    and "ns_path s \<noteq> []" "TrimSpace path = ns_path s"
    and "int (later_count n (moment_of env t + ns_ttl s) (ns_entries s)) < ns_max s"
    and "NewNonceStore env2 path ttl2 (ns_max s) d' = (Inr s2, d2)"
    and "ne_clock env2 < moment_of env t + ns_ttl s" "moment_of env3 t3 < moment_of env t + ns_ttl s"
  shows "fst (Use env3 n t3 (s2, d2)) = Some ErrNonceReplay"
proof -
  let ?e = "moment_of env t + ns_ttl s"
  have ok': "store_ok s'" using Use_keeps_ok [OF assms(1,2), of n t d] assms(3) by simp
  have pend: "pending n ?e 0 s'"
    using Use_accepted_pending [OF assms(1-3), of 0] assms(6) by simp
  obtain f where f: "dk_file d' = Some f" "fn_entries f = Some (ns_entries s')" and m: "ns_max s' = ns_max s"
    using assms(3,4) by (rule_tac Use_cases [of n env t s d]) (auto dest: persistLocked_None)
  obtain s1 where l: "load (ne_faults env2) \<lparr>ns_path = TrimSpace path, ns_ttl = ttl2, ns_max = ns_max s', ns_entries = []\<rparr> d' = Inr s1"
    and s2: "s2 = fst (purgeLocked (ne_clock env2) s1)" and ttl: "0 < ttl2"
    using assms(4,5,7) m by (auto elim!: NewNonceStore_Inr)
  have s1: "s1 = \<lparr>ns_path = TrimSpace path, ns_ttl = ttl2, ns_max = ns_max s', ns_entries = ns_entries s'\<rparr>"
    using f ok' l by (rule load_persisted)
  have "store_ok s1" and "pending n ?e 0 s1" using ok' pend ttl by (simp_all add: s1 store_ok_def pending_def)
  then show ?thesis
    using assms(8,9) unfolding s2 by (intro Use_rejects_pending [of _ n ?e 0]) (auto intro: purge_ok purge_pending)
qed

definition kept_store :: NonceStore where
  "kept_store = \<lparr>ns_path = ''/var/db/nonces.json'', ns_ttl = 600 * second, ns_max = 128, ns_entries = []\<rparr>"

definition kept_run :: "nonce_error option \<times> NonceStore \<times> disk" where
  "kept_run = Use (plain_env 0) ''nonce-0123456789'' (10 * second) (kept_store, empty_disk)"

definition reopened :: "(nonce_error + NonceStore) \<times> disk" where
  "reopened = NewNonceStore (plain_env (20 * second)) ''/var/db/nonces.json'' (600 * second) 128 (snd (snd kept_run))"

lemma epoch_day: "civil 0 = (1970, 1, 1)"
  by code_simp

lemma epoch_digits: "digit_char 0 = CHR ''0''" "digit_char (Suc 0) = CHR ''1''" "digit_char 9 = CHR ''9''" "digit_char 7 = CHR ''7''"
  by code_simp+

lemma epoch_numbers:
  "FormatUint 1970 = ''1970''" "FormatUint (Suc 0) = ''1''" "FormatUint 0 = ''0''" "FormatUint 10 = ''10''"
  by (simp_all add: FormatUint.simps [of 1970] FormatUint.simps [of 197] FormatUint.simps [of 19]
      FormatUint.simps [of 10] FormatUint.simps [of 0] FormatUint.simps [of "Suc 0"] epoch_digits)

lemma kept_text: "RFC3339Nano 610000000000 = ''1970-01-01T00:10:10Z''"
  by (simp add: RFC3339Nano_def epoch_day pad_digits_def Let_def epoch_numbers frac_text_def epoch_digits)

lemma kept_marshal:
  "\<exists>data. marshal_entries [(''nonce-0123456789'', 610 * second)] = Some data \<and> length data \<le> 8 * 2 ^ 20"
  using epoch_day
  by (simp add: marshal_entries_def kept_text year_of_def Marshal_def sort_keys_def quote_def escape_plain go_simps)

lemma kept_nonce: "validateNonce ''nonce-0123456789'' = None"
  by (simp add: validateNonce_def nonce_char_def go_simps)

lemma kept_run_eq:
  obtains f where "fn_entries f = Some [(''nonce-0123456789'', 610 * second)]" "fn_size f \<le> 8 * 2 ^ 20"
    "\<not> fn_symlink f" "fn_regular f" "fn_perm f = 0x180"
    "kept_run = (None, kept_store\<lparr>ns_entries := [(''nonce-0123456789'', 610 * second)]\<rparr>,
       \<lparr>dk_dir = Some \<lparr>dn_symlink = False, dn_dir = True, dn_perm = 0x1C0\<rparr>, dk_file = Some f\<rparr>)"
proof -
  obtain data where "marshal_entries [(''nonce-0123456789'', 610 * second)] = Some data" "length data \<le> 8 * 2 ^ 20"
    using kept_marshal by blast
  then show ?thesis
    by (intro that [of "\<lparr>fn_symlink = False, fn_regular = True, fn_perm = 0x180, fn_size = length data,
          fn_entries = Some [(''nonce-0123456789'', 610 * second)]\<rparr>"])
      (simp_all add: kept_run_def Use_def kept_nonce kept_store_def plain_env_def zero_time_def purgeLocked_def
        trimLocked_def persistLocked_def empty_disk_def no_faults_def validateNonceDirectory_def)
qed

lemma reopened_eq: "fst reopened = Inr (kept_store\<lparr>ns_entries := [(''nonce-0123456789'', 610 * second)]\<rparr>)"
proof -
  have path: "TrimSpace ''/var/db/nonces.json'' = ''/var/db/nonces.json''" by code_simp
  have mask: "(0x1C0 AND 0x12 :: 32 word) = 0" "(0x180 AND 0x12 :: 32 word) = 0" by simp_all
  obtain f where f: "fn_entries f = Some [(''nonce-0123456789'', 610 * second)]" "fn_size f \<le> 8 * 2 ^ 20"
      "\<not> fn_symlink f" "fn_regular f" "fn_perm f = 0x180"
    and run: "kept_run = (None, kept_store\<lparr>ns_entries := [(''nonce-0123456789'', 610 * second)]\<rparr>,
       \<lparr>dk_dir = Some \<lparr>dn_symlink = False, dn_dir = True, dn_perm = 0x1C0\<rparr>, dk_file = Some f\<rparr>)"
    by (rule kept_run_eq)
  show ?thesis
    unfolding reopened_def run using f mask
    by (simp add: NewNonceStore_def path load_def validateNonceDirectory_def plain_env_def no_faults_def
        kept_nonce purgeLocked_def kept_store_def)
qed

theorem restart_rejects_replay_witness:
  "fst reopened = Inr (kept_store\<lparr>ns_entries := [(''nonce-0123456789'', 610 * second)]\<rparr>) \<and>
   fst (Use (plain_env 0) ''nonce-0123456789'' (30 * second)
     (kept_store\<lparr>ns_entries := [(''nonce-0123456789'', 610 * second)]\<rparr>, snd reopened)) = Some ErrNonceReplay"
proof
  let ?s = "kept_store\<lparr>ns_entries := [(''nonce-0123456789'', 610 * second)]\<rparr>"
  show "fst reopened = Inr ?s" by (rule reopened_eq)
  have "kept_run = (None, ?s, snd (snd kept_run))" by (metis kept_run_eq snd_conv)
  then have u: "Use (plain_env 0) ''nonce-0123456789'' (10 * second) (kept_store, empty_disk) = (None, ?s, snd (snd kept_run))"
    unfolding kept_run_def .
  have m: "ns_max kept_store = 128" by (simp add: kept_store_def)
  have n: "NewNonceStore (plain_env (20 * second)) ''/var/db/nonces.json'' (600 * second) (ns_max kept_store) (snd (snd kept_run))
      = (Inr ?s, snd reopened)"
    unfolding m reopened_def [symmetric] reopened_eq [symmetric] by (rule prod.collapse [symmetric])
  have path: "TrimSpace ''/var/db/nonces.json'' = ns_path kept_store" by code_simp
  have ok: "store_ok kept_store" by (simp add: store_ok_def kept_store_def)
  show "fst (Use (plain_env 0) ''nonce-0123456789'' (30 * second) (?s, snd reopened)) = Some ErrNonceReplay"
    by (rule restart_rejects_replay [OF ok plain_env_fair u _ path _ n])
      (simp_all add: kept_store_def later_count_def moment_of_def plain_env_def zero_time_def)
qed

text \<open>
  \<open>Use\<close> fails closed and is atomic on disk: when it returns an error, nothing new is
  recorded and the persisted file is as before; when it succeeds with a persistent cache, the file
  holds exactly the entries in memory.
\<close>

theorem Use_outcome:
  "case Use env n t (s, d) of
     (Some e, s', d') \<Rightarrow> set (ns_entries s') \<subseteq> set (ns_entries s) \<and> dk_file d' = dk_file d
   | (None, s', d') \<Rightarrow> (if ns_path s = [] then d' = d
        else (\<exists>f. dk_file d' = Some f \<and> fn_entries f = Some (ns_entries s')))"
  by (rule Use_cases [of n env t s d])
    (auto dest: persistLocked_memory persistLocked_Some persistLocked_None)

end
