(* ===== verification/Executor.thy ===== *)
theory Executor
  imports Protocol
begin

text \<open>
  The executors behind the agent's server: \<open>MockExecutor\<close> (\<open>server.go\<close>), the read-only executor
  with its command policy and bounded output (\<open>executor_readonly.go\<close>) and the redaction of command output.
  A command runner is a function from a command and an output limit to a result; an execution
  returns, beside the response, the list of commands that reached the runner.  The inventory
  collection of the FreeBSD adapter is a program that asks for commands one at a time (\<open>prog\<close>).
\<close>

section \<open>Commands\<close>

datatype ctx_error = DeadlineExceeded | Canceled

datatype exec_error =
    ErrMutationBlocked | ErrNotImplemented | ErrOutputLimit | ErrCommandDenied | OutsideCatalog | ServiceNotAllowed
  | PartialFailure | ContextDone ctx_error | InvalidExecutable | NotRegularExecutable | OsError string | EncodingError | ErrNotVerified
  | MissingInFixture string | Replayed string | FixtureNotLoaded

record commandSpec =
  cs_path :: string
  cs_args :: "string list"

record commandResult =
  cr_stdout :: string
  cr_stderr :: string
  cr_exitCode :: int

definition empty_result :: commandResult where
  "empty_result = \<lparr>cr_stdout = [], cr_stderr = [], cr_exitCode = 0\<rparr>"

type_synonym runner = "commandSpec \<Rightarrow> int \<Rightarrow> commandResult \<times> exec_error option"

definition commandAllowed :: "OperationSpec \<Rightarrow> commandSpec \<Rightarrow> bool" where
  "commandAllowed spec command =
     (if \<not> contains (os_Executables spec) (cs_path command) then False
      else case map_of (os_AllowedArguments spec) (cs_path command) of
             None \<Rightarrow> cs_args command = []
           | Some allowed \<Rightarrow> list_all (contains allowed) (cs_args command))"

definition service_names :: "(string \<times> string) list" where
  "service_names = [(''svc-smbd'', ''samba_server''), (''svc-winbindd'', ''winbindd''), (''svc-cupsd'', ''cupsd'')]"

definition as_string :: "json option \<Rightarrow> string" where
  "as_string v = (case v of Some (JStr s) \<Rightarrow> s | _ \<Rightarrow> [])"

definition command :: "string \<Rightarrow> string list \<Rightarrow> commandSpec" where
  "command p as = \<lparr>cs_path = p, cs_args = as\<rparr>"

definition readOnlyCommand :: "string \<Rightarrow> object \<Rightarrow> exec_error + commandSpec" where
  "readOnlyCommand operation payload =
     (if operation = ''system.inspect'' then Inr (command ''/usr/bin/uname'' [''-a''])
      else if operation = ''filesystem.inspect'' then Inr (command ''/sbin/mount'' [''-p''])
      else if operation = ''samba.inspect'' then Inr (command ''/usr/local/sbin/smbd'' [''-V''])
      else if operation = ''samba.config.validate'' then Inr (command ''/usr/local/bin/testparm'' [''-s''])
      else if operation = ''domain.member.diagnose'' then Inr (command ''/usr/local/bin/wbinfo'' [''--ping-dc''])
      else if operation = ''cups.inspect'' then Inr (command ''/usr/local/bin/lpstat'' [''-t''])
      else if operation = ''quota.read'' then Inr (command ''/usr/bin/quota'' [''-v''])
      else if operation = ''service.status'' then
        (case map_of service_names (as_string (map_of payload ''serviceId'')) of
           None \<Rightarrow> Inl ServiceNotAllowed
         | Some serviceName \<Rightarrow> Inr (command ''/usr/sbin/service'' [serviceName, ''status'']))
      else Inl ErrNotImplemented)"

definition inventoryField :: "string \<Rightarrow> string" where
  "inventoryField operation =
     (if operation = ''system.inspect'' then ''system''
      else if operation = ''capabilities.inspect'' then ''capabilities''
      else if operation = ''filesystem.inspect'' then ''filesystems''
      else if operation = ''samba.inspect'' then ''samba''
      else if operation = ''domain.member.diagnose'' then ''domain''
      else if operation = ''cups.inspect'' then ''cups''
      else [])"

definition commandErrorCode :: "ctx_error option \<Rightarrow> exec_error \<Rightarrow> string" where
  "commandErrorCode ctx err =
     (if err = ErrOutputLimit then ''output_limit''
      else if ctx = Some DeadlineExceeded then ''timeout''
      else if ctx = Some Canceled then ''cancelled''
      else ''execution_failed'')"

section \<open>Redaction of output\<close>

text \<open>
  \<open>redactOutput\<close> replaces every match of the multi-line, case-insensitive expression
  \<open>^([^\r\n]*(?:keyword)[^\r\n]*[=:]).*$\<close> by its group and \<open>[REDACTED]\<close>.  The match
  lies within one line; its group ends at the last \<open>=\<close> or \<open>:\<close> of the part of the line in
  front of the first carriage return, since the expression is greedy, and it exists when one of the
  keywords stands in front of that separator.
\<close>

definition redacted :: string where
  "redacted = ''[REDACTED]''"

definition output_keywords :: "string list" where
  "output_keywords =
     [''password'', ''passwd'', ''secret'', ''token'', ''credential'', ''authorization'', ''cookie'', ''keytab'',
      ''privatekey'', ''private_key'', ''private key'', ''private-key'', ''totp'', ''otp'',
      ''recoverycode'', ''recovery_code'', ''recovery code'', ''recovery-code'']"

definition separator :: "char \<Rightarrow> bool" where
  "separator c \<longleftrightarrow> c = CHR ''='' \<or> c = CHR '':''"

text \<open>The text in front of the last separator, and that separator with what follows.\<close>

definition before_last_separator :: "string \<Rightarrow> string" where
  "before_last_separator p = rev (drop 1 (dropWhile (\<lambda>c. \<not> separator c) (rev p)))"

definition upto_last_separator :: "string \<Rightarrow> string" where
  "upto_last_separator p = rev (dropWhile (\<lambda>c. \<not> separator c) (rev p))"

definition has_keyword :: "string \<Rightarrow> bool" where
  "has_keyword p \<longleftrightarrow> list_ex (\<lambda>kw. Contains (fold_canon p) kw) output_keywords"

definition redact_line :: "string \<Rightarrow> string" where
  "redact_line l =
     (let p = takeWhile (\<lambda>c. c \<noteq> CHR 0x0D) l
      in if list_ex separator p \<and> has_keyword (before_last_separator p)
         then upto_last_separator p @ redacted else l)"

definition redactOutput :: "string \<Rightarrow> string" where
  "redactOutput value = Join (map redact_line (split_at (CHR 0x0A) value)) [CHR 0x0A]"

section \<open>The executors\<close>

definition MockExecutor_Execute ::
  "string \<Rightarrow> ctx_error option \<Rightarrow> Request \<Rightarrow> OperationSpec \<Rightarrow> Response \<times> exec_error option" where
  "MockExecutor_Execute scenario done r s =
     (let out = zero_Response\<lparr>rs_RequestID := rq_RequestID r\<rparr>
      in if scenario = ''partial-failure'' then
           (out\<lparr>rs_ExitCode := 1, rs_Summary := ''Falha parcial simulada'', rs_ErrorCode := ''partial_failure''\<rparr>,
            Some PartialFailure)
         else case done of
           Some e \<Rightarrow> (out\<lparr>rs_Summary := ''Timeout'', rs_ErrorCode := ''timeout''\<rparr>, Some (ContextDone e))
         | None \<Rightarrow>
             if IsMutation s then
               (out\<lparr>rs_Success := True,
                  rs_Summary := (''Opera'' @ [CHR 0xC3, CHR 0xA7, CHR 0xC3, CHR 0xA3] @ ''o mut'' @ [CHR 0xC3, CHR 0xA1] @ ''vel simulada; nenhuma escrita no sistema foi realizada.''),
                  rs_Data := [(''operation'', JStr (rq_Operation r)), (''simulated'', JBool True)]\<rparr>, None)
             else
               (out\<lparr>rs_Success := True, rs_Summary := (''Opera'' @ [CHR 0xC3, CHR 0xA7, CHR 0xC3, CHR 0xA3] @ ''o somente leitura mockada conclu'' @ [CHR 0xC3, CHR 0xAD] @ ''da''),
                  rs_Data := [(''operation'', JStr (rq_Operation r))]\<rparr>, None))"

text \<open>
  A collection program: it returns a value or asks for one command and goes on with the answer; \<open>prog_bind\<close> runs one program after another.
\<close>

type_synonym answer = "commandResult \<times> exec_error option"

datatype 'a prog =
    Return 'a
  | Ask string "string list" "answer \<Rightarrow> 'a prog"

primrec prog_bind :: "'a prog \<Rightarrow> ('a \<Rightarrow> 'b prog) \<Rightarrow> 'b prog" where
  "prog_bind (Return v) f = f v"
| "prog_bind (Ask path args k) f = Ask path args (\<lambda>a. prog_bind (k a) f)"

definition catalogRunner_Run ::
  "runner \<Rightarrow> OperationSpec \<Rightarrow> int \<Rightarrow> string \<Rightarrow> string list \<Rightarrow> answer \<times> commandSpec list" where
  "catalogRunner_Run run spec outputLimit path args =
     (let c = command path args
      in if \<not> commandAllowed spec c then ((empty_result, Some ErrCommandDenied), [])
         else (run c outputLimit, [c]))"

primrec collect :: "runner \<Rightarrow> OperationSpec \<Rightarrow> int \<Rightarrow> 'a prog \<Rightarrow> 'a \<times> commandSpec list" where
  "collect run spec outputLimit (Return v) = (v, [])"
| "collect run spec outputLimit (Ask path args k) =
     (let (answer, cs) = catalogRunner_Run run spec outputLimit path args;
          (v, cs') = collect run spec outputLimit (k answer)
      in (v, cs @ cs'))"

record ReadOnlyExecutor =
  ro_runner :: runner
  ro_outputLimit :: int

definition NewReadOnlyExecutor :: "runner \<Rightarrow> int \<Rightarrow> ReadOnlyExecutor" where
  "NewReadOnlyExecutor run outputLimit =
     \<lparr>ro_runner = run, ro_outputLimit = (if outputLimit \<le> 0 then 128 * 2 ^ 10 else outputLimit)\<rparr>"

type_synonym exec_result = "(Response \<times> exec_error option) \<times> commandSpec list"

definition inventory_operations :: "string list" where
  "inventory_operations =
     [''system.inspect'', ''capabilities.inspect'', ''filesystem.inspect'', ''samba.inspect'',
      ''domain.member.diagnose'', ''cups.inspect'']"

definition executeInventory ::
  "(string \<Rightarrow> (exec_error + json) prog) \<Rightarrow> ReadOnlyExecutor \<Rightarrow> ctx_error option \<Rightarrow> Request \<Rightarrow> OperationSpec \<Rightarrow> exec_result" where
  "executeInventory provider e ctx request spec =
     (let out = zero_Response\<lparr>rs_RequestID := rq_RequestID request\<rparr>; op = rq_Operation request
      in if \<not> contains inventory_operations op then
           ((out\<lparr>rs_Summary := (''Invent'' @ [CHR 0xC3, CHR 0xA1] @ ''rio somente leitura indispon'' @ [CHR 0xC3, CHR 0xAD] @ ''vel.''), rs_ErrorCode := ''capability_unavailable''\<rparr>,
             Some ErrNotImplemented), [])
         else case collect (ro_runner e) spec (ro_outputLimit e) (provider op) of
           (Inl err, cs) \<Rightarrow>
             ((out\<lparr>rs_Summary := ''Coleta somente leitura falhou de forma controlada.'',
                 rs_ErrorCode := commandErrorCode ctx err\<rparr>, Some err), cs)
         | (Inr value, cs) \<Rightarrow>
             if \<not> encodable value then
               ((out\<lparr>rs_Summary := (''Falha ao estruturar invent'' @ [CHR 0xC3, CHR 0xA1] @ ''rio.''), rs_ErrorCode := ''encoding_failed''\<rparr>,
                 Some EncodingError), cs)
             else
               ((out\<lparr>rs_Success := True, rs_Summary := (''Invent'' @ [CHR 0xC3, CHR 0xA1] @ ''rio somente leitura conclu'' @ [CHR 0xC3, CHR 0xAD] @ ''do.''),
                   rs_Data := [(inventoryField op, decoded value)]\<rparr>, None), cs))"

definition ReadOnlyExecutor_Execute ::
  "(string \<Rightarrow> (exec_error + json) prog) \<Rightarrow> ReadOnlyExecutor \<Rightarrow> ctx_error option \<Rightarrow> Request \<Rightarrow> OperationSpec \<Rightarrow> exec_result" where
  "ReadOnlyExecutor_Execute provider e ctx request spec =
     (let out = zero_Response\<lparr>rs_RequestID := rq_RequestID request\<rparr>
      in if IsMutation spec then
           ((out\<lparr>rs_Summary := (''Opera'' @ [CHR 0xC3, CHR 0xA7, CHR 0xC3, CHR 0xA3] @ ''o mut'' @ [CHR 0xC3, CHR 0xA1] @ ''vel bloqueada at'' @ [CHR 0xC3, CHR 0xA9] @ '' homologa'' @ [CHR 0xC3, CHR 0xA7, CHR 0xC3, CHR 0xA3] @ ''o.''), rs_ErrorCode := ''mutation_blocked''\<rparr>,
             Some ErrMutationBlocked), [])
         else if inventoryField (rq_Operation request) \<noteq> [] then executeInventory provider e ctx request spec
         else case readOnlyCommand (rq_Operation request) (rq_Payload request) of
           Inl err \<Rightarrow>
             ((out\<lparr>rs_Summary := (''Opera'' @ [CHR 0xC3, CHR 0xA7, CHR 0xC3, CHR 0xA3] @ ''o somente leitura ainda n'' @ [CHR 0xC3, CHR 0xA3] @ ''o est'' @ [CHR 0xC3, CHR 0xA1] @ '' dispon'' @ [CHR 0xC3, CHR 0xAD] @ ''vel.''),
                 rs_ErrorCode := ''capability_unavailable''\<rparr>, Some err), [])
         | Inr c \<Rightarrow>
             if \<not> commandAllowed spec c then
               ((out\<lparr>rs_Summary := (''Pol'' @ [CHR 0xC3, CHR 0xAD] @ ''tica de execut'' @ [CHR 0xC3, CHR 0xA1] @ ''vel recusou a opera'' @ [CHR 0xC3, CHR 0xA7, CHR 0xC3, CHR 0xA3] @ ''o.''), rs_ErrorCode := ''policy_denied''\<rparr>,
                 Some OutsideCatalog), [])
             else let (result, err) = ro_runner e c (ro_outputLimit e);
                      response = out\<lparr>rs_Success := (err = None), rs_ExitCode := cr_exitCode result,
                        rs_Summary := (''Coleta somente leitura conclu'' @ [CHR 0xC3, CHR 0xAD] @ ''da.''),
                        rs_Stdout := redactOutput (cr_stdout result), rs_Stderr := redactOutput (cr_stderr result)\<rparr>
                  in case err of
                       None \<Rightarrow> ((response, None), [c])
                     | Some er \<Rightarrow>
                         ((response\<lparr>rs_Success := False, rs_ErrorCode := commandErrorCode ctx er,
                             rs_Summary := ''Coleta somente leitura falhou de forma controlada.''\<rparr>, Some er), [c]))"

section \<open>Bounded output of a command\<close>

record boundedBuffer =
  bb_buffer :: string
  bb_limit :: int
  bb_exceeded :: bool

definition newBoundedBuffer :: "int \<Rightarrow> boundedBuffer" where
  "newBoundedBuffer limit = \<lparr>bb_buffer = [], bb_limit = limit, bb_exceeded = False\<rparr>"

definition boundedBuffer_Write :: "boundedBuffer \<Rightarrow> string \<Rightarrow> boundedBuffer \<times> exec_error option" where
  "boundedBuffer_Write b data =
     (let remaining = bb_limit b - int (length (bb_buffer b));
          b1 = (if remaining > 0
                then b\<lparr>bb_buffer := bb_buffer b @
                         (if int (length data) > remaining then take (nat remaining) data else data)\<rparr>
                else b)
      in if int (length data) > remaining then (b1\<lparr>bb_exceeded := True\<rparr>, Some ErrOutputLimit) else (b1, None))"

definition write_all :: "boundedBuffer \<Rightarrow> string list \<Rightarrow> boundedBuffer" where
  "write_all b chunks = foldl (\<lambda>b data. fst (boundedBuffer_Write b data)) b chunks"

text \<open>
  What the operating system does for one command: the file at its path, what the process writes, its
  exit code and the error of \<open>cmd.Run\<close>.
\<close>

record os_outcome =
  oo_lstat :: "(bool \<times> bool) option"
  oo_stdout :: "string list"
  oo_stderr :: "string list"
  oo_exitCode :: int
  oo_error :: "exec_error option"

definition execCommandRunner_Run :: "(commandSpec \<Rightarrow> os_outcome) \<Rightarrow> runner" where
  "execCommandRunner_Run os c outputLimit =
     (if cs_path c = [] \<or> \<not> HasPrefix (cs_path c) ''/'' then (empty_result, Some InvalidExecutable)
      else case oo_lstat (os c) of
        None \<Rightarrow> (empty_result, Some (OsError ''lstat''))
      | Some (symlink, regular) \<Rightarrow>
          if symlink \<or> \<not> regular then (empty_result, Some NotRegularExecutable)
          else let out = write_all (newBoundedBuffer outputLimit) (oo_stdout (os c));
                   err = write_all (newBoundedBuffer outputLimit) (oo_stderr (os c));
                   result = \<lparr>cr_stdout = bb_buffer out, cr_stderr = bb_buffer err, cr_exitCode = oo_exitCode (os c)\<rparr>
               in if bb_exceeded out \<or> bb_exceeded err then (result, Some ErrOutputLimit)
                  else (result, oo_error (os c)))"

section \<open>Lemmas on commands\<close>

lemma collect_allowed: "c \<in> set (snd (collect run spec limit p)) \<Longrightarrow> commandAllowed spec c"
  by (induction p) (auto simp: catalogRunner_Run_def Let_def split_beta split: if_splits)

lemma Execute_allowed:
  "c \<in> set (snd (ReadOnlyExecutor_Execute provider e ctx request spec)) \<Longrightarrow> commandAllowed spec c \<and> \<not> IsMutation spec"
  using collect_allowed [of c "ro_runner e" spec "ro_outputLimit e" "provider (rq_Operation request)"]
  by (auto simp: ReadOnlyExecutor_Execute_def executeInventory_def Let_def split_beta
      split: if_splits option.splits sum.splits prod.splits)

lemma valid_entry_executable:
  "validate_entry (key, spec) = None \<Longrightarrow> x \<in> set (os_Executables spec) \<Longrightarrow> IsAbs x"
  by (auto simp: validate_entry_def Let_def split: if_splits)

lemma valid_entry_argument:
  "validate_entry (key, spec) = None \<Longrightarrow> (x, as) \<in> set (os_AllowedArguments spec) \<Longrightarrow> a \<in> set as \<Longrightarrow>
     a \<noteq> [] \<and> \<not> ContainsAny a control_chars"
  by (force simp: validate_entry_def validate_arguments_def Let_def split: if_splits)

lemma Catalog_entry_valid: "(key, spec) \<in> set Catalog \<Longrightarrow> validate_entry (key, spec) = None"
proof -
  have "ValidateCatalog Catalog = None" by (rule Catalog_valid)
  then show "(key, spec) \<in> set Catalog \<Longrightarrow> ?thesis" by (auto simp: ValidateCatalog_def split: if_splits)
qed

lemma commandAllowed_safe:
  assumes "(key, spec) \<in> set Catalog" "commandAllowed spec c"
  shows "IsAbs (cs_path c) \<and> cs_path c \<in> set (os_Executables spec) \<and>
    (\<forall>a\<in>set (cs_args c). a \<noteq> [] \<and> \<not> ContainsAny a control_chars)"
  using assms Catalog_entry_valid [OF assms(1)]
  by (auto simp: commandAllowed_def list_all_iff dest: valid_entry_executable valid_entry_argument map_of_SomeD
      split: if_splits option.splits)

section \<open>Lemmas on buffers\<close>

text \<open>The buffer after some writes: a prefix of all the data, cut at the limit.\<close>

definition buffered :: "int \<Rightarrow> string \<Rightarrow> boundedBuffer \<Rightarrow> bool" where
  "buffered limit written b \<longleftrightarrow>
     bb_limit b = limit \<and> bb_buffer b = take (nat limit) written \<and> (bb_exceeded b \<longleftrightarrow> int (length written) > limit)"

lemma buffered_new: "0 \<le> limit \<Longrightarrow> buffered limit [] (newBoundedBuffer limit)"
  by (simp add: buffered_def newBoundedBuffer_def)

lemma buffered_Write:
  "0 \<le> limit \<Longrightarrow> buffered limit written b \<Longrightarrow> buffered limit (written @ data) (fst (boundedBuffer_Write b data))"
proof -
  assume l: "0 \<le> limit" and b: "buffered limit written b"
  show ?thesis
  proof (cases "int (length written) \<ge> limit")
    case True
    then have "bb_buffer b = take (nat limit) (written @ data)" "int (length (bb_buffer b)) = limit"
      using b l by (auto simp: buffered_def)
    with b l True show ?thesis by (auto simp: buffered_def boundedBuffer_Write_def Let_def)
  next
    case False
    then have "bb_buffer b = written" using b l by (auto simp: buffered_def)
    moreover have "nat (limit - int (length written)) = nat limit - length written" using l by linarith
    ultimately show ?thesis using b l False by (auto simp: buffered_def boundedBuffer_Write_def Let_def)
  qed
qed

lemma buffered_write_all:
  "0 \<le> limit \<Longrightarrow> buffered limit written b \<Longrightarrow> buffered limit (written @ concat chunks) (write_all b chunks)"
proof (induction chunks arbitrary: b written)
  case (Cons data chunks)
  then show ?case
    using Cons.IH [of "written @ data" "fst (boundedBuffer_Write b data)"] buffered_Write
    by (simp add: write_all_def)
qed (simp add: write_all_def)

section \<open>Lemmas on redaction\<close>

lemma upto_last_separator_append:
  "\<forall>c\<in>set q. \<not> separator c \<Longrightarrow> upto_last_separator (upto_last_separator p @ q) = upto_last_separator p"
proof -
  assume q: "\<forall>c\<in>set q. \<not> separator c"
  have "dropWhile (\<lambda>c. \<not> separator c) (rev q @ dropWhile (\<lambda>c. \<not> separator c) (rev p))
      = dropWhile (\<lambda>c. \<not> separator c) (rev p)"
    using q by (subst dropWhile_append2) (simp_all add: dropWhile_idem)
  then show ?thesis by (simp add: upto_last_separator_def)
qed

lemma before_last_separator_eq: "before_last_separator p = butlast (upto_last_separator p)"
  by (simp add: before_last_separator_def upto_last_separator_def butlast_rev drop_Suc)

lemma upto_last_separator_prefix: "prefix (upto_last_separator p) p"
proof -
  have "suffix (dropWhile (\<lambda>c. \<not> separator c) (rev p)) (rev p)" by (rule suffix_dropWhile)
  then show ?thesis by (simp add: upto_last_separator_def suffix_to_prefix)
qed

lemma redacted_plain: "\<forall>c\<in>set redacted. \<not> separator c" "CHR 0x0A \<notin> set redacted" "CHR 0x0D \<notin> set redacted"
  by (simp_all add: redacted_def separator_def)

lemma redact_line_idem: "redact_line (redact_line l) = redact_line l"
proof (cases "let p = takeWhile (\<lambda>c. c \<noteq> CHR 0x0D) l in list_ex separator p \<and> has_keyword (before_last_separator p)")
  case True
  define p where "p = takeWhile (\<lambda>c. c \<noteq> CHR 0x0D) l"
  define q where "q = upto_last_separator p @ redacted"
  have l: "redact_line l = q" and sep: "list_ex separator p" and kw: "has_keyword (before_last_separator p)"
    using True by (simp_all add: redact_line_def p_def q_def Let_def)
  have "set (upto_last_separator p) \<subseteq> set p" using upto_last_separator_prefix by (rule set_mono_prefix)
  then have "\<forall>c\<in>set q. c \<noteq> CHR 0x0D"
    using redacted_plain(3) by (auto simp: q_def p_def dest: set_takeWhileD)
  then have t: "takeWhile (\<lambda>c. c \<noteq> CHR 0x0D) q = q" by (simp add: takeWhile_eq_all_conv)
  have u: "upto_last_separator q = upto_last_separator p"
    unfolding q_def using redacted_plain(1) by (rule upto_last_separator_append)
  have "list_ex separator (upto_last_separator p)"
    using sep by (auto simp: upto_last_separator_def list_ex_iff dropWhile_eq_Nil_conv intro: )
      (metis dropWhile_eq_Nil_conv hd_dropWhile hd_in_set set_rev)
  then have "list_ex separator q" by (auto simp: q_def list_ex_iff)
  then have "redact_line q = q"
    using kw by (simp add: redact_line_def t u before_last_separator_eq) (simp add: q_def)
  then show ?thesis by (simp add: l)
next
  case False
  then have "redact_line l = l" by (auto simp: redact_line_def Let_def)
  then show ?thesis by simp
qed

lemma redact_line_no_break: "CHR 0x0A \<notin> set l \<Longrightarrow> CHR 0x0A \<notin> set (redact_line l)"
proof -
  assume l: "CHR 0x0A \<notin> set l"
  let ?p = "takeWhile (\<lambda>c. c \<noteq> CHR 0x0D) l"
  have "set (upto_last_separator ?p) \<subseteq> set l"
    using set_mono_prefix [OF upto_last_separator_prefix [of ?p]] set_takeWhileD by fastforce
  then show ?thesis using l redacted_plain(2) by (auto simp: redact_line_def Let_def)
qed

lemma split_at_Join:
  "ls \<noteq> [] \<Longrightarrow> \<forall>l\<in>set ls. c \<notin> set l \<Longrightarrow> split_at c (Join ls [c]) = ls"
proof (induction ls)
  case (Cons l ls)
  then show ?case by (cases ls) (simp_all add: split_at_absent split_at_append)
qed simp

lemma redactOutput_lines: "split_at (CHR 0x0A) (redactOutput v) = map redact_line (split_at (CHR 0x0A) v)"
  unfolding redactOutput_def using split_at_no_sep [of "CHR 0x0A" v] redact_line_no_break
  by (intro split_at_Join) auto

lemma redactOutput_idem: "redactOutput (redactOutput v) = redactOutput v"
  unfolding redactOutput_def [of "redactOutput v"] redactOutput_lines
  by (simp add: redactOutput_def redact_line_idem comp_def)

section \<open>Properties\<close>

text \<open>
  Least privilege of the read-only executor: whatever the request holds and whatever an inventory
  program asks for, a command that reaches the runner belongs to a read-only entry of the catalog,
  names one of its executables by an absolute path and has only allow-listed arguments, none of them
  empty or with control characters.
\<close>

theorem executed_commands_allowed:
  assumes "(name, spec) \<in> set Catalog"
    and "c \<in> set (snd (ReadOnlyExecutor_Execute provider e ctx request spec))"
  shows "\<not> IsMutation spec \<and> cs_path c \<in> set (os_Executables spec) \<and> IsAbs (cs_path c) \<and>
    (\<forall>a\<in>set (cs_args c). a \<in> set (map_get (cs_path c) (os_AllowedArguments spec)) \<and> a \<noteq> [] \<and> \<not> ContainsAny a control_chars)"
proof -
  have c: "commandAllowed spec c" "\<not> IsMutation spec" using Execute_allowed [OF assms(2)] by auto
  then have "\<forall>a\<in>set (cs_args c). a \<in> set (map_get (cs_path c) (os_AllowedArguments spec))"
    by (auto simp: commandAllowed_def map_get_def list_all_iff split: option.splits if_splits)
  with c commandAllowed_safe [OF assms(1)] show ?thesis by blast
qed

definition echo_runner :: runner where
  "echo_runner c limit = (\<lparr>cr_stdout = ''ok'', cr_stderr = [], cr_exitCode = 0\<rparr>, None)"

definition status_request :: Request where
  "status_request =
     \<lparr>rq_Operation = ''service.status'', rq_OperationVersion = 1, rq_RequestID = ''req-1'', rq_Timestamp = 0, rq_Nonce = [],
      rq_KeyID = [], rq_Payload = [(''serviceId'', JStr ''svc-smbd''), (''action'', JStr ''health-check'')], rq_Signature = []\<rparr>"

theorem executed_commands_allowed_witness:
  "command ''/usr/sbin/service'' [''samba_server'', ''status'']
     \<in> set (snd (ReadOnlyExecutor_Execute (\<lambda>_. Return (Inr JNull)) (NewReadOnlyExecutor echo_runner 0) None status_request serviceStatus))
   \<and> IsAbs ''/usr/sbin/service''"
proof
  show c: "command ''/usr/sbin/service'' [''samba_server'', ''status'']
     \<in> set (snd (ReadOnlyExecutor_Execute (\<lambda>_. Return (Inr JNull)) (NewReadOnlyExecutor echo_runner 0) None status_request serviceStatus))"
    by code_simp
  have "(''service.status'', serviceStatus) \<in> set Catalog" by (simp add: Catalog_def)
  from executed_commands_allowed [OF this c] show "IsAbs ''/usr/sbin/service''" by (simp add: command_def)
qed

text \<open>
  Output of a command is bounded: for a non-negative limit, what \<open>execCommandRunner.Run\<close> returns of
  each stream is the stream cut at the limit, and the run reports \<open>ErrOutputLimit\<close> whenever
  something was cut, however the process splits its writes.
\<close>

theorem command_output_bounded:
  assumes "0 \<le> limit" "oo_lstat (os c) = Some (False, True)" "HasPrefix (cs_path c) ''/''"
  shows "case execCommandRunner_Run os c limit of (result, err) \<Rightarrow>
    cr_stdout result = take (nat limit) (concat (oo_stdout (os c))) \<and>
    cr_stderr result = take (nat limit) (concat (oo_stderr (os c))) \<and>
    ((int (length (concat (oo_stdout (os c)))) > limit \<or> int (length (concat (oo_stderr (os c)))) > limit)
       \<longrightarrow> err = Some ErrOutputLimit)"
proof -
  have "buffered limit ([] @ concat chunks) (write_all (newBoundedBuffer limit) chunks)" for chunks
    using assms(1) by (intro buffered_write_all buffered_new)
  then have "bb_buffer (write_all (newBoundedBuffer limit) chunks) = take (nat limit) (concat chunks)"
    "bb_exceeded (write_all (newBoundedBuffer limit) chunks) \<longleftrightarrow> int (length (concat chunks)) > limit" for chunks
    by (simp_all add: buffered_def)
  then show ?thesis using assms by (auto simp: execCommandRunner_Run_def Let_def)
qed

theorem command_output_bounded_witness:
  "cr_stdout (fst (execCommandRunner_Run (\<lambda>_. \<lparr>oo_lstat = Some (False, True), oo_stdout = [''abc'', ''def''], oo_stderr = [],
     oo_exitCode = 0, oo_error = None\<rparr>) (command ''/bin/cat'' []) 4)) = ''abcd''"
  using command_output_bounded [of 4 "\<lambda>_. \<lparr>oo_lstat = Some (False, True), oo_stdout = [''abc'', ''def''], oo_stderr = [],
     oo_exitCode = 0, oo_error = None\<rparr>" "command ''/bin/cat'' []"]
  by (simp add: command_def split_beta)

text \<open>
  Redaction of command output: it is idempotent and works line by line, and on a line
  \<open>key sep value\<close> whose key has one of the keywords and whose value has neither separator it removes the
  value.
\<close>

theorem redactOutput_correct:
  "redactOutput (redactOutput v) = redactOutput v \<and>
   split_at (CHR 0x0A) (redactOutput v) = map redact_line (split_at (CHR 0x0A) v) \<and>
   (CHR 0x0D \<notin> set (key @ val) \<and> has_keyword key \<and> separator c \<and> (\<forall>d\<in>set val. \<not> separator d)
      \<longrightarrow> redact_line (key @ c # val) = key @ c # redacted)"
proof (intro conjI impI redactOutput_idem redactOutput_lines)
  assume h: "CHR 0x0D \<notin> set (key @ val) \<and> has_keyword key \<and> separator c \<and> (\<forall>d\<in>set val. \<not> separator d)"
  then have "\<forall>d\<in>set (key @ c # val). d \<noteq> CHR 0x0D" by (auto simp: separator_def)
  then have t: "takeWhile (\<lambda>d. d \<noteq> CHR 0x0D) (key @ c # val) = key @ c # val"
    by (simp add: takeWhile_eq_all_conv)
  have "dropWhile (\<lambda>d. \<not> separator d) (rev val @ c # rev key) = c # rev key"
    using h by (subst dropWhile_append2) auto
  then have u: "upto_last_separator (key @ c # val) = key @ [c]" by (simp add: upto_last_separator_def)
  show "redact_line (key @ c # val) = key @ c # redacted"
    using h unfolding redact_line_def t Let_def before_last_separator_eq u by (simp add: list_ex_iff)
qed

theorem redactOutput_correct_witness:
  "redact_line ''Bind_Password = hunter2'' = ''Bind_Password =[REDACTED]''"
proof -
  have "has_keyword ''Bind_Password ''" by code_simp
  then show ?thesis
    using redactOutput_correct [of "[]" "''Bind_Password ''" "'' hunter2''" "CHR ''=''"]
    by (simp add: redacted_def separator_def)
qed

text \<open>
  The greedy expression keeps everything up to the last separator of a line: a secret
  with a separator inside, such as padded base64 text, is not removed.
\<close>

theorem redactOutput_leaks_before_last_separator:
  "redactOutput ''secret=dGVzdA=='' = ''secret=dGVzdA==[REDACTED]'' \<and>
   redactOutput ''password=abc:def'' = ''password=abc:[REDACTED]''"
  by code_simp

end
