(* ===== verification/AgentServer.thy ===== *)
theory AgentServer
  imports Signing Nonce Executor
begin

text \<open>
  The privileged agent's server: \<open>src/backend/internal/agent/server.go\<close>.  A server keeps the replay
  cache and the number of requests that hold a slot of the semaphore; the disk of the cache is beside it.
  \<open>handle\<close> is split at the point where it takes the slot: \<open>handle_gate\<close> holds the checks that
  change nothing, \<open>handle_admit\<close> takes the slot and records the nonce, \<open>handle_finish\<close> cleans
  the executor's response and gives the slot back.  The environment of a request holds what
  \<open>encoding/json\<close> makes of its body, the two readings of the clock (verification, nonce) and the
  environment of the nonce store.  The last section runs several requests concurrently.
\<close>

section \<open>Options and construction\<close>

record server_options =
  so_KeyRing :: KeyRing
  so_Executor :: bool
  so_MaxMessageBytes :: int
  so_MaxOutputBytes :: int
  so_MaxConcurrent :: int
  so_MaxClockSkew :: duration
  so_NonceTTL :: duration
  so_NonceCacheLimit :: int
  so_NonceStorePath :: string
  so_RequireCapabilities :: bool
  so_EnabledCapabilities :: "(string \<times> bool) list"
  so_EnableMutableOperations :: bool

record server =
  sv_keys :: KeyRing
  sv_nonces :: NonceStore
  sv_maxMessageBytes :: int
  sv_maxOutputBytes :: int
  sv_maxClockSkew :: duration
  sv_slots :: int
  sv_inflight :: int
  sv_requireCapabilities :: bool
  sv_capabilities :: "string list"
  sv_mutableEnabled :: bool

datatype server_error =
    InvalidCatalog catalog_error | InvalidKeys signing_error | NoExecutor | MessageLimit | OutputLimitRange
  | ConcurrencyRange | SkewRange | NonceTTLRange | NonceStoreFailed nonce_error

definition NewServerWithOptions :: "nonce_env \<Rightarrow> server_options \<Rightarrow> disk \<Rightarrow> (server_error + server) \<times> disk" where
  "NewServerWithOptions env opts d =
     (case ValidateCatalog Catalog of
        Some e \<Rightarrow> (Inl (InvalidCatalog e), d)
      | None \<Rightarrow>
     (case KeyRing_Validate (so_KeyRing opts) of
        Some e \<Rightarrow> (Inl (InvalidKeys e), d)
      | None \<Rightarrow>
          if \<not> so_Executor opts then (Inl NoExecutor, d)
          else if so_MaxMessageBytes opts \<le> 0 \<or> so_MaxMessageBytes opts > 8 * 2 ^ 20 then (Inl MessageLimit, d)
          else if so_MaxOutputBytes opts \<le> 0 \<or> so_MaxOutputBytes opts > 4 * 2 ^ 20 then (Inl OutputLimitRange, d)
          else if so_MaxConcurrent opts < 1 \<or> so_MaxConcurrent opts > 64 then (Inl ConcurrencyRange, d)
          else if so_MaxClockSkew opts \<le> 0 \<or> so_MaxClockSkew opts > 10 * minute then (Inl SkewRange, d)
          else if so_NonceTTL opts < so_MaxClockSkew opts \<or> so_NonceTTL opts > 24 * hour then (Inl NonceTTLRange, d)
          else (case NewNonceStore env (so_NonceStorePath opts) (so_NonceTTL opts) (so_NonceCacheLimit opts) d of
             (Inl e, d1) \<Rightarrow> (Inl (NonceStoreFailed e), d1)
           | (Inr nonces, d1) \<Rightarrow>
               (Inr \<lparr>sv_keys = so_KeyRing opts, sv_nonces = nonces, sv_maxMessageBytes = so_MaxMessageBytes opts,
                  sv_maxOutputBytes = so_MaxOutputBytes opts, sv_maxClockSkew = so_MaxClockSkew opts,
                  sv_slots = so_MaxConcurrent opts, sv_inflight = 0,
                  sv_requireCapabilities = so_RequireCapabilities opts,
                  sv_capabilities = map fst (filter snd (so_EnabledCapabilities opts)),
                  sv_mutableEnabled = so_EnableMutableOperations opts\<rparr>, d1))))"

text \<open>\<open>NewServer\<close> panics when \<open>NewServerWithOptions\<close> fails: \<open>None\<close>.\<close>

definition legacy_options :: "string \<Rightarrow> bool \<Rightarrow> server_options" where
  "legacy_options key exec =
     \<lparr>so_KeyRing = \<lparr>kr_CurrentKey = key, kr_CurrentID = ''legacy'', kr_PreviousKey = [], kr_PreviousID = []\<rparr>,
      so_Executor = exec, so_MaxMessageBytes = 2 ^ 20, so_MaxOutputBytes = 128 * 2 ^ 10, so_MaxConcurrent = 4,
      so_MaxClockSkew = 2 * minute, so_NonceTTL = 5 * minute, so_NonceCacheLimit = 4096, so_NonceStorePath = [],
      so_RequireCapabilities = False, so_EnabledCapabilities = [], so_EnableMutableOperations = False\<rparr>"

definition NewServer :: "nonce_env \<Rightarrow> string \<Rightarrow> bool \<Rightarrow> disk \<Rightarrow> server option \<times> disk" where
  "NewServer env key exec d =
     (case NewServerWithOptions env (legacy_options key exec) d of
        (Inl e, d1) \<Rightarrow> (None, d1)
      | (Inr s, d1) \<Rightarrow> (Some s, d1))"

section \<open>Decoding and checking a request\<close>

text \<open>What the JSON decoder makes of the body, limited by \<open>http.MaxBytesReader\<close>.\<close>

datatype decoded_body =
    BodyTooLarge | BodyInvalid | BodyTrailing Request | BodyRequest Request

record http_request =
  hr_ContentType :: string
  hr_ContentLength :: int
  hr_Body :: decoded_body

type_synonym reply = "nat \<times> Response"

definition fail :: "nat \<Rightarrow> string \<Rightarrow> string \<Rightarrow> string \<Rightarrow> reply" where
  "fail status requestID summary errorCode =
     (status, zero_Response\<lparr>rs_RequestID := requestID, rs_Summary := summary, rs_ErrorCode := errorCode\<rparr>)"

definition decodeRequest :: "server \<Rightarrow> http_request \<Rightarrow> reply + Request" where
  "decodeRequest s r =
     (let contentType = ToLower (hr_ContentType r)
      in if contentType \<noteq> [] \<and> \<not> HasPrefix contentType ''application/json'' then
           Inl (fail 415 [] ''Content-Type deve ser application/json'' ''unsupported_media_type'')
         else if hr_ContentLength r > sv_maxMessageBytes s then
           Inl (fail 413 [] ''Mensagem excede o limite permitido'' ''message_too_large'')
         else case hr_Body r of
           BodyTooLarge \<Rightarrow> Inl (fail 413 [] ''Mensagem excede o limite permitido'' ''message_too_large'')
         | BodyInvalid \<Rightarrow> Inl (fail 400 [] (''JSON inv'' @ [CHR 0xC3, CHR 0xA1] @ ''lido'') ''invalid_json'')
         | BodyTrailing q \<Rightarrow> Inl (fail 400 (rq_RequestID q) (''JSON deve conter uma '' @ [CHR 0xC3, CHR 0xBA] @ ''nica mensagem'') ''invalid_json'')
         | BodyRequest q \<Rightarrow> Inr q)"

definition validateEnvelope :: "Request \<Rightarrow> bool" where
  "validateEnvelope r =
     (if TrimSpace (rq_Operation r) = [] \<or> TrimSpace (rq_RequestID r) = [] \<or> TrimSpace (rq_Signature r) = [] then False
      else if length (rq_RequestID r) > 128 \<or> length (rq_Operation r) > 128 \<or> length (rq_KeyID r) > 64 then False
      else validateNonce (rq_Nonce r) = None)"

definition capabilityEnabled :: "server \<Rightarrow> string \<Rightarrow> bool" where
  "capabilityEnabled s capability =
     (if capability = [] \<or> \<not> sv_requireCapabilities s then True else contains (sv_capabilities s) capability)"

definition handle_gate :: "server \<Rightarrow> time \<Rightarrow> http_request \<Rightarrow> reply + Request \<times> OperationSpec" where
  "handle_gate s now h =
     (case decodeRequest s h of
        Inl rep \<Rightarrow> Inl rep
      | Inr r \<Rightarrow>
          if \<not> validateEnvelope r then
            Inl (fail 400 (rq_RequestID r) (''Envelope de agente inv'' @ [CHR 0xC3, CHR 0xA1] @ ''lido'') ''invalid_request'')
          else if VerifyWithKeyRing now r (sv_keys s) (sv_maxClockSkew s) \<noteq> None then
            Inl (fail 401 (rq_RequestID r) (''Autentica'' @ [CHR 0xC3, CHR 0xA7, CHR 0xC3, CHR 0xA3] @ ''o do agente recusada'') ''unauthorized'')
          else case LookupOperation (rq_Operation r) of
            None \<Rightarrow> Inl (fail 403 (rq_RequestID r) (''Opera'' @ [CHR 0xC3, CHR 0xA7, CHR 0xC3, CHR 0xA3] @ ''o n'' @ [CHR 0xC3, CHR 0xA3] @ ''o permitida'') ''operation_not_allowed'')
          | Some spec \<Rightarrow>
              if rq_OperationVersion r \<noteq> os_Version spec then
                Inl (fail 409 (rq_RequestID r) (''Vers'' @ [CHR 0xC3, CHR 0xA3] @ ''o de opera'' @ [CHR 0xC3, CHR 0xA7, CHR 0xC3, CHR 0xA3] @ ''o incompat'' @ [CHR 0xC3, CHR 0xAD] @ ''vel'') ''operation_version_mismatch'')
              else if \<not> capabilityEnabled s (os_RequiredCapability spec) then
                Inl (fail 503 (rq_RequestID r) (''Capability necess'' @ [CHR 0xC3, CHR 0xA1] @ ''ria n'' @ [CHR 0xC3, CHR 0xA3] @ ''o est'' @ [CHR 0xC3, CHR 0xA1] @ '' habilitada'') ''capability_unavailable'')
              else if Validate (os_Payload spec) (rq_Payload r) \<noteq> None then
                Inl (fail 422 (rq_RequestID r) (''Payload da opera'' @ [CHR 0xC3, CHR 0xA7, CHR 0xC3, CHR 0xA3] @ ''o inv'' @ [CHR 0xC3, CHR 0xA1] @ ''lido'') ''invalid_payload'')
              else if IsMutation spec \<and> \<not> sv_mutableEnabled s then
                Inl (fail 403 (rq_RequestID r) (''Opera'' @ [CHR 0xC3, CHR 0xA7, CHR 0xC3, CHR 0xB5] @ ''es mut'' @ [CHR 0xC3, CHR 0xA1] @ ''veis permanecem bloqueadas at'' @ [CHR 0xC3, CHR 0xA9] @ '' homologa'' @ [CHR 0xC3, CHR 0xA7, CHR 0xC3, CHR 0xA3] @ ''o'') ''mutation_blocked'')
              else Inr (r, spec))"

definition handle_admit :: "nonce_env \<Rightarrow> time \<Rightarrow> Request \<Rightarrow> server \<times> disk \<Rightarrow> reply option \<times> server \<times> disk" where
  "handle_admit env now r sd =
     (let s = fst sd; d = snd sd
      in if \<not> sv_inflight s < sv_slots s then
           (Some (fail 429 (rq_RequestID r) (''Limite de concorr'' @ [CHR 0xC3, CHR 0xAA] @ ''ncia atingido'') ''concurrency_limited''), s, d)
         else case Use env (rq_Nonce r) now (sv_nonces s, d) of
           (None, n, d1) \<Rightarrow> (None, s\<lparr>sv_nonces := n, sv_inflight := sv_inflight s + 1\<rparr>, d1)
         | (Some e, n, d1) \<Rightarrow>
             (Some (if e = ErrNonceReplay
                    then fail 409 (rq_RequestID r) (''Nonce j'' @ [CHR 0xC3, CHR 0xA1] @ '' utilizado'') ''replay''
                    else fail 503 (rq_RequestID r) (''Prote'' @ [CHR 0xC3, CHR 0xA7, CHR 0xC3, CHR 0xA3] @ ''o contra replay indispon'' @ [CHR 0xC3, CHR 0xAD] @ ''vel'') ''replay_store_unavailable''),
              s\<lparr>sv_nonces := n\<rparr>, d1))"

section \<open>Cleaning a response\<close>

definition truncation_marker :: string where
  "truncation_marker = CHR 0x0A # ''[TRUNCATED]''"

definition truncateAndRedact :: "string \<Rightarrow> int \<Rightarrow> string" where
  "truncateAndRedact value limit =
     (let v = redactOutput value
      in if int (length v) \<le> limit then v
         else if limit \<le> int (length truncation_marker) then take (nat limit) truncation_marker
         else take (nat (limit - int (length truncation_marker))) v @ truncation_marker)"

definition sensitive_words :: "string list" where
  "sensitive_words =
     [''password'', ''passwd'', ''secret'', ''token'', ''credential'', ''authorization'', ''cookie'', ''keytab'',
      ''privatekey'', ''totp'', ''otp'', ''recoverycode'']"

definition sensitiveDataKey :: "string \<Rightarrow> bool" where
  "sensitiveDataKey key =
     (let k = ToLower (remove_chars {CHR ''_''} key) in list_ex (\<lambda>w. Contains k w) sensitive_words)"

primrec redactNestedData :: "json \<Rightarrow> json" where
  "redactNestedData JNull = JNull"
| "redactNestedData (JBool b) = JBool b"
| "redactNestedData (JNum n) = JNum n"
| "redactNestedData (JStr s) = JStr (redactOutput s)"
| "redactNestedData (JArr vs) = JArr (map redactNestedData vs)"
| "redactNestedData (JObj m) =
     JObj (map (\<lambda>(key, child). (key, if sensitiveDataKey key then JStr redacted else child))
            (map (map_prod id redactNestedData) m))"
| "redactNestedData JUnencodable = JUnencodable"

definition redactResponseData :: "object \<Rightarrow> OperationSpec \<Rightarrow> object" where
  "redactResponseData data spec =
     map (\<lambda>(key, v). (key, if SensitiveField spec key \<or> sensitiveDataKey key then JStr redacted else redactNestedData v)) data"

definition code_char :: "char \<Rightarrow> bool" where
  "code_char c \<longleftrightarrow> is_lower c \<or> is_digit c \<or> c = CHR ''_'' \<or> c = CHR ''-'' \<or> c = CHR ''.''"

definition normalizeErrorCode :: "string \<Rightarrow> string" where
  "normalizeErrorCode value =
     (if value = [] then []
      else if length value > 80 then ''execution_failed''
      else if \<not> list_all code_char value then ''execution_failed''
      else value)"

definition clean_response :: "server \<Rightarrow> Request \<Rightarrow> OperationSpec \<Rightarrow> Response \<times> exec_error option \<Rightarrow> Response" where
  "clean_response s r spec res =
     (let response = fst res;
          r1 = response\<lparr>rs_RequestID := rq_RequestID r,
                 rs_Summary := truncateAndRedact (rs_Summary response) 4096,
                 rs_Stdout := truncateAndRedact (rs_Stdout response) (sv_maxOutputBytes s),
                 rs_Stderr := truncateAndRedact (rs_Stderr response) (sv_maxOutputBytes s),
                 rs_Data := redactResponseData (rs_Data response) spec,
                 rs_ErrorCode := normalizeErrorCode (rs_ErrorCode response)\<rparr>;
          r2 = (if snd res \<noteq> None \<and> rs_ErrorCode r1 = []
                then r1\<lparr>rs_Success := False, rs_ErrorCode := ''execution_failed'',
                        rs_Summary := (''Falha na execu'' @ [CHR 0xC3, CHR 0xA7, CHR 0xC3, CHR 0xA3] @ ''o controlada'')\<rparr> else r1)
      in if rs_Summary r2 = []
         then r2\<lparr>rs_Success := False, rs_ErrorCode := ''invalid_executor_response'',
                 rs_Summary := (''Executor retornou resposta inv'' @ [CHR 0xC3, CHR 0xA1] @ ''lida'')\<rparr>
         else r2)"

definition handle_finish :: "Request \<Rightarrow> OperationSpec \<Rightarrow> Response \<times> exec_error option \<Rightarrow> server \<Rightarrow> reply \<times> server" where
  "handle_finish r spec res s = ((200, clean_response s r spec res), s\<lparr>sv_inflight := sv_inflight s - 1\<rparr>)"

section \<open>Handling one request\<close>

type_synonym executor = "Request \<Rightarrow> OperationSpec \<Rightarrow> Response \<times> exec_error option"

text \<open>
  The result holds, beside the reply, the request and entry the executor was called with, if it was.
\<close>

definition handle ::
  "executor \<Rightarrow> nonce_env \<Rightarrow> time \<Rightarrow> time \<Rightarrow> http_request \<Rightarrow> server \<times> disk
    \<Rightarrow> reply \<times> (Request \<times> OperationSpec) option \<times> server \<times> disk" where
  "handle exec env now now' h sd =
     (case handle_gate (fst sd) now h of
        Inl rep \<Rightarrow> (rep, None, sd)
      | Inr (r, spec) \<Rightarrow>
          (case handle_admit env now' r sd of
             (Some rep, sd1) \<Rightarrow> (rep, None, sd1)
           | (None, s1, d1) \<Rightarrow>
               (case handle_finish r spec (exec r spec) s1 of (rep, s2) \<Rightarrow> (rep, Some (r, spec), s2, d1))))"

section \<open>Lemmas\<close>

lemma handle_gate_Inr:
  "handle_gate s now h = Inr (r, spec) \<longleftrightarrow>
     decodeRequest s h = Inr r \<and> validateEnvelope r \<and>
     VerifyWithKeyRing now r (sv_keys s) (sv_maxClockSkew s) = None \<and>
     LookupOperation (rq_Operation r) = Some spec \<and> rq_OperationVersion r = os_Version spec \<and>
     capabilityEnabled s (os_RequiredCapability spec) \<and> Validate (os_Payload spec) (rq_Payload r) = None \<and>
     (IsMutation spec \<longrightarrow> sv_mutableEnabled s)"
  by (auto simp: handle_gate_def split: sum.splits option.splits if_splits)

lemma decodeRequest_Inr:
  "decodeRequest s h = Inr r \<longleftrightarrow>
     (ToLower (hr_ContentType h) = [] \<or> HasPrefix (ToLower (hr_ContentType h)) ''application/json'') \<and>
     hr_ContentLength h \<le> sv_maxMessageBytes s \<and> hr_Body h = BodyRequest r"
  by (auto simp: decodeRequest_def Let_def split: decoded_body.splits if_splits)

lemma handle_admit_None:
  "handle_admit env now r (s, d) = (None, s', d') \<longleftrightarrow>
     sv_inflight s < sv_slots s \<and> (\<exists>n. Use env (rq_Nonce r) now (sv_nonces s, d) = (None, n, d') \<and>
       s' = s\<lparr>sv_nonces := n, sv_inflight := sv_inflight s + 1\<rparr>)"
  by (auto simp: handle_admit_def Let_def split: prod.splits option.splits if_splits)

lemma handle_admit_nonces:
  "sv_nonces (fst (snd (handle_admit env now r (s, d)))) =
     (if sv_inflight s < sv_slots s then fst (snd (Use env (rq_Nonce r) now (sv_nonces s, d))) else sv_nonces s)"
  by (auto simp: handle_admit_def Let_def split: prod.splits option.splits)

lemma handle_Some:
  "(\<exists>rep sd'. handle exec env now now' h (s, d) = (rep, Some (r, spec), sd')) \<longleftrightarrow>
     handle_gate s now h = Inr (r, spec) \<and> (\<exists>s1 d1. handle_admit env now' r (s, d) = (None, s1, d1))"
  by (auto simp: handle_def handle_finish_def split: sum.splits prod.splits option.splits)

lemma handle_server:
  "fst (snd (snd (handle exec env now now' h (s, d)))) =
     (case handle_gate s now h of
        Inl _ \<Rightarrow> s
      | Inr (r, spec) \<Rightarrow>
          (let a = handle_admit env now' r (s, d); s1 = fst (snd a)
           in if fst a = None then s1\<lparr>sv_inflight := sv_inflight s1 - 1\<rparr> else s1))"
  by (auto simp: handle_def handle_finish_def Let_def split: sum.splits prod.splits option.splits)

lemma handle_nonces:
  "sv_nonces (fst (snd (snd (handle exec env now now' h (s, d))))) =
     (case handle_gate s now h of
        Inl _ \<Rightarrow> sv_nonces s
      | Inr (r, spec) \<Rightarrow> sv_nonces (fst (snd (handle_admit env now' r (s, d)))))"
  unfolding handle_server by (simp add: Let_def split: sum.split prod.split)

lemma handle_admit_server: "\<exists>n k. fst (snd (handle_admit env now r (s, d))) = s\<lparr>sv_nonces := n, sv_inflight := k\<rparr>"
proof -
  obtain e n d1 where u: "Use env (rq_Nonce r) now (sv_nonces s, d) = (e, n, d1)"
    by (cases "Use env (rq_Nonce r) now (sv_nonces s, d)")
  show ?thesis
  proof (cases "sv_inflight s < sv_slots s")
    case True
    then have "fst (snd (handle_admit env now r (s, d))) =
        s\<lparr>sv_nonces := n, sv_inflight := sv_inflight s + (if e = None then 1 else 0)\<rparr>"
      unfolding handle_admit_def fst_conv snd_conv Let_def u by (cases e) simp_all
    then show ?thesis by blast
  next
    case False
    then have "fst (snd (handle_admit env now r (s, d))) = s\<lparr>sv_nonces := sv_nonces s, sv_inflight := sv_inflight s\<rparr>"
      unfolding handle_admit_def by simp
    then show ?thesis by blast
  qed
qed

lemma handle_admit_fixed:
  "sv_keys (fst (snd (handle_admit env now r (s, d)))) = sv_keys s"
  "sv_maxClockSkew (fst (snd (handle_admit env now r (s, d)))) = sv_maxClockSkew s"
  "sv_slots (fst (snd (handle_admit env now r (s, d)))) = sv_slots s"
  "sv_mutableEnabled (fst (snd (handle_admit env now r (s, d)))) = sv_mutableEnabled s"
  using handle_admit_server [of env now r s d] by auto

lemma handle_fixed:
  "sv_maxClockSkew (fst (snd (snd (handle exec env now now' h (s, d))))) = sv_maxClockSkew s"
  "sv_slots (fst (snd (snd (handle exec env now now' h (s, d))))) = sv_slots s"
  unfolding handle_server by (simp_all add: Let_def handle_admit_fixed split: sum.split prod.split)

lemma handle_ok:
  "store_ok (sv_nonces s) \<Longrightarrow> fair env \<Longrightarrow> store_ok (sv_nonces (fst (snd (snd (handle exec env now now' h (s, d))))))"
  unfolding handle_nonces handle_admit_nonces by (auto simp: Use_keeps_ok split: sum.splits)

lemma handle_pending:
  "store_ok (sv_nonces s) \<Longrightarrow> fair env \<Longrightarrow> pending n e (Suc k) (sv_nonces s) \<Longrightarrow> moment_of env now' < e \<Longrightarrow>
     pending n e k (sv_nonces (fst (snd (snd (handle exec env now now' h (s, d))))))"
  unfolding handle_nonces handle_admit_nonces using pending_mono [of n e k "sv_nonces s"]
  by (auto intro: Use_keeps_pending split: sum.splits)

text \<open>A sequence of requests handled one after the other.\<close>

type_synonym arrival = "executor \<times> nonce_env \<times> time \<times> time \<times> http_request"

definition run_handles :: "arrival list \<Rightarrow> server \<times> disk \<Rightarrow> server \<times> disk" where
  "run_handles calls sd = foldl (\<lambda>sd (exec, env, now, now', h). snd (snd (handle exec env now now' h sd))) sd calls"

lemma run_handles_pending:
  assumes "store_ok (sv_nonces (fst sd))" "pending n e (length calls + k) (sv_nonces (fst sd))"
    and "\<forall>(exec, env, now, now', h)\<in>set calls. fair env \<and> moment_of env now' < e"
  shows "store_ok (sv_nonces (fst (run_handles calls sd))) \<and> pending n e k (sv_nonces (fst (run_handles calls sd))) \<and>
    sv_maxClockSkew (fst (run_handles calls sd)) = sv_maxClockSkew (fst sd)"
  using assms
proof (induction calls arbitrary: sd)
  case (Cons c calls)
  obtain exec env now now' h where c: "c = (exec, env, now, now', h)" by (cases c) auto
  obtain s d where sd: "sd = (s, d)" by (cases sd)
  let ?sd = "snd (snd (handle exec env now now' h (s, d)))"
  have "store_ok (sv_nonces (fst ?sd))" using Cons.prems c sd by (auto intro: handle_ok)
  moreover have "pending n e (length calls + k) (sv_nonces (fst ?sd))"
    using Cons.prems c sd by (intro handle_pending) auto
  ultimately have "store_ok (sv_nonces (fst (run_handles calls ?sd))) \<and> pending n e k (sv_nonces (fst (run_handles calls ?sd)))
      \<and> sv_maxClockSkew (fst (run_handles calls ?sd)) = sv_maxClockSkew (fst ?sd)"
    using Cons.prems(3) by (intro Cons.IH) auto
  then show ?case using c sd by (simp add: run_handles_def handle_fixed)
qed (simp add: run_handles_def)

lemma verified_window:
  "handle_gate s now h = Inr (r, spec) \<Longrightarrow> \<bar>rq_Timestamp r - now\<bar> \<le> sv_maxClockSkew s"
  by (simp add: handle_gate_Inr VerifyWithKeyRing_None_iff)

lemma admitted_pending:
  assumes "store_ok (sv_nonces s)" "fair env" "handle exec env now now' h (s, d) = (rep, Some (r, spec), sd')"
    and "int (later_count (rq_Nonce r) (moment_of env now' + ns_ttl (sv_nonces s)) (ns_entries (sv_nonces s)) + k) < ns_max (sv_nonces s)"
  shows "pending (rq_Nonce r) (moment_of env now' + ns_ttl (sv_nonces s)) k (sv_nonces (fst sd'))"
proof -
  have g: "handle_gate s now h = Inr (r, spec)" and "\<exists>s1 d1. handle_admit env now' r (s, d) = (None, s1, d1)"
    using handle_Some [of exec env now now' h s d r spec] assms(3) by auto
  then obtain s1 d1 where a: "handle_admit env now' r (s, d) = (None, s1, d1)" by blast
  then obtain n where u: "Use env (rq_Nonce r) now' (sv_nonces s, d) = (None, n, d1)" and n: "n = sv_nonces s1"
    unfolding handle_admit_None by auto
  have "pending (rq_Nonce r) (moment_of env now' + ns_ttl (sv_nonces s)) k n"
    using Use_accepted_pending [OF assms(1,2) u assms(4)] by simp
  moreover have "sv_nonces (fst sd') = sv_nonces s1"
    using handle_nonces [of exec env now now' h s d] assms(3) g a by simp
  ultimately show ?thesis using n by simp
qed

section \<open>Properties of the gate\<close>

text \<open>
  C1. Exactly these requests reach the executor: a JSON content type within the size limit, one
  decoded message with a well-formed envelope, a signature under the key ring within the clock window, an
  operation of the catalog in its exact version, an enabled capability, a payload its schema accepts,
  no mutation unless mutations are enabled, a free slot, and a nonce that the replay cache
  accepts and records.
\<close>

theorem executor_called_iff:
  "(\<exists>rep sd'. handle exec env now now' h (s, d) = (rep, Some (r, spec), sd')) \<longleftrightarrow>
     (ToLower (hr_ContentType h) = [] \<or> HasPrefix (ToLower (hr_ContentType h)) ''application/json'') \<and>
     hr_ContentLength h \<le> sv_maxMessageBytes s \<and> hr_Body h = BodyRequest r \<and> validateEnvelope r \<and>
     VerifyWithKeyRing now r (sv_keys s) (sv_maxClockSkew s) = None \<and>
     LookupOperation (rq_Operation r) = Some spec \<and> rq_OperationVersion r = os_Version spec \<and>
     capabilityEnabled s (os_RequiredCapability spec) \<and> Validate (os_Payload spec) (rq_Payload r) = None \<and>
     \<not> (IsMutation spec \<and> \<not> sv_mutableEnabled s) \<and> sv_inflight s < sv_slots s \<and>
     fst (Use env (rq_Nonce r) now' (sv_nonces s, d)) = None"
  unfolding handle_Some handle_gate_Inr decodeRequest_Inr handle_admit_None
  by (cases "Use env (rq_Nonce r) now' (sv_nonces s, d)") auto

text \<open>
  C2. No replay: a request that was executed is not executed again, although its signature stays
  valid, when the TTL of the replay cache exceeds twice the clock skew (by more than the time between
  the two readings of the clock) and the cache is not flooded meanwhile.
\<close>

theorem executed_request_not_replayed:
  assumes "store_ok (sv_nonces s)" "fair env" "handle exec env now now' h (s, d) = (rep, Some (r, spec), sd1)"
    and "now \<le> moment_of env now'" "moment_of env2 now2' \<le> now2 + lag"
    and "2 * sv_maxClockSkew s + lag < ns_ttl (sv_nonces s)"
    and "int (later_count (rq_Nonce r) (moment_of env now' + ns_ttl (sv_nonces s)) (ns_entries (sv_nonces s)) + length calls)
           < ns_max (sv_nonces s)"
    and "\<forall>(ex, e, t, t', g)\<in>set calls. fair e \<and> moment_of e t' \<le> moment_of env2 now2'"
    and "hr_Body h2 = BodyRequest r"
  shows "fst (snd (handle exec2 env2 now2 now2' h2 (run_handles calls sd1))) = None"
proof (rule ccontr)
  obtain s2 d2 where sd2: "run_handles calls sd1 = (s2, d2)" by (cases "run_handles calls sd1")
  assume "fst (snd (handle exec2 env2 now2 now2' h2 (run_handles calls sd1))) \<noteq> None"
  then obtain r2 spec2 where "\<exists>rep sd'. handle exec2 env2 now2 now2' h2 (s2, d2) = (rep, Some (r2, spec2), sd')"
    unfolding sd2 by (metis not_None_eq old.prod.exhaust prod.collapse)
  then have g2: "handle_gate s2 now2 h2 = Inr (r2, spec2)"
    and a2: "\<exists>s3 d3. handle_admit env2 now2' r2 (s2, d2) = (None, s3, d3)"
    unfolding handle_Some by auto
  have r2: "r2 = r" using g2 assms(9) by (simp add: handle_gate_Inr decodeRequest_Inr)
  let ?e = "moment_of env now' + ns_ttl (sv_nonces s)"
  have g: "handle_gate s now h = Inr (r, spec)"
    using handle_Some [of exec env now now' h s d r spec] assms(3) by auto
  have skew1: "sv_maxClockSkew (fst sd1) = sv_maxClockSkew s"
    using handle_fixed(1) [of exec env now now' h s d] assms(3) by simp
  have ok1: "store_ok (sv_nonces (fst sd1))" using handle_ok [OF assms(1,2), of exec now now' h d] assms(3) by simp
  have late: "moment_of env2 now2' < ?e" if "sv_maxClockSkew s2 = sv_maxClockSkew s"
    using verified_window [OF g] verified_window [OF g2] that assms(4,5,6) unfolding r2 by linarith
  have pend1: "pending (rq_Nonce r) ?e (length calls) (sv_nonces (fst sd1))"
    using assms(1-3,7) by (rule admitted_pending)
  have skew2: "sv_maxClockSkew (fst (run_handles calls sd)) = sv_maxClockSkew (fst sd)" for sd
    by (induction calls arbitrary: sd) (auto simp: run_handles_def split_beta handle_fixed)
  then have before: "moment_of env2 now2' < ?e" using late skew1 sd2 by (metis fst_conv)
  have "store_ok (sv_nonces s2) \<and> pending (rq_Nonce r) ?e 0 (sv_nonces s2)"
    using run_handles_pending [of sd1 "rq_Nonce r" ?e calls 0] ok1 pend1 assms(8) before sd2 by force
  then have "fst (Use env2 (rq_Nonce r) now2' (sv_nonces s2, d2)) = Some ErrNonceReplay"
    using before by (auto intro: Use_rejects_pending)
  then show False using a2 unfolding r2 handle_admit_None by auto
qed

section \<open>A concrete run\<close>

definition signed_sample :: Request where
  "signed_sample = the (fst (SignWithKey (Some sample_request) (kr_CurrentKey sample_ring) (kr_CurrentID sample_ring)))"

definition sample_http :: http_request where
  "sample_http = \<lparr>hr_ContentType = ''application/json'', hr_ContentLength = 0, hr_Body = BodyRequest signed_sample\<rparr>"

definition sample_options :: "duration \<Rightarrow> server_options" where
  "sample_options ttl = (legacy_options (kr_CurrentKey sample_ring) True)\<lparr>so_KeyRing := sample_ring, so_NonceTTL := ttl\<rparr>"

definition sample_server :: "duration \<Rightarrow> server" where
  "sample_server ttl =
     \<lparr>sv_keys = sample_ring, sv_nonces = \<lparr>ns_path = [], ns_ttl = ttl, ns_max = 4096, ns_entries = []\<rparr>,
      sv_maxMessageBytes = 2 ^ 20, sv_maxOutputBytes = 128 * 2 ^ 10, sv_maxClockSkew = 2 * minute, sv_slots = 4, sv_inflight = 0,
      sv_requireCapabilities = False, sv_capabilities = [], sv_mutableEnabled = False\<rparr>"

lemma sample_server_new:
  "2 * minute \<le> ttl \<Longrightarrow> ttl \<le> 24 * hour \<Longrightarrow>
     NewServerWithOptions (plain_env 0) (sample_options ttl) empty_disk = (Inr (sample_server ttl), empty_disk)"
proof -
  have "ValidateCatalog Catalog = None" by (rule Catalog_valid)
  then show "2 * minute \<le> ttl \<Longrightarrow> ttl \<le> 24 * hour \<Longrightarrow> ?thesis"
    by (simp add: NewServerWithOptions_def sample_options_def legacy_options_def sample_ring_valid NewNonceStore_def sample_server_def)
qed

lemma signed_sample_sign:
  "SignWithKey (Some sample_request) (kr_CurrentKey sample_ring) (kr_CurrentID sample_ring) = (Some signed_sample, None)"
proof -
  obtain m where "canonical (sample_request\<lparr>rq_KeyID := kr_CurrentID sample_ring\<rparr>) = Inr m"
    using sample_canonical by blast
  then show ?thesis by (simp add: signed_sample_def SignWithKey_def)
qed

lemma signed_sample_fields:
  obtains mac where "signed_sample = sample_request\<lparr>rq_KeyID := kr_CurrentID sample_ring, rq_Signature := RawURL_EncodeToString mac\<rparr>"
    "length mac = 32"
proof -
  obtain m where m: "canonical (sample_request\<lparr>rq_KeyID := kr_CurrentID sample_ring\<rparr>) = Inr m"
    using sample_canonical by blast
  show ?thesis
    by (rule that [of "hmac_sha256 (kr_CurrentKey sample_ring) m"]) (simp_all add: signed_sample_def SignWithKey_def m)
qed

lemma sample_nonce: "rq_Nonce (sample_request\<lparr>rq_KeyID := i, rq_Signature := x\<rparr>) = ''0123456789abcdef''"
  by (simp add: sample_request_def)

lemma signed_sample_gate:
  assumes "\<bar>1700000000 * second - now\<bar> \<le> 2 * minute"
    and "sv_keys s = sample_ring" "sv_maxClockSkew s = 2 * minute" "sv_maxMessageBytes s = 2 ^ 20"
      "\<not> sv_requireCapabilities s"
  shows "handle_gate s now sample_http = Inr (signed_sample, cupsInspect)"
proof -
  obtain mac where f: "signed_sample = sample_request\<lparr>rq_KeyID := kr_CurrentID sample_ring, rq_Signature := RawURL_EncodeToString mac\<rparr>"
    and "length mac = 32" by (rule signed_sample_fields)
  then have mac: "TrimSpace (RawURL_EncodeToString mac) \<noteq> []"
    by (auto simp: TrimSpace_encode_url encode_with_Nil)
  have trim: "TrimSpace ''cups.inspect'' \<noteq> []" "TrimSpace ''req-1'' \<noteq> []" by code_simp+
  have "validateNonce ''0123456789abcdef'' = None" by code_simp
  then have "validateEnvelope signed_sample"
    using mac trim unfolding validateEnvelope_def f by (simp add: sample_request_def sample_ring_def)
  moreover have "VerifyWithKeyRing now signed_sample (sv_keys s) (sv_maxClockSkew s) = None"
    unfolding assms(2,3)
    by (rule signed_accepted [OF signed_sample_sign sample_ring_valid])
      (use assms(1) in \<open>simp_all add: sample_request_def zero_time_def\<close>)
  moreover have "LookupOperation ''cups.inspect'' = Some cupsInspect" by (simp add: LookupOperation_def Catalog_def)
  moreover have "os_Version cupsInspect = 2" "Validate (os_Payload cupsInspect) [] = None" "\<not> IsMutation cupsInspect"
    by code_simp+
  moreover have "ToLower ''application/json'' = ''application/json''" by code_simp
  ultimately show ?thesis
    unfolding handle_gate_Inr decodeRequest_Inr using assms(4,5)
    by (simp add: sample_http_def capabilityEnabled_def) (simp add: f sample_request_def)
qed

lemma memory_Use_fresh:
  assumes "validateNonce n = None" "ns_path s = []" "ns_max s = 4096" "filter (\<lambda>(n, e). e > now) (ns_entries s) = []"
    and "now \<noteq> zero_time"
  shows "Use (plain_env 0) n now (s, d) = (None, s\<lparr>ns_entries := [(n, now + ns_ttl s)]\<rparr>, d)"
  using assms by (simp add: Use_def purgeLocked_def trimLocked_def persistLocked_def Let_def)

lemma sample_handled:
  assumes "handle_gate s now sample_http = Inr (signed_sample, cupsInspect)" "sv_inflight s = 0" "sv_slots s = 4"
    and "ns_path (sv_nonces s) = []" "ns_max (sv_nonces s) = 4096"
    and "filter (\<lambda>(n, e). e > now) (ns_entries (sv_nonces s)) = []" "now \<noteq> zero_time"
  shows "\<exists>rep. handle exec (plain_env 0) now now sample_http (s, d) =
    (rep, Some (signed_sample, cupsInspect),
      s\<lparr>sv_nonces := (sv_nonces s)\<lparr>ns_entries := [(''0123456789abcdef'', now + ns_ttl (sv_nonces s))]\<rparr>\<rparr>, d)"
proof -
  have n: "rq_Nonce signed_sample = ''0123456789abcdef''"
    by (metis signed_sample_fields sample_nonce)
  have v: "validateNonce ''0123456789abcdef'' = None" by code_simp
  have "handle_admit (plain_env 0) now signed_sample (s, d) =
      (None, s\<lparr>sv_nonces := (sv_nonces s)\<lparr>ns_entries := [(''0123456789abcdef'', now + ns_ttl (sv_nonces s))]\<rparr>, sv_inflight := 1\<rparr>, d)"
    unfolding handle_admit_None n memory_Use_fresh [OF v assms(4-7)] using assms(2,3) by simp
  then show ?thesis using assms(1,2) by (simp add: handle_def handle_finish_def)
qed

theorem executed_request_not_replayed_witness:
  "\<exists>rep sd1. handle (MockExecutor_Execute [] None) (plain_env 0) (1700000010 * second) (1700000010 * second) sample_http
       (sample_server (5 * minute), empty_disk) = (rep, Some (signed_sample, cupsInspect), sd1) \<and>
     fst (snd (handle (MockExecutor_Execute [] None) (plain_env 0) (1700000060 * second) (1700000060 * second) sample_http
       (run_handles [] sd1))) = None"
proof -
  have g: "handle_gate (sample_server (5 * minute)) (1700000010 * second) sample_http = Inr (signed_sample, cupsInspect)"
    by (rule signed_sample_gate) (simp_all add: sample_server_def)
  obtain rep sd1 where h: "handle (MockExecutor_Execute [] None) (plain_env 0) (1700000010 * second) (1700000010 * second) sample_http
       (sample_server (5 * minute), empty_disk) = (rep, Some (signed_sample, cupsInspect), sd1)"
    using sample_handled [OF g, of "MockExecutor_Execute [] None" empty_disk]
    by (auto simp: sample_server_def zero_time_def)
  have ok: "store_ok (sv_nonces (sample_server (5 * minute)))" by (simp add: store_ok_def sample_server_def)
  have "fst (snd (handle (MockExecutor_Execute [] None) (plain_env 0) (1700000060 * second) (1700000060 * second) sample_http
       (run_handles [] sd1))) = None"
    by (rule executed_request_not_replayed [OF ok plain_env_fair h, where lag = 0])
      (simp_all add: moment_of_def zero_time_def sample_server_def later_count_def sample_http_def)
  with h show ?thesis by blast
qed

text \<open>
  C8. The condition on the TTL that \<open>NewServerWithOptions\<close> checks is not enough: with a TTL
  equal to the clock skew, which it accepts, a request stamped at the far end of the window is
  executed, and after the TTL has passed the very same request is executed again while its signature is
  still in the window.
\<close>

theorem ttl_equal_to_skew_allows_replay:
  "\<exists>rep1 sd1 rep2 sd2.
     so_NonceTTL (sample_options (2 * minute)) = so_MaxClockSkew (sample_options (2 * minute)) \<and>
     NewServerWithOptions (plain_env 0) (sample_options (2 * minute)) empty_disk = (Inr (sample_server (2 * minute)), empty_disk) \<and>
     handle (MockExecutor_Execute [] None) (plain_env 0) (1699999880 * second) (1699999880 * second) sample_http
       (sample_server (2 * minute), empty_disk) = (rep1, Some (signed_sample, cupsInspect), sd1) \<and>
     handle (MockExecutor_Execute [] None) (plain_env 0) (1700000001 * second) (1700000001 * second) sample_http sd1
       = (rep2, Some (signed_sample, cupsInspect), sd2)"
proof -
  let ?s = "sample_server (2 * minute)"
  let ?s1 = "?s\<lparr>sv_nonces := (sv_nonces ?s)\<lparr>ns_entries := [(''0123456789abcdef'', 1699999880 * second + ns_ttl (sv_nonces ?s))]\<rparr>\<rparr>"
  have g1: "handle_gate ?s (1699999880 * second) sample_http = Inr (signed_sample, cupsInspect)"
    by (rule signed_sample_gate) (simp_all add: sample_server_def)
  have g2: "handle_gate ?s1 (1700000001 * second) sample_http = Inr (signed_sample, cupsInspect)"
    by (rule signed_sample_gate) (simp_all add: sample_server_def)
  have 1: "\<exists>rep. handle (MockExecutor_Execute [] None) (plain_env 0) (1699999880 * second) (1699999880 * second) sample_http (?s, empty_disk)
      = (rep, Some (signed_sample, cupsInspect), ?s1, empty_disk)"
    by (rule sample_handled [OF g1]) (simp_all add: sample_server_def zero_time_def)
  have 2: "\<exists>rep sd2. handle (MockExecutor_Execute [] None) (plain_env 0) (1700000001 * second) (1700000001 * second) sample_http (?s1, empty_disk)
      = (rep, Some (signed_sample, cupsInspect), sd2)"
    using sample_handled [OF g2, of "MockExecutor_Execute [] None" empty_disk]
    by (auto simp: sample_server_def zero_time_def)
  have "so_NonceTTL (sample_options (2 * minute)) = so_MaxClockSkew (sample_options (2 * minute))"
    by (simp add: sample_options_def legacy_options_def)
  moreover have "NewServerWithOptions (plain_env 0) (sample_options (2 * minute)) empty_disk = (Inr ?s, empty_disk)"
    by (rule sample_server_new) simp_all
  ultimately show ?thesis using 1 2 by blast
qed

section \<open>Responses\<close>

lemma length_truncateAndRedact: "0 \<le> limit \<Longrightarrow> int (length (truncateAndRedact v limit)) \<le> limit"
  by (simp add: truncateAndRedact_def Let_def)

text \<open>A value in which every sensitive key of every nested object has the redaction mark.\<close>

primrec clean_json :: "json \<Rightarrow> bool" where
  "clean_json JNull = True"
| "clean_json (JBool b) = True"
| "clean_json (JNum n) = True"
| "clean_json (JStr s) = (redactOutput s = s)"
| "clean_json (JArr vs) = list_all id (map clean_json vs)"
| "clean_json (JObj m) =
     (list_all (\<lambda>(key, v). sensitiveDataKey key \<longrightarrow> v = JStr redacted) m \<and> list_all snd (map (map_prod id clean_json) m))"
| "clean_json JUnencodable = True"

lemma redactOutput_redacted: "redactOutput redacted = redacted"
  by code_simp

lemma clean_redactNestedData: "clean_json (redactNestedData v)"
proof (induction v)
  case (JStr s)
  then show ?case by (simp add: redactOutput_idem)
next
  case (JArr vs)
  then show ?case by (auto simp: list_all_iff)
next
  case (JObj m)
  then have "clean_json (redactNestedData c)" if "(k, c) \<in> set m" for k c
    using that by (metis snds.intros snd_conv)
  then show ?case by (auto simp: list_all_iff redactOutput_redacted)
qed simp_all

lemma clean_redactResponseData: "clean_json (JObj (redactResponseData data spec))"
  by (auto simp: redactResponseData_def list_all_iff clean_redactNestedData redactOutput_redacted)

lemma redactResponseData_sensitive:
  "(key, v) \<in> set (redactResponseData data spec) \<Longrightarrow> SensitiveField spec key \<Longrightarrow> v = JStr redacted"
  by (auto simp: redactResponseData_def)

lemma normalizeErrorCode_ok: "list_all code_char (normalizeErrorCode v)" "length (normalizeErrorCode v) \<le> 80"
proof -
  have "list_all code_char ''execution_failed''" by code_simp
  then show "list_all code_char (normalizeErrorCode v)" "length (normalizeErrorCode v) \<le> 80"
    by (simp_all add: normalizeErrorCode_def)
qed



section \<open>Concurrent requests\<close>

text \<open>
  Requests interleave: the atomic steps are a refusal, an admission, and the end of an execution.  A
  state holds the server, the disk and the executions under way.
\<close>

type_synonym agent_state = "server \<times> disk \<times> (Request \<times> OperationSpec) list"

inductive agent_step :: "agent_state \<Rightarrow> agent_state \<Rightarrow> bool" where
  gate_refuses: "handle_gate s now h = Inl rep \<Longrightarrow> agent_step (s, d, active) (s, d, active)"
| admission_refused:
    "handle_gate s now h = Inr (r, spec) \<Longrightarrow> handle_admit env now' r (s, d) = (Some rep, s', d') \<Longrightarrow>
       agent_step (s, d, active) (s', d', active)"
| admitted:
    "handle_gate s now h = Inr (r, spec) \<Longrightarrow> handle_admit env now' r (s, d) = (None, s', d') \<Longrightarrow>
       agent_step (s, d, active) (s', d', active @ [(r, spec)])"
| finished:
    "(r, spec) \<in> set active \<Longrightarrow> handle_finish r spec res s = (rep, s') \<Longrightarrow>
       agent_step (s, d, active) (s', d, remove1 (r, spec) active)"

inductive_cases agent_stepE: "agent_step (s, d, active) st'"

inductive agent_reachable :: "server \<times> disk \<Rightarrow> agent_state \<Rightarrow> bool" for sd0 where
  start: "agent_reachable sd0 (fst sd0, snd sd0, [])"
| step: "agent_reachable sd0 st \<Longrightarrow> agent_step st st' \<Longrightarrow> agent_reachable sd0 st'"

definition agent_inv :: "server \<Rightarrow> agent_state \<Rightarrow> bool" where
  "agent_inv s0 st =
     (case st of (s, d, active) \<Rightarrow>
        sv_slots s = sv_slots s0 \<and> sv_mutableEnabled s = sv_mutableEnabled s0 \<and>
        sv_inflight s = int (length active) \<and> int (length active) \<le> sv_slots s \<and>
        (\<forall>(r, spec)\<in>set active. LookupOperation (rq_Operation r) = Some spec \<and> (IsMutation spec \<longrightarrow> sv_mutableEnabled s0)))"

lemma admit_refused_inflight:
  "handle_admit env now r (s, d) = (Some rep, s', d') \<Longrightarrow>
     sv_inflight s' = sv_inflight s \<and> sv_slots s' = sv_slots s \<and> sv_mutableEnabled s' = sv_mutableEnabled s"
  by (cases "Use env (rq_Nonce r) now (sv_nonces s, d)")
    (auto simp: handle_admit_def Let_def split: option.splits if_splits)

lemma agent_step_inv: "agent_step st st' \<Longrightarrow> agent_inv s0 st \<Longrightarrow> agent_inv s0 st'"
proof (induction rule: agent_step.induct)
  case (admission_refused s now h r spec env now' d rep s' d' active)
  then show ?case using admit_refused_inflight [OF admission_refused(2)] by (auto simp: agent_inv_def)
next
  case (admitted s now h r spec env now' d s' d' active)
  then show ?case by (auto simp: agent_inv_def handle_admit_None handle_gate_Inr)
next
  case (finished r spec active res s rep s' d)
  then have "int (length (remove1 (r, spec) active)) = int (length active) - 1"
    using length_pos_if_in_set [OF finished(1)] by (simp add: length_remove1 of_nat_diff Suc_leI)
  then show ?case using finished set_remove1_subset [of "(r, spec)" active]
    by (auto simp: agent_inv_def handle_finish_def)
qed simp

lemma agent_reachable_inv:
  "agent_reachable sd0 st \<Longrightarrow> sv_inflight (fst sd0) = 0 \<Longrightarrow> 0 \<le> sv_slots (fst sd0) \<Longrightarrow> agent_inv (fst sd0) st"
  by (induction rule: agent_reachable.induct) (auto simp: agent_inv_def [of _ "(_, _, [])"] intro: agent_step_inv)

text \<open>
  C3. Under every interleaving of requests, at most \<open>MaxConcurrent\<close> executions are under way,
  every one of them is an operation of the catalog, and none mutates unless mutations are enabled; the
  semaphore counts exactly the executions under way, so no slot is lost.
\<close>

theorem concurrent_executions_bounded:
  assumes "agent_reachable (s0, d0) (s, d, active)" "sv_inflight s0 = 0" "0 \<le> sv_slots s0"
  shows "int (length active) \<le> sv_slots s0 \<and> sv_inflight s = int (length active) \<and>
    (\<forall>(r, spec)\<in>set active. LookupOperation (rq_Operation r) = Some spec \<and> (sv_mutableEnabled s0 \<or> \<not> IsMutation spec))"
  using agent_reachable_inv [OF assms(1)] assms(2,3) by (auto simp: agent_inv_def)

theorem concurrent_executions_bounded_witness:
  "\<exists>s d. agent_reachable (sample_server (5 * minute), empty_disk) (s, d, [(signed_sample, cupsInspect)]) \<and> sv_inflight s = 1"
proof -
  let ?s = "sample_server (5 * minute)" and ?t = "1700000010 * second :: int"
  have g: "handle_gate ?s ?t sample_http = Inr (signed_sample, cupsInspect)"
    by (rule signed_sample_gate) (simp_all add: sample_server_def)
  have "\<exists>rep sd'. handle (MockExecutor_Execute [] None) (plain_env 0) ?t ?t sample_http (?s, empty_disk) = (rep, Some (signed_sample, cupsInspect), sd')"
    using sample_handled [OF g, of "MockExecutor_Execute [] None" empty_disk]
    by (auto simp: sample_server_def zero_time_def)
  then obtain s1 d1 where a: "handle_admit (plain_env 0) ?t signed_sample (?s, empty_disk) = (None, s1, d1)"
    unfolding handle_Some by blast
  have "agent_reachable (?s, empty_disk) (?s, empty_disk, [])"
    using agent_reachable.start [of "(?s, empty_disk)"] by simp
  from agent_reachable.step [OF this agent_step.admitted [OF g a]]
  have r: "agent_reachable (?s, empty_disk) (s1, d1, [(signed_sample, cupsInspect)])" by simp
  have "sv_inflight s1 = 1"
    using concurrent_executions_bounded [OF r] by (simp add: sample_server_def)
  with r show ?thesis by blast
qed

end
