(* ===== verification/Store.thy ===== *)
theory Store
  imports Json
begin

text \<open>
  The storage layer: \<open>src/backend/internal/storage/store.go\<close>.  A database is a record with one list
  of rows per table; \<open>NULL\<close> is \<open>None\<close>, instants are the texts of \<open>GoTime\<close>, and an
  integer flag is a \<open>bool\<close>.  Every statement may fail for reasons outside the program: the
  n-th statement fails when \<open>db_fault n\<close> holds.  Primary keys, uniqueness and foreign keys are
  checked as the migrations declare them.  The clock is an argument of the operations that read it; the
  readings within one operation are taken to be the same.  Text comes back as it was stored: the C interface cuts it at a NUL byte
  (\<open>Sqlite\<close>), which the validators and encoders in front of these tables exclude; the audit log, which records the user name of
  a failed login as it came, models the cut.  Change requests, jobs and idempotency keys have
  theories of their own, on top of the tables declared here.
\<close>

datatype store_error =
    IOFault | ErrNoRows | ConstraintFailed | SessionExpired | NotPending | RequestExpired | InvalidDecision
  | ChangedConcurrently | NotApproved | ReservationNotReleased | InvalidFinalState | NotExecuting | NoReservation

section \<open>Tables\<close>

record user_row =
  us_id :: string
  us_username :: string
  us_display_name :: string
  us_password_hash :: string
  us_failed_attempts :: int
  us_locked_until :: "stamp option"
  us_created_at :: stamp

record security_row =
  se_user_id :: string
  se_break_glass :: bool
  se_mfa_required :: bool
  se_password_expires_at :: "stamp option"
  se_allowed_cidrs :: "string option"

record session_row =
  sn_id :: string
  sn_user_id :: string
  sn_csrf_token :: string
  sn_expires_at :: stamp
  sn_created_at :: stamp
  sn_last_seen_at :: stamp
  sn_ip :: string
  sn_user_agent :: string

record totp_row =
  tp_user_id :: string
  tp_secret :: string
  tp_pending :: "string option"
  tp_enabled_at :: "stamp option"
  tp_rotated_at :: "stamp option"

record recovery_row =
  rc_id :: string
  rc_user_id :: string
  rc_code_hash :: string
  rc_created_at :: stamp
  rc_used_at :: "stamp option"

record challenge_row =
  ch_id :: string
  ch_user_id :: string
  ch_csrf_token :: string
  ch_expires_at :: stamp
  ch_ip :: string
  ch_user_agent :: string
  ch_created_at :: stamp

record change_row =
  cg_id :: string
  cg_operation :: string
  cg_resource :: string
  cg_risk :: string
  cg_status :: string
  cg_requested_by :: string
  cg_requested_at :: stamp
  cg_justification :: string
  cg_maintenance_start :: "stamp option"
  cg_maintenance_end :: "stamp option"
  cg_impact :: string
  cg_rollback_plan :: string
  cg_payload_json :: string
  cg_required_capability :: "string option"
  cg_job_id :: "string option"
  cg_approved_by :: "string option"
  cg_approved_at :: "stamp option"
  cg_decision_reason :: "string option"
  cg_expires_at :: "stamp option"

record job_row =
  jb_id :: string
  jb_requested_by :: string
  jb_requested_at :: stamp
  jb_started_at :: "stamp option"
  jb_completed_at :: "stamp option"
  jb_operation :: string
  jb_resource :: string
  jb_status :: string
  jb_progress :: int
  jb_current_step :: string
  jb_summary :: string
  jb_error :: "string option"
  jb_correlation_id :: string
  jb_cancellable :: bool
  jb_rollback_available :: bool
  jb_payload_json :: string
  jb_lock_key :: string

record lock_row =
  lk_resource_key :: string
  lk_owner_job_id :: string
  lk_acquired_at :: stamp
  lk_expires_at :: stamp

record event_row =
  ev_event_type :: string
  ev_resource_id :: string
  ev_payload_json :: string
  ev_correlation_id :: string
  ev_created_at :: stamp

record idempotency_row =
  ik_key :: string
  ik_actor :: string
  ik_request_hash :: string
  ik_response_status :: int
  ik_response_body :: string
  ik_created_at :: stamp
  ik_expires_at :: stamp

record audit_row =
  au_id :: string
  au_timestamp :: string
  au_actor :: string
  au_roles_json :: string
  au_source :: string
  au_ip :: string
  au_operation :: string
  au_resource :: string
  au_before_json :: "string option"
  au_after_json :: "string option"
  au_result :: string
  au_correlation_id :: string
  au_job_id :: "string option"
  au_reason :: "string option"
  au_hash :: string
  au_previous_hash :: "string option"

record db =
  db_users :: "user_row list"
  db_security :: "security_row list"
  db_roles :: "(string \<times> string) list"
  db_user_roles :: "(string \<times> string) list"
  db_sessions :: "session_row list"
  db_totp :: "totp_row list"
  db_recovery :: "recovery_row list"
  db_challenges :: "challenge_row list"
  db_changes :: "change_row list"
  db_jobs :: "job_row list"
  db_locks :: "lock_row list"
  db_events :: "event_row list"
  db_idempotency :: "idempotency_row list"
  db_audit :: "audit_row list"
  db_fault :: "nat \<Rightarrow> bool"
  db_tick :: nat

definition empty_db :: db where
  "empty_db = \<lparr>db_users = [], db_security = [], db_roles = [], db_user_roles = [], db_sessions = [], db_totp = [],
     db_recovery = [], db_challenges = [], db_changes = [], db_jobs = [], db_locks = [], db_events = [],
     db_idempotency = [], db_audit = [], db_fault = (\<lambda>_. False), db_tick = 0\<rparr>"

section \<open>Statements\<close>

type_synonym ('e, 'a) eact = "db \<Rightarrow> ('e + 'a) \<times> db"
type_synonym 'a act = "(store_error, 'a) eact"

text \<open>One statement: it fails, or it runs on the database.\<close>

definition exec :: "'a act \<Rightarrow> 'a act" where
  "exec q d =
     (let d1 = d\<lparr>db_tick := Suc (db_tick d)\<rparr>
      in if db_fault d (db_tick d) then (Inl IOFault, d1) else q d1)"

text \<open>Sequencing with \<open>if err != nil { return err }\<close>, and with the error ignored.\<close>

definition andThen :: "('e, 'a) eact \<Rightarrow> ('a \<Rightarrow> ('e, 'b) eact) \<Rightarrow> ('e, 'b) eact" where
  "andThen a f d = (case a d of (Inl e, d1) \<Rightarrow> (Inl e, d1) | (Inr x, d1) \<Rightarrow> f x d1)"

definition ignoring :: "('e, 'a) eact \<Rightarrow> ('f, unit) eact" where
  "ignoring a d = (Inr (), snd (a d))"

definition return :: "'a \<Rightarrow> ('e, 'a) eact" where
  "return x d = (Inr x, d)"

definition raise :: "'e \<Rightarrow> ('e, 'a) eact" where
  "raise e d = (Inl e, d)"

text \<open>A statement inside an operation with errors of its own.\<close>

definition lifted :: "('e \<Rightarrow> 'f) \<Rightarrow> ('e, 'a) eact \<Rightarrow> ('f, 'a) eact" where
  "lifted c a d = (case a d of (Inl e, d1) \<Rightarrow> (Inl (c e), d1) | (Inr x, d1) \<Rightarrow> (Inr x, d1))"

text \<open>\<open>QueryRow\<close>: the first row that satisfies the condition.\<close>

definition query_row :: "(db \<Rightarrow> 'r list) \<Rightarrow> ('r \<Rightarrow> bool) \<Rightarrow> 'r act" where
  "query_row table P = exec (\<lambda>d. (case find P (table d) of None \<Rightarrow> (Inl ErrNoRows, d) | Some r \<Rightarrow> (Inr r, d)))"

definition user_exists :: "string \<Rightarrow> db \<Rightarrow> bool" where
  "user_exists uid d = list_ex (\<lambda>u. us_id u = uid) (db_users d)"

definition nullIfEmpty :: "string \<Rightarrow> string option" where
  "nullIfEmpty v = (if v = [] then None else Some v)"

definition coalesce :: "string option \<Rightarrow> string" where
  "coalesce v = (case v of None \<Rightarrow> [] | Some s \<Rightarrow> s)"

text \<open>\<open>UPDATE ... WHERE\<close>: the rows, and how many of them changed.\<close>

definition update_where :: "('r \<Rightarrow> bool) \<Rightarrow> ('r \<Rightarrow> 'r) \<Rightarrow> 'r list \<Rightarrow> 'r list" where
  "update_where P f rows = map (\<lambda>r. if P r then f r else r) rows"

definition affected :: "('r \<Rightarrow> bool) \<Rightarrow> 'r list \<Rightarrow> nat" where
  "affected P rows = length (filter P rows)"

section \<open>Users and roles\<close>

definition EnsureRole :: "string \<Rightarrow> string \<Rightarrow> unit act" where
  "EnsureRole rid name = exec (\<lambda>d.
     if list_ex (\<lambda>(i, n). i = rid \<or> n = name) (db_roles d) then (Inr (), d)
     else (Inr (), d\<lparr>db_roles := db_roles d @ [(rid, name)]\<rparr>))"

definition UserCount :: "int act" where
  "UserCount = exec (\<lambda>d. (Inr (int (length (db_users d))), d))"

definition default_security :: "string \<Rightarrow> security_row" where
  "default_security uid = \<lparr>se_user_id = uid, se_break_glass = False, se_mfa_required = False,
     se_password_expires_at = None, se_allowed_cidrs = None\<rparr>"

definition InsertUser :: "time \<Rightarrow> string \<Rightarrow> string \<Rightarrow> string \<Rightarrow> string \<Rightarrow> unit act" where
  "InsertUser now uid user display hash =
     andThen (exec (\<lambda>d.
       if list_ex (\<lambda>u. us_id u = uid \<or> us_username u = user) (db_users d) then (Inl ConstraintFailed, d)
       else (Inr (), d\<lparr>db_users := db_users d @ [\<lparr>us_id = uid, us_username = user, us_display_name = display,
               us_password_hash = hash, us_failed_attempts = 0, us_locked_until = None, us_created_at = format_time now\<rparr>]\<rparr>)))
     (\<lambda>_. exec (\<lambda>d.
       if list_ex (\<lambda>r. se_user_id r = uid) (db_security d) then (Inr (), d)
       else if \<not> user_exists uid d then (Inl ConstraintFailed, d)
       else (Inr (), d\<lparr>db_security := db_security d @ [default_security uid]\<rparr>)))"

definition AssignRole :: "string \<Rightarrow> string \<Rightarrow> unit act" where
  "AssignRole uid rid = exec (\<lambda>d.
     if list_ex (\<lambda>p. p = (uid, rid)) (db_user_roles d) then (Inr (), d)
     else if \<not> user_exists uid d \<or> \<not> list_ex (\<lambda>(i, n). i = rid) (db_roles d) then (Inl ConstraintFailed, d)
     else (Inr (), d\<lparr>db_user_roles := db_user_roles d @ [(uid, rid)]\<rparr>))"

record UserRecord =
  ur_ID :: string
  ur_Username :: string
  ur_DisplayName :: string
  ur_PasswordHash :: string
  ur_Failed :: int
  ur_LockedUntil :: "stamp option"
  ur_BreakGlass :: bool
  ur_MFARequired :: bool
  ur_PasswordExpiresAt :: "stamp option"
  ur_AllowedCIDRs :: "string option"

definition user_record :: "user_row \<Rightarrow> security_row option \<Rightarrow> UserRecord" where
  "user_record u sec =
     \<lparr>ur_ID = us_id u, ur_Username = us_username u, ur_DisplayName = us_display_name u, ur_PasswordHash = us_password_hash u,
      ur_Failed = us_failed_attempts u, ur_LockedUntil = us_locked_until u,
      ur_BreakGlass = (case sec of None \<Rightarrow> False | Some r \<Rightarrow> se_break_glass r),
      ur_MFARequired = (case sec of None \<Rightarrow> False | Some r \<Rightarrow> se_mfa_required r),
      ur_PasswordExpiresAt = (case sec of None \<Rightarrow> None | Some r \<Rightarrow> se_password_expires_at r),
      ur_AllowedCIDRs = (case sec of None \<Rightarrow> None | Some r \<Rightarrow> se_allowed_cidrs r)\<rparr>"

definition FindUser :: "string \<Rightarrow> UserRecord act" where
  "FindUser username = exec (\<lambda>d.
     case find (\<lambda>u. us_username u = username) (db_users d) of
       None \<Rightarrow> (Inl ErrNoRows, d)
     | Some u \<Rightarrow> (Inr (user_record u (find (\<lambda>r. se_user_id r = us_id u) (db_security d))), d))"

definition UserRoles :: "string \<Rightarrow> string list act" where
  "UserRoles uid = exec (\<lambda>d.
     (Inr (map snd (filter (\<lambda>(i, n). list_ex (\<lambda>p. p = (uid, i)) (db_user_roles d)) (db_roles d))), d))"

text \<open>\<open>INSERT ... ON CONFLICT(user_id) DO UPDATE\<close> on \<open>user_security\<close>.\<close>

definition upsert_security :: "string \<Rightarrow> (security_row \<Rightarrow> security_row) \<Rightarrow> unit act" where
  "upsert_security uid f = exec (\<lambda>d.
     if list_ex (\<lambda>r. se_user_id r = uid) (db_security d)
     then (Inr (), d\<lparr>db_security := update_where (\<lambda>r. se_user_id r = uid) f (db_security d)\<rparr>)
     else if \<not> user_exists uid d then (Inl ConstraintFailed, d)
     else (Inr (), d\<lparr>db_security := db_security d @ [f (default_security uid)]\<rparr>))"

definition SetBreakGlass :: "string \<Rightarrow> bool \<Rightarrow> unit act" where
  "SetBreakGlass uid enabled = upsert_security uid (\<lambda>r. r\<lparr>se_break_glass := enabled\<rparr>)"

definition SetMFARequired :: "string \<Rightarrow> bool \<Rightarrow> unit act" where
  "SetMFARequired uid required = upsert_security uid (\<lambda>r. r\<lparr>se_mfa_required := required\<rparr>)"

definition SetPasswordExpiry :: "string \<Rightarrow> time option \<Rightarrow> unit act" where
  "SetPasswordExpiry uid expiresAt =
     upsert_security uid (\<lambda>r. r\<lparr>se_password_expires_at := map_option format_time expiresAt\<rparr>)"

definition CountBreakGlassUsers :: "int act" where
  "CountBreakGlassUsers = exec (\<lambda>d. (Inr (int (affected se_break_glass (db_security d))), d))"

text \<open>The lock of an account: the result says whether it is locked, and until when.\<close>

definition RegisterLoginFailure :: "time \<Rightarrow> string \<Rightarrow> int \<Rightarrow> duration \<Rightarrow> (bool \<times> time) act" where
  "RegisterLoginFailure now uid threshold0 lockFor =
     (let threshold = (if threshold0 < 1 then 5 else threshold0); lockedUntil = now + lockFor
      in andThen (exec (\<lambda>d. (Inr (), d\<lparr>db_users := update_where (\<lambda>u. us_id u = uid)
              (\<lambda>u. u\<lparr>us_failed_attempts := us_failed_attempts u + 1,
                     us_locked_until := (if us_failed_attempts u + 1 \<ge> threshold then Some (format_time lockedUntil)
                                         else us_locked_until u)\<rparr>) (db_users d)\<rparr>)))
         (\<lambda>_. andThen (query_row db_users (\<lambda>u. us_id u = uid))
         (\<lambda>u. return (case us_locked_until u of
                 Some t \<Rightarrow> if parse_time t > now then (True, parse_time t) else (us_failed_attempts u \<ge> threshold, lockedUntil)
               | None \<Rightarrow> (us_failed_attempts u \<ge> threshold, lockedUntil)))))"

definition ResetLoginFailures :: "string \<Rightarrow> unit act" where
  "ResetLoginFailures uid = exec (\<lambda>d. (Inr (), d\<lparr>db_users := update_where (\<lambda>u. us_id u = uid)
     (\<lambda>u. u\<lparr>us_failed_attempts := 0, us_locked_until := None\<rparr>) (db_users d)\<rparr>))"

section \<open>Second factor\<close>

definition SavePendingTOTP :: "string \<Rightarrow> string \<Rightarrow> unit act" where
  "SavePendingTOTP uid pendingCiphertext = exec (\<lambda>d.
     if list_ex (\<lambda>r. tp_user_id r = uid) (db_totp d)
     then (Inr (), d\<lparr>db_totp := update_where (\<lambda>r. tp_user_id r = uid) (\<lambda>r. r\<lparr>tp_pending := Some pendingCiphertext\<rparr>) (db_totp d)\<rparr>)
     else if \<not> user_exists uid d then (Inl ConstraintFailed, d)
     else (Inr (), d\<lparr>db_totp := db_totp d @ [\<lparr>tp_user_id = uid, tp_secret = [], tp_pending = Some pendingCiphertext,
             tp_enabled_at = None, tp_rotated_at = None\<rparr>]\<rparr>))"

definition PendingTOTP :: "string \<Rightarrow> string act" where
  "PendingTOTP uid = andThen (query_row db_totp (\<lambda>r. tp_user_id r = uid))
     (\<lambda>r. case tp_pending r of None \<Rightarrow> raise ErrNoRows | Some v \<Rightarrow> if v = [] then raise ErrNoRows else return v)"

definition ActiveTOTP :: "string \<Rightarrow> string act" where
  "ActiveTOTP uid = andThen (query_row db_totp (\<lambda>r. tp_user_id r = uid))
     (\<lambda>r. if tp_secret r = [] then raise ErrNoRows else return (tp_secret r))"

definition ConfirmPendingTOTP :: "time \<Rightarrow> string \<Rightarrow> unit act" where
  "ConfirmPendingTOTP now uid =
     (let P = (\<lambda>r. tp_user_id r = uid \<and> tp_pending r \<noteq> None \<and> tp_pending r \<noteq> Some [])
      in exec (\<lambda>d.
           let d1 = d\<lparr>db_totp := update_where P (\<lambda>r. r\<lparr>tp_secret := coalesce (tp_pending r), tp_pending := None,
                        tp_enabled_at := Some (format_time now), tp_rotated_at := Some (format_time now)\<rparr>) (db_totp d)\<rparr>
           in if affected P (db_totp d) \<noteq> 1 then (Inl ErrNoRows, d1) else (Inr (), d1)))"

definition RevokeTOTP :: "string \<Rightarrow> unit act" where
  "RevokeTOTP uid = exec (\<lambda>d. (Inr (), d\<lparr>db_totp := filter (\<lambda>r. tp_user_id r \<noteq> uid) (db_totp d)\<rparr>))"

definition CreateRecoveryCode :: "time \<Rightarrow> string \<Rightarrow> string \<Rightarrow> string \<Rightarrow> unit act" where
  "CreateRecoveryCode now cid uid hash = exec (\<lambda>d.
     if list_ex (\<lambda>r. rc_id r = cid) (db_recovery d) \<or> \<not> user_exists uid d then (Inl ConstraintFailed, d)
     else (Inr (), d\<lparr>db_recovery := db_recovery d @ [\<lparr>rc_id = cid, rc_user_id = uid, rc_code_hash = hash,
             rc_created_at = format_time now, rc_used_at = None\<rparr>]\<rparr>))"

definition UnusedRecoveryCodes :: "string \<Rightarrow> recovery_row list act" where
  "UnusedRecoveryCodes uid = exec (\<lambda>d. (Inr (filter (\<lambda>r. rc_user_id r = uid \<and> rc_used_at r = None) (db_recovery d)), d))"

definition MarkRecoveryCodeUsed :: "time \<Rightarrow> string \<Rightarrow> unit act" where
  "MarkRecoveryCodeUsed now cid =
     (let P = (\<lambda>r. rc_id r = cid \<and> rc_used_at r = None)
      in exec (\<lambda>d.
           let d1 = d\<lparr>db_recovery := update_where P (\<lambda>r. r\<lparr>rc_used_at := Some (format_time now)\<rparr>) (db_recovery d)\<rparr>
           in if affected P (db_recovery d) \<noteq> 1 then (Inl ErrNoRows, d1) else (Inr (), d1)))"

definition DeleteRecoveryCodes :: "string \<Rightarrow> unit act" where
  "DeleteRecoveryCodes uid = exec (\<lambda>d. (Inr (), d\<lparr>db_recovery := filter (\<lambda>r. rc_user_id r \<noteq> uid) (db_recovery d)\<rparr>))"

record MFAChallengeRecord =
  mc_ID :: string
  mc_UserID :: string
  mc_CSRFToken :: string
  mc_IP :: string
  mc_UserAgent :: string
  mc_ExpiresAt :: time

definition CreateMFAChallenge :: "time \<Rightarrow> MFAChallengeRecord \<Rightarrow> unit act" where
  "CreateMFAChallenge now c =
     andThen (exec (\<lambda>d. (Inr (), d\<lparr>db_challenges := filter (\<lambda>r. \<not> stamp_less (ch_expires_at r) (format_time now)) (db_challenges d)\<rparr>)))
     (\<lambda>_. exec (\<lambda>d.
        if list_ex (\<lambda>r. ch_id r = mc_ID c) (db_challenges d) \<or> \<not> user_exists (mc_UserID c) d then (Inl ConstraintFailed, d)
        else (Inr (), d\<lparr>db_challenges := db_challenges d @ [\<lparr>ch_id = mc_ID c, ch_user_id = mc_UserID c, ch_csrf_token = mc_CSRFToken c,
                ch_expires_at = format_time (mc_ExpiresAt c), ch_ip = mc_IP c, ch_user_agent = mc_UserAgent c,
                ch_created_at = format_time now\<rparr>]\<rparr>)))"

definition delete_challenge :: "string \<Rightarrow> nat act" where
  "delete_challenge cid = exec (\<lambda>d.
     (Inr (affected (\<lambda>r. ch_id r = cid) (db_challenges d)), d\<lparr>db_challenges := filter (\<lambda>r. ch_id r \<noteq> cid) (db_challenges d)\<rparr>))"

definition ClaimMFAChallenge :: "time \<Rightarrow> string \<Rightarrow> MFAChallengeRecord act" where
  "ClaimMFAChallenge now cid =
     andThen (query_row db_challenges (\<lambda>r. ch_id r = cid))
     (\<lambda>r. if \<not> parse_time (ch_expires_at r) > now
          then andThen (ignoring (delete_challenge cid)) (\<lambda>_. raise ErrNoRows)
          else andThen (delete_challenge cid)
            (\<lambda>n. if n \<noteq> 1 then raise ErrNoRows
                 else return \<lparr>mc_ID = ch_id r, mc_UserID = ch_user_id r, mc_CSRFToken = ch_csrf_token r, mc_IP = ch_ip r,
                        mc_UserAgent = ch_user_agent r, mc_ExpiresAt = parse_time (ch_expires_at r)\<rparr>))"

section \<open>Sessions\<close>

definition CreateSession :: "time \<Rightarrow> string \<Rightarrow> string \<Rightarrow> string \<Rightarrow> time \<Rightarrow> string \<Rightarrow> string \<Rightarrow> unit act" where
  "CreateSession now sid uid csrf expires ip ua = exec (\<lambda>d.
     if list_ex (\<lambda>r. sn_id r = sid) (db_sessions d) \<or> \<not> user_exists uid d then (Inl ConstraintFailed, d)
     else (Inr (), d\<lparr>db_sessions := db_sessions d @ [\<lparr>sn_id = sid, sn_user_id = uid, sn_csrf_token = csrf,
             sn_expires_at = format_time expires, sn_created_at = format_time now, sn_last_seen_at = format_time now,
             sn_ip = ip, sn_user_agent = ua\<rparr>]\<rparr>))"

definition DeleteSession :: "string \<Rightarrow> unit act" where
  "DeleteSession sid = exec (\<lambda>d. (Inr (), d\<lparr>db_sessions := filter (\<lambda>r. sn_id r \<noteq> sid) (db_sessions d)\<rparr>))"

definition DeleteUserSessions :: "string \<Rightarrow> unit act" where
  "DeleteUserSessions uid = exec (\<lambda>d. (Inr (), d\<lparr>db_sessions := filter (\<lambda>r. sn_user_id r \<noteq> uid) (db_sessions d)\<rparr>))"

definition RotateSession :: "time \<Rightarrow> string \<Rightarrow> string \<Rightarrow> string \<Rightarrow> time \<Rightarrow> string \<Rightarrow> string \<Rightarrow> unit act" where
  "RotateSession now oldID newID csrf expires ip ua =
     andThen (query_row db_sessions (\<lambda>r. sn_id r = oldID))
     (\<lambda>r. if \<not> parse_time (sn_expires_at r) > now then raise SessionExpired
          else andThen (CreateSession now newID (sn_user_id r) csrf expires ip ua)
            (\<lambda>_ d. case DeleteSession oldID d of
                     (Inr (), d1) \<Rightarrow> (Inr (), d1)
                   | (Inl e, d1) \<Rightarrow> (Inl e, snd (DeleteSession newID d1))))"

record User =
  u_ID :: string
  u_Username :: string
  u_DisplayName :: string
  u_Roles :: "string list"
  u_BreakGlass :: bool
  u_MFAEnabled :: bool

definition zero_user :: User where
  "zero_user = \<lparr>u_ID = [], u_Username = [], u_DisplayName = [], u_Roles = [], u_BreakGlass = False, u_MFAEnabled = False\<rparr>"

definition session_user :: "user_row \<Rightarrow> security_row option \<Rightarrow> totp_row option \<Rightarrow> User" where
  "session_user u sec totp =
     \<lparr>u_ID = us_id u, u_Username = us_username u, u_DisplayName = us_display_name u, u_Roles = [],
      u_BreakGlass = (case sec of None \<Rightarrow> False | Some r \<Rightarrow> se_break_glass r),
      u_MFAEnabled = (case totp of None \<Rightarrow> False | Some r \<Rightarrow> tp_secret r \<noteq> [])\<rparr>"

text \<open>The join of the session with its user, the user's security row and second factor.\<close>

definition session_join :: "string \<Rightarrow> (User \<times> session_row) act" where
  "session_join sid = exec (\<lambda>d.
     case find (\<lambda>r. sn_id r = sid) (db_sessions d) of
       None \<Rightarrow> (Inl ErrNoRows, d)
     | Some r \<Rightarrow>
         (case find (\<lambda>u. us_id u = sn_user_id r) (db_users d) of
            None \<Rightarrow> (Inl ErrNoRows, d)
          | Some u \<Rightarrow> (Inr (session_user u (find (\<lambda>x. se_user_id x = us_id u) (db_security d))
                              (find (\<lambda>x. tp_user_id x = us_id u) (db_totp d)), r), d)))"

definition SessionUser :: "time \<Rightarrow> string \<Rightarrow> (User \<times> string) act" where
  "SessionUser now sid =
     andThen (session_join sid)
     (\<lambda>(u, r). if now > parse_time (sn_expires_at r) then raise SessionExpired
               else andThen (UserRoles (u_ID u)) (\<lambda>roles. return (u\<lparr>u_Roles := roles\<rparr>, sn_csrf_token r)))"

section \<open>Running statements\<close>

named_theorems act_simps \<open>definitions of the statement combinators\<close>

declare exec_def [act_simps] andThen_def [act_simps] ignoring_def [act_simps] return_def [act_simps]
  raise_def [act_simps] query_row_def [act_simps] lifted_def [act_simps]

lemma exec_ok: "\<not> db_fault d (db_tick d) \<Longrightarrow> exec q d = q (d\<lparr>db_tick := Suc (db_tick d)\<rparr>)"
  by (simp add: exec_def)

lemma andThen_Inr:
  "andThen a f d = (Inr y, d') \<longleftrightarrow> (\<exists>x d1. a d = (Inr x, d1) \<and> f x d1 = (Inr y, d'))"
  by (auto simp: andThen_def split: prod.splits sum.splits)

lemma exec_Inr:
  "exec q d = (Inr y, d') \<longleftrightarrow> \<not> db_fault d (db_tick d) \<and> q (d\<lparr>db_tick := Suc (db_tick d)\<rparr>) = (Inr y, d')"
  by (auto simp: exec_def Let_def)

lemma query_row_Inr:
  "query_row table P d = (Inr r, d') \<Longrightarrow> d' = d\<lparr>db_tick := Suc (db_tick d)\<rparr> \<and> r \<in> set (table d') \<and> P r"
  by (auto simp: query_row_def exec_Inr split: option.splits dest: find_Some_iff)

lemma set_update_where: "set (update_where P f rows) = (\<lambda>r. if P r then f r else r) ` set rows"
  by (simp add: update_where_def)

lemma affected_0: "affected P rows = 0 \<longleftrightarrow> (\<forall>r\<in>set rows. \<not> P r)"
  by (auto simp: affected_def filter_empty_conv)

text \<open>A property of a table that every statement keeps is kept by their compositions.\<close>

definition keeps :: "(db \<Rightarrow> bool) \<Rightarrow> ('e, 'a) eact \<Rightarrow> bool" where
  "keeps I a \<longleftrightarrow> (\<forall>d. I d \<longrightarrow> I (snd (a d)))"

lemma keeps_andThen: "keeps I a \<Longrightarrow> (\<And>x. keeps I (f x)) \<Longrightarrow> keeps I (andThen a f)"
proof -
  assume a: "keeps I a" and f: "\<And>x. keeps I (f x)"
  show ?thesis unfolding keeps_def
  proof (intro allI impI)
    fix d assume "I d"
    with a have "I (snd (a d))" by (simp add: keeps_def)
    with f show "I (snd (andThen a f d))"
      by (auto simp: andThen_def keeps_def split: prod.splits sum.splits)
  qed
qed

lemma keeps_return [simp]: "keeps I (return x)"
  by (simp add: keeps_def return_def)

lemma keeps_raise [simp]: "keeps I (raise e)"
  by (simp add: keeps_def raise_def)

lemma keeps_ignoring: "keeps I a \<Longrightarrow> keeps I (ignoring a)"
  by (simp add: keeps_def ignoring_def)

lemma keeps_lifted: "keeps I a \<Longrightarrow> keeps I (lifted c a)"
proof -
  assume a: "keeps I a"
  have "snd (lifted c a d) = snd (a d)" for d
    by (cases "a d"; cases "fst (a d)") (auto simp: lifted_def)
  with a show ?thesis by (simp add: keeps_def)
qed

lemma lifted_Inr: "lifted c a d = (Inr x, d') \<longleftrightarrow> a d = (Inr x, d')"
  by (auto simp: lifted_def split: prod.splits sum.splits)

lemma snd_lifted [simp]: "snd (lifted c a d) = snd (a d)"
  by (simp add: lifted_def split: prod.split sum.split)

lemma keeps_exec:
  "(\<And>d. I d \<Longrightarrow> I (snd (q d))) \<Longrightarrow> (\<And>d n. I d \<Longrightarrow> I (d\<lparr>db_tick := n\<rparr>)) \<Longrightarrow> keeps I (exec q)"
  by (simp add: keeps_def exec_def Let_def)

lemma keeps_query_row: "(\<And>d n. I d \<Longrightarrow> I (d\<lparr>db_tick := n\<rparr>)) \<Longrightarrow> keeps I (query_row table P)"
  unfolding query_row_def by (rule keeps_exec) (auto split: option.splits)

end
