(* ===== verification/Approval.thy ===== *)
theory Approval
  imports Store
begin

text \<open>
  Change requests: the policies and the service of \<open>src/backend/internal/approval/service.go\<close>, with the
  statements of \<open>src/backend/internal/storage/store.go\<close> they run on.  The last part is the
  state machine of all change requests under arbitrary interleavings and failing statements, in which an
  approval is split between its checks and its decision.
\<close>

section \<open>Policies\<close>

record Policy =
  po_Risk :: string
  po_RequiresApproval :: bool
  po_RequiresWindow :: bool
  po_RequiresSeparation :: bool
  po_RequiredCapability :: string

definition free_policy :: "string \<Rightarrow> string \<Rightarrow> Policy" where
  "free_policy risk capability = \<lparr>po_Risk = risk, po_RequiresApproval = False, po_RequiresWindow = False,
     po_RequiresSeparation = False, po_RequiredCapability = capability\<rparr>"

definition guarded_policy :: "string \<Rightarrow> string \<Rightarrow> Policy" where
  "guarded_policy risk capability = \<lparr>po_Risk = risk, po_RequiresApproval = True, po_RequiresWindow = True,
     po_RequiresSeparation = True, po_RequiredCapability = capability\<rparr>"

definition Policies :: "(string \<times> Policy) list" where
  "Policies =
     [(''system.inspect'', free_policy ''read'' ''system.inspect''),
      (''filesystem.inspect'', free_policy ''read'' ''filesystem.read''),
      (''acl.read'', free_policy ''read'' ''acl.nfsv4.read''),
      (''cups.inspect'', free_policy ''read'' ''cups.inspect''),
      (''domain.member.diagnose'', free_policy ''read'' ''domain.member.diagnose''),
      (''samba.config.validate'', free_policy ''low'' ''samba.testparm''),
      (''share.create'', free_policy ''medium'' ''share.write''),
      (''share.update'', free_policy ''medium'' ''share.write''),
      (''share.delete'', guarded_policy ''destructive'' ''share.write''),
      (''acl.model.change'', guarded_policy ''high'' ''acl.nfsv4.write''),
      (''acl.recursive.apply'', guarded_policy ''high'' ''acl.nfsv4.write''),
      (''filesystem.fstab.apply'', guarded_policy ''high'' ''filesystem.fstab.write''),
      (''domain.member.join'', guarded_policy ''high'' ''domain.member.join''),
      (''domain.member.leave'', guarded_policy ''high'' ''domain.member.leave''),
      (''samba.profile.apply'', guarded_policy ''high'' ''samba.profile.write''),
      (''samba.idmap.apply'', guarded_policy ''high'' ''domain.idmap.write''),
      (''samba.service.restart'', guarded_policy ''high'' ''samba.service.restart''),
      (''print.driver.remove'', guarded_policy ''high'' ''cups.driver.write''),
      (''logging.syslog.apply'', guarded_policy ''high'' ''syslog.tls''),
      (''rollback.global.execute'', guarded_policy ''high'' ''rollback.global''),
      (''samba.ad_dc.promote'', guarded_policy ''destructive'' ''samba.ad_dc''),
      (''rollback.execute'', free_policy ''medium'' ''rollback.execute'')]"

definition PolicyFor :: "string \<Rightarrow> Policy" where
  "PolicyFor operation = (case map_of Policies operation of Some p \<Rightarrow> p | None \<Rightarrow> guarded_policy ''high'' [])"

section \<open>Redaction and texts\<close>

definition markers :: "string list" where
  "markers =
     [''password'', ''passwd'', ''secret'', ''token'', ''credential'', ''authorization'', ''cookie'', ''keytab'',
      ''privatekey'', ''totp'', ''otp'', ''recoverycode'']"

definition sensitiveKey :: "string \<Rightarrow> bool" where
  "sensitiveKey key =
     (let normalized = ToLower (remove_chars {CHR ''_'', CHR ''-'', CHR '' ''} key)
      in list_ex (\<lambda>marker. Contains normalized marker) markers)"

primrec redact :: "json \<Rightarrow> json" where
  "redact JNull = JNull"
| "redact (JBool b) = JBool b"
| "redact (JNum n) = JNum n"
| "redact (JStr s) = JStr s"
| "redact (JArr vs) = JArr (map redact vs)"
| "redact (JObj m) =
     JObj (map (\<lambda>(key, nested). (key, if sensitiveKey key then JStr ''[REDACTED]'' else nested)) (map (map_prod id redact) m))"
| "redact JUnencodable = JUnencodable"

datatype approval_error =
    Stored store_error | TextLength | TextControl | PayloadMissing | WindowInvalid | PayloadInvalid
  | ApprovalNotRequired | SelfApproval | SelfDecision

definition validateText :: "string \<Rightarrow> nat \<Rightarrow> nat \<Rightarrow> bool \<Rightarrow> approval_error option" where
  "validateText value minimum maximum singleLine =
     (if length value < minimum \<or> length value > maximum then Some TextLength
      else if CHR 0x00 \<in> set value \<or> (singleLine \<and> ContainsAny value [CHR 0x0D, CHR 0x0A]) then Some TextControl
      else None)"

section \<open>Statements on change requests\<close>

definition CreateChangeRequest :: "change_row \<Rightarrow> unit act" where
  "CreateChangeRequest r = exec (\<lambda>d.
     if list_ex (\<lambda>x. cg_id x = cg_id r) (db_changes d) then (Inl ConstraintFailed, d)
     else if \<not> user_exists (cg_requested_by r) d \<or> (case cg_approved_by r of None \<Rightarrow> False | Some a \<Rightarrow> \<not> user_exists a d)
       then (Inl ConstraintFailed, d)
     else (Inr (), d\<lparr>db_changes := db_changes d @ [r]\<rparr>))"

definition GetChangeRequest :: "string \<Rightarrow> change_row act" where
  "GetChangeRequest cid = query_row db_changes (\<lambda>r. cg_id r = cid)"

text \<open>Newest first, by the text of the instant, at most 200; \<open>bytes\<close> of equal instants keep their order.\<close>

fun insert_newest :: "change_row \<Rightarrow> change_row list \<Rightarrow> change_row list" where
  "insert_newest r [] = [r]"
| "insert_newest r (x # xs) =
     (if stamp_less (cg_requested_at r) (cg_requested_at x) then x # insert_newest r xs else r # x # xs)"

definition ListChangeRequests :: "string \<Rightarrow> change_row list act" where
  "ListChangeRequests status = exec (\<lambda>d.
     (Inr (take 200 (foldr insert_newest (filter (\<lambda>r. status = [] \<or> cg_status r = status) (db_changes d)) [])), d))"

definition pending_row :: "string \<Rightarrow> change_row \<Rightarrow> bool" where
  "pending_row cid r \<longleftrightarrow> cg_id r = cid \<and> cg_status r = ''pending_approval''"

definition DecideChangeRequest :: "time \<Rightarrow> string \<Rightarrow> string \<Rightarrow> string \<Rightarrow> string \<Rightarrow> change_row act" where
  "DecideChangeRequest now cid approver status reason =
     andThen (GetChangeRequest cid) (\<lambda>r.
       if cg_status r \<noteq> ''pending_approval'' then raise NotPending
       else if (case cg_expires_at r of None \<Rightarrow> False | Some t \<Rightarrow> \<not> parse_time t > now)
         then andThen (ignoring (exec (\<lambda>d. (Inr (), d\<lparr>db_changes := update_where (pending_row cid)
                 (\<lambda>r. r\<lparr>cg_status := ''expired''\<rparr>) (db_changes d)\<rparr>))))
              (\<lambda>_. raise RequestExpired)
       else if status \<noteq> ''approved'' \<and> status \<noteq> ''rejected'' then raise InvalidDecision
       else andThen (exec (\<lambda>d.
              if affected (pending_row cid) (db_changes d) \<noteq> 0 \<and> \<not> user_exists approver d then (Inl ConstraintFailed, d)
              else (Inr (affected (pending_row cid) (db_changes d)),
                    d\<lparr>db_changes := update_where (pending_row cid)
                       (\<lambda>r. r\<lparr>cg_status := status, cg_approved_by := Some approver, cg_approved_at := Some (format_time now),
                              cg_decision_reason := nullIfEmpty reason\<rparr>) (db_changes d)\<rparr>)))
            (\<lambda>n. if n \<noteq> 1 then raise ChangedConcurrently else GetChangeRequest cid))"

text \<open>An update of the rows with one identifier and status that has to affect one row.\<close>

definition advance :: "(change_row \<Rightarrow> bool) \<Rightarrow> (change_row \<Rightarrow> change_row) \<Rightarrow> store_error \<Rightarrow> unit act" where
  "advance P f e = andThen
     (exec (\<lambda>d. (Inr (affected P (db_changes d)), d\<lparr>db_changes := update_where P f (db_changes d)\<rparr>)))
     (\<lambda>n. if n \<noteq> 1 then raise e else return ())"

definition SetChangeRequestJob :: "string \<Rightarrow> string \<Rightarrow> unit act" where
  "SetChangeRequestJob cid jobID =
     advance (\<lambda>r. cg_id r = cid \<and> cg_status r = ''approved'')
       (\<lambda>r. r\<lparr>cg_status := ''executing'', cg_job_id := Some jobID\<rparr>) NotApproved"

definition ResetChangeRequestJob :: "string \<Rightarrow> string \<Rightarrow> unit act" where
  "ResetChangeRequestJob cid jobID =
     advance (\<lambda>r. cg_id r = cid \<and> cg_status r = ''executing'' \<and> cg_job_id r = Some jobID)
       (\<lambda>r. r\<lparr>cg_status := ''approved'', cg_job_id := None\<rparr>) ReservationNotReleased"

definition CompleteChangeRequest :: "string \<Rightarrow> string \<Rightarrow> unit act" where
  "CompleteChangeRequest cid status =
     (if status \<noteq> ''completed'' \<and> status \<noteq> ''failed'' \<and> status \<noteq> ''cancelled'' \<and> status \<noteq> ''rolled_back''
      then raise InvalidFinalState
      else advance (\<lambda>r. cg_id r = cid \<and> cg_status r = ''executing'') (\<lambda>r. r\<lparr>cg_status := status\<rparr>) NotExecuting)"

section \<open>The service\<close>

text \<open>What the API returns of a request: everything but its payload.\<close>

record ChangeRequest =
  cq_ID :: string
  cq_Operation :: string
  cq_Resource :: string
  cq_Risk :: string
  cq_Status :: string
  cq_RequestedBy :: string
  cq_RequestedAt :: time
  cq_Justification :: string
  cq_MaintenanceStart :: "time option"
  cq_MaintenanceEnd :: "time option"
  cq_Impact :: string
  cq_RollbackPlan :: string
  cq_RequiredCapability :: string
  cq_JobID :: string
  cq_ApprovedBy :: string
  cq_ApprovedAt :: "time option"
  cq_DecisionReason :: string
  cq_ExpiresAt :: "time option"

definition fromRecord :: "change_row \<Rightarrow> ChangeRequest" where
  "fromRecord r =
     \<lparr>cq_ID = cg_id r, cq_Operation = cg_operation r, cq_Resource = cg_resource r, cq_Risk = cg_risk r,
      cq_Status = cg_status r, cq_RequestedBy = cg_requested_by r, cq_RequestedAt = parse_time (cg_requested_at r),
      cq_Justification = cg_justification r,
      cq_MaintenanceStart = map_option parse_time (cg_maintenance_start r),
      cq_MaintenanceEnd = map_option parse_time (cg_maintenance_end r),
      cq_Impact = cg_impact r, cq_RollbackPlan = cg_rollback_plan r,
      cq_RequiredCapability = coalesce (cg_required_capability r), cq_JobID = coalesce (cg_job_id r),
      cq_ApprovedBy = coalesce (cg_approved_by r), cq_ApprovedAt = map_option parse_time (cg_approved_at r),
      cq_DecisionReason = coalesce (cg_decision_reason r), cq_ExpiresAt = map_option parse_time (cg_expires_at r)\<rparr>"

record RequestInput =
  ri_Operation :: string
  ri_Resource :: string
  ri_Justification :: string
  ri_MaintenanceStart :: "time option"
  ri_MaintenanceEnd :: "time option"
  ri_Impact :: string
  ri_RollbackPlan :: string
  ri_Payload :: "object option"

definition window_ok :: "time \<Rightarrow> RequestInput \<Rightarrow> bool" where
  "window_ok now inp =
     (case (ri_MaintenanceStart inp, ri_MaintenanceEnd inp) of
        (Some s, Some e) \<Rightarrow> e > s \<and> e > now
      | _ \<Rightarrow> False)"

text \<open>The three free texts are checked in the iteration order of a map; their errors are not told apart.\<close>

definition request_error :: "time \<Rightarrow> RequestInput \<Rightarrow> approval_error option" where
  "request_error now inp =
     orElse (validateText (ri_Operation inp) 3 128 True)
    (orElse (validateText (ri_Resource inp) 3 255 True)
    (orElse (firstErr (\<lambda>v. validateText v 10 4000 False) [ri_Justification inp, ri_Impact inp, ri_RollbackPlan inp])
    (guard_err (ri_Payload inp = None) PayloadMissing
    (guard_err (po_RequiresWindow (PolicyFor (ri_Operation inp)) \<and> \<not> window_ok now inp) WindowInvalid None))))"

definition trimmed :: "RequestInput \<Rightarrow> RequestInput" where
  "trimmed inp = inp\<lparr>ri_Operation := TrimSpace (ri_Operation inp), ri_Resource := TrimSpace (ri_Resource inp),
     ri_Justification := TrimSpace (ri_Justification inp), ri_Impact := TrimSpace (ri_Impact inp),
     ri_RollbackPlan := TrimSpace (ri_RollbackPlan inp)\<rparr>"

definition new_record :: "time \<Rightarrow> string \<Rightarrow> string \<Rightarrow> RequestInput \<Rightarrow> string \<Rightarrow> change_row" where
  "new_record now newID requester inp payload =
     (let policy = PolicyFor (ri_Operation inp)
      in \<lparr>cg_id = newID, cg_operation = ri_Operation inp, cg_resource = ri_Resource inp, cg_risk = po_Risk policy,
          cg_status = (if po_RequiresApproval policy then ''pending_approval'' else ''approved''),
          cg_requested_by = requester, cg_requested_at = format_time now, cg_justification = ri_Justification inp,
          cg_maintenance_start = map_option format_time (ri_MaintenanceStart inp),
          cg_maintenance_end = map_option format_time (ri_MaintenanceEnd inp),
          cg_impact = ri_Impact inp, cg_rollback_plan = ri_RollbackPlan inp, cg_payload_json = payload,
          cg_required_capability = nullIfEmpty (po_RequiredCapability policy), cg_job_id = None, cg_approved_by = None,
          cg_approved_at = None, cg_decision_reason = None,
          cg_expires_at = (if po_RequiresApproval policy
             then Some (format_time (case ri_MaintenanceEnd inp of Some e \<Rightarrow> e | None \<Rightarrow> now + 7 * 24 * hour)) else None)\<rparr>)"

definition Request :: "time \<Rightarrow> string \<Rightarrow> User \<Rightarrow> RequestInput \<Rightarrow> (approval_error, ChangeRequest) eact" where
  "Request now newID requester inp0 =
     (let inp = trimmed inp0
      in case request_error now inp of
           Some e \<Rightarrow> raise e
         | None \<Rightarrow>
             (let value = redact (JObj (case ri_Payload inp of None \<Rightarrow> [] | Some m \<Rightarrow> m));
                  row = new_record now newID (u_ID requester) inp (marshal value)
              in if \<not> encodable value then raise PayloadInvalid
                 else andThen (lifted Stored (CreateChangeRequest row)) (\<lambda>_. return (fromRecord row))))"

text \<open>\<open>Approve\<close>: what it checks before it decides, and the decision.\<close>

definition approve_checks :: "string \<Rightarrow> User \<Rightarrow> string \<Rightarrow> (approval_error, unit) eact" where
  "approve_checks cid approver reason =
     andThen (lifted Stored (GetChangeRequest cid)) (\<lambda>request.
       if \<not> po_RequiresApproval (PolicyFor (cg_operation request)) then raise ApprovalNotRequired
       else if po_RequiresSeparation (PolicyFor (cg_operation request)) \<and> cg_requested_by request = u_ID approver
         then raise SelfApproval
       else case validateText (TrimSpace reason) 5 4000 False of
              Some e \<Rightarrow> raise e
            | None \<Rightarrow> return ())"

definition Approve :: "time \<Rightarrow> string \<Rightarrow> User \<Rightarrow> string \<Rightarrow> (approval_error, ChangeRequest) eact" where
  "Approve now cid approver reason =
     andThen (approve_checks cid approver reason)
       (\<lambda>_. andThen (lifted Stored (DecideChangeRequest now cid (u_ID approver) ''approved'' (TrimSpace reason)))
         (\<lambda>updated. return (fromRecord updated)))"

definition reject_checks :: "string \<Rightarrow> User \<Rightarrow> string \<Rightarrow> (approval_error, unit) eact" where
  "reject_checks cid approver reason =
     (case validateText (TrimSpace reason) 5 4000 False of
        Some e \<Rightarrow> raise e
      | None \<Rightarrow>
          andThen (lifted Stored (GetChangeRequest cid)) (\<lambda>request.
            if cg_requested_by request = u_ID approver then raise SelfDecision else return ()))"

definition Reject :: "time \<Rightarrow> string \<Rightarrow> User \<Rightarrow> string \<Rightarrow> (approval_error, ChangeRequest) eact" where
  "Reject now cid approver reason =
     andThen (reject_checks cid approver reason)
       (\<lambda>_. andThen (lifted Stored (DecideChangeRequest now cid (u_ID approver) ''rejected'' (TrimSpace reason)))
         (\<lambda>updated. return (fromRecord updated)))"

definition Get :: "string \<Rightarrow> ChangeRequest act" where
  "Get cid = andThen (GetChangeRequest cid) (\<lambda>r. return (fromRecord r))"

definition ListRequests :: "string \<Rightarrow> ChangeRequest list act" where
  "ListRequests status = andThen (ListChangeRequests (TrimSpace status)) (\<lambda>rs. return (map fromRecord rs))"

definition MarkExecuting :: "string \<Rightarrow> string \<Rightarrow> unit act" where
  "MarkExecuting cid jobID = SetChangeRequestJob cid jobID"

definition ReleaseExecution :: "string \<Rightarrow> string \<Rightarrow> unit act" where
  "ReleaseExecution cid jobID = ResetChangeRequestJob cid jobID"

definition Complete :: "string \<Rightarrow> string \<Rightarrow> unit act" where
  "Complete cid status = CompleteChangeRequest cid status"

section \<open>How change requests evolve\<close>

text \<open>The state machine that the operations are meant to follow.\<close>

definition status_edges :: "(string \<times> string) list" where
  "status_edges =
     [(''pending_approval'', ''approved''), (''pending_approval'', ''rejected''), (''pending_approval'', ''expired''),
      (''approved'', ''executing''), (''executing'', ''approved''), (''executing'', ''completed''),
      (''executing'', ''failed''), (''executing'', ''cancelled''), (''executing'', ''rolled_back'')]"

definition same_request :: "change_row \<Rightarrow> change_row \<Rightarrow> bool" where
  "same_request r r' \<longleftrightarrow>
     r' = r\<lparr>cg_status := cg_status r', cg_job_id := cg_job_id r', cg_approved_by := cg_approved_by r',
            cg_approved_at := cg_approved_at r', cg_decision_reason := cg_decision_reason r'\<rparr>"

text \<open>
  One move of a row: none, or an edge of the state machine.  An approval names an approver that was
  cleared for the row (in \<open>A\<close>), and no later move changes the approver.
\<close>

definition moves :: "(string \<times> string) set \<Rightarrow> change_row \<Rightarrow> change_row \<Rightarrow> bool" where
  "moves A r r' \<longleftrightarrow> same_request r r' \<and>
     (r' = r \<or>
      ((cg_status r, cg_status r') \<in> set status_edges \<and>
       (cg_status r = ''pending_approval'' \<and> cg_status r' = ''approved'' \<longrightarrow>
          (\<exists>a. cg_approved_by r' = Some a \<and> (cg_id r, a) \<in> A)) \<and>
       (cg_status r \<noteq> ''pending_approval'' \<longrightarrow> cg_approved_by r' = cg_approved_by r)))"

definition fresh_row :: "change_row list \<Rightarrow> change_row \<Rightarrow> bool" where
  "fresh_row rows r \<longleftrightarrow>
     cg_id r \<notin> cg_id ` set rows \<and>
     cg_status r = (if po_RequiresApproval (PolicyFor (cg_operation r)) then ''pending_approval'' else ''approved'') \<and>
     cg_risk r = po_Risk (PolicyFor (cg_operation r))"

definition evolves :: "(string \<times> string) set \<Rightarrow> db \<Rightarrow> db \<Rightarrow> bool" where
  "evolves A d d' \<longleftrightarrow>
     (\<exists>f new. db_changes d' = map f (db_changes d) @ new \<and> (\<forall>r. moves A r (f r)) \<and>
        (\<forall>r\<in>set new. fresh_row (db_changes d) r) \<and> length new \<le> 1)"

lemma moves_refl [simp]: "moves A r r"
  by (simp add: moves_def same_request_def)

lemma moves_same: "moves A r r' \<Longrightarrow> cg_id r' = cg_id r \<and> cg_operation r' = cg_operation r \<and> cg_requested_by r' = cg_requested_by r"
  by (cases r; cases r') (auto simp: moves_def same_request_def)

lemma evolves_quiet: "db_changes d' = db_changes d \<Longrightarrow> evolves A d d'"
  unfolding evolves_def by (rule exI [of _ "\<lambda>r. r"], rule exI [of _ "[]"]) simp

lemma evolves_cong: "db_changes d1 = db_changes d2 \<Longrightarrow> db_changes d3 = db_changes d4 \<Longrightarrow> evolves A d1 d3 \<Longrightarrow> evolves A d2 d4"
  by (simp add: evolves_def)

lemma evolves_update:
  assumes "db_changes d' = update_where P f (db_changes d)" "\<And>r. P r \<Longrightarrow> moves A r (f r)"
  shows "evolves A d d'"
  unfolding evolves_def assms(1) update_where_def
  by (rule exI [of _ "\<lambda>r. if P r then f r else r"], rule exI [of _ "[]"]) (auto simp: assms(2))

text \<open>Operations that leave the table alone, and operations that move it one step.\<close>

definition quiet :: "('e, 'a) eact \<Rightarrow> bool" where
  "quiet a \<longleftrightarrow> (\<forall>d. db_changes (snd (a d)) = db_changes d)"

definition one_step :: "(string \<times> string) set \<Rightarrow> ('e, 'a) eact \<Rightarrow> bool" where
  "one_step A a \<longleftrightarrow> (\<forall>d. evolves A d (snd (a d)))"

lemma quiet_basic [simp]: "quiet (return x)" "quiet (raise e)"
  by (simp_all add: quiet_def return_def raise_def)

lemma quiet_query_row [simp]: "quiet (query_row table P)"
  by (auto simp: quiet_def query_row_def exec_def Let_def split: option.splits)

lemma quiet_lifted [simp]: "quiet (lifted c a) = quiet a"
  by (simp add: quiet_def)

lemma one_step_lifted [simp]: "one_step A (lifted c a) = one_step A a"
  by (simp add: one_step_def)

lemma quiet_one_step: "quiet a \<Longrightarrow> one_step A a"
  by (simp add: quiet_def one_step_def evolves_quiet)

lemma one_step_basic [simp]: "one_step A (return x)" "one_step A (raise e)"
  by (simp_all add: quiet_one_step)

lemma one_step_if: "(c \<Longrightarrow> one_step A a) \<Longrightarrow> (\<not> c \<Longrightarrow> one_step A b) \<Longrightarrow> one_step A (if c then a else b)"
  by simp

lemma quiet_andThen: "quiet a \<Longrightarrow> (\<And>x. quiet (f x)) \<Longrightarrow> quiet (andThen a f)"
  unfolding quiet_def andThen_def by (auto split: prod.splits sum.splits) (metis snd_conv)+

lemma one_step_before: "quiet a \<Longrightarrow> (\<And>x. one_step A (f x)) \<Longrightarrow> one_step A (andThen a f)"
  unfolding one_step_def quiet_def andThen_def
  by (auto split: prod.splits sum.splits) (metis evolves_cong evolves_quiet snd_conv)+

lemma one_step_after: "one_step A a \<Longrightarrow> (\<And>x. quiet (f x)) \<Longrightarrow> one_step A (andThen a f)"
  unfolding one_step_def quiet_def andThen_def
  by (auto split: prod.splits sum.splits) (metis evolves_cong snd_conv)+

lemma one_step_ignoring: "one_step A a \<Longrightarrow> one_step A (ignoring a)"
  by (simp add: one_step_def ignoring_def)

lemma one_step_exec: "(\<And>d. evolves A d (snd (q d))) \<Longrightarrow> one_step A (exec q)"
proof -
  assume q: "\<And>d. evolves A d (snd (q d))"
  have "evolves A d (snd (q (d\<lparr>db_tick := n\<rparr>)))" for d n
    by (rule evolves_cong [OF _ _ q [of "d\<lparr>db_tick := n\<rparr>"]]) simp_all
  then show ?thesis by (auto simp: one_step_def exec_def Let_def intro: evolves_quiet)
qed

lemma one_step_advance:
  assumes "\<And>r. P r \<Longrightarrow> moves A r (f r)"
  shows "one_step A (advance P f e)"
  unfolding advance_def
  by (rule one_step_after) (auto intro!: one_step_exec evolves_update [where P = P and f = f] simp: assms)

lemma one_step_execution:
  "one_step A (SetChangeRequestJob cid job)" "one_step A (ResetChangeRequestJob cid job)"
  "one_step A (CompleteChangeRequest cid status)"
proof -
  show "one_step A (SetChangeRequestJob cid job)" "one_step A (ResetChangeRequestJob cid job)"
    unfolding SetChangeRequestJob_def ResetChangeRequestJob_def
    by (rule one_step_advance; simp add: moves_def same_request_def status_edges_def)+
  show "one_step A (CompleteChangeRequest cid status)"
    unfolding CompleteChangeRequest_def
    by (auto intro!: one_step_advance simp: moves_def same_request_def status_edges_def)
qed

lemma one_step_decide:
  assumes "status = ''approved'' \<longrightarrow> (cid, approver) \<in> A"
  shows "one_step A (DecideChangeRequest now cid approver status reason)"
proof -
  have m: "moves A r (r\<lparr>cg_status := ''expired''\<rparr>)" if "pending_row cid r" for r
    using that by (simp add: pending_row_def moves_def same_request_def status_edges_def)
  have n: "moves A r (r\<lparr>cg_status := status, cg_approved_by := Some approver, cg_approved_at := t, cg_decision_reason := x\<rparr>)"
    if "pending_row cid r" "status = ''approved'' \<or> status = ''rejected''" for r t x
    using that assms by (auto simp: pending_row_def moves_def same_request_def status_edges_def)
  have 1: "one_step A (andThen (ignoring (exec (\<lambda>d. (Inr (), d\<lparr>db_changes := update_where (pending_row cid)
                 (\<lambda>r. r\<lparr>cg_status := ''expired''\<rparr>) (db_changes d)\<rparr>)))) (\<lambda>_. raise e))" for e :: store_error
    by (intro one_step_after one_step_ignoring one_step_exec evolves_update [where P = "pending_row cid"])
      (auto intro: m)
  have 2: "evolves A d (d\<lparr>db_changes := update_where (pending_row cid) (\<lambda>r. r\<lparr>cg_status := status, cg_approved_by := Some approver,
          cg_approved_at := t, cg_decision_reason := x\<rparr>) (db_changes d)\<rparr>)"
    if "status = ''approved'' \<or> status = ''rejected''" for d t x
    by (rule evolves_update [where P = "pending_row cid"]) (simp, rule n [OF _ that])
  have 3: "one_step A (andThen (exec (\<lambda>d.
              if affected (pending_row cid) (db_changes d) \<noteq> 0 \<and> \<not> user_exists approver d then (Inl ConstraintFailed, d)
              else (Inr (affected (pending_row cid) (db_changes d)),
                    d\<lparr>db_changes := update_where (pending_row cid)
                       (\<lambda>r. r\<lparr>cg_status := status, cg_approved_by := Some approver, cg_approved_at := Some (format_time now),
                              cg_decision_reason := nullIfEmpty reason\<rparr>) (db_changes d)\<rparr>)))
            (\<lambda>n. if n \<noteq> 1 then raise ChangedConcurrently else query_row db_changes (\<lambda>r. cg_id r = cid)))"
    if "status = ''approved'' \<or> status = ''rejected''"
    by (intro one_step_after one_step_exec) (simp_all add: 2 [OF that] evolves_quiet)
  show ?thesis
    unfolding DecideChangeRequest_def GetChangeRequest_def
    by (intro one_step_before one_step_if 1 3 quiet_query_row one_step_basic) blast
qed

lemma one_step_create:
  assumes "cg_status r = (if po_RequiresApproval (PolicyFor (cg_operation r)) then ''pending_approval'' else ''approved'')"
    and "cg_risk r = po_Risk (PolicyFor (cg_operation r))"
  shows "one_step A (CreateChangeRequest r)"
proof -
  have "evolves A d (d\<lparr>db_changes := db_changes d @ [r]\<rparr>)" if "\<not> list_ex (\<lambda>x. cg_id x = cg_id r) (db_changes d)" for d
    unfolding evolves_def using that assms
    by (intro exI [of _ "\<lambda>r. r"] exI [of _ "[r]"]) (auto simp: fresh_row_def list_ex_iff)
  then show ?thesis
    unfolding CreateChangeRequest_def by (intro one_step_exec) (auto intro: evolves_quiet)
qed

lemma one_step_Request: "one_step A (Request now newID requester inp)"
proof -
  have "one_step A (CreateChangeRequest (new_record now newID u i payload))" for u i payload
    by (rule one_step_create) (simp_all add: new_record_def Let_def)
  then show ?thesis
    unfolding Request_def Let_def
    by (cases "request_error now (trimmed inp)")
      (auto simp del: redact.simps marshal.simps encodable.simps intro!: one_step_after)
qed

section \<open>Separation of duties\<close>

definition decided :: "string \<Rightarrow> bool" where
  "decided status \<longleftrightarrow> status \<in> {''approved'', ''executing'', ''completed'', ''failed'', ''cancelled'', ''rolled_back''}"

text \<open>A request that needed an approval and got past it has an approver, another one where that is asked for.\<close>

definition duly_approved :: "change_row \<Rightarrow> bool" where
  "duly_approved r \<longleftrightarrow>
     (decided (cg_status r) \<and> po_RequiresApproval (PolicyFor (cg_operation r)) \<longrightarrow>
        (\<exists>a. cg_approved_by r = Some a \<and> (po_RequiresSeparation (PolicyFor (cg_operation r)) \<longrightarrow> a \<noteq> cg_requested_by r)))"

text \<open>An approval under way: the user passed the checks for the row with that identifier.\<close>

definition cleared :: "change_row list \<Rightarrow> string \<times> string \<Rightarrow> bool" where
  "cleared rows ca \<longleftrightarrow>
     (\<exists>r\<in>set rows. cg_id r = fst ca) \<and>
     (\<forall>r\<in>set rows. cg_id r = fst ca \<longrightarrow> po_RequiresSeparation (PolicyFor (cg_operation r)) \<longrightarrow> cg_requested_by r \<noteq> snd ca)"

type_synonym approvals = "db \<times> (string \<times> string) list"

definition approvals_inv :: "approvals \<Rightarrow> bool" where
  "approvals_inv st =
     (case st of (d, under_way) \<Rightarrow>
        distinct (map cg_id (db_changes d)) \<and> (\<forall>r\<in>set (db_changes d). duly_approved r) \<and>
        (\<forall>ca\<in>set under_way. cleared (db_changes d) ca))"

inductive approvals_step :: "approvals \<Rightarrow> approvals \<Rightarrow> bool" where
  request: "approvals_step (d, p) (snd (Request now newID requester inp d), p)"
| approve_begin: "approve_checks cid approver reason d = (Inr (), d') \<Longrightarrow> approvals_step (d, p) (d', (cid, u_ID approver) # p)"
| approve_end: "(cid, a) \<in> set p \<Longrightarrow> approvals_step (d, p) (snd (DecideChangeRequest now cid a ''approved'' reason d), p)"
| reject_end: "approvals_step (d, p) (snd (DecideChangeRequest now cid a ''rejected'' reason d), p)"
| executing: "approvals_step (d, p) (snd (MarkExecuting cid job d), p)"
| releasing: "approvals_step (d, p) (snd (ReleaseExecution cid job d), p)"
| completing: "approvals_step (d, p) (snd (Complete cid status d), p)"
| elsewhere: "db_changes d' = db_changes d \<Longrightarrow> approvals_step (d, p) (d', p)"

inductive approvals_reachable :: "approvals \<Rightarrow> bool" where
  initially: "db_changes d = [] \<Longrightarrow> approvals_reachable (d, [])"
| later: "approvals_reachable st \<Longrightarrow> approvals_step st st' \<Longrightarrow> approvals_reachable st'"

lemma quiet_approve_checks: "quiet (approve_checks cid approver reason)"
  unfolding approve_checks_def GetChangeRequest_def
  by (intro quiet_andThen) (auto split: option.splits)

lemma approvals_step_evolves: "approvals_step st st' \<Longrightarrow> evolves (set (snd st)) (fst st) (fst st')"
proof (induction rule: approvals_step.induct)
  case (approve_begin cid approver reason d d' p)
  have "db_changes (snd (approve_checks cid approver reason d)) = db_changes d"
    using quiet_approve_checks by (simp add: quiet_def)
  then show ?case using approve_begin by (simp add: evolves_quiet)
next
  case (approve_end cid a p d now reason)
  then show ?case using one_step_decide [of "''approved''" cid a "set p"] by (simp add: one_step_def)
next
  case (reject_end d p now cid a reason)
  then show ?case using one_step_decide [of "''rejected''" cid a "set p"] by (simp add: one_step_def)
qed (use one_step_Request one_step_execution in
    \<open>auto simp: one_step_def MarkExecuting_def ReleaseExecution_def Complete_def intro: evolves_quiet\<close>)

lemma evolves_distinct: "evolves A d d' \<Longrightarrow> distinct (map cg_id (db_changes d)) \<Longrightarrow> distinct (map cg_id (db_changes d'))"
proof -
  assume "evolves A d d'" and d: "distinct (map cg_id (db_changes d))"
  then obtain f new where f: "db_changes d' = map f (db_changes d) @ new" "\<forall>r. moves A r (f r)"
    "\<forall>r\<in>set new. fresh_row (db_changes d) r" "length new \<le> 1" by (auto simp: evolves_def)
  have "cg_id (f r) = cg_id r" for r using f(2) moves_same by blast
  then have ids: "map cg_id (map f (db_changes d)) = map cg_id (db_changes d)" by simp
  show ?thesis
    using d f(3,4) unfolding f(1) map_append ids
    by (cases new) (auto simp: fresh_row_def)
qed

lemma moves_duly:
  assumes "moves A r r'" "duly_approved r" "\<forall>ca\<in>A. cleared rows ca" "r \<in> set rows"
  shows "duly_approved r'"
proof (cases "r' = r")
  case False
  then have e: "(cg_status r, cg_status r') \<in> set status_edges" and s: "same_request r r'"
    and ap: "cg_status r = ''pending_approval'' \<and> cg_status r' = ''approved'' \<longrightarrow> (\<exists>a. cg_approved_by r' = Some a \<and> (cg_id r, a) \<in> A)"
    and keep: "cg_status r \<noteq> ''pending_approval'' \<longrightarrow> cg_approved_by r' = cg_approved_by r"
    using assms(1) by (auto simp: moves_def)
  have same: "cg_operation r' = cg_operation r" "cg_requested_by r' = cg_requested_by r" using moves_same [OF assms(1)] by auto
  show ?thesis
  proof (cases "cg_status r = ''pending_approval''")
    case True
    show ?thesis
    proof (cases "cg_status r' = ''approved''")
      case True
      with \<open>cg_status r = ''pending_approval''\<close> ap obtain a where a: "cg_approved_by r' = Some a" "(cg_id r, a) \<in> A" by blast
      then have "cleared rows (cg_id r, a)" using assms(3) by blast
      then show ?thesis using assms(4) a(1) same by (auto simp: cleared_def duly_approved_def)
    next
      case False
      then have "\<not> decided (cg_status r')" using True e by (auto simp: status_edges_def decided_def)
      then show ?thesis by (simp add: duly_approved_def)
    qed
  next
    case False
    then have "decided (cg_status r)" using e by (auto simp: status_edges_def decided_def)
    then show ?thesis using assms(2) False keep same by (auto simp: duly_approved_def)
  qed
qed (use assms(2) in simp)

lemma fresh_duly: "fresh_row rows r \<Longrightarrow> duly_approved r"
  by (auto simp: fresh_row_def duly_approved_def decided_def)

lemma evolves_cleared:
  assumes "evolves A d d'" "cleared (db_changes d) ca"
  shows "cleared (db_changes d') ca"
proof -
  obtain f new where f: "db_changes d' = map f (db_changes d) @ new" "\<forall>r. moves A r (f r)"
    "\<forall>r\<in>set new. fresh_row (db_changes d) r" using assms(1) by (auto simp: evolves_def)
  have same: "cg_id (f r) = cg_id r" "cg_operation (f r) = cg_operation r" "cg_requested_by (f r) = cg_requested_by r" for r
    using f(2) moves_same by blast+
  have "\<forall>r\<in>set new. cg_id r \<noteq> fst ca"
    using f(3) assms(2) by (force simp: fresh_row_def cleared_def)
  moreover have "\<exists>r'\<in>set (db_changes d'). cg_id r' = fst ca"
  proof -
    obtain r where "r \<in> set (db_changes d)" "cg_id r = fst ca" using assms(2) by (auto simp: cleared_def)
    then show ?thesis using same(1) [of r] by (intro bexI [of _ "f r"]) (simp_all add: f(1))
  qed
  ultimately show ?thesis using assms(2) by (auto simp: cleared_def f(1) same)
qed

lemma approve_checks_cleared:
  assumes "approve_checks cid approver reason d = (Inr (), d')" "distinct (map cg_id (db_changes d))"
  shows "cleared (db_changes d) (cid, u_ID approver)"
proof -
  obtain r d1 where q: "query_row db_changes (\<lambda>r. cg_id r = cid) d = (Inr r, d1)"
    and rest: "(if \<not> po_RequiresApproval (PolicyFor (cg_operation r)) then raise ApprovalNotRequired
       else if po_RequiresSeparation (PolicyFor (cg_operation r)) \<and> cg_requested_by r = u_ID approver then raise SelfApproval
       else case validateText (TrimSpace reason) 5 4000 False of Some e \<Rightarrow> raise e | None \<Rightarrow> return ()) d1 = (Inr (), d')"
    using assms(1) unfolding approve_checks_def GetChangeRequest_def andThen_Inr lifted_Inr by (elim exE conjE)
  have sep: "po_RequiresSeparation (PolicyFor (cg_operation r)) \<longrightarrow> cg_requested_by r \<noteq> u_ID approver"
  proof (rule ccontr)
    assume "\<not> ?thesis"
    then show False using rest by (simp add: raise_def split: if_splits)
  qed
  have r: "r \<in> set (db_changes d)" "cg_id r = cid" using query_row_Inr [OF q] by auto
  have "r' = r" if "r' \<in> set (db_changes d)" "cg_id r' = cid" for r'
    using assms(2) r(1,2) that by (metis distinct_map inj_onD)
  then show ?thesis unfolding cleared_def fst_conv snd_conv using r sep by blast
qed

lemma approvals_step_inv: "approvals_step st st' \<Longrightarrow> approvals_inv st \<Longrightarrow> approvals_inv st'"
proof -
  assume step: "approvals_step st st'" and inv: "approvals_inv st"
  obtain d p where st: "st = (d, p)" by (cases st)
  obtain d' p' where st': "st' = (d', p')" by (cases st')
  have ev: "evolves (set p) d d'" using approvals_step_evolves [OF step] by (simp add: st st')
  have i: "distinct (map cg_id (db_changes d))" "\<forall>r\<in>set (db_changes d). duly_approved r" "\<forall>ca\<in>set p. cleared (db_changes d) ca"
    using inv by (auto simp: st approvals_inv_def)
  have "duly_approved r'" if "r' \<in> set (db_changes d')" for r'
  proof -
    obtain f new where f: "db_changes d' = map f (db_changes d) @ new" "\<forall>r. moves (set p) r (f r)"
      "\<forall>r\<in>set new. fresh_row (db_changes d) r" using ev by (auto simp: evolves_def)
    consider r where "r \<in> set (db_changes d)" "r' = f r" | "r' \<in> set new" using \<open>r' \<in> set (db_changes d')\<close> f(1) by auto
    then show ?thesis
      by cases (use f(2,3) i(2,3) in \<open>auto intro: moves_duly [where rows = "db_changes d" and A = "set p"] fresh_duly\<close>)
  qed
  moreover have "cleared (db_changes d') ca" if "ca \<in> set p'" for ca
  proof -
    have "ca \<in> set p \<or> cleared (db_changes d) ca"
      using step that i(1) unfolding st st' by (cases rule: approvals_step.cases) (auto dest: approve_checks_cleared)
    then show ?thesis using i(3) evolves_cleared [OF ev] by blast
  qed
  ultimately show ?thesis using evolves_distinct [OF ev i(1)] by (auto simp: st' approvals_inv_def)
qed

lemma approvals_reachable_inv: "approvals_reachable st \<Longrightarrow> approvals_inv st"
proof (induction rule: approvals_reachable.induct)
  case (initially d)
  then show ?case by (simp add: approvals_inv_def)
next
  case (later st st')
  then show ?case by (blast intro: approvals_step_inv)
qed

section \<open>Properties\<close>


definition sample_user :: "string \<Rightarrow> User" where
  "sample_user uid = zero_user\<lparr>u_ID := uid\<rparr>"

definition sample_users :: db where
  "sample_users = empty_db\<lparr>db_users := map (\<lambda>i. \<lparr>us_id = i, us_username = i, us_display_name = i, us_password_hash = [],
     us_failed_attempts = 0, us_locked_until = None, us_created_at = format_time 0\<rparr>) [''ana'', ''rui'']\<rparr>"

definition sample_input :: RequestInput where
  "sample_input = \<lparr>ri_Operation = ''domain.member.join'', ri_Resource = ''domain:corp'', ri_Justification = ''join the domain'',
     ri_MaintenanceStart = Some 0, ri_MaintenanceEnd = Some (1000 * second), ri_Impact = ''short outage'',
     ri_RollbackPlan = ''leave the domain'', ri_Payload = Some [(''bind_password'', JStr ''x'')]\<rparr>"

definition sample_requested :: db where
  "sample_requested = snd (Request (10 * second) ''chg-1'' (sample_user ''ana'') sample_input sample_users)"

definition sample_checked :: db where
  "sample_checked = snd (approve_checks ''chg-1'' (sample_user ''rui'') ''looks fine'' sample_requested)"

definition sample_approved :: db where
  "sample_approved = snd (DecideChangeRequest (20 * second) ''chg-1'' ''rui'' ''approved'' ''looks fine'' sample_checked)"

lemma sample_approved_reachable: "approvals_reachable (sample_approved, [(''chg-1'', ''rui'')])"
proof -
  have "approvals_reachable (sample_users, [])" by (rule initially) (simp add: sample_users_def empty_db_def)
  then have 1: "approvals_reachable (sample_requested, [])"
    unfolding sample_requested_def by (rule later) (rule request)
  have "fst (approve_checks ''chg-1'' (sample_user ''rui'') ''looks fine'' sample_requested) = Inr ()" by code_simp
  then have "approve_checks ''chg-1'' (sample_user ''rui'') ''looks fine'' sample_requested = (Inr (), sample_checked)"
    unfolding sample_checked_def by (metis prod.collapse)
  from approve_begin [OF this, of "[]"] have "approvals_step (sample_requested, []) (sample_checked, [(''chg-1'', ''rui'')])"
    by (simp add: sample_user_def zero_user_def)
  with 1 have 2: "approvals_reachable (sample_checked, [(''chg-1'', ''rui'')])" by (rule later)
  then show ?thesis unfolding sample_approved_def by (rule later) (rule approve_end, simp)
qed

lemma sample_approved_row:
  "map (\<lambda>r. (cg_id r, cg_operation r, cg_status r, cg_approved_by r, cg_requested_by r, cg_payload_json r)) (db_changes sample_approved)
   = [(''chg-1'', ''domain.member.join'', ''approved'', Some ''rui'', ''ana'', ''{'' @ quote ''bind_password'' @ '':'' @ quote ''[REDACTED]'' @ ''}'')]"
  by code_simp


text \<open>
  C11. Change requests follow their state machine: one operation moves a row along at most one edge
  (pending to approved, rejected or expired; approved to executing; executing back to approved or to one
  of the final states) and never deletes a row or changes what was requested.  So a rejected, expired or
  finished request stays so.
\<close>

theorem change_request_state_machine:
  assumes "approvals_step (d, p) (d', p')" "r \<in> set (db_changes d)"
  shows "\<exists>r'\<in>set (db_changes d').
     r' = r\<lparr>cg_status := cg_status r', cg_job_id := cg_job_id r', cg_approved_by := cg_approved_by r',
            cg_approved_at := cg_approved_at r', cg_decision_reason := cg_decision_reason r'\<rparr> \<and>
     (r' = r \<or> (cg_status r, cg_status r') \<in> set status_edges)"
proof -
  obtain f new where "db_changes d' = map f (db_changes d) @ new" "moves (set p) r (f r)"
    using approvals_step_evolves [OF assms(1)] by (auto simp: evolves_def)
  then show ?thesis using assms(2)
    by (intro bexI [of _ "f r"]) (auto simp: moves_def same_request_def)
qed

theorem change_request_state_machine_witness:
  "\<exists>r\<in>set (db_changes sample_checked). \<exists>r'\<in>set (db_changes sample_approved).
     cg_id r' = cg_id r \<and> (r' = r \<or> (cg_status r, cg_status r') \<in> set status_edges)"
proof -
  have "length (db_changes sample_checked) = 1" by code_simp
  then obtain r where r: "r \<in> set (db_changes sample_checked)" by (metis length_0_conv last_in_set zero_neq_one)
  have "approvals_step (sample_checked, [(''chg-1'', ''rui'')]) (sample_approved, [(''chg-1'', ''rui'')])"
    unfolding sample_approved_def by (rule approve_end) simp
  from change_request_state_machine [OF this r]
  obtain r' where r': "r' \<in> set (db_changes sample_approved)"
    "r' = r\<lparr>cg_status := cg_status r', cg_job_id := cg_job_id r', cg_approved_by := cg_approved_by r',
            cg_approved_at := cg_approved_at r', cg_decision_reason := cg_decision_reason r'\<rparr>"
    "r' = r \<or> (cg_status r, cg_status r') \<in> set status_edges" by blast
  have "cg_id r' = cg_id r" by (subst r'(2)) simp
  with r r'(1,3) show ?thesis by blast
qed

text \<open>A value in which every sensitive key at any depth has the redaction mark.\<close>

primrec hides_secrets :: "json \<Rightarrow> bool" where
  "hides_secrets JNull = True"
| "hides_secrets (JBool b) = True"
| "hides_secrets (JNum n) = True"
| "hides_secrets (JStr s) = True"
| "hides_secrets (JArr vs) = list_all id (map hides_secrets vs)"
| "hides_secrets (JObj m) =
     (list_all (\<lambda>(key, v). sensitiveKey key \<longrightarrow> v = JStr ''[REDACTED]'') m \<and> list_all snd (map (map_prod id hides_secrets) m))"
| "hides_secrets JUnencodable = True"

lemma hides_secrets_redact: "hides_secrets (redact v)"
proof (induction v)
  case (JArr vs)
  then show ?case by (auto simp: list_all_iff)
next
  case (JObj m)
  then have "hides_secrets (redact c)" if "(k, c) \<in> set m" for k c
    using that by (metis snds.intros snd_conv)
  then show ?case by (auto simp: list_all_iff)
qed simp_all

text \<open>
  What \<open>Request\<close> records: on success exactly one row is added; its status is pending
  exactly when the policy asks for approval, its maintenance window is valid and in the future when the
  policy asks for one, the texts are trimmed and bounded, and its payload is the encoding of a
  value in which every sensitive key is redacted; on failure nothing is added.
\<close>

theorem Request_outcome:
  "case Request now newID requester inp d of
     (Inl e, d') \<Rightarrow> db_changes d' = db_changes d
   | (Inr res, d') \<Rightarrow>
       (\<exists>r v. db_changes d' = db_changes d @ [r] \<and> res = fromRecord r \<and>
          cg_id r = newID \<and> cg_requested_by r = u_ID requester \<and> cg_operation r = TrimSpace (ri_Operation inp) \<and>
          cg_status r = (if po_RequiresApproval (PolicyFor (cg_operation r)) then ''pending_approval'' else ''approved'') \<and>
          (po_RequiresWindow (PolicyFor (cg_operation r)) \<longrightarrow> window_ok now inp) \<and>
          10 \<le> length (cg_justification r) \<and> length (cg_justification r) \<le> 4000 \<and>
          cg_payload_json r = marshal v \<and> hides_secrets v \<and> encodable v)"
proof (cases "request_error now (trimmed inp)")
  case (Some e)
  then show ?thesis by (simp add: Request_def Let_def raise_def)
next
  case None
  define v where "v = redact (JObj (case ri_Payload (trimmed inp) of None \<Rightarrow> [] | Some m \<Rightarrow> m))"
  define row where "row = new_record now newID (u_ID requester) (trimmed inp) (marshal v)"
  have req: "Request now newID requester inp d =
      (if \<not> encodable v then raise PayloadInvalid
       else andThen (lifted Stored (CreateChangeRequest row)) (\<lambda>_. return (fromRecord row))) d"
    using None unfolding Request_def Let_def by (simp only: option.case v_def row_def)
  have hide: "hides_secrets v" unfolding v_def by (rule hides_secrets_redact)
  have window: "po_RequiresWindow (PolicyFor (TrimSpace (ri_Operation inp))) \<longrightarrow> window_ok now inp"
    using None by (auto simp: request_error_def trimmed_def window_ok_def split: if_splits)
  have len: "10 \<le> length (TrimSpace (ri_Justification inp)) \<and> length (TrimSpace (ri_Justification inp)) \<le> 4000"
    using None by (auto simp: request_error_def trimmed_def validateText_def split: if_splits)
  have row: "cg_id row = newID" "cg_requested_by row = u_ID requester" "cg_operation row = TrimSpace (ri_Operation inp)"
    "cg_justification row = TrimSpace (ri_Justification inp)" "cg_payload_json row = marshal v"
    "cg_status row = (if po_RequiresApproval (PolicyFor (TrimSpace (ri_Operation inp))) then ''pending_approval'' else ''approved'')"
    by (simp_all add: row_def new_record_def Let_def trimmed_def)
  obtain res d1 where c: "CreateChangeRequest row d = (res, d1)" by (cases "CreateChangeRequest row d")
  have eff: "(case res of Inl e \<Rightarrow> db_changes d1 = db_changes d | Inr _ \<Rightarrow> db_changes d1 = db_changes d @ [row])"
    using c by (auto simp: CreateChangeRequest_def exec_def Let_def split: if_splits)
  show ?thesis
  proof (cases "encodable v")
    case False
    then show ?thesis unfolding req by (simp add: raise_def)
  next
    case True
    show ?thesis
    proof (cases res)
      case (Inl e)
      then show ?thesis using True c eff unfolding req by (simp add: andThen_def lifted_def)
    next
      case (Inr u)
      have out: "Request now newID requester inp d = (Inr (fromRecord row), d1)"
        using True c Inr unfolding req by (simp add: andThen_def lifted_def return_def)
      show ?thesis
        unfolding out prod.case sum.case using eff Inr row hide window len True
        by (intro exI [of _ row] exI [of _ v]) simp
    qed
  qed
qed

theorem Request_outcome_witness:
  "\<exists>r. db_changes sample_requested = [r] \<and> cg_requested_by r = ''ana'' \<and> window_ok (10 * second) sample_input"
proof -
  let ?q = "Request (10 * second) ''chg-1'' (sample_user ''ana'') sample_input sample_users"
  obtain res d' where eq: "?q = (res, d')" by (cases ?q)
  have "isl (fst ?q) = False" by code_simp
  then obtain x where res: "res = Inr x" unfolding eq by (cases res) auto
  have after: "sample_requested = d'" unfolding sample_requested_def eq by (rule snd_conv)
  have before: "db_changes sample_users = []" by (simp add: sample_users_def empty_db_def)
  have policy: "po_RequiresWindow (PolicyFor (TrimSpace (ri_Operation sample_input)))" by code_simp
  have ana: "u_ID (sample_user ''ana'') = ''ana''" by (simp add: sample_user_def zero_user_def)
  from Request_outcome [where now = "10 * second" and newID = "''chg-1''" and requester = "sample_user ''ana''" and inp = sample_input and d = sample_users]
  obtain r where "db_changes d' = [] @ [r]" "cg_requested_by r = ''ana''" "window_ok (10 * second) sample_input"
    unfolding eq res prod.case sum.case before ana using policy by auto
  then show ?thesis by (simp add: after)
qed

end
