(* ===== verification/Events.thy ===== *)
theory Events
  imports Json "HOL-Library.Word"
begin

text \<open>
  The in-memory event broker: \<open>src/backend/internal/events/broker.go\<close>.  A channel of capacity 32 is the
  list of its buffered events; a send to a full channel drops the event, as the \<open>select\<close> with a
  \<open>default\<close> does.  Event numbers are 64-bit words.  \<open>receive\<close> is the consumer's side of a channel.
\<close>

record Event =
  ev_ID :: string
  ev_Type :: string
  ev_ResourceID :: string
  ev_CorrelationID :: string
  ev_Timestamp :: time
  ev_Payload :: json

record Broker =
  bk_next :: nat
  bk_eventID :: "64 word"
  bk_subs :: "(nat \<times> Event list) list"
  bk_history :: "Event list"

definition New :: Broker where
  "New = \<lparr>bk_next = 0, bk_eventID = 0, bk_subs = [], bk_history = []\<rparr>"

definition parseEventID :: "string \<Rightarrow> nat" where
  "parseEventID value = (case ParseUint64 (TrimPrefix (TrimSpace value) ''evt-'') of None \<Rightarrow> 0 | Some n \<Rightarrow> n)"

definition eventsAfter :: "Broker \<Rightarrow> string \<Rightarrow> Event list" where
  "eventsAfter b lastID =
     (let last = parseEventID lastID
      in if last = 0 then [] else filter (\<lambda>e. parseEventID (ev_ID e) > last) (bk_history b))"

definition SubscribeAfter :: "string \<Rightarrow> Broker \<Rightarrow> (nat \<times> Event list) \<times> Broker" where
  "SubscribeAfter lastID b =
     ((bk_next b, eventsAfter b lastID), b\<lparr>bk_next := bk_next b + 1, bk_subs := map_set (bk_next b) [] (bk_subs b)\<rparr>)"

definition Subscribe :: "Broker \<Rightarrow> nat \<times> Broker" where
  "Subscribe b = (case SubscribeAfter [] b of ((i, _), b') \<Rightarrow> (i, b'))"

definition unsubscribe :: "nat \<Rightarrow> Broker \<Rightarrow> Broker" where
  "unsubscribe i b = b\<lparr>bk_subs := filter (\<lambda>(j, _). j \<noteq> i) (bk_subs b)\<rparr>"

definition channel_capacity :: nat where "channel_capacity = 32"
definition history_limit :: nat where "history_limit = 1024"

definition send :: "Event \<Rightarrow> Event list \<Rightarrow> Event list" where
  "send e ch = (if length ch < channel_capacity then ch @ [e] else ch)"

definition trim_history :: "Event list \<Rightarrow> Event list" where
  "trim_history h = (if length h > history_limit then drop (length h - history_limit) h else h)"

definition Publish :: "time \<Rightarrow> Event \<Rightarrow> Broker \<Rightarrow> Broker" where
  "Publish now e0 b =
     (let n = bk_eventID b + 1;
          e = e0\<lparr>ev_Timestamp := (if ev_Timestamp e0 = zero_time then now else ev_Timestamp e0),
                 ev_ID := ''evt-'' @ FormatUint (unat n)\<rparr>
      in b\<lparr>bk_eventID := n, bk_history := trim_history (bk_history b @ [e]), bk_subs := map (\<lambda>(i, ch). (i, send e ch)) (bk_subs b)\<rparr>)"

definition receive :: "nat \<Rightarrow> Broker \<Rightarrow> Event option \<times> Broker" where
  "receive i b =
     (case map_of (bk_subs b) i of
        Some (e # ch) \<Rightarrow> (Some e, b\<lparr>bk_subs := map_set i ch (bk_subs b)\<rparr>)
      | _ \<Rightarrow> (None, b))"

section \<open>Event identifiers\<close>

lemma id_chars_plain:
  assumes "\<forall>c\<in>set s. is_digit c"
  shows "TrimSpace (''evt-'' @ s) = ''evt-'' @ s"
proof (rule TrimSpace_id, intro ballI notI)
  fix r c
  assume r: "r \<in> set space_runes" "c \<in> set (''evt-'' @ s)" "c \<in> set r"
  have "list_all (\<lambda>r. list_all (\<lambda>c. \<not> is_digit c \<and> c \<notin> set ''evt-'') r) space_runes" by code_simp
  then have "\<not> is_digit c \<and> c \<notin> set ''evt-''" using r(1,3) by (auto simp: list_all_iff)
  then show False using r(2) assms by auto
qed

lemma parseEventID_FormatUint: "n < 2 ^ 64 \<Longrightarrow> parseEventID (''evt-'' @ FormatUint n) = n"
proof -
  assume n: "n < 2 ^ 64"
  have "\<forall>c\<in>set (FormatUint n). is_digit c" using FormatUint_digits [of n] by (simp add: list_all_iff)
  then have "TrimSpace (''evt-'' @ FormatUint n) = ''evt-'' @ FormatUint n" by (rule id_chars_plain)
  then have "TrimPrefix (TrimSpace (''evt-'' @ FormatUint n)) ''evt-'' = FormatUint n"
    by (simp only: TrimPrefix_append)
  then show ?thesis using n by (simp add: parseEventID_def ParseUint64_FormatUint)
qed

section \<open>The window of past events\<close>

text \<open>The events of a sequence as the broker stores them: numbered from 1, with their time.\<close>

definition stored :: "nat \<Rightarrow> time \<times> Event \<Rightarrow> Event" where
  "stored n te = (snd te)\<lparr>ev_Timestamp := (if ev_Timestamp (snd te) = zero_time then fst te else ev_Timestamp (snd te)),
     ev_ID := ''evt-'' @ FormatUint n\<rparr>"

definition numbered :: "(time \<times> Event) list \<Rightarrow> Event list" where
  "numbered es = map (\<lambda>i. stored (Suc i) (es ! i)) [0..<length es]"

definition publish_all :: "(time \<times> Event) list \<Rightarrow> Broker \<Rightarrow> Broker" where
  "publish_all es b = foldl (\<lambda>b (t, e). Publish t e b) b es"

lemma length_numbered [simp]: "length (numbered es) = length es"
  by (simp add: numbered_def)

lemma numbered_snoc: "numbered (es @ [te]) = numbered es @ [stored (Suc (length es)) te]"
  by (auto simp: numbered_def nth_append)

definition window :: "'a list \<Rightarrow> 'a list" where
  "window xs = drop (length xs - history_limit) xs"

lemma window_snoc: "trim_history (window xs @ [x]) = window (xs @ [x])"
proof (cases "length xs < history_limit")
  case True
  then show ?thesis by (simp add: window_def trim_history_def)
next
  case False
  then have "Suc (length xs - history_limit) = Suc (length xs) - history_limit" by simp
  then show ?thesis using False by (simp add: window_def trim_history_def history_limit_def)
qed

lemma publish_all_state:
  assumes "length es < 2 ^ 64"
  shows "bk_eventID (publish_all es New) = of_nat (length es) \<and> bk_history (publish_all es New) = window (numbered es)"
  using assms
proof (induction es rule: rev_induct)
  case Nil
  then show ?case by (simp add: publish_all_def New_def window_def numbered_def)
next
  case (snoc te es)
  obtain t e where te: "te = (t, e)" by (cases te)
  let ?b = "publish_all es New"
  have IH: "bk_eventID ?b = of_nat (length es)" "bk_history ?b = window (numbered es)" using snoc by auto
  have len: "Suc (length es) < 2 ^ 64" using snoc.prems by simp
  have word: "bk_eventID ?b + 1 = of_nat (Suc (length es))" using IH(1) by simp
  have num: "unat (bk_eventID ?b + 1) = Suc (length es)"
    unfolding word unat_of_nat using len by (simp add: take_bit_nat_eq_self)
  have p: "publish_all (es @ [te]) New = Publish t e ?b" by (simp add: publish_all_def te)
  have "bk_history (Publish t e ?b) = trim_history (bk_history ?b @ [stored (unat (bk_eventID ?b + 1)) te])"
    by (simp only: Publish_def Let_def stored_def te fst_conv snd_conv) simp
  also have "\<dots> = window (numbered (es @ [te]))"
    unfolding num IH(2) window_snoc numbered_snoc ..
  finally have "bk_history (Publish t e ?b) = window (numbered (es @ [te]))" .
  moreover have "bk_eventID (Publish t e ?b) = of_nat (length (es @ [te]))"
    using word by (simp add: Publish_def Let_def)
  ultimately show ?case unfolding p by blast
qed

lemma filter_upt_from: "filter (\<lambda>i. k \<le> i) [m..<n] = [max k m..<n]"
  by (induction n) (auto simp: max_def)

lemma filter_after_number:
  assumes "length es < 2 ^ 64"
  shows "filter (\<lambda>e. parseEventID (ev_ID e) > k) (window (numbered es)) = drop (max k (length es - history_limit)) (numbered es)"
proof -
  let ?m = "length es - history_limit"
  have w: "window (numbered es) = map (\<lambda>i. stored (Suc i) (es ! i)) [?m..<length es]"
    by (simp add: window_def numbered_def drop_map)
  have "filter (\<lambda>e. parseEventID (ev_ID e) > k) (window (numbered es)) =
      map (\<lambda>i. stored (Suc i) (es ! i)) (filter (\<lambda>i. parseEventID (ev_ID (stored (Suc i) (es ! i))) > k) [?m..<length es])"
    unfolding w filter_map by (simp add: comp_def)
  also have "filter (\<lambda>i. parseEventID (ev_ID (stored (Suc i) (es ! i))) > k) [?m..<length es] = filter (\<lambda>i. k \<le> i) [?m..<length es]"
  proof (rule filter_cong [OF refl])
    fix i
    assume "i \<in> set [?m..<length es]"
    then have "Suc i < 2 ^ 64" using assms by auto
    moreover have "ev_ID (stored (Suc i) (es ! i)) = ''evt-'' @ FormatUint (Suc i)" by (simp add: stored_def)
    ultimately have "parseEventID (ev_ID (stored (Suc i) (es ! i))) = Suc i" by (simp only: parseEventID_FormatUint)
    then show "(parseEventID (ev_ID (stored (Suc i) (es ! i))) > k) = (k \<le> i)" by auto
  qed
  also have "filter (\<lambda>i. k \<le> i) [?m..<length es] = [max k ?m..<length es]"
    by (rule filter_upt_from)
  finally show ?thesis by (simp add: numbered_def drop_map)
qed

section \<open>Properties\<close>

text \<open>
  C20. Replay after a reconnection: after any sequence of publications, a subscriber that names the k-th
  event as the last one it saw gets exactly the later events that are still among the last 1024,
  complete and in order; an identifier that is no event number gets none.
\<close>

theorem replay_is_complete:
  assumes "length es < 2 ^ 64" "0 < k" "k < 2 ^ 64"
  shows "snd (fst (SubscribeAfter (''evt-'' @ FormatUint k) (publish_all es New))) =
      drop (max k (length es - history_limit)) (numbered es) \<and>
    (parseEventID lastID = 0 \<longrightarrow> snd (fst (SubscribeAfter lastID (publish_all es New))) = [])"
proof
  have h: "bk_history (publish_all es New) = window (numbered es)" using publish_all_state [OF assms(1)] by simp
  show "snd (fst (SubscribeAfter (''evt-'' @ FormatUint k) (publish_all es New))) =
      drop (max k (length es - history_limit)) (numbered es)"
    using assms(2) unfolding SubscribeAfter_def fst_conv snd_conv eventsAfter_def Let_def h
      parseEventID_FormatUint [OF assms(3)] filter_after_number [OF assms(1)] by simp
  show "parseEventID lastID = 0 \<longrightarrow> snd (fst (SubscribeAfter lastID (publish_all es New))) = []"
    by (simp add: SubscribeAfter_def eventsAfter_def)
qed

definition sample_event :: "string \<Rightarrow> Event" where
  "sample_event t = \<lparr>ev_ID = [], ev_Type = t, ev_ResourceID = [], ev_CorrelationID = [], ev_Timestamp = 1, ev_Payload = JNull\<rparr>"

theorem replay_is_complete_witness:
  "map ev_Type (snd (fst (SubscribeAfter (''evt-'' @ FormatUint 1)
     (publish_all [(0, sample_event ''a''), (0, sample_event ''b''), (0, sample_event ''c'')] New)))) = [''b'', ''c'']"
proof -
  let ?es = "[(0, sample_event ''a''), (0, sample_event ''b''), (0, sample_event ''c'')]"
  have r: "snd (fst (SubscribeAfter (''evt-'' @ FormatUint 1) (publish_all ?es New))) = drop (max 1 (length ?es - history_limit)) (numbered ?es)"
    using replay_is_complete [of ?es 1 "[]"] by simp
  show ?thesis
    by (rule trans [OF arg_cong [OF r]]) (simp add: numbered_def stored_def sample_event_def history_limit_def upt_rec)
qed

text \<open>The operations as steps of a machine.\<close>

inductive broker_step :: "Broker \<Rightarrow> Broker \<Rightarrow> bool" where
  "broker_step b (snd (SubscribeAfter lastID b))"
| "broker_step b (unsubscribe i b)"
| "broker_step b (Publish now e b)"
| "broker_step b (snd (receive i b))"

inductive broker_reachable :: "Broker \<Rightarrow> bool" where
  "broker_reachable New"
| "broker_reachable b \<Longrightarrow> broker_step b b' \<Longrightarrow> broker_reachable b'"

definition broker_inv :: "Broker \<Rightarrow> bool" where
  "broker_inv b \<longleftrightarrow>
     length (bk_history b) \<le> history_limit \<and> distinct (map fst (bk_subs b)) \<and>
     (\<forall>(i, ch)\<in>set (bk_subs b). i < bk_next b \<and> length ch \<le> channel_capacity)"

lemma map_set_fresh_key: "k \<notin> fst ` set m \<Longrightarrow> map_set k v m = m @ [(k, v)]"
  by (induction m) (auto split: if_splits)

lemma map_fst_map_set: "map_of m k \<noteq> None \<Longrightarrow> map fst (map_set k v m) = map fst m"
  by (induction m) (auto split: if_splits)

lemma set_map_set: "set (map_set k v m) \<subseteq> insert (k, v) (set m)"
proof (induction m)
  case (Cons p m)
  then show ?case by (cases p) auto
qed simp

lemma broker_step_inv: "broker_step b b' \<Longrightarrow> broker_inv b \<Longrightarrow> broker_inv b'"
proof (induction rule: broker_step.induct)
  case (1 b lastID)
  then have "bk_next b \<notin> fst ` set (bk_subs b)" by (auto simp: broker_inv_def)
  then show ?case using 1 by (auto simp: broker_inv_def SubscribeAfter_def map_set_fresh_key)
next
  case (2 b i)
  have "distinct (map fst (filter P m))" if "distinct (map fst m)" for P and m :: "(nat \<times> Event list) list"
    using that by (induction m) auto
  then show ?case using 2 by (auto simp: broker_inv_def unsubscribe_def)
next
  case (3 b now e)
  have subs: "map fst (map (\<lambda>(i, ch). (i, send x ch)) m) = map fst m" for x m by (induction m) auto
  have len: "length (trim_history h) \<le> history_limit" for h by (simp add: trim_history_def)
  have room: "length (send x ch) \<le> channel_capacity" if "length ch \<le> channel_capacity" for x ch
    using that by (simp add: send_def)
  show ?case using 3 unfolding broker_inv_def Publish_def Let_def
    by (auto simp: subs len simp del: map_map intro: room)
next
  case (4 b i)
  show ?case
  proof (cases "map_of (bk_subs b) i")
    case (Some ch)
    then have m: "(i, ch) \<in> set (bk_subs b)" by (rule map_of_SomeD)
    then show ?thesis
      using 4 Some m set_map_set [of i "tl ch" "bk_subs b"] map_fst_map_set [of "bk_subs b" i]
      by (cases ch) (fastforce simp: broker_inv_def receive_def)+
  qed (use 4 in \<open>simp add: receive_def\<close>)
qed

text \<open>
  The broker's memory is bounded whatever subscribers and publishers do: at most 1024 past events,
  at most 32 buffered events per subscriber, and every subscription has an identifier of its own.
\<close>

theorem broker_memory_bounded:
  assumes "broker_reachable b"
  shows "length (bk_history b) \<le> 1024 \<and> (\<forall>(i, ch)\<in>set (bk_subs b). length ch \<le> 32) \<and> distinct (map fst (bk_subs b))"
proof -
  have "broker_inv New" by (simp add: broker_inv_def New_def)
  with assms have "broker_inv b"
    by (induction rule: broker_reachable.induct) (blast intro: broker_step_inv)+
  then show ?thesis by (auto simp: broker_inv_def history_limit_def channel_capacity_def)
qed

theorem broker_memory_bounded_witness:
  "length (bk_history (Publish 0 (sample_event ''a'') New)) \<le> 1024"
  using broker_memory_bounded [of "Publish 0 (sample_event ''a'') New"] broker_reachable.intros broker_step.intros(3) by blast

end
