(* ===== verification/Sqlite.thy ===== *)
theory Sqlite
  imports Json GoTime
begin

text \<open>
  The conversion of values at the C interface of \<open>src/backend/internal/sqlite/sqlite.go\<close>: what a Go argument is bound as, what
  comes back for a column, and what \<open>Scan\<close> assigns.  SQLite itself is not under \<open>src/\<close>: a value is taken to come back
  with the storage class with which it was bound, as it does for a column whose affinity agrees.  \<open>float64\<close> is a type
  parameter.  Text is bound with its length but read with \<open>C.GoString\<close>, that is up to its first NUL byte.
\<close>

datatype 'f sql_value = SNull | SInteger int | SFloat 'f | SText string | SBlob string

datatype 'f argument = ANil | AString string | ABytes string | AInt int | ABool bool | AFloat 'f | ATime time

definition bind_value :: "'f argument \<Rightarrow> 'f sql_value" where
  "bind_value a =
     (case a of
        ANil \<Rightarrow> SNull
      | AString s \<Rightarrow> SText s
      | ABytes b \<Rightarrow> SBlob b
      | AInt n \<Rightarrow> SInteger n
      | ABool b \<Rightarrow> SInteger (if b then 1 else 0)
      | AFloat x \<Rightarrow> SFloat x
      | ATime t \<Rightarrow> SText (RFC3339Nano t))"

text \<open>\<open>C.GoString\<close>: the bytes before the first NUL.\<close>

definition GoString :: "string \<Rightarrow> string" where
  "GoString s = takeWhile (\<lambda>c. c \<noteq> CHR 0x00) s"

definition column :: "'f sql_value \<Rightarrow> 'f sql_value" where
  "column v = (case v of SText s \<Rightarrow> SText (GoString s) | _ \<Rightarrow> v)"

text \<open>\<open>set\<close> on the destinations that the store uses; \<open>sprint\<close> is \<open>fmt.Sprint\<close> of a float and \<open>atoi\<close> is \<open>strconv.Atoi\<close>.\<close>

datatype set_error = CannotAssign | NotANumber

definition set_string :: "('f \<Rightarrow> string) \<Rightarrow> 'f sql_value \<Rightarrow> string" where
  "set_string sprint src =
     (case src of SNull \<Rightarrow> [] | SInteger n \<Rightarrow> FormatInt n | SFloat x \<Rightarrow> sprint x | SText s \<Rightarrow> s
      | SBlob b \<Rightarrow> ''['' @ Join (map (\<lambda>c. FormatUint (of_char c)) b) '' '' @ '']'')"

definition set_NullString :: "('f \<Rightarrow> string) \<Rightarrow> 'f sql_value \<Rightarrow> string option" where
  "set_NullString sprint src = (case src of SNull \<Rightarrow> None | _ \<Rightarrow> Some (set_string sprint src))"

text \<open>A blob is not assigned to an \<open>int\<close> but leaves it as it is, here \<open>old\<close>, without an error.\<close>

definition set_int :: "(string \<Rightarrow> int option) \<Rightarrow> ('f \<Rightarrow> int) \<Rightarrow> int \<Rightarrow> 'f sql_value \<Rightarrow> set_error + int" where
  "set_int atoi trunc old src =
     (case src of SNull \<Rightarrow> Inr 0 | SInteger n \<Rightarrow> Inr n | SFloat x \<Rightarrow> Inr (trunc x)
      | SText s \<Rightarrow> (case atoi s of None \<Rightarrow> Inl NotANumber | Some n \<Rightarrow> Inr n)
      | SBlob b \<Rightarrow> Inr old)"

lemma GoString_id: "CHR 0x00 \<notin> set s \<Longrightarrow> GoString s = s"
  by (induction s) (auto simp: GoString_def)

lemma GoString_no_nul: "CHR 0x00 \<notin> set (GoString s)"
  by (auto simp: GoString_def dest: set_takeWhileD)

lemma GoString_Nil [simp]: "GoString [] = []"
  by (simp add: GoString_def)

lemma GoString_printable: "(\<And>c. c \<in> set s \<Longrightarrow> 32 \<le> (of_char c :: nat)) \<Longrightarrow> GoString s = s"
  by (rule GoString_id) force

text \<open>What a statement stored comes back: a text without NUL bytes, an optional text, an integer, a flag and a time stamp.\<close>

lemma stored_value_read_back:
  assumes "CHR 0x00 \<notin> set s"
  shows "set_string sprint (column (bind_value (AString s))) = s"
    and "set_NullString sprint (column (bind_value (AString s))) = Some s"
    and "set_NullString sprint (column (bind_value ANil)) = None"
    and "set_int atoi trunc old (column (bind_value (AInt n))) = Inr n"
    and "set_int atoi trunc old (column (bind_value (ABool b))) = Inr (if b then 1 else 0)"
    and "set_string sprint (column (bind_value (ATime t))) = RFC3339Nano t"
  using GoString_id [OF assms] GoString_printable [OF RFC3339Nano_printable]
  by (simp_all add: bind_value_def column_def set_string_def set_NullString_def set_int_def)

lemma text_read_up_to_nul: "set_string sprint (column (bind_value (AString (s @ CHR 0x00 # t)))) = GoString s"
proof -
  have "GoString (s @ CHR 0x00 # t) = GoString s" by (induction s) (auto simp: GoString_def)
  then show ?thesis by (simp add: bind_value_def column_def set_string_def)
qed

end
