(* ===== verification/JsonRound.thy ===== *)
theory JsonRound
  imports Json "HOL-Library.Multiset"
begin

text \<open>
  What a value becomes when it is encoded, decoded and encoded again, as a signed payload is: for
  values whose strings and keys are valid UTF-8 the text does not change, so both ends sign the same bytes.
\<close>

section \<open>Sorted keys\<close>

lemma bytes_less_total: "\<not> bytes_less a b \<Longrightarrow> a = b \<or> bytes_less b a"
proof (induction a b rule: bytes_less.induct)
  case (3 x xs y ys)
  then show ?case using of_char_eq_iff [of x y, where 'a = nat] by auto
qed auto

lemma bytes_less_trans: "bytes_less a b \<Longrightarrow> bytes_less b c \<Longrightarrow> bytes_less a c"
proof (induction a b arbitrary: c rule: bytes_less.induct)
  case (3 x xs y ys)
  then show ?case by (cases c) auto
qed (auto split: list.splits elim: bytes_less.elims)

lemma bytes_less_asym: "bytes_less a b \<Longrightarrow> \<not> bytes_less b a"
  using bytes_less_trans by fastforce

definition in_order :: "(string \<times> 'a) list \<Rightarrow> bool" where
  "in_order ps \<longleftrightarrow> sorted_wrt (\<lambda>p q. \<not> bytes_less (fst q) (fst p)) ps"

lemma mset_insert_key [simp]: "mset (insert_key p ps) = add_mset p (mset ps)"
  by (induction ps) auto

lemma mset_sort_keys [simp]: "mset (sort_keys ps) = mset ps"
  by (induction ps) (simp_all add: sort_keys_def)

lemma set_sort_keys [simp]: "set (sort_keys ps) = set ps"
  by (metis mset_sort_keys set_mset_mset)

lemma distinct_sort_keys [simp]: "distinct (map fst (sort_keys ps)) = distinct (map fst ps)"
proof -
  have "mset (map fst (sort_keys ps)) = mset (map fst ps)" by (simp add: mset_map del: mset_map [symmetric])
  then show ?thesis using mset_eq_imp_distinct_iff by blast
qed

lemma insert_key_in_order: "in_order ps \<Longrightarrow> in_order (insert_key p ps)"
proof (induction ps)
  case (Cons q qs)
  have set: "set (insert_key p qs) = insert p (set qs)" by (metis mset_insert_key set_mset_add_mset_insert set_mset_mset)
  show ?case
  proof (cases "bytes_less (fst q) (fst p)")
    case True
    then show ?thesis using Cons by (auto simp: in_order_def set dest: bytes_less_asym)
  next
    case False
    have "\<not> bytes_less (fst x) (fst p)" if "x \<in> set qs" for x
      using that Cons.prems False bytes_less_total [of "fst q" "fst p"] bytes_less_trans [of "fst x" "fst p" "fst q"]
      by (auto simp: in_order_def)
    then show ?thesis using Cons.prems False by (auto simp: in_order_def)
  qed
qed (simp add: in_order_def)

lemma sort_keys_in_order: "in_order (sort_keys ps)"
  by (induction ps) (simp_all add: sort_keys_def insert_key_in_order, simp add: in_order_def)

lemma insert_key_first: "(\<And>q. q \<in> set qs \<Longrightarrow> \<not> bytes_less (fst q) (fst p)) \<Longrightarrow> insert_key p qs = p # qs"
  by (cases qs) auto

lemma sort_keys_id: "in_order ps \<Longrightarrow> sort_keys ps = ps"
  by (induction ps) (auto simp: sort_keys_def in_order_def intro: insert_key_first)

lemma sort_keys_map_fst: "(\<And>p. fst (g p) = fst p) \<Longrightarrow> sort_keys (map g ps) = map g (sort_keys ps)"
proof -
  assume g: "\<And>p. fst (g p) = fst p"
  have "insert_key (g p) (map g qs) = map g (insert_key p qs)" for p and qs
    by (induction qs) (simp_all add: g)
  then show ?thesis by (induction ps) (simp_all add: sort_keys_def)
qed

lemma sort_keys_map: "sort_keys (map (map_prod id f) ps) = map (map_prod id f) (sort_keys ps)"
  by (rule sort_keys_map_fst) simp

section \<open>Values in valid UTF-8\<close>

primrec utf8_json :: "json \<Rightarrow> bool" where
  "utf8_json JNull = True"
| "utf8_json (JBool b) = True"
| "utf8_json (JNum n) = True"
| "utf8_json (JStr s) = (valid_utf8 s = s)"
| "utf8_json (JArr vs) = list_all id (map utf8_json vs)"
| "utf8_json (JObj m) =
     (distinct (map fst m) \<and> list_all (\<lambda>(k, ok). valid_utf8 k = k \<and> ok) (map (map_prod id utf8_json) m))"
| "utf8_json JUnencodable = False"

lemma utf8_member: "utf8_json (JObj m) \<Longrightarrow> (k, v) \<in> set m \<Longrightarrow> valid_utf8 k = k \<and> utf8_json v"
  by (force simp: list_all_iff)

lemma utf8_encodable: "utf8_json v \<Longrightarrow> encodable v"
  by (induction v) (fastforce simp: list_all_iff)+

lemma map_set_new: "k \<notin> fst ` set m \<Longrightarrow> map_set k v m = m @ [(k, v)]"
  by (induction m) auto

lemma foldl_map_set:
  "distinct (map fst (acc @ ps)) \<Longrightarrow> (\<And>k v. (k, v) \<in> set ps \<Longrightarrow> valid_utf8 k = k) \<Longrightarrow>
     foldl (\<lambda>acc (k, v). map_set (valid_utf8 k) v acc) acc ps = acc @ ps"
proof (induction ps arbitrary: acc)
  case (Cons p ps)
  obtain k v where p: "p = (k, v)" by (cases p)
  have k: "valid_utf8 k = k" "k \<notin> fst ` set acc" using Cons.prems p by auto
  have "distinct (map fst ((acc @ [p]) @ ps))" using Cons.prems(1) by simp
  then have "foldl (\<lambda>acc (k, v). map_set (valid_utf8 k) v acc) (acc @ [p]) ps = (acc @ [p]) @ ps"
    by (rule Cons.IH) (use Cons.prems(2) in auto)
  then show ?case by (simp add: p k map_set_new)
qed simp

text \<open>A decoded object is the object with its keys in order.\<close>

lemma decoded_JObj:
  "utf8_json (JObj m) \<Longrightarrow> decoded (JObj m) = JObj (sort_keys (map (map_prod id decoded) m))"
proof -
  assume "utf8_json (JObj m)"
  then have d: "distinct (map fst m)" and k: "\<And>x v. (x, v) \<in> set m \<Longrightarrow> valid_utf8 x = x" using utf8_member by (simp, blast)
  have "distinct (map fst (sort_keys (map (map_prod id decoded) m)))" using d by (simp add: comp_def)
  then show ?thesis using k by (subst decoded.simps, subst foldl_map_set) auto
qed

theorem marshal_decoded: "utf8_json v \<Longrightarrow> marshal (decoded v) = marshal v"
proof (induction v)
  case (JStr s)
  then show ?case by simp
next
  case (JArr vs)
  then have "map (marshal \<circ> decoded) vs = map marshal vs" by (auto simp: list_all_iff)
  then show ?case by (simp del: map_eq_conv)
next
  case (JObj m)
  have vals: "map_prod id (marshal \<circ> decoded) p = map_prod id marshal p" if "p \<in> set m" for p
  proof (cases p)
    case (Pair k x)
    then have "utf8_json x" using utf8_member [OF JObj.prems] that by blast
    then show ?thesis using JObj.IH [of p x] that Pair by simp
  qed
  have "map (map_prod id marshal) (sort_keys (map (map_prod id decoded) m)) = sort_keys (map (map_prod id (marshal \<circ> decoded)) m)"
    unfolding sort_keys_map map_map by (simp add: map_prod.comp)
  also have "map (map_prod id (marshal \<circ> decoded)) m = map (map_prod id marshal) m" using vals by (intro map_cong) auto
  finally have "sort_keys (map (map_prod id marshal) (sort_keys (map (map_prod id decoded) m))) = sort_keys (map (map_prod id marshal) m)"
    by (simp only: sort_keys_id [OF sort_keys_in_order])
  then show ?case by (simp only: decoded_JObj [OF JObj.prems] marshal.simps)
qed simp_all

lemma encodable_decoded: "utf8_json v \<Longrightarrow> encodable (decoded v)"
proof (induction v)
  case (JObj m)
  have "encodable (decoded x)" if "(k, x) \<in> set m" for k x
    using JObj.IH [of "(k, x)" x] utf8_member [OF JObj.prems that] that by simp
  then show ?case unfolding decoded_JObj [OF JObj.prems] by (auto simp: list_all_iff)
qed (auto simp: list_all_iff)

lemma transport_utf8:
  assumes "utf8_json (JObj m)"
  obtains p where "transport m = Some p" "Marshal p = Marshal m" "\<And>k. map_of p k = map_option decoded (map_of m k)"
proof
  let ?p = "sort_keys (map (map_prod id decoded) m)"
  have e: "encodable (JObj m)" using utf8_encodable [OF assms] .
  show "transport m = Some ?p" using e decoded_JObj [OF assms] by (simp add: transport_def)
  have "encodable (decoded (JObj m))" using encodable_decoded [OF assms] .
  then have "encodable (JObj ?p)" using decoded_JObj [OF assms] by simp
  then show "Marshal ?p = Marshal m" using e marshal_decoded [OF assms] decoded_JObj [OF assms] by (simp add: Marshal_def)
  have "distinct (map fst m)" using assms by simp
  then have "map_of ?p = map_of (map (map_prod id decoded) m)" by (subst map_of_inject_set) (simp_all add: comp_def)
  then show "map_of ?p k = map_option decoded (map_of m k)" for k
    by (simp add: map_prod_def map_of_map)
qed

lemma valid_utf8_ascii: "list_all (in_bytes 0 0x7F) s \<Longrightarrow> valid_utf8 s = s"
proof (induction s)
  case (Cons c s)
  then show ?case by (subst valid_utf8.simps) (simp add: rune_len_def)
qed (simp add: valid_utf8.simps)

end
