(* ===== verification/AuditLog.thy ===== *)
theory AuditLog
  imports Store Hash Sqlite JsonRound
begin

text \<open>
  The audit log and its hash chain: \<open>src/backend/internal/audit/audit.go\<close>.  A row's hash is the
  SHA-256 of the concatenation of some of its fields and the previous row's hash.  \<open>Record\<close> ignores an
  error of the query for the previous hash, as the source does.  Roles that are a nil slice are
  \<open>None\<close>.  The values before and after are JSON values built of \<open>map[string]any\<close> and
  \<open>[]any\<close>, the two kinds the redaction enters.
\<close>

record Entry =
  en_Actor :: string
  en_Roles :: "string list option"
  en_Source :: string
  en_IP :: string
  en_Operation :: string
  en_Resource :: string
  en_Result :: string
  en_CorrelationID :: string
  en_JobID :: string
  en_Reason :: string
  en_Before :: json
  en_After :: json

datatype audit_error = AuditStore store_error | AuditEncoding | ChainBroken | HashMismatch

definition audit_markers :: "string list" where
  "audit_markers =
     [''password'', ''passwd'', ''secret'', ''token'', ''credential'', ''authorization'', ''cookie'', ''keytab'',
      ''privatekey'', ''totp'', ''otp'', ''recoverycode'']"

definition auditSensitiveKey :: "string \<Rightarrow> bool" where
  "auditSensitiveKey key =
     (let normalized = ToLower (remove_chars {CHR ''_'', CHR ''-'', CHR '' ''} key)
      in list_ex (\<lambda>marker. Contains normalized marker) audit_markers)"

primrec redactAuditValue :: "json \<Rightarrow> json" where
  "redactAuditValue JNull = JNull"
| "redactAuditValue (JBool b) = JBool b"
| "redactAuditValue (JNum n) = JNum n"
| "redactAuditValue (JStr s) = JStr s"
| "redactAuditValue (JArr vs) = JArr (map redactAuditValue vs)"
| "redactAuditValue (JObj m) =
     JObj (map (\<lambda>(key, child). (key, if auditSensitiveKey key then JStr ''[REDACTED]'' else child)) (map (map_prod id redactAuditValue) m))"
| "redactAuditValue JUnencodable = JUnencodable"

definition jsonOrNull :: "string \<Rightarrow> string" where
  "jsonOrNull value = (if value = [] then ''null'' else value)"

definition nullJSON :: "string \<Rightarrow> string option" where
  "nullJSON v = (if v = ''null'' then None else Some v)"

definition nullString :: "string \<Rightarrow> string option" where
  "nullString v = (if v = [] then None else Some v)"

definition chain_hash :: "string list \<Rightarrow> string" where
  "chain_hash parts = hex_encode (sha256 (concat parts))"

definition last_hash :: "audit_row list \<Rightarrow> string" where
  "last_hash rows = (if rows = [] then [] else au_hash (last rows))"

text \<open>The previous hash as \<open>Record\<close> reads it: empty when there is no row or the query fails.\<close>

definition previous_hash :: "(audit_error, string) eact" where
  "previous_hash d =
     (case exec (\<lambda>d. (Inr (GoString (last_hash (db_audit d))), d)) d of
        (Inl e, d1) \<Rightarrow> (Inr [], d1)
      | (Inr h, d1) \<Rightarrow> (Inr h, d1))"

definition roles_json :: "string list option \<Rightarrow> json" where
  "roles_json roles = (case roles of None \<Rightarrow> JNull | Some rs \<Rightarrow> JArr (map JStr rs))"

definition audit_row_of :: "time \<Rightarrow> string \<Rightarrow> Entry \<Rightarrow> string \<Rightarrow> string \<Rightarrow> string \<Rightarrow> audit_row" where
  "audit_row_of now newID e before after prev =
     (let ts = RFC3339Nano now
      in \<lparr>au_id = newID, au_timestamp = ts, au_actor = en_Actor e, au_roles_json = marshal (roles_json (en_Roles e)),
          au_source = en_Source e, au_ip = en_IP e, au_operation = en_Operation e, au_resource = en_Resource e,
          au_before_json = nullJSON before, au_after_json = nullJSON after, au_result = en_Result e,
          au_correlation_id = en_CorrelationID e, au_job_id = nullString (en_JobID e), au_reason = nullString (en_Reason e),
          au_hash = chain_hash [ts, en_Actor e, en_Operation e, en_Resource e, en_Result e, en_CorrelationID e, before, after, prev],
          au_previous_hash = nullString prev\<rparr>)"

definition insert_audit :: "audit_row \<Rightarrow> unit act" where
  "insert_audit r = exec (\<lambda>d.
     if list_ex (\<lambda>x. au_id x = au_id r) (db_audit d) then (Inl ConstraintFailed, d)
     else (Inr (), d\<lparr>db_audit := db_audit d @ [r]\<rparr>))"

definition Record :: "time \<Rightarrow> string \<Rightarrow> Entry \<Rightarrow> (audit_error, unit) eact" where
  "Record now newID e =
     (let before = redactAuditValue (en_Before e); after = redactAuditValue (en_After e)
      in if \<not> encodable before \<or> \<not> encodable after then raise AuditEncoding
         else andThen previous_hash (\<lambda>prev.
                lifted AuditStore (insert_audit (audit_row_of now newID e (marshal before) (marshal after) prev))))"

fun verify_rows :: "string \<Rightarrow> audit_row list \<Rightarrow> audit_error option" where
  "verify_rows previous [] = None"
| "verify_rows previous (r # rs) =
     (let linked = coalesce (au_previous_hash r)
      in if linked \<noteq> previous then Some ChainBroken
         else if \<not> EqualFold (au_hash r)
              (chain_hash [au_timestamp r, au_actor r, au_operation r, au_resource r, au_result r, au_correlation_id r,
                 jsonOrNull (coalesce (au_before_json r)), jsonOrNull (coalesce (au_after_json r)), linked])
           then Some HashMismatch
         else verify_rows (au_hash r) rs)"

text \<open>The columns that \<open>Verify\<close> scans, as the C interface reads them.\<close>

definition scanned :: "audit_row \<Rightarrow> audit_row" where
  "scanned r = r\<lparr>au_timestamp := GoString (au_timestamp r), au_actor := GoString (au_actor r), au_operation := GoString (au_operation r),
     au_resource := GoString (au_resource r), au_result := GoString (au_result r), au_correlation_id := GoString (au_correlation_id r),
     au_before_json := map_option GoString (au_before_json r), au_after_json := map_option GoString (au_after_json r),
     au_hash := GoString (au_hash r), au_previous_hash := map_option GoString (au_previous_hash r)\<rparr>"

definition Verify :: "(audit_error, unit) eact" where
  "Verify = andThen (lifted AuditStore (exec (\<lambda>d. (Inr (map scanned (db_audit d)), d))))
     (\<lambda>rows. case verify_rows [] rows of None \<Rightarrow> return () | Some e \<Rightarrow> raise e)"

section \<open>The chain\<close>

lemma marshal_nonempty: "encodable v \<Longrightarrow> marshal v \<noteq> []"
  by (cases v) (auto simp: FormatInt_def quote_def)

lemma json_round_trip: "encodable v \<Longrightarrow> jsonOrNull (coalesce (nullJSON (marshal v))) = marshal v"
  using marshal_nonempty [of v] by (auto simp: nullJSON_def coalesce_def jsonOrNull_def)

lemma nullString_round_trip [simp]: "coalesce (nullString s) = s"
  by (simp add: nullString_def coalesce_def)

lemma last_hash_Cons: "last_hash (r # rs) = (if rs = [] then au_hash r else last_hash rs)"
  by (simp add: last_hash_def)

lemma verify_rows_snoc:
  "verify_rows previous (rs @ [r]) =
     (case verify_rows previous rs of
        Some e \<Rightarrow> Some e
      | None \<Rightarrow> verify_rows (if rs = [] then previous else last_hash rs) [r])"
  by (induction rs arbitrary: previous) (auto simp: Let_def last_hash_Cons split: option.split)

text \<open>A row whose text fields hold no NUL byte comes back as it was inserted.\<close>

definition no_nul :: "Entry \<Rightarrow> bool" where
  "no_nul e = list_all (\<lambda>s. CHR 0x00 \<notin> set s) [en_Actor e, en_Operation e, en_Resource e, en_Result e, en_CorrelationID e]"

lemma continuation_high: "continuation c \<Longrightarrow> 0x80 \<le> (of_char c :: nat)"
  by (simp add: in_bytes_def)

lemma second_high: "in_bytes 160 k c \<Longrightarrow> 0x80 \<le> (of_char c :: nat)" "in_bytes 144 k c \<Longrightarrow> 0x80 \<le> (of_char c :: nat)"
    "in_bytes 128 k c \<Longrightarrow> 0x80 \<le> (of_char c :: nat)"
  by (simp_all add: in_bytes_def)

lemma first_high: "\<not> in_bytes 0 0x7F c \<Longrightarrow> 0x80 \<le> (of_char c :: nat)"
  by (simp add: in_bytes_def)

lemma rune_len_high: "rune_len s \<noteq> 1 \<Longrightarrow> \<forall>c\<in>set (take (rune_len s) s). 0x80 \<le> (of_char c :: nat)"
proof (cases s)
  case (Cons a s1)
  note s = this
  assume "rune_len s \<noteq> 1"
  then have "\<not> in_bytes 0 0x7F a" unfolding s rune_len_def by (simp split: if_splits)
  then show ?thesis using first_high [of a]
    unfolding s rune_len_def
    by (cases s1; cases "tl s1"; cases "tl (tl s1)") (auto simp: continuation_high dest: second_high)
qed simp

lemma escape_no_nul: "CHR 0x00 \<notin> set (escape s)"
proof (induction s rule: escape.induct)
  case (1 s)
  have a: "CHR 0x00 \<notin> set (escape_ascii (hd s))" if "rune_len s = 1"
    using escape_ascii_no_control [of "CHR 0x00" "hd s"] that by (cases s) (auto simp: rune_len_def split: if_splits list.splits)
  have b: "CHR 0x00 \<notin> set (take (rune_len s) s)" if "rune_len s \<noteq> 1" using rune_len_high [OF that] by auto
  show ?case
  proof (cases "s = [] \<or> rune_len s = 0")
    case True
    show ?thesis
    proof (cases "s = []")
      case False
      then have "escape s = (CHR 0x5C # ''ufffd'') @ escape (drop 1 s)" using True by (subst escape.simps) simp
      then show ?thesis using 1(1) False True by (cases s) auto
    qed (simp add: escape.simps)
  next
    case False
    then have "CHR 0x00 \<notin> set (escape (drop (rune_len s) s))" using 1(2) by simp
    then show ?thesis using False a b by (simp add: escape.simps [of s] Let_def)
  qed
qed

lemma FormatInt_no_nul: "CHR 0x00 \<notin> set (FormatInt n)"
  using FormatUint_printable [of "CHR 0x00"] by (auto simp: FormatInt_def)

lemma set_Join_subset: "set (Join xs sep) \<subseteq> (\<Union>x\<in>set xs. set x) \<union> set sep"
  by (induction xs sep rule: Join.induct) auto

lemma marshal_no_nul: "CHR 0x00 \<notin> set (marshal v)"
proof (induction v)
  case (JArr vs)
  then show ?case using set_Join_subset [of "map marshal vs" "'',''"] by auto
next
  case (JObj m)
  let ?l = "sort_keys (map (map_prod id marshal) m)"
  have q: "CHR 0x00 \<notin> set (quote k)" for k by (simp add: quote_def escape_no_nul)
  have m: "CHR 0x00 \<notin> set t" if "(k, t) \<in> set ?l" for k t
  proof -
    have "(k, t) \<in> map_prod id marshal ` set m" using that by (simp only: set_sort_keys set_map)
    then obtain k' v where "(k', v) \<in> set m" "t = marshal v" by auto
    then show ?thesis using JObj by auto
  qed
  have "CHR 0x00 \<notin> set ((\<lambda>(k, v). quote k @ '':'' @ v) p)" if "p \<in> set ?l" for p
    using that q m by (cases p) auto
  then have "CHR 0x00 \<notin> (\<Union>x\<in>set (map (\<lambda>(k, v). quote k @ '':'' @ v) ?l). set x)" by auto
  then show ?case using set_Join_subset [of "map (\<lambda>(k, v). quote k @ '':'' @ v) ?l" "'',''"] by auto
qed (simp_all add: FormatInt_no_nul quote_def escape_no_nul)

lemma hex_no_nul: "CHR 0x00 \<notin> set (hex_encode s)"
proof -
  have "length hex_digits = 16" "CHR 0x00 \<notin> set hex_digits" by (simp_all add: hex_digits_def)
  moreover have "of_char c < (256 :: nat)" for c :: char by simp
  ultimately show ?thesis by (auto simp: hex_encode_def less_mult_imp_div_less)
qed

lemma scanned_recorded:
  assumes "no_nul e" "CHR 0x00 \<notin> set prev"
  shows "scanned (audit_row_of now newID e (marshal before) (marshal after) prev) = audit_row_of now newID e (marshal before) (marshal after) prev"
  using assms GoString_printable [OF RFC3339Nano_printable]
  by (simp add: scanned_def audit_row_of_def Let_def no_nul_def GoString_id chain_hash_def hex_no_nul nullJSON_def nullString_def marshal_no_nul)

lemma verify_recorded:
  assumes "encodable before" "encodable after"
  shows "verify_rows prev [audit_row_of now newID e (marshal before) (marshal after) prev] = None"
  using json_round_trip [OF assms(1)] json_round_trip [OF assms(2)]
  by (simp add: audit_row_of_def Let_def)

lemma Record_effect:
  assumes "\<not> db_fault d (db_tick d)"
  shows "db_audit (snd (Record now newID e d)) = db_audit d \<or>
    (\<exists>before after. encodable before \<and> encodable after \<and>
       db_audit (snd (Record now newID e d)) =
         db_audit d @ [audit_row_of now newID e (marshal before) (marshal after) (GoString (last_hash (db_audit d)))])"
proof (cases "encodable (redactAuditValue (en_Before e)) \<and> encodable (redactAuditValue (en_After e))")
  case True
  have p: "previous_hash d = (Inr (GoString (last_hash (db_audit d))), d\<lparr>db_tick := Suc (db_tick d)\<rparr>)"
    using assms by (simp add: previous_hash_def exec_def)
  have "Record now newID e d =
      lifted AuditStore (insert_audit (audit_row_of now newID e (marshal (redactAuditValue (en_Before e)))
        (marshal (redactAuditValue (en_After e))) (GoString (last_hash (db_audit d))))) (d\<lparr>db_tick := Suc (db_tick d)\<rparr>)"
    using True by (simp add: Record_def Let_def andThen_def p)
  then show ?thesis using True
    by (auto simp: lifted_def insert_audit_def exec_def Let_def split: prod.splits sum.splits if_splits)
next
  case False
  then show ?thesis by (auto simp: Record_def Let_def raise_def)
qed

lemma last_hash_scanned: "last_hash (map scanned rows) = GoString (last_hash rows)"
  by (cases rows rule: rev_cases) (simp_all add: last_hash_def scanned_def)

lemma Record_keeps_chain:
  assumes "verify_rows [] (map scanned (db_audit d)) = None" "\<not> db_fault d (db_tick d)" "no_nul e"
  shows "verify_rows [] (map scanned (db_audit (snd (Record now newID e d)))) = None"
  using Record_effect [OF assms(2), of now newID e]
proof (elim disjE exE conjE)
  assume "db_audit (snd (Record now newID e d)) = db_audit d"
  then show ?thesis using assms(1) by simp
next
  fix before after
  let ?r = "audit_row_of now newID e (marshal before) (marshal after) (GoString (last_hash (db_audit d)))"
  assume "encodable before" "encodable after" and eq: "db_audit (snd (Record now newID e d)) = db_audit d @ [?r]"
  have s: "scanned ?r = ?r" using assms(3) GoString_no_nul by (rule scanned_recorded)
  have "(if map scanned (db_audit d) = [] then [] else last_hash (map scanned (db_audit d))) = GoString (last_hash (db_audit d))"
    unfolding last_hash_scanned by (auto simp: last_hash_def)
  then show ?thesis
    using verify_recorded [OF \<open>encodable before\<close> \<open>encodable after\<close>, of "GoString (last_hash (db_audit d))" now newID e]
    unfolding eq map_append list.map verify_rows_snoc assms(1) option.case s by simp
qed

lemma hex_pair_inject: "[hex_digits ! (of_char c div 16), hex_digits ! (of_char c mod 16)] = [hex_digits ! (of_char d div 16), hex_digits ! (of_char d mod 16)]
   \<Longrightarrow> c = (d :: char)"
proof -
  assume eq: "[hex_digits ! (of_char c div 16), hex_digits ! (of_char c mod 16)] = [hex_digits ! (of_char d div 16), hex_digits ! (of_char d mod 16)]"
  have dist: "distinct hex_digits" "length hex_digits = 16" by (simp_all add: hex_digits_def)
  have less: "of_char x < (256 :: nat)" for x :: char by simp
  have "of_char c div 16 = (of_char d div 16 :: nat)" "of_char c mod 16 = (of_char d mod 16 :: nat)"
    using eq dist less [of c] less [of d] by (auto simp: nth_eq_iff_index_eq)
  then have "of_char c = (of_char d :: nat)" by (metis div_mult_mod_eq)
  then show ?thesis by simp
qed

lemma hex_encode_inject: "hex_encode s = hex_encode t \<Longrightarrow> s = t"
proof (induction s arbitrary: t)
  case Nil
  then show ?case by (cases t) (auto simp: hex_encode_def)
next
  case (Cons c s)
  then obtain d t' where t: "t = d # t'" by (cases t) (auto simp: hex_encode_def)
  from Cons.prems have "hex_encode s = hex_encode t'" "c = d"
    using hex_pair_inject [of c d] by (auto simp: t hex_encode_def)
  then show ?case using Cons.IH t by simp
qed

lemma fold_canon_hex: "fold_canon (hex_encode s) = hex_encode s"
proof -
  have low: "list_all (\<lambda>h. lower_char h = h \<and> h \<noteq> CHR 0xE2 \<and> h \<noteq> CHR 0xC5) hex_digits" by code_simp
  have plain: "\<forall>h\<in>set u. lower_char h = h \<and> h \<noteq> CHR 0xE2 \<and> h \<noteq> CHR 0xC5 \<Longrightarrow> fold_canon u = u" for u
    by (induction u) auto
  have "set (hex_encode s) \<subseteq> set hex_digits"
  proof -
    have "length hex_digits = 16" by (simp add: hex_digits_def)
    moreover have "of_char c < (256 :: nat)" for c :: char by simp
    ultimately show ?thesis by (auto simp: hex_encode_def less_mult_imp_div_less intro!: nth_mem)
  qed
  then show ?thesis using low by (intro plain) (auto simp: list_all_iff)
qed

definition covered :: "audit_row \<Rightarrow> string" where
  "covered r = concat [au_timestamp r, au_actor r, au_operation r, au_resource r, au_result r, au_correlation_id r,
     jsonOrNull (coalesce (au_before_json r)), jsonOrNull (coalesce (au_after_json r)), coalesce (au_previous_hash r)]"

lemma verify_rows_covered:
  "verify_rows previous (r # rs) =
     (if coalesce (au_previous_hash r) \<noteq> previous then Some ChainBroken
      else if \<not> EqualFold (au_hash r) (hex_encode (sha256 (covered r))) then Some HashMismatch
      else verify_rows (au_hash r) rs)"
  by (simp add: Let_def chain_hash_def covered_def)

lemma verify_rows_member:
  "verify_rows previous rs = None \<Longrightarrow> r \<in> set rs \<Longrightarrow> fold_canon (au_hash r) = hex_encode (sha256 (covered r))"
  by (induction rs arbitrary: previous)
    (auto simp: Let_def EqualFold_def chain_hash_def fold_canon_hex covered_def split: if_splits)

lemma verify_rows_cong:
  assumes "map au_hash rs = map au_hash rs'" "map au_previous_hash rs = map au_previous_hash rs'"
    and "map covered rs = map covered rs'"
  shows "verify_rows previous rs = None \<longleftrightarrow> verify_rows previous rs' = None"
  using assms
proof (induction rs arbitrary: rs' previous)
  case (Cons r rs)
  then obtain r' t where rs': "rs' = r' # t" by auto
  have "covered r = covered r'" "au_hash r = au_hash r'" "au_previous_hash r = au_previous_hash r'"
    using Cons.prems by (auto simp: rs')
  then show ?case using Cons.IH [of t "au_hash r"] Cons.prems
    by (simp add: rs' verify_rows_covered del: verify_rows.simps)
qed simp

section \<open>Properties\<close>

definition record_all :: "(time \<times> string \<times> Entry) list \<Rightarrow> db \<Rightarrow> db" where
  "record_all es d = foldl (\<lambda>d (now, i, e). snd (Record now i e d)) d es"

lemma Record_fault: "db_fault (snd (Record now i e d)) = db_fault d"
  by (auto simp: Record_def Let_def andThen_def previous_hash_def exec_def insert_audit_def lifted_def raise_def
      split: prod.splits sum.splits if_splits)

lemma record_all_chain:
  "verify_rows [] (map scanned (db_audit d)) = None \<Longrightarrow> db_fault d = (\<lambda>_. False) \<Longrightarrow> list_all (\<lambda>(now, i, e). no_nul e) es \<Longrightarrow>
     verify_rows [] (map scanned (db_audit (record_all es d))) = None \<and> db_fault (record_all es d) = (\<lambda>_. False)"
proof (induction es arbitrary: d)
  case (Cons x es)
  obtain now i e where x: "x = (now, i, e)" by (cases x)
  have "verify_rows [] (map scanned (db_audit (snd (Record now i e d)))) = None"
    using Cons.prems by (intro Record_keeps_chain) (auto simp: x)
  then show ?case using Cons.IH [of "snd (Record now i e d)"] Cons.prems by (simp add: record_all_def x Record_fault)
qed (simp add: record_all_def)

lemma Verify_rows: "\<not> db_fault d (db_tick d) \<Longrightarrow> fst (Verify d) = (case verify_rows [] (map scanned (db_audit d)) of None \<Rightarrow> Inr () | Some e \<Rightarrow> Inl e)"
  by (simp add: Verify_def andThen_def lifted_def exec_def return_def raise_def split: option.split)


definition sample_entry :: Entry where
  "sample_entry = \<lparr>en_Actor = ''ana'', en_Roles = None, en_Source = ''api'', en_IP = [], en_Operation = ''share.create'',
     en_Resource = ''share:docs'', en_Result = ''success'', en_CorrelationID = ''c-1'', en_JobID = [], en_Reason = [],
     en_Before = JNull, en_After = JObj [(''token'', JStr ''x'')]\<rparr>"


text \<open>
  C19. What the chain detects: if a log was altered and both versions verify with the same column of
  hashes, then row by row the covered texts have the same SHA-256; so an alteration of the covered
  text of a row that leaves the hashes alone is detected unless it is a collision of SHA-256.
\<close>

theorem undetected_alteration_is_collision:
  assumes "verify_rows [] rs = None" "verify_rows [] rs' = None" "map au_hash rs = map au_hash rs'" "i < length rs"
  shows "sha256 (covered (rs ! i)) = sha256 (covered (rs' ! i))"
proof -
  have len: "i < length rs'" using assms(3,4) by (metis length_map)
  have "au_hash (rs ! i) = au_hash (rs' ! i)" using assms(3,4) len by (metis nth_map)
  then have "hex_encode (sha256 (covered (rs ! i))) = hex_encode (sha256 (covered (rs' ! i)))"
    using verify_rows_member [OF assms(1) nth_mem [OF assms(4)]] verify_rows_member [OF assms(2) nth_mem [OF len]] by simp
  then show ?thesis by (rule hex_encode_inject)
qed

definition sample_log :: "audit_row list" where
  "sample_log = db_audit (record_all [(0, ''audit-1'', sample_entry)] empty_db)"

lemma sample_log_one: "\<exists>r. sample_log = [r] \<and> au_actor r = ''ana'' \<and> au_operation r = ''share.create''"
  by (simp add: sample_log_def record_all_def Record_def Let_def andThen_def previous_hash_def exec_def empty_db_def
      insert_audit_def lifted_def audit_row_of_def sample_entry_def)

lemma sample_log_verifies: "verify_rows [] sample_log = None"
proof -
  have "db_audit empty_db = []" "last_hash [] = []" by (simp_all add: empty_db_def last_hash_def)
  moreover have "sample_log = db_audit (snd (Record 0 ''audit-1'' sample_entry empty_db))" by (simp add: sample_log_def record_all_def)
  moreover have "sample_log \<noteq> []" using sample_log_one by auto
  ultimately obtain before after where r: "encodable before" "encodable after"
      "sample_log = [audit_row_of 0 ''audit-1'' sample_entry (marshal before) (marshal after) []]"
    using Record_effect [of empty_db 0 "''audit-1''" sample_entry] by (auto simp: empty_db_def)
  show ?thesis unfolding r(3) by (rule verify_recorded [OF r(1,2)])
qed

theorem undetected_alteration_is_collision_witness:
  "sha256 (covered (sample_log ! 0)) = sha256 (covered (map (\<lambda>r. r\<lparr>au_reason := Some ''x''\<rparr>) sample_log ! 0))"
proof -
  have "verify_rows [] (map (\<lambda>r. r\<lparr>au_reason := Some ''x''\<rparr>) sample_log) = None"
    using verify_rows_cong [of sample_log "map (\<lambda>r. r\<lparr>au_reason := Some ''x''\<rparr>) sample_log" "[]"] sample_log_verifies
    by (simp add: comp_def covered_def)
  moreover have "map au_hash sample_log = map au_hash (map (\<lambda>r. r\<lparr>au_reason := Some ''x''\<rparr>) sample_log)"
    by (simp add: comp_def)
  moreover have "0 < length sample_log" using sample_log_one by auto
  ultimately show ?thesis by (rule undetected_alteration_is_collision [OF sample_log_verifies])
qed

text \<open>
  What the chain does not detect: the identifier, roles, source, address, job and reason of any row
  are not covered, and the fields are joined without separators, so that characters can move from the
  operation to the actor.
\<close>

theorem alterations_not_detected:
  "verify_rows previous rs = None \<Longrightarrow>
     verify_rows previous (map (\<lambda>r. r\<lparr>au_id := f r, au_roles_json := ro, au_source := so, au_ip := ip, au_job_id := j, au_reason := re\<rparr>) rs) = None \<and>
     verify_rows previous (map (\<lambda>r. r\<lparr>au_actor := au_actor r @ take n (au_operation r), au_operation := drop n (au_operation r)\<rparr>) rs) = None"
  using verify_rows_cong [of rs "map (\<lambda>r. r\<lparr>au_id := f r, au_roles_json := ro, au_source := so, au_ip := ip, au_job_id := j, au_reason := re\<rparr>) rs" previous]
    verify_rows_cong [of rs "map (\<lambda>r. r\<lparr>au_actor := au_actor r @ take n (au_operation r), au_operation := drop n (au_operation r)\<rparr>) rs" previous]
  by (simp add: comp_def covered_def)

theorem alterations_not_detected_witness:
  "verify_rows [] (map (\<lambda>r. r\<lparr>au_actor := au_actor r @ take 5 (au_operation r), au_operation := drop 5 (au_operation r)\<rparr>) sample_log) = None"
  using alterations_not_detected [OF sample_log_verifies] by blast

text \<open>
  \<open>Record\<close> ignores an error of the query for the previous hash: when that statement fails on a
  log that is not empty, the new row starts a chain of its own, and from then on \<open>Verify\<close> reports
  a broken chain although nothing was altered.
\<close>

theorem read_fault_breaks_chain:
  assumes "verify_rows [] (db_audit d) = None" "db_audit d \<noteq> []" "last_hash (db_audit d) \<noteq> []"
    and "db_fault d (db_tick d)" "\<not> db_fault d (Suc (db_tick d))"
    and "\<not> list_ex (\<lambda>x. au_id x = newID) (db_audit d)"
    and "encodable (redactAuditValue (en_Before e))" "encodable (redactAuditValue (en_After e))"
  shows "verify_rows [] (db_audit (snd (Record now newID e d))) = Some ChainBroken"
proof -
  let ?r = "audit_row_of now newID e (marshal (redactAuditValue (en_Before e))) (marshal (redactAuditValue (en_After e))) []"
  have "previous_hash d = (Inr [], d\<lparr>db_tick := Suc (db_tick d)\<rparr>)"
    using assms(4) by (simp add: previous_hash_def exec_def)
  then have "db_audit (snd (Record now newID e d)) = db_audit d @ [?r]"
    using assms(5-8) by (simp add: Record_def Let_def andThen_def lifted_def insert_audit_def exec_def audit_row_of_def)
  moreover have "verify_rows (last_hash (db_audit d)) [?r] = Some ChainBroken"
    using assms(3) by (simp add: audit_row_of_def Let_def)
  ultimately show ?thesis using assms(1,2) by (simp add: verify_rows_snoc del: verify_rows.simps)
qed

definition faulty_log :: db where
  "faulty_log = empty_db\<lparr>db_audit := sample_log, db_fault := (\<lambda>n. n = 0)\<rparr>"

theorem read_fault_breaks_chain_witness:
  "verify_rows [] (db_audit (snd (Record 0 ''audit-2'' sample_entry faulty_log))) = Some ChainBroken"
proof (rule read_fault_breaks_chain)
  obtain r where r: "sample_log = [r]" using sample_log_one by blast
  have "r \<in> set sample_log" unfolding r by simp
  then have "fold_canon (au_hash r) = hex_encode (sha256 (covered r))"
    by (rule verify_rows_member [OF sample_log_verifies])
  then have "length (fold_canon (au_hash r)) = 64" by simp
  then have "au_hash r \<noteq> []" by auto
  then show "last_hash (db_audit faulty_log) \<noteq> []" by (simp add: faulty_log_def r last_hash_def)
  show "db_audit faulty_log \<noteq> []" by (simp add: faulty_log_def r)
  show "verify_rows [] (db_audit faulty_log) = None" using sample_log_verifies by (simp add: faulty_log_def)
  show "\<not> list_ex (\<lambda>x. au_id x = ''audit-2'') (db_audit faulty_log)"
    by (simp add: faulty_log_def sample_log_def record_all_def Record_def Let_def andThen_def previous_hash_def exec_def empty_db_def
      insert_audit_def lifted_def audit_row_of_def sample_entry_def)
qed (simp_all add: faulty_log_def empty_db_def sample_entry_def)

text \<open>
  The text of a failed login is recorded as it came: a user name with a NUL byte, which a JSON body may hold, is hashed whole but read
  back cut, and from then on \<open>Verify\<close> reports a divergent hash although nothing was altered (but for a collision of SHA-256).
\<close>

theorem nul_in_actor_breaks_chain:
  assumes "fst (Verify d) = Inr ()" "db_fault d = (\<lambda>_. False)" "\<not> list_ex (\<lambda>x. au_id x = newID) (db_audit d)"
    and "encodable (redactAuditValue (en_Before e))" "encodable (redactAuditValue (en_After e))"
    and "CHR 0x00 \<in> set (en_Actor e)" "no_nul (e\<lparr>en_Actor := []\<rparr>)"
  shows "\<exists>r. db_audit (snd (Record now newID e d)) = db_audit d @ [r] \<and> covered (scanned r) \<noteq> covered r \<and>
    fst (Verify (snd (Record now newID e d))) =
      (if sha256 (covered (scanned r)) = sha256 (covered r) then Inr () else Inl HashMismatch)"
proof -
  let ?b = "marshal (redactAuditValue (en_Before e))" and ?a = "marshal (redactAuditValue (en_After e))"
  let ?p = "GoString (last_hash (db_audit d))"
  let ?r = "audit_row_of now newID e ?b ?a ?p"
  have rows: "db_audit (snd (Record now newID e d)) = db_audit d @ [?r]"
    using assms(2-5) by (simp add: Record_def Let_def andThen_def lifted_def insert_audit_def exec_def previous_hash_def audit_row_of_def)
  have old: "verify_rows [] (map scanned (db_audit d)) = None" using assms(1,2) by (simp add: Verify_rows split: option.splits)
  have prev: "coalesce (map_option GoString (nullString ?p)) = ?p" using GoString_id [OF GoString_no_nul] by (simp add: nullString_def coalesce_def)
  have last: "(if map scanned (db_audit d) = [] then [] else last_hash (map scanned (db_audit d))) = ?p"
    unfolding last_hash_scanned by (auto simp: last_hash_def)
  have hash: "au_hash (scanned ?r) = hex_encode (sha256 (covered ?r))"
    by (simp add: scanned_def audit_row_of_def Let_def chain_hash_def covered_def GoString_id hex_no_nul json_round_trip assms(4,5))
  have stamp: "GoString (RFC3339Nano now) = RFC3339Nano now" by (rule GoString_printable) (rule RFC3339Nano_printable)
  have "covered (scanned ?r) \<noteq> covered ?r"
  proof
    assume "covered (scanned ?r) = covered ?r"
    then have "length (covered (scanned ?r)) = length (covered ?r)" by simp
    then have "length (GoString (en_Actor e)) = length (en_Actor e)"
      using assms(7) stamp
      by (simp add: covered_def scanned_def audit_row_of_def Let_def no_nul_def GoString_id GoString_no_nul coalesce_def nullJSON_def nullString_def marshal_no_nul split: if_splits)
    then have "GoString (en_Actor e) = en_Actor e" unfolding GoString_def by (metis takeWhile_eq_take take_all le_refl)
    then show False using assms(6) GoString_no_nul by metis
  qed
  moreover have "fst (Verify (snd (Record now newID e d))) = (case verify_rows ?p [scanned ?r] of None \<Rightarrow> Inr () | Some e \<Rightarrow> Inl e)"
  proof -
    have "verify_rows [] (map scanned (db_audit (snd (Record now newID e d)))) = verify_rows ?p [scanned ?r]"
      unfolding rows map_append list.map verify_rows_snoc old option.case last ..
    then show ?thesis using assms(2) by (subst Verify_rows) (simp_all add: Record_fault)
  qed
  moreover have "coalesce (au_previous_hash (scanned ?r)) = ?p" using prev by (simp add: scanned_def audit_row_of_def Let_def)
  moreover have "hex_encode (sha256 (covered ?r)) = hex_encode (sha256 (covered (scanned ?r))) \<longleftrightarrow> sha256 (covered (scanned ?r)) = sha256 (covered ?r)"
    using hex_encode_inject by metis
  ultimately show ?thesis
    using rows unfolding verify_rows_covered by (intro exI [of _ ?r]) (simp add: hash EqualFold_def fold_canon_hex)
qed

end
