(* ===== verification/Jobs.thy ===== *)
theory Jobs
  imports AuditLog Events
begin

text \<open>
  Jobs: \<open>src/backend/internal/jobs/manager.go\<close> and the statements on jobs, locks and events of
  \<open>src/backend/internal/storage/store.go\<close>.  \<open>CreateWithID\<close> starts a goroutine; here a running
  goroutine is a \<open>run\<close>, and \<open>run_stage\<close> executes it up to its next wait or its next call of
  the agent, so that the stages of all runs, cancellations and other requests interleave.  Which branch of
  the \<open>select\<close> in \<open>advance\<close> is taken, and what the agent answers, are arguments of a
  stage.  Errors of statements that the source drops are dropped here.
\<close>

section \<open>Statements\<close>

record Job =
  j_ID :: string
  j_RequestedBy :: string
  j_RequestedAt :: time
  j_Operation :: string
  j_Status :: string
  j_Progress :: int
  j_Summary :: string
  j_Error :: string
  j_Cancellable :: bool
  j_RollbackAvailable :: bool
  j_CurrentStep :: string
  j_Resource :: string
  j_CorrelationID :: string

definition zero_job :: Job where
  "zero_job = \<lparr>j_ID = [], j_RequestedBy = [], j_RequestedAt = zero_time, j_Operation = [], j_Status = [], j_Progress = 0,
     j_Summary = [], j_Error = [], j_Cancellable = False, j_RollbackAvailable = False, j_CurrentStep = [], j_Resource = [],
     j_CorrelationID = []\<rparr>"

text \<open>The encoding of a job: its fields in order, without the optional ones that are empty.\<close>

definition omitempty :: "string \<Rightarrow> string \<Rightarrow> object" where
  "omitempty key s = (if s = [] then [] else [(key, JStr s)])"

definition job_fields :: "Job \<Rightarrow> object" where
  "job_fields j =
     [(''id'', JStr (j_ID j)), (''requestedBy'', JStr (j_RequestedBy j)), (''requestedAt'', JStr (RFC3339Nano (j_RequestedAt j))),
      (''operation'', JStr (j_Operation j)), (''status'', JStr (j_Status j)), (''progress'', JNum (j_Progress j)),
      (''summary'', JStr (j_Summary j))]
     @ omitempty ''error'' (j_Error j)
     @ [(''cancellable'', JBool (j_Cancellable j)), (''rollbackAvailable'', JBool (j_RollbackAvailable j))]
     @ omitempty ''currentStep'' (j_CurrentStep j) @ omitempty ''resource'' (j_Resource j)
     @ omitempty ''correlationId'' (j_CorrelationID j)"

definition job_text :: "Job \<Rightarrow> string" where
  "job_text j = ''{'' @ Join (map (\<lambda>(key, v). quote key @ '':'' @ marshal v) (job_fields j)) '','' @ ''}''"

definition InsertJob :: "Job \<Rightarrow> json \<Rightarrow> string \<Rightarrow> unit act" where
  "InsertJob j payload lockKey = exec (\<lambda>d.
     if list_ex (\<lambda>r. jb_id r = j_ID j) (db_jobs d) then (Inl ConstraintFailed, d)
     else (Inr (), d\<lparr>db_jobs := db_jobs d @
       [\<lparr>jb_id = j_ID j, jb_requested_by = j_RequestedBy j, jb_requested_at = format_time (j_RequestedAt j), jb_started_at = None,
         jb_completed_at = None, jb_operation = j_Operation j, jb_resource = j_Resource j, jb_status = j_Status j,
         jb_progress = j_Progress j, jb_current_step = j_CurrentStep j, jb_summary = j_Summary j, jb_error = nullIfEmpty (j_Error j),
         jb_correlation_id = j_CorrelationID j, jb_cancellable = j_Cancellable j, jb_rollback_available = j_RollbackAvailable j,
         jb_payload_json = (if encodable payload then marshal payload else []), jb_lock_key = lockKey\<rparr>]\<rparr>))"

definition terminal :: "string \<Rightarrow> bool" where
  "terminal status = (status \<in> set [''success'', ''partial'', ''failed'', ''rolled-back'', ''cancelled''])"

definition updated_row :: "time \<Rightarrow> Job \<Rightarrow> job_row \<Rightarrow> job_row" where
  "updated_row now j r =
     (let started = (if j_Status j = ''running'' \<or> j_Status j = ''validating'' \<or> j_Status j = ''testing'' then Some (format_time now) else None);
          completed = (if terminal (j_Status j) then Some (format_time now) else None)
      in r\<lparr>jb_status := j_Status j, jb_progress := j_Progress j, jb_current_step := j_CurrentStep j, jb_summary := j_Summary j,
           jb_error := nullIfEmpty (j_Error j), jb_started_at := (if jb_started_at r = None then started else jb_started_at r),
           jb_completed_at := (if completed = None then jb_completed_at r else completed),
           jb_cancellable := j_Cancellable j, jb_rollback_available := j_RollbackAvailable j\<rparr>)"

definition UpdateJob :: "time \<Rightarrow> Job \<Rightarrow> unit act" where
  "UpdateJob now j = exec (\<lambda>d. (Inr (), d\<lparr>db_jobs := update_where (\<lambda>r. jb_id r = j_ID j) (updated_row now j) (db_jobs d)\<rparr>))"

definition scanJob :: "job_row \<Rightarrow> Job" where
  "scanJob r = \<lparr>j_ID = jb_id r, j_RequestedBy = jb_requested_by r, j_RequestedAt = parse_time (jb_requested_at r),
     j_Operation = jb_operation r, j_Status = jb_status r, j_Progress = jb_progress r, j_Summary = jb_summary r,
     j_Error = coalesce (jb_error r), j_Cancellable = jb_cancellable r, j_RollbackAvailable = jb_rollback_available r,
     j_CurrentStep = jb_current_step r, j_Resource = jb_resource r, j_CorrelationID = jb_correlation_id r\<rparr>"

definition GetJob :: "string \<Rightarrow> Job act" where
  "GetJob jid = andThen (query_row db_jobs (\<lambda>r. jb_id r = jid)) (\<lambda>r. return (scanJob r))"

fun insert_newest_job :: "job_row \<Rightarrow> job_row list \<Rightarrow> job_row list" where
  "insert_newest_job r [] = [r]"
| "insert_newest_job r (x # xs) =
     (if stamp_less (jb_requested_at r) (jb_requested_at x) then x # insert_newest_job r xs else r # x # xs)"

definition ListJobs :: "Job list act" where
  "ListJobs = exec (\<lambda>d. (Inr (map scanJob (take 200 (foldr insert_newest_job (db_jobs d) []))), d))"

text \<open>A lock is one statement that deletes what has expired (its error is dropped) and one that inserts.\<close>

definition AcquireLock :: "time \<Rightarrow> string \<Rightarrow> string \<Rightarrow> duration \<Rightarrow> unit act" where
  "AcquireLock now key jobID ttl =
     andThen (ignoring (exec (\<lambda>d. (Inr (), d\<lparr>db_locks := filter (\<lambda>l. \<not> stamp_less (lk_expires_at l) (format_time now)) (db_locks d)\<rparr>))))
     (\<lambda>_. exec (\<lambda>d.
        if list_ex (\<lambda>l. lk_resource_key l = key) (db_locks d) then (Inl ConstraintFailed, d)
        else (Inr (), d\<lparr>db_locks := db_locks d @ [\<lparr>lk_resource_key = key, lk_owner_job_id = jobID,
                lk_acquired_at = format_time now, lk_expires_at = format_time (now + ttl)\<rparr>]\<rparr>)))"

definition ReleaseLock :: "string \<Rightarrow> string \<Rightarrow> unit act" where
  "ReleaseLock key jobID = ignoring (exec (\<lambda>d.
     (Inr (), d\<lparr>db_locks := filter (\<lambda>l. \<not> (lk_resource_key l = key \<and> lk_owner_job_id l = jobID)) (db_locks d)\<rparr>)))"

text \<open>The payload of an event is the text that \<open>json.Marshal\<close> gives.\<close>

definition PutEvent :: "time \<Rightarrow> string \<Rightarrow> string \<Rightarrow> string \<Rightarrow> string \<Rightarrow> unit act" where
  "PutEvent now eventType resource payload correlation = exec (\<lambda>d.
     (Inr (), d\<lparr>db_events := db_events d @ [\<lparr>ev_event_type = eventType, ev_resource_id = resource, ev_payload_json = payload,
        ev_correlation_id = correlation, ev_created_at = format_time now\<rparr>]\<rparr>))"

section \<open>The manager\<close>

datatype stage = Starting | Stepping nat | Calling | Testing | Auditing | Finishing

text \<open>A goroutine; \<open>rn_acquired\<close> is the instant at which it took its lock.\<close>

record run =
  rn_job :: Job
  rn_op :: string
  rn_payload :: json
  rn_lockKey :: string
  rn_stage :: stage
  rn_acquired :: time

abbreviation rn_id :: "run \<Rightarrow> string" where "rn_id r \<equiv> j_ID (rn_job r)"

text \<open>
  \<open>mg_cancel\<close> holds the jobs with a cancel function, \<open>mg_cancelled\<close> those whose function was called,
  and \<open>mg_calls\<close> the calls of the agent so far.
\<close>

record manager =
  mg_db :: db
  mg_broker :: Broker
  mg_cancel :: "string list"
  mg_cancelled :: "string list"
  mg_runs :: "run list"
  mg_calls :: "(string \<times> string \<times> json) list"

datatype job_error = InvalidJobID | JobStore store_error | NotRunning | RollbackUnavailable

definition ignored :: "('e, 'a) eact \<Rightarrow> manager \<Rightarrow> manager" where
  "ignored a m = m\<lparr>mg_db := snd (a (mg_db m))\<rparr>"

definition publish :: "time \<Rightarrow> string \<Rightarrow> Job \<Rightarrow> manager \<Rightarrow> manager" where
  "publish now t j m =
     (let m1 = ignored (PutEvent now t (j_ID j) (job_text j) (j_CorrelationID j)) m
      in m1\<lparr>mg_broker := Publish now \<lparr>ev_ID = [], ev_Type = t, ev_ResourceID = j_ID j, ev_CorrelationID = j_CorrelationID j,
             ev_Timestamp = zero_time, ev_Payload = JObj (job_fields j)\<rparr> (mg_broker m1)\<rparr>)"

definition new_job :: "time \<Rightarrow> string \<Rightarrow> string \<Rightarrow> string \<Rightarrow> string \<Rightarrow> string \<Rightarrow> bool \<Rightarrow> Job" where
  "new_job now jobID actor operation resource correlation rollback =
     zero_job\<lparr>j_ID := jobID, j_RequestedBy := actor, j_RequestedAt := now, j_Operation := operation, j_Resource := resource,
       j_Status := ''queued'', j_Progress := 0, j_Summary := (''Tarefa criada e aguardando valida'' @ [CHR 0xC3, CHR 0xA7, CHR 0xC3, CHR 0xA3] @ ''o.''), j_Cancellable := True,
       j_RollbackAvailable := rollback, j_CorrelationID := correlation\<rparr>"

definition CreateWithID ::
    "time \<Rightarrow> string \<Rightarrow> string \<Rightarrow> string \<Rightarrow> string \<Rightarrow> string \<Rightarrow> string \<Rightarrow> json \<Rightarrow> bool \<Rightarrow> manager \<Rightarrow> (job_error + Job) \<times> manager" where
  "CreateWithID now jobID actor operation resource correlation agentOperation payload rollback m =
     (if TrimSpace jobID = [] \<or> length jobID > 128 \<or> ContainsAny jobID [CHR 0x00, CHR 0x0D, CHR 0x0A] then (Inl InvalidJobID, m)
      else
        let j = new_job now jobID actor operation resource correlation rollback
        in case InsertJob j payload resource (mg_db m) of
             (Inl e, d) \<Rightarrow> (Inl (JobStore e), m\<lparr>mg_db := d\<rparr>)
           | (Inr _, d) \<Rightarrow>
               let m1 = publish now ''job.created'' j (m\<lparr>mg_db := d\<rparr>)
               in (Inr j, m1\<lparr>mg_runs := mg_runs m1 @
                     [\<lparr>rn_job = j, rn_op = agentOperation, rn_payload = payload, rn_lockKey = resource, rn_stage = Starting, rn_acquired = now\<rparr>]\<rparr>))"

text \<open>The identifier that \<open>id.New\<close> draws is an argument.\<close>

definition Create ::
    "time \<Rightarrow> string \<Rightarrow> string \<Rightarrow> string \<Rightarrow> string \<Rightarrow> string \<Rightarrow> string \<Rightarrow> json \<Rightarrow> bool \<Rightarrow> manager \<Rightarrow> (job_error + Job) \<times> manager" where
  "Create now newID actor operation resource correlation agentOperation payload rollback m =
     CreateWithID now newID actor operation resource correlation agentOperation payload rollback m"

definition fail :: "time \<Rightarrow> string \<Rightarrow> Job \<Rightarrow> string \<Rightarrow> string \<Rightarrow> manager \<Rightarrow> manager" where
  "fail now auditID j0 code detail0 m =
     (let detail = (if detail0 = [] then (''A opera'' @ [CHR 0xC3, CHR 0xA7, CHR 0xC3, CHR 0xA3] @ ''o simulada falhou.'') else detail0);
          j = j0\<lparr>j_Status := ''failed'', j_Cancellable := False, j_Error := code, j_Summary := detail\<rparr>;
          entry = \<lparr>en_Actor = j_RequestedBy j, en_Roles = None, en_Source = [], en_IP = [], en_Operation = j_Operation j,
            en_Resource = j_Resource j, en_Result = ''failure'', en_CorrelationID = j_CorrelationID j, en_JobID = j_ID j,
            en_Reason = detail, en_Before = JNull, en_After = JNull\<rparr>
      in publish now ''job.failed'' j (ignored (Record now auditID entry) (ignored (UpdateJob now j) m)))"

text \<open>\<open>isDone\<close> says that the \<open>select\<close> took the branch of the cancelled context.\<close>

definition advance :: "time \<Rightarrow> bool \<Rightarrow> Job \<Rightarrow> string \<times> int \<times> string \<times> string \<Rightarrow> manager \<Rightarrow> Job option \<times> manager" where
  "advance now isDone j0 target m =
     (if isDone
      then let j = j0\<lparr>j_Status := ''cancelled'', j_Summary := (''Tarefa cancelada antes da conclus'' @ [CHR 0xC3, CHR 0xA3] @ ''o.''), j_Cancellable := False\<rparr>
           in (None, publish now ''job.cancelled'' j (ignored (UpdateJob now j) m))
      else case target of (status, progress, step, summary) \<Rightarrow>
           let j = j0\<lparr>j_Status := status, j_Progress := progress, j_CurrentStep := step, j_Summary := summary\<rparr>
           in (Some j, publish now ''job.updated'' j (ignored (UpdateJob now j) m)))"

definition run_steps :: "(string \<times> int \<times> string \<times> string) list" where
  "run_steps =
     [(''validating'', 10, (''Valida'' @ [CHR 0xC3, CHR 0xA7, CHR 0xC3, CHR 0xA3] @ ''o local''), (''Validando pol'' @ [CHR 0xC3, CHR 0xAD] @ ''tica, schema e pr'' @ [CHR 0xC3, CHR 0xA9] @ ''-condi'' @ [CHR 0xC3, CHR 0xA7, CHR 0xC3, CHR 0xB5] @ ''es.'')),
      (''running'', 25, ''Backup'', (''Backup l'' @ [CHR 0xC3, CHR 0xB3] @ ''gico registrado antes da altera'' @ [CHR 0xC3, CHR 0xA7, CHR 0xC3, CHR 0xA3] @ ''o.'')),
      (''running'', 45, (''Aplica'' @ [CHR 0xC3, CHR 0xA7, CHR 0xC3, CHR 0xA3] @ ''o''), (''Enviando inten'' @ [CHR 0xC3, CHR 0xA7, CHR 0xC3, CHR 0xA3] @ ''o estruturada ao agente local.''))]"

definition test_step :: "string \<times> int \<times> string \<times> string" where
  "test_step = (''testing'', 75, (''Testes t'' @ [CHR 0xC3, CHR 0xA9] @ ''cnicos''), (''Executando valida'' @ [CHR 0xC3, CHR 0xA7, CHR 0xC3, CHR 0xA3] @ ''o p'' @ [CHR 0xC3, CHR 0xB3] @ ''s-aplica'' @ [CHR 0xC3, CHR 0xA7, CHR 0xC3, CHR 0xA3] @ ''o e health check.''))"

definition audit_step :: "string \<times> int \<times> string \<times> string" where
  "audit_step = (''running'', 90, ''Auditoria'', ''Registrando resultado e cadeia de auditoria.'')"

definition finish :: "time \<Rightarrow> string \<Rightarrow> Job \<Rightarrow> json \<Rightarrow> manager \<Rightarrow> manager" where
  "finish now auditID j0 payload m =
     (let j = j0\<lparr>j_Status := ''success'', j_Progress := 100, j_CurrentStep := (''Conclu'' @ [CHR 0xC3, CHR 0xAD] @ ''da''),
            j_Summary := (''Altera'' @ [CHR 0xC3, CHR 0xA7, CHR 0xC3, CHR 0xA3] @ ''o simulada aplicada, testada e auditada.''), j_Cancellable := False\<rparr>;
          entry = \<lparr>en_Actor = j_RequestedBy j, en_Roles = Some [''administrador Samba''], en_Source = ''api'', en_IP = [],
            en_Operation = j_Operation j, en_Resource = j_Resource j, en_Result = ''success'', en_CorrelationID = j_CorrelationID j,
            en_JobID = j_ID j, en_Reason = [], en_Before = JNull, en_After = payload\<rparr>
      in publish now ''job.completed'' j (ignored (Record now auditID entry) (ignored (UpdateJob now j) m)))"

text \<open>The deferred calls: the lock first, the cancel function last.\<close>

definition forget :: "run \<Rightarrow> manager \<Rightarrow> manager" where
  "forget r m = m\<lparr>mg_cancel := filter (\<lambda>i. i \<noteq> rn_id r) (mg_cancel m)\<rparr>"

definition leave :: "run \<Rightarrow> manager \<Rightarrow> manager" where
  "leave r m = forget r (ignored (ReleaseLock (rn_lockKey r) (rn_id r)) m)"

definition advance_to ::
    "time \<Rightarrow> bool \<Rightarrow> run \<Rightarrow> string \<times> int \<times> string \<times> string \<Rightarrow> stage \<Rightarrow> manager \<Rightarrow> run option \<times> manager" where
  "advance_to now isDone r target next m =
     (case advance now isDone (rn_job r) target m of
        (None, m1) \<Rightarrow> (None, leave r m1)
      | (Some j, m1) \<Rightarrow> (Some (r\<lparr>rn_job := j, rn_stage := next\<rparr>), m1))"

definition lock_ttl :: duration where "lock_ttl = 10 * minute"

text \<open>\<open>answer\<close> is the summary of the agent's reply when its call failed.\<close>

definition run_stage :: "time \<Rightarrow> string \<Rightarrow> bool \<Rightarrow> string option \<Rightarrow> run \<Rightarrow> manager \<Rightarrow> run option \<times> manager" where
  "run_stage now auditID isDone answer r m =
     (case rn_stage r of
        Starting \<Rightarrow>
          (let m1 = m\<lparr>mg_cancel := rn_id r # mg_cancel m\<rparr>
           in case AcquireLock now (rn_lockKey r) (rn_id r) lock_ttl (mg_db m1) of
                (Inl e, d) \<Rightarrow> (None, forget r (fail now auditID (rn_job r) ''resource_conflict''
                                        (''Outro trabalho mant'' @ [CHR 0xC3, CHR 0xA9] @ ''m lock sobre o recurso.'') (m1\<lparr>mg_db := d\<rparr>)))
              | (Inr _, d) \<Rightarrow> (Some (r\<lparr>rn_stage := Stepping 0, rn_acquired := now\<rparr>), m1\<lparr>mg_db := d\<rparr>))
      | Stepping i \<Rightarrow>
          (if i < length run_steps then advance_to now isDone r (run_steps ! i) (Stepping (Suc i)) m
           else (Some (r\<lparr>rn_stage := Calling\<rparr>), m))
      | Calling \<Rightarrow>
          (let m1 = m\<lparr>mg_calls := mg_calls m @ [(rn_id r, rn_op r, rn_payload r)]\<rparr>
           in case answer of
                Some summary \<Rightarrow> (None, leave r (fail now auditID (rn_job r) ''agent_failure'' summary m1))
              | None \<Rightarrow> (Some (r\<lparr>rn_stage := Testing\<rparr>), m1))
      | Testing \<Rightarrow> advance_to now isDone r test_step Auditing m
      | Auditing \<Rightarrow> advance_to now isDone r audit_step Finishing m
      | Finishing \<Rightarrow> (None, leave r (finish now auditID (rn_job r) (rn_payload r) m)))"

text \<open>One stage of the run of a job.\<close>

definition step_run :: "time \<Rightarrow> string \<Rightarrow> bool \<Rightarrow> string option \<Rightarrow> string \<Rightarrow> manager \<Rightarrow> manager" where
  "step_run now auditID isDone answer jobID m =
     (case find (\<lambda>r. rn_id r = jobID) (mg_runs m) of
        None \<Rightarrow> m
      | Some r \<Rightarrow>
          (case run_stage now auditID isDone answer r m of
             (next, m1) \<Rightarrow> m1\<lparr>mg_runs := filter (\<lambda>x. rn_id x \<noteq> jobID) (mg_runs m1) @
                               (case next of None \<Rightarrow> [] | Some r' \<Rightarrow> [r'])\<rparr>))"

definition Cancel :: "string \<Rightarrow> manager \<Rightarrow> (job_error + unit) \<times> manager" where
  "Cancel jid m =
     (if jid \<in> set (mg_cancel m) then (Inr (), m\<lparr>mg_cancelled := jid # mg_cancelled m\<rparr>) else (Inl NotRunning, m))"

definition Rollback :: "time \<Rightarrow> string \<Rightarrow> string \<Rightarrow> string \<Rightarrow> string \<Rightarrow> manager \<Rightarrow> (job_error + Job) \<times> manager" where
  "Rollback now newID jid actor correlation m =
     (case GetJob jid (mg_db m) of
        (Inl e, d) \<Rightarrow> (Inl (JobStore e), m\<lparr>mg_db := d\<rparr>)
      | (Inr orig, d) \<Rightarrow>
          if \<not> j_RollbackAvailable orig then (Inl RollbackUnavailable, m\<lparr>mg_db := d\<rparr>)
          else Create now newID actor (''Rollback de '' @ j_Operation orig) (j_Resource orig) correlation ''rollback.execute''
                 (JObj [(''sourceJobId'', JStr jid)]) False (m\<lparr>mg_db := d\<rparr>))"

section \<open>Leases\<close>

text \<open>
  What the manager relies on when it takes a lock: a granted lease excludes every other owner of the same
  key until it is released or its time has passed, up to a slack that the comparison of instants may cost.
\<close>

locale lease =
  fixes acquire :: "time \<Rightarrow> 'k \<Rightarrow> 'o \<Rightarrow> 's \<Rightarrow> ('e + unit) \<times> 's"
    and release :: "'k \<Rightarrow> 'o \<Rightarrow> 's \<Rightarrow> ('e + unit) \<times> 's"
    and holds :: "'s \<Rightarrow> 'k \<Rightarrow> 'o \<Rightarrow> time \<Rightarrow> bool"
    and ok :: "'s \<Rightarrow> bool"
    and ttl :: duration
    and slack :: duration
  assumes acquire_ok: "ok s \<Longrightarrow> ok (snd (acquire now k owner s))"
    and release_ok: "ok s \<Longrightarrow> ok (snd (release k owner s))"
    and acquired: "acquire now k owner s = (Inr (), s') \<Longrightarrow> holds s' k owner (now + ttl)"
    and acquire_keeps: "holds s k owner e \<Longrightarrow> now + slack \<le> e \<Longrightarrow> holds (snd (acquire now k' owner' s)) k owner e"
    and release_keeps: "holds s k owner e \<Longrightarrow> owner \<noteq> owner' \<Longrightarrow> holds (snd (release k' owner' s)) k owner e"
    and holds_unique: "ok s \<Longrightarrow> holds s k owner e \<Longrightarrow> holds s k owner' e' \<Longrightarrow> owner = owner'"
begin

text \<open>A lease that its owner may believe in: it is held, or its time has passed.\<close>

abbreviation believed :: "'s \<Rightarrow> time \<Rightarrow> 'k \<Rightarrow> 'o \<Rightarrow> time \<Rightarrow> bool" where
  "believed s now k owner e \<equiv> holds s k owner e \<or> e < now + slack"

lemma believed_later: "believed s now k owner e \<Longrightarrow> now \<le> now' \<Longrightarrow> believed s now' k owner e"
  by auto

lemma believed_acquire: "believed s now k owner e \<Longrightarrow> believed (snd (acquire now k' owner' s)) now k owner e"
  using acquire_keeps by (metis not_less)

lemma believed_release:
  "believed s now k owner e \<Longrightarrow> owner \<noteq> owner' \<Longrightarrow> believed (snd (release k' owner' s)) now k owner e"
  using release_keeps by blast

lemma believed_exclusive:
  "ok s \<Longrightarrow> believed s now k owner e \<Longrightarrow> believed s now k owner' e' \<Longrightarrow> owner \<noteq> owner' \<Longrightarrow> min e e' < now + slack"
  using holds_unique by (metis min_less_iff_disj)

lemma acquire_excluded:
  assumes "ok s" "holds s k owner e" "now + slack \<le> e" "owner \<noteq> owner'" "now + slack \<le> now + ttl"
  shows "fst (acquire now k owner' s) \<noteq> Inr ()"
proof
  assume "fst (acquire now k owner' s) = Inr ()"
  then have "holds (snd (acquire now k owner' s)) k owner' (now + ttl)" using acquired [of now k owner' s] by (metis prod.collapse)
  moreover have "holds (snd (acquire now k owner' s)) k owner e" using assms(2,3) by (rule acquire_keeps)
  ultimately show False using holds_unique [OF acquire_ok [OF assms(1)]] assms(4) by blast
qed

end

definition holds_lock :: "db \<Rightarrow> string \<Rightarrow> string \<Rightarrow> time \<Rightarrow> bool" where
  "holds_lock d key owner e \<longleftrightarrow>
     (\<exists>l\<in>set (db_locks d). lk_resource_key l = key \<and> lk_owner_job_id l = owner \<and> lk_expires_at l = format_time e)"

definition locks_ok :: "db \<Rightarrow> bool" where
  "locks_ok d \<longleftrightarrow> distinct (map lk_resource_key (db_locks d))"

definition live_locks :: "time \<Rightarrow> db \<Rightarrow> lock_row list" where
  "live_locks now d = (if db_fault d (db_tick d) then db_locks d
     else filter (\<lambda>l. \<not> stamp_less (lk_expires_at l) (format_time now)) (db_locks d))"

lemma AcquireLock_effect:
  "(isl (fst (AcquireLock now key jid ttl d)) \<and> db_locks (snd (AcquireLock now key jid ttl d)) = live_locks now d) \<or>
   (fst (AcquireLock now key jid ttl d) = Inr () \<and> key \<notin> lk_resource_key ` set (live_locks now d) \<and>
      db_locks (snd (AcquireLock now key jid ttl d)) = live_locks now d @
        [\<lparr>lk_resource_key = key, lk_owner_job_id = jid, lk_acquired_at = format_time now, lk_expires_at = format_time (now + ttl)\<rparr>])"
  unfolding live_locks_def by (auto simp: AcquireLock_def act_simps Let_def list_ex_iff image_iff)

lemma live_locks_subset: "set (live_locks now d) \<subseteq> set (db_locks d)"
  by (auto simp: live_locks_def)

lemma live_locks_ok: "locks_ok d \<Longrightarrow> distinct (map lk_resource_key (live_locks now d))"
  by (simp add: locks_ok_def live_locks_def distinct_map_filter)

lemma live_locksI: "l \<in> set (db_locks d) \<Longrightarrow> \<not> stamp_less (lk_expires_at l) (format_time now) \<Longrightarrow> l \<in> set (live_locks now d)"
  by (simp add: live_locks_def)

lemma AcquireLock_keeps_live:
  "l \<in> set (live_locks now d) \<Longrightarrow> l \<in> set (db_locks (snd (AcquireLock now key jid ttl d)))"
  using AcquireLock_effect [of now key jid ttl d] by auto

interpretation locks: lease "\<lambda>now key jid. AcquireLock now key jid lock_ttl" ReleaseLock holds_lock locks_ok lock_ttl second
proof
  fix now key jid and d d' :: db and key' jid' e e'
  show "locks_ok d \<Longrightarrow> locks_ok (snd (AcquireLock now key jid lock_ttl d))"
    using AcquireLock_effect [of now key jid lock_ttl d] live_locks_ok [of d now] by (auto simp: locks_ok_def)
  show "locks_ok d \<Longrightarrow> locks_ok (snd (ReleaseLock key jid d))"
    by (simp add: locks_ok_def ReleaseLock_def act_simps Let_def distinct_map_filter)
  show "AcquireLock now key jid lock_ttl d = (Inr (), d') \<Longrightarrow> holds_lock d' key jid (now + lock_ttl)"
    using AcquireLock_effect [of now key jid lock_ttl d] by (auto simp: holds_lock_def)
  show "holds_lock d key jid e \<Longrightarrow> now + second \<le> e \<Longrightarrow> holds_lock (snd (AcquireLock now key' jid' lock_ttl d)) key jid e"
    using AcquireLock_keeps_live [OF live_locksI, of _ d now key' jid' lock_ttl] stamp_less_imp [of e now]
    unfolding holds_lock_def by (metis not_less)
  show "holds_lock d key jid e \<Longrightarrow> jid \<noteq> jid' \<Longrightarrow> holds_lock (snd (ReleaseLock key' jid' d)) key jid e"
    by (auto simp: holds_lock_def ReleaseLock_def act_simps Let_def)
  show "locks_ok d \<Longrightarrow> holds_lock d key jid e \<Longrightarrow> holds_lock d key jid' e' \<Longrightarrow> jid = jid'"
    by (auto simp: locks_ok_def holds_lock_def distinct_map inj_on_def)
qed

end
