(* ===== verification/JobRuns.thy ===== *)
theory JobRuns
  imports Jobs
begin

text \<open>
  All jobs together: creations, cancellations, rollbacks and the stages of every running goroutine
  interleave in any order, the clock moves forward, any statement may fail, and other requests change the
  other tables.  The invariants are shown step by step: each operation of \<open>Jobs\<close> touches known
  columns only, and a stage is summarised by its effect on the locks, the job rows and the calls.
\<close>

section \<open>What an operation leaves alone\<close>

named_theorems job_frame \<open>tables and fields that an operation does not change\<close>

lemma UpdateJob_frame [job_frame]:
  "db_locks (snd (UpdateJob now j d)) = db_locks d"
  "db_fault (snd (UpdateJob now j d)) = db_fault d"
  by (simp_all add: UpdateJob_def exec_def Let_def)

lemma PutEvent_frame [job_frame]:
  "db_locks (snd (PutEvent now t r p c d)) = db_locks d"
  "db_jobs (snd (PutEvent now t r p c d)) = db_jobs d"
  "db_fault (snd (PutEvent now t r p c d)) = db_fault d"
  by (simp_all add: PutEvent_def exec_def Let_def)

lemma Record_frame [job_frame]:
  "db_locks (snd (Record now i e d)) = db_locks d"
  "db_jobs (snd (Record now i e d)) = db_jobs d"
  "db_fault (snd (Record now i e d)) = db_fault d"
  by (auto simp: Record_def Let_def act_simps previous_hash_def insert_audit_def split: prod.splits sum.splits if_splits)

lemma ReleaseLock_frame [job_frame]:
  "db_jobs (snd (ReleaseLock k i d)) = db_jobs d"
  "db_fault (snd (ReleaseLock k i d)) = db_fault d"
  by (simp_all add: ReleaseLock_def act_simps Let_def)

lemma AcquireLock_frame [job_frame]:
  "db_jobs (snd (AcquireLock now k i ttl d)) = db_jobs d"
  "db_fault (snd (AcquireLock now k i ttl d)) = db_fault d"
  by (simp_all add: AcquireLock_def act_simps Let_def)

lemma ignored_fields [simp]:
  "mg_db (ignored a m) = snd (a (mg_db m))" "mg_runs (ignored a m) = mg_runs m" "mg_calls (ignored a m) = mg_calls m"
  "mg_cancel (ignored a m) = mg_cancel m" "mg_cancelled (ignored a m) = mg_cancelled m" "mg_broker (ignored a m) = mg_broker m"
  by (simp_all add: ignored_def)

lemma publish_fields [simp]:
  "mg_runs (publish now t j m) = mg_runs m" "mg_calls (publish now t j m) = mg_calls m"
  "mg_cancel (publish now t j m) = mg_cancel m" "mg_cancelled (publish now t j m) = mg_cancelled m"
  "db_locks (mg_db (publish now t j m)) = db_locks (mg_db m)" "db_jobs (mg_db (publish now t j m)) = db_jobs (mg_db m)"
  "db_fault (mg_db (publish now t j m)) = db_fault (mg_db m)"
  by (simp_all add: publish_def Let_def job_frame)

text \<open>The rows after an update of a job, which a fault may have suppressed.\<close>

definition job_updated :: "time \<Rightarrow> Job \<Rightarrow> db \<Rightarrow> job_row list" where
  "job_updated now j d =
     (if db_fault d (db_tick d) then db_jobs d else update_where (\<lambda>r. jb_id r = j_ID j) (updated_row now j) (db_jobs d))"

lemma UpdateJob_rows: "db_jobs (snd (UpdateJob now j d)) = job_updated now j d"
  by (simp add: UpdateJob_def exec_def Let_def job_updated_def)

lemma updated_row_id [simp]: "jb_id (updated_row now j r) = jb_id r" "jb_status (updated_row now j r) = j_Status j"
  by (simp_all add: updated_row_def Let_def)

lemma job_updated_ids [simp]: "map jb_id (job_updated now j d) = map jb_id (db_jobs d)"
  by (simp add: job_updated_def update_where_def comp_def if_distrib cong: if_cong)

text \<open>The status a row gets: the one of the update for the updated job, otherwise its own.\<close>

lemma job_updated_status:
  assumes "r \<in> set (job_updated now j d)"
  shows "(jb_id r = j_ID j \<and> (jb_status r = j_Status j \<or> db_fault d (db_tick d))) \<or> (r \<in> set (db_jobs d) \<and> jb_id r \<noteq> j_ID j)"
  using assms by (auto simp: job_updated_def update_where_def split: if_splits)

section \<open>The effect of a stage\<close>

definition waiting :: "run \<Rightarrow> bool" where
  "waiting r \<longleftrightarrow> rn_stage r = Starting"

definition before_call :: "stage \<Rightarrow> bool" where
  "before_call s \<longleftrightarrow> (case s of Starting \<Rightarrow> True | Stepping i \<Rightarrow> True | Calling \<Rightarrow> True | _ \<Rightarrow> False)"

text \<open>An update of one job that touches neither locks nor the bookkeeping of the manager.\<close>

definition updates_job :: "time \<Rightarrow> Job \<Rightarrow> manager \<Rightarrow> manager \<Rightarrow> bool" where
  "updates_job now j m m' \<longleftrightarrow>
     mg_runs m' = mg_runs m \<and> mg_calls m' = mg_calls m \<and> mg_cancel m' = mg_cancel m \<and> mg_cancelled m' = mg_cancelled m \<and>
     db_locks (mg_db m') = db_locks (mg_db m) \<and> db_fault (mg_db m') = db_fault (mg_db m) \<and>
     db_jobs (mg_db m') = job_updated now j (mg_db m)"

lemma fail_updates:
  "\<exists>j'. j_ID j' = j_ID j \<and> j_Status j' = ''failed'' \<and> updates_job now j' m (fail now a j code detail m)"
  unfolding fail_def Let_def
  by (intro exI conjI) (auto simp: updates_job_def job_frame UpdateJob_rows)

lemma finish_updates:
  "\<exists>j'. j_ID j' = j_ID j \<and> j_Status j' = ''success'' \<and> updates_job now j' m (finish now a j p m)"
  unfolding finish_def Let_def
  by (intro exI conjI) (auto simp: updates_job_def job_frame UpdateJob_rows)

lemma advance_updates:
  "\<exists>j'. j_ID j' = j_ID j \<and> updates_job now j' m (snd (advance now isDone j target m)) \<and>
     (case fst (advance now isDone j target m) of None \<Rightarrow> isDone \<and> j_Status j' = ''cancelled'' | Some j1 \<Rightarrow> j1 = j')"
proof (cases target)
  case (fields status progress step summary)
  show ?thesis
  proof (cases isDone)
    case True
    then show ?thesis
      unfolding advance_def Let_def updates_job_def
      by (simp add: job_frame UpdateJob_rows) (rule exI, rule conjI [rotated], rule conjI, rule refl, simp_all)
  next
    case False
    then show ?thesis
      unfolding advance_def Let_def fields prod.case by (auto simp: updates_job_def job_frame UpdateJob_rows)
  qed
qed

lemma leave_fields [simp]:
  "mg_runs (leave r m) = mg_runs m" "mg_calls (leave r m) = mg_calls m" "mg_cancelled (leave r m) = mg_cancelled m"
  "mg_cancel (leave r m) = filter (\<lambda>i. i \<noteq> rn_id r) (mg_cancel m)"
  "mg_db (leave r m) = snd (ReleaseLock (rn_lockKey r) (rn_id r) (mg_db m))"
  "mg_runs (forget r m) = mg_runs m" "mg_calls (forget r m) = mg_calls m" "mg_cancelled (forget r m) = mg_cancelled m"
  "mg_cancel (forget r m) = filter (\<lambda>i. i \<noteq> rn_id r) (mg_cancel m)" "mg_db (forget r m) = mg_db m"
  by (simp_all add: leave_def forget_def)

text \<open>How many stages of a run are still to come.\<close>

definition remaining :: "stage \<Rightarrow> nat" where
  "remaining s = (case s of Starting \<Rightarrow> 9 | Stepping i \<Rightarrow> 5 + (3 - i) | Calling \<Rightarrow> 4 | Testing \<Rightarrow> 3 | Auditing \<Rightarrow> 2 | Finishing \<Rightarrow> 1)"

text \<open>
  The effect of a stage on what runs share.  It changes only the row of its own job, and leaves a final
  status there when the run ends; it adds a call when it was about to call; it takes the lock at the start
  and gives it back at the end.
\<close>

definition rows_effect :: "run \<Rightarrow> run option \<Rightarrow> db \<Rightarrow> db \<Rightarrow> bool" where
  "rows_effect r next d d' \<longleftrightarrow> map jb_id (db_jobs d') = map jb_id (db_jobs d) \<and> db_fault d' = db_fault d \<and>
     (\<forall>x\<in>set (db_jobs d'). (x \<in> set (db_jobs d) \<and> jb_id x \<noteq> rn_id r) \<or>
        (jb_id x = rn_id r \<and> (next = None \<longrightarrow> db_fault d = (\<lambda>_. False) \<longrightarrow> terminal (jb_status x))))"

definition locks_effect :: "time \<Rightarrow> run \<Rightarrow> run option \<Rightarrow> db \<Rightarrow> db \<Rightarrow> bool" where
  "locks_effect now r next d d' \<longleftrightarrow>
     (if waiting r
      then db_locks d' = db_locks (snd (AcquireLock now (rn_lockKey r) (rn_id r) lock_ttl d)) \<and>
           (next \<noteq> None \<longrightarrow> fst (AcquireLock now (rn_lockKey r) (rn_id r) lock_ttl d) = Inr ()) \<and>
           (next = None \<longrightarrow> isl (fst (AcquireLock now (rn_lockKey r) (rn_id r) lock_ttl d)))
      else if next = None
        then \<exists>d0. db_locks d0 = db_locks d \<and> db_fault d0 = db_fault d \<and>
               db_locks d' = db_locks (snd (ReleaseLock (rn_lockKey r) (rn_id r) d0))
      else db_locks d' = db_locks d)"

definition next_run :: "time \<Rightarrow> run \<Rightarrow> run \<Rightarrow> bool" where
  "next_run now r r' \<longleftrightarrow> rn_id r' = rn_id r \<and> rn_lockKey r' = rn_lockKey r \<and> rn_op r' = rn_op r \<and> rn_payload r' = rn_payload r \<and>
     \<not> waiting r' \<and> rn_acquired r' = (if waiting r then now else rn_acquired r) \<and>
     remaining (rn_stage r') < remaining (rn_stage r) \<and>
     (before_call (rn_stage r') \<longrightarrow> before_call (rn_stage r) \<and> rn_stage r \<noteq> Calling)"

definition stage_effect :: "time \<Rightarrow> run \<Rightarrow> run option \<Rightarrow> manager \<Rightarrow> manager \<Rightarrow> bool" where
  "stage_effect now r next m m' \<longleftrightarrow>
     mg_runs m' = mg_runs m \<and> mg_cancelled m' = mg_cancelled m \<and>
     set (mg_cancel m') \<subseteq> insert (rn_id r) (set (mg_cancel m)) \<and> (next = None \<longrightarrow> rn_id r \<notin> set (mg_cancel m')) \<and>
     (next \<noteq> None \<longrightarrow> set (mg_cancel m') = (if waiting r then insert (rn_id r) (set (mg_cancel m)) else set (mg_cancel m))) \<and>
     mg_calls m' = mg_calls m @ (if rn_stage r = Calling then [(rn_id r, rn_op r, rn_payload r)] else []) \<and>
     rows_effect r next (mg_db m) (mg_db m') \<and> locks_effect now r next (mg_db m) (mg_db m') \<and>
     (\<forall>r'. next = Some r' \<longrightarrow> next_run now r r')"

lemma rows_effect_same: "db_jobs d' = db_jobs d \<Longrightarrow> db_fault d' = db_fault d \<Longrightarrow> rows_effect r (Some r') d d'"
  by (auto simp: rows_effect_def)

lemma rows_effect_update:
  assumes "db_jobs d' = job_updated now j d1" "db_fault d' = db_fault d" "db_jobs d1 = db_jobs d" "db_fault d1 = db_fault d"
    and "j_ID j = rn_id r" "next = None \<longrightarrow> terminal (j_Status j)"
  shows "rows_effect r next d d'"
  unfolding rows_effect_def
proof (intro conjI ballI)
  show "map jb_id (db_jobs d') = map jb_id (db_jobs d)" using assms(1,3) by simp
  show "db_fault d' = db_fault d" by (rule assms(2))
  fix x assume "x \<in> set (db_jobs d')"
  then show "(x \<in> set (db_jobs d) \<and> jb_id x \<noteq> rn_id r) \<or>
      (jb_id x = rn_id r \<and> (next = None \<longrightarrow> db_fault d = (\<lambda>_. False) \<longrightarrow> terminal (jb_status x)))"
    using job_updated_status [of x now j d1] assms by auto
qed

lemma terminal_statuses [simp]: "terminal ''failed''" "terminal ''success''" "terminal ''cancelled''"
  by (simp_all add: terminal_def)

lemma ending_effect:
  assumes "updates_job now j m1 m2" "j_ID j = rn_id r" "terminal (j_Status j)" "\<not> waiting r"
    and "mg_runs m1 = mg_runs m" "mg_cancelled m1 = mg_cancelled m" "mg_cancel m1 = mg_cancel m" "mg_db m1 = mg_db m"
    and "mg_calls m1 = mg_calls m @ (if rn_stage r = Calling then [(rn_id r, rn_op r, rn_payload r)] else [])"
  shows "stage_effect now r None m (leave r m2)"
  unfolding stage_effect_def
proof (intro conjI)
  show "rows_effect r None (mg_db m) (mg_db (leave r m2))"
    using assms(1-3,8) by (intro rows_effect_update [where now = now and j = j and ?d1.0 = "mg_db m"])
      (auto simp: updates_job_def job_frame)
  show "locks_effect now r None (mg_db m) (mg_db (leave r m2))"
    using assms(1,4,8) by (auto simp: locks_effect_def updates_job_def intro!: exI [of _ "mg_db m2"])
qed (use assms in \<open>auto simp: updates_job_def\<close>)

lemma advance_to_effect:
  assumes "\<not> waiting r" "rn_stage r \<noteq> Calling" "next_run now r (r\<lparr>rn_stage := s\<rparr>)"
  shows "stage_effect now r (fst (advance_to now isDone r target s m)) m (snd (advance_to now isDone r target s m))"
proof -
  obtain j' where j': "j_ID j' = rn_id r" "updates_job now j' m (snd (advance now isDone (rn_job r) target m))"
    and res: "case fst (advance now isDone (rn_job r) target m) of None \<Rightarrow> isDone \<and> j_Status j' = ''cancelled'' | Some j1 \<Rightarrow> j1 = j'"
    using advance_updates [of "rn_job r" now m isDone target] by blast
  obtain o' m1 where eq: "advance now isDone (rn_job r) target m = (o', m1)" by (cases "advance now isDone (rn_job r) target m")
  show ?thesis
  proof (cases o')
    case None
    have "terminal (j_Status j')" using res by (simp add: eq None)
    then show ?thesis
      using ending_effect [of now j' m m1 r m] j' assms(1,2) by (simp add: advance_to_def eq None)
  next
    case (Some j1)
    then have "j1 = j'" using res by (simp add: eq)
    have "next_run now r (r\<lparr>rn_job := j', rn_stage := s\<rparr>)"
      using assms(3) j'(1) by (simp add: next_run_def waiting_def)
    moreover have "rows_effect r (Some r') (mg_db m) (mg_db m1)" for r'
      using j' by (intro rows_effect_update [where now = now and j = j' and ?d1.0 = "mg_db m"]) (auto simp: updates_job_def eq)
    ultimately show ?thesis
      using j'(2) assms(1,2) \<open>j1 = j'\<close> Some
      by (auto simp: advance_to_def eq stage_effect_def updates_job_def locks_effect_def)
  qed
qed

lemma start_effect:
  assumes "rn_stage r = Starting"
  shows "stage_effect now r (fst (run_stage now a isDone answer r m)) m (snd (run_stage now a isDone answer r m))"
proof -
  let ?m1 = "m\<lparr>mg_cancel := rn_id r # mg_cancel m\<rparr>"
  obtain res d where eq: "AcquireLock now (rn_lockKey r) (rn_id r) lock_ttl (mg_db m) = (res, d)"
    by (cases "AcquireLock now (rn_lockKey r) (rn_id r) lock_ttl (mg_db m)")
  have d: "db_jobs d = db_jobs (mg_db m)" "db_fault d = db_fault (mg_db m)"
    using AcquireLock_frame [of now "rn_lockKey r" "rn_id r" lock_ttl "mg_db m"] by (simp_all add: eq)
  have w: "waiting r" using assms by (simp add: waiting_def)
  show ?thesis
  proof (cases res)
    case (Inl e)
    obtain summary where out: "run_stage now a isDone answer r m = (None, forget r (fail now a (rn_job r) ''resource_conflict'' summary (?m1\<lparr>mg_db := d\<rparr>)))"
      using assms Inl by (simp add: run_stage_def Let_def eq)
    obtain j' where j': "j_ID j' = rn_id r" "j_Status j' = ''failed''"
        "updates_job now j' (?m1\<lparr>mg_db := d\<rparr>) (fail now a (rn_job r) ''resource_conflict'' summary (?m1\<lparr>mg_db := d\<rparr>))"
      using fail_updates [of "rn_job r" now "?m1\<lparr>mg_db := d\<rparr>" a] by blast
    have "rows_effect r None (mg_db m) (mg_db (fail now a (rn_job r) ''resource_conflict'' summary (?m1\<lparr>mg_db := d\<rparr>)))"
      using j' d by (intro rows_effect_update [where now = now and j = j' and ?d1.0 = d]) (auto simp: updates_job_def)
    then show ?thesis unfolding out
      using j' w assms Inl by (auto simp: stage_effect_def updates_job_def locks_effect_def eq)
  next
    case (Inr u)
    have "rows_effect r (Some r') (mg_db m) d" for r' using d by (intro rows_effect_same) auto
    then show ?thesis
      using Inr w assms
      by (auto simp: run_stage_def Let_def eq stage_effect_def locks_effect_def eq next_run_def waiting_def remaining_def before_call_def)
  qed
qed

lemma run_stage_effect:
  "stage_effect now r (fst (run_stage now a isDone answer r m)) m (snd (run_stage now a isDone answer r m))"
proof (cases "rn_stage r")
  case Starting
  then show ?thesis by (rule start_effect)
next
  case (Stepping i)
  show ?thesis
  proof (cases "i < length run_steps")
    case True
    then have "i < 3" by (simp add: run_steps_def)
    then have "next_run now r (r\<lparr>rn_stage := Stepping (Suc i)\<rparr>)"
      using Stepping by (simp add: waiting_def next_run_def remaining_def before_call_def)
    then show ?thesis
      using advance_to_effect [of r now "Stepping (Suc i)" isDone "run_steps ! i" m] True Stepping
      by (simp add: run_stage_def waiting_def)
  next
    case False
    then show ?thesis using Stepping
      by (auto simp: run_stage_def waiting_def next_run_def remaining_def before_call_def stage_effect_def locks_effect_def
          intro: rows_effect_same)
  qed
next
  case Calling
  let ?m1 = "m\<lparr>mg_calls := mg_calls m @ [(rn_id r, rn_op r, rn_payload r)]\<rparr>"
  show ?thesis
  proof (cases answer)
    case None
    then show ?thesis using Calling
      by (auto simp: run_stage_def Let_def waiting_def next_run_def remaining_def before_call_def stage_effect_def locks_effect_def
          intro: rows_effect_same)
  next
    case (Some summary)
    obtain j' where "j_ID j' = rn_id r" "j_Status j' = ''failed''"
      "updates_job now j' ?m1 (fail now a (rn_job r) ''agent_failure'' summary ?m1)"
      using fail_updates [of "rn_job r" now ?m1 a] by blast
    then show ?thesis
      using ending_effect [of now j' ?m1 "fail now a (rn_job r) ''agent_failure'' summary ?m1" r m] Calling Some
      by (simp add: run_stage_def Let_def waiting_def)
  qed
next
  case Testing
  then show ?thesis
    using advance_to_effect [of r now Auditing isDone test_step m]
    by (simp add: run_stage_def waiting_def next_run_def remaining_def before_call_def)
next
  case Auditing
  then show ?thesis
    using advance_to_effect [of r now Finishing isDone audit_step m]
    by (simp add: run_stage_def waiting_def next_run_def remaining_def before_call_def)
next
  case Finishing
  obtain j' where "j_ID j' = rn_id r" "j_Status j' = ''success''" "updates_job now j' m (finish now a (rn_job r) (rn_payload r) m)"
    using finish_updates [of "rn_job r" now m a "rn_payload r"] by blast
  then show ?thesis
    using ending_effect [of now j' m "finish now a (rn_job r) (rn_payload r) m" r m] Finishing
    by (simp add: run_stage_def waiting_def)
qed

section \<open>Interleavings\<close>

inductive jobs_step :: "manager \<times> time \<Rightarrow> manager \<times> time \<Rightarrow> bool" where
  clock: "t \<le> t' \<Longrightarrow> jobs_step (m, t) (m, t')"
| create: "jobs_step (m, t) (snd (CreateWithID t jobID actor operation resource correlation op payload rollback m), t)"
| rollback: "jobs_step (m, t) (snd (Rollback t newID jid actor correlation m), t)"
| cancel: "jobs_step (m, t) (snd (Cancel jid m), t)"
| stage: "isDone \<longrightarrow> jid \<in> set (mg_cancelled m) \<Longrightarrow> jobs_step (m, t) (step_run t a isDone answer jid m, t)"
| others: "db_jobs d = db_jobs (mg_db m) \<Longrightarrow> db_locks d = db_locks (mg_db m) \<Longrightarrow> db_fault d = db_fault (mg_db m) \<Longrightarrow>
    jobs_step (m, t) (m\<lparr>mg_db := d\<rparr>, t)"

text \<open>A process starts without goroutines, on a database that an earlier process may have used.\<close>

definition manager_started :: "manager \<Rightarrow> bool" where
  "manager_started m \<longleftrightarrow> mg_runs m = [] \<and> mg_calls m = [] \<and> mg_cancel m = [] \<and> locks_ok (mg_db m)"

inductive jobs_reachable :: "manager \<Rightarrow> manager \<times> time \<Rightarrow> bool" for m0 where
  start: "manager_started m0 \<Longrightarrow> jobs_reachable m0 (m0, t)"
| next_state: "jobs_reachable m0 s \<Longrightarrow> jobs_step s s' \<Longrightarrow> jobs_reachable m0 s'"

definition keeps_lease :: "db \<Rightarrow> time \<Rightarrow> run \<Rightarrow> bool" where
  "keeps_lease d t r \<longleftrightarrow> waiting r \<or>
     holds_lock d (rn_lockKey r) (rn_id r) (rn_acquired r + lock_ttl) \<or> rn_acquired r + lock_ttl < t + second"

definition runs_known :: "manager \<Rightarrow> bool" where
  "runs_known m \<longleftrightarrow> distinct (map rn_id (mg_runs m)) \<and> rn_id ` set (mg_runs m) \<subseteq> jb_id ` set (db_jobs (mg_db m))"

definition calls_known :: "manager \<Rightarrow> bool" where
  "calls_known m \<longleftrightarrow> distinct (map fst (mg_calls m)) \<and> fst ` set (mg_calls m) \<subseteq> jb_id ` set (db_jobs (mg_db m)) \<and>
     (\<forall>r\<in>set (mg_runs m). before_call (rn_stage r) \<longrightarrow> rn_id r \<notin> fst ` set (mg_calls m))"

definition jobs_inv :: "manager \<times> time \<Rightarrow> bool" where
  "jobs_inv = (\<lambda>(m, t). runs_known m \<and> calls_known m \<and> locks_ok (mg_db m) \<and> (\<forall>r\<in>set (mg_runs m). keeps_lease (mg_db m) t r))"

lemma lock_cong:
  "db_locks d' = db_locks d \<Longrightarrow> locks_ok d' = locks_ok d"
  "db_locks d' = db_locks d \<Longrightarrow> keeps_lease d' t r = keeps_lease d t r"
  by (simp_all add: locks_ok_def keeps_lease_def holds_lock_def)

lemma step_run_runs:
  assumes "find (\<lambda>r. rn_id r = jid) (mg_runs m) = Some r"
    and "run_stage t a isDone answer r m = (next, m1)"
  shows "step_run t a isDone answer jid m = m1\<lparr>mg_runs := filter (\<lambda>x. rn_id x \<noteq> jid) (mg_runs m) @
           (case next of None \<Rightarrow> [] | Some r' \<Rightarrow> [r'])\<rparr> \<and> stage_effect t r next m m1 \<and> r \<in> set (mg_runs m) \<and> rn_id r = jid"
  using assms run_stage_effect [of t r a isDone answer m] find_Some_iff [of "\<lambda>r. rn_id r = jid" "mg_runs m" r]
  by (auto simp: step_run_def stage_effect_def)

lemma stage_keeps_others:
  assumes "stage_effect t r next m m1" "locks_ok (mg_db m)" "keeps_lease (mg_db m) t x" "rn_id x \<noteq> rn_id r"
  shows "keeps_lease (mg_db m1) t x"
proof (cases "waiting x")
  case False
  have x: "holds_lock (mg_db m) (rn_lockKey x) (rn_id x) (rn_acquired x + lock_ttl) \<or> rn_acquired x + lock_ttl < t + second"
    using assms(3) False by (simp add: keeps_lease_def)
  have eff: "locks_effect t r next (mg_db m) (mg_db m1)" using assms(1) by (simp add: stage_effect_def)
  show ?thesis
  proof (cases "waiting r")
    case True
    then have "keeps_lease (mg_db m1) t x = keeps_lease (snd (AcquireLock t (rn_lockKey r) (rn_id r) lock_ttl (mg_db m))) t x"
      using eff by (intro lock_cong) (simp add: locks_effect_def)
    then show ?thesis using locks.believed_acquire [OF x, of "rn_lockKey r" "rn_id r"] by (simp add: keeps_lease_def)
  next
    case nw: False
    show ?thesis
    proof (cases "next")
      case None
      then obtain d0 where d0: "db_locks d0 = db_locks (mg_db m)"
        "db_locks (mg_db m1) = db_locks (snd (ReleaseLock (rn_lockKey r) (rn_id r) d0))"
        using eff nw by (auto simp: locks_effect_def)
      have "holds_lock d0 (rn_lockKey x) (rn_id x) (rn_acquired x + lock_ttl) \<or> rn_acquired x + lock_ttl < t + second"
        using x d0(1) by (simp add: holds_lock_def)
      from locks.believed_release [OF this assms(4), of "rn_lockKey r"] show ?thesis
        using lock_cong(2) [OF d0(2), of t x] by (simp add: keeps_lease_def)
    next
      case (Some r')
      then show ?thesis using eff nw assms(3) lock_cong(2) [of "mg_db m1" "mg_db m"] by (simp add: locks_effect_def)
    qed
  qed
qed (simp add: keeps_lease_def)

lemma stage_keeps_own:
  assumes "stage_effect t r (Some r') m m1" "keeps_lease (mg_db m) t r"
  shows "keeps_lease (mg_db m1) t r'"
proof -
  have n: "next_run t r r'" and eff: "locks_effect t r (Some r') (mg_db m) (mg_db m1)"
    using assms(1) by (simp_all add: stage_effect_def)
  show ?thesis
  proof (cases "waiting r")
    case True
    let ?q = "AcquireLock t (rn_lockKey r) (rn_id r) lock_ttl (mg_db m)"
    have "fst ?q = Inr ()" and l: "db_locks (mg_db m1) = db_locks (snd ?q)" using eff True by (simp_all add: locks_effect_def)
    then have "holds_lock (snd ?q) (rn_lockKey r) (rn_id r) (t + lock_ttl)" 
      using locks.acquired [of t "rn_lockKey r" "rn_id r" "mg_db m"] by (metis prod.collapse)
    then show ?thesis using n True l by (simp add: keeps_lease_def next_run_def holds_lock_def)
  next
    case False
    then show ?thesis using eff n assms(2) by (simp add: locks_effect_def keeps_lease_def next_run_def holds_lock_def)
  qed
qed

lemma stage_locks_ok:
  assumes "stage_effect t r next m m1" "locks_ok (mg_db m)"
  shows "locks_ok (mg_db m1)"
proof -
  have eff: "locks_effect t r next (mg_db m) (mg_db m1)" using assms(1) by (simp add: stage_effect_def)
  show ?thesis
  proof (cases "waiting r")
    case True
    then show ?thesis
      using eff locks.acquire_ok [OF assms(2), of t "rn_lockKey r" "rn_id r"] by (simp add: locks_effect_def locks_ok_def)
  next
    case False
    then show ?thesis using eff assms(2) locks.release_ok [of _ "rn_lockKey r" "rn_id r"]
      by (cases "next") (auto simp: locks_effect_def locks_ok_def)
  qed
qed

lemma stage_ids: "stage_effect t r next m m1 \<Longrightarrow> jb_id ` set (db_jobs (mg_db m1)) = jb_id ` set (db_jobs (mg_db m))"
  by (metis list.set_map rows_effect_def stage_effect_def)

text \<open>The runs after a stage, as a set.\<close>

lemma step_run_set:
  assumes "find (\<lambda>r. rn_id r = jid) (mg_runs m) = Some r" "run_stage t a isDone answer r m = (next, m1)"
  shows "set (mg_runs (step_run t a isDone answer jid m)) =
     {x \<in> set (mg_runs m). rn_id x \<noteq> jid} \<union> (case next of None \<Rightarrow> {} | Some r' \<Rightarrow> {r'})"
  using step_run_runs [OF assms] by (auto split: option.splits)

lemma step_run_known:
  assumes "runs_known m"
  shows "runs_known (step_run t a isDone answer jid m)"
proof (cases "find (\<lambda>r. rn_id r = jid) (mg_runs m)")
  case (Some r)
  obtain nx m1 where q: "run_stage t a isDone answer r m = (nx, m1)" by (cases "run_stage t a isDone answer r m")
  note eff = step_run_runs [OF Some q]
  have ids: "jb_id ` set (db_jobs (mg_db m1)) = jb_id ` set (db_jobs (mg_db m))" using eff stage_ids by blast
  have "rn_id r' = jid" if "nx = Some r'" for r' using eff that by (auto simp: stage_effect_def next_run_def)
  then show ?thesis
    using eff ids assms by (auto simp: runs_known_def distinct_map_filter split: option.split)
qed (simp add: step_run_def assms)

lemma step_run_calls:
  assumes "runs_known m" "calls_known m"
  shows "calls_known (step_run t a isDone answer jid m)"
proof (cases "find (\<lambda>r. rn_id r = jid) (mg_runs m)")
  case (Some r)
  obtain nx m1 where q: "run_stage t a isDone answer r m = (nx, m1)" by (cases "run_stage t a isDone answer r m")
  note eff = step_run_runs [OF Some q]
  have ids: "jb_id ` set (db_jobs (mg_db m1)) = jb_id ` set (db_jobs (mg_db m))" using eff stage_ids by blast
  have calls: "mg_calls m1 = mg_calls m @ (if rn_stage r = Calling then [(rn_id r, rn_op r, rn_payload r)] else [])"
    using eff by (simp add: stage_effect_def)
  have r: "before_call (rn_stage r) \<longrightarrow> rn_id r \<notin> fst ` set (mg_calls m)" "jid \<in> jb_id ` set (db_jobs (mg_db m))"
    using eff assms by (auto simp: calls_known_def runs_known_def)
  have nx: "rn_id r' = jid \<and> (before_call (rn_stage r') \<longrightarrow> before_call (rn_stage r) \<and> rn_stage r \<noteq> Calling)" if "nx = Some r'" for r'
    using eff that by (auto simp: stage_effect_def next_run_def)
  have c: "before_call Calling" by (simp add: before_call_def)
  show ?thesis unfolding calls_known_def
  proof (intro conjI ballI impI)
    let ?m' = "step_run t a isDone answer jid m"
    have m': "mg_calls ?m' = mg_calls m1" "mg_db ?m' = mg_db m1" using eff by simp_all
    show "distinct (map fst (mg_calls ?m'))" using assms(2) r(1) c calls m' by (auto simp: calls_known_def)
    show "fst ` set (mg_calls ?m') \<subseteq> jb_id ` set (db_jobs (mg_db ?m'))"
      using assms(2) r(2) eff calls m' ids by (auto simp: calls_known_def)
    fix x assume x: "x \<in> set (mg_runs ?m')" and b: "before_call (rn_stage x)"
    then consider "x \<in> set (mg_runs m)" "rn_id x \<noteq> jid" | "nx = Some x"
      using step_run_set [OF Some q] by (auto split: option.splits)
    then show "rn_id x \<notin> fst ` set (mg_calls ?m')"
    proof cases
      case 1
      then show ?thesis using assms(2) b eff calls m' by (auto simp: calls_known_def)
    next
      case 2
      then show ?thesis using nx [OF 2] b r(1) eff calls m' by auto
    qed
  qed
qed (simp add: step_run_def assms)

lemma step_run_leases:
  assumes "locks_ok (mg_db m)" "\<forall>r\<in>set (mg_runs m). keeps_lease (mg_db m) t r"
  shows "locks_ok (mg_db (step_run t a isDone answer jid m)) \<and>
     (\<forall>r\<in>set (mg_runs (step_run t a isDone answer jid m)). keeps_lease (mg_db (step_run t a isDone answer jid m)) t r)"
proof (cases "find (\<lambda>r. rn_id r = jid) (mg_runs m)")
  case (Some r)
  obtain nx m1 where q: "run_stage t a isDone answer r m = (nx, m1)" by (cases "run_stage t a isDone answer r m")
  note eff = step_run_runs [OF Some q]
  have "keeps_lease (mg_db m1) t x" if "x \<in> set (mg_runs (step_run t a isDone answer jid m))" for x
    using that assms eff stage_keeps_others [of t r nx m m1 x] stage_keeps_own [of t r x m m1]
    by (auto simp: step_run_set [OF Some q] split: option.splits)
  then show ?thesis using eff stage_locks_ok assms(1) by auto
qed (simp add: step_run_def assms)

lemma CreateWithID_cases:
  obtains e d where "CreateWithID now jid actor operation resource c op p rb m = (Inl e, m\<lparr>mg_db := d\<rparr>)"
      "db_jobs d = db_jobs (mg_db m)" "db_locks d = db_locks (mg_db m)" "db_fault d = db_fault (mg_db m)"
  | j m' where "CreateWithID now jid actor operation resource c op p rb m = (Inr j, m')" "j_ID j = jid"
      "jid \<notin> jb_id ` set (db_jobs (mg_db m))"
      "mg_runs m' = mg_runs m @ [\<lparr>rn_job = j, rn_op = op, rn_payload = p, rn_lockKey = resource, rn_stage = Starting, rn_acquired = now\<rparr>]"
      "\<exists>x. db_jobs (mg_db m') = db_jobs (mg_db m) @ [x] \<and> jb_id x = jid" "db_locks (mg_db m') = db_locks (mg_db m)"
      "db_fault (mg_db m') = db_fault (mg_db m)" "mg_calls m' = mg_calls m" "mg_cancel m' = mg_cancel m"
proof -
  let ?j = "new_job now jid actor operation resource c rb"
  obtain res d where i: "InsertJob ?j p resource (mg_db m) = (res, d)" by (cases "InsertJob ?j p resource (mg_db m)")
  have j: "j_ID ?j = jid" by (simp add: new_job_def)
  have frame: "db_locks d = db_locks (mg_db m)" "db_fault d = db_fault (mg_db m)"
    using i by (auto simp: InsertJob_def exec_def Let_def split: if_splits)
  show thesis
  proof (cases "TrimSpace jid = [] \<or> length jid > 128 \<or> ContainsAny jid [CHR 0x00, CHR 0x0D, CHR 0x0A]")
    case True
    then have "CreateWithID now jid actor operation resource c op p rb m = (Inl InvalidJobID, m\<lparr>mg_db := mg_db m\<rparr>)"
      by (simp add: CreateWithID_def)
    then show thesis by (rule that(1)) simp_all
  next
    case False
    show thesis
    proof (cases res)
      case (Inl e)
      then have "CreateWithID now jid actor operation resource c op p rb m = (Inl (JobStore e), m\<lparr>mg_db := d\<rparr>)"
        using False i by (simp add: CreateWithID_def)
      moreover have "db_jobs d = db_jobs (mg_db m)" using i Inl by (auto simp: InsertJob_def exec_def Let_def split: if_splits)
      ultimately show thesis using frame by (intro that(1))
    next
      case (Inr u)
      have rows: "jid \<notin> jb_id ` set (db_jobs (mg_db m))" "\<exists>x. db_jobs d = db_jobs (mg_db m) @ [x] \<and> jb_id x = jid"
        using i Inr j by (auto simp: InsertJob_def exec_def Let_def list_ex_iff split: if_splits)
      have "CreateWithID now jid actor operation resource c op p rb m =
          (Inr ?j, (publish now ''job.created'' ?j (m\<lparr>mg_db := d\<rparr>))\<lparr>mg_runs := mg_runs m @
             [\<lparr>rn_job = ?j, rn_op = op, rn_payload = p, rn_lockKey = resource, rn_stage = Starting, rn_acquired = now\<rparr>]\<rparr>)"
        using False i Inr by (simp add: CreateWithID_def Let_def)
      then show thesis by (rule that(2) [OF _ j rows(1)]) (simp_all add: rows(2) frame)
    qed
  qed
qed

lemma jobs_inv_cong:
  assumes "jobs_inv (m, t)" "mg_runs m' = mg_runs m" "mg_calls m' = mg_calls m" "db_jobs (mg_db m') = db_jobs (mg_db m)"
    and "db_locks (mg_db m') = db_locks (mg_db m)"
  shows "jobs_inv (m', t)"
  using assms lock_cong [OF assms(5)] by (simp add: jobs_inv_def runs_known_def calls_known_def)

lemma CreateWithID_inv:
  assumes "jobs_inv (m, t)"
  shows "jobs_inv (snd (CreateWithID t jid actor operation resource c op p rb m), t)"
proof (cases rule: CreateWithID_cases [of t jid actor operation resource c op p rb m])
  case (1 e d)
  then show ?thesis using assms by (auto intro: jobs_inv_cong)
next
  case (2 j m')
  obtain x where x: "db_jobs (mg_db m') = db_jobs (mg_db m) @ [x]" "jb_id x = jid" using 2 by blast
  have "jid \<notin> rn_id ` set (mg_runs m)" "jid \<notin> fst ` set (mg_calls m)"
    using 2(3) assms by (auto simp: jobs_inv_def runs_known_def calls_known_def)
  then show ?thesis
    using 2 assms lock_cong [of "mg_db m'" "mg_db m"] x
    by (auto simp: jobs_inv_def runs_known_def calls_known_def keeps_lease_def waiting_def)
qed

lemma GetJob_frame: "db_jobs (snd (GetJob jid d)) = db_jobs d" "db_locks (snd (GetJob jid d)) = db_locks d"
  "db_fault (snd (GetJob jid d)) = db_fault d"
  by (auto simp: GetJob_def act_simps Let_def split: option.splits)

lemma Rollback_cases:
  obtains e d where "Rollback now newID jid actor c m = (Inl e, m\<lparr>mg_db := d\<rparr>)"
      "db_jobs d = db_jobs (mg_db m)" "db_locks d = db_locks (mg_db m)" "db_fault d = db_fault (mg_db m)"
  | d operation resource p where "Rollback now newID jid actor c m =
      CreateWithID now newID actor operation resource c ''rollback.execute'' p False (m\<lparr>mg_db := d\<rparr>)"
      "db_jobs d = db_jobs (mg_db m)" "db_locks d = db_locks (mg_db m)" "db_fault d = db_fault (mg_db m)"
proof -
  obtain res d where g: "GetJob jid (mg_db m) = (res, d)" by (cases "GetJob jid (mg_db m)")
  have d: "db_jobs d = db_jobs (mg_db m)" "db_locks d = db_locks (mg_db m)" "db_fault d = db_fault (mg_db m)"
    using GetJob_frame [of jid "mg_db m"] by (simp_all add: g)
  show thesis
  proof (cases res)
    case (Inl e)
    then show thesis using that(1) [of "JobStore e" d] d by (simp add: Rollback_def g)
  next
    case (Inr orig)
    show thesis
    proof (cases "j_RollbackAvailable orig")
      case True
      show thesis by (rule that(2) [OF _ d]) (use True Inr in \<open>simp add: Rollback_def g Create_def\<close>)
    next
      case False
      show thesis by (rule that(1) [OF _ d]) (use False Inr in \<open>simp add: Rollback_def g\<close>)
    qed
  qed
qed

lemma Rollback_inv:
  assumes "jobs_inv (m, t)"
  shows "jobs_inv (snd (Rollback t newID jid actor c m), t)"
proof (cases rule: Rollback_cases [of t newID jid actor c m])
  case (1 e d)
  then show ?thesis using assms by (auto intro: jobs_inv_cong)
next
  case (2 d operation resource p)
  have "jobs_inv (m\<lparr>mg_db := d\<rparr>, t)" by (rule jobs_inv_cong [OF assms]) (simp_all add: 2)
  then show ?thesis unfolding 2(1) by (rule CreateWithID_inv)
qed

lemma jobs_step_inv: "jobs_step s s' \<Longrightarrow> jobs_inv s \<Longrightarrow> jobs_inv s'"
proof (induction rule: jobs_step.induct)
  case (clock t t' m)
  then show ?case by (auto simp: jobs_inv_def keeps_lease_def)
next
  case (stage isDone jid m t a answer)
  then show ?case
    using step_run_known step_run_calls step_run_leases [of m t a isDone answer jid] by (simp add: jobs_inv_def)
qed (auto simp: Cancel_def intro: CreateWithID_inv Rollback_inv jobs_inv_cong)

lemma jobs_reachable_inv: "jobs_reachable m0 s \<Longrightarrow> jobs_inv s"
proof (induction rule: jobs_reachable.induct)
  case (start t)
  then show ?case by (simp add: manager_started_def jobs_inv_def runs_known_def calls_known_def)
next
  case (next_state s s')
  then show ?case by (blast intro: jobs_step_inv)
qed

section \<open>Jobs come to an end\<close>

text \<open>Without faults: a job that does not run is final, a lock belongs to a run that holds it, and so does a cancel function.\<close>

definition settled :: "manager \<Rightarrow> bool" where
  "settled m \<longleftrightarrow> db_fault (mg_db m) = (\<lambda>_. False) \<and>
     (\<forall>x\<in>set (db_jobs (mg_db m)). jb_id x \<notin> rn_id ` set (mg_runs m) \<longrightarrow> terminal (jb_status x)) \<and>
     (\<forall>l\<in>set (db_locks (mg_db m)). \<exists>r\<in>set (mg_runs m). \<not> waiting r \<and> rn_id r = lk_owner_job_id l \<and> rn_lockKey r = lk_resource_key l) \<and>
     set (mg_cancel m) \<subseteq> rn_id ` set (mg_runs m)"

lemma settled_cong:
  assumes "settled m" "mg_runs m' = mg_runs m" "mg_cancel m' = mg_cancel m" "db_jobs (mg_db m') = db_jobs (mg_db m)"
    and "db_locks (mg_db m') = db_locks (mg_db m)" "db_fault (mg_db m') = db_fault (mg_db m)"
  shows "settled m'"
  using assms by (simp add: settled_def)

lemma CreateWithID_settled:
  assumes "settled m"
  shows "settled (snd (CreateWithID t jid actor operation resource c op p rb m))"
proof (cases rule: CreateWithID_cases [of t jid actor operation resource c op p rb m])
  case (1 e d)
  then show ?thesis using assms by (auto intro: settled_cong)
next
  case (2 j m')
  obtain x where x: "db_jobs (mg_db m') = db_jobs (mg_db m) @ [x]" "jb_id x = jid" using 2 by blast
  let ?r = "\<lparr>rn_job = j, rn_op = op, rn_payload = p, rn_lockKey = resource, rn_stage = Starting, rn_acquired = t\<rparr>"
  have runs: "set (mg_runs m') = insert ?r (set (mg_runs m))" "rn_id ?r = jid" using 2 by simp_all
  have "settled m'" using assms 2(6-9) unfolding settled_def runs(1) by (auto simp: x runs(2) 2(2))
  then show ?thesis by (simp add: 2(1))
qed

text \<open>The locks after a stage, without faults.\<close>

lemma stage_locks:
  assumes "stage_effect t r next m m1" "db_fault (mg_db m) = (\<lambda>_. False)" "l \<in> set (db_locks (mg_db m1))"
  shows "(l \<in> set (db_locks (mg_db m)) \<and>
            (waiting r \<or> next \<noteq> None \<or> lk_resource_key l \<noteq> rn_lockKey r \<or> lk_owner_job_id l \<noteq> rn_id r)) \<or>
         (next \<noteq> None \<and> lk_resource_key l = rn_lockKey r \<and> lk_owner_job_id l = rn_id r)"
proof -
  have eff: "locks_effect t r next (mg_db m) (mg_db m1)" using assms(1) by (simp add: stage_effect_def)
  show ?thesis
  proof (cases "waiting r")
    case True
    then show ?thesis
      using eff assms(3) AcquireLock_effect [of t "rn_lockKey r" "rn_id r" lock_ttl "mg_db m"] live_locks_subset [of t "mg_db m"]
      by (cases "next") (auto simp: locks_effect_def)
  next
    case False
    then show ?thesis using eff assms(2,3)
      by (cases "next") (auto simp: locks_effect_def ReleaseLock_def act_simps Let_def)
  qed
qed

lemma stage_rows:
  assumes "stage_effect t r next m m1" "db_fault (mg_db m) = (\<lambda>_. False)" "x \<in> set (db_jobs (mg_db m1))"
  shows "(x \<in> set (db_jobs (mg_db m)) \<and> jb_id x \<noteq> rn_id r) \<or> (jb_id x = rn_id r \<and> (next = None \<longrightarrow> terminal (jb_status x)))"
  using assms by (simp add: stage_effect_def rows_effect_def)

lemma step_run_settled:
  assumes "runs_known m" "settled m"
  shows "settled (step_run t a isDone answer jid m)"
proof (cases "find (\<lambda>r. rn_id r = jid) (mg_runs m)")
  case (Some r)
  obtain nx m1 where q: "run_stage t a isDone answer r m = (nx, m1)" by (cases "run_stage t a isDone answer r m")
  let ?m' = "step_run t a isDone answer jid m"
  note eff = step_run_runs [OF Some q]
  then have st: "stage_effect t r nx m m1" and r: "r \<in> set (mg_runs m)" "rn_id r = jid"
    and m': "mg_db ?m' = mg_db m1" "mg_cancel ?m' = mg_cancel m1" by auto
  note runs = step_run_set [OF Some q]
  have nofault: "db_fault (mg_db m) = (\<lambda>_. False)" using assms(2) by (simp add: settled_def)
  have nx: "rn_id r' = jid \<and> \<not> waiting r' \<and> rn_lockKey r' = rn_lockKey r" if "nx = Some r'" for r'
    using st that by (auto simp: stage_effect_def next_run_def r)
  have ids: "rn_id ` set (mg_runs m) - {jid} \<subseteq> rn_id ` set (mg_runs ?m')" "nx \<noteq> None \<Longrightarrow> jid \<in> rn_id ` set (mg_runs ?m')"
    using nx unfolding runs by (auto split: option.split)
  have only: "x = r" if "x \<in> set (mg_runs m)" "rn_id x = jid" for x
    using that r assms(1) by (auto simp: runs_known_def distinct_map inj_on_def)
  show ?thesis unfolding settled_def m'
  proof (intro conjI ballI impI)
    show "db_fault (mg_db m1) = (\<lambda>_. False)" using st nofault by (simp add: stage_effect_def rows_effect_def)
    show "set (mg_cancel m1) \<subseteq> rn_id ` set (mg_runs ?m')"
    proof
      fix i assume "i \<in> set (mg_cancel m1)"
      then have "i = jid \<and> nx \<noteq> None \<or> i \<noteq> jid \<and> i \<in> set (mg_cancel m)" using st r by (auto simp: stage_effect_def)
      then show "i \<in> rn_id ` set (mg_runs ?m')" using ids assms(2) by (auto simp: settled_def)
    qed
    fix x assume x: "x \<in> set (db_jobs (mg_db m1))" "jb_id x \<notin> rn_id ` set (mg_runs ?m')"
    have "(x \<in> set (db_jobs (mg_db m)) \<and> jb_id x \<noteq> jid) \<or> (jb_id x = jid \<and> (nx = None \<longrightarrow> terminal (jb_status x)))"
      using stage_rows [OF st nofault x(1)] unfolding r(2) .
    then show "terminal (jb_status x)" using x(2) ids assms(2) unfolding settled_def by blast
  next
    fix l assume "l \<in> set (db_locks (mg_db m1))"
    from stage_locks [OF st nofault this]
    show "\<exists>x\<in>set (mg_runs ?m'). \<not> waiting x \<and> rn_id x = lk_owner_job_id l \<and> rn_lockKey x = lk_resource_key l"
    proof (rule disjE)
      assume l: "l \<in> set (db_locks (mg_db m)) \<and>
        (waiting r \<or> nx \<noteq> None \<or> lk_resource_key l \<noteq> rn_lockKey r \<or> lk_owner_job_id l \<noteq> rn_id r)"
      note c = conjunct2 [OF l]
      obtain x where x: "x \<in> set (mg_runs m)" "\<not> waiting x" "rn_id x = lk_owner_job_id l" "rn_lockKey x = lk_resource_key l"
        using l assms(2) by (auto simp: settled_def)
      show ?thesis
      proof (cases "rn_id x = jid")
        case True
        with x have "x = r" by (intro only)
        with x c r(2) obtain r' where "nx = Some r'" by auto
        with nx [OF this] x \<open>x = r\<close> r(2) show ?thesis unfolding runs by (intro bexI [of _ r']) auto
      next
        case False
        with x show ?thesis unfolding runs by blast
      qed
    next
      assume "nx \<noteq> None \<and> lk_resource_key l = rn_lockKey r \<and> lk_owner_job_id l = rn_id r"
      then show ?thesis using nx r unfolding runs by auto
    qed
  qed
qed (simp add: step_run_def assms)

lemma jobs_step_settled: "jobs_step s s' \<Longrightarrow> jobs_inv s \<Longrightarrow> settled (fst s) \<Longrightarrow> settled (fst s')"
proof (induction rule: jobs_step.induct)
  case (rollback m t newID jid actor c)
  show ?case
  proof (cases rule: Rollback_cases [of t newID jid actor c m])
    case (1 e d)
    then show ?thesis using rollback by (auto intro: settled_cong)
  next
    case (2 d operation resource p)
    have "settled (m\<lparr>mg_db := d\<rparr>)" by (rule settled_cong [of m]) (use rollback 2 in simp_all)
    then show ?thesis by (simp add: 2(1) CreateWithID_settled)
  qed
qed (auto simp: Cancel_def jobs_inv_def intro: CreateWithID_settled settled_cong step_run_settled)

lemma jobs_reachable_settled: "jobs_reachable m0 s \<Longrightarrow> settled m0 \<Longrightarrow> settled (fst s)"
proof (induction rule: jobs_reachable.induct)
  case (next_state s s')
  then show ?case using jobs_step_settled jobs_reachable_inv by blast
qed simp

definition pending :: "string \<Rightarrow> manager \<Rightarrow> nat" where
  "pending jid m = (case find (\<lambda>r. rn_id r = jid) (mg_runs m) of None \<Rightarrow> 0 | Some r \<Rightarrow> remaining (rn_stage r))"

lemma find_filter_append: "find P (filter (\<lambda>x. \<not> P x) xs @ ys) = find P ys"
  by (induction xs) auto

lemma step_run_pending: "pending jid (step_run t a isDone answer jid m) \<le> pending jid m - 1"
proof (cases "find (\<lambda>r. rn_id r = jid) (mg_runs m)")
  case (Some r)
  obtain nx m1 where q: "run_stage t a isDone answer r m = (nx, m1)" by (cases "run_stage t a isDone answer r m")
  note eff = step_run_runs [OF Some q]
  have nx: "rn_id r' = jid \<and> remaining (rn_stage r') < remaining (rn_stage r)" if "nx = Some r'" for r'
    using eff that by (auto simp: stage_effect_def next_run_def)
  have "find (\<lambda>r. rn_id r = jid) (mg_runs (step_run t a isDone answer jid m)) =
      find (\<lambda>r. rn_id r = jid) (case nx of None \<Rightarrow> [] | Some r' \<Rightarrow> [r'])"
    using eff by (simp add: find_filter_append)
  then show ?thesis using Some nx by (cases nx) (auto simp: pending_def)
qed (simp add: step_run_def pending_def)

lemma pending_bound: "pending jid m \<le> 9"
  by (auto simp: pending_def remaining_def split: option.split stage.split)

lemma pending_0: "pending jid m = 0 \<longleftrightarrow> jid \<notin> rn_id ` set (mg_runs m)"
  by (auto simp: pending_def remaining_def find_None_iff split: option.split stage.split dest: find_Some_iff)

definition drive :: "(time \<times> string \<times> bool \<times> string option) list \<Rightarrow> string \<Rightarrow> manager \<Rightarrow> manager" where
  "drive stages jid m = foldl (\<lambda>m (t, a, isDone, answer). step_run t a isDone answer jid m) m stages"

lemma drive_settled:
  "runs_known m \<Longrightarrow> settled m \<Longrightarrow> runs_known (drive stages jid m) \<and> settled (drive stages jid m)"
proof (induction stages arbitrary: m)
  case (Cons s stages)
  obtain t a isDone answer where s: "s = (t, a, isDone, answer)" by (cases s)
  show ?case
    using Cons.IH [OF step_run_known [OF Cons.prems(1)] step_run_settled [OF Cons.prems], of t a isDone answer jid]
    by (simp only: drive_def s foldl_Cons prod.case)
qed (simp add: drive_def)

lemma drive_pending: "pending jid (drive stages jid m) \<le> pending jid m - length stages"
proof (induction stages arbitrary: m)
  case (Cons s stages)
  obtain t a isDone answer where s: "s = (t, a, isDone, answer)" by (cases s)
  show ?case using Cons.IH [of "step_run t a isDone answer jid m"] step_run_pending [of jid t a isDone answer m]
    by (simp add: drive_def s)
qed (simp add: drive_def)

lemma Create_calls:
  "mg_calls (snd (CreateWithID t jid actor operation resource c op p rb m)) = mg_calls m"
  by (rule CreateWithID_cases [of t jid actor operation resource c op p rb m]) auto

lemma Rollback_calls: "mg_calls (snd (Rollback t newID jid actor c m)) = mg_calls m"
  by (rule Rollback_cases [of t newID jid actor c m]) (auto simp: Create_calls)

lemma step_run_new_call:
  "set (mg_calls (step_run t a isDone answer jid m)) \<subseteq>
     set (mg_calls m) \<union> {(rn_id r, rn_op r, rn_payload r) |r. r \<in> set (mg_runs m) \<and> rn_stage r = Calling}"
proof (cases "find (\<lambda>r. rn_id r = jid) (mg_runs m)")
  case (Some r)
  obtain nx m1 where q: "run_stage t a isDone answer r m = (nx, m1)" by (cases "run_stage t a isDone answer r m")
  show ?thesis using step_run_runs [OF Some q] by (auto simp: stage_effect_def split: if_splits)
qed (simp add: step_run_def)

lemma jobs_step_calls:
  "jobs_step (m, t) (m', t') \<Longrightarrow> set (mg_calls m') \<subseteq>
     set (mg_calls m) \<union> {(rn_id r, rn_op r, rn_payload r) |r. r \<in> set (mg_runs m) \<and> rn_stage r = Calling}"
proof (induction "(m, t)" "(m', t')" rule: jobs_step.induct)
  case (stage isDone jid a answer)
  then show ?case using step_run_new_call by blast
qed (auto simp: Create_calls Rollback_calls Cancel_def split: if_splits)

section \<open>Properties\<close>

text \<open>
  C15. Two jobs never work on the same resource at once: in every reachable state, whatever interleaving of
  creations, cancellations, stages and failing statements led to it, two different runs that are past the
  lock of the same key can only be there if one of them took its lock ten minutes ago (less the second
  that the comparison of instants as text can cost).
\<close>

theorem resource_exclusive:
  assumes "jobs_reachable m0 (m, t)" "r1 \<in> set (mg_runs m)" "r2 \<in> set (mg_runs m)" "r1 \<noteq> r2"
    and "rn_stage r1 \<noteq> Starting" "rn_stage r2 \<noteq> Starting" "rn_lockKey r1 = rn_lockKey r2"
  shows "min (rn_acquired r1) (rn_acquired r2) + 10 * minute < t + second"
proof -
  have inv: "runs_known m" "locks_ok (mg_db m)" "\<forall>r\<in>set (mg_runs m). keeps_lease (mg_db m) t r"
    using jobs_reachable_inv [OF assms(1)] by (simp_all add: jobs_inv_def)
  have ids: "rn_id r1 \<noteq> rn_id r2" using inv(1) assms(2-4) by (auto simp: runs_known_def distinct_map inj_on_def)
  have "holds_lock (mg_db m) (rn_lockKey r1) (rn_id r1) (rn_acquired r1 + lock_ttl) \<or> rn_acquired r1 + lock_ttl < t + second"
    "holds_lock (mg_db m) (rn_lockKey r1) (rn_id r2) (rn_acquired r2 + lock_ttl) \<or> rn_acquired r2 + lock_ttl < t + second"
    using inv(3) assms(2,3,5-7) by (auto simp: keeps_lease_def waiting_def)
  from locks.believed_exclusive [OF inv(2) this ids] show ?thesis by (auto simp: lock_ttl_def min_def split: if_splits)
qed

definition idle :: manager where
  "idle = \<lparr>mg_db = empty_db, mg_broker = New, mg_cancel = [], mg_cancelled = [], mg_runs = [], mg_calls = []\<rparr>"

definition dawn :: time where "dawn = zero_time + 6 * hour"

definition two_jobs :: manager where
  "two_jobs = snd (CreateWithID dawn ''J2'' ''rui'' ''b'' ''share:docs'' ''c'' ''share.update'' JNull False
     (snd (CreateWithID dawn ''J1'' ''ana'' ''a'' ''share:docs'' ''c'' ''share.create'' JNull False idle)))"

definition overdue :: manager where
  "overdue = step_run (dawn + 11 * minute) ''a2'' False None ''J2'' (step_run dawn ''a1'' False None ''J1'' two_jobs)"

lemma idle_settled: "manager_started idle" "settled idle"
  by (simp_all add: idle_def manager_started_def settled_def empty_db_def locks_ok_def)

lemma two_jobs_reachable: "jobs_reachable idle (two_jobs, dawn)"
  unfolding two_jobs_def by (rule next_state [OF next_state [OF start [OF idle_settled(1)] create] create])

lemma overdue_reachable: "jobs_reachable idle (overdue, dawn + 11 * minute)"
proof -
  have "jobs_reachable idle (step_run dawn ''a1'' False None ''J1'' two_jobs, dawn)"
    using next_state [OF two_jobs_reachable stage] by simp
  then have "jobs_reachable idle (step_run dawn ''a1'' False None ''J1'' two_jobs, dawn + 11 * minute)"
    by (rule next_state) (rule clock, simp)
  then show ?thesis unfolding overdue_def by (rule next_state) (rule stage, simp)
qed

lemma overdue_runs:
  "map (\<lambda>r. (rn_id r, rn_lockKey r, rn_stage r, rn_acquired r)) (mg_runs overdue) =
     [(''J1'', ''share:docs'', Stepping 0, dawn), (''J2'', ''share:docs'', Stepping 0, dawn + 11 * minute)]"
  by code_simp

theorem resource_exclusive_witness:
  "\<exists>r1\<in>set (mg_runs overdue). \<exists>r2\<in>set (mg_runs overdue). rn_id r1 \<noteq> rn_id r2 \<and> rn_lockKey r1 = rn_lockKey r2 \<and>
     min (rn_acquired r1) (rn_acquired r2) + 10 * minute < dawn + 11 * minute + second"
proof -
  obtain r1 r2 where runs: "mg_runs overdue = [r1, r2]"
    and r: "rn_id r1 = ''J1''" "rn_id r2 = ''J2''" "rn_lockKey r1 = rn_lockKey r2" "rn_stage r1 \<noteq> Starting" "rn_stage r2 \<noteq> Starting"
    using overdue_runs by (auto simp: map_eq_Cons_conv)
  have mem: "r1 \<in> set (mg_runs overdue)" "r2 \<in> set (mg_runs overdue)" unfolding runs by simp_all
  have ne: "rn_id r1 \<noteq> rn_id r2" unfolding r by simp
  then have "r1 \<noteq> r2" by auto
  from resource_exclusive [OF overdue_reachable mem this r(4,5,3)] show ?thesis using mem ne r(3) by blast
qed



text \<open>
  C17. The agent is called at most once for a job, with the operation and the payload of the job, and
  only by a run that holds the lock of its resource or whose ten minutes (less a second) have passed.
\<close>

theorem agent_called_once:
  assumes "jobs_reachable m0 (m, t)" "jobs_step (m, t) (m', t')"
  shows "distinct (map fst (mg_calls m')) \<and>
     (\<forall>c\<in>set (mg_calls m') - set (mg_calls m). \<exists>r\<in>set (mg_runs m). c = (rn_id r, rn_op r, rn_payload r) \<and> rn_stage r = Calling \<and>
        (holds_lock (mg_db m) (rn_lockKey r) (rn_id r) (rn_acquired r + 10 * minute) \<or> rn_acquired r + 10 * minute < t + second))"
proof -
  have inv: "jobs_inv (m, t)" "jobs_inv (m', t')"
    using jobs_reachable_inv [OF assms(1)] jobs_reachable_inv [OF next_state [OF assms]] by simp_all
  have lease: "\<forall>r\<in>set (mg_runs m). keeps_lease (mg_db m) t r" using inv(1) by (simp add: jobs_inv_def)
  have "distinct (map fst (mg_calls m'))" using inv(2) by (simp add: jobs_inv_def calls_known_def)
  moreover have "\<exists>r\<in>set (mg_runs m). c = (rn_id r, rn_op r, rn_payload r) \<and> rn_stage r = Calling"
    if c: "c \<in> set (mg_calls m') - set (mg_calls m)" for c
    using jobs_step_calls [OF assms(2)] c by auto
  ultimately show ?thesis using lease by (fastforce simp: keeps_lease_def waiting_def lock_ttl_def)
qed

definition one_job :: manager where
  "one_job = snd (CreateWithID dawn ''J1'' ''ana'' ''a'' ''share:docs'' ''c'' ''share.create'' JNull False idle)"

definition calling :: manager where
  "calling = drive (replicate 5 (dawn, ''a'', False, None)) ''J1'' one_job"

lemma one_job_reachable: "jobs_reachable idle (one_job, dawn)"
  unfolding one_job_def by (rule next_state [OF start [OF idle_settled(1)] create])

lemma sample_id: "TrimSpace ''J1'' \<noteq> []" "\<not> ContainsAny ''J1'' [CHR 0x00, CHR 0x0D, CHR 0x0A]"
  by code_simp+

lemma one_job_state:
  "mg_runs one_job = [\<lparr>rn_job = new_job dawn ''J1'' ''ana'' ''a'' ''share:docs'' ''c'' False, rn_op = ''share.create'', rn_payload = JNull,
      rn_lockKey = ''share:docs'', rn_stage = Starting, rn_acquired = dawn\<rparr>]"
  "db_locks (mg_db one_job) = []" "db_fault (mg_db one_job) = (\<lambda>_. False)" "mg_calls one_job = []" "map jb_id (db_jobs (mg_db one_job)) = [''J1'']"
  using sample_id
  by (simp_all add: one_job_def CreateWithID_def Let_def InsertJob_def act_simps idle_def empty_db_def publish_def ignored_def PutEvent_def new_job_def)

fun following :: "stage \<Rightarrow> stage" where
  "following Starting = Stepping 0"
| "following (Stepping i) = (if i < 3 then Stepping (Suc i) else Calling)"
| "following Calling = Testing"
| "following Testing = Auditing"
| "following Auditing = Finishing"
| "following Finishing = Finishing"

lemma run_goes_on:
  assumes "rn_stage r \<noteq> Finishing" "waiting r \<Longrightarrow> db_locks (mg_db m) = []" "db_fault (mg_db m) = (\<lambda>_. False)"
  shows "\<exists>r'. fst (run_stage t a False None r m) = Some r' \<and> rn_stage r' = following (rn_stage r)"
  using assms
  by (cases "rn_stage r")
    (auto simp: run_stage_def Let_def advance_to_def advance_def run_steps_def test_step_def audit_step_def waiting_def
      AcquireLock_def act_simps split: prod.splits)

lemma single_goes_on:
  assumes "mg_runs m = [r]" "rn_id r = jid" "rn_stage r \<noteq> Finishing" "waiting r \<Longrightarrow> db_locks (mg_db m) = []" "db_fault (mg_db m) = (\<lambda>_. False)"
  shows "\<exists>r'. mg_runs (step_run t a False None jid m) = [r'] \<and> rn_stage r' = following (rn_stage r) \<and> next_run t r r' \<and>
     mg_calls (step_run t a False None jid m) = mg_calls m @ (if rn_stage r = Calling then [(jid, rn_op r, rn_payload r)] else []) \<and>
     db_fault (mg_db (step_run t a False None jid m)) = (\<lambda>_. False) \<and> set (mg_cancel m) \<subseteq> set (mg_cancel (step_run t a False None jid m)) \<and>
     (waiting r \<longrightarrow> jid \<in> set (mg_cancel (step_run t a False None jid m))) \<and>
     map jb_id (db_jobs (mg_db (step_run t a False None jid m))) = map jb_id (db_jobs (mg_db m))"
proof -
  have f: "find (\<lambda>x. rn_id x = jid) (mg_runs m) = Some r" by (simp add: assms)
  obtain nx m1 where q: "run_stage t a False None r m = (nx, m1)" by (cases "run_stage t a False None r m")
  obtain r' where "nx = Some r'" "rn_stage r' = following (rn_stage r)"
    using run_goes_on [OF assms(3,4,5), of t a] by (auto simp: q)
  then show ?thesis using step_run_runs [OF f q] assms(1,2,5) by (auto simp: stage_effect_def rows_effect_def)
qed

lemma drive_reachable:
  "jobs_reachable m0 (m, t) \<Longrightarrow> jobs_reachable m0 (drive (replicate n (t, a, False, answer)) jid m, t)"
proof (induction n arbitrary: m)
  case (Suc n)
  have "jobs_reachable m0 (step_run t a False answer jid m, t)" by (rule next_state [OF Suc.prems]) (rule stage, simp)
  from Suc.IH [OF this] show ?case by (simp add: drive_def)
qed (simp add: drive_def)

definition alone :: "stage \<Rightarrow> (string \<times> string \<times> json) list \<Rightarrow> manager \<Rightarrow> bool" where
  "alone st calls m \<longleftrightarrow> (\<exists>r. mg_runs m = [r] \<and> rn_id r = ''J1'' \<and> rn_op r = ''share.create'' \<and> rn_payload r = JNull \<and> rn_stage r = st) \<and>
     mg_calls m = calls \<and> (st \<noteq> Starting \<longrightarrow> ''J1'' \<in> set (mg_cancel m)) \<and> db_fault (mg_db m) = (\<lambda>_. False) \<and> map jb_id (db_jobs (mg_db m)) = [''J1'']"

lemma alone_step:
  assumes "alone st calls m" "st \<noteq> Finishing" "st = Starting \<Longrightarrow> db_locks (mg_db m) = []"
  shows "alone (following st) (calls @ (if st = Calling then [(''J1'', ''share.create'', JNull)] else [])) (step_run t a False None ''J1'' m)"
proof -
  obtain r where r: "mg_runs m = [r]" "rn_id r = ''J1''" "rn_op r = ''share.create''" "rn_payload r = JNull" "rn_stage r = st"
    using assms(1) by (auto simp: alone_def)
  have w: "waiting r \<Longrightarrow> db_locks (mg_db m) = []" using assms(3) r(5) by (simp add: waiting_def)
  show ?thesis
    using single_goes_on [OF r(1,2) _ w, of t a] assms(1,2) r unfolding alone_def
    by (auto simp: next_run_def waiting_def)
qed

lemma alone_calling: "alone Calling [] calling"
proof -
  have "alone Starting [] one_job" using one_job_state by (simp add: alone_def new_job_def)
  from alone_step [OF this _ one_job_state(2), of dawn "''a''"] have "alone (Stepping 0) [] (step_run dawn ''a'' False None ''J1'' one_job)"
    by simp
  note alone_step [OF this, of dawn "''a''", simplified]
  note alone_step [OF this, of dawn "''a''", simplified]
  note alone_step [OF this, of dawn "''a''", simplified]
  note alone_step [OF this, of dawn "''a''", simplified]
  then show ?thesis by (simp add: calling_def drive_def numeral_eq_Suc)
qed

lemma calling_reachable: "jobs_reachable idle (calling, dawn)"
  unfolding calling_def by (rule drive_reachable [OF one_job_reachable])

theorem agent_called_once_witness:
  "\<exists>r\<in>set (mg_runs calling). (''J1'', ''share.create'', JNull) = (rn_id r, rn_op r, rn_payload r) \<and> rn_stage r = Calling"
proof -
  let ?m' = "step_run dawn ''a'' False None ''J1'' calling"
  have "(''J1'', ''share.create'', JNull) \<in> set (mg_calls ?m') - set (mg_calls calling)"
    using alone_step [OF alone_calling, of dawn "''a''"] alone_calling by (simp add: alone_def)
  moreover have "jobs_step (calling, dawn) (?m', dawn)" by (rule stage) simp
  ultimately show ?thesis using agent_called_once [OF calling_reachable] by blast
qed

text \<open>A job that is cancelled between its stages.\<close>

lemma advance_cancelled: "fst (advance t True j target m) = None"
  by (simp add: advance_def Let_def)

lemma cancelled_stage:
  assumes "alone st calls m" "st = Testing \<or> st = Auditing"
  shows "map jb_status (db_jobs (mg_db (step_run t a True answer ''J1'' m))) = [''cancelled''] \<and> mg_calls (step_run t a True answer ''J1'' m) = calls"
proof -
  obtain r where r: "mg_runs m = [r]" "rn_id r = ''J1''" "rn_stage r = st" using assms(1) by (auto simp: alone_def)
  define target where "target = (if st = Testing then test_step else audit_step)"
  obtain j' where j': "j_ID j' = ''J1''" "updates_job t j' m (snd (advance t True (rn_job r) target m))"
    "fst (advance t True (rn_job r) target m) = None" "j_Status j' = ''cancelled''"
    using advance_updates [of "rn_job r" t m True target] r(2) advance_cancelled [of t "rn_job r" target m] by auto
  obtain m1 where m1: "advance t True (rn_job r) target m = (None, m1)" using j'(3) by (metis prod.collapse)
  have run: "step_run t a True answer ''J1'' m = (leave r m1)\<lparr>mg_runs := []\<rparr>"
    using r m1 j'(2) assms(2) by (auto simp: step_run_def run_stage_def advance_to_def target_def updates_job_def)
  have "map jb_id (db_jobs (mg_db m)) = [''J1'']" "db_fault (mg_db m) = (\<lambda>_. False)" "mg_calls m = calls"
    using assms(1) by (auto simp: alone_def)
  then show ?thesis
    using j' unfolding run by (auto simp: m1 updates_job_def job_updated_def update_where_def job_frame map_eq_Cons_conv)
qed

text \<open>
  A cancellation can come too late and still be reported as one: a job whose call of the agent has
  succeeded, cancelled before its tests, ends with the status \<open>cancelled\<close> (and the summary that it was
  cancelled before completion), although the agent has carried out the operation.
\<close>

definition cancelled_late :: manager where
  "cancelled_late = step_run dawn ''a'' True None ''J1'' (snd (Cancel ''J1'' (step_run dawn ''a'' False None ''J1'' calling)))"

theorem cancelled_after_execution:
  "jobs_reachable idle (cancelled_late, dawn) \<and> mg_calls cancelled_late = [(''J1'', ''share.create'', JNull)] \<and>
   map jb_status (db_jobs (mg_db cancelled_late)) = [''cancelled'']"
proof -
  let ?m = "step_run dawn ''a'' False None ''J1'' calling"
  have al: "alone Testing [(''J1'', ''share.create'', JNull)] ?m" using alone_step [OF alone_calling, of dawn "''a''"] by simp
  have c: "snd (Cancel ''J1'' ?m) = ?m\<lparr>mg_cancelled := ''J1'' # mg_cancelled ?m\<rparr>" using al by (simp add: Cancel_def alone_def)
  have "alone Testing [(''J1'', ''share.create'', JNull)] (snd (Cancel ''J1'' ?m))" unfolding c using al by (simp add: alone_def)
  moreover have "jobs_reachable idle (?m, dawn)" by (rule next_state [OF calling_reachable]) (rule stage, simp)
  then have 1: "jobs_reachable idle (snd (Cancel ''J1'' ?m), dawn)" by (rule next_state) (rule cancel)
  have "''J1'' \<in> set (mg_cancelled (snd (Cancel ''J1'' ?m)))" unfolding c by simp
  then have "jobs_reachable idle (cancelled_late, dawn)" unfolding cancelled_late_def by (intro next_state [OF 1] stage) simp
  ultimately show ?thesis using cancelled_stage [of Testing] unfolding cancelled_late_def by blast
qed

end
