(* ===== verification/Otp.thy ===== *)
theory Otp
  imports Hash GoTime
begin

text \<open>
  Time-based one-time passwords: \<open>validTOTP\<close>, \<open>totpCode\<close> and the recovery codes of
  \<open>src/backend/internal/auth/mfa.go\<close>, with the parts of the standard library they call, SHA-1
  (FIPS 180-4), HMAC over it, and \<open>encoding/base32\<close> without padding.
\<close>

section \<open>SHA-1\<close>

definition rotl :: "nat \<Rightarrow> 32 word \<Rightarrow> 32 word" where
  "rotl n w = rotr (32 - n) w"

type_synonym sha1_state = "32 word \<times> 32 word \<times> 32 word \<times> 32 word \<times> 32 word"

definition sha1_init :: sha1_state where
  "sha1_init = (0x67452301, 0xEFCDAB89, 0x98BADCFE, 0x10325476, 0xC3D2E1F0)"

text \<open>The message schedule, latest word first.\<close>

fun sha1_schedule :: "nat \<Rightarrow> 32 word list \<Rightarrow> 32 word list" where
  "sha1_schedule 0 ws = ws"
| "sha1_schedule (Suc n) ws = sha1_schedule n (rotl 1 (ws ! 2 XOR ws ! 7 XOR ws ! 13 XOR ws ! 15) # ws)"

definition sha1_f :: "nat \<Rightarrow> 32 word \<Rightarrow> 32 word \<Rightarrow> 32 word \<Rightarrow> 32 word" where
  "sha1_f t b c d =
     (if t < 20 then (b AND c) OR (NOT b AND d)
      else if t < 40 then b XOR c XOR d
      else if t < 60 then (b AND c) OR (b AND d) OR (c AND d)
      else b XOR c XOR d)"

definition sha1_k :: "nat \<Rightarrow> 32 word" where
  "sha1_k t = (if t < 20 then 0x5A827999 else if t < 40 then 0x6ED9EBA1 else if t < 60 then 0x8F1BBCDC else 0xCA62C1D6)"

definition sha1_round :: "sha1_state \<Rightarrow> nat \<times> 32 word \<Rightarrow> sha1_state" where
  "sha1_round st tw =
     (let (a, b, c, d, e) = st; (t, w) = tw
      in (rotl 5 a + sha1_f t b c d + e + sha1_k t + w, a, rotl 30 b, c, d))"

definition sha1_block :: "sha1_state \<Rightarrow> 32 word list \<Rightarrow> sha1_state" where
  "sha1_block st ws =
     (let (a, b, c, d, e) = st;
          (a', b', c', d', e') = foldl sha1_round st (zip [0..<80] (rev (sha1_schedule 64 (rev ws))))
      in (a + a', b + b', c + c', d + d', e + e'))"

fun sha1_blocks :: "nat \<Rightarrow> sha1_state \<Rightarrow> 32 word list \<Rightarrow> sha1_state" where
  "sha1_blocks 0 st ws = st"
| "sha1_blocks (Suc n) st ws = sha1_blocks n (sha1_block st (take 16 ws)) (drop 16 ws)"

text \<open>SHA-1 pads a message as SHA-256 does.\<close>

definition sha1 :: "string \<Rightarrow> string" where
  "sha1 s =
     (let ws = words_be (sha256_pad s);
          (a, b, c, d, e) = sha1_blocks (length ws div 16) sha1_init ws
      in concat (map (\<lambda>w. bytes_be 4 (unat w)) [a, b, c, d, e]))"

definition hmac_sha1 :: "string \<Rightarrow> string \<Rightarrow> string" where
  "hmac_sha1 key message =
     (let k0 = (if 64 < length key then sha1 key else key);
          k = k0 @ replicate (64 - length k0) (CHR 0x00)
      in sha1 (map (xor_byte 0x5c) k @ sha1 (map (xor_byte 0x36) k @ message)))"

section \<open>Base 32 without padding\<close>

definition base32_alphabet :: string where
  "base32_alphabet = ''ABCDEFGHIJKLMNOPQRSTUVWXYZ234567''"

fun quintets :: "nat list \<Rightarrow> nat list" where
  "quintets [] = []"
| "quintets [a] = [a div 8, a mod 8 * 4]"
| "quintets [a, b] = [a div 8, a mod 8 * 4 + b div 64, b div 2 mod 32, b mod 2 * 16]"
| "quintets [a, b, c] = [a div 8, a mod 8 * 4 + b div 64, b div 2 mod 32, b mod 2 * 16 + c div 16, c mod 16 * 2]"
| "quintets [a, b, c, d] =
     [a div 8, a mod 8 * 4 + b div 64, b div 2 mod 32, b mod 2 * 16 + c div 16, c mod 16 * 2 + d div 128, d div 4 mod 32, d mod 4 * 8]"
| "quintets (a # b # c # d # e # s) =
     a div 8 # (a mod 8 * 4 + b div 64) # (b div 2 mod 32) # (b mod 2 * 16 + c div 16) # (c mod 16 * 2 + d div 128)
     # (d div 4 mod 32) # (d mod 4 * 8 + e div 32) # e mod 32 # quintets s"

definition base32_encode :: "string \<Rightarrow> string" where
  "base32_encode s = map (\<lambda>n. base32_alphabet ! n) (quintets (map of_char s))"

text \<open>A last group of 1, 3 or 6 characters yields only the bytes that its full pairs carry, without an error.\<close>

fun quintets_decode :: "nat list \<Rightarrow> nat list" where
  "quintets_decode (a # b # c # d # e # f # g # h # s) =
     (a * 8 + b div 4) # (b mod 4 * 64 + c * 2 + d div 16) # (d mod 16 * 16 + e div 2) # (e mod 2 * 128 + f * 4 + g div 8)
     # (g mod 8 * 32 + h) # quintets_decode s"
| "quintets_decode [a, b, c, d, e, f, g] =
     [a * 8 + b div 4, b mod 4 * 64 + c * 2 + d div 16, d mod 16 * 16 + e div 2, e mod 2 * 128 + f * 4 + g div 8]"
| "quintets_decode [a, b, c, d, e] = [a * 8 + b div 4, b mod 4 * 64 + c * 2 + d div 16, d mod 16 * 16 + e div 2]"
| "quintets_decode [a, b, c, d] = [a * 8 + b div 4, b mod 4 * 64 + c * 2 + d div 16]"
| "quintets_decode [a, b] = [a * 8 + b div 4]"
| "quintets_decode _ = []"

fun base32_index :: "char \<Rightarrow> string \<Rightarrow> nat option" where
  "base32_index c [] = None"
| "base32_index c (x # xs) = (if x = c then Some 0 else map_option Suc (base32_index c xs))"

fun base32_indices :: "string \<Rightarrow> nat list option" where
  "base32_indices [] = Some []"
| "base32_indices (c # s) =
     (case base32_index c base32_alphabet of None \<Rightarrow> None | Some n \<Rightarrow> map_option (Cons n) (base32_indices s))"

definition base32_decode :: "string \<Rightarrow> string option" where
  "base32_decode t =
     map_option (\<lambda>ns. map char_of (quintets_decode ns)) (base32_indices (filter (\<lambda>c. c \<noteq> CHR 0x0A \<and> c \<noteq> CHR 0x0D) t))"

section \<open>Codes\<close>

definition upper_char :: "char \<Rightarrow> char" where
  "upper_char c = (let n = of_char c :: nat in if 97 \<le> n \<and> n \<le> 122 then char_of (n - 32) else c)"

text \<open>\<open>strings.ToUpper\<close>: U+0131 becomes \<open>I\<close> and U+017F becomes \<open>S\<close>.\<close>

fun ToUpper :: "string \<Rightarrow> string" where
  "ToUpper [] = []"
| "ToUpper (c # s) =
     (if c = CHR 0xC4 \<and> take 1 s = [CHR 0xB1] then CHR ''I'' # ToUpper (drop 1 s)
      else if c = CHR 0xC5 \<and> take 1 s = [CHR 0xBF] then CHR ''S'' # ToUpper (drop 1 s)
      else upper_char c # ToUpper s)"

definition totpPeriod :: duration where "totpPeriod = 30 * second"
definition totpDigits :: nat where "totpDigits = 6"

text \<open>Go's integer division cuts towards zero, and the counter is a 64-bit word.\<close>

definition totp_counter :: "time \<Rightarrow> string" where
  "totp_counter at =
     (let unix = at div second; c = (if 0 \<le> unix then unix div 30 else - (- unix div 30))
      in bytes_be 8 (nat (c mod 2 ^ 64)))"

definition totp_truncate :: "string \<Rightarrow> nat" where
  "totp_truncate digest =
     (let off = of_char (last digest) mod 16; byte = (\<lambda>i. of_char (digest ! i) :: nat)
      in (byte off mod 128) * 2 ^ 24 + byte (off + 1) * 2 ^ 16 + byte (off + 2) * 2 ^ 8 + byte (off + 3))"

definition totpCode :: "string \<Rightarrow> time \<Rightarrow> string option" where
  "totpCode secret at =
     (case base32_decode (ToUpper (TrimSpace secret)) of
        None \<Rightarrow> None
      | Some key \<Rightarrow>
          if length key < 16 then None
          else Some (pad_digits 6 (totp_truncate (hmac_sha1 key (totp_counter at)) mod 1000000)))"

definition validTOTP :: "string \<Rightarrow> string \<Rightarrow> time \<Rightarrow> bool" where
  "validTOTP secret code now =
     (length code = totpDigits \<and> list_all is_digit code \<and>
      list_ex (\<lambda>offset. totpCode secret (now + offset * totpPeriod) = Some code) [- 1, 0, 1])"

definition recovery_text :: "string \<Rightarrow> string" where
  "recovery_text raw =
     (let encoded = ToUpper (base32_encode raw)
      in take 5 encoded @ ''-'' @ take 5 (drop 5 encoded) @ ''-'' @ take 5 (drop 10 encoded) @ ''-'' @ drop 15 encoded)"

text \<open>The ten bytes that \<open>rand.Read\<close> gives are an argument; \<open>None\<close> is its failure.\<close>

definition randomRecoveryCode :: "string option \<Rightarrow> string option" where
  "randomRecoveryCode drawn = map_option recovery_text drawn"

definition normalizeRecoveryCode :: "string \<Rightarrow> string" where
  "normalizeRecoveryCode code = ToUpper (remove_chars {CHR '' ''} (TrimSpace code))"

end
