(* ===== verification/Password.thy ===== *)
theory Password
  imports Base64 "HOL-Library.Word"
begin

text \<open>
  Password hashes: \<open>src/backend/internal/auth/password.go\<close>.  The C function
  \<open>argon2id_hash_raw\<close> is a parameter (password, salt, memory, iterations, parallelism, length;
  \<open>None\<close> is a non-zero return code), and so are the random bytes of the salt.
\<close>

type_synonym argon2 = "string \<Rightarrow> string \<Rightarrow> 32 word \<Rightarrow> 32 word \<Rightarrow> 32 word \<Rightarrow> nat \<Rightarrow> string option"

datatype password_error = PasswordTooShort | SaltUnavailable | DeriveFailed | InvalidHash

definition argon2_memory :: "32 word" where "argon2_memory = 64 * 1024"
definition argon2_iterations :: "32 word" where "argon2_iterations = 3"
definition argon2_parallelism :: "32 word" where "argon2_parallelism = 2"
definition saltLength :: nat where "saltLength = 16"
definition keyLength :: nat where "keyLength = 32"

definition derive :: "argon2 \<Rightarrow> string \<Rightarrow> string \<Rightarrow> 32 word \<Rightarrow> 32 word \<Rightarrow> 32 word \<Rightarrow> nat \<Rightarrow> password_error + string" where
  "derive argon2 password salt mem it par n =
     (case argon2 password salt mem it par n of None \<Rightarrow> Inl DeriveFailed | Some out \<Rightarrow> Inr out)"

definition encoded_hash :: "string \<Rightarrow> string \<Rightarrow> string" where
  "encoded_hash salt hash =
     ''$argon2id$v=19$m='' @ FormatUint (unat argon2_memory) @ '',t='' @ FormatUint (unat argon2_iterations)
     @ '',p='' @ FormatUint (unat argon2_parallelism) @ ''$'' @ RawStd_EncodeToString salt @ ''$'' @ RawStd_EncodeToString hash"

definition HashPassword :: "argon2 \<Rightarrow> string option \<Rightarrow> string \<Rightarrow> password_error + string" where
  "HashPassword argon2 drawn password =
     (if length password < 14 then Inl PasswordTooShort
      else case drawn of
        None \<Rightarrow> Inl SaltUnavailable
      | Some salt \<Rightarrow>
          (case derive argon2 password salt argon2_memory argon2_iterations argon2_parallelism keyLength of
             Inl e \<Rightarrow> Inl e
           | Inr hash \<Rightarrow> Inr (encoded_hash salt hash)))"

text \<open>
  \<open>fmt.Sscanf\<close> with a literal and \<open>%d\<close> into a \<open>uint32\<close>: the literal has to match, blanks
  are skipped, the longest run of digits is read and has to fit.
\<close>

definition scan_literal :: "string \<Rightarrow> string \<Rightarrow> string option" where
  "scan_literal lit s = (if prefix lit s then Some (drop (length lit) s) else None)"

definition scan_uint32 :: "string \<Rightarrow> (32 word \<times> string) option" where
  "scan_uint32 s0 =
     (let s = dropWhile (\<lambda>c. c = CHR '' '' \<or> c = CHR 0x09) s0; digits = takeWhile is_digit s
      in if digits = [] \<or> 2 ^ 32 \<le> digits_value digits then None
         else Some (of_nat (digits_value digits), dropWhile is_digit s))"

definition scan_field :: "string \<Rightarrow> string \<Rightarrow> (32 word \<times> string) option" where
  "scan_field lit s = (case scan_literal lit s of None \<Rightarrow> None | Some s1 \<Rightarrow> scan_uint32 s1)"

definition scan_cost :: "string \<Rightarrow> (32 word \<times> 32 word \<times> 32 word) option" where
  "scan_cost s =
     (case scan_field ''m='' s of
        None \<Rightarrow> None
      | Some (mem, s1) \<Rightarrow>
          (case scan_field '',t='' s1 of
             None \<Rightarrow> None
           | Some (it, s2) \<Rightarrow> map_option (\<lambda>(par, _). (mem, it, par)) (scan_field '',p='' s2)))"

definition VerifyPassword :: "argon2 \<Rightarrow> string \<Rightarrow> string \<Rightarrow> password_error + bool" where
  "VerifyPassword argon2 encoded password =
     (let parts = split_at (CHR ''$'') encoded
      in if length parts \<noteq> 6 then Inl InvalidHash
         else case scan_cost (parts ! 3) of
           None \<Rightarrow> Inl InvalidHash
         | Some (mem, it, par) \<Rightarrow>
             (case RawStd_DecodeString (parts ! 4) of
                None \<Rightarrow> Inl InvalidHash
              | Some salt \<Rightarrow>
                  (case RawStd_DecodeString (parts ! 5) of
                     None \<Rightarrow> Inl InvalidHash
                   | Some expected \<Rightarrow>
                       (case derive argon2 password salt mem it par (length expected) of
                          Inl e \<Rightarrow> Inl e
                        | Inr actual \<Rightarrow> Inr (actual = expected)))))"

section \<open>Round trip\<close>

definition cost_text :: string where
  "cost_text = ''m='' @ FormatUint (unat argon2_memory) @ '',t='' @ FormatUint (unat argon2_iterations)
     @ '',p='' @ FormatUint (unat argon2_parallelism)"

lemma cost_text_eq: "cost_text = ''m=65536,t=3,p=2''"
  by (simp add: cost_text_def argon2_memory_def argon2_iterations_def argon2_parallelism_def FormatUint.simps digit_char_def)
    code_simp

lemma scan_cost_text: "scan_cost cost_text = Some (argon2_memory, argon2_iterations, argon2_parallelism)"
  unfolding cost_text_eq
  by (simp add: scan_cost_def scan_field_def scan_literal_def scan_uint32_def Let_def is_digit_def digits_value_def digit_val_def
      argon2_memory_def argon2_iterations_def argon2_parallelism_def)

lemma set_std_encoded: "c \<in> set (RawStd_EncodeToString s) \<Longrightarrow> c \<in> set std_alphabet"
proof -
  have "length std_alphabet = 64" by (simp add: std_alphabet_def alphabet_prefix_def)
  from set_encode_with [OF this, of s] show "c \<in> set (RawStd_EncodeToString s) \<Longrightarrow> c \<in> set std_alphabet" by blast
qed

lemma dollar_not_encoded: "CHR ''$'' \<notin> set (RawStd_EncodeToString s)"
  using set_std_encoded [of "CHR ''$''" s] by (auto simp: std_alphabet_def alphabet_prefix_def)

lemma split_encoded_hash:
  "split_at (CHR ''$'') (encoded_hash salt hash) =
     [[], ''argon2id'', ''v=19'', cost_text, RawStd_EncodeToString salt, RawStd_EncodeToString hash]"
proof -
  have "encoded_hash salt hash = [] @ CHR ''$'' # ''argon2id'' @ CHR ''$'' # ''v=19'' @ CHR ''$'' # cost_text @ CHR ''$''
      # RawStd_EncodeToString salt @ CHR ''$'' # RawStd_EncodeToString hash"
    by (simp add: encoded_hash_def cost_text_def)
  moreover have "CHR ''$'' \<notin> set cost_text" by (simp add: cost_text_eq)
  ultimately show ?thesis
    using dollar_not_encoded [of salt] dollar_not_encoded [of hash]
    by (simp add: split_at_append split_at_absent)
qed

lemma VerifyPassword_encoded:
  "VerifyPassword argon2 (encoded_hash salt hash) password =
     (case argon2 password salt argon2_memory argon2_iterations argon2_parallelism (length hash) of
        None \<Rightarrow> Inl DeriveFailed | Some actual \<Rightarrow> Inr (actual = hash))"
  by (simp add: VerifyPassword_def Let_def split_encoded_hash scan_cost_text decode_encode_std derive_def split: option.split)

text \<open>
  Round trip of passwords: whatever \<open>argon2id_hash_raw\<close> computes, as long as it fills the
  requested length, the hash of a password verifies that password, and it verifies another one exactly when
  Argon2id maps both to the same key under the stored salt; the cost parameters are read back from the text.
\<close>

theorem password_round_trip:
  assumes "\<And>p s m i l n out. argon2 p s m i l n = Some out \<Longrightarrow> length out = n"
    and "HashPassword argon2 (Some salt) password = Inr encoded"
  shows "VerifyPassword argon2 encoded password = Inr True \<and>
    (VerifyPassword argon2 encoded other = Inr True \<longleftrightarrow>
       argon2 other salt argon2_memory argon2_iterations argon2_parallelism keyLength =
       argon2 password salt argon2_memory argon2_iterations argon2_parallelism keyLength)"
proof -
  obtain hash where hash: "argon2 password salt argon2_memory argon2_iterations argon2_parallelism keyLength = Some hash"
    and enc: "encoded = encoded_hash salt hash"
    using assms(2) by (auto simp: HashPassword_def derive_def split: if_splits option.splits)
  have "length hash = keyLength" using assms(1) hash by blast
  then show ?thesis by (auto simp: enc VerifyPassword_encoded hash split: option.split)
qed

definition sample_argon2 :: argon2 where
  "sample_argon2 password salt mem it par n = Some (take n (password @ salt @ replicate n (CHR 0x00)))"

theorem password_round_trip_witness:
  "VerifyPassword sample_argon2 (encoded_hash ''0123456789abcdef'' (the (sample_argon2 ''correct horse battery'' ''0123456789abcdef'' 0 0 0 32)))
     ''correct horse battery'' = Inr True"
proof -
  have len: "length out = n" if "sample_argon2 p s m i l n = Some out" for p s m i l n out
    using that by (auto simp: sample_argon2_def)
  have "HashPassword sample_argon2 (Some ''0123456789abcdef'') ''correct horse battery'' =
      Inr (encoded_hash ''0123456789abcdef'' (the (sample_argon2 ''correct horse battery'' ''0123456789abcdef'' 0 0 0 32)))"
    by (simp add: HashPassword_def derive_def sample_argon2_def keyLength_def)
  from conjunct1 [OF password_round_trip [OF _ this]] show ?thesis using len by blast
qed

end
