(* ===== verification/NetAddr.thy ===== *)
theory NetAddr
  imports Prelude "HOL-Library.Word"
begin

text \<open>
  The parts of Go's \<open>net\<close> and \<open>net/netip\<close> that the login reads addresses with:
  \<open>net.SplitHostPort\<close>, \<open>netip.ParseAddr\<close>, \<open>netip.ParsePrefix\<close> and
  \<open>Prefix.Contains\<close>.  An IPv6 address keeps its zone; an IPv4 address is not equal to its IPv6-mapped form.
\<close>

unbundle bit_operations_syntax

section \<open>Host and port\<close>

fun last_index :: "char \<Rightarrow> string \<Rightarrow> nat option" where
  "last_index c [] = None"
| "last_index c (x # xs) =
     (case last_index c xs of Some i \<Rightarrow> Some (Suc i) | None \<Rightarrow> if x = c then Some 0 else None)"

fun first_index :: "char \<Rightarrow> string \<Rightarrow> nat option" where
  "first_index c [] = None"
| "first_index c (x # xs) = (if x = c then Some 0 else map_option Suc (first_index c xs))"

definition SplitHostPort :: "string \<Rightarrow> (string \<times> string) option" where
  "SplitHostPort hostport =
     (case last_index (CHR '':'') hostport of
        None \<Rightarrow> None
      | Some i \<Rightarrow>
          if take 1 hostport = ''[''
          then (case first_index (CHR '']'') hostport of
                  None \<Rightarrow> None
                | Some end_ \<Rightarrow>
                    if end_ + 1 \<noteq> i then None
                    else let host = take (end_ - 1) (drop 1 hostport); rest = drop (end_ + 1) hostport
                         in if CHR ''['' \<in> set (drop 1 hostport) \<or> CHR '']'' \<in> set rest then None
                            else Some (host, drop (i + 1) hostport))
          else let host = take i hostport
               in if CHR '':'' \<in> set host \<or> CHR ''['' \<in> set hostport \<or> CHR '']'' \<in> set hostport then None
                  else Some (host, drop (i + 1) hostport))"

section \<open>Addresses\<close>

datatype Addr = IPv4 "32 word" | IPv6 "128 word" string

text \<open>One decimal field: one to three digits, no leading zero, at most 255.\<close>

definition v4_field :: "string \<Rightarrow> nat option" where
  "v4_field s =
     (if s = [] \<or> \<not> list_all is_digit s \<or> (length s > 1 \<and> hd s = CHR ''0'') \<or> 255 < digits_value s then None
      else Some (digits_value s))"

definition v4_fields :: "string \<Rightarrow> nat list option" where
  "v4_fields s =
     (let fields = map v4_field (split_at (CHR ''.'') s)
      in if length fields \<noteq> 4 \<or> None \<in> set fields then None else Some (map the fields))"

definition parseIPv4 :: "string \<Rightarrow> Addr option" where
  "parseIPv4 s = map_option (\<lambda>fs. IPv4 (of_nat (foldl (\<lambda>v f. 256 * v + f) 0 fs))) (v4_fields s)"

definition hex_val :: "char \<Rightarrow> nat option" where
  "hex_val c =
     (let n = of_char c :: nat
      in if 48 \<le> n \<and> n \<le> 57 then Some (n - 48)
         else if 97 \<le> n \<and> n \<le> 102 then Some (n - 87)
         else if 65 \<le> n \<and> n \<le> 70 then Some (n - 55) else None)"

definition is_hex :: "char \<Rightarrow> bool" where "is_hex c \<longleftrightarrow> hex_val c \<noteq> None"

definition hex_value :: "string \<Rightarrow> nat" where
  "hex_value s = foldl (\<lambda>v c. 16 * v + the (hex_val c)) 0 s"

text \<open>
  The loop of \<open>parseIPv6\<close>: \<open>groups\<close> are the 16-bit groups read so far and \<open>ellipsis\<close> the position
  of the double colon.  The result is the groups, the position and the rest that was not read.
\<close>

function v6_loop :: "nat list \<Rightarrow> nat option \<Rightarrow> string \<Rightarrow> (nat list \<times> nat option \<times> string) option" where
  "v6_loop groups ellipsis s =
     (if length groups \<ge> 8 then Some (groups, ellipsis, s)
      else
        let digits = takeWhile is_hex s; rest = dropWhile is_hex s
        in if length digits > 4 \<or> digits = [] then None
           else if take 1 rest = ''.''
             then (if ellipsis = None \<and> length groups \<noteq> 6 then None
                   else if length groups > 6 then None
                   else case v4_fields s of
                     None \<Rightarrow> None
                   | Some fs \<Rightarrow> Some (groups @ [fs ! 0 * 256 + fs ! 1, fs ! 2 * 256 + fs ! 3], ellipsis, []))
           else
             let groups1 = groups @ [hex_value digits]
             in if rest = [] then Some (groups1, ellipsis, [])
                else if hd rest \<noteq> CHR '':'' then None
                else if length rest = 1 then None
                else
                  let s1 = drop 1 rest
                  in if hd s1 = CHR '':''
                     then (if ellipsis \<noteq> None then None
                           else if drop 1 s1 = [] then Some (groups1, Some (length groups1), [])
                           else v6_loop groups1 (Some (length groups1)) (drop 1 s1))
                     else v6_loop groups1 ellipsis s1)"
  by pat_completeness auto
termination
  by (relation "measure (\<lambda>(groups, ellipsis, s). 8 - length groups)") auto

definition parseIPv6 :: "string \<Rightarrow> Addr option" where
  "parseIPv6 text =
     (let (s0, zone) = (case first_index (CHR ''%'') text of None \<Rightarrow> (text, None) | Some i \<Rightarrow> (take i text, Some (drop (i + 1) text)))
      in if zone = Some [] then None
         else
           let start = (if take 2 s0 = ''::'' then (Some (0 :: nat), drop 2 s0) else (None, s0));
               looped = (if fst start \<noteq> None \<and> snd start = [] then Some ([], fst start, []) else v6_loop [] (fst start) (snd start))
           in case looped of
                None \<Rightarrow> None
              | Some (groups, ellipsis, rest) \<Rightarrow>
                  if rest \<noteq> [] then None
                  else let full = (if length groups < 8
                                   then (case ellipsis of
                                           None \<Rightarrow> None
                                         | Some i \<Rightarrow> Some (take i groups @ replicate (8 - length groups) 0 @ drop i groups))
                                   else if ellipsis \<noteq> None then None else Some groups)
                       in map_option (\<lambda>gs. IPv6 (of_nat (foldl (\<lambda>v g. 65536 * v + g) 0 gs)) (case zone of None \<Rightarrow> [] | Some z \<Rightarrow> z)) full)"

fun ParseAddr_from :: "string \<Rightarrow> string \<Rightarrow> Addr option" where
  "ParseAddr_from s [] = None"
| "ParseAddr_from s (c # cs) =
     (if c = CHR ''.'' then parseIPv4 s else if c = CHR '':'' then parseIPv6 s else if c = CHR ''%'' then None
      else ParseAddr_from s cs)"

definition ParseAddr :: "string \<Rightarrow> Addr option" where
  "ParseAddr s = ParseAddr_from s s"

definition ParsePrefix :: "string \<Rightarrow> (Addr \<times> nat) option" where
  "ParsePrefix s =
     (case last_index (CHR ''/'') s of
        None \<Rightarrow> None
      | Some i \<Rightarrow>
          (let bits = drop (i + 1) s
           in case ParseAddr (take i s) of
                None \<Rightarrow> None
              | Some ip \<Rightarrow>
                  if (case ip of IPv6 _ z \<Rightarrow> z \<noteq> [] | IPv4 _ \<Rightarrow> False) then None
                  else if bits = [] \<or> \<not> list_all is_digit bits \<or> (length bits > 1 \<and> hd bits = CHR ''0'') then None
                  else if (case ip of IPv4 _ \<Rightarrow> 32 | IPv6 _ _ \<Rightarrow> 128) < digits_value bits then None
                  else Some (ip, digits_value bits)))"

text \<open>\<open>Prefix.Contains\<close>: an address with a zone and an address of the other family are outside.\<close>

fun prefix_contains :: "Addr \<times> nat \<Rightarrow> Addr \<Rightarrow> bool" where
  "prefix_contains (IPv4 p, n) (IPv4 a) = (drop_bit (32 - n) (p XOR a) = 0)"
| "prefix_contains (IPv6 p _, n) (IPv6 a z) = (z = [] \<and> drop_bit (128 - n) (p XOR a) = 0)"
| "prefix_contains _ _ = False"

end
