(* ===== verification/Auth.thy ===== *)
theory Auth
  imports Store Otp Password NetAddr
begin

text \<open>
  Authentication: \<open>src/backend/internal/auth/service.go\<close> and \<open>mfa.go\<close> on the store.  Argon2id
  (a C library) and the AES-GCM of the standard library are parameters; random bytes, fresh identifiers and the clock are
  arguments.  The readings of the clock within one call are taken to be the same.  A value read with
  \<open>rand.Read\<close> is \<open>None\<close> when the read fails.
\<close>

datatype auth_error =
    ErrInvalidCredentials | ErrAccountLocked | ErrPasswordExpired | ErrMFARequired | ErrNetworkRestricted
  | ErrMFAUnavailable | ErrMFAEnrollmentRequired | ErrMFAInvalid
  | RandomUnavailable | HashingFailed password_error | AuthStore store_error | MissingArgument | InvalidStoredSecret
  | BootstrapPasswordRequired

text \<open>\<open>ci_seal key nonce text\<close> and \<open>ci_open key nonce text\<close> are AES-GCM with a 12-byte nonce.\<close>

record crypto =
  ci_argon2 :: argon2
  ci_seal :: "string \<Rightarrow> string \<Rightarrow> string \<Rightarrow> string"
  ci_open :: "string \<Rightarrow> string \<Rightarrow> string \<Rightarrow> string option"

record Service =
  sv_ttl :: duration
  sv_challengeTTL :: duration
  sv_crypto :: "string option"
  sv_mfaRequiredRoles :: "string list"

record Options =
  op_TOTPEncryptionKey :: string
  op_MFARequiredRoles :: "string list"
  op_ChallengeTTL :: duration

record LoginResult =
  lr_User :: User
  lr_Session :: string
  lr_CSRF :: string
  lr_ExpiresAt :: time
  lr_MFARequired :: bool
  lr_MFAChallengeID :: string

section \<open>The secret store\<close>

definition newEncryption :: "string \<Rightarrow> auth_error + string option" where
  "newEncryption key = (if key = [] then Inr None else if length key \<noteq> 32 then Inl MissingArgument else Inr (Some key))"

definition encrypt :: "crypto \<Rightarrow> string option \<Rightarrow> string option \<Rightarrow> string \<Rightarrow> auth_error + string" where
  "encrypt ci enc nonce plain =
     (case enc of
        None \<Rightarrow> Inl ErrMFAUnavailable
      | Some key \<Rightarrow>
          (case nonce of None \<Rightarrow> Inl RandomUnavailable | Some n \<Rightarrow> Inr (RawURL_EncodeToString (n @ ci_seal ci key n plain))))"

definition decrypt :: "crypto \<Rightarrow> string option \<Rightarrow> string \<Rightarrow> auth_error + string" where
  "decrypt ci enc value =
     (case enc of
        None \<Rightarrow> Inl ErrMFAUnavailable
      | Some key \<Rightarrow>
          (case RawURL_DecodeString value of
             None \<Rightarrow> Inl InvalidStoredSecret
           | Some raw \<Rightarrow>
               if length raw < 12 then Inl InvalidStoredSecret
               else case ci_open ci key (take 12 raw) (drop 12 raw) of None \<Rightarrow> Inl InvalidStoredSecret | Some plain \<Rightarrow> Inr plain))"

section \<open>Construction\<close>

definition NewWithOptions :: "duration \<Rightarrow> Options \<Rightarrow> Service" where
  "NewWithOptions ttl options =
     \<lparr>sv_ttl = ttl, sv_challengeTTL = (if op_ChallengeTTL options \<le> 0 then 5 * minute else op_ChallengeTTL options),
      sv_crypto = (case newEncryption (op_TOTPEncryptionKey options) of Inl _ \<Rightarrow> None | Inr enc \<Rightarrow> enc),
      sv_mfaRequiredRoles = filter (\<lambda>role. role \<noteq> []) (map TrimSpace (op_MFARequiredRoles options))\<rparr>"

definition New :: "duration \<Rightarrow> Service" where
  "New ttl = NewWithOptions ttl \<lparr>op_TOTPEncryptionKey = [], op_MFARequiredRoles = [], op_ChallengeTTL = 0\<rparr>"

definition builtin_roles :: "string list" where
  "builtin_roles = [''auditor'', ''operador de arquivos'', (''operador de impress'' @ [CHR 0xC3, CHR 0xA3] @ ''o''), ''administrador Samba'', ''administrador do sistema'',
     (''administrador de seguran'' @ [CHR 0xC3, CHR 0xA7] @ ''a'')]"

fun ensure_roles :: "string list \<Rightarrow> unit act" where
  "ensure_roles [] = return ()"
| "ensure_roles (r # rs) = andThen (EnsureRole r r) (\<lambda>_. ensure_roles rs)"

definition Bootstrap :: "crypto \<Rightarrow> time \<Rightarrow> string option \<Rightarrow> string \<Rightarrow> string \<Rightarrow> string \<Rightarrow> (auth_error, unit) eact" where
  "Bootstrap ci now salt userID user password =
     andThen (lifted AuthStore (ensure_roles builtin_roles)) (\<lambda>_.
     andThen (lifted AuthStore UserCount) (\<lambda>n.
       if n > 0 then return ()
       else if password = [] then raise BootstrapPasswordRequired
       else case HashPassword (ci_argon2 ci) salt password of
         Inl e \<Rightarrow> raise (HashingFailed e)
       | Inr h \<Rightarrow>
           lifted AuthStore (andThen (InsertUser now userID user (''Administrador local de emerg'' @ [CHR 0xC3, CHR 0xAA] @ ''ncia'') h)
             (\<lambda>_. andThen (SetBreakGlass userID True) (\<lambda>_. AssignRole userID ''administrador do sistema'')))))"

section \<open>Helpers\<close>

definition loginFailureThreshold :: int where "loginFailureThreshold = 5"
definition loginLockDuration :: duration where "loginLockDuration = 15 * minute"

definition randomToken :: "nat \<Rightarrow> string option \<Rightarrow> string option" where
  "randomToken n drawn = (if n < 16 \<or> 128 < n then None else map_option RawURL_EncodeToString drawn)"

definition roleRequiresMFA :: "Service \<Rightarrow> string list \<Rightarrow> bool" where
  "roleRequiresMFA s roles = list_ex (\<lambda>role. role \<in> set (sv_mfaRequiredRoles s)) roles"

definition normalizedIP :: "string \<Rightarrow> string" where
  "normalizedIP value = (case SplitHostPort value of Some (host, _) \<Rightarrow> host | None \<Rightarrow> value)"

definition boundStringEqual :: "string \<Rightarrow> string \<Rightarrow> bool" where
  "boundStringEqual a b =
     (if a = [] then True
      else if b = [] \<or> length a \<noteq> length b then False
      else list_all (\<lambda>(x, y). x = y) (zip a b))"

definition trim_set :: "char set \<Rightarrow> string \<Rightarrow> string" where
  "trim_set cs s = rev (dropWhile (\<lambda>c. c \<in> cs) (rev (dropWhile (\<lambda>c. c \<in> cs) s)))"

definition allowedByCIDRs :: "string \<Rightarrow> string \<Rightarrow> bool" where
  "allowedByCIDRs serialized ip =
     (if TrimSpace serialized = [] then True
      else
        let value = trim_set {CHR ''['', CHR '']'', CHR '' ''} serialized
        in if value = [] then True
           else case ParseAddr ip of
             None \<Rightarrow> False
           | Some parsed \<Rightarrow>
               list_ex (\<lambda>item. case ParsePrefix (trim_set {CHR 0x22} (TrimSpace item)) of None \<Rightarrow> False | Some p \<Rightarrow> prefix_contains p parsed)
                 (split_at (CHR '','') value))"

section \<open>Sessions and passwords\<close>

definition createSession :: "Service \<Rightarrow> time \<Rightarrow> string option \<times> string option \<Rightarrow> User \<Rightarrow> string \<Rightarrow> string \<Rightarrow> (auth_error, LoginResult) eact" where
  "createSession s now draws user ip ua =
     (case (randomToken 32 (fst draws), randomToken 24 (snd draws)) of
        (Some session, Some csrf) \<Rightarrow>
          andThen (lifted AuthStore (CreateSession now session (u_ID user) csrf (now + sv_ttl s) (normalizedIP ip) ua))
            (\<lambda>_. return \<lparr>lr_User = user, lr_Session = session, lr_CSRF = csrf, lr_ExpiresAt = now + sv_ttl s,
                   lr_MFARequired = False, lr_MFAChallengeID = []\<rparr>)
      | _ \<Rightarrow> raise RandomUnavailable)"

text \<open>The checks before the password: lock, expiry and network.\<close>

definition account_error :: "time \<Rightarrow> string \<Rightarrow> UserRecord \<Rightarrow> auth_error option" where
  "account_error now ip u =
     (if (case ur_LockedUntil u of None \<Rightarrow> False | Some t \<Rightarrow> parse_time t > now) then Some ErrAccountLocked
      else if (case ur_PasswordExpiresAt u of None \<Rightarrow> False | Some t \<Rightarrow> \<not> parse_time t > now) then Some ErrPasswordExpired
      else if ur_BreakGlass u \<and> \<not> allowedByCIDRs (coalesce (ur_AllowedCIDRs u)) (normalizedIP ip) then Some ErrNetworkRestricted
      else None)"

definition login_user :: "UserRecord \<Rightarrow> string list \<Rightarrow> User" where
  "login_user u roles = \<lparr>u_ID = ur_ID u, u_Username = ur_Username u, u_DisplayName = ur_DisplayName u, u_Roles = roles,
     u_BreakGlass = ur_BreakGlass u, u_MFAEnabled = False\<rparr>"

definition failed_password :: "time \<Rightarrow> UserRecord \<Rightarrow> (auth_error, LoginResult) eact" where
  "failed_password now u =
     andThen (lifted AuthStore (RegisterLoginFailure now (ur_ID u) loginFailureThreshold loginLockDuration))
       (\<lambda>(locked, _). raise (if locked then ErrAccountLocked else ErrInvalidCredentials))"

definition begin_challenge ::
    "Service \<Rightarrow> time \<Rightarrow> string option \<times> string option \<Rightarrow> User \<Rightarrow> string \<Rightarrow> string \<Rightarrow> (auth_error, LoginResult) eact" where
  "begin_challenge s now draws user ip ua d =
     (case ActiveTOTP (u_ID user) d of
        (Inl _, d1) \<Rightarrow> (Inl ErrMFAEnrollmentRequired, d1)
      | (Inr _, d1) \<Rightarrow>
          (case (randomToken 32 (fst draws), randomToken 24 (snd draws)) of
             (Some challengeID, Some csrf) \<Rightarrow>
               andThen (lifted AuthStore (CreateMFAChallenge now \<lparr>mc_ID = challengeID, mc_UserID = u_ID user, mc_CSRFToken = csrf,
                    mc_IP = normalizedIP ip, mc_UserAgent = ua, mc_ExpiresAt = now + sv_challengeTTL s\<rparr>))
                 (\<lambda>_. return \<lparr>lr_User = user, lr_Session = [], lr_CSRF = [], lr_ExpiresAt = now + sv_challengeTTL s,
                        lr_MFARequired = True, lr_MFAChallengeID = challengeID\<rparr>) d1
           | _ \<Rightarrow> (Inl RandomUnavailable, d1)))"

definition accepted_password ::
    "Service \<Rightarrow> time \<Rightarrow> string option \<times> string option \<Rightarrow> UserRecord \<Rightarrow> string \<Rightarrow> string \<Rightarrow> (auth_error, LoginResult) eact" where
  "accepted_password s now draws u ip ua =
     andThen (lifted AuthStore (ResetLoginFailures (ur_ID u))) (\<lambda>_.
     andThen (lifted AuthStore (UserRoles (ur_ID u))) (\<lambda>roles.
       let user = login_user u roles
       in if ur_MFARequired u \<or> roleRequiresMFA s roles then begin_challenge s now draws user ip ua
          else createSession s now draws user ip ua))"

definition BeginLogin ::
    "crypto \<Rightarrow> Service \<Rightarrow> time \<Rightarrow> string option \<times> string option \<Rightarrow> string \<Rightarrow> string \<Rightarrow> string \<Rightarrow> string \<Rightarrow> (auth_error, LoginResult) eact" where
  "BeginLogin ci s now draws username password ip ua d =
     (case FindUser username d of
        (Inl _, d1) \<Rightarrow> (Inl ErrInvalidCredentials, d1)
      | (Inr u, d1) \<Rightarrow>
          (case account_error now ip u of
             Some e \<Rightarrow> (Inl e, d1)
           | None \<Rightarrow>
               if VerifyPassword (ci_argon2 ci) (ur_PasswordHash u) password \<noteq> Inr True
               then failed_password now u d1
               else accepted_password s now draws u ip ua d1))"

definition Login ::
    "crypto \<Rightarrow> Service \<Rightarrow> time \<Rightarrow> string option \<times> string option \<Rightarrow> string \<Rightarrow> string \<Rightarrow> string \<Rightarrow> string
       \<Rightarrow> (auth_error, User \<times> string \<times> string \<times> time) eact" where
  "Login ci s now draws username password ip ua =
     andThen (BeginLogin ci s now draws username password ip ua)
       (\<lambda>r. if lr_MFARequired r then raise ErrMFARequired
            else return (lr_User r, lr_Session r, lr_CSRF r, lr_ExpiresAt r))"

definition Current :: "time \<Rightarrow> string \<Rightarrow> (User \<times> string) act" where
  "Current now session = SessionUser now session"

definition Logout :: "string \<Rightarrow> unit act" where
  "Logout session = DeleteSession session"

definition Renew :: "Service \<Rightarrow> time \<Rightarrow> string option \<times> string option \<Rightarrow> string \<Rightarrow> string \<Rightarrow> string \<Rightarrow> (auth_error, LoginResult) eact" where
  "Renew s now draws session ip ua =
     andThen (lifted AuthStore (Current now session)) (\<lambda>(user, _).
       case (randomToken 32 (fst draws), randomToken 24 (snd draws)) of
         (Some newSession, Some csrf) \<Rightarrow>
           andThen (lifted AuthStore (RotateSession now session newSession csrf (now + sv_ttl s) (normalizedIP ip) ua))
             (\<lambda>_. return \<lparr>lr_User = user, lr_Session = newSession, lr_CSRF = csrf, lr_ExpiresAt = now + sv_ttl s,
                    lr_MFARequired = False, lr_MFAChallengeID = []\<rparr>)
       | _ \<Rightarrow> raise RandomUnavailable)"

definition MFARequiredForRoles :: "Service \<Rightarrow> string list \<Rightarrow> bool" where
  "MFARequiredForRoles s roles = roleRequiresMFA s roles"

section \<open>The second factor\<close>

text \<open>Recovery codes are tried one after the other; a code that cannot be marked as used does not count.\<close>

fun try_recovery :: "crypto \<Rightarrow> time \<Rightarrow> string \<Rightarrow> recovery_row list \<Rightarrow> (auth_error, unit) eact" where
  "try_recovery ci now code [] d = (Inl ErrMFAInvalid, d)"
| "try_recovery ci now code (r # rs) d =
     (if VerifyPassword (ci_argon2 ci) (rc_code_hash r) (normalizeRecoveryCode code) = Inr True
      then (case MarkRecoveryCodeUsed now (rc_id r) d of
              (Inr _, d1) \<Rightarrow> (Inr (), d1)
            | (Inl _, d1) \<Rightarrow> try_recovery ci now code rs d1)
      else try_recovery ci now code rs d)"

definition mustUnusedRecoveryCodes :: "string \<Rightarrow> db \<Rightarrow> recovery_row list \<times> db" where
  "mustUnusedRecoveryCodes uid d = (case UnusedRecoveryCodes uid d of (Inl _, d1) \<Rightarrow> ([], d1) | (Inr codes, d1) \<Rightarrow> (codes, d1))"

definition totp_accepted :: "crypto \<Rightarrow> Service \<Rightarrow> time \<Rightarrow> string \<Rightarrow> string \<Rightarrow> bool" where
  "totp_accepted ci s now code ciphertext =
     (case decrypt ci (sv_crypto s) ciphertext of Inl _ \<Rightarrow> False | Inr secret \<Rightarrow> validTOTP secret code now)"

definition verifyMFA :: "crypto \<Rightarrow> Service \<Rightarrow> time \<Rightarrow> string \<Rightarrow> string \<Rightarrow> (auth_error, unit) eact" where
  "verifyMFA ci s now uid code d =
     (if sv_crypto s = None then (Inl ErrMFAUnavailable, d)
      else case ActiveTOTP uid d of
        (res, d1) \<Rightarrow>
          if (case res of Inl _ \<Rightarrow> False | Inr ciphertext \<Rightarrow> totp_accepted ci s now code ciphertext) then (Inr (), d1)
          else case mustUnusedRecoveryCodes uid d1 of (codes, d2) \<Rightarrow> try_recovery ci now code codes d2)"

definition findUserByID :: "string \<Rightarrow> User act" where
  "findUserByID uid =
     andThen (query_row db_users (\<lambda>u. us_id u = uid)) (\<lambda>row.
     andThen (FindUser (us_username row)) (\<lambda>u.
     andThen (UserRoles (ur_ID u)) (\<lambda>roles. return (login_user u roles))))"

definition replacing :: "'e \<Rightarrow> ('f, 'a) eact \<Rightarrow> ('e, 'a) eact" where
  "replacing e a = lifted (\<lambda>_. e) a"

definition CompleteMFA ::
    "crypto \<Rightarrow> Service \<Rightarrow> time \<Rightarrow> string option \<times> string option \<Rightarrow> string \<Rightarrow> string \<Rightarrow> string \<Rightarrow> string \<Rightarrow> (auth_error, LoginResult) eact" where
  "CompleteMFA ci s now draws challengeID code ip ua =
     andThen (replacing ErrMFAInvalid (ClaimMFAChallenge now (TrimSpace challengeID))) (\<lambda>c.
       if \<not> boundStringEqual (mc_IP c) (normalizedIP ip) \<or> \<not> boundStringEqual (mc_UserAgent c) ua then raise ErrMFAInvalid
       else andThen (replacing ErrMFAInvalid (verifyMFA ci s now (mc_UserID c) (TrimSpace code))) (\<lambda>_.
            andThen (replacing ErrMFAInvalid (findUserByID (mc_UserID c))) (\<lambda>u.
              createSession s now draws (u\<lparr>u_MFAEnabled := True\<rparr>) ip ua)))"

section \<open>Enrolment\<close>

definition hex_upper :: "char \<Rightarrow> string" where
  "hex_upper c =
     (let n = of_char c :: nat; digit = (\<lambda>k. ''0123456789ABCDEF'' ! k)
      in if n < 16 then [digit n] else [digit (n div 16), digit (n mod 16)])"

definition urlEscape :: "string \<Rightarrow> string" where
  "urlEscape value = concat (map (\<lambda>b. if is_alnum b \<or> b \<in> {CHR ''-'', CHR ''_'', CHR ''.''} then [b] else CHR ''%'' # hex_upper b) value)"

record MFAEnrollment =
  me_Secret :: string
  me_URI :: string

definition enrollment_uri :: "string \<Rightarrow> string \<Rightarrow> string \<Rightarrow> string" where
  "enrollment_uri secret issuer account =
     ''otpauth://totp/'' @ urlEscape (issuer @ '':'' @ account) @ ''?secret='' @ secret @ ''&issuer='' @ urlEscape issuer @ ''&period=30&digits=6''"

definition BeginTOTPEnrollment ::
    "crypto \<Rightarrow> Service \<Rightarrow> string option \<times> string option \<Rightarrow> string \<Rightarrow> string \<Rightarrow> string \<Rightarrow> (auth_error, MFAEnrollment) eact" where
  "BeginTOTPEnrollment ci s draws uid issuer account =
     (if sv_crypto s = None then raise ErrMFAUnavailable
      else if TrimSpace uid = [] \<or> TrimSpace issuer = [] \<or> TrimSpace account = [] then raise MissingArgument
      else case fst draws of
        None \<Rightarrow> raise RandomUnavailable
      | Some secretBytes \<Rightarrow>
          (let secret = base32_encode secretBytes
           in case encrypt ci (sv_crypto s) (snd draws) secret of
                Inl e \<Rightarrow> raise e
              | Inr ciphertext \<Rightarrow>
                  andThen (lifted AuthStore (SavePendingTOTP uid ciphertext))
                    (\<lambda>_. return \<lparr>me_Secret = secret,
                           me_URI = enrollment_uri secret (remove_chars {CHR '':''} issuer) (remove_chars {CHR '':''} account)\<rparr>)))"

definition recoveryCodeCount :: nat where "recoveryCodeCount = 10"

text \<open>The codes and what is stored of them; the draws are the code, its salt and its identifier.\<close>

fun draw_codes :: "crypto \<Rightarrow> (string option \<times> string option \<times> string) list \<Rightarrow> auth_error + (string \<times> string \<times> string) list" where
  "draw_codes ci [] = Inr []"
| "draw_codes ci ((raw, salt, cid) # ds) =
     (case randomRecoveryCode raw of
        None \<Rightarrow> Inl RandomUnavailable
      | Some code \<Rightarrow>
          (case HashPassword (ci_argon2 ci) salt (normalizeRecoveryCode code) of
             Inl e \<Rightarrow> Inl (HashingFailed e)
           | Inr hash \<Rightarrow> (case draw_codes ci ds of Inl e \<Rightarrow> Inl e | Inr rest \<Rightarrow> Inr ((code, cid, hash) # rest))))"

fun store_codes :: "time \<Rightarrow> string \<Rightarrow> (string \<times> string \<times> string) list \<Rightarrow> unit act" where
  "store_codes now uid [] = return ()"
| "store_codes now uid ((code, cid, hash) # rest) = andThen (CreateRecoveryCode now cid uid hash) (\<lambda>_. store_codes now uid rest)"

definition RotateRecoveryCodes ::
    "crypto \<Rightarrow> time \<Rightarrow> (nat \<Rightarrow> string option \<times> string option \<times> string) \<Rightarrow> string \<Rightarrow> (auth_error, string list) eact" where
  "RotateRecoveryCodes ci now draws uid =
     (case draw_codes ci (map draws [0..<recoveryCodeCount]) of
        Inl e \<Rightarrow> raise e
      | Inr codes \<Rightarrow>
          lifted AuthStore (andThen (DeleteRecoveryCodes uid) (\<lambda>_.
            andThen (store_codes now uid codes) (\<lambda>_.
            andThen (DeleteUserSessions uid) (\<lambda>_. return (map fst codes))))))"

definition ConfirmTOTPEnrollment ::
    "crypto \<Rightarrow> Service \<Rightarrow> time \<Rightarrow> (nat \<Rightarrow> string option \<times> string option \<times> string) \<Rightarrow> string \<Rightarrow> string \<Rightarrow> (auth_error, string list) eact" where
  "ConfirmTOTPEnrollment ci s now draws uid code =
     (if sv_crypto s = None then raise ErrMFAUnavailable
      else andThen (replacing ErrMFAInvalid (PendingTOTP uid)) (\<lambda>pending.
        if \<not> totp_accepted ci s now code pending then raise ErrMFAInvalid
        else andThen (lifted AuthStore (ConfirmPendingTOTP now uid)) (\<lambda>_. RotateRecoveryCodes ci now draws uid)))"

definition RevokeTOTP :: "string \<Rightarrow> unit act" where
  "RevokeTOTP uid = andThen (Store.RevokeTOTP uid) (\<lambda>_. andThen (DeleteRecoveryCodes uid) (\<lambda>_. DeleteUserSessions uid))"

section \<open>What the statements leave alone\<close>

named_theorems auth_frame \<open>tables that an operation does not change\<close>

lemma FindUser_frame [auth_frame]: "db_sessions (snd (FindUser n d)) = db_sessions d" "db_challenges (snd (FindUser n d)) = db_challenges d"
  "db_recovery (snd (FindUser n d)) = db_recovery d" "db_totp (snd (FindUser n d)) = db_totp d" "db_users (snd (FindUser n d)) = db_users d"
  by (auto simp: FindUser_def act_simps Let_def split: option.splits)

lemma FindUser_Inr:
  "FindUser n d = (Inr u, d1) \<Longrightarrow>
     \<exists>x. find (\<lambda>u. us_username u = n) (db_users d) = Some x \<and> u = user_record x (find (\<lambda>r. se_user_id r = us_id x) (db_security d)) \<and>
       d1 = d\<lparr>db_tick := Suc (db_tick d)\<rparr>"
  by (auto simp: FindUser_def exec_Inr split: option.splits)

lemma UserRoles_frame [auth_frame]: "snd (UserRoles uid d) = d\<lparr>db_tick := Suc (db_tick d)\<rparr>"
  by (simp add: UserRoles_def act_simps Let_def)

lemma ActiveTOTP_frame [auth_frame]: "snd (ActiveTOTP uid d) = d\<lparr>db_tick := Suc (db_tick d)\<rparr>"
  by (auto simp: ActiveTOTP_def act_simps Let_def split: option.splits)

lemma RegisterLoginFailure_frame [auth_frame]:
  "db_sessions (snd (RegisterLoginFailure now uid k l d)) = db_sessions d"
  by (auto simp: RegisterLoginFailure_def act_simps Let_def split: option.splits)

lemma ResetLoginFailures_frame [auth_frame]:
  "db_sessions (snd (ResetLoginFailures uid d)) = db_sessions d" "db_challenges (snd (ResetLoginFailures uid d)) = db_challenges d"
  by (simp_all add: ResetLoginFailures_def act_simps Let_def)

lemma CreateMFAChallenge_frame [auth_frame]: "db_sessions (snd (CreateMFAChallenge now c d)) = db_sessions d"
  by (auto simp: CreateMFAChallenge_def act_simps Let_def split: prod.splits sum.splits if_splits)

lemma createSession_effect:
  "case createSession s now draws user ip ua d of
     (Inl e, d') \<Rightarrow> db_sessions d' = db_sessions d
   | (Inr res, d') \<Rightarrow> lr_User res = user \<and> \<not> lr_MFARequired res \<and> lr_Session res \<notin> sn_id ` set (db_sessions d) \<and>
       (\<exists>r. db_sessions d' = db_sessions d @ [r] \<and> sn_id r = lr_Session res \<and> sn_user_id r = u_ID user \<and>
          sn_csrf_token r = lr_CSRF res \<and> sn_expires_at r = format_time (now + sv_ttl s)) \<and>
       d' = d\<lparr>db_sessions := db_sessions d', db_tick := Suc (db_tick d)\<rparr>"
  by (auto simp: createSession_def CreateSession_def act_simps Let_def list_ex_iff split: option.splits)

lemma begin_challenge_sessions: "db_sessions (snd (begin_challenge s now draws user ip ua d)) = db_sessions d"
proof -
  obtain r d1 where a: "ActiveTOTP (u_ID user) d = (r, d1)" by (cases "ActiveTOTP (u_ID user) d")
  have "db_sessions d1 = db_sessions d" using ActiveTOTP_frame [of "u_ID user" d] by (simp add: a)
  then show ?thesis
    by (auto simp: begin_challenge_def a andThen_def return_def CreateMFAChallenge_frame lifted_def
        dest!: arg_cong [of _ _ "\<lambda>p. db_sessions (snd p)"] split: sum.splits option.splits prod.splits)
qed

lemma begin_challenge_result:
  "begin_challenge s now draws user ip ua d = (Inr res, d') \<Longrightarrow> lr_User res = user \<and> lr_MFARequired res \<and> lr_Session res = []"
  by (auto simp: begin_challenge_def andThen_Inr return_def split: sum.splits option.splits prod.splits)

end
