(* ===== verification/Login.thy ===== *)
theory Login
  imports Auth
begin

text \<open>
  What authentication promises: a session needs the right password of an account that is neither locked nor
  expired, and the second factor where it is required; five wrong passwords lock an account.
\<close>

section \<open>Passwords\<close>

abbreviation security_of :: "db \<Rightarrow> user_row \<Rightarrow> security_row option" where
  "security_of d u \<equiv> find (\<lambda>r. se_user_id r = us_id u) (db_security d)"

lemma accepted_password_effect:
  "case accepted_password s now draws u ip ua d of
     (Inl e, d') \<Rightarrow> db_sessions d' = db_sessions d
   | (Inr res, d') \<Rightarrow> u_ID (lr_User res) = ur_ID u \<and>
       (if ur_MFARequired u \<or> roleRequiresMFA s (u_Roles (lr_User res))
        then lr_MFARequired res \<and> lr_Session res = [] \<and> db_sessions d' = db_sessions d
        else \<not> lr_MFARequired res \<and> (\<exists>r. db_sessions d' = db_sessions d @ [r] \<and> sn_id r = lr_Session res \<and>
               sn_user_id r = ur_ID u \<and> sn_expires_at r = format_time (now + sv_ttl s)))"
proof -
  obtain x d1 where r: "ResetLoginFailures (ur_ID u) d = (x, d1)" by (cases "ResetLoginFailures (ur_ID u) d")
  obtain y d2 where ur: "UserRoles (ur_ID u) d1 = (y, d2)" by (cases "UserRoles (ur_ID u) d1")
  have d1: "db_sessions d1 = db_sessions d" using ResetLoginFailures_frame(1) [of "ur_ID u" d] by (simp add: r)
  have d2: "db_sessions d2 = db_sessions d1" using UserRoles_frame [of "ur_ID u" d1] by (simp add: ur)
  show ?thesis
  proof (cases x)
    case (Inl e)
    then show ?thesis by (simp add: accepted_password_def andThen_def lifted_def r d1)
  next
    case x: (Inr a)
    show ?thesis
    proof (cases y)
      case (Inl e)
      then show ?thesis using x by (simp add: accepted_password_def andThen_def lifted_def r ur d1 d2)
    next
      case (Inr roles)
      let ?user = "login_user u roles"
      have user: "u_ID ?user = ur_ID u" "u_Roles ?user = roles" by (simp_all add: login_user_def)
      have run: "accepted_password s now draws u ip ua d =
          (if ur_MFARequired u \<or> roleRequiresMFA s roles then begin_challenge s now draws ?user ip ua d2
           else createSession s now draws ?user ip ua d2)"
        using x Inr by (simp add: accepted_password_def andThen_def lifted_def r ur Let_def)
      show ?thesis
      proof (cases "ur_MFARequired u \<or> roleRequiresMFA s roles")
        case True
        obtain z d' where z: "begin_challenge s now draws ?user ip ua d2 = (z, d')" by (cases "begin_challenge s now draws ?user ip ua d2")
        show ?thesis unfolding run if_P [OF True]
          using begin_challenge_sessions [of s now draws ?user ip ua d2] begin_challenge_result [of s now draws ?user ip ua d2]
            d1 d2 user True by (cases z) (auto simp: z)
      next
        case False
        obtain z d' where z: "createSession s now draws ?user ip ua d2 = (z, d')" by (cases "createSession s now draws ?user ip ua d2")
        show ?thesis unfolding run if_not_P [OF False]
          using createSession_effect [where s = s and now = now and draws = draws and user = ?user and ip = ip and ua = ua and d = d2] d1 d2 user False by (cases z) (auto simp: z)
      qed
    qed
  qed
qed


section \<open>Lockout\<close>

lemma find_update_where:
  assumes "\<And>x. Q (f x) = Q x"
  shows "find Q (update_where P f xs) = map_option (\<lambda>x. if P x then f x else x) (find Q xs)"
  using assms by (induction xs) (auto simp: update_where_def)

definition counted :: "time \<Rightarrow> user_row \<Rightarrow> user_row" where
  "counted now u = u\<lparr>us_failed_attempts := us_failed_attempts u + 1,
     us_locked_until := (if us_failed_attempts u + 1 \<ge> loginFailureThreshold then Some (format_time (now + loginLockDuration)) else us_locked_until u)\<rparr>"

lemma threshold_positive: "\<not> loginFailureThreshold < 1"
  by (simp add: loginFailureThreshold_def)

lemma RegisterLoginFailure_users:
  assumes "db_fault d = (\<lambda>_. False)"
  shows "snd (RegisterLoginFailure now uid loginFailureThreshold loginLockDuration d) =
     d\<lparr>db_users := update_where (\<lambda>u. us_id u = uid) (counted now) (db_users d), db_tick := Suc (Suc (db_tick d))\<rparr>"
  using assms
  by (simp add: RegisterLoginFailure_def act_simps Let_def threshold_positive counted_def [abs_def] split: option.split)

text \<open>A wrong password on an account that is open.\<close>

lemma wrong_password:
  assumes "db_fault d = (\<lambda>_. False)" "find (\<lambda>u. us_username u = username) (db_users d) = Some u"
    and "account_error now ip (user_record u (security_of d u)) = None"
    and "VerifyPassword (ci_argon2 ci) (us_password_hash u) password \<noteq> Inr True"
  shows "snd (BeginLogin ci s now draws username password ip ua d) =
     d\<lparr>db_users := update_where (\<lambda>x. us_id x = us_id u) (counted now) (db_users d), db_tick := db_tick d + 3\<rparr>"
proof -
  let ?d1 = "d\<lparr>db_tick := Suc (db_tick d)\<rparr>"
  have f: "FindUser username d = (Inr (user_record u (security_of d u)), ?d1)"
    using assms(1,2) by (simp add: FindUser_def exec_def)
  have run: "BeginLogin ci s now draws username password ip ua d = failed_password now (user_record u (security_of d u)) ?d1"
    using assms(3,4) by (simp add: BeginLogin_def f) (simp add: user_record_def)
  have snd_failed: "snd (failed_password now r e) =
      snd (RegisterLoginFailure now (ur_ID r) loginFailureThreshold loginLockDuration e)" for r e
    by (auto simp: failed_password_def andThen_def lifted_def raise_def split: prod.splits sum.splits)
  have uid: "ur_ID (user_record u (security_of d u)) = us_id u" by (simp add: user_record_def)
  show ?thesis unfolding run snd_failed uid
    using assms(1) by (subst RegisterLoginFailure_users) (simp_all add: numeral_eq_Suc)
qed

fun attempts :: "crypto \<Rightarrow> Service \<Rightarrow> string \<Rightarrow> string \<Rightarrow> string \<Rightarrow> (time \<times> (string option \<times> string option) \<times> string) list \<Rightarrow> db \<Rightarrow> db" where
  "attempts ci s username ip ua [] d = d"
| "attempts ci s username ip ua ((now, draws, password) # rest) d =
     attempts ci s username ip ua rest (snd (BeginLogin ci s now draws username password ip ua d))"

lemma account_error_counter:
  "account_error now ip (user_record (u\<lparr>us_failed_attempts := k, us_locked_until := l\<rparr>) sec) =
   account_error now ip (user_record (u\<lparr>us_locked_until := l\<rparr>) sec)"
  by (simp add: account_error_def user_record_def)

text \<open>An open account of which a number of attempts have failed.\<close>

definition open_account :: "string \<Rightarrow> user_row \<Rightarrow> int \<Rightarrow> db \<Rightarrow> bool" where
  "open_account username u k d \<longleftrightarrow> db_fault d = (\<lambda>_. False) \<and>
     find (\<lambda>x. us_username x = username) (db_users d) = Some (u\<lparr>us_failed_attempts := k, us_locked_until := None\<rparr>)"

lemma open_account_step:
  assumes "open_account username u k d" "k < 4"
    and "account_error now ip (user_record (u\<lparr>us_locked_until := None\<rparr>) (security_of d u)) = None"
    and "VerifyPassword (ci_argon2 ci) (us_password_hash u) password \<noteq> Inr True"
  shows "open_account username u (k + 1) (snd (BeginLogin ci s now draws username password ip ua d)) \<and>
     db_security (snd (BeginLogin ci s now draws username password ip ua d)) = db_security d"
proof -
  let ?u = "u\<lparr>us_failed_attempts := k, us_locked_until := None\<rparr>"
  have err: "account_error now ip (user_record ?u (security_of d ?u)) = None"
    using assms(3) by (simp add: account_error_counter)
  have snd_eq: "snd (BeginLogin ci s now draws username password ip ua d) =
      d\<lparr>db_users := update_where (\<lambda>x. us_id x = us_id ?u) (counted now) (db_users d), db_tick := db_tick d + 3\<rparr>"
    using assms(1,4) by (intro wrong_password [OF _ _ err]) (auto simp: open_account_def)
  show ?thesis unfolding snd_eq using assms(1,2)
    by (auto simp: open_account_def find_update_where counted_def loginFailureThreshold_def)
qed

lemma account_locked:
  assumes "db_fault d = (\<lambda>_. False)" "find (\<lambda>x. us_username x = username) (db_users d) = Some u"
    and "us_locked_until u = Some (format_time e)" "now < e"
  shows "fst (BeginLogin ci s now draws username password ip ua d) = Inl ErrAccountLocked"
  using assms by (simp add: BeginLogin_def FindUser_def exec_def account_error_def user_record_def)

lemma fifth_attempt:
  assumes "open_account username u 4 d"
    and "account_error t ip (user_record (u\<lparr>us_locked_until := None\<rparr>) (security_of d u)) = None"
    and "VerifyPassword (ci_argon2 ci) (us_password_hash u) password \<noteq> Inr True" "now < t + loginLockDuration"
  shows "fst (BeginLogin ci s now draws' username password' ip' ua' (snd (BeginLogin ci s t draws username password ip ua d))) = Inl ErrAccountLocked"
proof -
  let ?u = "u\<lparr>us_failed_attempts := 4, us_locked_until := None\<rparr>"
  have err: "account_error t ip (user_record ?u (security_of d ?u)) = None"
    using assms(2) by (simp add: account_error_counter)
  have snd_eq: "snd (BeginLogin ci s t draws username password ip ua d) =
      d\<lparr>db_users := update_where (\<lambda>x. us_id x = us_id ?u) (counted t) (db_users d), db_tick := db_tick d + 3\<rparr>"
    using assms(1,3) by (intro wrong_password [OF _ _ err]) (auto simp: open_account_def)
  have found: "find (\<lambda>x. us_username x = username)
      (db_users (d\<lparr>db_users := update_where (\<lambda>x. us_id x = us_id ?u) (counted t) (db_users d), db_tick := db_tick d + 3\<rparr>)) = Some (counted t ?u)"
    using assms(1) by (simp add: open_account_def find_update_where counted_def)
  show ?thesis unfolding snd_eq
    by (rule account_locked [OF _ found _ assms(4)]) (use assms(1) in \<open>simp_all add: open_account_def counted_def loginFailureThreshold_def\<close>)
qed

text \<open>
  C14. Five wrong passwords lock an account: after five attempts with wrong passwords on an account that
  was open (no lock, not expired, usable from the address), every further login within fifteen minutes of the
  fifth is refused as locked, whatever password, address and agent it comes with, the right ones included.
\<close>

theorem five_failures_lock:
  assumes "db_fault d = (\<lambda>_. False)" "find (\<lambda>x. us_username x = username) (db_users d) = Some u"
    and "us_failed_attempts u = 0" "us_locked_until u = None" "length tries = 5"
    and "\<forall>(t, draws, pw)\<in>set tries. account_error t ip (user_record u (security_of d u)) = None \<and>
           VerifyPassword (ci_argon2 ci) (us_password_hash u) pw \<noteq> Inr True"
    and "now < fst (tries ! 4) + 15 * minute"
  shows "fst (BeginLogin ci s now draws username password ip' ua' (attempts ci s username ip ua tries d)) = Inl ErrAccountLocked"
proof -
  have u: "u\<lparr>us_failed_attempts := 0, us_locked_until := None\<rparr> = u" "u\<lparr>us_locked_until := None\<rparr> = u"
    using assms(3,4) by (cases u, simp)+
  have step: "open_account username u (k + 1) (attempts ci s username ip ua [x] d1) \<and> db_security (attempts ci s username ip ua [x] d1) = db_security d"
    if "open_account username u k d1" "db_security d1 = db_security d" "k < 4" "x \<in> set tries" for k x d1
    using that assms(6) open_account_step [OF that(1,3), of "fst x" ip ci "snd (snd x)" s "fst (snd x)" ua]
    by (cases x) (auto simp: u(2))
  have snoc: "attempts ci s username ip ua (xs @ ys) e = attempts ci s username ip ua ys (attempts ci s username ip ua xs e)" for xs ys e
    by (induction xs arbitrary: e) auto
  have upto: "k \<le> 4 \<Longrightarrow> open_account username u (int k) (attempts ci s username ip ua (take k tries) d) \<and>
      db_security (attempts ci s username ip ua (take k tries) d) = db_security d" for k
  proof (induction k)
    case 0
    then show ?case using assms(1,2) by (simp add: open_account_def u(1))
  next
    case (Suc k)
    then have "take (Suc k) tries = take k tries @ [tries ! k]" using assms(5) by (simp add: take_Suc_conv_app_nth)
    then show ?case using step [of "int k" "attempts ci s username ip ua (take k tries) d" "tries ! k"] Suc assms(5)
      by (simp add: snoc add.commute)
  qed
  let ?d4 = "attempts ci s username ip ua (take 4 tries) d"
  have four: "open_account username u 4 ?d4" "db_security ?d4 = db_security d" using upto [of 4] by simp_all
  obtain t dr pw where last: "tries ! 4 = (t, dr, pw)" by (cases "tries ! 4")
  have "tries ! 4 \<in> set tries" using assms(5) by simp
  then have ok: "account_error t ip (user_record (u\<lparr>us_locked_until := None\<rparr>) (security_of ?d4 u)) = None"
      "VerifyPassword (ci_argon2 ci) (us_password_hash u) pw \<noteq> Inr True"
    using assms(6) last four(2) by (auto simp: u(2))
  have "tries = take 4 tries @ [tries ! 4]" using assms(5) by (metis take_Suc_conv_app_nth take_all_iff lessI eval_nat_numeral(3) order_refl numeral_eq_Suc pred_numeral_simps(3))
  then have "attempts ci s username ip ua tries d = snd (BeginLogin ci s t dr username pw ip ua ?d4)"
    using snoc [of "take 4 tries" "[tries ! 4]" d] last by simp
  moreover have "now < t + loginLockDuration" using assms(7) last by (simp add: loginLockDuration_def)
  ultimately show ?thesis using fifth_attempt [OF four(1) ok] by simp
qed

definition sample_crypto :: crypto where
  "sample_crypto = \<lparr>ci_argon2 = sample_argon2, ci_seal = (\<lambda>key nonce text. text), ci_open = (\<lambda>key nonce text. Some text)\<rparr>"

definition sample_account :: user_row where
  "sample_account = \<lparr>us_id = ''user-1'', us_username = ''ana'', us_display_name = ''Ana'',
     us_password_hash = encoded_hash ''salt'' (the (sample_argon2 ''correct horse battery'' ''salt'' 0 0 0 32)),
     us_failed_attempts = 0, us_locked_until = None, us_created_at = format_time 0\<rparr>"

definition account_db :: db where
  "account_db = empty_db\<lparr>db_users := [sample_account]\<rparr>"

lemma sample_guess: "VerifyPassword (ci_argon2 sample_crypto) (us_password_hash sample_account) ''guess'' \<noteq> Inr True"
  by (simp add: sample_crypto_def sample_account_def VerifyPassword_encoded sample_argon2_def numeral_eq_Suc)

theorem five_failures_lock_witness:
  "fst (BeginLogin sample_crypto (New hour) minute (None, None) ''ana'' ''correct horse battery'' ''10.0.0.9'' ''agent''
     (attempts sample_crypto (New hour) ''ana'' ''10.0.0.1'' ''agent'' (replicate 5 (0, (None, None), ''guess'')) account_db)) = Inl ErrAccountLocked"
proof (rule five_failures_lock)
  show "\<forall>(t, draws, pw)\<in>set (replicate 5 (0, (None :: string option, None :: string option), ''guess'')).
      account_error t ''10.0.0.1'' (user_record sample_account (security_of account_db sample_account)) = None \<and>
      VerifyPassword (ci_argon2 sample_crypto) (us_password_hash sample_account) pw \<noteq> Inr True"
    using sample_guess by (simp add: account_error_def user_record_def account_db_def empty_db_def sample_account_def)
  show "find (\<lambda>x. us_username x = ''ana'') (db_users account_db) = Some sample_account"
    by (simp add: account_db_def sample_account_def)
qed (simp_all add: account_db_def empty_db_def sample_account_def nth_replicate)

end
