(* ===== verification/SecondFactor.thy ===== *)
theory SecondFactor
  imports Login
begin

text \<open>
  What the second factor promises: a login that needs it gets its session only by a challenge that is fresh,
  bound to the client and used once, together with a code of the authenticator or a recovery code that is used up.
\<close>

section \<open>Challenges and codes\<close>

lemma ClaimMFAChallenge_Inr:
  assumes "ClaimMFAChallenge now cid d = (Inr c, d1)"
  shows "\<exists>r\<in>set (db_challenges d). ch_id r = cid \<and> parse_time (ch_expires_at r) > now \<and> mc_UserID c = ch_user_id r \<and> mc_IP c = ch_ip r \<and>
     mc_UserAgent c = ch_user_agent r \<and>
     d1 = d\<lparr>db_challenges := filter (\<lambda>r. ch_id r \<noteq> cid) (db_challenges d), db_tick := db_tick d + 2\<rparr>"
proof -
  obtain r d0 where q: "query_row db_challenges (\<lambda>r. ch_id r = cid) d = (Inr r, d0)"
    and rest: "(if \<not> parse_time (ch_expires_at r) > now
        then andThen (ignoring (delete_challenge cid)) (\<lambda>_. raise ErrNoRows)
        else andThen (delete_challenge cid) (\<lambda>n. if n \<noteq> 1 then raise ErrNoRows
          else return \<lparr>mc_ID = ch_id r, mc_UserID = ch_user_id r, mc_CSRFToken = ch_csrf_token r, mc_IP = ch_ip r,
                        mc_UserAgent = ch_user_agent r, mc_ExpiresAt = parse_time (ch_expires_at r)\<rparr>)) d0 = (Inr c, d1)"
    using assms by (auto simp: ClaimMFAChallenge_def andThen_Inr)
  have d0: "d0 = d\<lparr>db_tick := Suc (db_tick d)\<rparr>" "r \<in> set (db_challenges d)" "ch_id r = cid"
    using query_row_Inr [OF q] by auto
  have fresh: "parse_time (ch_expires_at r) > now"
  proof (rule ccontr)
    assume "\<not> parse_time (ch_expires_at r) > now"
    then show False using rest by (simp add: andThen_Inr raise_def)
  qed
  define F where "F = (\<lambda>n. if n \<noteq> (1 :: nat) then raise ErrNoRows
      else return \<lparr>mc_ID = ch_id r, mc_UserID = ch_user_id r, mc_CSRFToken = ch_csrf_token r, mc_IP = ch_ip r,
                    mc_UserAgent = ch_user_agent r, mc_ExpiresAt = parse_time (ch_expires_at r)\<rparr> :: MFAChallengeRecord act)"
  have "andThen (delete_challenge cid) F d0 = (Inr c, d1)" using rest fresh unfolding F_def by simp
  then obtain n d2 where n: "delete_challenge cid d0 = (Inr n, d2)" "F n d2 = (Inr c, d1)" unfolding andThen_Inr by blast
  have c: "mc_UserID c = ch_user_id r \<and> mc_IP c = ch_ip r \<and> mc_UserAgent c = ch_user_agent r" "d2 = d1"
    using n(2) by (cases "n = 1"; auto simp: F_def raise_def return_def)+
  have del: "\<exists>n. delete_challenge cid d0 = (Inr n, d1)" using n(1) c(2) by blast
  have "d1 = d\<lparr>db_challenges := filter (\<lambda>r. ch_id r \<noteq> cid) (db_challenges d), db_tick := db_tick d + 2\<rparr>"
    using del by (auto simp: delete_challenge_def exec_Inr d0(1))
  then show ?thesis using d0(2,3) fresh c(1) by blast
qed

lemma MarkRecoveryCodeUsed_frame:
  "db_sessions (snd (MarkRecoveryCodeUsed now cid d)) = db_sessions d" "db_challenges (snd (MarkRecoveryCodeUsed now cid d)) = db_challenges d"
  by (simp_all add: MarkRecoveryCodeUsed_def exec_def Let_def)

lemma MarkRecoveryCodeUsed_Inr:
  assumes "MarkRecoveryCodeUsed now cid d = (Inr y, d1)" "x \<in> set (db_recovery d1)" "rc_id x = cid"
  shows "rc_used_at x \<noteq> None"
proof -
  have "db_recovery d1 = update_where (\<lambda>r. rc_id r = cid \<and> rc_used_at r = None) (\<lambda>r. r\<lparr>rc_used_at := Some (format_time now)\<rparr>) (db_recovery d)"
  proof -
    have "\<not> db_fault d (db_tick d)" using assms(1) by (rule contrapos_pn) (simp add: MarkRecoveryCodeUsed_def exec_def Let_def)
    then have "db_recovery (snd (MarkRecoveryCodeUsed now cid d)) =
        update_where (\<lambda>r. rc_id r = cid \<and> rc_used_at r = None) (\<lambda>r. r\<lparr>rc_used_at := Some (format_time now)\<rparr>) (db_recovery d)"
      by (simp add: MarkRecoveryCodeUsed_def exec_def Let_def)
    then show ?thesis by (simp add: assms(1))
  qed
  then have "x \<in> set (update_where (\<lambda>r. rc_id r = cid \<and> rc_used_at r = None) (\<lambda>r. r\<lparr>rc_used_at := Some (format_time now)\<rparr>) (db_recovery d))"
    using assms(2) by simp
  then obtain r where x: "x = (if rc_id r = cid \<and> rc_used_at r = None then r\<lparr>rc_used_at := Some (format_time now)\<rparr> else r)"
    unfolding set_update_where by blast
  show ?thesis
  proof (cases "rc_id r = cid \<and> rc_used_at r = None")
    case True
    show ?thesis unfolding x if_P [OF True] by simp
  next
    case False
    then have "x = r" unfolding x by (rule if_not_P)
    with False assms(3) show ?thesis by simp
  qed
qed

lemma try_recovery_effect:
  "case try_recovery ci now code rs d of
     (Inl e, d1) \<Rightarrow> db_sessions d1 = db_sessions d \<and> db_challenges d1 = db_challenges d
   | (Inr _, d1) \<Rightarrow> db_sessions d1 = db_sessions d \<and> db_challenges d1 = db_challenges d \<and>
       (\<exists>r\<in>set rs. VerifyPassword (ci_argon2 ci) (rc_code_hash r) (normalizeRecoveryCode code) = Inr True \<and>
          (\<forall>x\<in>set (db_recovery d1). rc_id x = rc_id r \<longrightarrow> rc_used_at x \<noteq> None))"
proof (induction rs arbitrary: d)
  case (Cons r rs)
  obtain z d1 where m: "MarkRecoveryCodeUsed now (rc_id r) d = (z, d1)" by (cases "MarkRecoveryCodeUsed now (rc_id r) d")
  have eff: "db_sessions d1 = db_sessions d" "db_challenges d1 = db_challenges d"
    using MarkRecoveryCodeUsed_frame [of now "rc_id r" d] by (simp_all add: m)
  show ?case
  proof (cases "VerifyPassword (ci_argon2 ci) (rc_code_hash r) (normalizeRecoveryCode code) = Inr True")
    case True
    show ?thesis
    proof (cases z)
      case (Inl e)
      then show ?thesis using True eff m Cons.IH [of d1] by (auto split: prod.splits sum.splits)
    next
      case (Inr y)
      then show ?thesis using True eff m MarkRecoveryCodeUsed_Inr [of now "rc_id r" d y d1] by auto
    qed
  next
    case False
    then show ?thesis using Cons.IH [of d] by (auto split: prod.splits sum.splits)
  qed
qed simp

text \<open>The second factor that a code presents: a code of the authenticator, or a recovery code that was unused.\<close>

definition code_of_authenticator :: "crypto \<Rightarrow> Service \<Rightarrow> time \<Rightarrow> string \<Rightarrow> string \<Rightarrow> db \<Rightarrow> bool" where
  "code_of_authenticator ci s now uid code d \<longleftrightarrow>
     (\<exists>t\<in>set (db_totp d). tp_user_id t = uid \<and> tp_secret t \<noteq> [] \<and> totp_accepted ci s now code (tp_secret t))"

definition unused_recovery_code :: "crypto \<Rightarrow> string \<Rightarrow> string \<Rightarrow> recovery_row \<Rightarrow> db \<Rightarrow> bool" where
  "unused_recovery_code ci uid code r d \<longleftrightarrow> r \<in> set (db_recovery d) \<and> rc_user_id r = uid \<and> rc_used_at r = None \<and>
     VerifyPassword (ci_argon2 ci) (rc_code_hash r) (normalizeRecoveryCode code) = Inr True"

definition recovery_code_spent :: "recovery_row \<Rightarrow> db \<Rightarrow> bool" where
  "recovery_code_spent r d \<longleftrightarrow> list_all (\<lambda>x. rc_id x = rc_id r \<longrightarrow> rc_used_at x \<noteq> None) (db_recovery d)"

lemma verifyMFA_effect:
  "case verifyMFA ci s now uid code d of
     (Inl e, d1) \<Rightarrow> db_sessions d1 = db_sessions d \<and> db_challenges d1 = db_challenges d
   | (Inr _, d1) \<Rightarrow> db_sessions d1 = db_sessions d \<and> db_challenges d1 = db_challenges d \<and>
       (code_of_authenticator ci s now uid code d \<or> (\<exists>r. unused_recovery_code ci uid code r d \<and> recovery_code_spent r d1))"
proof -
  obtain res d1 where a: "ActiveTOTP uid d = (res, d1)" by (cases "ActiveTOTP uid d")
  have d1: "d1 = d\<lparr>db_tick := Suc (db_tick d)\<rparr>" using ActiveTOTP_frame [of uid d] by (simp add: a)
  obtain codes d2 where m: "mustUnusedRecoveryCodes uid d1 = (codes, d2)" by (cases "mustUnusedRecoveryCodes uid d1")
  have d2: "db_sessions d2 = db_sessions d" "db_challenges d2 = db_challenges d"
    and codes: "\<And>r. r \<in> set codes \<Longrightarrow> r \<in> set (db_recovery d) \<and> rc_user_id r = uid \<and> rc_used_at r = None"
    using m d1 by (auto simp: mustUnusedRecoveryCodes_def UnusedRecoveryCodes_def exec_def Let_def split: if_splits)
  consider (none) "sv_crypto s = None"
    | (totp) c where "sv_crypto s \<noteq> None" "res = Inr c" "totp_accepted ci s now code c"
    | (recovery) "sv_crypto s \<noteq> None" "\<not> (case res of Inl _ \<Rightarrow> False | Inr c \<Rightarrow> totp_accepted ci s now code c)"
    by (cases res) auto
  then show ?thesis
  proof cases
    case none
    then show ?thesis by (simp add: verifyMFA_def)
  next
    case totp
    then have "\<exists>t\<in>set (db_totp d). tp_user_id t = uid \<and> tp_secret t \<noteq> [] \<and> tp_secret t = c"
      using a query_row_Inr [of db_totp "\<lambda>r. tp_user_id r = uid" d]
      by (fastforce simp: ActiveTOTP_def andThen_Inr raise_def return_def split: if_splits)
    then show ?thesis using totp by (auto simp: verifyMFA_def a d1 code_of_authenticator_def)
  next
    case recovery
    then have run: "verifyMFA ci s now uid code d = try_recovery ci now code codes d2"
      by (auto simp: verifyMFA_def a m)
    show ?thesis unfolding run
      using try_recovery_effect [where ci = ci and now = now and code = code and rs = codes and d = d2] d2 codes
      by (fastforce simp: unused_recovery_code_def recovery_code_spent_def list_all_iff split: prod.splits sum.splits)
  qed
qed

lemma find_unique: "distinct (map f xs) \<Longrightarrow> r \<in> set xs \<Longrightarrow> find (\<lambda>x. f x = f r) xs = Some r"
  by (induction xs) (auto simp: image_iff)

lemma findUserByID_Inr:
  assumes "findUserByID uid d = (Inr u, d1)" "distinct (map us_username (db_users d))"
  shows "u_ID u = uid" "db_sessions d1 = db_sessions d" "db_challenges d1 = db_challenges d" "db_recovery d1 = db_recovery d"
proof -
  obtain row e1 rec e2 roles e3 where q: "query_row db_users (\<lambda>u. us_id u = uid) d = (Inr row, e1)"
    and f: "FindUser (us_username row) e1 = (Inr rec, e2)" and r: "UserRoles (ur_ID rec) e2 = (Inr roles, e3)"
    and u: "u = login_user rec roles" "d1 = e3"
    using assms(1) by (auto simp: findUserByID_def andThen_Inr return_def)
  have e1: "e1 = d\<lparr>db_tick := Suc (db_tick d)\<rparr>" "row \<in> set (db_users d)" "us_id row = uid" using query_row_Inr [OF q] by auto
  obtain x where x: "find (\<lambda>u. us_username u = us_username row) (db_users e1) = Some x"
    "rec = user_record x (find (\<lambda>r. se_user_id r = us_id x) (db_security e1))" "e2 = e1\<lparr>db_tick := Suc (db_tick e1)\<rparr>"
    using FindUser_Inr [OF f] by blast
  have e3: "e3 = e2\<lparr>db_tick := Suc (db_tick e2)\<rparr>" using UserRoles_frame [of "ur_ID rec" e2] by (simp add: r)
  have "x = row" using x(1) find_unique [OF assms(2) e1(2)] by (simp add: e1(1))
  then show "u_ID u = uid" using e1(3) by (simp add: u(1) x(2) login_user_def user_record_def)
  show "db_sessions d1 = db_sessions d" "db_challenges d1 = db_challenges d" "db_recovery d1 = db_recovery d"
    by (simp_all add: u(2) e3 x(3) e1(1))
qed

lemma findUserByID_frame: "db_sessions (snd (findUserByID uid d)) = db_sessions d"
  by (auto simp: findUserByID_def andThen_def query_row_def exec_def return_def Let_def FindUser_def UserRoles_def split: option.splits if_splits)

text \<open>The user table is left alone by the second factor.\<close>

lemma try_recovery_users: "db_users (snd (try_recovery ci now code rs d)) = db_users d"
proof (induction rs arbitrary: d)
  case (Cons r rs)
  have "db_users (snd (MarkRecoveryCodeUsed now (rc_id r) d)) = db_users d"
    by (simp add: MarkRecoveryCodeUsed_def exec_def Let_def)
  then show ?case using Cons.IH by (cases "MarkRecoveryCodeUsed now (rc_id r) d") (auto split: sum.splits)
qed simp

lemma verifyMFA_users: "db_users (snd (verifyMFA ci s now uid code d)) = db_users d"
proof -
  have a: "db_users (snd (ActiveTOTP uid d)) = db_users d" by (simp add: ActiveTOTP_frame)
  have m: "db_users (snd (mustUnusedRecoveryCodes uid e)) = db_users e" for e
    by (simp add: mustUnusedRecoveryCodes_def UnusedRecoveryCodes_def exec_def Let_def)
  obtain res d1 where d1: "ActiveTOTP uid d = (res, d1)" by (cases "ActiveTOTP uid d")
  obtain codes d2 where d2: "mustUnusedRecoveryCodes uid d1 = (codes, d2)" by (cases "mustUnusedRecoveryCodes uid d1")
  have "db_users d1 = db_users d" "db_users d2 = db_users d" using a m [of d1] by (simp_all add: d1 d2)
  then show ?thesis by (simp add: verifyMFA_def d1 d2 try_recovery_users)
qed

lemma ClaimMFAChallenge_sessions: "db_sessions (snd (ClaimMFAChallenge now cid d)) = db_sessions d"
  by (auto simp: ClaimMFAChallenge_def delete_challenge_def act_simps Let_def split: option.splits)

lemma verifyMFA_sessions: "db_sessions (snd (verifyMFA ci s now uid code d)) = db_sessions d"
  using verifyMFA_effect [where ci = ci and s = s and now = now and uid = uid and code = code and d = d]
  by (auto split: prod.splits sum.splits)

lemma snd_andThen_Inl:
  assumes "andThen a f d = (Inl e, d')" "T (snd (a d)) = T d" "\<And>x d1. a d = (Inr x, d1) \<Longrightarrow> f x d1 = (Inl e, d') \<Longrightarrow> T d' = T d1"
  shows "T d' = T d"
proof (cases "a d")
  case (Pair r d1)
  then show ?thesis using assms by (cases r) (auto simp: andThen_def)
qed

lemma CompleteMFA_refused:
  assumes "CompleteMFA ci s now draws cid code ip ua d = (Inl e, d')"
  shows "db_sessions d' = db_sessions d"
  using assms unfolding CompleteMFA_def replacing_def
proof (rule snd_andThen_Inl)
  fix c d1
  let ?rest = "andThen (lifted (\<lambda>_. ErrMFAInvalid) (verifyMFA ci s now (mc_UserID c) (TrimSpace code))) (\<lambda>_.
      andThen (lifted (\<lambda>_. ErrMFAInvalid) (findUserByID (mc_UserID c))) (\<lambda>u. createSession s now draws (u\<lparr>u_MFAEnabled := True\<rparr>) ip ua))"
  assume "(if \<not> boundStringEqual (mc_IP c) (normalizedIP ip) \<or> \<not> boundStringEqual (mc_UserAgent c) ua then raise ErrMFAInvalid else ?rest) d1 = (Inl e, d')"
  then consider "d' = d1" | "?rest d1 = (Inl e, d')" by (auto simp: raise_def split: if_splits)
  then show "db_sessions d' = db_sessions d1"
  proof cases
    case 2
    then show ?thesis
    proof (rule snd_andThen_Inl)
      fix x d2
      assume "andThen (lifted (\<lambda>_. ErrMFAInvalid) (findUserByID (mc_UserID c)))
        (\<lambda>u. createSession s now draws (u\<lparr>u_MFAEnabled := True\<rparr>) ip ua) d2 = (Inl e, d')"
      then show "db_sessions d' = db_sessions d2"
      proof (rule snd_andThen_Inl)
        fix u d3
        assume "createSession s now draws (u\<lparr>u_MFAEnabled := True\<rparr>) ip ua d3 = (Inl e, d')"
        then show "db_sessions d' = db_sessions d3"
          using createSession_effect [where s = s and now = now and draws = draws and user = "u\<lparr>u_MFAEnabled := True\<rparr>" and ip = ip and ua = ua and d = d3]
          by simp
      qed (simp add: snd_lifted findUserByID_frame)
    qed (simp add: snd_lifted verifyMFA_sessions)
  qed simp
qed (simp add: snd_lifted ClaimMFAChallenge_sessions)

text \<open>The four steps of a second factor that was accepted.\<close>

lemma CompleteMFA_Inr:
  "CompleteMFA ci s now draws cid code ip ua d = (Inr res, d') \<longleftrightarrow>
     (\<exists>c d1 d2 u d3. ClaimMFAChallenge now (TrimSpace cid) d = (Inr c, d1) \<and>
        boundStringEqual (mc_IP c) (normalizedIP ip) \<and> boundStringEqual (mc_UserAgent c) ua \<and>
        verifyMFA ci s now (mc_UserID c) (TrimSpace code) d1 = (Inr (), d2) \<and> findUserByID (mc_UserID c) d2 = (Inr u, d3) \<and>
        createSession s now draws (u\<lparr>u_MFAEnabled := True\<rparr>) ip ua d3 = (Inr res, d'))"
  by (fastforce simp: CompleteMFA_def replacing_def andThen_Inr lifted_Inr raise_def split: if_splits)

text \<open>
  C13. The second factor grants a session only with a challenge of the login that has not run out, presented by
  the client that it is bound to, and with a code of the authenticator or a recovery code of that user that was unused;
  the challenge is gone and the recovery code is spent afterwards, and exactly one session, of the user of the challenge,
  is added.  A failure adds no session.
\<close>

theorem second_factor_needed:
  assumes "distinct (map us_username (db_users d))"
  shows "case CompleteMFA ci s now draws cid code ip ua d of
     (Inl e, d') \<Rightarrow> db_sessions d' = db_sessions d
   | (Inr res, d') \<Rightarrow>
       (\<exists>c\<in>set (db_challenges d). ch_id c = TrimSpace cid \<and> now < parse_time (ch_expires_at c) \<and>
          boundStringEqual (ch_ip c) (normalizedIP ip) \<and> boundStringEqual (ch_user_agent c) ua \<and>
          (code_of_authenticator ci s now (ch_user_id c) (TrimSpace code) d \<or>
           (\<exists>r. unused_recovery_code ci (ch_user_id c) (TrimSpace code) r d \<and> recovery_code_spent r d')) \<and>
          db_challenges d' = filter (\<lambda>r. ch_id r \<noteq> TrimSpace cid) (db_challenges d) \<and>
          (\<exists>r. db_sessions d' = db_sessions d @ [r] \<and> sn_id r = lr_Session res \<and> sn_user_id r = ch_user_id c))"
proof -
  have granted: "\<exists>c\<in>set (db_challenges d). ch_id c = TrimSpace cid \<and> now < parse_time (ch_expires_at c) \<and>
      boundStringEqual (ch_ip c) (normalizedIP ip) \<and> boundStringEqual (ch_user_agent c) ua \<and>
      (code_of_authenticator ci s now (ch_user_id c) (TrimSpace code) d \<or>
       (\<exists>r. unused_recovery_code ci (ch_user_id c) (TrimSpace code) r d \<and> recovery_code_spent r d')) \<and>
      db_challenges d' = filter (\<lambda>r. ch_id r \<noteq> TrimSpace cid) (db_challenges d) \<and>
      (\<exists>r. db_sessions d' = db_sessions d @ [r] \<and> sn_id r = lr_Session res \<and> sn_user_id r = ch_user_id c)"
    if fin: "CompleteMFA ci s now draws cid code ip ua d = (Inr res, d')" for res d'
  proof -
    obtain c d1 d2 u d3 where x: "ClaimMFAChallenge now (TrimSpace cid) d = (Inr c, d1)"
      and b: "boundStringEqual (mc_IP c) (normalizedIP ip)" "boundStringEqual (mc_UserAgent c) ua"
      and y: "verifyMFA ci s now (mc_UserID c) (TrimSpace code) d1 = (Inr (), d2)"
      and z: "findUserByID (mc_UserID c) d2 = (Inr u, d3)"
      and w: "createSession s now draws (u\<lparr>u_MFAEnabled := True\<rparr>) ip ua d3 = (Inr res, d')"
      using fin unfolding CompleteMFA_Inr by blast
    obtain r where r: "r \<in> set (db_challenges d)" "ch_id r = TrimSpace cid" "now < parse_time (ch_expires_at r)" "mc_UserID c = ch_user_id r"
        "mc_IP c = ch_ip r" "mc_UserAgent c = ch_user_agent r"
        "d1 = d\<lparr>db_challenges := filter (\<lambda>r. ch_id r \<noteq> TrimSpace cid) (db_challenges d), db_tick := db_tick d + 2\<rparr>"
      using ClaimMFAChallenge_Inr [OF x] by blast
    have d1: "db_challenges d1 = filter (\<lambda>r. ch_id r \<noteq> TrimSpace cid) (db_challenges d)" "db_totp d1 = db_totp d"
        "db_recovery d1 = db_recovery d" "db_sessions d1 = db_sessions d" "db_users d1 = db_users d"
      by (simp_all add: r(7))
    note v = verifyMFA_effect [where ci = ci and s = s and now = now and uid = "mc_UserID c" and code = "TrimSpace code" and d = d1,
        unfolded y prod.case sum.case code_of_authenticator_def unused_recovery_code_def d1(2,3), folded code_of_authenticator_def unused_recovery_code_def]
    have users: "distinct (map us_username (db_users d2))"
      using verifyMFA_users [of ci s now "mc_UserID c" "TrimSpace code" d1] assms by (simp add: y d1)
    note f = findUserByID_Inr [OF z users]
    note e = createSession_effect [where s = s and now = now and draws = draws and user = "u\<lparr>u_MFAEnabled := True\<rparr>" and ip = ip and ua = ua and d = d3,
        unfolded w prod.case sum.case]
    have eq: "d' = d3\<lparr>db_sessions := db_sessions d', db_tick := Suc (db_tick d3)\<rparr>" using e by blast
    have keep: "db_challenges d' = db_challenges d3" "db_recovery d' = db_recovery d3"
      using arg_cong [OF eq, of db_challenges] arg_cong [OF eq, of db_recovery] by simp_all
    have spent: "recovery_code_spent q d' = recovery_code_spent q d2" for q by (simp add: recovery_code_spent_def keep(2) f)
    have added: "\<exists>q. db_sessions d' = db_sessions d @ [q] \<and> sn_id q = lr_Session res \<and> sn_user_id q = ch_user_id r"
      using e f v d1 r(4) by auto
    show ?thesis unfolding spent
      by (rule bexI [OF _ r(1)]) (use added b f v d1 keep r(2-6) in simp)
  qed
  obtain res d' where run: "CompleteMFA ci s now draws cid code ip ua d = (res, d')" by (cases "CompleteMFA ci s now draws cid code ip ua d")
  show ?thesis
  proof (cases res)
    case (Inl e)
    show ?thesis unfolding run Inl prod.case sum.case by (rule CompleteMFA_refused [OF run [unfolded Inl]])
  next
    case (Inr a)
    show ?thesis unfolding run Inr prod.case sum.case by (rule granted [OF run [unfolded Inr]])
  qed
qed

definition mfa_service :: Service where
  "mfa_service = (New hour)\<lparr>sv_crypto := Some (replicate 32 (CHR ''k''))\<rparr>"

definition mfa_db :: db where
  "mfa_db = account_db\<lparr>
     db_challenges := [\<lparr>ch_id = ''challenge'', ch_user_id = ''user-1'', ch_csrf_token = ''t'', ch_expires_at = format_time (5 * minute),
       ch_ip = ''10.0.0.1'', ch_user_agent = ''agent'', ch_created_at = format_time 0\<rparr>],
     db_recovery := [\<lparr>rc_id = ''recovery-1'', rc_user_id = ''user-1'',
       rc_code_hash = encoded_hash ''salt'' (the (sample_argon2 ''ABCDE'' ''salt'' 0 0 0 32)), rc_created_at = format_time 0, rc_used_at = None\<rparr>]\<rparr>"

lemma sample_recovery_code:
  "VerifyPassword (ci_argon2 sample_crypto) (encoded_hash ''salt'' (the (sample_argon2 ''ABCDE'' ''salt'' 0 0 0 32))) (normalizeRecoveryCode ''abcde'') = Inr True"
proof -
  have "normalizeRecoveryCode ''abcde'' = ''ABCDE''" by code_simp
  then show ?thesis by (simp add: sample_crypto_def VerifyPassword_encoded sample_argon2_def)
qed

lemma sample_completes:
  "fst (CompleteMFA sample_crypto mfa_service minute (Some ''s'', Some ''c'') ''challenge'' ''abcde'' ''10.0.0.1:4711'' ''agent'' mfa_db) \<noteq> Inl e"
proof -
  have trims: "TrimSpace ''challenge'' = ''challenge''" "TrimSpace ''abcde'' = ''abcde''" "normalizedIP ''10.0.0.1:4711'' = ''10.0.0.1''"
    by code_simp+
  show ?thesis
    by (simp add: CompleteMFA_def trims ClaimMFAChallenge_def delete_challenge_def act_simps Let_def replacing_def mfa_db_def account_db_def empty_db_def
        affected_def boundStringEqual_def verifyMFA_def mfa_service_def ActiveTOTP_def mustUnusedRecoveryCodes_def UnusedRecoveryCodes_def
        sample_recovery_code MarkRecoveryCodeUsed_def findUserByID_def FindUser_def sample_account_def UserRoles_def createSession_def
        randomToken_def CreateSession_def user_exists_def login_user_def user_record_def)
qed

theorem second_factor_needed_witness:
  "\<exists>res d'. CompleteMFA sample_crypto mfa_service minute (Some ''s'', Some ''c'') ''challenge'' ''abcde'' ''10.0.0.1:4711'' ''agent'' mfa_db = (Inr res, d') \<and>
     db_challenges d' = [] \<and> (\<exists>r. db_sessions d' = [r] \<and> sn_id r = lr_Session res \<and> sn_user_id r = ''user-1'')"
proof -
  obtain res d' where run: "CompleteMFA sample_crypto mfa_service minute (Some ''s'', Some ''c'') ''challenge'' ''abcde'' ''10.0.0.1:4711'' ''agent'' mfa_db = (Inr res, d')"
    using sample_completes by (metis old.sum.exhaust prod.collapse)
  have "distinct (map us_username (db_users mfa_db))" by (simp add: mfa_db_def account_db_def)
  from second_factor_needed [OF this, where ci = sample_crypto and s = mfa_service and now = minute and draws = "(Some ''s'', Some ''c'')" and cid = "''challenge''"
      and code = "''abcde''" and ip = "''10.0.0.1:4711''" and ua = "''agent''", unfolded run prod.case sum.case]
  show ?thesis using run by (auto simp: mfa_db_def account_db_def empty_db_def)
qed

end
