(* ===== verification/Configuration.thy ===== *)
theory Configuration
  imports AgentServer
begin

text \<open>
  The configuration: \<open>src/backend/internal/config/config.go\<close>.  The environment is a function from names to
  values, empty where a variable is not set.  \<open>time.ParseDuration\<close>, which computes fractions in floating point,
  is an argument, and so are the bytes that \<open>rand.Read\<close> gives.
\<close>

section \<open>Parsing\<close>

text \<open>\<open>strconv.ParseInt (s, 10, 64)\<close>, and \<open>strconv.Atoi\<close> on a 64-bit platform.\<close>

definition ParseInt64 :: "string \<Rightarrow> int option" where
  "ParseInt64 s =
     (let neg = (take 1 s = ''-''); digits = (if take 1 s = ''-'' \<or> take 1 s = ''+'' then drop 1 s else s)
      in case ParseUint64 digits of
           None \<Rightarrow> None
         | Some n \<Rightarrow> if neg then (if n \<le> 2 ^ 63 then Some (- int n) else None) else if n < 2 ^ 63 then Some (int n) else None)"

text \<open>\<open>strconv.ParseUint (s, 8, 32)\<close>.\<close>

definition ParseOctal32 :: "string \<Rightarrow> 32 word option" where
  "ParseOctal32 s =
     (let n = foldl (\<lambda>v c. 8 * v + digit_val c) 0 s
      in if s = [] \<or> \<not> list_all (\<lambda>c. is_digit c \<and> digit_val c < 8) s \<or> 2 ^ 32 \<le> n then None else Some (of_nat n))"

definition ParseBool :: "string \<Rightarrow> bool option" where
  "ParseBool s =
     (if s \<in> set [''1'', ''t'', ''T'', ''true'', ''TRUE'', ''True''] then Some True
      else if s \<in> set [''0'', ''f'', ''F'', ''false'', ''FALSE'', ''False''] then Some False
      else None)"

text \<open>The padded variants of base64: padding completes the last group of four.\<close>

definition padded_decode :: "string \<Rightarrow> string \<Rightarrow> string option" where
  "padded_decode alphabet s =
     (let t = filter (\<lambda>c. c \<noteq> CHR 0x0A \<and> c \<noteq> CHR 0x0D) s;
          body = takeWhile (\<lambda>c. c \<noteq> CHR ''='') t; pad = dropWhile (\<lambda>c. c \<noteq> CHR ''='') t
      in if (pad = [] \<and> length body mod 4 = 0) \<or> (pad = ''='' \<and> length body mod 4 = 3) \<or> (pad = ''=='' \<and> length body mod 4 = 2)
         then decode_with alphabet body else None)"

text \<open>\<open>filepath.Join\<close> of two elements that are not empty, and \<open>filepath.Ext\<close>.\<close>

definition path_join :: "string \<Rightarrow> string \<Rightarrow> string" where
  "path_join a b = Clean (a @ ''/'' @ b)"

definition Ext :: "string \<Rightarrow> string" where
  "Ext path =
     (let base = rev (takeWhile (\<lambda>c. c \<noteq> CHR ''/'') (rev path)); tail = takeWhile (\<lambda>c. c \<noteq> CHR ''.'') (rev base)
      in if CHR ''.'' \<in> set base then CHR ''.'' # rev tail else [])"

section \<open>The configuration\<close>

record Config =
  cf_HTTPAddr :: string
  cf_DatabasePath :: string
  cf_AgentSocket :: string
  cf_AgentSharedKey :: string
  cf_AgentPreviousSharedKey :: string
  cf_AgentKeyID :: string
  cf_AgentPreviousKeyID :: string
  cf_AgentNonceStorePath :: string
  cf_AgentNonceTTL :: duration
  cf_AgentNonceCacheLimit :: int
  cf_AgentMaxMessageBytes :: int
  cf_AgentMaxOutputBytes :: int
  cf_AgentMaxConcurrent :: int
  cf_AgentMaxClockSkew :: duration
  cf_AgentSocketMode :: "32 word"
  cf_AgentSocketOwner :: string
  cf_AgentSocketGroup :: string
  cf_AgentExpectedPeerUID :: int
  cf_AgentExecutorMode :: string
  cf_AgentCapabilities :: "string list"
  cf_AdapterMode :: string
  cf_FixturePath :: string
  cf_AuthMode :: string
  cf_AllowedOrigins :: "string list"
  cf_SessionTTL :: duration
  cf_RequestTimeout :: duration
  cf_MaxBodyBytes :: int
  cf_BootstrapUser :: string
  cf_BootstrapPassword :: string
  cf_TOTPEncryptionKey :: string
  cf_MFARequiredRoles :: "string list"
  cf_EnableMutableOperations :: bool
  cf_DevScenario :: string

datatype config_error =
    NotADuration string | NotAnInteger string | NotABoolean string | NotAnOctalMode string
  | TOTPKeyLength | TOTPKeyEncoding | AgentKeyRequired
  | ClockSkewRange | NonceTTLCoverage | NonceCacheRange | MessageBytesRange | OutputBytesRange | ConcurrentRange | PeerUIDRange
  | SocketModeOpen | UnknownExecutor | FixtureRequired | FixtureNotJson | PeerIdentityRequired | CapabilitiesRequired
  | MutableReadOnly | UnknownAdapter

type_synonym environment = "string \<Rightarrow> string"

definition getenv :: "environment \<Rightarrow> string \<Rightarrow> string \<Rightarrow> string" where
  "getenv env k d = (let v = TrimSpace (env k) in if v \<noteq> [] then v else d)"

definition split :: "string \<Rightarrow> string list" where
  "split v = filter (\<lambda>p. p \<noteq> []) (map TrimSpace (split_at (CHR '','') v))"

definition duration :: "(string \<Rightarrow> duration option) \<Rightarrow> environment \<Rightarrow> string \<Rightarrow> duration \<Rightarrow> duration" where
  "duration parse env k d = (if env k = [] then d else case parse (env k) of None \<Rightarrow> d | Some x \<Rightarrow> x)"

definition durationStrict :: "(string \<Rightarrow> duration option) \<Rightarrow> environment \<Rightarrow> string \<Rightarrow> duration \<Rightarrow> config_error + duration" where
  "durationStrict parse env k d =
     (let v = TrimSpace (env k) in if v = [] then Inr d else case parse v of None \<Rightarrow> Inl (NotADuration k) | Some x \<Rightarrow> Inr x)"

definition int64Value :: "environment \<Rightarrow> string \<Rightarrow> int \<Rightarrow> int" where
  "int64Value env k d = (if env k = [] then d else case ParseInt64 (env k) of None \<Rightarrow> d | Some x \<Rightarrow> x)"

definition int64ValueStrict :: "environment \<Rightarrow> string \<Rightarrow> int \<Rightarrow> config_error + int" where
  "int64ValueStrict env k d =
     (let v = TrimSpace (env k) in if v = [] then Inr d else case ParseInt64 v of None \<Rightarrow> Inl (NotAnInteger k) | Some x \<Rightarrow> Inr x)"

definition intValueStrict :: "environment \<Rightarrow> string \<Rightarrow> int \<Rightarrow> config_error + int" where
  "intValueStrict env k d =
     (let v = TrimSpace (env k) in if v = [] then Inr d else case ParseInt64 v of None \<Rightarrow> Inl (NotAnInteger k) | Some x \<Rightarrow> Inr x)"

definition boolValue :: "environment \<Rightarrow> string \<Rightarrow> bool \<Rightarrow> config_error + bool" where
  "boolValue env k d =
     (let v = TrimSpace (env k) in if v = [] then Inr d else case ParseBool v of None \<Rightarrow> Inl (NotABoolean k) | Some x \<Rightarrow> Inr x)"

definition socketModeValue :: "environment \<Rightarrow> string \<Rightarrow> 32 word \<Rightarrow> config_error + 32 word" where
  "socketModeValue env k d =
     (let v0 = TrimSpace (env k)
      in if v0 = [] then Inr d
         else let v = TrimPrefix (TrimPrefix v0 ''0o'') ''0O''
              in if v = ''0'' then Inr 0
                 else let w = TrimPrefix v ''0''
                      in if w = [] then Inr 0 else case ParseOctal32 w of None \<Rightarrow> Inl (NotAnOctalMode k) | Some x \<Rightarrow> Inr x)"

definition decodeOptionalBase64 :: "string \<Rightarrow> config_error + string" where
  "decodeOptionalBase64 value0 =
     (let value = TrimSpace value0
      in if value = [] then Inr []
         else case List.map_filter (\<lambda>f. f value)
                [RawStd_DecodeString, padded_decode std_alphabet, RawURL_DecodeString, padded_decode url_alphabet] of
                [] \<Rightarrow> Inl TOTPKeyEncoding
              | raw # _ \<Rightarrow> if length raw \<noteq> 32 then Inl TOTPKeyLength else Inr raw)"

unbundle bit_operations_syntax

definition validateAgentConfig :: "Config \<Rightarrow> config_error option" where
  "validateAgentConfig cfg =
     (if cf_AgentMaxClockSkew cfg \<le> 0 \<or> cf_AgentMaxClockSkew cfg > 10 * minute then Some ClockSkewRange
      else if cf_AgentNonceTTL cfg < cf_AgentMaxClockSkew cfg \<or> cf_AgentNonceTTL cfg > 24 * hour then Some NonceTTLCoverage
      else if cf_AgentNonceCacheLimit cfg < 128 \<or> cf_AgentNonceCacheLimit cfg > 100000 then Some NonceCacheRange
      else if cf_AgentMaxMessageBytes cfg < 1 \<or> cf_AgentMaxMessageBytes cfg > 8 * 2 ^ 20 then Some MessageBytesRange
      else if cf_AgentMaxOutputBytes cfg < 1 \<or> cf_AgentMaxOutputBytes cfg > 4 * 2 ^ 20 then Some OutputBytesRange
      else if cf_AgentMaxConcurrent cfg < 1 \<or> cf_AgentMaxConcurrent cfg > 64 then Some ConcurrentRange
      else if cf_AgentExpectedPeerUID cfg < - 1 then Some PeerUIDRange
      else if cf_AgentSocketMode cfg AND NOT 0x1FF \<noteq> 0 \<or> cf_AgentSocketMode cfg AND 7 \<noteq> 0 \<or> cf_AgentSocketMode cfg AND 0x180 \<noteq> 0x180
        then Some SocketModeOpen
      else if cf_AgentExecutorMode cfg \<notin> set [''mock'', ''fixture'', ''readonly-freebsd''] then Some UnknownExecutor
      else if cf_AgentExecutorMode cfg = ''fixture'' \<and> cf_FixturePath cfg = [] then Some FixtureRequired
      else if cf_AgentExecutorMode cfg = ''fixture'' \<and> \<not> EqualFold (Ext (cf_FixturePath cfg)) ''.json'' then Some FixtureNotJson
      else if cf_AgentExecutorMode cfg = ''readonly-freebsd'' \<and>
             (cf_AgentSocketOwner cfg = [] \<or> cf_AgentSocketGroup cfg = [] \<or> cf_AgentExpectedPeerUID cfg < 0) then Some PeerIdentityRequired
      else if cf_AgentExecutorMode cfg = ''readonly-freebsd'' \<and> cf_AgentCapabilities cfg = [] then Some CapabilitiesRequired
      else None)"

definition validateAdapterConfig :: "Config \<Rightarrow> config_error option" where
  "validateAdapterConfig cfg =
     (if cf_EnableMutableOperations cfg \<and>
         (cf_AdapterMode cfg = ''freebsd-readonly'' \<or> cf_AdapterMode cfg = ''fixture'' \<or>
          cf_AgentExecutorMode cfg = ''fixture'' \<or> cf_AgentExecutorMode cfg = ''readonly-freebsd'') then Some MutableReadOnly
      else if cf_AdapterMode cfg \<in> set [''mock'', ''agent'', ''freebsd-readonly''] then None
      else if cf_AdapterMode cfg = ''fixture'' then
        (if cf_FixturePath cfg = [] then Some FixtureRequired
         else if \<not> EqualFold (Ext (cf_FixturePath cfg)) ''.json'' then Some FixtureNotJson else None)
      else Some UnknownAdapter)"

definition if_ok :: "'e + 'a \<Rightarrow> ('a \<Rightarrow> 'e + 'b) \<Rightarrow> 'e + 'b" where
  "if_ok r f = (case r of Inl e \<Rightarrow> Inl e | Inr x \<Rightarrow> f x)"

text \<open>The configuration before its checks.\<close>

definition read_config ::
    "(string \<Rightarrow> duration option) \<Rightarrow> environment \<Rightarrow> 32 word \<Rightarrow> int \<Rightarrow> bool \<Rightarrow> string \<Rightarrow> duration \<Rightarrow> duration
       \<Rightarrow> int \<Rightarrow> int \<Rightarrow> int \<Rightarrow> int \<Rightarrow> Config" where
  "read_config parse env socketMode peerUID mutable totpKey nonceTTL skew cacheLimit outputBytes concurrent messageBytes =
     (let dataDir = getenv env ''SAMBA_ADMIN_DATA_DIR'' ''./var''
      in \<lparr>cf_HTTPAddr = getenv env ''SAMBA_ADMIN_HTTP_ADDR'' ''127.0.0.1:8080'',
          cf_DatabasePath = getenv env ''SAMBA_ADMIN_DATABASE'' (path_join dataDir ''samba-admin.db''),
          cf_AgentSocket = getenv env ''SAMBA_ADMIN_AGENT_SOCKET'' (path_join dataDir ''samba-admin-agent.sock''),
          cf_AgentSharedKey = env ''SAMBA_ADMIN_AGENT_KEY'',
          cf_AgentPreviousSharedKey = env ''SAMBA_ADMIN_AGENT_PREVIOUS_KEY'',
          cf_AgentKeyID = getenv env ''SAMBA_ADMIN_AGENT_KEY_ID'' ''current'',
          cf_AgentPreviousKeyID = getenv env ''SAMBA_ADMIN_AGENT_PREVIOUS_KEY_ID'' ''previous'',
          cf_AgentNonceStorePath = getenv env ''SAMBA_ADMIN_AGENT_NONCE_STORE'' (path_join dataDir ''agent-nonces.json''),
          cf_AgentNonceTTL = nonceTTL, cf_AgentNonceCacheLimit = cacheLimit, cf_AgentMaxMessageBytes = messageBytes,
          cf_AgentMaxOutputBytes = outputBytes, cf_AgentMaxConcurrent = concurrent, cf_AgentMaxClockSkew = skew,
          cf_AgentSocketMode = socketMode, cf_AgentSocketOwner = TrimSpace (env ''SAMBA_ADMIN_AGENT_SOCKET_OWNER''),
          cf_AgentSocketGroup = TrimSpace (env ''SAMBA_ADMIN_AGENT_SOCKET_GROUP''), cf_AgentExpectedPeerUID = peerUID,
          cf_AgentExecutorMode = getenv env ''SAMBA_ADMIN_AGENT_EXECUTOR'' ''mock'',
          cf_AgentCapabilities = split (env ''SAMBA_ADMIN_AGENT_CAPABILITIES''),
          cf_AdapterMode = getenv env ''SAMBA_ADMIN_ADAPTER_MODE'' ''mock'',
          cf_FixturePath = TrimSpace (env ''SAMBA_ADMIN_FIXTURE_PATH''),
          cf_AuthMode = getenv env ''SAMBA_ADMIN_AUTH_MODE'' ''development-bypass'',
          cf_AllowedOrigins = split (getenv env ''SAMBA_ADMIN_ALLOWED_ORIGINS'' ''http://localhost:5173''),
          cf_SessionTTL = duration parse env ''SAMBA_ADMIN_SESSION_TTL'' (8 * hour),
          cf_RequestTimeout = duration parse env ''SAMBA_ADMIN_REQUEST_TIMEOUT'' (30 * second),
          cf_MaxBodyBytes = int64Value env ''SAMBA_ADMIN_MAX_BODY_BYTES'' (2 * 2 ^ 20),
          cf_BootstrapUser = getenv env ''SAMBA_ADMIN_BOOTSTRAP_USER'' ''admin'',
          cf_BootstrapPassword = env ''SAMBA_ADMIN_BOOTSTRAP_PASSWORD'', cf_TOTPEncryptionKey = totpKey,
          cf_MFARequiredRoles = split (env ''SAMBA_ADMIN_MFA_REQUIRED_ROLES''), cf_EnableMutableOperations = mutable,
          cf_DevScenario = getenv env ''SAMBA_ADMIN_DEV_SCENARIO'' ''success''\<rparr>)"

text \<open>The key of the agent: without one, a random key in development and an error elsewhere.\<close>

definition agent_key :: "string \<Rightarrow> Config \<Rightarrow> config_error + Config" where
  "agent_key random cfg =
     (if cf_AgentSharedKey cfg \<noteq> [] then Inr cfg
      else if cf_AuthMode cfg \<noteq> ''development-bypass'' then Inl AgentKeyRequired
      else Inr (cfg\<lparr>cf_AgentSharedKey := RawURL_EncodeToString random\<rparr>))"

definition Load :: "(string \<Rightarrow> duration option) \<Rightarrow> string \<Rightarrow> environment \<Rightarrow> config_error + Config" where
  "Load parse random env =
     if_ok (socketModeValue env ''SAMBA_ADMIN_AGENT_SOCKET_MODE'' 0x1B0) (\<lambda>socketMode.
     if_ok (intValueStrict env ''SAMBA_ADMIN_AGENT_EXPECTED_PEER_UID'' (- 1)) (\<lambda>peerUID.
     if_ok (boolValue env ''SAMBA_ADMIN_ENABLE_MUTABLE_OPERATIONS'' False) (\<lambda>mutable.
     if_ok (decodeOptionalBase64 (env ''SAMBA_ADMIN_TOTP_ENCRYPTION_KEY'')) (\<lambda>totpKey.
     if_ok (durationStrict parse env ''SAMBA_ADMIN_AGENT_NONCE_TTL'' (5 * minute)) (\<lambda>nonceTTL.
     if_ok (durationStrict parse env ''SAMBA_ADMIN_AGENT_MAX_CLOCK_SKEW'' (2 * minute)) (\<lambda>skew.
     if_ok (intValueStrict env ''SAMBA_ADMIN_AGENT_NONCE_CACHE_LIMIT'' 4096) (\<lambda>cacheLimit.
     if_ok (intValueStrict env ''SAMBA_ADMIN_AGENT_MAX_OUTPUT_BYTES'' (128 * 2 ^ 10)) (\<lambda>outputBytes.
     if_ok (intValueStrict env ''SAMBA_ADMIN_AGENT_MAX_CONCURRENT'' 4) (\<lambda>concurrent.
     if_ok (int64ValueStrict env ''SAMBA_ADMIN_AGENT_MAX_MESSAGE_BYTES'' (2 ^ 20)) (\<lambda>messageBytes.
     if_ok (agent_key random (read_config parse env socketMode peerUID mutable totpKey nonceTTL skew cacheLimit outputBytes concurrent messageBytes)) (\<lambda>cfg.
       case validateAgentConfig cfg of
         Some e \<Rightarrow> Inl e
       | None \<Rightarrow> (case validateAdapterConfig cfg of Some e \<Rightarrow> Inl e | None \<Rightarrow> Inr cfg))))))))))))"

section \<open>What a loaded configuration guarantees\<close>

lemma if_ok_Inr [simp]: "if_ok r f = Inr y \<longleftrightarrow> (\<exists>x. r = Inr x \<and> f x = Inr y)"
  by (cases r) (auto simp: if_ok_def)

text \<open>Every configuration that is returned has passed both checks.\<close>

lemma Load_checked:
  assumes "Load parse random env = Inr cfg"
  shows "validateAgentConfig cfg = None" "validateAdapterConfig cfg = None"
    "cf_AuthMode cfg \<noteq> ''development-bypass'' \<Longrightarrow> cf_AgentSharedKey cfg = env ''SAMBA_ADMIN_AGENT_KEY'' \<and> cf_AgentSharedKey cfg \<noteq> []"
    "cf_TOTPEncryptionKey cfg = [] \<or> length (cf_TOTPEncryptionKey cfg) = 32"
proof -
  obtain mode uid mut totp ttl skew cache out conc msg where
    totp: "decodeOptionalBase64 (env ''SAMBA_ADMIN_TOTP_ENCRYPTION_KEY'') = Inr totp"
    and key: "agent_key random (read_config parse env mode uid mut totp ttl skew cache out conc msg) = Inr cfg"
    and ok: "(case validateAgentConfig cfg of Some e \<Rightarrow> Inl e
       | None \<Rightarrow> (case validateAdapterConfig cfg of Some e \<Rightarrow> Inl e | None \<Rightarrow> Inr cfg)) = Inr cfg"
    using assms unfolding Load_def by (force split: option.splits)
  show "validateAgentConfig cfg = None" "validateAdapterConfig cfg = None" using ok by (auto split: option.splits)
  let ?c = "read_config parse env mode uid mut totp ttl skew cache out conc msg"
  show "cf_AgentSharedKey cfg = env ''SAMBA_ADMIN_AGENT_KEY'' \<and> cf_AgentSharedKey cfg \<noteq> []" if "cf_AuthMode cfg \<noteq> ''development-bypass''"
    using that key by (auto simp: agent_key_def read_config_def Let_def split: if_splits)
  have "length totp = 32 \<or> totp = []" using totp by (auto simp: decodeOptionalBase64_def Let_def split: if_splits list.splits)
  moreover have "cf_TOTPEncryptionKey cfg = totp" using key by (auto simp: agent_key_def read_config_def Let_def split: if_splits)
  ultimately show "cf_TOTPEncryptionKey cfg = [] \<or> length (cf_TOTPEncryptionKey cfg) = 32" by auto
qed

section \<open>The agent process\<close>

text \<open>
  What \<open>main\<close> of \<open>src/backend/cmd/samba-admin-agent/main.go\<close> makes of a configuration: the executor, if
  the fixture can be read where one is needed, and the options of the server.
\<close>

datatype executor_kind = Mock string | Fixture string | ReadOnly int

definition buildExecutor :: "(string \<Rightarrow> bool) \<Rightarrow> Config \<Rightarrow> executor_kind option" where
  "buildExecutor readable cfg =
     (if cf_AgentExecutorMode cfg = ''mock'' then Some (Mock (cf_DevScenario cfg))
      else if cf_AgentExecutorMode cfg = ''fixture'' then (if readable (cf_FixturePath cfg) then Some (Fixture (cf_FixturePath cfg)) else None)
      else if cf_AgentExecutorMode cfg = ''readonly-freebsd'' then Some (ReadOnly (cf_AgentMaxOutputBytes cfg))
      else None)"

definition agent_options :: "Config \<Rightarrow> server_options" where
  "agent_options cfg =
     \<lparr>so_KeyRing = \<lparr>kr_CurrentKey = cf_AgentSharedKey cfg, kr_CurrentID = cf_AgentKeyID cfg,
        kr_PreviousKey = cf_AgentPreviousSharedKey cfg, kr_PreviousID = cf_AgentPreviousKeyID cfg\<rparr>,
      so_Executor = True, so_MaxMessageBytes = cf_AgentMaxMessageBytes cfg, so_MaxOutputBytes = cf_AgentMaxOutputBytes cfg,
      so_MaxConcurrent = cf_AgentMaxConcurrent cfg, so_MaxClockSkew = cf_AgentMaxClockSkew cfg, so_NonceTTL = cf_AgentNonceTTL cfg,
      so_NonceCacheLimit = cf_AgentNonceCacheLimit cfg, so_NonceStorePath = cf_AgentNonceStorePath cfg,
      so_RequireCapabilities = (cf_AgentExecutorMode cfg = ''readonly-freebsd''),
      so_EnabledCapabilities = map (\<lambda>c. (c, True)) (cf_AgentCapabilities cfg),
      so_EnableMutableOperations = cf_EnableMutableOperations cfg\<rparr>"

lemma validated_bounds:
  assumes "validateAgentConfig cfg = None"
  shows "0 < cf_AgentMaxClockSkew cfg" "cf_AgentMaxClockSkew cfg \<le> 10 * minute" "cf_AgentMaxClockSkew cfg \<le> cf_AgentNonceTTL cfg"
    "cf_AgentNonceTTL cfg \<le> 24 * hour" "128 \<le> cf_AgentNonceCacheLimit cfg" "1 \<le> cf_AgentMaxMessageBytes cfg"
    "cf_AgentMaxMessageBytes cfg \<le> 8 * 2 ^ 20" "1 \<le> cf_AgentMaxOutputBytes cfg" "cf_AgentMaxOutputBytes cfg \<le> 4 * 2 ^ 20"
    "1 \<le> cf_AgentMaxConcurrent cfg" "cf_AgentMaxConcurrent cfg \<le> 64" "cf_AgentSocketMode cfg AND 7 = 0"
    "cf_AgentExecutorMode cfg \<in> set [''mock'', ''fixture'', ''readonly-freebsd'']"
    "cf_AgentExecutorMode cfg = ''readonly-freebsd'' \<Longrightarrow> 0 \<le> cf_AgentExpectedPeerUID cfg \<and> cf_AgentCapabilities cfg \<noteq> []"
  using assms by (auto simp: validateAgentConfig_def split: if_splits)

lemma mutations_need_mock:
  assumes "validateAgentConfig cfg = None" "validateAdapterConfig cfg = None" "cf_EnableMutableOperations cfg"
  shows "cf_AgentExecutorMode cfg = ''mock'' \<and> cf_AdapterMode cfg \<in> set [''mock'', ''agent'']"
  using assms validated_bounds(13) [OF assms(1)] by (auto simp: validateAdapterConfig_def split: if_splits)

lemma NewServerWithOptions_Inr:
  assumes "NewServerWithOptions nenv opts d = (Inr s, d1)"
  shows "sv_inflight s = 0" "sv_slots s = so_MaxConcurrent opts" "sv_mutableEnabled s = so_EnableMutableOperations opts"
    "sv_requireCapabilities s = so_RequireCapabilities opts"
  using assms by (auto simp: NewServerWithOptions_def split: option.splits if_splits prod.splits sum.splits)


definition sample_environment :: environment where
  "sample_environment k = (if k = ''SAMBA_ADMIN_AGENT_KEY'' then replicate 32 (CHR ''k'') else [])"

definition sample_config :: Config where
  "sample_config = read_config (\<lambda>_. None) sample_environment 0x1B0 (- 1) False [] (5 * minute) (2 * minute) 4096 (128 * 2 ^ 10) 4 (2 ^ 20)"

lemma sample_environment_empty: "k \<noteq> ''SAMBA_ADMIN_AGENT_KEY'' \<Longrightarrow> sample_environment k = []"
  by (simp add: sample_environment_def)

lemma sample_config_fields:
  "cf_AgentSharedKey sample_config = replicate 32 (CHR ''k'')" "cf_AgentMaxClockSkew sample_config = 2 * minute"
  "cf_AgentNonceTTL sample_config = 5 * minute" "cf_AgentNonceCacheLimit sample_config = 4096" "cf_AgentMaxMessageBytes sample_config = 2 ^ 20"
  "cf_AgentMaxOutputBytes sample_config = 128 * 2 ^ 10" "cf_AgentMaxConcurrent sample_config = 4" "cf_AgentExpectedPeerUID sample_config = - 1"
  "cf_AgentSocketMode sample_config = 0x1B0" "cf_AgentExecutorMode sample_config = ''mock''" "cf_AdapterMode sample_config = ''mock''"
  "cf_AgentKeyID sample_config = ''current''" "cf_AgentPreviousSharedKey sample_config = []" "\<not> cf_EnableMutableOperations sample_config"
  "cf_AgentNonceStorePath sample_config = path_join ''./var'' ''agent-nonces.json''" "cf_DevScenario sample_config = ''success''"
  by (simp_all add: sample_config_def read_config_def Let_def getenv_def sample_environment_def)

lemma sample_config_loads: "Load (\<lambda>_. None) [] sample_environment = Inr sample_config"
proof -
  have "validateAgentConfig sample_config = None"
    by (simp add: validateAgentConfig_def sample_config_fields)
  moreover have "validateAdapterConfig sample_config = None"
    by (simp add: validateAdapterConfig_def sample_config_fields)
  moreover have "agent_key [] sample_config = Inr sample_config" by (simp add: agent_key_def sample_config_fields)
  moreover have "read_config (\<lambda>_. None) sample_environment 432 (- 1) False [] 300000000000 120000000000 4096 131072 4 1048576 = sample_config"
    by (simp add: sample_config_def)
  ultimately show ?thesis
    by (simp add: Load_def if_ok_def socketModeValue_def intValueStrict_def boolValue_def decodeOptionalBase64_def durationStrict_def
        int64ValueStrict_def sample_environment_empty)
qed


text \<open>
  C21. The agent that runs on a loaded configuration executes a mutating operation only with the mock executor:
  under every interleaving of requests the executions under way are at most as many as configured, and never more than 64,
  they are operations of the catalog, and one that mutates has the mock executor.
\<close>

theorem configured_agent_mutates_only_mock:
  assumes "Load parse random env = Inr cfg" "NewServerWithOptions nenv (agent_options cfg) d0 = (Inr s0, d1)"
    and "agent_reachable (s0, d1) (s, d, active)"
  shows "int (length active) \<le> cf_AgentMaxConcurrent cfg \<and> length active \<le> 64 \<and>
     (\<forall>(r, spec)\<in>set active. LookupOperation (rq_Operation r) = Some spec \<and>
        (IsMutation spec \<longrightarrow> (\<exists>scenario. buildExecutor readable cfg = Some (Mock scenario))))"
proof -
  note ok = Load_checked [OF assms(1)]
  note b = validated_bounds [OF ok(1)]
  note s0 = NewServerWithOptions_Inr [OF assms(2)]
  have "sv_inflight s0 = 0" "sv_slots s0 = cf_AgentMaxConcurrent cfg" "sv_mutableEnabled s0 = cf_EnableMutableOperations cfg"
    using s0 by (simp_all add: agent_options_def)
  then have "agent_inv s0 (s, d, active)" using agent_reachable_inv [OF assms(3)] b(10) by simp
  then show ?thesis
    using mutations_need_mock [OF ok(1,2)] b(11) s0 by (auto simp: agent_inv_def agent_options_def buildExecutor_def)
qed

lemma sample_config_server:
  "\<exists>s0. NewServerWithOptions (plain_env 0) (agent_options sample_config) empty_disk = (Inr s0, empty_disk)"
proof -
  note cat = Catalog_valid
  have id: "TrimSpace ''current'' \<noteq> []" by code_simp
  have path: "TrimSpace (path_join ''./var'' ''agent-nonces.json'') \<noteq> []" by code_simp
  have keys: "KeyRing_Validate (so_KeyRing (agent_options sample_config)) = None"
    by (simp add: agent_options_def KeyRing_Validate_def sample_config_fields id)
  show ?thesis
    by (simp add: NewServerWithOptions_def cat keys, simp add: agent_options_def sample_config_fields NewNonceStore_def path load_def plain_env_def no_faults_def
        empty_disk_def validateNonceDirectory_def purgeLocked_def)
qed

theorem configured_agent_mutates_only_mock_witness:
  "\<exists>s0. NewServerWithOptions (plain_env 0) (agent_options sample_config) empty_disk = (Inr s0, empty_disk) \<and>
     agent_reachable (s0, empty_disk) (s0, empty_disk, []) \<and> length ([] :: (Request \<times> OperationSpec) list) \<le> 64"
proof -
  obtain s0 where s0: "NewServerWithOptions (plain_env 0) (agent_options sample_config) empty_disk = (Inr s0, empty_disk)"
    using sample_config_server by blast
  have r: "agent_reachable (s0, empty_disk) (s0, empty_disk, [])" using agent_reachable.start [of "(s0, empty_disk)"] by simp
  from configured_agent_mutates_only_mock [OF sample_config_loads s0 r] show ?thesis using s0 r by blast
qed

end
