(* ===== verification/Shares.thy ===== *)
theory Shares
  imports Paths Json
begin

text \<open>
  Shares: their validation and their rendering as a section of \<open>smb4.conf\<close>
  (\<open>validateShare\<close>, \<open>renderShare\<close> of \<open>src/backend/internal/httpapi/server.go\<close>).
\<close>

section \<open>Shares\<close>

text \<open>A Go slice: \<open>nil\<close> is \<open>None\<close>, which only its encoding distinguishes from an empty one.\<close>

definition slice :: "'a list option \<Rightarrow> 'a list" where
  "slice v = (case v of None \<Rightarrow> [] | Some xs \<Rightarrow> xs)"

record Share =
  sh_ID :: string
  sh_Name :: string
  sh_Description :: string
  sh_Path :: string
  sh_Enabled :: bool
  sh_ReadOnly :: bool
  sh_GuestAccess :: bool
  sh_AllowedPrincipals :: "string list option"
  sh_DeniedPrincipals :: "string list option"
  sh_Encryption :: string
  sh_Signing :: string
  sh_AuditProfile :: string
  sh_RecycleBin :: bool
  sh_DFS :: bool
  sh_VFSModules :: "string list option"
  sh_MaxConnections :: int
  sh_ACLModel :: string

datatype share_error =
    BadField validation_error | GuestRefused | PrincipalCount | EncryptionPolicy | SigningPolicy | AuditPolicy | AclPolicy
  | TooManyModules | ModuleRefused string | ConnectionLimit

text \<open>The text of an error.\<close>

fun validation_text :: "validation_error \<Rightarrow> string" where
  "validation_text PathRequired = (''caminho obrigat'' @ [CHR 0xC3, CHR 0xB3] @ ''rio'')"
| "validation_text PathControlCharacter = (''caminho cont'' @ [CHR 0xC3, CHR 0xA9] @ ''m caractere de controle'')"
| "validation_text PathNotCanonical = (''caminho deve estar em forma can'' @ [CHR 0xC3, CHR 0xB4] @ ''nica e sem travessia'')"
| "validation_text PathNotAbsolute = ''caminho deve ser absoluto''"
| "validation_text PathBlocked = (''diret'' @ [CHR 0xC3, CHR 0xB3] @ ''rio sens'' @ [CHR 0xC3, CHR 0xAD] @ ''vel bloqueado'')"
| "validation_text PathOutsideRoots = ''caminho fora dos volumes autorizados''"
| "validation_text FileNotCanonical = (''arquivo deve usar caminho absoluto e can'' @ [CHR 0xC3, CHR 0xB4] @ ''nico'')"
| "validation_text FileNotListed = ''arquivo fora da lista autorizada''"
| "validation_text (FieldRequired f) = f @ ('' '' @ [CHR 0xC3, CHR 0xA9] @ '' obrigat'' @ [CHR 0xC3, CHR 0xB3] @ ''rio'')"
| "validation_text (FieldTooLong f) = f @ '' excede o tamanho permitido''"
| "validation_text (FieldNotSingleLine f) = f @ ('' deve ocupar uma '' @ [CHR 0xC3, CHR 0xBA] @ ''nica linha'')"
| "validation_text PrincipalCharacter = (''principal cont'' @ [CHR 0xC3, CHR 0xA9] @ ''m caractere n'' @ [CHR 0xC3, CHR 0xA3] @ ''o permitido'')"
| "validation_text NameInvalid = (''nome inv'' @ [CHR 0xC3, CHR 0xA1] @ ''lido'')"
| "validation_text NameCharacter = (''nome cont'' @ [CHR 0xC3, CHR 0xA9] @ ''m caractere n'' @ [CHR 0xC3, CHR 0xA3] @ ''o permitido'')"
| "validation_text KeyLength = (''a chave de idempot'' @ [CHR 0xC3, CHR 0xAA] @ ''ncia deve conter entre 8 e 128 caracteres'')"
| "validation_text KeyCharacter = (''a chave de idempot'' @ [CHR 0xC3, CHR 0xAA] @ ''ncia cont'' @ [CHR 0xC3, CHR 0xA9] @ ''m caractere n'' @ [CHR 0xC3, CHR 0xA3] @ ''o permitido'')"

fun share_error_text :: "share_error \<Rightarrow> string" where
  "share_error_text (BadField e) = validation_text e"
| "share_error_text GuestRefused = (''acesso guest n'' @ [CHR 0xC3, CHR 0xA3] @ ''o permitido'')"
| "share_error_text PrincipalCount = ''lista de principals fora da faixa permitida''"
| "share_error_text EncryptionPolicy = (''pol'' @ [CHR 0xC3, CHR 0xAD] @ ''tica de criptografia inv'' @ [CHR 0xC3, CHR 0xA1] @ ''lida'')"
| "share_error_text SigningPolicy = (''pol'' @ [CHR 0xC3, CHR 0xAD] @ ''tica de assinatura inv'' @ [CHR 0xC3, CHR 0xA1] @ ''lida'')"
| "share_error_text AuditPolicy = (''perfil de auditoria inv'' @ [CHR 0xC3, CHR 0xA1] @ ''lido'')"
| "share_error_text AclPolicy = (''modelo de ACL inv'' @ [CHR 0xC3, CHR 0xA1] @ ''lido'')"
| "share_error_text TooManyModules = (''m'' @ [CHR 0xC3, CHR 0xB3] @ ''dulos VFS excedem o limite'')"
| "share_error_text (ModuleRefused m) = (''m'' @ [CHR 0xC3, CHR 0xB3] @ ''dulo VFS n'' @ [CHR 0xC3, CHR 0xA3] @ ''o permitido: '') @ m"
| "share_error_text ConnectionLimit = (''limite de conex'' @ [CHR 0xC3, CHR 0xB5] @ ''es fora da faixa'')"

definition oneOf :: "string \<Rightarrow> string list \<Rightarrow> bool" where
  "oneOf value allowed = list_ex (\<lambda>candidate. value = candidate) allowed"

definition validateShare :: "Share \<Rightarrow> share_error option" where
  "validateShare s =
     orElse (map_option BadField (ShareName (sh_Name s)))
     (orElse (map_option BadField (SharePath (sh_Path s)))
     (guard_err (sh_GuestAccess s) GuestRefused
     (orElse (map_option BadField (SingleLine (''descri'' @ [CHR 0xC3, CHR 0xA7, CHR 0xC3, CHR 0xA3] @ ''o'') (sh_Description s) 255 False))
     (guard_err (slice (sh_AllowedPrincipals s) = [] \<or> length (slice (sh_AllowedPrincipals s)) > 256 \<or> length (slice (sh_DeniedPrincipals s)) > 256) PrincipalCount
     (orElse (firstErr (\<lambda>p. map_option BadField (Principal p)) (slice (sh_AllowedPrincipals s) @ slice (sh_DeniedPrincipals s)))
     (guard_err (\<not> oneOf (sh_Encryption s) [''disabled'', ''desired'', ''required'']) EncryptionPolicy
     (guard_err (\<not> oneOf (sh_Signing s) [''default'', ''mandatory'']) SigningPolicy
     (guard_err (\<not> oneOf (sh_AuditProfile s) [''off'', ''minimum'', ''security'', ''changes'', ''complete'']) AuditPolicy
     (guard_err (\<not> oneOf (sh_ACLModel s) [''posix'', ''nfsv4'', ''none'']) AclPolicy
     (guard_err (length (slice (sh_VFSModules s)) > 8) TooManyModules
     (orElse (firstErr (\<lambda>m. if \<not> oneOf m [''acl_xattr'', ''recycle'', ''full_audit''] then Some (ModuleRefused m) else None) (slice (sh_VFSModules s)))
     (guard_err (sh_MaxConnections s < 1 \<or> sh_MaxConnections s > 10000) ConnectionLimit None))))))))))))"

definition yesNo :: "bool \<Rightarrow> string" where
  "yesNo v = (if v then ''yes'' else ''no'')"

definition newline :: char where "newline = CHR 0x0A"

text \<open>The lines of a section.\<close>

definition share_lines :: "Share \<Rightarrow> string list" where
  "share_lines s =
     (let enc = (if sh_Encryption s = ''disabled'' then ''off'' else sh_Encryption s);
          valid0 = Join (slice (sh_AllowedPrincipals s)) '' '';
          valid = (if valid0 = [] then (''@EBSERHNET'' @ [CHR 0x5C] @ ''Domain Users'') else valid0)
      in [''['' @ sh_Name s @ '']'', ''  comment = '' @ sh_Description s, ''  path = '' @ sh_Path s, ''  browseable = yes'',
          ''  read only = '' @ yesNo (sh_ReadOnly s), ''  guest ok = no'', ''  server smb encrypt = '' @ enc,
          ''  server signing = '' @ sh_Signing s, ''  valid users = '' @ valid, ''  vfs objects = '' @ Join (slice (sh_VFSModules s)) '' ''])"

definition renderShare :: "Share \<Rightarrow> string" where
  "renderShare s = concat (map (\<lambda>l. l @ [newline]) (share_lines s))"

section \<open>Encoding\<close>

text \<open>A struct: its fields in order, each already encoded.\<close>

definition struct_text :: "(string \<times> string) list \<Rightarrow> string" where
  "struct_text fs = ''{'' @ Join (map (\<lambda>(key, v). quote key @ '':'' @ v) fs) '','' @ ''}''"

definition strings_text :: "string list option \<Rightarrow> string" where
  "strings_text v = (case v of None \<Rightarrow> ''null'' | Some xs \<Rightarrow> marshal (JArr (map JStr xs)))"

definition share_text :: "Share \<Rightarrow> string" where
  "share_text s = struct_text
     [(''id'', quote (sh_ID s)), (''name'', quote (sh_Name s)), (''description'', quote (sh_Description s)), (''path'', quote (sh_Path s)),
      (''enabled'', marshal (JBool (sh_Enabled s))), (''readOnly'', marshal (JBool (sh_ReadOnly s))),
      (''guestAccess'', marshal (JBool (sh_GuestAccess s))), (''allowedPrincipals'', strings_text (sh_AllowedPrincipals s)),
      (''deniedPrincipals'', strings_text (sh_DeniedPrincipals s)), (''encryption'', quote (sh_Encryption s)),
      (''signing'', quote (sh_Signing s)), (''auditProfile'', quote (sh_AuditProfile s)), (''recycleBin'', marshal (JBool (sh_RecycleBin s))),
      (''dfs'', marshal (JBool (sh_DFS s))), (''vfsModules'', strings_text (sh_VFSModules s)),
      (''maxConnections'', marshal (JNum (sh_MaxConnections s))), (''aclModel'', quote (sh_ACLModel s))]"

section \<open>Rendering\<close>

lemma split_at_lines:
  "\<forall>l\<in>set ls. newline \<notin> set l \<Longrightarrow> split_at newline (concat (map (\<lambda>l. l @ [newline]) ls)) = ls @ [[]]"
  by (induction ls) (auto simp: split_at_append)

lemma no_newline: "\<not> ContainsAny v control_chars \<Longrightarrow> newline \<notin> set v"
  by (auto simp: ContainsAny_iff control_chars_def newline_def)

lemma set_Join: "set (Join xs sep) \<subseteq> (\<Union>x\<in>set xs. set x) \<union> set sep"
  by (induction xs sep rule: Join.induct) auto

lemma Join_no_newline: "\<forall>x\<in>set xs. newline \<notin> set x \<Longrightarrow> newline \<notin> set (Join xs '' '')"
  using set_Join [of xs "'' ''"] by (auto simp: newline_def)

lemma validateShare_None:
  assumes "validateShare s = None"
  shows "ShareName (sh_Name s) = None" "SharePath (sh_Path s) = None" "\<not> sh_GuestAccess s"
    "newline \<notin> set (sh_Description s)" "\<forall>p\<in>set (slice (sh_AllowedPrincipals s)). Principal p = None" "slice (sh_AllowedPrincipals s) \<noteq> []"
    "sh_Encryption s \<in> set [''disabled'', ''desired'', ''required'']" "sh_Signing s \<in> set [''default'', ''mandatory'']"
    "set (slice (sh_VFSModules s)) \<subseteq> set [''acl_xattr'', ''recycle'', ''full_audit'']"
proof -
  have guard: "(if c then Some e else k) = None \<longleftrightarrow> \<not> c \<and> k = None" for c :: bool and e k by simp
  have all: "ShareName (sh_Name s) = None \<and> SharePath (sh_Path s) = None \<and> \<not> sh_GuestAccess s \<and>
      SingleLine (''descri'' @ [CHR 0xC3, CHR 0xA7, CHR 0xC3, CHR 0xA3] @ ''o'') (sh_Description s) 255 False = None \<and> (\<forall>p\<in>set (slice (sh_AllowedPrincipals s)). Principal p = None) \<and>
      slice (sh_AllowedPrincipals s) \<noteq> [] \<and> oneOf (sh_Encryption s) [''disabled'', ''desired'', ''required''] \<and>
      oneOf (sh_Signing s) [''default'', ''mandatory''] \<and> (\<forall>m\<in>set (slice (sh_VFSModules s)). oneOf m [''acl_xattr'', ''recycle'', ''full_audit''])"
    using assms unfolding validateShare_def guard orElse_None_iff firstErr_None_iff by simp
  then show "ShareName (sh_Name s) = None" "SharePath (sh_Path s) = None" "\<not> sh_GuestAccess s"
    "\<forall>p\<in>set (slice (sh_AllowedPrincipals s)). Principal p = None" "slice (sh_AllowedPrincipals s) \<noteq> []" by blast+
  show "newline \<notin> set (sh_Description s)" using all by (rule no_newline [OF SingleLine_no_control [OF conjunct1 [OF conjunct2 [OF conjunct2 [OF conjunct2]]]]])
  show "sh_Encryption s \<in> set [''disabled'', ''desired'', ''required'']" "sh_Signing s \<in> set [''default'', ''mandatory'']"
    "set (slice (sh_VFSModules s)) \<subseteq> set [''acl_xattr'', ''recycle'', ''full_audit'']"
    using all by (auto simp: oneOf_def)
qed

lemma share_lines_single:
  assumes "validateShare s = None"
  shows "\<forall>l\<in>set (share_lines s). newline \<notin> set l"
proof -
  note v = validateShare_None [OF assms]
  have name: "newline \<notin> set (sh_Name s)" and path: "newline \<notin> set (sh_Path s)"
    using no_newline [OF ShareName_no_control [OF v(1)]] no_newline [OF SharePath_no_control [OF v(2)]] by blast+
  have users: "newline \<notin> set (Join (slice (sh_AllowedPrincipals s)) '' '')"
    using v(5) no_newline [OF Principal_single_line] by (intro Join_no_newline) blast
  have vfs: "newline \<notin> set (Join (slice (sh_VFSModules s)) '' '')"
    using v(9) by (intro Join_no_newline) (auto simp: newline_def)
  have enc: "newline \<notin> set (sh_Encryption s)" "newline \<notin> set (sh_Signing s)" using v(7,8) by (auto simp: newline_def)
  show ?thesis
    using name path users vfs enc v(4) unfolding share_lines_def Let_def yesNo_def newline_def by simp
qed

text \<open>
  C23. A share that passes validation is rendered as exactly one section of ten lines: the section header with its
  name, then its comment, path and options, each on a line of its own, whatever text its fields hold; guest access is off, the path
  is at or below the share volumes and the encryption, signing and VFS options are of the fixed lists.  No field can add an option
  or open another section.
\<close>

theorem rendered_share_has_no_injected_lines:
  assumes "validateShare s = None"
  shows "split_at newline (renderShare s) =
      [''['' @ sh_Name s @ '']'', ''  comment = '' @ sh_Description s, ''  path = '' @ sh_Path s, ''  browseable = yes'',
       ''  read only = '' @ yesNo (sh_ReadOnly s), ''  guest ok = no'',
       ''  server smb encrypt = '' @ (if sh_Encryption s = ''disabled'' then ''off'' else sh_Encryption s),
       ''  server signing = '' @ sh_Signing s, ''  valid users = '' @ Join (slice (sh_AllowedPrincipals s)) '' '',
       ''  vfs objects = '' @ Join (slice (sh_VFSModules s)) '' '', []] \<and>
    \<not> sh_GuestAccess s \<and> SharePath (sh_Path s) = None \<and> sh_Encryption s \<in> {''disabled'', ''desired'', ''required''} \<and>
    set (slice (sh_VFSModules s)) \<subseteq> {''acl_xattr'', ''recycle'', ''full_audit''}"
proof -
  note v = validateShare_None [OF assms]
  have "Join xs '' '' \<noteq> []" if "xs \<noteq> []" "\<forall>p\<in>set xs. Principal p = None" for xs
    using that by (cases xs rule: remdups_adj.cases) (auto simp: Principal_def SingleLine_def split: if_splits option.splits)
  then have "Join (slice (sh_AllowedPrincipals s)) '' '' \<noteq> []" using v(5,6) by blast
  then have "share_lines s = butlast (split_at newline (renderShare s))" and "split_at newline (renderShare s) = share_lines s @ [[]]"
    unfolding renderShare_def split_at_lines [OF share_lines_single [OF assms]] by simp_all
  then show ?thesis using v \<open>Join (slice (sh_AllowedPrincipals s)) '' '' \<noteq> []\<close> by (simp add: share_lines_def Let_def)
qed

definition sample_share :: Share where
  "sample_share = \<lparr>sh_ID = [], sh_Name = ''dados'', sh_Description = ''Dados [global]'', sh_Path = ''/srv/dados/publico'', sh_Enabled = True,
     sh_ReadOnly = False, sh_GuestAccess = False, sh_AllowedPrincipals = Some [''@equipe''], sh_DeniedPrincipals = None,
     sh_Encryption = ''required'', sh_Signing = ''mandatory'', sh_AuditProfile = ''changes'', sh_RecycleBin = True, sh_DFS = False,
     sh_VFSModules = Some [''recycle''], sh_MaxConnections = 50, sh_ACLModel = ''nfsv4''\<rparr>"

lemma sample_share_valid: "validateShare sample_share = None"
  by code_simp

theorem rendered_share_has_no_injected_lines_witness:
  "validateShare sample_share = None \<and> length (split_at newline (renderShare sample_share)) = 11 \<and>
   split_at newline (renderShare sample_share) ! 1 = ''  comment = Dados [global]''"
  using rendered_share_has_no_injected_lines [OF sample_share_valid] sample_share_valid by (simp add: sample_share_def)

text \<open>
  The names of \<open>valid users\<close> are joined with blanks and a principal may hold a blank, so two lists of principals
  can give the same text: one group with a blank in its name is rendered as two names.  A description may also end in the
  character that continues a line of \<open>smb4.conf\<close>.
\<close>

lemma principal_with_blank_ambiguous:
  "let one = sample_share\<lparr>sh_AllowedPrincipals := Some [''Domain Users'']\<rparr>;
       two = sample_share\<lparr>sh_AllowedPrincipals := Some [''Domain'', ''Users'']\<rparr>
   in validateShare one = None \<and> validateShare two = None \<and> renderShare one = renderShare two"
  by code_simp

lemma description_may_end_in_continuation:
  "validateShare (sample_share\<lparr>sh_Description := ''Dados'' @ [CHR 0x5C]\<rparr>) = None"
  by code_simp

end
