(* ===== verification/Http.thy ===== *)
theory Http
  imports Auth Configuration Rbac Jobs Shares
begin

text \<open>
  HTTP: requests, responses and the middleware chain of \<open>src/backend/internal/middleware/context.go\<close> around the
  state of the API server.  A handler maps a request and the state to a response and the next state.  The values that the chain
  attaches to the context of a request (correlation identifier, user, CSRF token) are fields of the request, zero where none was
  attached.  \<open>ht_Query\<close> and \<open>ht_PathValue\<close> are what \<open>net/url\<close> and the router make of
  the query and the path.  The response is what reaches the client: the headers set before the status was written, the status and the body.  A
  body that cannot be read is \<open>None\<close>.  Logging and the recovery from panics are not modelled.
\<close>

section \<open>Requests and responses\<close>

definition zero_User :: User where
  "zero_User = \<lparr>u_ID = [], u_Username = [], u_DisplayName = [], u_Roles = [], u_BreakGlass = False, u_MFAEnabled = False\<rparr>"

record http =
  ht_Method :: string
  ht_Path :: string
  ht_EscapedPath :: string
  ht_RawQuery :: string
  ht_Query :: "string \<Rightarrow> string"
  ht_PathValue :: "string \<Rightarrow> string"
  ht_Values :: "string \<Rightarrow> string list"
  ht_Cookie :: "string \<Rightarrow> string option"
  ht_Body :: "string option"
  ht_RemoteAddr :: string
  ht_correlation :: string
  ht_user :: User
  ht_csrf :: string

text \<open>\<open>r.Header.Get\<close>.\<close>

definition ht_Header :: "http \<Rightarrow> string \<Rightarrow> string" where
  "ht_Header r name = (case ht_Values r name of [] \<Rightarrow> [] | v # _ \<Rightarrow> v)"

text \<open>The session cookie; its name, path, \<open>HttpOnly\<close> and \<open>SameSite\<close> are the same in all of them.\<close>

record cookie =
  ck_Value :: string
  ck_Expires :: "time option"
  ck_MaxAge :: int
  ck_Secure :: bool

record response =
  re_Status :: nat
  re_Header :: "(string \<times> string) list"
  re_Cookie :: "cookie option"
  re_Body :: string

type_synonym 'w handler = "http \<Rightarrow> 'w \<Rightarrow> response \<times> 'w"

definition CorrelationID :: "http \<Rightarrow> string" where "CorrelationID r = ht_correlation r"
definition CurrentUser :: "http \<Rightarrow> User" where "CurrentUser r = ht_user r"
definition CSRFToken :: "http \<Rightarrow> string" where "CSRFToken r = ht_csrf r"

text \<open>Headers that were set before the handler ran; what the handler sets replaces them.\<close>

definition under :: "(string \<times> string) list \<Rightarrow> response \<Rightarrow> response" where
  "under hs resp = resp\<lparr>re_Header := foldl (\<lambda>acc (k, v). map_set k v acc) hs (re_Header resp)\<rparr>"

text \<open>\<open>json.NewEncoder (w).Encode\<close> ends the text with a line feed.\<close>

definition encoded :: "string \<Rightarrow> string" where
  "encoded text = text @ [newline]"

definition writeProblem :: "http \<Rightarrow> nat \<Rightarrow> string \<Rightarrow> string \<Rightarrow> string \<Rightarrow> response" where
  "writeProblem r status typ title detail =
     \<lparr>re_Status = status, re_Header = [(''Content-Type'', ''application/problem+json'')], re_Cookie = None,
      re_Body = encoded (marshal (JObj [(''type'', JStr typ), (''title'', JStr title), (''status'', JNum (int status)), (''detail'', JStr detail),
        (''correlationId'', JStr (CorrelationID r))]))\<rparr>"

section \<open>Middleware\<close>

definition validCorrelationID :: "string \<Rightarrow> bool" where
  "validCorrelationID value =
     (if value = [] \<or> length value > 128 then False
      else list_all (\<lambda>c. is_alnum c \<or> c = CHR ''-'' \<or> c = CHR ''_'' \<or> c = CHR ''.'') value)"

text \<open>The twelve random bytes are an argument.\<close>

definition RequestID :: "string \<Rightarrow> 'w handler \<Rightarrow> 'w handler" where
  "RequestID random next r w =
     (let id0 = TrimSpace (ht_Header r ''X-Correlation-ID'');
          id = (if validCorrelationID id0 then id0 else ''corr-'' @ hex_encode random)
      in case next (r\<lparr>ht_correlation := id\<rparr>) w of (resp, w1) \<Rightarrow> (under [(''X-Correlation-ID'', id)] resp, w1))"

definition BodyLimit :: "int \<Rightarrow> 'w handler \<Rightarrow> 'w handler" where
  "BodyLimit n next r w =
     next (r\<lparr>ht_Body := (case ht_Body r of None \<Rightarrow> None | Some b \<Rightarrow> if int (length b) > n then None else Some b)\<rparr>) w"

text \<open>
  \<open>http.TimeoutHandler\<close>: whether the deadline passes before the handler returns is an argument; the handler runs
  to its end all the same, but its response is not sent.
\<close>

definition timeout_body :: string where
  "timeout_body = (''{'' @ [CHR 0x22] @ ''type'' @ [CHR 0x22] @ '':'' @ [CHR 0x22] @ ''timeout'' @ [CHR 0x22] @ '','' @ [CHR 0x22] @ ''title'' @ [CHR 0x22] @ '':'' @ [CHR 0x22] @ ''Tempo limite excedido'' @ [CHR 0x22] @ '','' @ [CHR 0x22] @ ''status'' @ [CHR 0x22] @ '':503,'' @ [CHR 0x22] @ ''detail'' @ [CHR 0x22] @ '':'' @ [CHR 0x22] @ ''A requisi'' @ [CHR 0xC3, CHR 0xA7, CHR 0xC3, CHR 0xA3] @ ''o excedeu o limite operacional.'' @ [CHR 0x22] @ ''}'')"

definition TimeoutExcept :: "bool \<Rightarrow> duration \<Rightarrow> string \<Rightarrow> 'w handler \<Rightarrow> 'w handler" where
  "TimeoutExcept late d excludedPath next r w =
     (if d \<le> 0 \<or> ht_Path r = excludedPath then next r w
      else case next r w of
        (resp, w1) \<Rightarrow> (if late then \<lparr>re_Status = 503, re_Header = [], re_Cookie = None, re_Body = timeout_body\<rparr> else resp, w1))"

definition SecurityHeaders :: "'w handler \<Rightarrow> 'w handler" where
  "SecurityHeaders next r w =
     (case next r w of
        (resp, w1) \<Rightarrow>
          (under [(''X-Content-Type-Options'', ''nosniff''), (''X-Frame-Options'', ''DENY''), (''Referrer-Policy'', ''no-referrer''),
                  (''Content-Security-Policy'', (''default-src '' @ [CHR 0x27] @ ''none'' @ [CHR 0x27] @ ''; frame-ancestors '' @ [CHR 0x27] @ ''none'' @ [CHR 0x27])), (''Cache-Control'', ''no-store'')] resp, w1))"

definition CORS :: "string list \<Rightarrow> 'w handler \<Rightarrow> 'w handler" where
  "CORS origins next r w =
     (let origin = ht_Header r ''Origin'';
          hs = (if origin \<noteq> [] \<and> origin \<in> set origins
                then [(''Access-Control-Allow-Origin'', origin), (''Vary'', ''Origin''), (''Access-Control-Allow-Credentials'', ''true''),
                      (''Access-Control-Allow-Headers'', ''Content-Type, X-CSRF-Token, X-Correlation-ID, Idempotency-Key, If-Match''),
                      (''Access-Control-Allow-Methods'', ''GET,POST,PUT,PATCH,DELETE,OPTIONS'')]
                else [])
      in if ht_Method r = ''OPTIONS'' then (\<lparr>re_Status = 204, re_Header = hs, re_Cookie = None, re_Body = []\<rparr>, w)
         else case next r w of (resp, w1) \<Rightarrow> (under hs resp, w1))"

definition publicPath :: "string \<Rightarrow> bool" where
  "publicPath p \<longleftrightarrow> p = ''/healthz'' \<or> p = ''/readyz'' \<or> p = ''/api/v1/auth/login'' \<or> p = ''/api/v1/auth/mfa/verify''"

definition dev_user :: User where
  "dev_user = \<lparr>u_ID = ''dev-admin'', u_Username = ''dev-admin'', u_DisplayName = ''Administrador de desenvolvimento'',
     u_Roles = [''administrador do sistema''], u_BreakGlass = False, u_MFAEnabled = False\<rparr>"

definition session_problem :: "http \<Rightarrow> response" where
  "session_problem r = writeProblem r 401 ''session_expired'' (''Sess'' @ [CHR 0xC3, CHR 0xA3] @ ''o inv'' @ [CHR 0xC3, CHR 0xA1] @ ''lida'') ''Autentique-se novamente.''"

text \<open>The lookup of a session, \<open>svc.Current\<close>, is an argument.\<close>

definition Authenticate :: "Config \<Rightarrow> (string \<Rightarrow> 'w \<Rightarrow> ('e + User \<times> string) \<times> 'w) \<Rightarrow> 'w handler \<Rightarrow> 'w handler" where
  "Authenticate cfg current next r w =
     (if publicPath (ht_Path r) then next r w
      else if cf_AuthMode cfg = ''development-bypass'' then next (r\<lparr>ht_user := dev_user, ht_csrf := ''development-csrf''\<rparr>) w
      else case ht_Cookie r ''samba_admin_session'' of
        None \<Rightarrow> (session_problem r, w)
      | Some c \<Rightarrow>
          (case current c w of
             (Inl _, w1) \<Rightarrow> (session_problem r, w1)
           | (Inr (u, csrf), w1) \<Rightarrow> next (r\<lparr>ht_user := u, ht_csrf := csrf\<rparr>) w1))"

definition byte :: "char \<Rightarrow> 8 word" where
  "byte c = of_nat (of_char c)"

definition subtleEqual :: "string \<Rightarrow> string \<Rightarrow> bool" where
  "subtleEqual a b =
     (if length a \<noteq> length b \<or> a = [] then False
      else foldl (\<lambda>v (x, y). or v (xor (byte x) (byte y))) (0 :: 8 word) (zip a b) = 0)"

definition csrf_exempt :: "http \<Rightarrow> bool" where
  "csrf_exempt r \<longleftrightarrow> ht_Method r = ''GET'' \<or> ht_Method r = ''HEAD'' \<or> ht_Method r = ''OPTIONS'' \<or> ht_Path r = ''/api/v1/auth/login'' \<or>
     ht_Path r = ''/api/v1/auth/mfa/verify''"

definition RequireCSRF :: "Config \<Rightarrow> 'w handler \<Rightarrow> 'w handler" where
  "RequireCSRF cfg next r w =
     (if csrf_exempt r then next r w
      else if cf_AuthMode cfg = ''development-bypass'' then next r w
      else if subtleEqual (ht_Header r ''X-CSRF-Token'') (CSRFToken r) then next r w
      else (writeProblem r 403 ''csrf_failed'' (''Prote'' @ [CHR 0xC3, CHR 0xA7, CHR 0xC3, CHR 0xA3] @ ''o CSRF'') (''O token CSRF est'' @ [CHR 0xC3, CHR 0xA1] @ '' ausente ou inv'' @ [CHR 0xC3, CHR 0xA1] @ ''lido.''), w))"

definition Authorize :: "engine \<Rightarrow> string \<Rightarrow> string \<Rightarrow> 'w handler \<Rightarrow> 'w handler" where
  "Authorize eng action resource next r w =
     (if Allowed eng (u_Roles (CurrentUser r)) action resource then next r w
      else (writeProblem r 403 ''permission_denied'' (''Permiss'' @ [CHR 0xC3, CHR 0xA3] @ ''o insuficiente'') (''O papel atual n'' @ [CHR 0xC3, CHR 0xA3] @ ''o autoriza esta opera'' @ [CHR 0xC3, CHR 0xA7, CHR 0xC3, CHR 0xA3] @ ''o.''), w))"

text \<open>\<open>Server.Router\<close>, with the generated router as an argument.\<close>

definition chain ::
    "Config \<Rightarrow> string \<Rightarrow> bool \<Rightarrow> (string \<Rightarrow> 'w \<Rightarrow> ('e + User \<times> string) \<times> 'w) \<Rightarrow> 'w handler \<Rightarrow> 'w handler" where
  "chain cfg random late current contract =
     RequestID random (SecurityHeaders (CORS (cf_AllowedOrigins cfg)
       (TimeoutExcept late (cf_RequestTimeout cfg) ''/api/v1/events'' (BodyLimit (cf_MaxBodyBytes cfg)
         (Authenticate cfg current (RequireCSRF cfg contract))))))"

section \<open>Who reaches a handler\<close>

lemma fold_or_zero: "foldl (\<lambda>v (x, y). or v (xor (byte x) (byte y))) (v :: 8 word) zs = 0 \<longleftrightarrow> v = 0 \<and> (\<forall>(x, y)\<in>set zs. x = y)"
proof (induction zs arbitrary: v)
  case (Cons z zs)
  obtain x y where z: "z = (x, y)" by (cases z)
  have "or v (xor (byte x) (byte y)) = 0 \<longleftrightarrow> v = 0 \<and> x = y"
  proof -
    have or0: "or a b = 0 \<longleftrightarrow> a = 0 \<and> b = 0" for a b :: "8 word" by (auto simp: bit_eq_iff bit_simps)
    have xor0: "xor a b = 0 \<longleftrightarrow> a = b" for a b :: "8 word" by (auto simp: bit_eq_iff bit_simps)
    have inj: "byte x = byte y \<longleftrightarrow> x = y"
      by (auto simp: byte_def word_of_nat_eq_iff take_bit_nat_eq_self)
    show ?thesis by (simp add: or0 xor0 inj)
  qed
  with Cons.IH [of "or v (xor (byte x) (byte y))"] show ?case by (auto simp: z)
qed simp

lemma subtleEqual_iff: "subtleEqual a b \<longleftrightarrow> a = b \<and> a \<noteq> []"
proof -
  have "(\<forall>(x, y)\<in>set (zip a b). x = y) \<longleftrightarrow> a = b" if "length a = length b"
    using that by (induction a b rule: list_induct2) auto
  then show ?thesis by (auto simp: subtleEqual_def fold_or_zero)
qed

end
