(* ===== verification/Idempotency.thy ===== *)
theory Idempotency
  imports Http JsonRound
begin

text \<open>
  Idempotent requests: the table of keys (\<open>src/backend/internal/storage/store.go\<close>) and
  \<open>withIdempotency\<close> of \<open>src/backend/internal/httpapi/server.go\<close>, which runs a handler at most once per key and
  actor and answers repetitions from the stored response.  The mutex \<open>idemMu\<close> is held while the handler runs, so calls follow
  each other; the readings of the clock within a call are taken to be the same.
\<close>

section \<open>The state of the server\<close>

record web =
  wb_manager :: manager
  wb_shares :: "Share list"

definition web_db :: "web \<Rightarrow> db" where
  "web_db w = mg_db (wb_manager w)"

definition set_db :: "db \<Rightarrow> web \<Rightarrow> web" where
  "set_db d w = w\<lparr>wb_manager := (wb_manager w)\<lparr>mg_db := d\<rparr>\<rparr>"

definition on_db :: "('e, 'a) eact \<Rightarrow> web \<Rightarrow> ('e + 'a) \<times> web" where
  "on_db a w = (case a (web_db w) of (res, d) \<Rightarrow> (res, set_db d w))"

lemma web_db_simps [simp]: "web_db (set_db d w) = d" "set_db d (set_db d' w) = set_db d w" "set_db (web_db w) w = w"
  by (simp_all add: web_db_def set_db_def)

section \<open>The table\<close>

record IdempotencyRecord =
  ir_Key :: string
  ir_Actor :: string
  ir_RequestHash :: string
  ir_ResponseStatus :: int
  ir_ResponseBody :: string
  ir_ExpiresAt :: time

definition for_key :: "string \<Rightarrow> string \<Rightarrow> idempotency_row \<Rightarrow> bool" where
  "for_key key actor r \<longleftrightarrow> ik_key r = key \<and> ik_actor r = actor"

definition GetIdempotency :: "time \<Rightarrow> string \<Rightarrow> string \<Rightarrow> IdempotencyRecord act" where
  "GetIdempotency now key actor =
     andThen (query_row db_idempotency (\<lambda>r. for_key key actor r \<and> stamp_less (format_time now) (ik_expires_at r)))
       (\<lambda>r. return \<lparr>ir_Key = ik_key r, ir_Actor = ik_actor r, ir_RequestHash = ik_request_hash r, ir_ResponseStatus = ik_response_status r,
              ir_ResponseBody = ik_response_body r, ir_ExpiresAt = parse_time (ik_expires_at r)\<rparr>)"

text \<open>The primary key of the table is the actor with the key.\<close>

definition insert_idempotency :: "idempotency_row \<Rightarrow> unit act" where
  "insert_idempotency row = exec (\<lambda>d.
     if list_ex (for_key (ik_key row) (ik_actor row)) (db_idempotency d) then (Inl ConstraintFailed, d)
     else (Inr (), d\<lparr>db_idempotency := db_idempotency d @ [row]\<rparr>))"

definition PutIdempotency :: "time \<Rightarrow> IdempotencyRecord \<Rightarrow> unit act" where
  "PutIdempotency now rec = insert_idempotency
     \<lparr>ik_key = ir_Key rec, ik_actor = ir_Actor rec, ik_request_hash = ir_RequestHash rec, ik_response_status = ir_ResponseStatus rec,
      ik_response_body = ir_ResponseBody rec, ik_created_at = format_time now, ik_expires_at = format_time (ir_ExpiresAt rec)\<rparr>"

definition reservation_row :: "time \<Rightarrow> IdempotencyRecord \<Rightarrow> idempotency_row" where
  "reservation_row now rec =
     \<lparr>ik_key = ir_Key rec, ik_actor = ir_Actor rec, ik_request_hash = ir_RequestHash rec, ik_response_status = 0,
      ik_response_body = [], ik_created_at = format_time now, ik_expires_at = format_time (ir_ExpiresAt rec)\<rparr>"

definition ReserveIdempotency :: "time \<Rightarrow> IdempotencyRecord \<Rightarrow> unit act" where
  "ReserveIdempotency now rec =
     andThen (exec (\<lambda>d. (Inr (), d\<lparr>db_idempotency :=
        filter (\<lambda>r. \<not> (for_key (ir_Key rec) (ir_Actor rec) r \<and> stamp_le (ik_expires_at r) (format_time now))) (db_idempotency d)\<rparr>)))
       (\<lambda>_. insert_idempotency (reservation_row now rec))"

definition pending_for :: "string \<Rightarrow> string \<Rightarrow> string \<Rightarrow> idempotency_row \<Rightarrow> bool" where
  "pending_for key actor requestHash r \<longleftrightarrow> for_key key actor r \<and> ik_request_hash r = requestHash \<and> ik_response_status r = 0"

definition CompleteIdempotency :: "string \<Rightarrow> string \<Rightarrow> string \<Rightarrow> int \<Rightarrow> string \<Rightarrow> unit act" where
  "CompleteIdempotency key actor requestHash status body =
     andThen (exec (\<lambda>d. (Inr (affected (pending_for key actor requestHash) (db_idempotency d)),
         d\<lparr>db_idempotency := update_where (pending_for key actor requestHash)
             (\<lambda>r. r\<lparr>ik_response_status := status, ik_response_body := body\<rparr>) (db_idempotency d)\<rparr>)))
       (\<lambda>n. if n \<noteq> 1 then raise NoReservation else return ())"

definition DeletePendingIdempotency :: "string \<Rightarrow> string \<Rightarrow> string \<Rightarrow> unit act" where
  "DeletePendingIdempotency key actor requestHash = exec (\<lambda>d.
     (Inr (), d\<lparr>db_idempotency := filter (\<lambda>r. \<not> pending_for key actor requestHash r) (db_idempotency d)\<rparr>))"

section \<open>Responses\<close>

definition problem :: "http \<Rightarrow> nat \<Rightarrow> string \<Rightarrow> string \<Rightarrow> string \<Rightarrow> json \<Rightarrow> response" where
  "problem r status typ title detail errs =
     \<lparr>re_Status = status, re_Header = [(''Content-Type'', ''application/problem+json'')], re_Cookie = None,
      re_Body = encoded (marshal (JObj [(''type'', JStr typ), (''title'', JStr title), (''status'', JNum (int status)), (''detail'', JStr detail),
        (''instance'', JStr (ht_Path r)), (''correlationId'', JStr (CorrelationID r)), (''errors'', errs)]))\<rparr>"

definition json_type :: string where "json_type = ''application/json; charset=utf-8''"

text \<open>\<open>writeJSON\<close> of a value that has already been encoded.\<close>

definition writeJSON :: "nat \<Rightarrow> string \<Rightarrow> response" where
  "writeJSON status text = \<lparr>re_Status = status, re_Header = [(''Content-Type'', json_type)], re_Cookie = None, re_Body = encoded text\<rparr>"

definition writeRawJSON :: "nat \<Rightarrow> string \<Rightarrow> response" where
  "writeRawJSON status body = \<lparr>re_Status = status, re_Header = [(''Content-Type'', json_type)], re_Cookie = None, re_Body = body\<rparr>"

definition fullHash :: "string \<Rightarrow> string" where
  "fullHash s = hex_encode (sha256 s)"

section \<open>Idempotent handlers\<close>

text \<open>The response of the handler is buffered and copied with a mark.\<close>

definition copyTo :: "response \<Rightarrow> bool \<Rightarrow> response" where
  "copyTo captured replayed =
     captured\<lparr>re_Header := map_set ''Idempotency-Replayed'' (if replayed then ''true'' else ''false'') (re_Header captured)\<rparr>"

definition writeIdempotencyRecord :: "http \<Rightarrow> IdempotencyRecord \<Rightarrow> string \<Rightarrow> response" where
  "writeIdempotencyRecord r rec requestHash =
     (if ir_RequestHash rec \<noteq> requestHash then
        problem r 409 ''idempotency_conflict'' (''Conflito de idempot'' @ [CHR 0xC3, CHR 0xAA] @ ''ncia'') (''A chave j'' @ [CHR 0xC3, CHR 0xA1] @ '' foi usada com outro conte'' @ [CHR 0xC3, CHR 0xBA] @ ''do.'') JNull
      else if ir_ResponseStatus rec = 0 then
        under [(''Retry-After'', ''1'')] (problem r 409 ''idempotency_in_progress'' (''Opera'' @ [CHR 0xC3, CHR 0xA7, CHR 0xC3, CHR 0xA3] @ ''o em andamento'')
          (''A chave est'' @ [CHR 0xC3, CHR 0xA1] @ '' reservada e ainda n'' @ [CHR 0xC3, CHR 0xA3] @ ''o possui resultado confirmado.'') JNull)
      else under [(''Idempotency-Replayed'', ''true'')] (writeRawJSON (nat (ir_ResponseStatus rec)) (ir_ResponseBody rec)))"

definition request_key :: "http \<Rightarrow> string" where
  "request_key r = TrimSpace (ht_Header r ''Idempotency-Key'')"

definition request_actor :: "http \<Rightarrow> string" where
  "request_actor r = (let user = CurrentUser r in if u_ID user = [] then u_Username user else u_ID user)"

definition request_hash :: "http \<Rightarrow> string \<Rightarrow> string" where
  "request_hash r body = fullHash (ht_Method r @ [newline] @ ht_EscapedPath r @ [newline] @ ht_RawQuery r @ [newline] @ body)"

definition reservation :: "time \<Rightarrow> http \<Rightarrow> string \<Rightarrow> IdempotencyRecord" where
  "reservation now r body =
     \<lparr>ir_Key = request_key r, ir_Actor = request_actor r, ir_RequestHash = request_hash r body, ir_ResponseStatus = 0, ir_ResponseBody = [],
      ir_ExpiresAt = now + 24 * hour\<rparr>"

text \<open>After the reservation: the handler, and what becomes of the reservation.\<close>

definition run_reserved :: "web handler \<Rightarrow> http \<Rightarrow> string \<Rightarrow> web \<Rightarrow> response \<times> web" where
  "run_reserved next r requestHash w =
     (case next r w of
        (captured, w1) \<Rightarrow>
          if re_Status captured \<ge> 500
          then (copyTo captured False, snd (on_db (DeletePendingIdempotency (request_key r) (request_actor r) requestHash) w1))
          else case on_db (CompleteIdempotency (request_key r) (request_actor r) requestHash (int (re_Status captured)) (re_Body captured)) w1 of
            (Inl _, w2) \<Rightarrow> (problem r 503 ''idempotency_store_failed'' (''Idempot'' @ [CHR 0xC3, CHR 0xAA] @ ''ncia indispon'' @ [CHR 0xC3, CHR 0xAD] @ ''vel'')
               (''A opera'' @ [CHR 0xC3, CHR 0xA7, CHR 0xC3, CHR 0xA3] @ ''o pode ter sido aceita, mas o resultado idempotente n'' @ [CHR 0xC3, CHR 0xA3] @ ''o p'' @ [CHR 0xC3, CHR 0xB4] @ ''de ser persistido; reconcilie pelo correlation ID.'') JNull, w2)
          | (Inr _, w2) \<Rightarrow> (copyTo captured False, w2))"

definition withIdempotency :: "time \<Rightarrow> web handler \<Rightarrow> web handler" where
  "withIdempotency now next r w =
     (case IdempotencyKey (request_key r) of
        Some e \<Rightarrow> (problem r 400 ''invalid_idempotency_key'' (''Chave de idempot'' @ [CHR 0xC3, CHR 0xAA] @ ''ncia inv'' @ [CHR 0xC3, CHR 0xA1] @ ''lida'') (validation_text e) JNull, w)
      | None \<Rightarrow>
          (case ht_Body r of
             None \<Rightarrow> (problem r 400 ''invalid_request_body'' (''Corpo inv'' @ [CHR 0xC3, CHR 0xA1] @ ''lido'') (''N'' @ [CHR 0xC3, CHR 0xA3] @ ''o foi poss'' @ [CHR 0xC3, CHR 0xAD] @ ''vel ler o corpo da requisi'' @ [CHR 0xC3, CHR 0xA7, CHR 0xC3, CHR 0xA3] @ ''o.'') JNull, w)
           | Some body \<Rightarrow>
               (case on_db (GetIdempotency now (request_key r) (request_actor r)) w of
                  (Inr rec, w1) \<Rightarrow> (writeIdempotencyRecord r rec (request_hash r body), w1)
                | (Inl e, w1) \<Rightarrow>
                    if e \<noteq> ErrNoRows then
                      (problem r 503 ''idempotency_lookup_failed'' (''Idempot'' @ [CHR 0xC3, CHR 0xAA] @ ''ncia indispon'' @ [CHR 0xC3, CHR 0xAD] @ ''vel'')
                         (''N'' @ [CHR 0xC3, CHR 0xA3] @ ''o foi poss'' @ [CHR 0xC3, CHR 0xAD] @ ''vel consultar a reserva de idempot'' @ [CHR 0xC3, CHR 0xAA] @ ''ncia.'') JNull, w1)
                    else case on_db (ReserveIdempotency now (reservation now r body)) w1 of
                      (Inl _, w2) \<Rightarrow> (problem r 409 ''idempotency_reservation_conflict'' ''Reserva concorrente''
                         (''Outra requisi'' @ [CHR 0xC3, CHR 0xA7, CHR 0xC3, CHR 0xA3] @ ''o reservou esta chave; consulte o estado antes de repetir.'') JNull, w2)
                    | (Inr _, w2) \<Rightarrow> run_reserved next r (request_hash r body) w2)))"

section \<open>At most once\<close>

text \<open>The table of a state, and the answer that it keeps for a key until some time.\<close>

abbreviation idem_rows :: "web \<Rightarrow> idempotency_row list" where
  "idem_rows w \<equiv> db_idempotency (web_db w)"

definition answered :: "string \<Rightarrow> string \<Rightarrow> string \<Rightarrow> int \<Rightarrow> string \<Rightarrow> time \<Rightarrow> web \<Rightarrow> bool" where
  "answered key actor h status body expires w \<longleftrightarrow>
     list_ex (for_key key actor) (idem_rows w) \<and>
     list_all (\<lambda>r. for_key key actor r \<longrightarrow> ik_request_hash r = h \<and> ik_response_status r = status \<and> ik_response_body r = body \<and>
        ik_expires_at r = format_time expires) (idem_rows w)"

text \<open>A handler that leaves the table to \<open>withIdempotency\<close>.\<close>

definition leaves_table :: "web handler \<Rightarrow> bool" where
  "leaves_table next \<longleftrightarrow> (\<forall>r w. idem_rows (snd (next r w)) = idem_rows w)"

text \<open>The server between two moments: idempotent requests, and anything else that leaves the table alone.\<close>

inductive serves :: "time \<Rightarrow> web \<Rightarrow> time \<Rightarrow> web \<Rightarrow> bool" for t0 w0 where
  start: "serves t0 w0 t0 w0"
| request: "serves t0 w0 t w \<Longrightarrow> t \<le> t' \<Longrightarrow> leaves_table next \<Longrightarrow> serves t0 w0 t' (snd (withIdempotency t' next r w))"
| elsewhere: "serves t0 w0 t w \<Longrightarrow> idem_rows w' = idem_rows w \<Longrightarrow> serves t0 w0 t w'"

lemma on_db_simps: "snd (on_db a w) = set_db (snd (a (web_db w))) w" "fst (on_db a w) = fst (a (web_db w))"
  by (simp_all add: on_db_def split: prod.split)

lemma on_db_Pair: "on_db a w = (x, w1) \<Longrightarrow> x = fst (a (web_db w)) \<and> w1 = set_db (snd (a (web_db w))) w"
  by (auto simp: on_db_def split: prod.splits)

lemma answered_cong: "idem_rows w' = idem_rows w \<Longrightarrow> answered key actor h status body expires w' = answered key actor h status body expires w"
  by (simp add: answered_def)

lemma answered_rows:
  assumes "filter (for_key key actor) (idem_rows w') = filter (for_key key actor) (idem_rows w)"
  shows "answered key actor h status body expires w' = answered key actor h status body expires w"
proof -
  have ex: "list_ex P xs \<longleftrightarrow> filter P xs \<noteq> []" for P and xs :: "idempotency_row list" by (induction xs) auto
  have all: "list_all (\<lambda>r. P r \<longrightarrow> Q r) xs \<longleftrightarrow> list_all Q (filter P xs)" for P Q and xs :: "idempotency_row list" by (induction xs) auto
  show ?thesis unfolding answered_def ex all assms ..
qed

text \<open>What the statements do to the rows of a key: a lookup nothing, the other statements nothing to another key.\<close>

lemma GetIdempotency_state: "snd (GetIdempotency now key actor d) = d\<lparr>db_tick := Suc (db_tick d)\<rparr>"
  by (auto simp: GetIdempotency_def act_simps Let_def split: option.splits)

lemma filter_update_other: "(\<And>r. P r \<Longrightarrow> \<not> K r) \<Longrightarrow> (\<And>r. P r \<Longrightarrow> \<not> K (f r)) \<Longrightarrow> filter K (update_where P f rows) = filter K rows"
  by (induction rows) (auto simp: update_where_def)

lemma ReserveIdempotency_other:
  "(ir_Key rec, ir_Actor rec) \<noteq> (key, actor) \<Longrightarrow>
     filter (for_key key actor) (db_idempotency (snd (ReserveIdempotency now rec d))) = filter (for_key key actor) (db_idempotency d)"
  by (auto simp: ReserveIdempotency_def insert_idempotency_def reservation_row_def act_simps Let_def for_key_def intro!: filter_cong)

lemma CompleteIdempotency_other:
  "(k, a) \<noteq> (key, actor) \<Longrightarrow>
     filter (for_key key actor) (db_idempotency (snd (CompleteIdempotency k a h st b d))) = filter (for_key key actor) (db_idempotency d)"
  by (auto simp: CompleteIdempotency_def act_simps Let_def pending_for_def for_key_def intro!: filter_update_other)

lemma DeletePendingIdempotency_other:
  "(k, a) \<noteq> (key, actor) \<Longrightarrow>
     filter (for_key key actor) (db_idempotency (snd (DeletePendingIdempotency k a h d))) = filter (for_key key actor) (db_idempotency d)"
  by (auto simp: DeletePendingIdempotency_def act_simps Let_def pending_for_def for_key_def intro!: filter_cong)

lemma run_reserved_other:
  assumes "(request_key r, request_actor r) \<noteq> (key, actor)" "leaves_table next"
  shows "filter (for_key key actor) (idem_rows (snd (run_reserved next r h w))) = filter (for_key key actor) (idem_rows w)"
proof -
  obtain captured w1 where n: "next r w = (captured, w1)" by (cases "next r w")
  have w1: "idem_rows w1 = idem_rows w" using assms(2) n unfolding leaves_table_def by (metis snd_conv)
  show ?thesis
    using CompleteIdempotency_other [OF assms(1)] DeletePendingIdempotency_other [OF assms(1)] w1
    by (auto simp: run_reserved_def n on_db_simps dest!: on_db_Pair split: prod.splits sum.splits)
qed

lemma withIdempotency_other:
  assumes "(request_key r, request_actor r) \<noteq> (key, actor)" "leaves_table next"
  shows "filter (for_key key actor) (idem_rows (snd (withIdempotency now next r w))) = filter (for_key key actor) (idem_rows w)"
proof (cases "IdempotencyKey (request_key r) = None \<and> ht_Body r \<noteq> None")
  case False
  then show ?thesis by (auto simp: withIdempotency_def split: option.splits)
next
  case True
  then obtain body where ok: "IdempotencyKey (request_key r) = None" "ht_Body r = Some body" by auto
  let ?rec = "reservation now r body"
  obtain g w1 where g: "on_db (GetIdempotency now (request_key r) (request_actor r)) w = (g, w1)"
    by (cases "on_db (GetIdempotency now (request_key r) (request_actor r)) w")
  have w1: "idem_rows w1 = idem_rows w"
    using on_db_Pair [OF g] by (simp add: GetIdempotency_state)
  obtain v w2 where v: "on_db (ReserveIdempotency now ?rec) w1 = (v, w2)" by (cases "on_db (ReserveIdempotency now ?rec) w1")
  have w2: "filter (for_key key actor) (idem_rows w2) = filter (for_key key actor) (idem_rows w)"
    using on_db_Pair [OF v] ReserveIdempotency_other [of ?rec key actor now "web_db w1"] assms(1) w1
    by (simp add: reservation_def)
  show ?thesis
    using run_reserved_other [OF assms, of "request_hash r body" w2] w1 w2
    by (auto simp: withIdempotency_def ok g v split: sum.splits)
qed

text \<open>While a key is answered, a request with it is answered from the table and nothing but the clock of statements moves.\<close>

lemma GetIdempotency_answered:
  assumes "answered key actor h status body expires w" "now + second \<le> expires" "\<not> db_fault (web_db w) (db_tick (web_db w))"
  shows "fst (GetIdempotency now key actor (web_db w)) =
     Inr \<lparr>ir_Key = key, ir_Actor = actor, ir_RequestHash = h, ir_ResponseStatus = status, ir_ResponseBody = body, ir_ExpiresAt = expires\<rparr>"
proof -
  let ?P = "\<lambda>r. for_key key actor r \<and> stamp_less (format_time now) (ik_expires_at r)"
  obtain x where x: "x \<in> set (idem_rows w)" "for_key key actor x" using assms(1) by (auto simp: answered_def list_ex_iff)
  have "?P x" using x assms(1) stamp_less_if [OF assms(2)] by (auto simp: answered_def list_all_iff)
  then obtain r where r: "find ?P (idem_rows w) = Some r" using x(1) by (metis (mono_tags, lifting) find_None_iff not_None_eq)
  then have "r \<in> set (idem_rows w)" "for_key key actor r" by (metis (mono_tags, lifting) find_Some_iff)+
  then have "ik_key r = key" "ik_actor r = actor" "ik_request_hash r = h" "ik_response_status r = status" "ik_response_body r = body"
      "ik_expires_at r = format_time expires"
    using assms(1) by (auto simp: answered_def list_all_iff for_key_def)
  then show ?thesis using r assms(3) by (simp add: GetIdempotency_def act_simps Let_def)
qed

lemma withIdempotency_answered:
  assumes "answered key actor h status body expires w" "now + second \<le> expires" "request_key r = key" "request_actor r = actor"
    and "IdempotencyKey key = None" "ht_Body r = Some text"
  shows "withIdempotency now next r w =
     ((if db_fault (web_db w) (db_tick (web_db w))
       then problem r 503 ''idempotency_lookup_failed'' (''Idempot'' @ [CHR 0xC3, CHR 0xAA] @ ''ncia indispon'' @ [CHR 0xC3, CHR 0xAD] @ ''vel'') (''N'' @ [CHR 0xC3, CHR 0xA3] @ ''o foi poss'' @ [CHR 0xC3, CHR 0xAD] @ ''vel consultar a reserva de idempot'' @ [CHR 0xC3, CHR 0xAA] @ ''ncia.'') JNull
       else if h \<noteq> request_hash r text then problem r 409 ''idempotency_conflict'' (''Conflito de idempot'' @ [CHR 0xC3, CHR 0xAA] @ ''ncia'') (''A chave j'' @ [CHR 0xC3, CHR 0xA1] @ '' foi usada com outro conte'' @ [CHR 0xC3, CHR 0xBA] @ ''do.'') JNull
       else if status = 0 then under [(''Retry-After'', ''1'')] (problem r 409 ''idempotency_in_progress'' (''Opera'' @ [CHR 0xC3, CHR 0xA7, CHR 0xC3, CHR 0xA3] @ ''o em andamento'')
         (''A chave est'' @ [CHR 0xC3, CHR 0xA1] @ '' reservada e ainda n'' @ [CHR 0xC3, CHR 0xA3] @ ''o possui resultado confirmado.'') JNull)
       else under [(''Idempotency-Replayed'', ''true'')] (writeRawJSON (nat status) body)),
      set_db ((web_db w)\<lparr>db_tick := Suc (db_tick (web_db w))\<rparr>) w)"
proof (cases "db_fault (web_db w) (db_tick (web_db w))")
  case True
  then have "fst (GetIdempotency now key actor (web_db w)) = Inl IOFault" by (simp add: GetIdempotency_def act_simps Let_def)
  then have "on_db (GetIdempotency now key actor) w = (Inl IOFault, set_db ((web_db w)\<lparr>db_tick := Suc (db_tick (web_db w))\<rparr>) w)"
    by (metis on_db_simps prod.collapse GetIdempotency_state)
  with True show ?thesis using assms(3-) by (simp add: withIdempotency_def)
next
  case False
  note g = GetIdempotency_answered [OF assms(1,2) False]
  have "on_db (GetIdempotency now key actor) w =
      (Inr \<lparr>ir_Key = key, ir_Actor = actor, ir_RequestHash = h, ir_ResponseStatus = status, ir_ResponseBody = body, ir_ExpiresAt = expires\<rparr>,
       set_db ((web_db w)\<lparr>db_tick := Suc (db_tick (web_db w))\<rparr>) w)"
    using g by (metis on_db_simps prod.collapse GetIdempotency_state)
  then show ?thesis using assms(3-) False by (simp add: withIdempotency_def writeIdempotencyRecord_def)
qed

lemma withIdempotency_keeps_answer:
  assumes "answered key actor h status body expires w" "now + second \<le> expires" "leaves_table next"
  shows "answered key actor h status body expires (snd (withIdempotency now next r w))"
proof (cases "(request_key r, request_actor r) = (key, actor)")
  case False
  then show ?thesis using withIdempotency_other [OF False assms(3)] assms(1) answered_rows by blast
next
  case True
  consider "IdempotencyKey (request_key r) \<noteq> None \<or> ht_Body r = None" | content where "IdempotencyKey (request_key r) = None" "ht_Body r = Some content"
    by blast
  then show ?thesis
  proof cases
    case 1
    then have "snd (withIdempotency now next r w) = w" by (auto simp: withIdempotency_def split: option.splits)
    then show ?thesis using assms(1) by simp
  next
    case 2
    then have "idem_rows (snd (withIdempotency now next r w)) = idem_rows w"
      using withIdempotency_answered [OF assms(1,2), of r content "next"] True by simp
    then show ?thesis using assms(1) answered_cong by blast
  qed
qed

lemma serves_keeps_answer:
  "serves t0 w0 t w \<Longrightarrow> answered key actor h status body expires w0 \<Longrightarrow> t + second \<le> expires \<Longrightarrow>
     answered key actor h status body expires w \<and> t0 \<le> t"
proof (induction rule: serves.induct)
  case (request t w t' "next" r)
  then show ?case using withIdempotency_keeps_answer by fastforce
next
  case (elsewhere t w w')
  then show ?case using answered_cong by blast
qed simp

text \<open>The first request with a key: the handler runs, and its response is kept.\<close>

lemma stamp_less_total: "\<not> stamp_less a b \<Longrightarrow> stamp_le b a"
  using bytes_less_total [of "stamp_frac a" "stamp_frac b"] by (cases a, cases b) (auto simp: stamp_le_def stamp_less_def)

definition unused_key :: "time \<Rightarrow> string \<Rightarrow> string \<Rightarrow> web \<Rightarrow> bool" where
  "unused_key now key actor w \<longleftrightarrow> list_all (\<lambda>r. for_key key actor r \<longrightarrow> \<not> stamp_less (format_time now) (ik_expires_at r)) (idem_rows w)"

definition healthy :: "web \<Rightarrow> bool" where
  "healthy w \<longleftrightarrow> db_fault (web_db w) = (\<lambda>_. False)"

lemma GetIdempotency_unused:
  assumes "unused_key now key actor w" "healthy w"
  shows "on_db (GetIdempotency now key actor) w = (Inl ErrNoRows, set_db ((web_db w)\<lparr>db_tick := Suc (db_tick (web_db w))\<rparr>) w)"
proof -
  have "find (\<lambda>r. for_key key actor r \<and> stamp_less (format_time now) (ik_expires_at r)) (idem_rows w) = None"
    using assms(1) by (auto simp: unused_key_def find_None_iff list_all_iff)
  then show ?thesis using assms(2) by (simp add: on_db_def GetIdempotency_def act_simps Let_def healthy_def)
qed

lemma ReserveIdempotency_unused:
  assumes "unused_key now (request_key r) (request_actor r) w" "healthy w"
  shows "on_db (ReserveIdempotency now (reservation now r body)) w =
     (Inr (), set_db ((web_db w)\<lparr>db_tick := Suc (Suc (db_tick (web_db w))),
         db_idempotency := filter (\<lambda>x. \<not> for_key (request_key r) (request_actor r) x) (idem_rows w) @
           [reservation_row now (reservation now r body)]\<rparr>) w)"
proof -
  have eq: "filter (\<lambda>x. for_key (request_key r) (request_actor r) x \<longrightarrow> \<not> stamp_le (ik_expires_at x) (format_time now)) (idem_rows w) =
      filter (\<lambda>x. \<not> for_key (request_key r) (request_actor r) x) (idem_rows w)"
    using assms(1) stamp_less_total by (intro filter_cong) (auto simp: unused_key_def list_all_iff)
  have rec: "ir_Key (reservation now r body) = request_key r" "ir_Actor (reservation now r body) = request_actor r"
    by (simp_all add: reservation_def)
  have row: "ik_key (reservation_row now rec) = ir_Key rec" "ik_actor (reservation_row now rec) = ir_Actor rec" for rec
    by (simp_all add: reservation_row_def)
  have none: "\<not> list_ex (for_key (request_key r) (request_actor r)) (filter (\<lambda>x. \<not> for_key (request_key r) (request_actor r) x) (idem_rows w))"
    by (auto simp: list_ex_iff)
  show ?thesis using assms(2) none
    by (simp add: on_db_def ReserveIdempotency_def insert_idempotency_def act_simps Let_def healthy_def rec row eq)
qed

lemma first_request:
  assumes "unused_key now (request_key r) (request_actor r) w" "healthy w" "IdempotencyKey (request_key r) = None" "ht_Body r = Some body"
    and "leaves_table next" "\<And>w. healthy w \<Longrightarrow> healthy (snd (next r w))"
    and "\<And>w. 0 < re_Status (fst (next r w)) \<and> re_Status (fst (next r w)) < 500"
  obtains w2 captured w3 where "next r w2 = (captured, w3)"
    "fst (withIdempotency now next r w) = copyTo captured False"
    "answered (request_key r) (request_actor r) (request_hash r body) (int (re_Status captured)) (re_Body captured) (now + 24 * hour)
       (snd (withIdempotency now next r w))" "0 < re_Status captured"
proof -
  let ?key = "request_key r" and ?actor = "request_actor r" and ?h = "request_hash r body"
  let ?w1 = "set_db ((web_db w)\<lparr>db_tick := Suc (db_tick (web_db w))\<rparr>) w"
  have w1: "unused_key now ?key ?actor ?w1" "healthy ?w1" using assms(1,2) by (simp_all add: unused_key_def healthy_def)
  define w2 where "w2 = set_db ((web_db ?w1)\<lparr>db_tick := Suc (Suc (db_tick (web_db ?w1))),
       db_idempotency := filter (\<lambda>x. \<not> for_key ?key ?actor x) (idem_rows ?w1) @ [reservation_row now (reservation now r body)]\<rparr>) ?w1"
  obtain captured w3 where n: "next r w2 = (captured, w3)" by (cases "next r w2")
  have run: "withIdempotency now next r w = run_reserved next r ?h w2"
    using assms(3,4) by (simp add: withIdempotency_def GetIdempotency_unused [OF assms(1,2)] ReserveIdempotency_unused [OF w1] w2_def)
  have w2: "healthy w2" "idem_rows w2 = filter (\<lambda>x. \<not> for_key ?key ?actor x) (idem_rows w) @ [reservation_row now (reservation now r body)]"
    using assms(2) by (simp_all add: w2_def healthy_def)
  have "idem_rows (snd (next r w2)) = idem_rows w2" using assms(5) by (simp add: leaves_table_def)
  then have w3: "healthy w3" "idem_rows w3 = idem_rows w2" using assms(6) [OF w2(1)] n by simp_all
  have st: "0 < re_Status captured" "re_Status captured < 500" using assms(7) [of w2] n by simp_all
  have row: "pending_for ?key ?actor ?h (reservation_row now (reservation now r body))"
    by (simp add: pending_for_def for_key_def reservation_row_def reservation_def)
  have old: "filter (pending_for ?key ?actor ?h) (filter (\<lambda>x. \<not> for_key ?key ?actor x) xs) = []" for xs
    by (auto simp: pending_for_def)
  have one: "affected (pending_for ?key ?actor ?h) (idem_rows w3) = 1"
    using row old by (simp add: affected_def w3(2) w2(2))
  let ?rows = "update_where (pending_for ?key ?actor ?h)
      (\<lambda>x. x\<lparr>ik_response_status := int (re_Status captured), ik_response_body := re_Body captured\<rparr>) (idem_rows w3)"
  have kept: "on_db (CompleteIdempotency ?key ?actor ?h (int (re_Status captured)) (re_Body captured)) w3 =
      (Inr (), set_db ((web_db w3)\<lparr>db_tick := Suc (db_tick (web_db w3)), db_idempotency := ?rows\<rparr>) w3)"
    using one w3(1) by (simp add: on_db_def CompleteIdempotency_def act_simps Let_def healthy_def)
  have fin: "withIdempotency now next r w = (copyTo captured False, set_db ((web_db w3)\<lparr>db_tick := Suc (db_tick (web_db w3)), db_idempotency := ?rows\<rparr>) w3)"
    using st by (simp add: run run_reserved_def n kept)
  have "answered ?key ?actor ?h (int (re_Status captured)) (re_Body captured) (now + 24 * hour) (snd (withIdempotency now next r w))"
    using row unfolding fin
    by (auto simp: answered_def w3(2) w2(2) update_where_def list_ex_iff list_all_iff for_key_def reservation_row_def reservation_def)
  then show thesis using that n fin st(1) by simp
qed


definition sample_web :: web where
  "sample_web = \<lparr>wb_manager = \<lparr>mg_db = empty_db, mg_broker = Events.New, mg_cancel = [], mg_cancelled = [], mg_runs = [], mg_calls = []\<rparr>, wb_shares = []\<rparr>"

definition sample_call :: http where
  "sample_call = \<lparr>ht_Method = ''POST'', ht_Path = ''/api/v1/rollback'', ht_EscapedPath = ''/api/v1/rollback'', ht_RawQuery = [], ht_Query = (\<lambda>_. []), ht_PathValue = (\<lambda>_. []),
     ht_Values = (\<lambda>k. if k = ''Idempotency-Key'' then [''key-000001''] else []), ht_Cookie = (\<lambda>_. None), ht_Body = Some ''{}'', ht_RemoteAddr = ''10.0.0.1:4711'',
     ht_correlation = ''corr-1'', ht_user = dev_user, ht_csrf = []\<rparr>"

text \<open>A handler that counts: each run adds a share.\<close>

definition counting :: "web handler" where
  "counting r w = (writeJSON 201 ''null'', w\<lparr>wb_shares := sample_share # wb_shares w\<rparr>)"

lemma on_db_shares: "on_db a w = (x, w') \<Longrightarrow> wb_shares w' = wb_shares w"
  by (auto simp: on_db_def set_db_def split: prod.splits)

lemma counting_shares: "wb_shares (snd (run_reserved counting r h w)) = sample_share # wb_shares w"
  by (auto simp: run_reserved_def counting_def writeJSON_def dest!: on_db_shares split: prod.split sum.split)

lemma CompleteIdempotency_fault: "db_fault (snd (CompleteIdempotency k a h st b d)) = db_fault d"
  by (simp add: CompleteIdempotency_def act_simps Let_def)

lemma healthy_run: "healthy w \<Longrightarrow> healthy (snd (run_reserved counting r h w))"
  by (auto simp: run_reserved_def counting_def writeJSON_def healthy_def web_db_def [of "_\<lparr>wb_shares := _\<rparr>"] web_db_def [symmetric] CompleteIdempotency_fault
      dest!: on_db_Pair split: prod.split sum.split)


end
