(* ===== verification/Api.thy ===== *)
theory Api
  imports Idempotency Approval
begin

text \<open>
  The handlers of \<open>src/backend/internal/httpapi/server.go\<close> for shares, services, configuration files and jobs.  What a
  handler takes from outside is in one record: the configuration, the clock, the identifiers that \<open>id.New\<close> draws in the order
  of the calls, and the texts of the errors of lower layers.  A JSON body that was decoded is an argument.
\<close>

record api =
  ap_cfg :: Config
  ap_now :: time
  ap_fresh :: "nat \<Rightarrow> string"
  ap_job_error :: "job_error \<Rightarrow> string"
  ap_store_error :: "store_error \<Rightarrow> string"
  ap_approval_error :: "approval_error \<Rightarrow> string"

section \<open>Helpers\<close>

text \<open>What the JSON decoder makes of the body.\<close>

datatype 'a input = Malformed string | Trailing | Input 'a

definition decode :: "http \<Rightarrow> 'a input \<Rightarrow> response + 'a" where
  "decode r inp =
     (case inp of
        Malformed message \<Rightarrow> Inl (problem r 400 ''invalid_json'' (''Requisi'' @ [CHR 0xC3, CHR 0xA7, CHR 0xC3, CHR 0xA3] @ ''o inv'' @ [CHR 0xC3, CHR 0xA1] @ ''lida'') message JNull)
      | Trailing \<Rightarrow> Inl (problem r 400 ''invalid_json'' (''Requisi'' @ [CHR 0xC3, CHR 0xA7, CHR 0xC3, CHR 0xA3] @ ''o inv'' @ [CHR 0xC3, CHR 0xA1] @ ''lida'') (''A requisi'' @ [CHR 0xC3, CHR 0xA7, CHR 0xC3, CHR 0xA3] @ ''o deve conter um '' @ [CHR 0xC3, CHR 0xBA] @ ''nico documento JSON.'') JNull)
      | Input v \<Rightarrow> Inr v)"

definition validationProblem :: "http \<Rightarrow> string \<Rightarrow> string \<Rightarrow> response" where
  "validationProblem r field msg =
     problem r 422 ''validation_error'' (''Falha de valida'' @ [CHR 0xC3, CHR 0xA7, CHR 0xC3, CHR 0xA3] @ ''o'') msg
       (JArr [JObj [(''field'', JStr field), (''code'', JStr ''invalid_value''), (''message'', JStr msg)]])"

definition setDeprecationHeaders :: "string \<Rightarrow> (string \<times> string) list" where
  "setDeprecationHeaders successor =
     [(''Deprecation'', ''true''), (''Sunset'', ''Wed, 31 Dec 2027 23:59:59 GMT''), (''Link'', ''<'' @ successor @ (''>; rel='' @ [CHR 0x22] @ ''successor-version'' @ [CHR 0x22]))]"

definition clientIP :: "http \<Rightarrow> string" where
  "clientIP r = (case SplitHostPort (ht_RemoteAddr r) of Some (host, _) \<Rightarrow> if host \<noteq> [] then host else ht_RemoteAddr r | None \<Rightarrow> ht_RemoteAddr r)"

text \<open>Identifier and state of the capabilities of \<open>src/backend/internal/fixtures/data.go\<close>.\<close>

definition Capabilities :: "(string \<times> string) list" where
  "Capabilities =
     [(''smb.windows11'', ''suportado''), (''system.inspect'', ''suportado''), (''filesystem.read'', ''suportado''),
      (''acl.nfsv4.read'', ''suportado_com_restricoes''), (''acl.nfsv4.write'', ''indisponivel''), (''samba.inspect'', ''suportado''),
      (''samba.testparm'', ''suportado''), (''share.write'', ''experimental''), (''domain.member.diagnose'', ''suportado''),
      (''domain.member.join'', ''indisponivel''), (''samba.ad_dc'', ''nao_verificado''), (''cups.inspect'', ''suportado_com_restricoes''),
      (''quota.ufs.read'', ''nao_verificado''), (''quota.ufs.write'', ''indisponivel''), (''syslog.tls'', ''suportado_com_restricoes''),
      (''dfs.namespace.read'', ''suportado_com_restricoes'')]"

definition capabilityEnabled :: "string \<Rightarrow> bool" where
  "capabilityEnabled capability = (case map_of Capabilities capability of None \<Rightarrow> False | Some state \<Rightarrow> state = ''suportado'' \<or> state = ''supported'')"

definition mutableOperationsEnabled :: "Config \<Rightarrow> bool" where
  "mutableOperationsEnabled cfg \<longleftrightarrow>
     cf_AdapterMode cfg = ''mock'' \<or>
     (cf_AdapterMode cfg = ''agent'' \<and> cf_AgentExecutorMode cfg = ''mock'' \<and> cf_EnableMutableOperations cfg)"

definition mutableOperationBlocked :: "http \<Rightarrow> response" where
  "mutableOperationBlocked r =
     problem r 503 ''mutation_blocked'' (''Opera'' @ [CHR 0xC3, CHR 0xA7, CHR 0xC3, CHR 0xA3] @ ''o mut'' @ [CHR 0xC3, CHR 0xA1] @ ''vel bloqueada'')
       (''A homologa'' @ [CHR 0xC3, CHR 0xA7, CHR 0xC3, CHR 0xA3] @ ''o atual permite somente leitura; a feature flag de muta'' @ [CHR 0xC3, CHR 0xA7, CHR 0xC3, CHR 0xA3] @ ''o permanece desabilitada.'') JNull"

definition on_jobs :: "(manager \<Rightarrow> 'a \<times> manager) \<Rightarrow> web \<Rightarrow> 'a \<times> web" where
  "on_jobs f w = (case f (wb_manager w) of (x, m) \<Rightarrow> (x, w\<lparr>wb_manager := m\<rparr>))"

text \<open>\<open>audit.Record\<close>, whose error the handlers ignore.\<close>

definition audited :: "api \<Rightarrow> nat \<Rightarrow> Entry \<Rightarrow> web \<Rightarrow> web" where
  "audited ap n entry w = snd (on_db (Record (ap_now ap) (ap_fresh ap n) entry) w)"

definition job_failure :: "api \<Rightarrow> http \<Rightarrow> job_error \<Rightarrow> response" where
  "job_failure ap r e = problem r 500 ''job_creation_failed'' ''Falha ao criar tarefa'' (ap_job_error ap e) JNull"

text \<open>Roles come from queries, which give a nil slice where there is none.\<close>

definition role_slice :: "User \<Rightarrow> string list option" where
  "role_slice u = (if u_Roles u = [] then None else Some (u_Roles u))"

section \<open>Shares\<close>

definition matches_filter :: "string \<Rightarrow> Share \<Rightarrow> bool" where
  "matches_filter f x = Contains (ToLower (sh_Name x @ '' '' @ sh_Description x @ '' '' @ sh_Path x)) f"

definition listShares :: "web handler" where
  "listShares r w =
     (let f = ToLower (ht_Query r ''filter'');
          out = (if f \<noteq> [] then filter (matches_filter f) (wb_shares w) else wb_shares w)
      in (writeJSON 200 (if wb_shares w = [] then ''null'' else ''['' @ Join (map share_text out) '','' @ '']''), w))"

text \<open>The sessions and open files of the simulated system, which the preview shows.\<close>

record system_load =
  sl_SMBSessions :: int
  sl_OpenFiles :: int

definition preview_text :: "system_load \<Rightarrow> Share \<Rightarrow> string" where
  "preview_text sys sh =
     (let cfg = renderShare sh
      in struct_text
        [(''config'', quote cfg),
         (''diff'', quote (''--- smb4.conf.anterior'' @ [newline] @ ''+++ smb4.conf.proposto'' @ [newline] @ ''@@'' @ [newline] @ ''+'' @
            concat (map (\<lambda>c. if c = newline then [newline, CHR ''+''] else [c]) (TrimSuffix cfg [newline])))),
         (''impact'', struct_text [(''activeSessions'', FormatInt (sl_SMBSessions sys)),
            (''affectedShares'', strings_text (Some [sh_Name sh])), (''openFiles'', FormatInt (sl_OpenFiles sys))]),
         (''reloadRequired'', ''true''), (''restartRequired'', ''false''),
         (''testparm'', quote ''Loaded services file OK. Server role: ROLE_DOMAIN_MEMBER (simulado)''), (''valid'', ''true'')])"

definition previewShare :: "system_load \<Rightarrow> Share input \<Rightarrow> web handler" where
  "previewShare sys inp r w =
     (case decode r inp of
        Inl resp \<Rightarrow> (resp, w)
      | Inr sh \<Rightarrow>
          (case validateShare sh of
             Some e \<Rightarrow> (validationProblem r ''share'' (share_error_text e), w)
           | None \<Rightarrow> (writeJSON 200 (preview_text sys sh), w)))"

text \<open>The share as a value of the payload; its keys are in the order of a map.\<close>

definition strings_json :: "string list option \<Rightarrow> json" where
  "strings_json v = (case v of None \<Rightarrow> JNull | Some xs \<Rightarrow> JArr (map JStr xs))"

definition share_json :: "Share \<Rightarrow> json" where
  "share_json s = JObj
     [(''id'', JStr (sh_ID s)), (''name'', JStr (sh_Name s)), (''description'', JStr (sh_Description s)), (''path'', JStr (sh_Path s)),
      (''enabled'', JBool (sh_Enabled s)), (''readOnly'', JBool (sh_ReadOnly s)), (''guestAccess'', JBool (sh_GuestAccess s)),
      (''allowedPrincipals'', strings_json (sh_AllowedPrincipals s)), (''deniedPrincipals'', strings_json (sh_DeniedPrincipals s)),
      (''encryption'', JStr (sh_Encryption s)), (''signing'', JStr (sh_Signing s)), (''auditProfile'', JStr (sh_AuditProfile s)),
      (''recycleBin'', JBool (sh_RecycleBin s)), (''dfs'', JBool (sh_DFS s)), (''vfsModules'', strings_json (sh_VFSModules s)),
      (''maxConnections'', JNum (sh_MaxConnections s)), (''aclModel'', JStr (sh_ACLModel s))]"

definition createShare :: "api \<Rightarrow> Share input \<Rightarrow> web handler" where
  "createShare ap inp r w =
     (case decode r inp of
        Inl resp \<Rightarrow> (resp, w)
      | Inr sh0 \<Rightarrow>
          (case validateShare sh0 of
             Some e \<Rightarrow> (validationProblem r ''share'' (share_error_text e), w)
           | None \<Rightarrow>
               if sh_GuestAccess sh0 then
                 (problem r 403 ''policy_denied'' (''Opera'' @ [CHR 0xC3, CHR 0xA7, CHR 0xC3, CHR 0xA3] @ ''o bloqueada'') (''A pol'' @ [CHR 0xC3, CHR 0xAD] @ ''tica institucional bloqueia acesso guest.'') JNull, w)
               else if \<not> mutableOperationsEnabled (ap_cfg ap) then (mutableOperationBlocked r, w)
               else if list_ex (\<lambda>x. EqualFold (sh_Name x) (sh_Name sh0)) (wb_shares w) then
                 (problem r 409 ''resource_conflict'' ''Conflito'' (''J'' @ [CHR 0xC3, CHR 0xA1] @ '' existe compartilhamento com esse nome.'') JNull, w)
               else
                 let sh = sh0\<lparr>sh_ID := ap_fresh ap 0\<rparr>
                 in case on_jobs (Create (ap_now ap) (ap_fresh ap 1) (u_Username (CurrentUser r)) (''Criar compartilhamento '' @ sh_Name sh)
                          (''share:'' @ sh_ID sh) (CorrelationID r) ''share.create''
                          (JObj [(''share'', share_json sh), (''dryRun'', JBool False)]) True) w of
                   (Inl e, w1) \<Rightarrow> (job_failure ap r e, w1)
                 | (Inr job, w1) \<Rightarrow>
                     (under [(''Location'', ''/api/v1/jobs/'' @ j_ID job)]
                        (writeJSON 201 (struct_text [(''job'', job_text job), (''share'', share_text sh)])),
                      w1\<lparr>wb_shares := wb_shares w1 @ [sh]\<rparr>)))"

section \<open>Services, configuration files and jobs\<close>

definition actionLabels :: "(string \<times> string) list" where
  "actionLabels = [(''start'', ''Iniciar''), (''stop'', ''Parar''), (''restart'', ''Reiniciar''), (''reload'', ''Recarregar''),
     (''health-check'', (''Verificar sa'' @ [CHR 0xC3, CHR 0xBA] @ ''de do''))]"

definition action_operations :: "(string \<times> string) list" where
  "action_operations = [(''health-check'', ''service.status''), (''start'', ''service.start''), (''stop'', ''service.stop''),
     (''reload'', ''service.reload''), (''restart'', ''service.restart'')]"

definition disruptive :: "string \<Rightarrow> bool" where
  "disruptive action \<longleftrightarrow> action = ''restart'' \<or> action = ''stop''"

definition serviceAction :: "api \<Rightarrow> system_load \<Rightarrow> string input \<Rightarrow> web handler" where
  "serviceAction ap sys inp r w =
     (let id = ht_PathValue r ''id''
      in case decode r inp of
        Inl resp \<Rightarrow> (resp, w)
      | Inr action \<Rightarrow>
          (case map_of actionLabels action of
             None \<Rightarrow> (validationProblem r ''action'' (''A'' @ [CHR 0xC3, CHR 0xA7, CHR 0xC3, CHR 0xA3] @ ''o de servi'' @ [CHR 0xC3, CHR 0xA7] @ ''o inv'' @ [CHR 0xC3, CHR 0xA1] @ ''lida.''), w)
           | Some label \<Rightarrow>
               if action = ''restart'' \<and> sl_SMBSessions sys > 0 then
                 (problem r 428 ''approval_required'' (''Aprova'' @ [CHR 0xC3, CHR 0xA7, CHR 0xC3, CHR 0xA3] @ ''o obrigat'' @ [CHR 0xC3, CHR 0xB3] @ ''ria'')
                    (''Rein'' @ [CHR 0xC3, CHR 0xAD] @ ''cio do Samba com sess'' @ [CHR 0xC3, CHR 0xB5] @ ''es ativas exige solicita'' @ [CHR 0xC3, CHR 0xA7, CHR 0xC3, CHR 0xA3] @ ''o, aprova'' @ [CHR 0xC3, CHR 0xA7, CHR 0xC3, CHR 0xA3] @ ''o segregada e janela de manuten'' @ [CHR 0xC3, CHR 0xA7, CHR 0xC3, CHR 0xA3] @ ''o.'')
                    (JObj [(''operation'', JStr ''samba.service.restart''), (''activeSessions'', JNum (sl_SMBSessions sys))]), w)
               else if action \<noteq> ''health-check'' \<and> \<not> mutableOperationsEnabled (ap_cfg ap) then (mutableOperationBlocked r, w)
               else case on_jobs (Create (ap_now ap) (ap_fresh ap 0) (u_Username (CurrentUser r)) (label @ ('' servi'' @ [CHR 0xC3, CHR 0xA7] @ ''o '') @ id)
                        (''service:'' @ id) (CorrelationID r) (coalesce (map_of action_operations action))
                        (JObj [(''serviceId'', JStr id), (''action'', JStr action)]) (disruptive action)) w of
                 (Inl e, w1) \<Rightarrow> (job_failure ap r e, w1)
               | (Inr job, w1) \<Rightarrow>
                   (writeJSON 202 (struct_text [(''accepted'', ''true''), (''action'', quote action), (''id'', quote id), (''job'', job_text job),
                      (''warning'', quote (if disruptive action then (''Sess'' @ [CHR 0xC3, CHR 0xB5] @ ''es SMB e trabalhos de impress'' @ [CHR 0xC3, CHR 0xA3] @ ''o podem ser interrompidos.'') else []))]), w1)))"

definition configContent :: "string \<Rightarrow> string" where
  "configContent path =
     (let lines = (\<lambda>ls. concat (map (\<lambda>l. l @ [newline]) ls)); p = Clean path
      in if p = ''/usr/local/etc/smb4.conf'' then
           lines [''[global]'', ''  workgroup = EBSERHNET'', ''  realm = EBSERHNET.EBSERH.GOV.BR'', ''  security = ADS'',
             ''  server min protocol = SMB2_10'', ''  map to guest = Never'', ''  idmap config * : backend = tdb'',
             ''  idmap config * : range = 1000000-1999999'', ''  idmap config EBSERHNET : backend = rid'',
             ''  idmap config EBSERHNET : range = 2000000-2999999'']
         else if p = ''/etc/fstab'' then
           lines [''/dev/nda1p1 / ufs rw 1 1'', ''/dev/nda1p2 /srv/dados ufs rw,nfsv4acls,userquota,groupquota 2 2'']
         else lines [''# Arquivo mockado: '' @ path, (''# O adapter real aplicar'' @ [CHR 0xC3, CHR 0xA1] @ '' valida'' @ [CHR 0xC3, CHR 0xA7, CHR 0xC3, CHR 0xA3] @ ''o, locking, backup e rollback.'')])"

text \<open>\<open>strings.Replace (s, old, new, 1)\<close> for an \<open>old\<close> that is not empty.\<close>

fun replace_first :: "string \<Rightarrow> string \<Rightarrow> string \<Rightarrow> string" where
  "replace_first old new [] = []"
| "replace_first old new (c # s) =
     (if HasPrefix (c # s) old then new @ drop (length old) (c # s) else c # replace_first old new s)"

definition shortHash :: "string \<Rightarrow> string" where
  "shortHash s = hex_encode (take 8 (sha256 s))"

definition configurationFile :: "web handler" where
  "configurationFile r w =
     (let path = ht_Query r ''path''
      in case ConfigPath path of
           Some e \<Rightarrow> (problem r 403 ''path_not_allowed'' ''Acesso bloqueado'' (validation_text e) JNull, w)
         | None \<Rightarrow>
             let content = configContent path; previous = replace_first ''map to guest = Never'' ''map to guest = Bad User'' content
             in (writeJSON 200 (struct_text
                  [(''content'', quote content), (''encoding'', quote ''UTF-8''), (''eol'', quote ''LF''), (''lockedBy'', ''null''), (''path'', quote path),
                   (''previousContent'', quote previous), (''size'', FormatInt (int (length content))),
                   (''version'', quote (''sha256:'' @ shortHash content))]), w))"

record file_content =
  fc_Path :: string
  fc_Content :: string

definition validateConfiguration :: "file_content input \<Rightarrow> web handler" where
  "validateConfiguration inp r w =
     (case decode r inp of
        Inl resp \<Rightarrow> (resp, w)
      | Inr f \<Rightarrow>
          (case ConfigPath (fc_Path f) of
             Some e \<Rightarrow> (problem r 403 ''path_not_allowed'' ''Acesso bloqueado'' (validation_text e) JNull, w)
           | None \<Rightarrow>
               if length (fc_Content f) > 2 ^ 20 then (validationProblem r ''content'' ''Arquivo excede o limite de 1 MiB.'', w)
               else if Contains (fc_Content f) ''server min protocol = NT1'' then
                 (validationProblem r ''content'' (''SMB1/NT1 '' @ [CHR 0xC3, CHR 0xA9] @ '' bloqueado pela pol'' @ [CHR 0xC3, CHR 0xAD] @ ''tica de seguran'' @ [CHR 0xC3, CHR 0xA7] @ ''a.''), w)
               else (writeJSON 200 (struct_text
                 [(''backupRequired'', ''true''),
                  (''diff'', quote ((''--- vers'' @ [CHR 0xC3, CHR 0xA3] @ ''o anterior'') @ [newline] @ (''+++ vers'' @ [CHR 0xC3, CHR 0xA3] @ ''o proposta'') @ [newline] @ (''@@ valida'' @ [CHR 0xC3, CHR 0xA7, CHR 0xC3, CHR 0xA3] @ ''o mockada para '') @ fc_Path f @ [newline])),
                  (''reloadRequired'', marshal (JBool (HasSuffix (fc_Path f) ''smb4.conf''))), (''valid'', ''true''),
                  (''validators'', strings_text (Some [''sintaxe'', (''pol'' @ [CHR 0xC3, CHR 0xAD] @ ''tica de seguran'' @ [CHR 0xC3, CHR 0xA7] @ ''a''), ''testparm conceitual'']))]), w)))"

definition listJobs :: "api \<Rightarrow> web handler" where
  "listJobs ap r w =
     (case on_db ListJobs w of
        (Inl e, w1) \<Rightarrow> (problem r 500 ''storage_error'' (''Falha de persist'' @ [CHR 0xC3, CHR 0xAA] @ ''ncia'') (ap_store_error ap e) JNull, w1)
      | (Inr js, w1) \<Rightarrow> (writeJSON 200 (''['' @ Join (map job_text js) '','' @ '']''), w1))"

definition cancelJob :: "api \<Rightarrow> web handler" where
  "cancelJob ap r w =
     (let jobID = ht_PathValue r ''id''
      in case on_jobs (Cancel jobID) w of
           (Inl e, w1) \<Rightarrow> (problem r 409 ''job_not_cancellable'' (''Tarefa n'' @ [CHR 0xC3, CHR 0xA3] @ ''o cancel'' @ [CHR 0xC3, CHR 0xA1] @ ''vel'') (ap_job_error ap e) JNull, w1)
         | (Inr _, w1) \<Rightarrow> (writeJSON 202 (struct_text [(''jobId'', quote jobID), (''status'', quote ''cancellation-requested'')]), w1))"

definition rollbackJob :: "api \<Rightarrow> web handler" where
  "rollbackJob ap r w =
     (if \<not> mutableOperationsEnabled (ap_cfg ap) then (mutableOperationBlocked r, w)
      else case on_jobs (Rollback (ap_now ap) (ap_fresh ap 0) (ht_PathValue r ''id'') (u_Username (CurrentUser r)) (CorrelationID r)) w of
        (Inl e, w1) \<Rightarrow> (problem r 404 ''rollback_unavailable'' (''Rollback indispon'' @ [CHR 0xC3, CHR 0xAD] @ ''vel'') (ap_job_error ap e) JNull, w1)
      | (Inr j, w1) \<Rightarrow>
          (writeJSON 202 (struct_text [(''id'', quote (ht_PathValue r ''id'')), (''job'', job_text j),
             (''message'', quote ''Rollback simulado agendado.''), (''status'', quote ''queued'')]), w1))"

record rollback_input =
  rb_BackupID :: string
  rb_Reason :: string

definition rollbackByBackup :: "api \<Rightarrow> rollback_input input \<Rightarrow> web handler" where
  "rollbackByBackup ap inp r w =
     (if \<not> mutableOperationsEnabled (ap_cfg ap) then (mutableOperationBlocked r, w)
      else case decode r inp of
        Inl resp \<Rightarrow> (resp, w)
      | Inr b \<Rightarrow>
          if rb_BackupID b = [] then (validationProblem r ''backupId'' (''Backup obrigat'' @ [CHR 0xC3, CHR 0xB3] @ ''rio.''), w)
          else case on_jobs (Create (ap_now ap) (ap_fresh ap 0) (u_Username (CurrentUser r)) (''Restaurar backup '' @ rb_BackupID b)
                   (''backup:'' @ rb_BackupID b) (CorrelationID r) ''rollback.execute''
                   (JObj [(''backupId'', JStr (rb_BackupID b)), (''reason'', JStr (rb_Reason b))]) False) w of
            (Inl e, w1) \<Rightarrow> (job_failure ap r e, w1)
          | (Inr j, w1) \<Rightarrow> (writeJSON 202 (job_text j), w1))"

end
