(* ===== verification/ChangesApi.thy ===== *)
theory ChangesApi
  imports Api AuditLog
begin

text \<open>
  The handlers for change requests (\<open>src/backend/internal/httpapi/server.go\<close>): they join the approvals, the jobs and
  the audit log.  A handler runs as one step on the state; the ones that change a request run under \<open>idemMu\<close>, so they follow each
  other.  \<open>json.Unmarshal\<close> of a stored payload is an argument.
\<close>

text \<open>The encoding of a change request.\<close>

definition omit_time :: "string \<Rightarrow> time option \<Rightarrow> (string \<times> string) list" where
  "omit_time key t = (case t of None \<Rightarrow> [] | Some v \<Rightarrow> [(key, quote (RFC3339Nano v))])"

definition omit_text :: "string \<Rightarrow> string \<Rightarrow> (string \<times> string) list" where
  "omit_text key s = (if s = [] then [] else [(key, quote s)])"

definition change_text :: "ChangeRequest \<Rightarrow> string" where
  "change_text c = struct_text
     ([(''id'', quote (cq_ID c)), (''operation'', quote (cq_Operation c)), (''resource'', quote (cq_Resource c)), (''risk'', quote (cq_Risk c)),
       (''status'', quote (cq_Status c)), (''requestedBy'', quote (cq_RequestedBy c)), (''requestedAt'', quote (RFC3339Nano (cq_RequestedAt c))),
       (''justification'', quote (cq_Justification c))]
      @ omit_time ''maintenanceStart'' (cq_MaintenanceStart c) @ omit_time ''maintenanceEnd'' (cq_MaintenanceEnd c)
      @ [(''impact'', quote (cq_Impact c)), (''rollbackPlan'', quote (cq_RollbackPlan c))]
      @ omit_text ''requiredCapability'' (cq_RequiredCapability c) @ omit_text ''jobId'' (cq_JobID c) @ omit_text ''approvedBy'' (cq_ApprovedBy c)
      @ omit_time ''approvedAt'' (cq_ApprovedAt c) @ omit_text ''decisionReason'' (cq_DecisionReason c) @ omit_time ''expiresAt'' (cq_ExpiresAt c))"

definition api_entry :: "http \<Rightarrow> string \<Rightarrow> string \<Rightarrow> string \<Rightarrow> string \<Rightarrow> string \<Rightarrow> json \<Rightarrow> Entry" where
  "api_entry r operation resource result jobID reason after =
     \<lparr>en_Actor = u_Username (CurrentUser r), en_Roles = role_slice (CurrentUser r), en_Source = ''api'', en_IP = clientIP r,
      en_Operation = operation, en_Resource = resource, en_Result = result, en_CorrelationID = CorrelationID r, en_JobID = jobID,
      en_Reason = reason, en_Before = JNull, en_After = after\<rparr>"

definition listChangeRequests :: "api \<Rightarrow> web handler" where
  "listChangeRequests ap r w =
     (case on_db (ListRequests (ht_Query r ''status'')) w of
        (Inl e, w1) \<Rightarrow> (problem r 500 ''storage_error'' (''Falha de persist'' @ [CHR 0xC3, CHR 0xAA] @ ''ncia'') (ap_store_error ap e) JNull, w1)
      | (Inr cs, w1) \<Rightarrow> (writeJSON 200 (''['' @ Join (map change_text cs) '','' @ '']''), w1))"

definition createChangeRequest :: "api \<Rightarrow> RequestInput input \<Rightarrow> web handler" where
  "createChangeRequest ap inp r w =
     (case decode r inp of
        Inl resp \<Rightarrow> (resp, w)
      | Inr input \<Rightarrow>
          (case on_db (Request (ap_now ap) (ap_fresh ap 0) (CurrentUser r) input) w of
             (Inl e, w1) \<Rightarrow> (validationProblem r ''changeRequest'' (ap_approval_error ap e), w1)
           | (Inr c, w1) \<Rightarrow>
               (writeJSON 201 (change_text c),
                audited ap 1 (api_entry r ''change.request'' (cq_Resource c) ''success'' [] (cq_Justification c)
                  (JObj [(''changeRequestId'', JStr (cq_ID c)), (''operation'', JStr (cq_Operation c)), (''risk'', JStr (cq_Risk c)),
                    (''status'', JStr (cq_Status c))])) w1)))"

definition not_found :: "http \<Rightarrow> response" where
  "not_found r = problem r 404 ''not_found'' (''N'' @ [CHR 0xC3, CHR 0xA3] @ ''o encontrado'') (''Solicita'' @ [CHR 0xC3, CHR 0xA7, CHR 0xC3, CHR 0xA3] @ ''o de mudan'' @ [CHR 0xC3, CHR 0xA7] @ ''a n'' @ [CHR 0xC3, CHR 0xA3] @ ''o encontrada.'') JNull"

definition getChangeRequest :: "web handler" where
  "getChangeRequest r w =
     (case on_db (Approval.Get (ht_PathValue r ''id'')) w of
        (Inl _, w1) \<Rightarrow> (not_found r, w1)
      | (Inr c, w1) \<Rightarrow> (writeJSON 200 (change_text c), w1))"

text \<open>\<open>approveChangeRequest\<close> and \<open>rejectChangeRequest\<close>: the decision, its audit entry and the texts of a refusal.\<close>

definition decided_change :: "api \<Rightarrow> http \<Rightarrow> string \<Rightarrow> string \<Rightarrow> (approval_error + ChangeRequest) \<times> web \<Rightarrow> response \<times> web" where
  "decided_change ap r title operation outcome =
     (case outcome of
        (Inl e, w1) \<Rightarrow> (problem r 409 ''approval_denied'' title (ap_approval_error ap e) JNull, w1)
      | (Inr c, w1) \<Rightarrow>
          (writeJSON 200 (change_text c),
           audited ap 0 (api_entry r operation (cq_Resource c) ''success'' [] (cq_DecisionReason c)
             (JObj [(''changeRequestId'', JStr (cq_ID c)), (''operation'', JStr (cq_Operation c))])) w1))"

definition approveChangeRequest :: "api \<Rightarrow> string input \<Rightarrow> web handler" where
  "approveChangeRequest ap inp r w =
     (case decode r inp of
        Inl resp \<Rightarrow> (resp, w)
      | Inr reason \<Rightarrow>
          decided_change ap r (''Aprova'' @ [CHR 0xC3, CHR 0xA7, CHR 0xC3, CHR 0xA3] @ ''o recusada'') ''change.approve''
            (on_db (Approve (ap_now ap) (ht_PathValue r ''id'') (CurrentUser r) reason) w))"

definition rejectChangeRequest :: "api \<Rightarrow> string input \<Rightarrow> web handler" where
  "rejectChangeRequest ap inp r w =
     (case decode r inp of
        Inl resp \<Rightarrow> (resp, w)
      | Inr reason \<Rightarrow>
          decided_change ap r (''Decis'' @ [CHR 0xC3, CHR 0xA3] @ ''o recusada'') ''change.reject''
            (on_db (Reject (ap_now ap) (ht_PathValue r ''id'') (CurrentUser r) reason) w))"

section \<open>Execution\<close>

text \<open>The checks before a change request runs, from its status to the switch for mutations.\<close>

definition execution_refusal :: "api \<Rightarrow> http \<Rightarrow> ChangeRequest \<Rightarrow> response option" where
  "execution_refusal ap r c =
     (let policy = PolicyFor (cq_Operation c); now = ap_now ap
      in if cq_Status c \<noteq> ''approved'' then
           Some (problem r 409 ''approval_required'' (''Aprova'' @ [CHR 0xC3, CHR 0xA7, CHR 0xC3, CHR 0xA3] @ ''o pendente'') (''A solicita'' @ [CHR 0xC3, CHR 0xA7, CHR 0xC3, CHR 0xA3] @ ''o deve estar aprovada antes da execu'' @ [CHR 0xC3, CHR 0xA7, CHR 0xC3, CHR 0xA3] @ ''o.'') JNull)
         else if po_RequiresWindow policy \<and> (cq_MaintenanceStart c = None \<or> cq_MaintenanceEnd c = None) then
           Some (problem r 409 ''maintenance_window_required'' (''Janela obrigat'' @ [CHR 0xC3, CHR 0xB3] @ ''ria'')
             (''A solicita'' @ [CHR 0xC3, CHR 0xA7, CHR 0xC3, CHR 0xA3] @ ''o aprovada n'' @ [CHR 0xC3, CHR 0xA3] @ ''o possui janela de manuten'' @ [CHR 0xC3, CHR 0xA7, CHR 0xC3, CHR 0xA3] @ ''o v'' @ [CHR 0xC3, CHR 0xA1] @ ''lida.'') JNull)
         else if po_RequiresWindow policy \<and> now < the (cq_MaintenanceStart c) then
           Some (problem r 409 ''maintenance_window_not_started'' ''Fora da janela'' (''A janela de manuten'' @ [CHR 0xC3, CHR 0xA7, CHR 0xC3, CHR 0xA3] @ ''o ainda n'' @ [CHR 0xC3, CHR 0xA3] @ ''o come'' @ [CHR 0xC3, CHR 0xA7] @ ''ou.'')
             (JObj [(''maintenanceStart'', JStr (RFC3339Nano (the (cq_MaintenanceStart c))))]))
         else if po_RequiresWindow policy \<and> \<not> now < the (cq_MaintenanceEnd c) then
           Some (problem r 409 ''maintenance_window_expired'' ''Janela expirada'' (''A janela de manuten'' @ [CHR 0xC3, CHR 0xA7, CHR 0xC3, CHR 0xA3] @ ''o terminou; solicite nova aprova'' @ [CHR 0xC3, CHR 0xA7, CHR 0xC3, CHR 0xA3] @ ''o.'') JNull)
         else if po_RequiredCapability policy \<noteq> [] \<and> \<not> capabilityEnabled (po_RequiredCapability policy) then
           Some (problem r 503 ''capability_unavailable'' (''Capacidade indispon'' @ [CHR 0xC3, CHR 0xAD] @ ''vel'') (''A capacidade necess'' @ [CHR 0xC3, CHR 0xA1] @ ''ria n'' @ [CHR 0xC3, CHR 0xA3] @ ''o est'' @ [CHR 0xC3, CHR 0xA1] @ '' homologada neste host.'')
             (JObj [(''capability'', JStr (po_RequiredCapability policy))]))
         else if \<not> mutableOperationsEnabled (ap_cfg ap) then Some (mutableOperationBlocked r)
         else None)"

definition change_title :: "ChangeRequest \<Rightarrow> string" where
  "change_title c = (''Executar mudan'' @ [CHR 0xC3, CHR 0xA7] @ ''a aprovada: '') @ cq_Operation c"

text \<open>From the mark on the request to the job, and the audit entry.\<close>

definition start_change :: "api \<Rightarrow> http \<Rightarrow> ChangeRequest \<Rightarrow> object \<Rightarrow> web \<Rightarrow> response \<times> web" where
  "start_change ap r c payload w =
     (let user = CurrentUser r; jobID = ap_fresh ap 0
      in case on_db (MarkExecuting (cq_ID c) jobID) w of
           (Inl _, w1) \<Rightarrow> (problem r 409 ''change_state_conflict'' ''Conflito'' (''A solicita'' @ [CHR 0xC3, CHR 0xA7, CHR 0xC3, CHR 0xA3] @ ''o foi alterada antes do in'' @ [CHR 0xC3, CHR 0xAD] @ ''cio da tarefa.'') JNull, w1)
         | (Inr _, w1) \<Rightarrow>
             (case on_jobs (CreateWithID (ap_now ap) jobID (u_Username user) (change_title c) (cq_Resource c)
                     (CorrelationID r) (cq_Operation c) (JObj payload) (po_Risk (PolicyFor (cq_Operation c)) \<noteq> ''read'')) w1 of
                (Inl e, w2) \<Rightarrow> (job_failure ap r e, snd (on_db (ReleaseExecution (cq_ID c) jobID) w2))
              | (Inr job, w2) \<Rightarrow>
                  (writeJSON 202 (job_text job),
                   audited ap 1 (api_entry r ''change.execute'' (cq_Resource c) ''accepted'' (j_ID job) []
                     (JObj [(''changeRequestId'', JStr (cq_ID c)), (''operation'', JStr (cq_Operation c))])) w2)))"

definition executeChangeRequest :: "api \<Rightarrow> (string \<Rightarrow> object option) \<Rightarrow> web handler" where
  "executeChangeRequest ap unmarshal r w =
     (case on_db (Approval.Get (ht_PathValue r ''id'')) w of
        (Inl _, w1) \<Rightarrow> (not_found r, w1)
      | (Inr c, w1) \<Rightarrow>
          (case execution_refusal ap r c of
             Some resp \<Rightarrow> (resp, w1)
           | None \<Rightarrow>
               (case on_db (GetChangeRequest (cq_ID c)) w1 of
                  (Inl e, w2) \<Rightarrow> (problem r 500 ''storage_error'' (''Falha de persist'' @ [CHR 0xC3, CHR 0xAA] @ ''ncia'') (ap_store_error ap e) JNull, w2)
                | (Inr record, w2) \<Rightarrow>
                    (case unmarshal (cg_payload_json record) of
                       None \<Rightarrow> (problem r 500 ''invalid_change_payload'' (''Falha de persist'' @ [CHR 0xC3, CHR 0xAA] @ ''ncia'') (''O payload aprovado n'' @ [CHR 0xC3, CHR 0xA3] @ ''o pode ser recuperado.'') JNull, w2)
                     | Some payload \<Rightarrow> start_change ap r c payload w2))))"

text \<open>One tick of \<open>trackChangeRequest\<close>: whether the watch goes on, and the state.\<close>

definition final_status :: "string \<Rightarrow> string" where
  "final_status status =
     (if status = ''success'' then ''completed''
      else if status = ''failed'' \<or> status = ''partial'' then ''failed''
      else if status = ''cancelled'' then ''cancelled''
      else if status = ''rolled-back'' then ''rolled_back'' else [])"

definition track_tick :: "string \<Rightarrow> string \<Rightarrow> web \<Rightarrow> bool \<times> web" where
  "track_tick changeID jobID w =
     (case on_db (GetJob jobID) w of
        (Inl _, w1) \<Rightarrow> (False, w1)
      | (Inr job, w1) \<Rightarrow>
          let status = final_status (j_Status job)
          in if status \<noteq> [] then (False, snd (on_db (Complete changeID status) w1)) else (True, w1))"

end
