(* ===== verification/Execution.thy ===== *)
theory Execution
  imports ChangesApi JobRuns
begin

text \<open>
  Executing a change request joins three components: the approvals decide whether it may run, the store marks it and the
  job manager runs it.  Here the guarantees of the approvals are carried to the jobs that the API starts.
\<close>

section \<open>What the steps leave alone\<close>

named_theorems change_frame \<open>statements that leave the change requests alone\<close>

lemma GetChangeRequest_state: "snd (GetChangeRequest cid d) = d\<lparr>db_tick := Suc (db_tick d)\<rparr>"
  by (simp add: GetChangeRequest_def query_row_def exec_def Let_def split: option.split)

lemma Get_state: "snd (Approval.Get cid d) = d\<lparr>db_tick := Suc (db_tick d)\<rparr>"
  using GetChangeRequest_state [of cid d]
  by (auto simp: Approval.Get_def andThen_def return_def split: prod.splits sum.splits)

lemma GetChangeRequest_Inr:
  "GetChangeRequest cid d = (Inr c, d') \<Longrightarrow> c \<in> set (db_changes d) \<and> cg_id c = cid \<and> db_changes d' = db_changes d"
  using query_row_Inr [of db_changes "\<lambda>r. cg_id r = cid" d c d'] by (auto simp: GetChangeRequest_def)

lemma Get_Inr:
  assumes "Approval.Get cid d = (Inr q, d')"
  obtains c where "c \<in> set (db_changes d)" "cg_id c = cid" "q = fromRecord c" "db_changes d' = db_changes d"
  using assms by (auto simp: Approval.Get_def andThen_Inr return_def dest!: GetChangeRequest_Inr)

lemma changes_frame [change_frame]:
  "db_changes (snd (InsertJob j p l d)) = db_changes d" "db_changes (snd (PutEvent now t i text c d)) = db_changes d"
  "db_changes (snd (Record now i e d)) = db_changes d"
  by (auto simp: InsertJob_def PutEvent_def Record_def Let_def act_simps previous_hash_def insert_audit_def split: prod.splits sum.splits if_splits)

lemma publish_changes [change_frame]: "db_changes (mg_db (publish now t j m)) = db_changes (mg_db m)"
  by (simp add: publish_def Let_def change_frame)

lemma CreateWithID_changes:
  "db_changes (mg_db (snd (CreateWithID now jid actor operation resource c op p rb m))) = db_changes (mg_db m)"
proof -
  let ?j = "new_job now jid actor operation resource c rb"
  obtain x d where i: "InsertJob ?j p resource (mg_db m) = (x, d)" by (cases "InsertJob ?j p resource (mg_db m)")
  have "db_changes d = db_changes (mg_db m)" using changes_frame(1) [of ?j p resource "mg_db m"] by (simp add: i)
  then show ?thesis by (auto simp: CreateWithID_def Let_def i change_frame split: sum.splits)
qed

lemma audited_state [simp]:
  "db_changes (web_db (audited ap n e w)) = db_changes (web_db w)" "mg_runs (wb_manager (audited ap n e w)) = mg_runs (wb_manager w)"
  by (simp_all add: audited_def on_db_simps change_frame) (simp add: set_db_def)

lemma set_db_runs [simp]: "mg_runs (wb_manager (set_db d w)) = mg_runs (wb_manager w)"
  by (simp add: set_db_def)

lemma statuses [simp]: "re_Status (problem r st t ti de e) = st" "re_Status (writeJSON st text) = st"
  "re_Status (job_failure ap r je) = 500" "re_Status (not_found r) = 404"
  by (simp_all add: problem_def writeJSON_def job_failure_def not_found_def)

section \<open>The job of a change request\<close>

definition marked :: "string \<Rightarrow> string \<Rightarrow> change_row list \<Rightarrow> change_row list" where
  "marked cid jobID = update_where (\<lambda>x. cg_id x = cid \<and> cg_status x = ''approved'') (\<lambda>x. x\<lparr>cg_status := ''executing'', cg_job_id := Some jobID\<rparr>)"

lemma MarkExecuting_Inr:
  "MarkExecuting cid jobID d = (Inr (), d') \<Longrightarrow> db_changes d' = marked cid jobID (db_changes d)"
  by (auto simp: MarkExecuting_def SetChangeRequestJob_def Approval.advance_def andThen_Inr exec_Inr raise_def return_def marked_def split: if_splits)

definition change_run :: "api \<Rightarrow> Job \<Rightarrow> string \<Rightarrow> object \<Rightarrow> string \<Rightarrow> run" where
  "change_run ap job op payload resource =
     \<lparr>rn_job = job, rn_op = op, rn_payload = JObj payload, rn_lockKey = resource, rn_stage = Starting, rn_acquired = ap_now ap\<rparr>"

lemma on_jobs_create:
  assumes "on_jobs (CreateWithID now jid actor title resource c op p rb) w = (y, w')"
  shows "db_changes (web_db w') = db_changes (web_db w)"
    "case y of Inl _ \<Rightarrow> mg_runs (wb_manager w') = mg_runs (wb_manager w)
     | Inr j \<Rightarrow> j_ID j = jid \<and> mg_runs (wb_manager w') = mg_runs (wb_manager w) @
         [\<lparr>rn_job = j, rn_op = op, rn_payload = p, rn_lockKey = resource, rn_stage = Starting, rn_acquired = now\<rparr>]"
proof -
  let ?create = "CreateWithID now jid actor title resource c op p rb (wb_manager w)"
  have run: "?create = (y, wb_manager w')" using assms by (auto simp: on_jobs_def split: prod.splits)
  show "db_changes (web_db w') = db_changes (web_db w)"
    using CreateWithID_changes [of now jid actor title resource c op p rb "wb_manager w"] by (simp add: web_db_def run)
  show "case y of Inl _ \<Rightarrow> mg_runs (wb_manager w') = mg_runs (wb_manager w)
     | Inr j \<Rightarrow> j_ID j = jid \<and> mg_runs (wb_manager w') = mg_runs (wb_manager w) @
         [\<lparr>rn_job = j, rn_op = op, rn_payload = p, rn_lockKey = resource, rn_stage = Starting, rn_acquired = now\<rparr>]"
  proof (cases rule: CreateWithID_cases [of now jid actor title resource c op p rb "wb_manager w"])
    case (1 e d)
    then show ?thesis using run by auto
  next
    case (2 j m')
    then show ?thesis using run by auto
  qed
qed

lemma start_change_outcome:
  "case start_change ap r c payload w of (resp, w') \<Rightarrow>
     if re_Status resp = 202
     then db_changes (web_db w') = marked (cq_ID c) (ap_fresh ap 0) (db_changes (web_db w)) \<and>
       (\<exists>job. j_ID job = ap_fresh ap 0 \<and>
          mg_runs (wb_manager w') = mg_runs (wb_manager w) @ [change_run ap job (cq_Operation c) payload (cq_Resource c)])
     else mg_runs (wb_manager w') = mg_runs (wb_manager w)"
proof -
  obtain x w1 where m: "on_db (MarkExecuting (cq_ID c) (ap_fresh ap 0)) w = (x, w1)" by (cases "on_db (MarkExecuting (cq_ID c) (ap_fresh ap 0)) w")
  have runs: "mg_runs (wb_manager w1) = mg_runs (wb_manager w)" using on_db_Pair [OF m] by simp
  show ?thesis
  proof (cases x)
    case (Inl e)
    then show ?thesis using m runs by (simp add: start_change_def Let_def)
  next
    case (Inr u)
    have rows: "db_changes (web_db w1) = marked (cq_ID c) (ap_fresh ap 0) (db_changes (web_db w))"
      using on_db_Pair [OF m] Inr MarkExecuting_Inr [of "cq_ID c" "ap_fresh ap 0" "web_db w" "web_db w1"]
      by (cases "MarkExecuting (cq_ID c) (ap_fresh ap 0) (web_db w)") auto
    obtain y w2 where j: "on_jobs (CreateWithID (ap_now ap) (ap_fresh ap 0) (u_Username (CurrentUser r)) (change_title c) (cq_Resource c)
       (CorrelationID r) (cq_Operation c) (JObj payload) (po_Risk (PolicyFor (cq_Operation c)) \<noteq> ''read'')) w1 = (y, w2)"
      by fastforce
    note create = on_jobs_create [OF j]
    show ?thesis
    proof (cases y)
      case (Inl e)
      then show ?thesis using m \<open>x = Inr u\<close> j create runs by (simp add: start_change_def Let_def on_db_simps)
    next
      case y: (Inr job)
      then show ?thesis using m Inr j create runs rows by (auto simp: start_change_def Let_def change_run_def)
    qed
  qed
qed

lemma executeChangeRequest_outcome:
  "case executeChangeRequest ap unmarshal r w of (resp, w') \<Rightarrow>
     if re_Status resp = 202
     then \<exists>c\<in>set (db_changes (web_db w)). \<exists>payload job. cg_id c = ht_PathValue r ''id'' \<and> execution_refusal ap r (fromRecord c) = None \<and>
       (\<exists>row\<in>set (db_changes (web_db w)). cg_id row = cg_id c \<and> unmarshal (cg_payload_json row) = Some payload) \<and>
       db_changes (web_db w') = marked (cg_id c) (ap_fresh ap 0) (db_changes (web_db w)) \<and> j_ID job = ap_fresh ap 0 \<and>
       mg_runs (wb_manager w') = mg_runs (wb_manager w) @ [change_run ap job (cg_operation c) payload (cg_resource c)]
     else mg_runs (wb_manager w') = mg_runs (wb_manager w)"
proof -
  obtain x w1 where g: "on_db (Approval.Get (ht_PathValue r ''id'')) w = (x, w1)" by (cases "on_db (Approval.Get (ht_PathValue r ''id'')) w")
  have w1: "mg_runs (wb_manager w1) = mg_runs (wb_manager w)" "db_changes (web_db w1) = db_changes (web_db w)"
    using on_db_Pair [OF g] by (simp_all add: Get_state)
  show ?thesis
  proof (cases x)
    case (Inl e)
    then show ?thesis using g w1 by (simp add: executeChangeRequest_def)
  next
    case q: (Inr q)
    obtain c where c: "c \<in> set (db_changes (web_db w))" "cg_id c = ht_PathValue r ''id''" "q = fromRecord c"
      using on_db_Pair [OF g] q Get_Inr [of "ht_PathValue r ''id''" "web_db w" q "web_db w1"]
      by (cases "Approval.Get (ht_PathValue r ''id'') (web_db w)") auto
    have fields: "cq_ID q = cg_id c" "cq_Operation q = cg_operation c" "cq_Resource q = cg_resource c" by (simp_all add: c(3) fromRecord_def)
    obtain y w2 where h: "on_db (GetChangeRequest (cq_ID q)) w1 = (y, w2)" by (cases "on_db (GetChangeRequest (cq_ID q)) w1")
    have w2: "mg_runs (wb_manager w2) = mg_runs (wb_manager w)" "db_changes (web_db w2) = db_changes (web_db w)"
      using on_db_Pair [OF h] w1 by (simp_all add: GetChangeRequest_state)
    have refusal: "re_Status resp \<noteq> 202" if "execution_refusal ap r q = Some resp" for resp
      using that by (auto simp: execution_refusal_def Let_def mutableOperationBlocked_def split: if_splits)
    consider resp where "execution_refusal ap r q = Some resp" | e where "execution_refusal ap r q = None" "y = Inl e"
      | row where "execution_refusal ap r q = None" "y = Inr row" "unmarshal (cg_payload_json row) = None"
      | row payload where "execution_refusal ap r q = None" "y = Inr row" "unmarshal (cg_payload_json row) = Some payload"
      by (metis not_None_eq sum.exhaust)
    then show ?thesis
    proof cases
      case (1 resp)
      then show ?thesis using g q w1 refusal by (simp add: executeChangeRequest_def)
    next
      case (2 e)
      then show ?thesis using g q h w2 by (simp add: executeChangeRequest_def)
    next
      case (3 row)
      then show ?thesis using g q h w2 by (simp add: executeChangeRequest_def)
    next
      case (4 row payload)
      have row: "row \<in> set (db_changes (web_db w))" "cg_id row = cg_id c"
        using on_db_Pair [OF h] 4(2) GetChangeRequest_Inr [of "cq_ID q" "web_db w1" row "web_db w2"] w1(2) fields
        by (cases "GetChangeRequest (cq_ID q) (web_db w1)"; simp)+
      have run: "executeChangeRequest ap unmarshal r w = start_change ap r q payload w2"
        using 4 g q h by (simp add: executeChangeRequest_def)
      obtain resp w' where s: "start_change ap r q payload w2 = (resp, w')" by (cases "start_change ap r q payload w2")
      note out = start_change_outcome [where ap = ap and r = r and c = q and payload = payload and w = w2, unfolded s prod.case fields w2]
      show ?thesis
      proof (cases "re_Status resp = 202")
        case True
        then obtain job where job: "db_changes (web_db w') = marked (cg_id c) (ap_fresh ap 0) (db_changes (web_db w))" "j_ID job = ap_fresh ap 0"
          "mg_runs (wb_manager w') = mg_runs (wb_manager w) @ [change_run ap job (cg_operation c) payload (cg_resource c)]"
          using out by auto
        show ?thesis unfolding run s prod.case if_P [OF True]
          by (rule bexI [OF _ c(1)], intro exI [of _ payload] exI [of _ job]) (use job c(2,3) 4(1,3) row in auto)
      next
        case False
        then show ?thesis using out by (simp add: run s)
      qed
    qed
  qed
qed


text \<open>A request of an operation that the policies do not name: it needs approval and a window, but no capability.\<close>

definition custom_requested :: db where
  "custom_requested = snd (Request (10 * second) ''chg-1'' (sample_user ''ana'') (sample_input\<lparr>ri_Operation := ''share.archive''\<rparr>) sample_users)"

definition custom_checked :: db where
  "custom_checked = snd (approve_checks ''chg-1'' (sample_user ''rui'') ''looks fine'' custom_requested)"

definition custom_approved :: db where
  "custom_approved = snd (DecideChangeRequest (20 * second) ''chg-1'' ''rui'' ''approved'' ''looks fine'' custom_checked)"

lemma custom_approved_reachable: "approvals_reachable (custom_approved, [(''chg-1'', ''rui'')])"
proof -
  have "approvals_reachable (sample_users, [])" by (rule initially) (simp add: sample_users_def empty_db_def)
  then have 1: "approvals_reachable (custom_requested, [])"
    unfolding custom_requested_def by (rule later) (rule request)
  have "fst (approve_checks ''chg-1'' (sample_user ''rui'') ''looks fine'' custom_requested) = Inr ()" by code_simp
  then have "approve_checks ''chg-1'' (sample_user ''rui'') ''looks fine'' custom_requested = (Inr (), custom_checked)"
    unfolding custom_checked_def by (metis prod.collapse)
  from approve_begin [OF this, of "[]"] have "approvals_step (custom_requested, []) (custom_checked, [(''chg-1'', ''rui'')])"
    by (simp add: sample_user_def zero_user_def)
  with 1 have 2: "approvals_reachable (custom_checked, [(''chg-1'', ''rui'')])" by (rule later)
  then show ?thesis unfolding custom_approved_def by (rule later) (rule approve_end, simp)
qed

lemma custom_approved_rows:
  "map (\<lambda>c. (cg_id c, cg_operation c, cg_status c, cg_resource c, map_option parse_time (cg_maintenance_start c),
     map_option parse_time (cg_maintenance_end c))) (db_changes custom_approved)
   = [(''chg-1'', ''share.archive'', ''approved'', ''domain:corp'', Some 0, Some (1000 * second))]"
  "db_jobs custom_approved = []" "db_audit custom_approved = []"
proof -
  have "(map (\<lambda>c. (cg_id c, cg_operation c, cg_status c, cg_resource c, map_option parse_time (cg_maintenance_start c),
       map_option parse_time (cg_maintenance_end c))) (db_changes custom_approved), db_jobs custom_approved, db_audit custom_approved)
     = ([(''chg-1'', ''share.archive'', ''approved'', ''domain:corp'', Some 0, Some (1000 * second))], [], [])"
    by code_simp
  then show "map (\<lambda>c. (cg_id c, cg_operation c, cg_status c, cg_resource c, map_option parse_time (cg_maintenance_start c),
       map_option parse_time (cg_maintenance_end c))) (db_changes custom_approved)
     = [(''chg-1'', ''share.archive'', ''approved'', ''domain:corp'', Some 0, Some (1000 * second))]"
    "db_jobs custom_approved = []" "db_audit custom_approved = []" by (simp_all only: prod.inject)
qed

lemma approvals_fault:
  "db_fault (snd (Request now i u inp d)) = db_fault d" "db_fault (snd (approve_checks cid u reason d)) = db_fault d"
  "db_fault (snd (DecideChangeRequest now cid a st reason d)) = db_fault d"
  by (auto simp: Request_def CreateChangeRequest_def approve_checks_def GetChangeRequest_def DecideChangeRequest_def Let_def act_simps
      split: option.splits sum.splits prod.splits if_splits)

lemma custom_approved_faultless: "db_fault custom_approved = (\<lambda>_. False)"
  by (simp add: custom_approved_def custom_checked_def custom_requested_def approvals_fault sample_users_def empty_db_def)

definition custom_web :: web where
  "custom_web = set_db custom_approved sample_web"

definition custom_api :: api where
  "custom_api = \<lparr>ap_cfg = sample_config, ap_now = 30 * second, ap_fresh = (\<lambda>n. ''JOB-1''), ap_job_error = (\<lambda>_. []), ap_store_error = (\<lambda>_. []),
     ap_approval_error = (\<lambda>_. [])\<rparr>"

definition custom_call :: http where
  "custom_call = sample_call\<lparr>ht_PathValue := (\<lambda>_. ''chg-1'')\<rparr>"

lemma custom_executes: "re_Status (fst (executeChangeRequest custom_api (\<lambda>_. Some []) custom_call custom_web)) = 202"
proof -
  obtain c where c: "db_changes custom_approved = [c]" "cg_id c = ''chg-1''" "cg_operation c = ''share.archive''" "cg_status c = ''approved''"
      "map_option parse_time (cg_maintenance_start c) = Some 0" "map_option parse_time (cg_maintenance_end c) = Some (1000 * second)"
    using custom_approved_rows(1) by auto
  then obtain s e where window: "cg_maintenance_start c = Some s" "parse_time s = 0" "cg_maintenance_end c = Some e" "parse_time e = 1000 * second"
    by auto
  have policy: "PolicyFor ''share.archive'' = guarded_policy ''high'' []" by code_simp
  have id: "TrimSpace ''JOB-1'' = ''JOB-1''" by code_simp
  have none: "execution_refusal custom_api custom_call (fromRecord c) = None"
    using c(1-4) window by (simp add: execution_refusal_def Let_def fromRecord_def policy guarded_policy_def custom_api_def mutableOperationsEnabled_def sample_config_fields)
  show ?thesis
    using c(1-4) custom_approved_faultless custom_approved_rows(2) none
    by (simp add: executeChangeRequest_def custom_web_def on_db_def web_db_def set_db_def sample_web_def Approval.Get_def GetChangeRequest_def act_simps
        Let_def custom_call_def fromRecord_def start_change_def MarkExecuting_def SetChangeRequestJob_def Approval.advance_def affected_def
        on_jobs_def CreateWithID_def custom_api_def id ContainsAny_def InsertJob_def)
qed


end
