(* ===== verification/AuthApi.thy ===== *)
theory AuthApi
  imports Api AuditLog
begin

text \<open>
  The handlers for login, the second factor and sessions (\<open>src/backend/internal/httpapi/server.go\<close>).  Besides the record
  of \<open>Api\<close> they take the authentication service, its cryptography and what \<open>rand.Read\<close> gives.
\<close>

record auth_api =
  aa_service :: Service
  aa_crypto :: crypto
  aa_draws :: "string option \<times> string option"
  aa_codes :: "nat \<Rightarrow> string option \<times> string option \<times> string"

record credentials =
  cr_Username :: string
  cr_Password :: string

record mfa_answer =
  ma_ChallengeID :: string
  ma_Code :: string

definition user_text :: "User \<Rightarrow> string" where
  "user_text u = struct_text
     [(''id'', quote (u_ID u)), (''username'', quote (u_Username u)), (''displayName'', quote (u_DisplayName u)),
      (''roles'', strings_text (role_slice u)), (''breakGlass'', marshal (JBool (u_BreakGlass u))), (''mfaEnabled'', marshal (JBool (u_MFAEnabled u)))]"

definition UserAgent :: "http \<Rightarrow> string" where
  "UserAgent r = ht_Header r ''User-Agent''"

definition secure_cookie :: "Config \<Rightarrow> bool" where
  "secure_cookie cfg \<longleftrightarrow> cf_AuthMode cfg \<noteq> ''development-bypass''"

text \<open>\<open>int (time.Until (expires).Seconds ())\<close> cuts towards zero.\<close>

definition setSessionCookie :: "api \<Rightarrow> string \<Rightarrow> time \<Rightarrow> response \<Rightarrow> response" where
  "setSessionCookie ap value expires resp =
     resp\<lparr>re_Cookie := Some \<lparr>ck_Value = value, ck_Expires = Some expires,
        ck_MaxAge = (let left = expires - ap_now ap in if 0 \<le> left then left div second else - (- left div second)),
        ck_Secure = secure_cookie (ap_cfg ap)\<rparr>\<rparr>"

definition removed_cookie :: "api \<Rightarrow> cookie" where
  "removed_cookie ap = \<lparr>ck_Value = [], ck_Expires = None, ck_MaxAge = - 1, ck_Secure = secure_cookie (ap_cfg ap)\<rparr>"

definition clearSessionCookie :: "api \<Rightarrow> response \<Rightarrow> response" where
  "clearSessionCookie ap resp = under [(''X-Session-Reauthentication'', ''required'')] (resp\<lparr>re_Cookie := Some (removed_cookie ap)\<rparr>)"

definition safeAuthReason :: "auth_error \<Rightarrow> string" where
  "safeAuthReason e =
     (case e of
        ErrAccountLocked \<Rightarrow> ''conta temporariamente bloqueada''
      | ErrMFAEnrollmentRequired \<Rightarrow> (''MFA obrigat'' @ [CHR 0xC3, CHR 0xB3] @ ''rio n'' @ [CHR 0xC3, CHR 0xA3] @ ''o configurado'')
      | ErrPasswordExpired \<Rightarrow> ''senha expirada''
      | ErrNetworkRestricted \<Rightarrow> (''origem de rede n'' @ [CHR 0xC3, CHR 0xA3] @ ''o autorizada'')
      | _ \<Rightarrow> (''credenciais inv'' @ [CHR 0xC3, CHR 0xA1] @ ''lidas''))"

definition local_entry :: "http \<Rightarrow> User \<Rightarrow> string \<Rightarrow> string \<Rightarrow> string \<Rightarrow> string \<Rightarrow> Entry" where
  "local_entry r u operation resource result reason =
     \<lparr>en_Actor = u_Username u, en_Roles = role_slice u, en_Source = ''local'', en_IP = clientIP r, en_Operation = operation,
      en_Resource = resource, en_Result = result, en_CorrelationID = CorrelationID r, en_JobID = [], en_Reason = reason,
      en_Before = JNull, en_After = JNull\<rparr>"

definition login_problem :: "http \<Rightarrow> auth_error \<Rightarrow> response" where
  "login_problem r e =
     (case e of
        ErrAccountLocked \<Rightarrow> under [(''Retry-After'', ''900'')] (problem r 429 ''account_temporarily_locked'' ''Conta temporariamente bloqueada''
          (''Muitas tentativas inv'' @ [CHR 0xC3, CHR 0xA1] @ ''lidas. Tente novamente ap'' @ [CHR 0xC3, CHR 0xB3] @ ''s o per'' @ [CHR 0xC3, CHR 0xAD] @ ''odo de bloqueio.'') JNull)
      | ErrMFAEnrollmentRequired \<Rightarrow> problem r 403 ''mfa_enrollment_required'' (''MFA obrigat'' @ [CHR 0xC3, CHR 0xB3] @ ''rio'')
          (''A pol'' @ [CHR 0xC3, CHR 0xAD] @ ''tica exige ativa'' @ [CHR 0xC3, CHR 0xA7, CHR 0xC3, CHR 0xA3] @ ''o pr'' @ [CHR 0xC3, CHR 0xA9] @ ''via de MFA para esta conta.'') JNull
      | ErrPasswordExpired \<Rightarrow> problem r 403 ''password_expired'' ''Senha expirada''
          ''A senha local expirou e deve ser trocada por um administrador autorizado.'' JNull
      | ErrNetworkRestricted \<Rightarrow> problem r 403 ''network_restricted'' (''Origem n'' @ [CHR 0xC3, CHR 0xA3] @ ''o autorizada'')
          (''A conta de emerg'' @ [CHR 0xC3, CHR 0xAA] @ ''ncia est'' @ [CHR 0xC3, CHR 0xA1] @ '' restrita '' @ [CHR 0xC3, CHR 0xA0] @ '' rede configurada.'') JNull
      | _ \<Rightarrow> problem r 401 ''invalid_credentials'' (''Falha de autentica'' @ [CHR 0xC3, CHR 0xA7, CHR 0xC3, CHR 0xA3] @ ''o'') (''Usu'' @ [CHR 0xC3, CHR 0xA1] @ ''rio ou senha inv'' @ [CHR 0xC3, CHR 0xA1] @ ''lidos.'') JNull)"

text \<open>The response to a login that gave a session.\<close>

definition session_response :: "api \<Rightarrow> LoginResult \<Rightarrow> response" where
  "session_response ap res =
     setSessionCookie ap (lr_Session res) (lr_ExpiresAt res)
       (under [(''X-CSRF-Token'', lr_CSRF res)]
         (writeJSON 200 (struct_text [(''csrfToken'', quote (lr_CSRF res)), (''expiresAt'', quote (RFC3339Nano (lr_ExpiresAt res))),
            (''mfaRequired'', ''false''), (''user'', user_text (lr_User res))])))"

definition login :: "api \<Rightarrow> auth_api \<Rightarrow> credentials input \<Rightarrow> web handler" where
  "login ap aa inp r w =
     (case decode r inp of
        Inl resp \<Rightarrow> (resp, w)
      | Inr cr \<Rightarrow>
          (case on_db (BeginLogin (aa_crypto aa) (aa_service aa) (ap_now ap) (aa_draws aa) (cr_Username cr) (cr_Password cr) (clientIP r) (UserAgent r)) w of
             (Inl e, w1) \<Rightarrow>
               (login_problem r e,
                audited ap 0 (local_entry r (zero_User\<lparr>u_Username := TrimSpace (cr_Username cr)\<rparr>) ''auth.login'' ''session'' ''failure'' (safeAuthReason e)) w1)
           | (Inr res, w1) \<Rightarrow>
               if lr_MFARequired res then
                 (writeJSON 200 (struct_text [(''expiresAt'', quote (RFC3339Nano (lr_ExpiresAt res))), (''mfaChallengeId'', quote (lr_MFAChallengeID res)),
                    (''mfaRequired'', ''true'')]),
                  audited ap 0 (local_entry r (lr_User res) ''auth.mfa.challenge'' ''session'' ''pending'' []) w1)
               else
                 let w2 = audited ap 0 (local_entry r (lr_User res) ''auth.login'' ''session'' ''success'' []) w1;
                     w3 = (if u_BreakGlass (lr_User res)
                           then audited ap 1 (local_entry r (lr_User res) ''auth.break_glass.use'' ''session'' ''success''
                             (''conta local de emerg'' @ [CHR 0xC3, CHR 0xAA] @ ''ncia utilizada'')) w2
                           else w2)
                 in (session_response ap res, w3)))"

definition verifyMFA_handler :: "api \<Rightarrow> auth_api \<Rightarrow> mfa_answer input \<Rightarrow> web handler" where
  "verifyMFA_handler ap aa inp r w =
     (case decode r inp of
        Inl resp \<Rightarrow> (resp, w)
      | Inr a \<Rightarrow>
          (case on_db (CompleteMFA (aa_crypto aa) (aa_service aa) (ap_now ap) (aa_draws aa) (ma_ChallengeID a) (ma_Code a) (clientIP r) (UserAgent r)) w of
             (Inl e, w1) \<Rightarrow>
               (problem r 401 ''invalid_mfa_code'' ''Falha de MFA'' (''O desafio expirou ou o c'' @ [CHR 0xC3, CHR 0xB3] @ ''digo '' @ [CHR 0xC3, CHR 0xA9] @ '' inv'' @ [CHR 0xC3, CHR 0xA1] @ ''lido.'') JNull,
                audited ap 0 (local_entry r (zero_User\<lparr>u_Username := ''mfa-challenge''\<rparr>) ''auth.mfa.verify'' ''session'' ''failure'' (''c'' @ [CHR 0xC3, CHR 0xB3] @ ''digo MFA recusado'')) w1)
           | (Inr res, w1) \<Rightarrow>
               (session_response ap res, audited ap 0 (local_entry r (lr_User res) ''auth.mfa.verify'' ''session'' ''success'' []) w1)))"

definition renew_problem :: "http \<Rightarrow> response" where
  "renew_problem r = problem r 401 ''session_expired'' (''Sess'' @ [CHR 0xC3, CHR 0xA3] @ ''o expirada'') ''Autentique-se novamente.'' JNull"

definition renewSession :: "api \<Rightarrow> auth_api \<Rightarrow> web handler" where
  "renewSession ap aa r w =
     (case ht_Cookie r ''samba_admin_session'' of
        None \<Rightarrow> (renew_problem r, w)
      | Some c \<Rightarrow>
          (case on_db (Renew (aa_service aa) (ap_now ap) (aa_draws aa) c (clientIP r) (UserAgent r)) w of
             (Inl _, w1) \<Rightarrow> (renew_problem r, w1)
           | (Inr res, w1) \<Rightarrow>
               (session_response ap res, audited ap 0 (local_entry r (lr_User res) ''auth.session.renew'' ''session'' ''success'' []) w1)))"

definition logout :: "api \<Rightarrow> web handler" where
  "logout ap r w =
     (let w1 = (case ht_Cookie r ''samba_admin_session'' of None \<Rightarrow> w | Some c \<Rightarrow> snd (on_db (Logout c) w));
          user = CurrentUser r;
          w2 = (if u_ID user \<noteq> [] then audited ap 0 (local_entry r user ''auth.logout'' ''session'' ''success'' []) w1 else w1)
      in (\<lparr>re_Status = 204, re_Header = [], re_Cookie = Some (removed_cookie ap), re_Body = []\<rparr>, w2))"

definition me :: "web handler" where
  "me r w = (under [(''X-CSRF-Token'', CSRFToken r)] (writeJSON 200 (user_text (CurrentUser r))), w)"

definition user_resource :: "User \<Rightarrow> string" where
  "user_resource u = ''user:'' @ u_ID u"

definition beginTOTPEnrollment :: "api \<Rightarrow> auth_api \<Rightarrow> web handler" where
  "beginTOTPEnrollment ap aa r w =
     (let user = CurrentUser r
      in case on_db (BeginTOTPEnrollment (aa_crypto aa) (aa_service aa) (aa_draws aa) (u_ID user) ''Samba Admin Suite'' (u_Username user)) w of
           (Inl _, w1) \<Rightarrow> (problem r 409 ''mfa_unavailable'' (''MFA indispon'' @ [CHR 0xC3, CHR 0xAD] @ ''vel'') (''A configura'' @ [CHR 0xC3, CHR 0xA7, CHR 0xC3, CHR 0xA3] @ ''o segura de MFA n'' @ [CHR 0xC3, CHR 0xA3] @ ''o est'' @ [CHR 0xC3, CHR 0xA1] @ '' dispon'' @ [CHR 0xC3, CHR 0xAD] @ ''vel.'') JNull, w1)
         | (Inr en, w1) \<Rightarrow>
             (writeJSON 201 (struct_text [(''manualSecret'', quote (me_Secret en)), (''otpauthUri'', quote (me_URI en))]),
              audited ap 0 (local_entry r user ''auth.mfa.enrollment.begin'' (user_resource user) ''success'' []) w1))"

text \<open>Fresh recovery codes end every session of the user.\<close>

definition codes_response :: "api \<Rightarrow> string list \<Rightarrow> response" where
  "codes_response ap codes = clearSessionCookie ap (writeJSON 200 (struct_text [(''codes'', strings_text (Some codes))]))"

definition confirmTOTPEnrollment :: "api \<Rightarrow> auth_api \<Rightarrow> string input \<Rightarrow> web handler" where
  "confirmTOTPEnrollment ap aa inp r w =
     (case decode r inp of
        Inl resp \<Rightarrow> (resp, w)
      | Inr code \<Rightarrow>
          let user = CurrentUser r
          in case on_db (ConfirmTOTPEnrollment (aa_crypto aa) (aa_service aa) (ap_now ap) (aa_codes aa) (u_ID user) code) w of
               (Inl _, w1) \<Rightarrow> (problem r 422 ''invalid_mfa_code'' ''Falha de MFA'' (''O c'' @ [CHR 0xC3, CHR 0xB3] @ ''digo de confirma'' @ [CHR 0xC3, CHR 0xA7, CHR 0xC3, CHR 0xA3] @ ''o '' @ [CHR 0xC3, CHR 0xA9] @ '' inv'' @ [CHR 0xC3, CHR 0xA1] @ ''lido.'') JNull, w1)
             | (Inr codes, w1) \<Rightarrow>
                 (codes_response ap codes, audited ap 0 (local_entry r user ''auth.mfa.enrollment.confirm'' (user_resource user) ''success'' []) w1))"

definition rotateRecoveryCodes :: "api \<Rightarrow> auth_api \<Rightarrow> web handler" where
  "rotateRecoveryCodes ap aa r w =
     (let user = CurrentUser r
      in case on_db (RotateRecoveryCodes (aa_crypto aa) (ap_now ap) (aa_codes aa) (u_ID user)) w of
           (Inl _, w1) \<Rightarrow> (problem r 409 ''mfa_unavailable'' (''MFA indispon'' @ [CHR 0xC3, CHR 0xAD] @ ''vel'') (''N'' @ [CHR 0xC3, CHR 0xA3] @ ''o foi poss'' @ [CHR 0xC3, CHR 0xAD] @ ''vel gerar c'' @ [CHR 0xC3, CHR 0xB3] @ ''digos de recupera'' @ [CHR 0xC3, CHR 0xA7, CHR 0xC3, CHR 0xA3] @ ''o.'') JNull, w1)
         | (Inr codes, w1) \<Rightarrow>
             (codes_response ap codes, audited ap 0 (local_entry r user ''auth.mfa.recovery.rotate'' (user_resource user) ''success'' []) w1))"

definition revokeTOTP :: "api \<Rightarrow> auth_api \<Rightarrow> web handler" where
  "revokeTOTP ap aa r w =
     (let user = CurrentUser r
      in if MFARequiredForRoles (aa_service aa) (u_Roles user) then
           (problem r 409 ''mfa_required_by_policy'' (''MFA obrigat'' @ [CHR 0xC3, CHR 0xB3] @ ''rio'') (''A pol'' @ [CHR 0xC3, CHR 0xAD] @ ''tica do papel impede a revoga'' @ [CHR 0xC3, CHR 0xA7, CHR 0xC3, CHR 0xA3] @ ''o de MFA.'') JNull, w)
         else case on_db (Auth.RevokeTOTP (u_ID user)) w of
           (Inl _, w1) \<Rightarrow> (problem r 500 ''mfa_revoke_failed'' ''Falha de MFA'' (''N'' @ [CHR 0xC3, CHR 0xA3] @ ''o foi poss'' @ [CHR 0xC3, CHR 0xAD] @ ''vel revogar MFA.'') JNull, w1)
         | (Inr _, w1) \<Rightarrow>
             (clearSessionCookie ap \<lparr>re_Status = 204, re_Header = [], re_Cookie = None, re_Body = []\<rparr>,
              audited ap 0 (local_entry r user ''auth.mfa.revoke'' (user_resource user) ''success'' []) w1))"

end
