(* ===== verification/Reads.thy ===== *)
theory Reads
  imports Api
begin

text \<open>
  The handlers of \<open>src/backend/internal/httpapi/server.go\<close> that only read.  What the providers of
  \<open>src/backend/internal/adapters\<close> answer and the tables of \<open>src/backend/internal/fixtures/data.go\<close> are arguments:
  the JSON text of the value, and of the part that a handler sends where that is not all of it; \<open>None\<close> for an error.  The
  stream of events is modelled up to its first flush and then per event.
\<close>

record provider =
  pv_Inspect :: "string option"
  pv_Capabilities :: "string option"
  pv_List :: "string option"
  pv_Samba :: "string option"
  pv_Cups :: "(string \<times> string) option"
  pv_Domain :: "(string \<times> string) option"

record filesystem =
  fs_ID :: string
  fs_MountPoint :: string
  fs_ACLModel :: string
  fs_AssociatedShares :: "string list option"

record reads =
  rd_ping :: bool
  rd_provider :: "provider option"
  rd_fixture :: "string \<Rightarrow> string"
  rd_filesystems :: "filesystem list"
  rd_domain_tests :: string

definition unavailable :: "http \<Rightarrow> string \<Rightarrow> string \<Rightarrow> string \<Rightarrow> response" where
  "unavailable r typ title detail = problem r 503 typ title detail JNull"

definition strs :: "string list \<Rightarrow> json" where
  "strs xs = JArr (map JStr xs)"

section \<open>Health\<close>

definition health :: "api \<Rightarrow> web handler" where
  "health ap r w = (writeJSON 200 (marshal (JObj [(''status'', JStr ''ok''), (''timestamp'', JStr (RFC3339Nano (ap_now ap)))])), w)"

definition ready :: "api \<Rightarrow> reads \<Rightarrow> web handler" where
  "ready ap rd r w =
     (if \<not> rd_ping rd then (unavailable r ''not_ready'' (''Servi'' @ [CHR 0xC3, CHR 0xA7] @ ''o indispon'' @ [CHR 0xC3, CHR 0xAD] @ ''vel'') (''Banco de dados n'' @ [CHR 0xC3, CHR 0xA3] @ ''o est'' @ [CHR 0xC3, CHR 0xA1] @ '' pronto.''), w)
      else if (cf_AdapterMode (ap_cfg ap) = ''agent'' \<or> cf_AdapterMode (ap_cfg ap) = ''freebsd-readonly'') \<and>
              (case rd_provider rd of None \<Rightarrow> False | Some p \<Rightarrow> pv_Inspect p = None)
      then (unavailable r ''not_ready'' (''Servi'' @ [CHR 0xC3, CHR 0xA7] @ ''o indispon'' @ [CHR 0xC3, CHR 0xAD] @ ''vel'') (''Agente de leitura n'' @ [CHR 0xC3, CHR 0xA3] @ ''o est'' @ [CHR 0xC3, CHR 0xA1] @ '' pronto.''), w)
      else (writeJSON 200 (marshal (JObj
        [(''status'', JStr ''ready''), (''timestamp'', JStr (RFC3339Nano (ap_now ap))), (''adapterMode'', JStr (cf_AdapterMode (ap_cfg ap)))])), w))"

section \<open>Inventory\<close>

definition etag :: "string \<Rightarrow> string" where
  "etag json_text = [CHR 0x22] @ hex_encode (sha256 json_text) @ [CHR 0x22]"

definition with_etag :: "http \<Rightarrow> string \<Rightarrow> response" where
  "with_etag r v =
     under [(''ETag'', etag v)]
       (if ht_Header r ''If-None-Match'' = etag v then \<lparr>re_Status = 304, re_Header = [], re_Cookie = None, re_Body = []\<rparr> else writeJSON 200 v)"

definition system :: "reads \<Rightarrow> web handler" where
  "system rd r w =
     ((case rd_provider rd of
         None \<Rightarrow> with_etag r (rd_fixture rd ''System'')
       | Some p \<Rightarrow>
           (case pv_Inspect p of
              None \<Rightarrow> unavailable r ''capability_unavailable'' (''Invent'' @ [CHR 0xC3, CHR 0xA1] @ ''rio indispon'' @ [CHR 0xC3, CHR 0xAD] @ ''vel'') (''O adapter FreeBSD de leitura n'' @ [CHR 0xC3, CHR 0xA3] @ ''o p'' @ [CHR 0xC3, CHR 0xB4] @ ''de concluir o invent'' @ [CHR 0xC3, CHR 0xA1] @ ''rio.'')
            | Some v \<Rightarrow> with_etag r v)), w)"

definition samba :: "reads \<Rightarrow> web handler" where
  "samba rd r w =
     ((case rd_provider rd of
         None \<Rightarrow> unavailable r ''agent_unavailable'' (''Invent'' @ [CHR 0xC3, CHR 0xA1] @ ''rio Samba indispon'' @ [CHR 0xC3, CHR 0xAD] @ ''vel'') (''O provider somente leitura n'' @ [CHR 0xC3, CHR 0xA3] @ ''o est'' @ [CHR 0xC3, CHR 0xA1] @ '' dispon'' @ [CHR 0xC3, CHR 0xAD] @ ''vel.'')
       | Some p \<Rightarrow>
           (case pv_Samba p of
              None \<Rightarrow> unavailable r ''capability_unavailable'' (''Invent'' @ [CHR 0xC3, CHR 0xA1] @ ''rio Samba indispon'' @ [CHR 0xC3, CHR 0xAD] @ ''vel'') (''O agente n'' @ [CHR 0xC3, CHR 0xA3] @ ''o p'' @ [CHR 0xC3, CHR 0xB4] @ ''de concluir a sondagem m'' @ [CHR 0xC3, CHR 0xAD] @ ''nima do Samba.'')
            | Some v \<Rightarrow> writeJSON 200 v)), w)"

definition cups :: "reads \<Rightarrow> web handler" where
  "cups rd r w =
     ((case rd_provider rd of
         None \<Rightarrow> unavailable r ''agent_unavailable'' (''Invent'' @ [CHR 0xC3, CHR 0xA1] @ ''rio CUPS indispon'' @ [CHR 0xC3, CHR 0xAD] @ ''vel'') (''O provider somente leitura n'' @ [CHR 0xC3, CHR 0xA3] @ ''o est'' @ [CHR 0xC3, CHR 0xA1] @ '' dispon'' @ [CHR 0xC3, CHR 0xAD] @ ''vel.'')
       | Some p \<Rightarrow>
           (case pv_Cups p of
              None \<Rightarrow> unavailable r ''capability_unavailable'' (''Invent'' @ [CHR 0xC3, CHR 0xA1] @ ''rio CUPS indispon'' @ [CHR 0xC3, CHR 0xAD] @ ''vel'') (''O agente n'' @ [CHR 0xC3, CHR 0xA3] @ ''o p'' @ [CHR 0xC3, CHR 0xB4] @ ''de concluir a sondagem m'' @ [CHR 0xC3, CHR 0xAD] @ ''nima do CUPS.'')
            | Some (v, _) \<Rightarrow> writeJSON 200 v)), w)"

text \<open>The provider's answer, or the fixture where there is no provider.\<close>

definition provided :: "reads \<Rightarrow> (provider \<Rightarrow> string option) \<Rightarrow> string \<Rightarrow> response \<Rightarrow> response" where
  "provided rd sel fixture failed =
     (case rd_provider rd of
        None \<Rightarrow> writeJSON 200 (rd_fixture rd fixture)
      | Some p \<Rightarrow> (case sel p of None \<Rightarrow> failed | Some v \<Rightarrow> writeJSON 200 v))"

definition capabilities :: "reads \<Rightarrow> web handler" where
  "capabilities rd r w =
     (provided rd pv_Capabilities ''Capabilities''
        (unavailable r ''capability_unavailable'' (''Capacidades indispon'' @ [CHR 0xC3, CHR 0xAD] @ ''veis'') (''O adapter FreeBSD de leitura n'' @ [CHR 0xC3, CHR 0xA3] @ ''o p'' @ [CHR 0xC3, CHR 0xB4] @ ''de concluir a detec'' @ [CHR 0xC3, CHR 0xA7, CHR 0xC3, CHR 0xA3] @ ''o.'')), w)"

definition filesystems :: "reads \<Rightarrow> web handler" where
  "filesystems rd r w =
     (provided rd pv_List ''Filesystems''
        (unavailable r ''capability_unavailable'' (''Invent'' @ [CHR 0xC3, CHR 0xA1] @ ''rio indispon'' @ [CHR 0xC3, CHR 0xAD] @ ''vel'') (''O adapter FreeBSD de leitura n'' @ [CHR 0xC3, CHR 0xA3] @ ''o p'' @ [CHR 0xC3, CHR 0xB4] @ ''de listar os sistemas de arquivos.'')), w)"

definition domain :: "reads \<Rightarrow> web handler" where
  "domain rd r w =
     (provided rd (\<lambda>p. map_option fst (pv_Domain p)) ''Domain''
        (unavailable r ''capability_unavailable'' (''Diagn'' @ [CHR 0xC3, CHR 0xB3] @ ''stico indispon'' @ [CHR 0xC3, CHR 0xAD] @ ''vel'') (''O adapter FreeBSD de leitura n'' @ [CHR 0xC3, CHR 0xA3] @ ''o p'' @ [CHR 0xC3, CHR 0xB4] @ ''de diagnosticar o dom'' @ [CHR 0xC3, CHR 0xAD] @ ''nio.'')), w)"

definition printers :: "reads \<Rightarrow> web handler" where
  "printers rd r w =
     (provided rd (\<lambda>p. map_option snd (pv_Cups p)) ''Printers''
        (unavailable r ''capability_unavailable'' (''Impress'' @ [CHR 0xC3, CHR 0xA3] @ ''o indispon'' @ [CHR 0xC3, CHR 0xAD] @ ''vel'') (''O invent'' @ [CHR 0xC3, CHR 0xA1] @ ''rio CUPS n'' @ [CHR 0xC3, CHR 0xA3] @ ''o p'' @ [CHR 0xC3, CHR 0xB4] @ ''de ser consultado pelo agente.'')), w)"

definition from_fixture :: "string \<Rightarrow> reads \<Rightarrow> web handler" where
  "from_fixture name rd r w = (writeJSON 200 (rd_fixture rd name), w)"

definition acls :: "reads \<Rightarrow> web handler" where "acls = from_fixture ''ACLs''"
definition principals :: "reads \<Rightarrow> web handler" where "principals = from_fixture ''Principals''"
definition drivers :: "reads \<Rightarrow> web handler" where "drivers = from_fixture ''Drivers''"
definition dfs :: "reads \<Rightarrow> web handler" where "dfs = from_fixture ''DFS''"
definition quotas :: "reads \<Rightarrow> web handler" where "quotas = from_fixture ''Quotas''"
definition auditEvents :: "reads \<Rightarrow> web handler" where "auditEvents = from_fixture ''Audit''"
definition services :: "reads \<Rightarrow> web handler" where "services = from_fixture ''Services''"

definition legacyACLs :: "reads \<Rightarrow> web handler" where
  "legacyACLs rd r w = (case acls rd r w of (resp, w1) \<Rightarrow> (under (setDeprecationHeaders ''/api/v1/acls'') resp, w1))"

definition legacyPrincipals :: "reads \<Rightarrow> web handler" where
  "legacyPrincipals rd r w = (case principals rd r w of (resp, w1) \<Rightarrow> (under (setDeprecationHeaders ''/api/v1/identities'') resp, w1))"

section \<open>Simulations and constant answers\<close>

definition effectiveACL :: "string input \<Rightarrow> web handler" where
  "effectiveACL inp r w =
     (case decode r inp of
        Inl resp \<Rightarrow> (resp, w)
      | Inr name \<Rightarrow> (writeJSON 200 (marshal (JObj
          [(''principal'', JStr name),
           (''effective'', strs [''Ler e executar'', ''Criar arquivos'', ''Criar pastas'', (''Excluir pr'' @ [CHR 0xC3, CHR 0xB3] @ ''prios arquivos'')]),
           (''denied'', strs [(''Alterar propriet'' @ [CHR 0xC3, CHR 0xA1] @ ''rio''), ''Alterar ACL'']),
           (''warnings'', strs [''Resultado mockado; grupos aninhados e o token real devem ser resolvidos no backend FreeBSD/AD.''])])), w))"

record conversion_input =
  ci_FilesystemID :: string
  ci_Target :: string

definition conversion_risks :: "string list" where
  "conversion_risks =
     [(''A ordem e a preced'' @ [CHR 0xC3, CHR 0xAA] @ ''ncia de ACEs DENY podem sofrer altera'' @ [CHR 0xC3, CHR 0xA7, CHR 0xC3, CHR 0xA3] @ ''o.''),
      (''M'' @ [CHR 0xC3, CHR 0xA1] @ ''scaras POSIX n'' @ [CHR 0xC3, CHR 0xA3] @ ''o possuem equival'' @ [CHR 0xC3, CHR 0xAA] @ ''ncia perfeita no modelo NFSv4.''),
      (''Entradas com identidades n'' @ [CHR 0xC3, CHR 0xA3] @ ''o resolvidas exigem mapeamento manual.''),
      (''A revers'' @ [CHR 0xC3, CHR 0xA3] @ ''o restaura o invent'' @ [CHR 0xC3, CHR 0xA1] @ ''rio exportado, mas n'' @ [CHR 0xC3, CHR 0xA3] @ ''o garante equival'' @ [CHR 0xC3, CHR 0xAA] @ ''ncia sem'' @ [CHR 0xC3, CHR 0xA2] @ ''ntica perfeita.'')]"

definition conversion_plan :: "string list" where
  "conversion_plan =
     [(''Bloquear novas altera'' @ [CHR 0xC3, CHR 0xA7, CHR 0xC3, CHR 0xB5] @ ''es e notificar usu'' @ [CHR 0xC3, CHR 0xA1] @ ''rios.''), (''Encerrar sess'' @ [CHR 0xC3, CHR 0xB5] @ ''es e verificar arquivos abertos.''),
      ''Exportar ACLs, donos, grupos e metadados.'', (''Desmontar o sistema de arquivos em janela de manuten'' @ [CHR 0xC3, CHR 0xA7, CHR 0xC3, CHR 0xA3] @ ''o.''),
      ''Alterar /etc/fstab de acls para nfsv4acls.'', ''Montar, reaplicar ACLs mapeadas e executar testes de acesso.'',
      (''Reabrir o servi'' @ [CHR 0xC3, CHR 0xA7] @ ''o apenas ap'' @ [CHR 0xC3, CHR 0xB3] @ ''s verifica'' @ [CHR 0xC3, CHR 0xA7, CHR 0xC3, CHR 0xA3] @ ''o de sa'' @ [CHR 0xC3, CHR 0xBA] @ ''de.'')]"

definition simulateACLConversion :: "reads \<Rightarrow> conversion_input input \<Rightarrow> web handler" where
  "simulateACLConversion rd inp r w =
     (case decode r inp of
        Inl resp \<Rightarrow> (resp, w)
      | Inr c \<Rightarrow>
          (case find (\<lambda>x. fs_ID x = ci_FilesystemID c) (rd_filesystems rd) of
             None \<Rightarrow> (problem r 404 ''not_found'' (''N'' @ [CHR 0xC3, CHR 0xA3] @ ''o encontrado'') (''Sistema de arquivos n'' @ [CHR 0xC3, CHR 0xA3] @ ''o encontrado.'') JNull, w)
           | Some fs \<Rightarrow>
               if ci_Target c \<noteq> ''posix'' \<and> ci_Target c \<noteq> ''nfsv4'' then (validationProblem r ''target'' (''Modelo de ACL inv'' @ [CHR 0xC3, CHR 0xA1] @ ''lido.''), w)
               else (writeJSON 200 (marshal (JObj
                 [(''filesystem'', JStr (fs_MountPoint fs)), (''from'', JStr (fs_ACLModel fs)), (''to'', JStr (ci_Target c)),
                  (''requiresMaintenance'', JBool True), (''requiresUnmount'', JBool True),
                  (''backupArtifact'', JStr (''/var/backups/samba-admin/acl-'' @ ci_FilesystemID c @ ''-simulado.jsonl'')),
                  (''affectedShares'', strings_json (fs_AssociatedShares fs)), (''scannedObjects'', JNum 184203), (''preserved'', JNum 173910),
                  (''approximated'', JNum 9911), (''notRepresentable'', JNum 382), (''risks'', strs conversion_risks),
                  (''plan'', strs conversion_plan)])), w)))"

definition modeled_commands :: "string list" where
  "modeled_commands = [''DNS SRV'', (''diferen'' @ [CHR 0xC3, CHR 0xA7] @ ''a de hor'' @ [CHR 0xC3, CHR 0xA1] @ ''rio''), (''Kerberos com credencial ef'' @ [CHR 0xC3, CHR 0xAA] @ ''mera''), ''LDAP TLS'', ''SMB 3'', ''winbind'',
     (''resolu'' @ [CHR 0xC3, CHR 0xA7, CHR 0xC3, CHR 0xA3] @ ''o de usu'' @ [CHR 0xC3, CHR 0xA1] @ ''rio''), (''resolu'' @ [CHR 0xC3, CHR 0xA7, CHR 0xC3, CHR 0xA3] @ ''o de grupo'')]"

text \<open>The answer lists the keys of a map in their order; the checks are already encoded.\<close>

definition test_text :: "string \<Rightarrow> string list \<Rightarrow> string" where
  "test_text tests executed = struct_text
     [(''checks'', tests), (''commandsExecuted'', strings_text (Some executed)), (''commandsModeled'', strings_text (Some modeled_commands)),
      (''success'', ''true'')]"

definition domainTest :: "api \<Rightarrow> reads \<Rightarrow> web handler" where
  "domainTest ap rd r w =
     ((case rd_provider rd of
         None \<Rightarrow> writeJSON 202 (test_text (rd_domain_tests rd) [])
       | Some p \<Rightarrow>
           (case pv_Domain p of
              None \<Rightarrow> unavailable r ''capability_unavailable'' (''Diagn'' @ [CHR 0xC3, CHR 0xB3] @ ''stico indispon'' @ [CHR 0xC3, CHR 0xAD] @ ''vel'') (''O adapter FreeBSD de leitura n'' @ [CHR 0xC3, CHR 0xA3] @ ''o p'' @ [CHR 0xC3, CHR 0xB4] @ ''de diagnosticar o dom'' @ [CHR 0xC3, CHR 0xAD] @ ''nio.'')
            | Some (_, tests) \<Rightarrow>
                writeJSON 202 (test_text tests
                  (if cf_AdapterMode (ap_cfg ap) = ''freebsd-readonly'' \<or> cf_AdapterMode (ap_cfg ap) = ''agent''
                   then [''/usr/local/bin/testparm -s'', ''/bin/cat /etc/resolv.conf'', ''/usr/local/bin/wbinfo --ping-dc''] else [])))), w)"

definition profile_json :: "string \<Rightarrow> string \<Rightarrow> bool \<Rightarrow> bool \<Rightarrow> object \<Rightarrow> json" where
  "profile_json i name selected reprovision extra =
     JObj ([(''id'', JStr i), (''name'', JStr name), (''selected'', JBool selected), (''requiresReprovision'', JBool reprovision)] @ extra)"

definition sambaProfiles :: "web handler" where
  "sambaProfiles r w = (writeJSON 200 (marshal (JArr
     [profile_json ''standalone'' (''Servidor aut'' @ [CHR 0xC3, CHR 0xB4] @ ''nomo'') False False [],
      profile_json ''domain-member'' ''Membro de Active Directory existente'' True False [],
      profile_json ''ad-dc'' (''Controlador de dom'' @ [CHR 0xC3, CHR 0xAD] @ ''nio Samba AD DC'') False True [(''capability'', JStr ''nao_verificado'')],
      profile_json ''additional-dc'' ''Controlador adicional'' False True [(''capability'', JStr ''nao_verificado'')]])), w)"

definition logging :: "web handler" where
  "logging r w = (writeJSON 200 (marshal (JObj
     [(''local'', JBool True), (''remoteEnabled'', JBool True), (''destination'', JStr ''siem.exemplo.interno''), (''port'', JNum 6514),
      (''protocol'', JStr ''tcp-tls''), (''format'', JStr ''RFC5424''), (''tlsCapability'', JStr ''restrito''), (''queueEnabled'', JBool True),
      (''retentionDays'', JNum 90)])), w)"

definition backups :: "web handler" where
  "backups r w = (writeJSON 200 (marshal (JArr [JObj
     [(''id'', JStr ''backup-simulado-001''), (''resourceType'', JStr ''samba-config''), (''resourceId'', JStr ''global''),
      (''artifactPath'', JStr ''/var/backups/samba-admin/smb4.conf.simulado''), (''checksum'', JStr ''sha256:simulado''),
      (''status'', JStr ''verified''), (''createdAt'', JStr ''2026-07-11T15:00:00Z'')]])), w)"

section \<open>The stream of events\<close>

definition event_json :: "Event \<Rightarrow> string" where
  "event_json e = struct_text
     ([(''id'', quote (ev_ID e)), (''type'', quote (ev_Type e))] @
      (if ev_ResourceID e = [] then [] else [(''resourceId'', quote (ev_ResourceID e))]) @
      (if ev_CorrelationID e = [] then [] else [(''correlationId'', quote (ev_CorrelationID e))]) @
      [(''timestamp'', quote (RFC3339Nano (ev_Timestamp e))), (''payload'', marshal (ev_Payload e))])"

definition writeSSEEvent :: "Event \<Rightarrow> string" where
  "writeSSEEvent e =
     (if ev_ID e = [] then [] else ''id: '' @ ev_ID e @ [newline]) @
     ''event: '' @ ev_Type e @ [newline] @ ''data: '' @ event_json e @ [newline, newline]"

definition last_event_id :: "http \<Rightarrow> string" where
  "last_event_id r = (if ht_Header r ''Last-Event-ID'' = [] then ht_Query r ''lastEventId'' else ht_Header r ''Last-Event-ID'')"

text \<open>The number of the subscription, the response up to the first flush, and the broker with the new channel.\<close>

definition open_stream :: "http \<Rightarrow> Broker \<Rightarrow> (nat \<times> response) \<times> Broker" where
  "open_stream r b =
     (case SubscribeAfter (last_event_id r) b of
        ((i, replay), b1) \<Rightarrow>
          ((i, \<lparr>re_Status = 200,
                re_Header = [(''Content-Type'', ''text/event-stream''), (''Cache-Control'', ''no-cache''), (''Connection'', ''keep-alive'')],
                re_Cookie = None,
                re_Body = ''event: ready'' @ [newline] @ ''data: '' @
                  struct_text [(''status'', quote ''connected''), (''replayed'', marshal (JBool (replay \<noteq> [])))] @ [newline, newline] @
                  concat (map writeSSEEvent replay)\<rparr>), b1))"

text \<open>One turn of the loop: what is written and whether the loop goes on.\<close>

datatype wakeup = Client_done | Channel_closed | Received Event | Keepalive

fun stream_turn :: "wakeup \<Rightarrow> string \<times> bool" where
  "stream_turn Client_done = ([], False)"
| "stream_turn Channel_closed = ([], False)"
| "stream_turn (Received e) = (writeSSEEvent e, True)"
| "stream_turn Keepalive = ('': keepalive'' @ [newline, newline], True)"

definition events :: "web handler" where
  "events r w =
     (case open_stream r (mg_broker (wb_manager w)) of
        ((_, resp), b) \<Rightarrow> (resp, w\<lparr>wb_manager := (wb_manager w)\<lparr>mg_broker := b\<rparr>\<rparr>))"

end
