(* ===== verification/Routes.thy ===== *)
theory Routes
  imports AuthApi ChangesApi Reads
begin

text \<open>
  From a request to a handler: the routes and the checks of parameters of the generated router
  (\<open>src/backend/api/generated/server.gen.go\<close>), the permission and idempotency of every operation
  (\<open>src/backend/internal/httpapi/openapi_handler.go\<close>), and the whole server, which puts the middleware chain before them.
  The router is the multiplexer of \<open>net/http\<close>: it matches the segments of the escaped path, each of them unescaped,
  while the middlewares look at the unescaped path.  Arguments are the answer to a path that is not clean (a redirect) and
  what \<open>oapi-codegen/runtime\<close> accepts as the text of a parameter.
\<close>

section \<open>Operations and routes\<close>

datatype operation =
    OpListAclsLegacy | OpSimulateAclConversion | OpCalculateEffectiveAcl | OpListAcls | OpListAudit | OpLogin | OpLogout
    | OpCurrentUser | OpRotateRecoveryCodes | OpConfirmTotpEnrollment | OpBeginTotpEnrollment | OpRevokeTotp | OpVerifyMfaLogin
    | OpRenewSession | OpListBackups | OpListCapabilities | OpListChangeRequests | OpCreateChangeRequest | OpGetChangeRequest
    | OpApproveChangeRequest | OpExecuteApprovedChangeRequest | OpRejectChangeRequest | OpGetConfigurationFile
    | OpValidateConfiguration | OpGetCups | OpListDfs | OpGetDomain | OpTestDomain | OpStreamEvents | OpListFilesystems
    | OpListIdentities | OpListJobs | OpCancelJob | OpRollbackJob | OpGetLogging | OpListMounts | OpListPrincipalsLegacy
    | OpListPrintDrivers | OpListPrinters | OpListQuotas | OpExecuteRollback | OpGetSamba | OpListSambaProfiles | OpListServices
    | OpServiceAction | OpListShares | OpCreateShare | OpPreviewShare | OpGetSystem | OpHealth | OpReadiness

definition routes :: "(string \<times> string \<times> operation) list" where
  "routes =
     [(''GET'', ''/api/v1/acl'', OpListAclsLegacy),
      (''POST'', ''/api/v1/acl/conversion/simulate'', OpSimulateAclConversion),
      (''POST'', ''/api/v1/acl/effective'', OpCalculateEffectiveAcl),
      (''GET'', ''/api/v1/acls'', OpListAcls),
      (''GET'', ''/api/v1/audit'', OpListAudit),
      (''POST'', ''/api/v1/auth/login'', OpLogin),
      (''POST'', ''/api/v1/auth/logout'', OpLogout),
      (''GET'', ''/api/v1/auth/me'', OpCurrentUser),
      (''POST'', ''/api/v1/auth/mfa/recovery-codes'', OpRotateRecoveryCodes),
      (''POST'', ''/api/v1/auth/mfa/totp/confirm'', OpConfirmTotpEnrollment),
      (''POST'', ''/api/v1/auth/mfa/totp/enroll'', OpBeginTotpEnrollment),
      (''POST'', ''/api/v1/auth/mfa/totp/revoke'', OpRevokeTotp),
      (''POST'', ''/api/v1/auth/mfa/verify'', OpVerifyMfaLogin),
      (''POST'', ''/api/v1/auth/session/renew'', OpRenewSession),
      (''GET'', ''/api/v1/backups'', OpListBackups),
      (''GET'', ''/api/v1/capabilities'', OpListCapabilities),
      (''GET'', ''/api/v1/change-requests'', OpListChangeRequests),
      (''POST'', ''/api/v1/change-requests'', OpCreateChangeRequest),
      (''GET'', ''/api/v1/change-requests/{id}'', OpGetChangeRequest),
      (''POST'', ''/api/v1/change-requests/{id}/approve'', OpApproveChangeRequest),
      (''POST'', ''/api/v1/change-requests/{id}/execute'', OpExecuteApprovedChangeRequest),
      (''POST'', ''/api/v1/change-requests/{id}/reject'', OpRejectChangeRequest),
      (''GET'', ''/api/v1/configuration/file'', OpGetConfigurationFile),
      (''POST'', ''/api/v1/configuration/validate'', OpValidateConfiguration),
      (''GET'', ''/api/v1/cups'', OpGetCups),
      (''GET'', ''/api/v1/dfs'', OpListDfs),
      (''GET'', ''/api/v1/domain'', OpGetDomain),
      (''POST'', ''/api/v1/domain/test'', OpTestDomain),
      (''GET'', ''/api/v1/events'', OpStreamEvents),
      (''GET'', ''/api/v1/filesystems'', OpListFilesystems),
      (''GET'', ''/api/v1/identities'', OpListIdentities),
      (''GET'', ''/api/v1/jobs'', OpListJobs),
      (''POST'', ''/api/v1/jobs/{id}/cancel'', OpCancelJob),
      (''POST'', ''/api/v1/jobs/{id}/rollback'', OpRollbackJob),
      (''GET'', ''/api/v1/logging'', OpGetLogging),
      (''GET'', ''/api/v1/mounts'', OpListMounts),
      (''GET'', ''/api/v1/principals'', OpListPrincipalsLegacy),
      (''GET'', ''/api/v1/print-drivers'', OpListPrintDrivers),
      (''GET'', ''/api/v1/printers'', OpListPrinters),
      (''GET'', ''/api/v1/quotas'', OpListQuotas),
      (''POST'', ''/api/v1/rollback'', OpExecuteRollback),
      (''GET'', ''/api/v1/samba'', OpGetSamba),
      (''GET'', ''/api/v1/samba-profiles'', OpListSambaProfiles),
      (''GET'', ''/api/v1/services'', OpListServices),
      (''POST'', ''/api/v1/services/{id}/action'', OpServiceAction),
      (''GET'', ''/api/v1/shares'', OpListShares),
      (''POST'', ''/api/v1/shares'', OpCreateShare),
      (''POST'', ''/api/v1/shares/preview'', OpPreviewShare),
      (''GET'', ''/api/v1/system'', OpGetSystem),
      (''GET'', ''/healthz'', OpHealth),
      (''GET'', ''/readyz'', OpReadiness)]"

section \<open>The multiplexer\<close>

definition hex_value :: "char \<Rightarrow> nat option" where
  "hex_value c =
     (let n = of_char c :: nat
      in if 48 \<le> n \<and> n \<le> 57 then Some (n - 48)
         else if 97 \<le> n \<and> n \<le> 102 then Some (n - 87)
         else if 65 \<le> n \<and> n \<le> 70 then Some (n - 55)
         else None)"

text \<open>\<open>url.PathUnescape\<close>; the multiplexer keeps a segment that it cannot unescape.\<close>

fun PathUnescape :: "string \<Rightarrow> string option" where
  "PathUnescape [] = Some []"
| "PathUnescape (c # s) =
     (if c = CHR ''%'' then
        (case s of
           a # b # t \<Rightarrow>
             (case (hex_value a, hex_value b) of
                (Some x, Some y) \<Rightarrow> map_option ((#) (char_of (16 * x + y :: nat))) (PathUnescape t)
              | _ \<Rightarrow> None)
         | _ \<Rightarrow> None)
      else map_option ((#) c) (PathUnescape s))"

definition pathUnescape :: "string \<Rightarrow> string" where
  "pathUnescape s = (case PathUnescape s of None \<Rightarrow> s | Some t \<Rightarrow> t)"

definition cleanPath :: "string \<Rightarrow> string" where
  "cleanPath p =
     (if p = [] then ''/''
      else let p1 = (if hd p = CHR ''/'' then p else CHR ''/'' # p); np = Clean p1
           in if last p1 = CHR ''/'' \<and> np \<noteq> ''/'' then np @ ''/'' else np)"

definition wildcard :: "string \<Rightarrow> bool" where
  "wildcard p \<longleftrightarrow> HasPrefix p ''{''"

text \<open>The segments of a pat against those of a path; the result are the values of the wildcards.\<close>

fun match_segments :: "string list \<Rightarrow> string list \<Rightarrow> (string \<times> string) list option" where
  "match_segments [] [] = Some []"
| "match_segments (p # ps) (s # ss) =
     (if wildcard p then
        if s = [] \<or> pathUnescape s = ''/'' then None
        else map_option ((#) (remove_chars {CHR ''{'', CHR ''}''} p, pathUnescape s)) (match_segments ps ss)
      else if pathUnescape s = p then match_segments ps ss
      else None)"
| "match_segments _ _ = None"

definition match_path :: "string \<Rightarrow> string \<Rightarrow> (string \<times> string) list option" where
  "match_path pat path = match_segments (split_at CHR ''/'' pat) (split_at CHR ''/'' path)"

definition method_matches :: "string \<Rightarrow> string \<Rightarrow> bool" where
  "method_matches pat m \<longleftrightarrow> m = pat \<or> pat = ''GET'' \<and> m = ''HEAD''"

fun find_route :: "string \<Rightarrow> string \<Rightarrow> (string \<times> string \<times> operation) list \<Rightarrow> (operation \<times> (string \<times> string) list) option" where
  "find_route m path [] = None"
| "find_route m path ((verb, pat, op) # rs) =
     (case (if method_matches verb m then match_path pat path else None) of
        Some vs \<Rightarrow> Some (op, vs)
      | None \<Rightarrow> find_route m path rs)"

definition routed :: "http \<Rightarrow> (operation \<times> (string \<times> string) list) option" where
  "routed r = (if cleanPath (ht_EscapedPath r) = ht_EscapedPath r then find_route (ht_Method r) (ht_EscapedPath r) routes else None)"

definition http_error :: "nat \<Rightarrow> (string \<times> string) list \<Rightarrow> string \<Rightarrow> response" where
  "http_error status hs body =
     \<lparr>re_Status = status, re_Header = hs @ [(''Content-Type'', ''text/plain; charset=utf-8''), (''X-Content-Type-Options'', ''nosniff'')],
      re_Cookie = None, re_Body = body @ [newline]\<rparr>"

definition allowed_methods :: "string \<Rightarrow> string list" where
  "allowed_methods path =
     filter (\<lambda>m. list_ex (\<lambda>(verb, pat, _). method_matches verb m \<and> match_path pat path \<noteq> None) routes) [''GET'', ''HEAD'', ''POST'']"

definition unrouted :: "(http \<Rightarrow> response) \<Rightarrow> http \<Rightarrow> response" where
  "unrouted redirected r =
     (if cleanPath (ht_EscapedPath r) \<noteq> ht_EscapedPath r \<and> ht_Method r \<noteq> ''CONNECT'' then redirected r
      else let ms = allowed_methods (ht_Path r)
           in if ms \<noteq> [] then http_error 405 [(''Allow'', Join ms '', '')] ''Method Not Allowed'' else http_error 404 [] ''404 page not found'')"

definition ServeMux :: "(http \<Rightarrow> response) \<Rightarrow> (operation \<Rightarrow> 'w handler) \<Rightarrow> 'w handler" where
  "ServeMux redirected handler_of r w =
     (case routed r of
        None \<Rightarrow> (unrouted redirected r, w)
      | Some (op, vs) \<Rightarrow> handler_of op (r\<lparr>ht_PathValue := (\<lambda>n. case map_of vs n of None \<Rightarrow> [] | Some v \<Rightarrow> v)\<rparr>) w)"

section \<open>Parameters\<close>

datatype parameter = Path_parameter string | Required_header string | Optional_header string | Query_parameter string

definition parameter_table :: "(operation \<times> parameter list) list" where
  "parameter_table =
     [(OpListChangeRequests, [Query_parameter ''status'']),
      (OpCreateChangeRequest, [Required_header ''Idempotency-Key'']),
      (OpExecuteRollback, [Required_header ''Idempotency-Key'']),
      (OpGetChangeRequest, [Path_parameter ''id'']),
      (OpApproveChangeRequest, [Path_parameter ''id'', Required_header ''Idempotency-Key'']),
      (OpExecuteApprovedChangeRequest, [Path_parameter ''id'', Required_header ''Idempotency-Key'']),
      (OpRejectChangeRequest, [Path_parameter ''id'', Required_header ''Idempotency-Key'']),
      (OpCancelJob, [Path_parameter ''id'', Required_header ''Idempotency-Key'']),
      (OpRollbackJob, [Path_parameter ''id'', Required_header ''Idempotency-Key'']),
      (OpServiceAction, [Path_parameter ''id'', Required_header ''Idempotency-Key'']),
      (OpGetConfigurationFile, [Query_parameter ''path'']),
      (OpStreamEvents, [Optional_header ''Last-Event-ID'']),
      (OpListShares, [Query_parameter ''page'', Query_parameter ''pageSize'', Query_parameter ''sort'', Query_parameter ''filter'']),
      (OpCreateShare, [Required_header ''Idempotency-Key'', Optional_header ''If-Match''])]"

definition parameters :: "operation \<Rightarrow> parameter list" where
  "parameters op = (case map_of parameter_table op of None \<Rightarrow> [] | Some ps \<Rightarrow> ps)"

text \<open>\<open>bind\<close> tells whether the runtime accepts a text for a parameter; for the query it is the whole query.\<close>

fun parameter_ok :: "(parameter \<Rightarrow> string \<Rightarrow> bool) \<Rightarrow> http \<Rightarrow> parameter \<Rightarrow> bool" where
  "parameter_ok bind r (Path_parameter n) = bind (Path_parameter n) (ht_PathValue r n)"
| "parameter_ok bind r (Required_header n) = (case ht_Values r n of [v] \<Rightarrow> bind (Required_header n) v | _ \<Rightarrow> False)"
| "parameter_ok bind r (Optional_header n) = (case ht_Values r n of [] \<Rightarrow> True | [v] \<Rightarrow> bind (Optional_header n) v | _ \<Rightarrow> False)"
| "parameter_ok bind r (Query_parameter n) = bind (Query_parameter n) (ht_RawQuery r)"

definition parameter_problem :: "http \<Rightarrow> response" where
  "parameter_problem r = problem r 400 ''invalid_request_parameter'' (''Par'' @ [CHR 0xC3, CHR 0xA2] @ ''metro inv'' @ [CHR 0xC3, CHR 0xA1] @ ''lido'')
     (''A requisi'' @ [CHR 0xC3, CHR 0xA7, CHR 0xC3, CHR 0xA3] @ ''o cont'' @ [CHR 0xC3, CHR 0xA9] @ ''m um par'' @ [CHR 0xC3, CHR 0xA2] @ ''metro ausente ou inv'' @ [CHR 0xC3, CHR 0xA1] @ ''lido.'') JNull"

definition wrapper :: "(parameter \<Rightarrow> string \<Rightarrow> bool) \<Rightarrow> operation \<Rightarrow> 'w handler \<Rightarrow> 'w handler" where
  "wrapper bind op next r w = (if list_all (parameter_ok bind r) (parameters op) then next r w else (parameter_problem r, w))"

section \<open>Permission and idempotency of every operation\<close>

definition guard_table :: "(operation \<times> string \<times> string) list" where
  "guard_table =
     [(OpSimulateAclConversion, ''write'', ''acl''),
      (OpListChangeRequests, ''read'', ''change''),
      (OpCreateChangeRequest, ''write'', ''change''),
      (OpGetChangeRequest, ''read'', ''change''),
      (OpApproveChangeRequest, ''approve'', ''change''),
      (OpExecuteApprovedChangeRequest, ''operate'', ''change''),
      (OpRejectChangeRequest, ''approve'', ''change''),
      (OpValidateConfiguration, ''write'', ''file''),
      (OpTestDomain, ''write'', ''domain''),
      (OpCancelJob, ''operate'', ''job''),
      (OpRollbackJob, ''rollback'', ''job''),
      (OpExecuteRollback, ''rollback'', ''configuration''),
      (OpServiceAction, ''operate'', ''samba''),
      (OpCreateShare, ''write'', ''share''),
      (OpPreviewShare, ''write'', ''share'')]"

definition operation_guard :: "operation \<Rightarrow> (string \<times> string) option" where
  "operation_guard op = map_of guard_table op"

definition idempotent_operations :: "operation list" where
  "idempotent_operations =
     [OpCreateChangeRequest, OpApproveChangeRequest, OpExecuteApprovedChangeRequest, OpRejectChangeRequest, OpCancelJob, OpRollbackJob, OpExecuteRollback, OpServiceAction, OpCreateShare]"

definition contract :: "engine \<Rightarrow> time \<Rightarrow> (operation \<Rightarrow> web handler) \<Rightarrow> operation \<Rightarrow> web handler" where
  "contract eng now impl op =
     (let h = (if op \<in> set idempotent_operations then withIdempotency now (impl op) else impl op)
      in case operation_guard op of None \<Rightarrow> h | Some (action, resource) \<Rightarrow> Authorize eng action resource h)"

section \<open>The server\<close>

definition session_lookup :: "time \<Rightarrow> string \<Rightarrow> web \<Rightarrow> (store_error + User \<times> string) \<times> web" where
  "session_lookup now token = on_db (Current now token)"

record outside =
  os_now :: time
  os_random :: string
  os_late :: bool
  os_redirected :: "http \<Rightarrow> response"
  os_bind :: "parameter \<Rightarrow> string \<Rightarrow> bool"

definition serve :: "Config \<Rightarrow> engine \<Rightarrow> outside \<Rightarrow> (operation \<Rightarrow> web handler) \<Rightarrow> web handler" where
  "serve cfg eng os impl =
     chain cfg (os_random os) (os_late os) (session_lookup (os_now os))
       (ServeMux (os_redirected os) (\<lambda>op. wrapper (os_bind os) op (contract eng (os_now os) impl op)))"

text \<open>The handlers; a body is decoded from what is left of it after the limit.\<close>

record bodies =
  bd_login :: "string option \<Rightarrow> credentials input"
  bd_mfa :: "string option \<Rightarrow> mfa_answer input"
  bd_code :: "string option \<Rightarrow> string input"
  bd_principal :: "string option \<Rightarrow> string input"
  bd_conversion :: "string option \<Rightarrow> conversion_input input"
  bd_change :: "string option \<Rightarrow> RequestInput input"
  bd_reason :: "string option \<Rightarrow> string input"
  bd_file :: "string option \<Rightarrow> file_content input"
  bd_action :: "string option \<Rightarrow> string input"
  bd_share :: "string option \<Rightarrow> Share input"
  bd_rollback :: "string option \<Rightarrow> rollback_input input"

record backend =
  be_api :: api
  be_auth :: auth_api
  be_reads :: reads
  be_load :: system_load
  be_bodies :: bodies
  be_payload :: "string \<Rightarrow> object option"

definition fed :: "(string option \<Rightarrow> 'a input) \<Rightarrow> ('a input \<Rightarrow> web handler) \<Rightarrow> web handler" where
  "fed decoder handler r w = handler (decoder (ht_Body r)) r w"

definition implementation :: "backend \<Rightarrow> operation \<Rightarrow> web handler" where
  "implementation b op =
     (let ap = be_api b; aa = be_auth b; rd = be_reads b
      in case op of
        OpListAclsLegacy \<Rightarrow> legacyACLs rd
      | OpSimulateAclConversion \<Rightarrow> fed (bd_conversion (be_bodies b)) (simulateACLConversion rd)
      | OpCalculateEffectiveAcl \<Rightarrow> fed (bd_principal (be_bodies b)) effectiveACL
      | OpListAcls \<Rightarrow> acls rd
      | OpListAudit \<Rightarrow> auditEvents rd
      | OpLogin \<Rightarrow> fed (bd_login (be_bodies b)) (login ap aa)
      | OpLogout \<Rightarrow> logout ap
      | OpCurrentUser \<Rightarrow> me
      | OpRotateRecoveryCodes \<Rightarrow> rotateRecoveryCodes ap aa
      | OpConfirmTotpEnrollment \<Rightarrow> fed (bd_code (be_bodies b)) (confirmTOTPEnrollment ap aa)
      | OpBeginTotpEnrollment \<Rightarrow> beginTOTPEnrollment ap aa
      | OpRevokeTotp \<Rightarrow> revokeTOTP ap aa
      | OpVerifyMfaLogin \<Rightarrow> fed (bd_mfa (be_bodies b)) (verifyMFA_handler ap aa)
      | OpRenewSession \<Rightarrow> renewSession ap aa
      | OpListBackups \<Rightarrow> backups
      | OpListCapabilities \<Rightarrow> capabilities rd
      | OpListChangeRequests \<Rightarrow> listChangeRequests ap
      | OpCreateChangeRequest \<Rightarrow> fed (bd_change (be_bodies b)) (createChangeRequest ap)
      | OpGetChangeRequest \<Rightarrow> getChangeRequest
      | OpApproveChangeRequest \<Rightarrow> fed (bd_reason (be_bodies b)) (approveChangeRequest ap)
      | OpExecuteApprovedChangeRequest \<Rightarrow> executeChangeRequest ap (be_payload b)
      | OpRejectChangeRequest \<Rightarrow> fed (bd_reason (be_bodies b)) (rejectChangeRequest ap)
      | OpGetConfigurationFile \<Rightarrow> configurationFile
      | OpValidateConfiguration \<Rightarrow> fed (bd_file (be_bodies b)) validateConfiguration
      | OpGetCups \<Rightarrow> cups rd
      | OpListDfs \<Rightarrow> dfs rd
      | OpGetDomain \<Rightarrow> domain rd
      | OpTestDomain \<Rightarrow> domainTest ap rd
      | OpStreamEvents \<Rightarrow> events
      | OpListFilesystems \<Rightarrow> filesystems rd
      | OpListIdentities \<Rightarrow> principals rd
      | OpListJobs \<Rightarrow> listJobs ap
      | OpCancelJob \<Rightarrow> cancelJob ap
      | OpRollbackJob \<Rightarrow> rollbackJob ap
      | OpGetLogging \<Rightarrow> logging
      | OpListMounts \<Rightarrow> filesystems rd
      | OpListPrincipalsLegacy \<Rightarrow> legacyPrincipals rd
      | OpListPrintDrivers \<Rightarrow> drivers rd
      | OpListPrinters \<Rightarrow> printers rd
      | OpListQuotas \<Rightarrow> quotas rd
      | OpExecuteRollback \<Rightarrow> fed (bd_rollback (be_bodies b)) (rollbackByBackup ap)
      | OpGetSamba \<Rightarrow> samba rd
      | OpListSambaProfiles \<Rightarrow> sambaProfiles
      | OpListServices \<Rightarrow> services rd
      | OpServiceAction \<Rightarrow> fed (bd_action (be_bodies b)) (serviceAction ap (be_load b))
      | OpListShares \<Rightarrow> listShares
      | OpCreateShare \<Rightarrow> fed (bd_share (be_bodies b)) (createShare ap)
      | OpPreviewShare \<Rightarrow> fed (bd_share (be_bodies b)) (previewShare (be_load b))
      | OpGetSystem \<Rightarrow> system rd
      | OpHealth \<Rightarrow> health ap
      | OpReadiness \<Rightarrow> ready ap rd)"

definition Router :: "engine \<Rightarrow> outside \<Rightarrow> backend \<Rightarrow> web handler" where
  "Router eng os b = serve (ap_cfg (be_api b)) eng os (implementation b)"

section \<open>The escaped path and the unescaped one\<close>

text \<open>
  Unescaping the path and then reading it, as the middlewares do, agrees with unescaping the segments, as the multiplexer does,
  on the segments before the first wildcard.
\<close>

lemma hex_value_slash [simp]: "hex_value CHR ''/'' = None"
  by (simp add: hex_value_def)

lemma Join_Cons: "L \<noteq> [] \<Longrightarrow> Join (x # L) sep = x @ sep @ Join L sep"
  by (cases L) simp_all

lemma pathUnescape_Some [simp]: "PathUnescape s = Some t \<Longrightarrow> pathUnescape s = t"
  by (simp add: pathUnescape_def)

lemma PathUnescape_split:
  "PathUnescape p = Some q \<Longrightarrow>
     (\<forall>x\<in>set (split_at CHR ''/'' p). PathUnescape x \<noteq> None) \<and> q = Join (map pathUnescape (split_at CHR ''/'' p)) ''/''"
proof (induction p arbitrary: q rule: length_induct)
  case (1 p)
  show ?case
  proof (cases p)
    case Nil
    then show ?thesis using "1.prems" by simp
  next
    case (Cons c s)
    show ?thesis
    proof (cases "c = CHR ''%''")
      case True
      obtain a b t x y q1 where s: "s = a # b # t" and xy: "hex_value a = Some x" "hex_value b = Some y"
        and q1: "PathUnescape t = Some q1" "q = char_of (16 * x + y) # q1"
        using "1.prems" Cons True by (auto split: list.splits option.splits)
      obtain z zs where sp: "split_at CHR ''/'' t = z # zs" by (metis split_at_nonempty list.exhaust)
      have ab: "a \<noteq> CHR ''/''" "b \<noteq> CHR ''/''" using xy by auto
      have "length t < length p" using Cons s by simp
      from "1.IH" [rule_format, OF this q1(1)] show ?thesis
        using Cons True s xy q1 ab sp by (cases zs) auto
    next
      case False
      obtain q1 where q1: "PathUnescape s = Some q1" "q = c # q1" using "1.prems" Cons False by auto
      obtain z zs where sp: "split_at CHR ''/'' s = z # zs" by (metis split_at_nonempty list.exhaust)
      from "1.IH" [rule_format, OF _ q1(1)] show ?thesis
        using Cons False q1(2) sp by (cases zs) auto
    qed
  qed
qed

definition literals :: "string \<Rightarrow> string list" where
  "literals pat = takeWhile (\<lambda>p. \<not> wildcard p) (split_at CHR ''/'' pat)"

lemma match_segments_literals:
  "match_segments ps ss = Some vs \<Longrightarrow>
     \<exists>rest. map pathUnescape ss = takeWhile (\<lambda>p. \<not> wildcard p) ps @ rest"
  by (induction ps ss arbitrary: vs rule: match_segments.induct) (auto split: if_splits)

lemma split_at_Join_concat: "ds \<noteq> [] \<Longrightarrow> split_at c (Join ds [c]) = concat (map (split_at c) ds)"
proof (induction ds)
  case (Cons d ds)
  then show ?case by (cases ds) (simp_all add: split_at_append2)
qed simp

lemma literals_no_slash: "x \<in> set (literals pat) \<Longrightarrow> split_at CHR ''/'' x = [x]"
  using split_at_no_sep [of "CHR ''/''" pat] by (auto simp: literals_def split_at_absent dest!: set_takeWhileD)

lemma concat_singletons: "(\<And>x. x \<in> set xs \<Longrightarrow> f x = [x]) \<Longrightarrow> concat (map f xs) = xs"
  by (induction xs) simp_all

lemma matched_path_literals:
  assumes "match_path pat path = Some vs" and "PathUnescape path = Some p"
  shows "\<exists>rest. split_at CHR ''/'' p = literals pat @ rest"
proof -
  from assms(1) obtain rest where ss: "map pathUnescape (split_at CHR ''/'' path) = literals pat @ rest"
    unfolding match_path_def literals_def by (blast dest: match_segments_literals)
  have p: "p = Join (literals pat @ rest) ''/''" using PathUnescape_split [OF assms(2)] by (simp add: ss)
  have ne: "literals pat @ rest \<noteq> []" using ss by (metis map_is_Nil_conv split_at_nonempty)
  have "concat (map (split_at CHR ''/'') (literals pat)) = literals pat"
    by (rule concat_singletons) (rule literals_no_slash)
  then show ?thesis using split_at_Join_concat [OF ne, of "CHR ''/''"] by (auto simp: p)
qed

lemma find_route_Some:
  "find_route m path rs = Some (op, vs) \<Longrightarrow> \<exists>verb pat. (verb, pat, op) \<in> set rs \<and> method_matches verb m \<and> match_path pat path = Some vs"
proof (induction rs)
  case (Cons x rs)
  obtain verb pat op' where x: "x = (verb, pat, op')" by (cases x)
  show ?case
  proof (cases "method_matches verb m \<and> match_path pat path \<noteq> None")
    case True
    then have "op' = op" "method_matches verb m" "match_path pat path = Some vs" using Cons.prems x by auto
    then show ?thesis by (intro exI [of _ verb] exI [of _ pat]) (simp add: x)
  next
    case False
    then have "find_route m path rs = Some (op, vs)" using Cons.prems x by (auto split: if_splits option.splits)
    then show ?thesis using Cons.IH by auto
  qed
qed simp

definition public_paths :: "string list" where
  "public_paths = [''/healthz'', ''/readyz'', ''/api/v1/auth/login'', ''/api/v1/auth/mfa/verify'']"

definition public_operations :: "operation list" where
  "public_operations = [OpHealth, OpReadiness, OpLogin, OpVerifyMfaLogin]"

lemma routes_not_public:
  "list_all (\<lambda>(verb, pat, op). op \<in> set public_operations \<or>
     list_all (\<lambda>q. take (length (literals pat)) (split_at CHR ''/'' q) \<noteq> literals pat) public_paths) routes"
  by code_simp

lemma public_path_operation:
  assumes "routed r = Some (op, vs)" and "PathUnescape (ht_EscapedPath r) = Some (ht_Path r)" and "publicPath (ht_Path r)"
  shows "op \<in> set public_operations"
proof -
  obtain verb pat where "(verb, pat, op) \<in> set routes" and m: "match_path pat (ht_EscapedPath r) = Some vs"
    using assms(1) find_route_Some by (fastforce simp: routed_def split: if_splits)
  moreover obtain rest where "split_at CHR ''/'' (ht_Path r) = literals pat @ rest"
    using matched_path_literals [OF m assms(2)] by blast
  moreover have "ht_Path r \<in> set public_paths" using assms(3) by (auto simp: publicPath_def public_paths_def)
  ultimately show ?thesis using routes_not_public by (force simp: list_all_iff)
qed

section \<open>Who reaches an operation\<close>

text \<open>Two routers behind the same chain answer differently only if the chain lets the request through.\<close>

lemma RequestID_differs:
  "RequestID rnd h r w \<noteq> RequestID rnd h' r w \<Longrightarrow> \<exists>cid. h (r\<lparr>ht_correlation := cid\<rparr>) w \<noteq> h' (r\<lparr>ht_correlation := cid\<rparr>) w"
  by (rule ccontr) (simp add: RequestID_def Let_def)

lemma SecurityHeaders_differs: "SecurityHeaders h r w \<noteq> SecurityHeaders h' r w \<Longrightarrow> h r w \<noteq> h' r w"
  by (rule ccontr) (simp add: SecurityHeaders_def)

lemma CORS_differs: "CORS origins h r w \<noteq> CORS origins h' r w \<Longrightarrow> ht_Method r \<noteq> ''OPTIONS'' \<and> h r w \<noteq> h' r w"
  by (cases "ht_Method r = ''OPTIONS''"; cases "h r w = h' r w") (simp_all add: CORS_def Let_def)

lemma TimeoutExcept_differs: "TimeoutExcept late d p h r w \<noteq> TimeoutExcept late d p h' r w \<Longrightarrow> h r w \<noteq> h' r w"
  by (cases "h r w = h' r w") (simp_all add: TimeoutExcept_def cong: if_cong)

lemma BodyLimit_differs: "BodyLimit n h r w \<noteq> BodyLimit n h' r w \<Longrightarrow> \<exists>body. h (r\<lparr>ht_Body := body\<rparr>) w \<noteq> h' (r\<lparr>ht_Body := body\<rparr>) w"
  unfolding BodyLimit_def by blast

lemma RequireCSRF_differs:
  "RequireCSRF cfg h r w \<noteq> RequireCSRF cfg h' r w \<Longrightarrow> cf_AuthMode cfg \<noteq> ''development-bypass'' \<Longrightarrow>
     (csrf_exempt r \<or> ht_Header r ''X-CSRF-Token'' = CSRFToken r \<and> CSRFToken r \<noteq> []) \<and> h r w \<noteq> h' r w"
  by (auto simp: RequireCSRF_def subtleEqual_iff split: if_splits)

lemma Authenticate_differs:
  assumes "Authenticate cfg current h r w \<noteq> Authenticate cfg current h' r w" and "cf_AuthMode cfg \<noteq> ''development-bypass''"
  shows "publicPath (ht_Path r) \<and> h r w \<noteq> h' r w \<or>
    (\<exists>token user csrf w1. ht_Cookie r ''samba_admin_session'' = Some token \<and> current token w = (Inr (user, csrf), w1) \<and>
       h (r\<lparr>ht_user := user, ht_csrf := csrf\<rparr>) w1 \<noteq> h' (r\<lparr>ht_user := user, ht_csrf := csrf\<rparr>) w1)"
  using assms by (auto simp: Authenticate_def split: if_splits option.splits prod.splits sum.splits)

lemma Authorize_differs:
  "Authorize eng action resource h r w \<noteq> Authorize eng action resource h' r w \<Longrightarrow>
     Allowed eng (u_Roles (CurrentUser r)) action resource \<and> h r w \<noteq> h' r w"
  by (auto simp: Authorize_def split: if_splits)

definition permitted :: "engine \<Rightarrow> string list \<Rightarrow> operation \<Rightarrow> bool" where
  "permitted eng roles op \<longleftrightarrow>
     (case operation_guard op of None \<Rightarrow> True | Some (action, resource) \<Rightarrow> Allowed eng roles action resource)"

lemma contract_differs:
  assumes "contract eng now impl op r w \<noteq> contract eng now impl' op r w"
  shows "permitted eng (u_Roles (CurrentUser r)) op \<and> impl op \<noteq> impl' op"
  using assms by (auto simp: contract_def permitted_def Let_def dest!: Authorize_differs split: option.splits if_splits)

lemma ServeMux_differs:
  assumes "ServeMux redirected (\<lambda>op. wrapper bind op (contract eng now impl op)) r w \<noteq>
           ServeMux redirected (\<lambda>op'. wrapper bind op' (contract eng now (impl(op := f)) op')) r w"
  shows "\<exists>vs. routed r = Some (op, vs) \<and> permitted eng (u_Roles (CurrentUser r)) op"
proof -
  obtain op1 vs where routed: "routed r = Some (op1, vs)"
    using assms by (auto simp: ServeMux_def split: option.splits)
  define r1 where "r1 = r\<lparr>ht_PathValue := (\<lambda>n. case map_of vs n of None \<Rightarrow> [] | Some v \<Rightarrow> v)\<rparr>"
  have "contract eng now impl op1 r1 w \<noteq> contract eng now (impl(op := f)) op1 r1 w"
    using assms by (auto simp: ServeMux_def routed wrapper_def r1_def [symmetric] split: if_splits)
  from contract_differs [OF this] show ?thesis using routed by (auto simp: r1_def CurrentUser_def split: if_splits)
qed

lemma ht_Header_update [simp]:
  "ht_Header (ht_correlation_update f r) = ht_Header r" "ht_Header (ht_Body_update g r) = ht_Header r"
  "ht_Header (ht_user_update h r) = ht_Header r" "ht_Header (ht_csrf_update i r) = ht_Header r"
  by (simp_all add: ht_Header_def fun_eq_iff)

lemma chain_differs:
  assumes "chain cfg rnd late current h r w \<noteq> chain cfg rnd late current h' r w" and mode: "cf_AuthMode cfg \<noteq> ''development-bypass''"
  shows "\<exists>r1 w1. h r1 w1 \<noteq> h' r1 w1 \<and> ht_Method r1 = ht_Method r \<and> ht_EscapedPath r1 = ht_EscapedPath r \<and> ht_Method r \<noteq> ''OPTIONS'' \<and>
    (publicPath (ht_Path r) \<or>
     (\<exists>token csrf. ht_Cookie r ''samba_admin_session'' = Some token \<and> fst (current token w) = Inr (ht_user r1, csrf) \<and>
        (csrf_exempt r \<or> ht_Header r ''X-CSRF-Token'' = csrf \<and> csrf \<noteq> [])))"
proof -
  let ?csrf = "RequireCSRF cfg h" and ?csrf' = "RequireCSRF cfg h'"
  obtain cid where "CORS (cf_AllowedOrigins cfg) (TimeoutExcept late (cf_RequestTimeout cfg) ''/api/v1/events'' (BodyLimit (cf_MaxBodyBytes cfg)
        (Authenticate cfg current ?csrf))) (r\<lparr>ht_correlation := cid\<rparr>) w \<noteq>
      CORS (cf_AllowedOrigins cfg) (TimeoutExcept late (cf_RequestTimeout cfg) ''/api/v1/events'' (BodyLimit (cf_MaxBodyBytes cfg)
        (Authenticate cfg current ?csrf'))) (r\<lparr>ht_correlation := cid\<rparr>) w"
    using assms(1) unfolding chain_def by (blast dest: RequestID_differs SecurityHeaders_differs)
  from CORS_differs [OF this] have opt: "ht_Method r \<noteq> ''OPTIONS''"
    and "BodyLimit (cf_MaxBodyBytes cfg) (Authenticate cfg current ?csrf) (r\<lparr>ht_correlation := cid\<rparr>) w \<noteq>
         BodyLimit (cf_MaxBodyBytes cfg) (Authenticate cfg current ?csrf') (r\<lparr>ht_correlation := cid\<rparr>) w"
    by (auto dest: TimeoutExcept_differs)
  then obtain body where "Authenticate cfg current ?csrf (r\<lparr>ht_correlation := cid, ht_Body := body\<rparr>) w \<noteq>
      Authenticate cfg current ?csrf' (r\<lparr>ht_correlation := cid, ht_Body := body\<rparr>) w"
    by (blast dest: BodyLimit_differs)
  from Authenticate_differs [OF this mode] show ?thesis
  proof (elim disjE exE conjE)
    assume "publicPath (ht_Path (r\<lparr>ht_correlation := cid, ht_Body := body\<rparr>))"
      and d: "?csrf (r\<lparr>ht_correlation := cid, ht_Body := body\<rparr>) w \<noteq> ?csrf' (r\<lparr>ht_correlation := cid, ht_Body := body\<rparr>) w"
    then show ?thesis using RequireCSRF_differs [OF d mode] opt
      by (intro exI [of _ "r\<lparr>ht_correlation := cid, ht_Body := body\<rparr>"] exI [of _ w]) simp
  next
    fix token user csrf w1
    let ?r1 = "r\<lparr>ht_correlation := cid, ht_Body := body, ht_user := user, ht_csrf := csrf\<rparr>"
    assume c: "ht_Cookie (r\<lparr>ht_correlation := cid, ht_Body := body\<rparr>) ''samba_admin_session'' = Some token" "current token w = (Inr (user, csrf), w1)"
      and d: "?csrf ?r1 w1 \<noteq> ?csrf' ?r1 w1"
    then show ?thesis using RequireCSRF_differs [OF d mode] opt
      by (intro exI [of _ ?r1] exI [of _ w1]) (auto simp: csrf_exempt_def CSRFToken_def)
  qed
qed


text \<open>A session of a Samba administrator, and a request for a preview of a share.\<close>

definition served_db :: db where
  "served_db = empty_db\<lparr>
     db_users := [\<lparr>us_id = ''user-1'', us_username = ''ana'', us_display_name = ''Ana'', us_password_hash = [], us_failed_attempts = 0,
       us_locked_until = None, us_created_at = format_time 0\<rparr>],
      db_roles := [(''r1'', ''administrador Samba'')], db_user_roles := [(''user-1'', ''r1'')],
     db_sessions := [\<lparr>sn_id = ''token'', sn_user_id = ''user-1'', sn_csrf_token = ''csrf'', sn_expires_at = format_time hour,
       sn_created_at = format_time 0, sn_last_seen_at = format_time 0, sn_ip = ''10.0.0.1'', sn_user_agent = ''agent''\<rparr>]\<rparr>"

definition served_web :: web where
  "served_web = set_db served_db sample_web"

definition preview_call :: http where
  "preview_call = sample_call\<lparr>ht_Path := ''/api/v1/shares/preview'', ht_EscapedPath := ''/api/v1/shares/preview'',
     ht_Values := (\<lambda>k. if k = ''X-CSRF-Token'' then [''csrf''] else []),
     ht_Cookie := (\<lambda>n. if n = ''samba_admin_session'' then Some ''token'' else None)\<rparr>"

definition served_outside :: outside where
  "served_outside = \<lparr>os_now = 0, os_random = ''0123456789ab'', os_late = False,
     os_redirected = (\<lambda>_. http_error 301 [] []), os_bind = (\<lambda>_ _. True)\<rparr>"

definition session_config :: Config where
  "session_config = sample_config\<lparr>cf_AuthMode := ''local''\<rparr>"

lemma served_session: "\<exists>u w1. session_lookup 0 ''token'' served_web = (Inr (u, ''csrf''), w1) \<and> u_Roles u = [''administrador Samba'']"
  by (simp add: session_lookup_def on_db_def Current_def SessionUser_def session_join_def act_simps Let_def served_web_def served_db_def
      empty_db_def UserRoles_def session_user_def)

lemma served_preview:
  assumes impl: "impl OpPreviewShare = (\<lambda>r w. (writeJSON st ''null'', w))"
  shows "re_Status (fst (serve session_config Rbac.New served_outside impl preview_call served_web)) = st"
proof -
  obtain u w1 where u: "session_lookup 0 ''token'' served_web = (Inr (u, ''csrf''), w1)" "u_Roles u = [''administrador Samba'']"
    using served_session by blast
  have allowed: "Allowed Rbac.New [''administrador Samba''] ''write'' ''share''" by code_simp
  have guard: "operation_guard OpPreviewShare = Some (''write'', ''share'')" by code_simp
  have params: "parameters OpPreviewShare = []" by code_simp
  have idem: "OpPreviewShare \<notin> set idempotent_operations" by code_simp
  have route: "find_route ''POST'' ''/api/v1/shares/preview'' routes = Some (OpPreviewShare, [])" by code_simp
  have clean: "cleanPath ''/api/v1/shares/preview'' = ''/api/v1/shares/preview''" by code_simp
  have mode: "cf_AuthMode session_config \<noteq> ''development-bypass''" by (simp add: session_config_def)
  have fields: "ht_Method preview_call = ''POST''" "ht_Path preview_call = ''/api/v1/shares/preview''"
      "ht_EscapedPath preview_call = ''/api/v1/shares/preview''" "ht_Cookie preview_call ''samba_admin_session'' = Some ''token''"
      "ht_Header preview_call ''X-CSRF-Token'' = ''csrf''"
    by (simp_all add: preview_call_def sample_call_def ht_Header_def)
  have run: "ServeMux (os_redirected served_outside) (\<lambda>op. wrapper (os_bind served_outside) op
      (contract Rbac.New 0 impl op)) r w = (writeJSON st ''null'', w)"
    if "ht_Method r = ''POST''" "ht_EscapedPath r = ''/api/v1/shares/preview''" "u_Roles (ht_user r) = [''administrador Samba'']" for r w
    using that by (simp add: ServeMux_def routed_def route clean wrapper_def params contract_def impl idem guard Authorize_def CurrentUser_def allowed)
  show ?thesis
    by (simp add: serve_def chain_def RequestID_def SecurityHeaders_def CORS_def TimeoutExcept_def BodyLimit_def Authenticate_def RequireCSRF_def
        Let_def fields mode u publicPath_def subtleEqual_iff csrf_exempt_def CSRFToken_def run served_outside_def [THEN arg_cong [where f = os_now]]
        served_outside_def [THEN arg_cong [where f = os_late]] under_def writeJSON_def split: prod.split)
qed


end
