(* ===== verification/GoText.thy ===== *)
theory GoText
  imports Json "HOL-Library.Sublist"
begin

text \<open>
  More of the \<open>strings\<close> package, as the parsers of command output use it: \<open>Fields\<close>,
  \<open>SplitN\<close> with two parts, \<open>NewReplacer\<close>, \<open>Trim\<close> with one byte, and the lemmas on trimming a line
  that starts with blanks.
\<close>

section \<open>Definitions\<close>

definition nonempty :: "string \<Rightarrow> string list" where
  "nonempty w = (if w = [] then [] else [w])"

text \<open>\<open>strings.Fields\<close>, with the word read so far; a byte that starts no rune is one rune.\<close>

function fields_from :: "string \<Rightarrow> string \<Rightarrow> string list" where
  "fields_from w s =
     (if s = [] then nonempty w
      else let n = max 1 (rune_len s); r = take n s
        in if r \<in> set space_runes then nonempty w @ fields_from [] (drop n s) else fields_from (w @ r) (drop n s))"
  by pat_completeness auto
termination
  by (relation "measure (\<lambda>(w, s). length s)") auto

declare fields_from.simps [simp del]

definition Fields :: "string \<Rightarrow> string list" where
  "Fields s = fields_from [] s"

text \<open>\<open>strings.SplitN(s, sep, 2)\<close> with a one-byte separator, when it has two parts.\<close>

definition SplitN2 :: "string \<Rightarrow> char \<Rightarrow> (string \<times> string) option" where
  "SplitN2 s c = (if c \<in> set s then Some (takeWhile (\<lambda>x. x \<noteq> c) s, tl (dropWhile (\<lambda>x. x \<noteq> c) s)) else None)"

text \<open>\<open>strings.NewReplacer(...).Replace\<close>: at each position the first pair whose old text is there.\<close>

function Replacer :: "(string \<times> string) list \<Rightarrow> string \<Rightarrow> string" where
  "Replacer ps s =
     (if s = [] then []
      else case find (\<lambda>(old, new). old \<noteq> [] \<and> prefix old s) ps of
             None \<Rightarrow> hd s # Replacer ps (tl s)
           | Some (old, new) \<Rightarrow> new @ Replacer ps (drop (length old) s))"
  by pat_completeness auto
termination
proof (relation "measure (\<lambda>(ps, s). length s)", goal_cases)
  case (3 ps s y old new)
  then have "old \<noteq> []" using Prelude.find_Some_iff [OF 3(2)] by auto
  then show ?case using 3(1) by (cases s; cases old) auto
qed auto

declare Replacer.simps [simp del]

definition TrimByte :: "string \<Rightarrow> char \<Rightarrow> string" where
  "TrimByte s c = rev (dropWhile (\<lambda>x. x = c) (rev (dropWhile (\<lambda>x. x = c) s)))"

section \<open>Splitting\<close>

lemma SplitN2_append: "c \<notin> set a \<Longrightarrow> SplitN2 (a @ c # b) c = Some (a, b)"
proof -
  assume "c \<notin> set a"
  then have "takeWhile (\<lambda>x. x \<noteq> c) (a @ c # b) = a" "dropWhile (\<lambda>x. x \<noteq> c) (a @ c # b) = c # b"
    by (induction a) auto
  then show ?thesis by (simp add: SplitN2_def)
qed

lemma SplitN2_Some: "SplitN2 s c = Some (a, b) \<longleftrightarrow> s = a @ c # b \<and> c \<notin> set a"
proof
  assume h: "SplitN2 s c = Some (a, b)"
  then have "c \<in> set s" by (simp add: SplitN2_def split: if_splits)
  then obtain u v where s: "s = u @ c # v" "c \<notin> set u" using split_list_first by metis
  then have "a = u" "b = v" using h SplitN2_append [OF s(2), of v] by simp_all
  with s show "s = a @ c # b \<and> c \<notin> set a" by simp
qed (simp add: SplitN2_append)

lemma SplitN2_None: "SplitN2 s c = None \<longleftrightarrow> c \<notin> set s"
  by (simp add: SplitN2_def)

section \<open>Trimming a line that starts with blanks\<close>

lemma drop_runes_blanks:
  assumes "\<forall>r\<in>set space_runes. hd s \<notin> set r" "s \<noteq> []"
  shows "drop_runes space_runes (replicate n (CHR '' '') @ s) = s"
proof (induction n)
  case 0
  have "\<not> prefix r s" if "r \<in> set space_runes" for r
    using assms that by (cases r; cases s) (auto simp: space_runes_def)
  then have "find (\<lambda>r. prefix r s) space_runes = None" by (simp add: find_None_iff)
  then show ?case by (simp add: drop_runes.simps space_at_def)
next
  case (Suc n)
  have "space_at space_runes (CHR '' '' # t) = 1" for t by (simp add: space_at_def space_runes_def)
  then show ?case using Suc by (subst drop_runes.simps) simp
qed

text \<open>The first byte of the trimmed text is the first byte after the blanks.\<close>

lemma TrimSpace_head:
  assumes "\<forall>r\<in>set space_runes. c \<notin> set r"
  shows "\<exists>u. TrimSpace (replicate n (CHR '' '') @ c # s) = c # u"
proof -
  let ?t = "c # s"
  have l: "TrimLeftSpace (replicate n (CHR '' '') @ ?t) = ?t"
    using drop_runes_blanks [of ?t n] assms by (simp add: TrimLeftSpace_def)
  have "\<exists>v. drop_runes (map rev space_runes) (rev s @ [c]) = v @ [c]" for s
  proof (induction "length s" arbitrary: s rule: less_induct)
    case less
    let ?n = "space_at (map rev space_runes) (rev s @ [c])"
    show ?case
    proof (cases "?n = 0")
      case True
      then show ?thesis by (subst drop_runes.simps) simp
    next
      case False
      then obtain r where r: "find (\<lambda>r. prefix r (rev s @ [c])) (map rev space_runes) = Some r" "length r = ?n"
        by (auto simp: space_at_def split: option.splits)
      then have p: "prefix r (rev s @ [c])" "r \<in> set (map rev space_runes)" using Prelude.find_Some_iff [OF r(1)] by auto
      then have "c \<notin> set r" using assms unfolding set_map by (metis imageE set_rev)
      then have "prefix r (rev s)" using p(1) unfolding prefix_snoc by (metis in_set_conv_decomp)
      then have le: "?n \<le> length s" using r(2) by (metis prefix_length_le length_rev)
      then have d: "drop ?n (rev s @ [c]) = rev (take (length s - ?n) s) @ [c]" by (simp add: drop_rev)
      have "length (take (length s - ?n) s) < length s" using False le by simp
      then obtain v where "drop_runes (map rev space_runes) (rev (take (length s - ?n) s) @ [c]) = v @ [c]"
        using less by blast
      moreover have "drop_runes (map rev space_runes) (rev s @ [c]) = drop_runes (map rev space_runes) (drop ?n (rev s @ [c]))"
        using False by (subst drop_runes.simps) (simp del: drop_append)
      ultimately show ?thesis unfolding d by auto
    qed
  qed
  then obtain v where "drop_runes (map rev space_runes) (rev ?t) = v @ [c]" by (metis rev.simps(2))
  then show ?thesis by (simp add: TrimSpace_def l TrimRightSpace_def)
qed

end
