(* ===== verification/Inventory.thy ===== *)
theory Inventory
  imports GoText Jobs
begin

text \<open>
  The inventory records of \<open>src/backend/internal/models/models.go\<close> with their JSON encodings, and the floating-point
  operations that the inventory uses.  A slice that may be nil is an option.  \<open>float64\<close> is a type parameter: \<open>floats\<close> names
  the operations that the code applies to it.
\<close>

section \<open>Numbers\<close>

record 'f floats =
  fl_ParseFloat :: "string \<Rightarrow> 'f option"
  fl_of_int :: "int \<Rightarrow> 'f"
  fl_add :: "'f \<Rightarrow> 'f \<Rightarrow> 'f"
  fl_mul :: "'f \<Rightarrow> 'f \<Rightarrow> 'f"
  fl_div :: "'f \<Rightarrow> 'f \<Rightarrow> 'f"
  fl_round :: "'f \<Rightarrow> 'f"
  fl_eq :: "'f \<Rightarrow> 'f \<Rightarrow> bool"
  fl_json :: "'f \<Rightarrow> json"

text \<open>What \<open>strconv\<close> returns beside an error: zero, or the bound that the value passed.\<close>

definition Atoi_value :: "string \<Rightarrow> int" where
  "Atoi_value s =
     (let neg = HasPrefix s ''-''; digits = (if neg \<or> HasPrefix s ''+'' then tl s else s)
      in if digits = [] \<or> \<not> list_all is_digit digits then 0
         else if neg then max (- (2 ^ 63)) (- int (digits_value digits)) else min (2 ^ 63 - 1) (int (digits_value digits)))"

definition ParseUint64_value :: "string \<Rightarrow> nat" where
  "ParseUint64_value s = (if s = [] \<or> \<not> list_all is_digit s then 0 else min (2 ^ 64 - 1) (digits_value s))"

section \<open>Records\<close>

record 'f SystemInfo =
  sy_Hostname :: string
  sy_FQDN :: string
  sy_FreeBSDVersion :: string
  sy_SambaVersion :: string
  sy_SambaPackage :: string
  sy_SambaOrigin :: string
  sy_Profile :: string
  sy_Health :: string
  sy_DomainJoined :: bool
  sy_DomainName :: string
  sy_PreferredDC :: string
  sy_TimeSync :: string
  sy_DNSHealth :: string
  sy_CPUPercent :: 'f
  sy_MemoryPercent :: 'f
  sy_DiskPercent :: 'f
  sy_SMBSessions :: nat
  sy_OpenFiles :: nat
  sy_SharesCount :: nat
  sy_PrintQueues :: nat
  sy_LogForwarding :: string
  sy_Architecture :: string
  sy_Uptime :: string
  sy_CPUCount :: int
  sy_MemoryBytes :: nat
  sy_LoadAverage :: "'f list"
  sy_Interfaces :: "string list"
  sy_DNSServers :: "string list"
  sy_NTPStatus :: string
  sy_Timezone :: string

record Capability =
  ca_ID :: string
  ca_Feature :: string
  ca_State :: string
  ca_Scope :: string
  ca_Evidence :: string

record 'f FileSystem =
  fy_ID :: string
  fy_Device :: string
  fy_MountPoint :: string
  fy_Type :: string
  fy_SizeGiB :: 'f
  fy_UsedGiB :: 'f
  fy_Writable :: bool
  fy_MountOptions :: "string list"
  fy_ACLModel :: string
  fy_ExtendedAttributes :: bool
  fy_UserQuota :: bool
  fy_GroupQuota :: bool
  fy_FSTABPersistent :: bool
  fy_AssociatedShares :: "string list"
  fy_FSTABEntry :: string

record SambaInfo =
  sb_Version :: string
  sb_Package :: string
  sb_Origin :: string
  sb_Binaries :: "string list option"
  sb_ConfigurationPath :: string
  sb_Profile :: string
  sb_EffectiveConfig :: string
  sb_Shares :: "string list option"
  sb_Sessions :: nat
  sb_OpenFiles :: nat
  sb_VFSModules :: "string list option"
  sb_TestparmAvailable :: bool
  sb_FullAuditAvailable :: bool
  sb_DFSAvailable :: bool
  sb_PrintingAvailable :: bool
  sb_PackageBuildOptions :: "string list option"

record Printer =
  pr_ID :: string
  pr_Name :: string
  pr_URI :: string
  pr_Model :: string
  pr_Driver :: string
  pr_Shared :: bool
  pr_Paused :: bool
  pr_Jobs :: int
  pr_Windows11Validated :: bool

record CupsInfo =
  cu_Version :: string
  cu_Service :: string
  cu_Printers :: "Printer list option"
  cu_Backends :: "string list option"
  cu_PPDs :: "string list option"
  cu_Errors :: "string list option"

record DomainTest =
  dt_Name :: string
  dt_State :: string
  dt_Details :: string

record DomainState =
  ds_Joined :: bool
  ds_DNSDomain :: string
  ds_Realm :: string
  ds_NetBIOS :: string
  ds_ComputerOU :: string
  ds_PreferredDCs :: "string list option"
  ds_Site :: string
  ds_IDMapStrategy :: string
  ds_UIDRange :: string
  ds_GIDRange :: string
  ds_Tests :: "DomainTest list"

definition zero_SambaInfo :: SambaInfo where
  "zero_SambaInfo = \<lparr>sb_Version = [], sb_Package = [], sb_Origin = [], sb_Binaries = None, sb_ConfigurationPath = [], sb_Profile = [],
     sb_EffectiveConfig = [], sb_Shares = None, sb_Sessions = 0, sb_OpenFiles = 0, sb_VFSModules = None, sb_TestparmAvailable = False,
     sb_FullAuditAvailable = False, sb_DFSAvailable = False, sb_PrintingAvailable = False, sb_PackageBuildOptions = None\<rparr>"

definition zero_CupsInfo :: CupsInfo where
  "zero_CupsInfo = \<lparr>cu_Version = [], cu_Service = [], cu_Printers = None, cu_Backends = None, cu_PPDs = None, cu_Errors = None\<rparr>"

definition zero_DomainState :: DomainState where
  "zero_DomainState = \<lparr>ds_Joined = False, ds_DNSDomain = [], ds_Realm = [], ds_NetBIOS = [], ds_ComputerOU = [], ds_PreferredDCs = None,
     ds_Site = [], ds_IDMapStrategy = [], ds_UIDRange = [], ds_GIDRange = [], ds_Tests = []\<rparr>"

section \<open>Encodings\<close>

definition strings_json :: "string list \<Rightarrow> json" where
  "strings_json xs = JArr (map JStr xs)"

definition slice_json :: "('a \<Rightarrow> json) \<Rightarrow> 'a list option \<Rightarrow> json" where
  "slice_json enc v = (case v of None \<Rightarrow> JNull | Some xs \<Rightarrow> JArr (map enc xs))"

definition unless :: "bool \<Rightarrow> string \<Rightarrow> json \<Rightarrow> object" where
  "unless b key v = (if b then [] else [(key, v)])"

definition SystemInfo_json :: "'f floats \<Rightarrow> 'f SystemInfo \<Rightarrow> json" where
  "SystemInfo_json F s = JObj
     ([(''hostname'', JStr (sy_Hostname s)), (''fqdn'', JStr (sy_FQDN s)), (''freebsdVersion'', JStr (sy_FreeBSDVersion s)),
       (''sambaVersion'', JStr (sy_SambaVersion s)), (''sambaPackage'', JStr (sy_SambaPackage s)), (''sambaOrigin'', JStr (sy_SambaOrigin s)),
       (''profile'', JStr (sy_Profile s)), (''health'', JStr (sy_Health s)), (''domainJoined'', JBool (sy_DomainJoined s))]
      @ omitempty ''domainName'' (sy_DomainName s) @ omitempty ''preferredDc'' (sy_PreferredDC s)
      @ [(''timeSync'', JStr (sy_TimeSync s)), (''dnsHealth'', JStr (sy_DNSHealth s)), (''cpuPercent'', fl_json F (sy_CPUPercent s)),
         (''memoryPercent'', fl_json F (sy_MemoryPercent s)), (''diskPercent'', fl_json F (sy_DiskPercent s)),
         (''smbSessions'', JNum (int (sy_SMBSessions s))), (''openFiles'', JNum (int (sy_OpenFiles s))),
         (''sharesCount'', JNum (int (sy_SharesCount s))), (''printQueues'', JNum (int (sy_PrintQueues s))),
         (''logForwarding'', JStr (sy_LogForwarding s))]
      @ omitempty ''architecture'' (sy_Architecture s) @ omitempty ''uptime'' (sy_Uptime s)
      @ unless (sy_CPUCount s = 0) ''cpuCount'' (JNum (sy_CPUCount s)) @ unless (sy_MemoryBytes s = 0) ''memoryBytes'' (JNum (int (sy_MemoryBytes s)))
      @ unless (sy_LoadAverage s = []) ''loadAverage'' (JArr (map (fl_json F) (sy_LoadAverage s)))
      @ unless (sy_Interfaces s = []) ''interfaces'' (strings_json (sy_Interfaces s))
      @ unless (sy_DNSServers s = []) ''dnsServers'' (strings_json (sy_DNSServers s))
      @ omitempty ''ntpStatus'' (sy_NTPStatus s) @ omitempty ''timezone'' (sy_Timezone s))"

definition Capability_json :: "Capability \<Rightarrow> json" where
  "Capability_json c = JObj
     [(''id'', JStr (ca_ID c)), (''feature'', JStr (ca_Feature c)), (''state'', JStr (ca_State c)), (''scope'', JStr (ca_Scope c)),
      (''evidence'', JStr (ca_Evidence c))]"

definition FileSystem_json :: "'f floats \<Rightarrow> 'f FileSystem \<Rightarrow> json" where
  "FileSystem_json F f = JObj
     ([(''id'', JStr (fy_ID f)), (''device'', JStr (fy_Device f)), (''mountPoint'', JStr (fy_MountPoint f)), (''type'', JStr (fy_Type f)),
       (''sizeGiB'', fl_json F (fy_SizeGiB f)), (''usedGiB'', fl_json F (fy_UsedGiB f)), (''writable'', JBool (fy_Writable f)),
       (''mountOptions'', strings_json (fy_MountOptions f)), (''aclModel'', JStr (fy_ACLModel f)),
       (''extendedAttributes'', JBool (fy_ExtendedAttributes f)), (''userQuota'', JBool (fy_UserQuota f)),
       (''groupQuota'', JBool (fy_GroupQuota f)), (''fstabPersistent'', JBool (fy_FSTABPersistent f)),
       (''associatedShares'', strings_json (fy_AssociatedShares f))]
      @ omitempty ''fstabEntry'' (fy_FSTABEntry f))"

definition SambaInfo_json :: "SambaInfo \<Rightarrow> json" where
  "SambaInfo_json s = JObj
     ([(''version'', JStr (sb_Version s)), (''package'', JStr (sb_Package s)), (''origin'', JStr (sb_Origin s)),
       (''binaries'', slice_json JStr (sb_Binaries s)), (''configurationPath'', JStr (sb_ConfigurationPath s)), (''profile'', JStr (sb_Profile s))]
      @ omitempty ''effectiveConfig'' (sb_EffectiveConfig s)
      @ [(''shares'', slice_json JStr (sb_Shares s)), (''sessions'', JNum (int (sb_Sessions s))), (''openFiles'', JNum (int (sb_OpenFiles s))),
         (''vfsModules'', slice_json JStr (sb_VFSModules s)), (''testparmAvailable'', JBool (sb_TestparmAvailable s)),
         (''fullAuditAvailable'', JBool (sb_FullAuditAvailable s)), (''dfsAvailable'', JBool (sb_DFSAvailable s)),
         (''printingAvailable'', JBool (sb_PrintingAvailable s)), (''packageBuildOptions'', slice_json JStr (sb_PackageBuildOptions s))])"

definition Printer_json :: "Printer \<Rightarrow> json" where
  "Printer_json p = JObj
     [(''id'', JStr (pr_ID p)), (''name'', JStr (pr_Name p)), (''uri'', JStr (pr_URI p)), (''model'', JStr (pr_Model p)),
      (''driver'', JStr (pr_Driver p)), (''shared'', JBool (pr_Shared p)), (''paused'', JBool (pr_Paused p)), (''jobs'', JNum (pr_Jobs p)),
      (''windows11Validated'', JBool (pr_Windows11Validated p))]"

definition CupsInfo_json :: "CupsInfo \<Rightarrow> json" where
  "CupsInfo_json c = JObj
     [(''version'', JStr (cu_Version c)), (''service'', JStr (cu_Service c)), (''printers'', slice_json Printer_json (cu_Printers c)),
      (''backends'', slice_json JStr (cu_Backends c)), (''ppds'', slice_json JStr (cu_PPDs c)), (''errors'', slice_json JStr (cu_Errors c))]"

definition DomainTest_json :: "DomainTest \<Rightarrow> json" where
  "DomainTest_json t = JObj [(''name'', JStr (dt_Name t)), (''state'', JStr (dt_State t)), (''details'', JStr (dt_Details t))]"

definition DomainState_json :: "DomainState \<Rightarrow> json" where
  "DomainState_json d = JObj
     [(''joined'', JBool (ds_Joined d)), (''dnsDomain'', JStr (ds_DNSDomain d)), (''realm'', JStr (ds_Realm d)), (''netbios'', JStr (ds_NetBIOS d)),
      (''computerOu'', JStr (ds_ComputerOU d)), (''preferredDcs'', slice_json JStr (ds_PreferredDCs d)), (''site'', JStr (ds_Site d)),
      (''idmapStrategy'', JStr (ds_IDMapStrategy d)), (''uidRange'', JStr (ds_UIDRange d)), (''gidRange'', JStr (ds_GIDRange d)),
      (''tests'', JArr (map DomainTest_json (ds_Tests d)))]"

end
