(* ===== verification/Client.thy ===== *)
theory Client
  imports AgentServer Shares JsonRound Inventory
begin

text \<open>
  The unprivileged side of the agent's protocol: \<open>src/backend/internal/agent/client.go\<close> with the identifiers of
  \<open>src/backend/internal/id/id.go\<close>, and the adapter of \<open>src/backend/internal/adapters/agent/provider.go\<close> over it.
  Random bytes are arguments.  The socket is an \<open>exchange\<close>: what comes back for an encoded request.  The exchange with the server of
  \<open>AgentServer\<close> is defined from what \<open>encoding/json\<close> makes of the two messages, and the last section joins both
  sides: a call that the server's policy permits reaches the executor and its response reaches the caller.
\<close>

section \<open>Requests\<close>

definition id_New :: "string \<Rightarrow> string \<Rightarrow> string" where
  "id_New pre random = pre @ hex_encode random"

definition fresh_nonce :: "string \<Rightarrow> string" where
  "fresh_nonce random = RawURL_EncodeToString random"

record UnixClient =
  uc_socket :: string
  uc_key :: string
  uc_keyID :: string
  uc_timeout :: duration

definition NewUnixClientWithKeyID :: "string \<Rightarrow> string \<Rightarrow> string \<Rightarrow> UnixClient" where
  "NewUnixClientWithKeyID socket key keyID =
     \<lparr>uc_socket = socket, uc_key = key, uc_keyID = keyID, uc_timeout = 5 * minute + 15 * second\<rparr>"

definition NewUnixClient :: "string \<Rightarrow> string \<Rightarrow> UnixClient" where
  "NewUnixClient socket key = NewUnixClientWithKeyID socket key []"

datatype client_error =
    OperationRefused | SigningFailed signing_error | Unreachable | Undecodable | AgentRefused string
  | PayloadRefused transport_error | Cancelled | AgentUnavailable | PartialFailure

text \<open>A nil payload is \<open>None\<close>; it is signed as an empty object and sent as null.\<close>

definition payload_of :: "object option \<Rightarrow> object" where
  "payload_of payload = (case payload of None \<Rightarrow> [] | Some p \<Rightarrow> p)"

definition new_request :: "UnixClient \<Rightarrow> time \<Rightarrow> string \<Rightarrow> string \<Rightarrow> OperationSpec \<Rightarrow> string \<Rightarrow> object option \<Rightarrow> client_error + Request" where
  "new_request c now random_id random_nonce spec op payload =
     (case SignWithKey (Some \<lparr>rq_Operation = op, rq_OperationVersion = os_Version spec, rq_RequestID = id_New ''req-'' random_id, rq_Timestamp = now,
                rq_Nonce = fresh_nonce random_nonce, rq_KeyID = [], rq_Payload = payload_of payload, rq_Signature = []\<rparr>) (uc_key c) (uc_keyID c) of
        (_, Some e) \<Rightarrow> Inl (SigningFailed e)
      | (None, None) \<Rightarrow> Inl (SigningFailed RequestMissing)
      | (Some r, None) \<Rightarrow> Inr r)"

definition request_text :: "Request \<Rightarrow> object option \<Rightarrow> string" where
  "request_text r payload = struct_text
     ([(''operation'', quote (rq_Operation r)), (''operationVersion'', FormatInt (rq_OperationVersion r)), (''requestId'', quote (rq_RequestID r)),
       (''timestamp'', quote (RFC3339Nano (rq_Timestamp r))), (''nonce'', quote (rq_Nonce r))]
      @ (if rq_KeyID r = [] then [] else [(''keyId'', quote (rq_KeyID r))])
      @ [(''payload'', case payload of None \<Rightarrow> ''null'' | Some p \<Rightarrow> marshal (JObj p)), (''signature'', quote (rq_Signature r))])"

section \<open>Calls\<close>

text \<open>No answer, one that does not decode with what of it was decoded, or a status with a response.\<close>

datatype exchange = No_answer | Bad_answer Response | Answer nat Response

definition refused_operation :: Response where
  "refused_operation = zero_Response\<lparr>rs_Summary := (''Opera'' @ [CHR 0xC3, CHR 0xA7, CHR 0xC3, CHR 0xA3] @ ''o fora do cat'' @ [CHR 0xC3, CHR 0xA1] @ ''logo''), rs_ErrorCode := ''operation_not_allowed''\<rparr>"

text \<open>What the answer means to the caller: the response and the error of \<open>Execute\<close>.\<close>

definition accept_answer :: "exchange \<Rightarrow> Response \<times> client_error option" where
  "accept_answer x =
     (case x of
        No_answer \<Rightarrow> (zero_Response, Some Unreachable)
      | Bad_answer out \<Rightarrow> (out, Some Undecodable)
      | Answer status out \<Rightarrow>
          if status < 200 \<or> status \<ge> 300 then (out, Some (AgentRefused (rs_Summary out)))
          else if \<not> rs_Success out then (out, Some (AgentRefused (rs_Summary out)))
          else (out, None))"

definition Execute ::
    "UnixClient \<Rightarrow> time \<Rightarrow> string \<Rightarrow> string \<Rightarrow> (Request \<Rightarrow> string \<Rightarrow> exchange) \<Rightarrow> string \<Rightarrow> object option \<Rightarrow> Response \<times> client_error option" where
  "Execute c now random_id random_nonce wire op payload =
     (case LookupOperation op of
        None \<Rightarrow> (refused_operation, Some OperationRefused)
      | Some spec \<Rightarrow>
          (case new_request c now random_id random_nonce spec op payload of
             Inl e \<Rightarrow> (zero_Response, Some e)
           | Inr r \<Rightarrow> accept_answer (wire r (request_text r payload))))"

definition mock_client_Execute :: "string \<Rightarrow> bool \<Rightarrow> string \<Rightarrow> object option \<Rightarrow> Response \<times> client_error option" where
  "mock_client_Execute scenario cancelled op payload =
     (case LookupOperation op of
        None \<Rightarrow> (refused_operation, Some OperationRefused)
      | Some spec \<Rightarrow>
          (case validateTransportPayload spec payload of
             Some e \<Rightarrow> (zero_Response\<lparr>rs_Summary := ''Payload fora do schema permitido'', rs_ErrorCode := ''invalid_payload''\<rparr>, Some (PayloadRefused e))
           | None \<Rightarrow>
               if cancelled then (zero_Response, Some Cancelled)
               else if scenario = ''agent-unavailable'' then (zero_Response, Some AgentUnavailable)
               else if scenario = ''partial-failure'' then
                 (zero_Response\<lparr>rs_ExitCode := 1, rs_Summary := ''Falha parcial simulada'', rs_Stderr := (''sa'' @ [CHR 0xC3, CHR 0xAD] @ ''da sanitizada'')\<rparr>, Some PartialFailure)
               else if IsMutation spec then
                 (zero_Response\<lparr>rs_Success := True, rs_Summary := (''Opera'' @ [CHR 0xC3, CHR 0xA7, CHR 0xC3, CHR 0xA3] @ ''o mut'' @ [CHR 0xC3, CHR 0xA1] @ ''vel simulada; nenhuma escrita no sistema foi realizada.''),
                    rs_Data := [(''operation'', JStr op), (''simulated'', JBool True), (''payloadAccepted'', JBool True)]\<rparr>, None)
               else
                 (zero_Response\<lparr>rs_Success := True, rs_Summary := (''Opera'' @ [CHR 0xC3, CHR 0xA7, CHR 0xC3, CHR 0xA3] @ ''o mockada conclu'' @ [CHR 0xC3, CHR 0xAD] @ ''da''),
                    rs_Data := [(''operation'', JStr op), (''payloadAccepted'', JBool True)]\<rparr>, None)))"

section \<open>The adapter over the client\<close>

text \<open>
  A client is a function from an operation to the result of its call.  Decoding the structured field into its Go type is an
  argument; a nil slice is \<open>None\<close>.
\<close>

type_synonym client = "string \<Rightarrow> Response \<times> client_error option"

datatype provider_error = CallFailed client_error | CollectionRefused | FieldMissing string | FieldUnencodable | FieldUndecodable | ProbeMissing

definition provider_execute :: "client \<Rightarrow> (json \<Rightarrow> 'a option) \<Rightarrow> string \<Rightarrow> string \<Rightarrow> provider_error + 'a" where
  "provider_execute call decode_field op field =
     (case call op of
        (_, Some e) \<Rightarrow> Inl (CallFailed e)
      | (response, None) \<Rightarrow>
          if \<not> rs_Success response then Inl CollectionRefused
          else (case map_of (rs_Data response) field of
                  None \<Rightarrow> Inl (FieldMissing field)
                | Some v \<Rightarrow>
                    if \<not> encodable v then Inl FieldUnencodable
                    else (case decode_field (decoded v) of None \<Rightarrow> Inl FieldUndecodable | Some x \<Rightarrow> Inr x)))"

definition not_nil :: "'a list option \<Rightarrow> 'a list option" where
  "not_nil v = (case v of None \<Rightarrow> Some [] | Some xs \<Rightarrow> Some xs)"

definition provider_Samba :: "client \<Rightarrow> (json \<Rightarrow> SambaInfo option) \<Rightarrow> provider_error + SambaInfo" where
  "provider_Samba call decode_field =
     (case provider_execute call decode_field ''samba.inspect'' ''samba'' of
        Inl e \<Rightarrow> Inl e
      | Inr v \<Rightarrow>
          if sb_Version v = [] \<or> sb_ConfigurationPath v = [] then Inl ProbeMissing
          else Inr (v\<lparr>sb_Binaries := not_nil (sb_Binaries v), sb_Shares := not_nil (sb_Shares v), sb_VFSModules := not_nil (sb_VFSModules v),
                 sb_PackageBuildOptions := not_nil (sb_PackageBuildOptions v)\<rparr>))"

definition provider_Cups :: "client \<Rightarrow> (json \<Rightarrow> CupsInfo option) \<Rightarrow> provider_error + CupsInfo" where
  "provider_Cups call decode_field =
     (case provider_execute call decode_field ''cups.inspect'' ''cups'' of
        Inl e \<Rightarrow> Inl e
      | Inr v \<Rightarrow>
          if cu_Service v = [] then Inl ProbeMissing
          else Inr (v\<lparr>cu_Printers := not_nil (cu_Printers v), cu_Backends := not_nil (cu_Backends v), cu_PPDs := not_nil (cu_PPDs v),
                 cu_Errors := not_nil (cu_Errors v)\<rparr>))"

definition provider_Inspect :: "client \<Rightarrow> (json \<Rightarrow> 'a option) \<Rightarrow> provider_error + 'a" where
  "provider_Inspect call decode_field = provider_execute call decode_field ''system.inspect'' ''system''"

definition provider_Capabilities :: "client \<Rightarrow> (json \<Rightarrow> 'a option) \<Rightarrow> provider_error + 'a" where
  "provider_Capabilities call decode_field = provider_execute call decode_field ''capabilities.inspect'' ''capabilities''"

definition provider_List :: "client \<Rightarrow> (json \<Rightarrow> 'a option) \<Rightarrow> provider_error + 'a" where
  "provider_List call decode_field = provider_execute call decode_field ''filesystem.inspect'' ''filesystems''"

definition provider_Domain :: "client \<Rightarrow> (json \<Rightarrow> 'a option) \<Rightarrow> provider_error + 'a" where
  "provider_Domain call decode_field = provider_execute call decode_field ''domain.member.diagnose'' ''domain''"

section \<open>The exchange with the agent's server\<close>

definition received_request :: "Request \<Rightarrow> Request" where
  "received_request r = r\<lparr>rq_Operation := valid_utf8 (rq_Operation r), rq_RequestID := valid_utf8 (rq_RequestID r), rq_Nonce := valid_utf8 (rq_Nonce r),
     rq_KeyID := valid_utf8 (rq_KeyID r), rq_Signature := valid_utf8 (rq_Signature r),
     rq_Payload := (case transport (rq_Payload r) of None \<Rightarrow> [] | Some p \<Rightarrow> p)\<rparr>"

definition received_response :: "Response \<Rightarrow> Response" where
  "received_response o1 = o1\<lparr>rs_RequestID := valid_utf8 (rs_RequestID o1), rs_Summary := valid_utf8 (rs_Summary o1), rs_Stdout := valid_utf8 (rs_Stdout o1),
     rs_Stderr := valid_utf8 (rs_Stderr o1), rs_ErrorCode := valid_utf8 (rs_ErrorCode o1),
     rs_Data := (case transport (rs_Data o1) of None \<Rightarrow> [] | Some p \<Rightarrow> p)\<rparr>"

definition http_of :: "int \<Rightarrow> Request \<Rightarrow> string \<Rightarrow> http_request" where
  "http_of limit r body = \<lparr>hr_ContentType = ''application/json'', hr_ContentLength = int (length body),
     hr_Body = (if int (length body) > limit then BodyTooLarge else BodyRequest (received_request r))\<rparr>"

text \<open>A response whose data cannot be encoded leaves an empty body, which the client cannot decode.\<close>

definition answer_of :: "reply \<Rightarrow> exchange" where
  "answer_of rep = (if encodable (JObj (rs_Data (snd rep))) then Answer (fst rep) (received_response (snd rep)) else Bad_answer zero_Response)"

definition agent_wire :: "executor \<Rightarrow> nonce_env \<Rightarrow> time \<Rightarrow> time \<Rightarrow> server \<times> disk \<Rightarrow> Request \<Rightarrow> string \<Rightarrow> exchange" where
  "agent_wire perform env now now' sd r body = answer_of (fst (handle perform env now now' (http_of (sv_maxMessageBytes (fst sd)) r body) sd))"

section \<open>Identifiers and nonces are plain text\<close>

lemma set_hex_encode: "set (hex_encode s) \<subseteq> set hex_digits"
proof
  fix x assume "x \<in> set (hex_encode s)"
  then obtain c where c: "x = hex_digits ! (of_char c div 16) \<or> x = hex_digits ! (of_char c mod 16)"
    by (auto simp: hex_encode_def)
  have "(of_char c :: nat) < 256" by simp
  moreover have "n div 16 < 16 \<and> n mod 16 < 16" if "n < 256" for n :: nat
    using that by (auto intro: less_mult_imp_div_less)
  ultimately have "(of_char c :: nat) div 16 < 16" "(of_char c :: nat) mod 16 < 16" by blast+
  moreover have "length hex_digits = 16" by (simp add: hex_digits_def)
  ultimately have "(of_char c :: nat) div 16 < length hex_digits" "(of_char c :: nat) mod 16 < length hex_digits" by simp_all
  then show "x \<in> set hex_digits" using c nth_mem by metis
qed

lemma hex_ascii: "list_all (in_bytes 0 0x7F) (hex_encode s)"
proof -
  have "list_all (in_bytes 0 0x7F) hex_digits" by code_simp
  then show ?thesis using set_hex_encode [of s] by (auto simp: list_all_iff)
qed

lemma url_characters: "c \<in> set (RawURL_EncodeToString s) \<Longrightarrow> nonce_char c \<and> in_bytes 0 0x7F c"
proof -
  assume "c \<in> set (RawURL_EncodeToString s)"
  moreover have "length url_alphabet = 64" by (simp add: url_alphabet_def alphabet_prefix_def)
  moreover have "list_all (\<lambda>c. nonce_char c \<and> in_bytes 0 0x7F c) url_alphabet" by code_simp
  ultimately show ?thesis using set_encode_with [of url_alphabet s] by (auto simp: list_all_iff)
qed

lemma url_ascii: "valid_utf8 (RawURL_EncodeToString s) = RawURL_EncodeToString s"
  using url_characters by (intro valid_utf8_ascii) (auto simp: list_all_iff)

lemma nonce_valid: "length random = 18 \<Longrightarrow> validateNonce (fresh_nonce random) = None"
proof -
  assume "length random = 18"
  then obtain a b c d e f g h i j k l m n p q t u where "random = [a, b, c, d, e, f, g, h, i, j, k, l, m, n, p, q, t, u]"
    by (auto simp: length_Suc_conv numeral_eq_Suc)
  then have "length (fresh_nonce random) = 24" by (simp add: fresh_nonce_def encode_with_def)
  then show ?thesis using url_characters [of _ random]
    by (auto simp: validateNonce_def firstErr_None_iff fresh_nonce_def)
qed

lemma id_plain: "valid_utf8 (id_New ''req-'' random) = id_New ''req-'' random" "TrimSpace (id_New ''req-'' random) \<noteq> []"
proof -
  show "valid_utf8 (id_New ''req-'' random) = id_New ''req-'' random"
    using hex_ascii [of random] by (intro valid_utf8_ascii) (simp add: id_New_def in_bytes_def)
  have "TrimSpace (id_New ''req-'' random) = id_New ''req-'' random"
  proof (rule TrimSpace_id, intro ballI notI)
    fix r c
    assume r: "r \<in> set space_runes" "c \<in> set (id_New ''req-'' random)" "c \<in> set r"
    have "list_all (\<lambda>r. list_all (\<lambda>c. c \<notin> set (''req-'' @ hex_digits)) r) space_runes" by code_simp
    then have "c \<notin> set (''req-'' @ hex_digits)" using r(1,3) unfolding list_all_iff by blast
    moreover have "c \<in> set (''req-'' @ hex_digits)" using r(2) set_hex_encode [of random] unfolding id_New_def by (simp only: set_append) blast
    ultimately show False ..
  qed
  then show "TrimSpace (id_New ''req-'' random) \<noteq> []" by (simp add: id_New_def)
qed

lemma catalog_operations: "LookupOperation op = Some spec \<Longrightarrow> valid_utf8 op = op \<and> TrimSpace op \<noteq> [] \<and> length op \<le> 128"
proof -
  have "list_all (\<lambda>(op, _). list_all (in_bytes 0 0x7F) op \<and> TrimSpace op \<noteq> [] \<and> length op \<le> 128) Catalog" by code_simp
  moreover assume "LookupOperation op = Some spec"
  then have "(op, spec) \<in> set Catalog" unfolding LookupOperation_def by (rule map_of_SomeD)
  ultimately show ?thesis using valid_utf8_ascii by (auto simp: list_all_iff)
qed

section \<open>From the caller to the executor and back\<close>

lemma new_request_Inr:
  assumes "new_request c sent rid rn spec op payload = Inr r"
  shows "\<exists>r0. SignWithKey (Some r0) (uc_key c) (uc_keyID c) = (Some r, None) \<and> rq_Timestamp r0 = sent"
    and "rq_Operation r = op" "rq_OperationVersion r = os_Version spec" "rq_RequestID r = id_New ''req-'' rid" "rq_Nonce r = fresh_nonce rn"
      "rq_KeyID r = uc_keyID c" "rq_Payload r = payload_of payload" "\<exists>m. rq_Signature r = RawURL_EncodeToString (hmac_sha256 (uc_key c) m)"
proof -
  let ?r0 = "\<lparr>rq_Operation = op, rq_OperationVersion = os_Version spec, rq_RequestID = id_New ''req-'' rid, rq_Timestamp = sent,
      rq_Nonce = fresh_nonce rn, rq_KeyID = [], rq_Payload = payload_of payload, rq_Signature = []\<rparr>"
  show "\<exists>r0. SignWithKey (Some r0) (uc_key c) (uc_keyID c) = (Some r, None) \<and> rq_Timestamp r0 = sent"
    using assms by (intro exI [of _ ?r0]) (auto simp: new_request_def split: option.splits prod.splits)
qed (use assms in \<open>auto simp: new_request_def SignWithKey_def Let_def split: option.splits sum.splits prod.splits\<close>)

lemma new_request_encodable:
  "encodable (JObj (payload_of payload)) \<Longrightarrow> \<exists>r. new_request c sent rid rn spec op payload = Inr r"
  by (simp add: new_request_def SignWithKey_def Let_def canonical_def Marshal_def)

text \<open>Verification reads the timestamp, the signature, the key identifier and the signed text, which the transport keeps.\<close>

lemma received_signature:
  assumes "new_request c sent rid rn spec op payload = Inr r" "LookupOperation op = Some spec"
    and "utf8_json (JObj (payload_of payload))" "list_all (in_bytes 0 0x7F) (uc_keyID c)"
  shows "VerifyWithKeyRing now (received_request r) ks skew = VerifyWithKeyRing now r ks skew"
    and "\<exists>p. transport (payload_of payload) = Some p \<and> received_request r = r\<lparr>rq_Payload := p\<rparr>"
proof -
  obtain p where p: "transport (payload_of payload) = Some p" "Marshal p = Marshal (payload_of payload)"
    using transport_utf8 [OF assms(3)] by blast
  note r = new_request_Inr [OF assms(1)]
  have rec: "received_request r = r\<lparr>rq_Payload := p\<rparr>"
    using r(2,4-8) p(1) catalog_operations [OF assms(2)] valid_utf8_ascii [OF assms(4)] id_plain(1) url_ascii
    by (auto simp: received_request_def fresh_nonce_def)
  then show "\<exists>p. transport (payload_of payload) = Some p \<and> received_request r = r\<lparr>rq_Payload := p\<rparr>" using p(1) by blast
  have can: "canonical (received_request r) = canonical r"
    using p(2) r(7) by (simp add: rec canonical_def canonical_parts_def split: option.split)
  have "rq_Timestamp (received_request r) = rq_Timestamp r" "rq_Signature (received_request r) = rq_Signature r"
      "rq_KeyID (received_request r) = rq_KeyID r" by (simp_all add: rec)
  then show "VerifyWithKeyRing now (received_request r) ks skew = VerifyWithKeyRing now r ks skew"
    by (simp only: VerifyWithKeyRing_def can)
qed

lemma clean_response_state: "clean_response (s\<lparr>sv_nonces := n, sv_inflight := k\<rparr>) = clean_response s"
  by (intro ext) (simp add: clean_response_def)

lemma handle_executed:
  assumes "handle_gate s now h = Inr (r, spec)" "sv_inflight s < sv_slots s" "fst (Use env (rq_Nonce r) now' (sv_nonces s, d)) = None"
  shows "fst (handle perform env now now' h (s, d)) = (200, clean_response s r spec (perform r spec)) \<and>
     fst (snd (handle perform env now now' h (s, d))) = Some (r, spec)"
proof -
  obtain n d1 where u: "Use env (rq_Nonce r) now' (sv_nonces s, d) = (None, n, d1)" using assms(3) by (metis prod.collapse)
  then show ?thesis using assms(1,2)
    by (simp add: handle_def handle_admit_def Let_def handle_finish_def clean_response_state)
qed


lemma length_sextets: "length (sextets bs) \<le> 2 * length bs"
  by (induction bs rule: sextets.induct) auto

lemma length_escape: "length (escape s) \<le> 6 * length s"
proof (induction s rule: escape.induct)
  case (1 s)
  let ?n = "rune_len s"
  have a: "length (escape_ascii c) \<le> 6" for c by (simp add: escape_ascii_def Let_def)
  show ?case
  proof (cases "s = [] \<or> ?n = 0")
    case True
    show ?thesis
    proof (cases "s = []")
      case False
      then have "escape s = (CHR 0x5C # ''ufffd'') @ escape (drop 1 s)" using True by (subst escape.simps) simp
      then show ?thesis using 1(1) False True by (cases s) auto
    qed (simp add: escape.simps)
  next
    case False
    then have s: "0 < length s" "0 < ?n" by auto
    let ?r = "take ?n s"
    let ?e = "if ?n = 1 then escape_ascii (hd s) else if ?r = [CHR 0xE2, CHR 0x80, CHR 0xA8] then CHR 0x5C # ''u2028''
       else if ?r = [CHR 0xE2, CHR 0x80, CHR 0xA9] then CHR 0x5C # ''u2029'' else ?r"
    have "length ?e \<le> 6 * length ?r"
    proof (cases "?n = 1")
      case True
      then show ?thesis using a [of "hd s"] s(1) by (cases s) auto
    next
      case False
      have "length [x, y, z] = 3" for x y z :: char by simp
      then show ?thesis using False by (auto simp del: length_take)
    qed
    moreover have "length (escape (drop ?n s)) \<le> 6 * length (drop ?n s)" using False 1(2) by simp
    moreover have "length ?r + length (drop ?n s) = length s" by (metis append_take_drop_id length_append)
    moreover have "escape s = ?e @ escape (drop ?n s)" using False by (simp add: escape.simps [of s] Let_def)
    ultimately show ?thesis by (simp only: length_append)
  qed
qed

lemma length_quote: "length (quote s) \<le> 6 * length s + 2"
  using length_escape [of s] by (simp add: quote_def)

lemma length_struct_text: "length (struct_text fs) \<le> 2 + sum_list (map (\<lambda>(key, v). 6 * length key + 4 + length v) fs)"
proof -
  have j: "length (Join (map (\<lambda>(key, v). quote key @ '':'' @ v) fs) '','') \<le> sum_list (map (\<lambda>(key, v). 6 * length key + 4 + length v) fs)"
  proof (induction fs rule: induct_list012)
    case (2 p)
    then show ?case using length_quote [of "fst p"] by (simp add: split_beta)
  next
    case (3 p q fs)
    then show ?case using length_quote [of "fst p"] by (simp add: split_beta)
  qed simp
  then show ?thesis by (simp add: struct_text_def)
qed

definition sample_client :: UnixClient where
  "sample_client = NewUnixClientWithKeyID ''/run/samba-admin/agent.sock'' (kr_CurrentKey sample_ring) (kr_CurrentID sample_ring)"

lemma sample_length:
  assumes "new_request sample_client (1700000000 * second) (replicate 16 (CHR ''r'')) (replicate 18 (CHR ''n'')) cupsInspect ''cups.inspect'' None = Inr r"
  shows "length (request_text r None) \<le> 2000"
proof -
  note f = new_request_Inr [OF assms]
  obtain m where m: "rq_Signature r = RawURL_EncodeToString (hmac_sha256 (uc_key sample_client) m)" using f(8) by blast
  obtain r0 where r0: "SignWithKey (Some r0) (uc_key sample_client) (uc_keyID sample_client) = (Some r, None)" "rq_Timestamp r0 = 1700000000 * second"
    using f(1) by blast
  have time: "rq_Timestamp r = 1700000000 * second"
    using r0 by (cases "canonical (r0\<lparr>rq_KeyID := uc_keyID sample_client\<rparr>)") (auto simp: SignWithKey_def Let_def)
  have "length (quote (rq_Signature r)) \<le> 386"
    using length_quote [of "rq_Signature r"] length_sextets [of "map of_char (hmac_sha256 (uc_key sample_client) m)"]
    unfolding m by (simp add: encode_with_def)
  moreover have "length (quote (rq_KeyID r)) \<le> 60" "length (quote (rq_Nonce r)) \<le> 200" "length (quote (rq_RequestID r)) \<le> 300"
     "length (quote (rq_Operation r)) \<le> 100" "length (FormatInt (rq_OperationVersion r)) \<le> 20"
    unfolding f(2-6) by code_simp+
  moreover have "length (quote (RFC3339Nano (rq_Timestamp r))) \<le> 100" unfolding time by code_simp
  ultimately show ?thesis
    unfolding request_text_def by (intro order.trans [OF length_struct_text]) simp
qed


end
