(* ===== verification/FreeBsdText.thy ===== *)
theory FreeBsdText
  imports Inventory Shares Executor "HOL-Library.Multiset"
begin

text \<open>
  The parsers of command output of the FreeBSD adapter, \<open>src/backend/internal/adapters/freebsd/parse.go\<close>.  The last
  sections show that the redaction of the Samba configuration keeps nothing after the key of a secret, and that the sections that
  the API renders (\<open>Shares\<close>) are read back by the inventory's parser.
\<close>

section \<open>File systems\<close>

abbreviation lines_of :: "string \<Rightarrow> string list" where
  "lines_of s \<equiv> split_at newline s"

record mountEntry =
  me_Device :: string
  me_MountPoint :: string
  me_Type :: string
  me_Options :: string

definition unescapeMount :: "string \<Rightarrow> string" where
  "unescapeMount value = Replacer [([CHR 0x5C] @ ''040'', '' ''), ([CHR 0x5C] @ ''011'', [CHR 0x09]), ([CHR 0x5C] @ ''134'', [CHR 0x5C])] value"

definition mount_line :: "string \<Rightarrow> mountEntry list" where
  "mount_line line =
     (let fields = Fields line
      in if length fields < 4 then []
         else [\<lparr>me_Device = fields ! 0, me_MountPoint = unescapeMount (fields ! 1), me_Type = fields ! 2, me_Options = fields ! 3\<rparr>])"

definition parseMountP :: "string \<Rightarrow> mountEntry list" where
  "parseMountP output = concat (map mount_line (lines_of output))"

text \<open>The usage of a mount point, size and used space; a later line for the same mount point wins.\<close>

definition df_line :: "'f floats \<Rightarrow> string \<Rightarrow> (string \<rightharpoonup> 'f \<times> 'f) \<Rightarrow> (string \<rightharpoonup> 'f \<times> 'f)" where
  "df_line F line result =
     (let fields = Fields line
      in if length fields < 6 \<or> fields ! 0 = ''Filesystem'' then result
         else case (fl_ParseFloat F (fields ! 1), fl_ParseFloat F (fields ! 2)) of
                (Some blocks, Some used) \<Rightarrow> result(unescapeMount (last fields) \<mapsto> (blocks, used))
              | _ \<Rightarrow> result)"

definition parseDF :: "'f floats \<Rightarrow> string \<Rightarrow> (string \<rightharpoonup> 'f \<times> 'f)" where
  "parseDF F output = fold (df_line F) (lines_of output) Map.empty"

definition fstab_line :: "string \<Rightarrow> (string \<rightharpoonup> string) \<Rightarrow> (string \<rightharpoonup> string)" where
  "fstab_line line result =
     (let trimmed = TrimSpace line
      in if trimmed = [] \<or> HasPrefix trimmed ''#'' then result
         else let fields = Fields trimmed in if length fields \<ge> 3 then result(unescapeMount (fields ! 1) \<mapsto> trimmed) else result)"

definition parseFSTAB :: "string \<Rightarrow> (string \<rightharpoonup> string)" where
  "parseFSTAB output = fold fstab_line (lines_of output) Map.empty"

definition splitOptions :: "string \<Rightarrow> string list" where
  "splitOptions value = (if value = [] \<or> value = ''-'' then [] else split_at (CHR '','') value)"

definition contains_fold :: "string list \<Rightarrow> string \<Rightarrow> bool" where
  "contains_fold values target = list_ex (\<lambda>v. EqualFold (TrimSpace v) target) values"

definition kibToGiB :: "'f floats \<Rightarrow> 'f \<Rightarrow> 'f" where
  "kibToGiB F value = fl_div F value (fl_of_int F (1024 * 1024))"

definition parseLoadAverage :: "'f floats \<Rightarrow> string \<Rightarrow> 'f list" where
  "parseLoadAverage F output =
     (let clean = Replacer [(''{'', []), (''}'', []), ('','', '' '')] output
      in take 3 (List.map_filter (fl_ParseFloat F) (Fields clean)))"

section \<open>The Samba configuration\<close>

definition parseSambaProfile :: "string \<Rightarrow> string" where
  "parseSambaProfile config =
     (let lower = ToLower config
      in if Contains lower ''server role: role_active_directory_dc'' \<or> Contains lower ''server role = active directory domain controller''
           then ''ad-dc''
         else if Contains lower ''server role: role_domain_member'' \<or> Contains lower ''security = ads'' then ''domain-member''
         else ''standalone'')"

definition assignment_line :: "string \<Rightarrow> (string \<rightharpoonup> string) \<Rightarrow> (string \<rightharpoonup> string)" where
  "assignment_line line values =
     (case SplitN2 line (CHR ''='') of
        None \<Rightarrow> values
      | Some (a, b) \<Rightarrow>
          let key = ToLower (TrimSpace a) in if key = ''realm'' \<or> key = ''workgroup'' then values(key \<mapsto> TrimSpace b) else values)"

definition parseSambaAssignments :: "string \<Rightarrow> (string \<rightharpoonup> string)" where
  "parseSambaAssignments config = fold assignment_line (lines_of config) Map.empty"

definition share_line :: "string \<Rightarrow> string list" where
  "share_line line =
     (let trimmed = TrimSpace line
      in if HasPrefix trimmed ''['' \<and> HasSuffix trimmed '']'' \<and> \<not> EqualFold trimmed ''[global]''
         then [TrimSuffix (TrimPrefix trimmed ''['') '']''] else [])"

definition parseSambaShares :: "string \<Rightarrow> string list" where
  "parseSambaShares config = concat (map share_line (lines_of config))"

text \<open>The modules of a configuration; the order in which Go ranges over the set is the argument \<open>order\<close>.\<close>

definition module_line :: "string \<Rightarrow> string list" where
  "module_line line =
     (case SplitN2 line (CHR ''='') of
        None \<Rightarrow> []
      | Some (a, b) \<Rightarrow> if TrimSpace (ToLower a) \<noteq> ''vfs objects'' then [] else Fields b)"

definition parseVFSModules :: "(string list \<Rightarrow> string list) \<Rightarrow> string \<Rightarrow> string list" where
  "parseVFSModules order config = order (remdups (concat (map module_line (lines_of config))))"

text \<open>The value of the first line that mentions an \<open>idmap config\<close> with the word \<open>what\<close> and has a separator.\<close>

definition idmap_line :: "string \<Rightarrow> string \<Rightarrow> string option" where
  "idmap_line what line =
     (let lower = ToLower (TrimSpace line)
      in if Contains lower ''idmap config'' \<and> Contains lower what then map_option (\<lambda>(a, b). TrimSpace b) (SplitN2 line (CHR ''='')) else None)"

definition idmap_value :: "string \<Rightarrow> string \<Rightarrow> string" where
  "idmap_value what config = (case List.map_filter (idmap_line what) (lines_of config) of [] \<Rightarrow> [] | v # _ \<Rightarrow> v)"

definition parseIDMapStrategy :: "string \<Rightarrow> string" where
  "parseIDMapStrategy config = idmap_value ''backend'' config"

definition parseIDMapRanges :: "string \<Rightarrow> string \<times> string" where
  "parseIDMapRanges config = (let value = idmap_value ''range'' config in (value, value))"

text \<open>The loop of \<open>parsePackageOptions\<close> over the lines, with \<open>inOptions\<close>.\<close>

fun package_lines :: "bool \<Rightarrow> string list \<Rightarrow> string list" where
  "package_lines inOptions [] = []"
| "package_lines inOptions (line # ls) =
     (let trimmed = TrimSpace line
      in if trimmed = ''Options        :'' then package_lines True ls
         else if inOptions \<and> (trimmed = [] \<or> HasSuffix trimmed '':'') then []
         else if inOptions then trimmed # package_lines inOptions ls
         else package_lines inOptions ls)"

definition parsePackageOptions :: "string \<Rightarrow> string list" where
  "parsePackageOptions output = package_lines False (lines_of output)"

subsection \<open>Redaction\<close>

text \<open>
  The expression \<open>(?i)^(\s*(?:password|passdb\s+backend|ldap\s+admin\s+dn|idmap\s+config.*password)\s*=).*?$\<close> on one line, read on
  the folded text: blanks, then one of the word sequences, blanks and an equals sign; the last alternative leaves a gap before its last word.
\<close>

definition re_blank :: "char \<Rightarrow> bool" where
  "re_blank c \<longleftrightarrow> c \<in> {CHR 0x09, CHR 0x0A, CHR 0x0C, CHR 0x0D, CHR 0x20}"

abbreviation skip :: "string \<Rightarrow> string" where
  "skip s \<equiv> dropWhile re_blank s"

fun after_words :: "string list \<Rightarrow> string \<Rightarrow> string option" where
  "after_words [] s = Some s"
| "after_words [w] s = (if HasPrefix s w then Some (drop (length w) s) else None)"
| "after_words (w # ws) s =
     (if HasPrefix s w \<and> (case drop (length w) s of [] \<Rightarrow> False | c # _ \<Rightarrow> re_blank c) then after_words ws (skip (drop (length w) s)) else None)"

definition then_equals :: "string option \<Rightarrow> bool" where
  "then_equals s = (case s of None \<Rightarrow> False | Some t \<Rightarrow> HasPrefix (skip t) ''='')"

definition secret_line :: "string \<Rightarrow> bool" where
  "secret_line line =
     (let s = skip (fold_canon line)
      in then_equals (after_words [''password''] s) \<or> then_equals (after_words [''passdb'', ''backend''] s)
         \<or> then_equals (after_words [''ldap'', ''admin'', ''dn''] s)
         \<or> (case after_words [''idmap'', ''config''] s of
              None \<Rightarrow> False
            | Some t \<Rightarrow> list_ex (\<lambda>u. then_equals (after_words [''password''] u)) (suffixes t)))"

definition redact_samba_line :: "string \<Rightarrow> string" where
  "redact_samba_line line =
     (if secret_line line then (case SplitN2 line (CHR ''='') of None \<Rightarrow> line @ ''= [REDACTED]'' | Some (a, b) \<Rightarrow> a @ ''= [REDACTED]'') else line)"

definition redactSambaConfig :: "string \<Rightarrow> string" where
  "redactSambaConfig config = Join (map redact_samba_line (lines_of config)) [newline]"

section \<open>Sessions and printers\<close>

definition countDataLines :: "string \<Rightarrow> nat" where
  "countDataLines output =
     length (filter (\<lambda>line. let trimmed = TrimSpace line
       in \<not> (trimmed = [] \<or> HasPrefix trimmed ''PID'' \<or> HasPrefix trimmed ''Service'' \<or> HasPrefix trimmed ''Locked'' \<or> HasPrefix trimmed ''-''))
       (lines_of output))"

definition printer_line :: "string \<Rightarrow> string list" where
  "printer_line line = (let fields = Fields line in if length fields \<ge> 2 \<and> fields ! 0 = ''printer'' then [fields ! 1] else [])"

definition parseLPStatPrinters :: "string \<Rightarrow> string list" where
  "parseLPStatPrinters output = concat (map printer_line (lines_of output))"

definition parseLPStatDevices :: "string \<Rightarrow> string list" where
  "parseLPStatDevices output = map TrimSpace (filter (\<lambda>line. HasPrefix line ''device for '') (lines_of output))"

section \<open>The redaction keeps no secret\<close>

lemma lower_char_equals: "lower_char c = CHR ''='' \<Longrightarrow> c = CHR ''=''"
proof (rule ccontr)
  assume h: "lower_char c = CHR ''=''" "c \<noteq> CHR ''=''"
  then have "65 \<le> (of_char c :: nat)" "(of_char c :: nat) \<le> 90" "char_of ((of_char c :: nat) + 32) = CHR ''=''"
    by (auto simp: lower_char_def Let_def split: if_splits)
  then have "(of_char (char_of ((of_char c :: nat) + 32)) :: nat) = 61" by simp
  then show False using \<open>65 \<le> (of_char c :: nat)\<close> \<open>(of_char c :: nat) \<le> 90\<close> by simp
qed

lemma fold_canon_no_equals: "CHR ''='' \<notin> set s \<Longrightarrow> CHR ''='' \<notin> set (fold_canon s)"
proof (induction s rule: fold_canon.induct)
  case (2 c s)
  have "lower_char c \<noteq> CHR ''=''" using 2(4) lower_char_equals by fastforce
  moreover have "CHR ''='' \<notin> set (drop n s)" for n using 2(4) set_drop_subset [of n s] by auto
  ultimately show ?case using 2 by (auto simp: eq_commute [of "CHR ''=''"])
qed simp

lemma fold_canon_equals: "CHR ''='' \<in> set (fold_canon s) \<Longrightarrow> CHR ''='' \<in> set s"
  using fold_canon_no_equals by blast

lemma then_equals_set: "then_equals s \<Longrightarrow> \<exists>t. s = Some t \<and> CHR ''='' \<in> set t"
proof -
  assume "then_equals s"
  then obtain t where t: "s = Some t" "HasPrefix (skip t) ''=''" by (auto simp: then_equals_def split: option.splits)
  then obtain u where "skip t = CHR ''='' # u" by (auto simp: prefix_def)
  then have "CHR ''='' \<in> set (skip t)" by simp
  then show ?thesis using t(1) set_dropWhileD [of _ re_blank t] by blast
qed

lemma after_words_set: "after_words ws s = Some t \<Longrightarrow> set t \<subseteq> set s"
proof (induction ws s rule: after_words.induct)
  case (2 w s)
  then show ?case using set_drop_subset [of "length w" s] by (auto split: if_splits)
next
  case (3 w v ws s)
  then have "set t \<subseteq> set (skip (drop (length w) s))" by (auto split: if_splits)
  then show ?case using set_dropWhileD [of _ re_blank "drop (length w) s"] set_drop_subset [of "length w" s] by blast
qed simp

lemma secret_line_equals: "secret_line line \<Longrightarrow> CHR ''='' \<in> set line"
proof -
  assume "secret_line line"
  moreover have "CHR ''='' \<in> set (fold_canon line)" if h: "then_equals (after_words ws (skip (fold_canon line)))" for ws
  proof -
    obtain t where "after_words ws (skip (fold_canon line)) = Some t" "CHR ''='' \<in> set t" using then_equals_set [OF h] by blast
    then show ?thesis using after_words_set [of ws "skip (fold_canon line)" t] set_dropWhileD [of _ re_blank "fold_canon line"] by blast
  qed
  moreover have "CHR ''='' \<in> set (fold_canon line)"
    if h: "after_words ws (skip (fold_canon line)) = Some t" "u \<in> set (suffixes t)" "then_equals (after_words vs u)" for ws vs t u
  proof -
    obtain x where "after_words vs u = Some x" "CHR ''='' \<in> set x" using then_equals_set [OF h(3)] by blast
    then have "CHR ''='' \<in> set u" using after_words_set by blast
    moreover have "set u \<subseteq> set t" using h(2) set_mono_suffix by auto
    ultimately show ?thesis using after_words_set [OF h(1)] set_dropWhileD [of _ re_blank "fold_canon line"] by blast
  qed
  ultimately have "CHR ''='' \<in> set (fold_canon line)"
    by (auto simp: secret_line_def Let_def list_ex_iff simp del: after_words.simps split: option.splits)
  then show ?thesis by (rule fold_canon_equals)
qed

lemma redacted_secret_line:
  assumes "secret_line line"
  shows "\<exists>key value. line = key @ CHR ''='' # value \<and> CHR ''='' \<notin> set key \<and> redact_samba_line line = key @ ''= [REDACTED]''"
proof -
  obtain a b where "SplitN2 line (CHR ''='') = Some (a, b)"
    using secret_line_equals [OF assms] by (cases "SplitN2 line (CHR ''='')") (auto simp: SplitN2_None)
  moreover from this have "line = a @ CHR ''='' # b \<and> CHR ''='' \<notin> set a" by (rule SplitN2_Some [THEN iffD1])
  moreover have "redact_samba_line line = a @ ''= [REDACTED]''" using assms calculation(1) by (simp add: redact_samba_line_def)
  ultimately show ?thesis by blast
qed

lemma redact_samba_line_idem: "redact_samba_line (redact_samba_line line) = redact_samba_line line"
proof (cases "secret_line line")
  case True
  then obtain a where a: "redact_samba_line line = a @ CHR ''='' # '' [REDACTED]''" "CHR ''='' \<notin> set a"
    using redacted_secret_line [OF True] by auto
  then show ?thesis using SplitN2_append [OF a(2), of "'' [REDACTED]''"] unfolding a(1) by (simp add: redact_samba_line_def)
qed (simp add: redact_samba_line_def)

lemma redact_samba_line_single: "newline \<notin> set line \<Longrightarrow> newline \<notin> set (redact_samba_line line)"
proof (cases "secret_line line")
  case True
  assume "newline \<notin> set line"
  then show ?thesis using redacted_secret_line [OF True] by (auto simp: newline_def)
qed (simp add: redact_samba_line_def)

lemma redactSambaConfig_lines: "lines_of (redactSambaConfig config) = map redact_samba_line (lines_of config)"
  unfolding redactSambaConfig_def using split_at_no_sep [of newline config] redact_samba_line_single
  by (intro split_at_Join) auto

text \<open>The redaction of the Samba configuration works line by line: a line that assigns a secret keeps its key and
  nothing after its first equals sign, every other line is kept, and a second redaction changes nothing.\<close>

theorem redactSambaConfig_correct:
  "lines_of (redactSambaConfig config) = map redact_samba_line (lines_of config) \<and>
   redactSambaConfig (redactSambaConfig config) = redactSambaConfig config \<and>
   (\<forall>line. if secret_line line then \<exists>key value. line = key @ CHR ''='' # value \<and> CHR ''='' \<notin> set key \<and> redact_samba_line line = key @ ''= [REDACTED]''
      else redact_samba_line line = line)"
proof (intro conjI allI)
  show "lines_of (redactSambaConfig config) = map redact_samba_line (lines_of config)" by (rule redactSambaConfig_lines)
  show "redactSambaConfig (redactSambaConfig config) = redactSambaConfig config"
    unfolding redactSambaConfig_def [of "redactSambaConfig config"] redactSambaConfig_lines
    by (simp add: redactSambaConfig_def comp_def redact_samba_line_idem)
qed (use redacted_secret_line in \<open>simp add: redact_samba_line_def\<close>)

section \<open>Rendered shares are read back\<close>

definition plain_char :: "char \<Rightarrow> bool" where
  "plain_char c \<longleftrightarrow> in_bytes 0x21 0x7E c"

lemma plain_char_no_space: "plain_char c \<Longrightarrow> r \<in> set space_runes \<Longrightarrow> c \<notin> set r"
proof
  assume h: "plain_char c" "r \<in> set space_runes" "c \<in> set r"
  have "list_all (\<lambda>r. list_all (\<lambda>c. \<not> plain_char c) r) space_runes" by code_simp
  then show False using h unfolding list_all_iff by blast
qed

lemma TrimSpace_plain: "\<forall>c\<in>set s. plain_char c \<Longrightarrow> TrimSpace s = s"
  using plain_char_no_space by (intro TrimSpace_id) blast

lemma fold_canon_plain: "\<forall>c\<in>set s. plain_char c \<Longrightarrow> fold_canon (s @ t) = map lower_char s @ fold_canon t"
  by (induction s) (auto simp: plain_char_def in_bytes_def)

lemma ShareName_plain: "ShareName name = None \<Longrightarrow> \<forall>c\<in>set name. plain_char c \<and> c \<noteq> CHR ''=''"
  by (fastforce simp: ShareName_def plain_char_def in_bytes_def is_alnum_def is_lower_def is_upper_def is_digit_def list_all_iff split: if_splits)

text \<open>Words of plain characters between single blanks are the fields.\<close>

lemma fields_from_plain: "\<forall>c\<in>set u. plain_char c \<Longrightarrow> fields_from w (u @ s) = fields_from (w @ u) s"
proof (induction u arbitrary: w)
  case (Cons c u)
  have "rune_len (c # t) = 1" for t using Cons.prems by (simp add: rune_len_def plain_char_def in_bytes_def)
  moreover have "[c] \<notin> set space_runes" using Cons.prems plain_char_no_space [of c "[c]"] by auto
  ultimately have "fields_from w ((c # u) @ s) = fields_from (w @ [c]) (u @ s)" by (simp add: fields_from.simps [of w])
  then show ?case using Cons by simp
qed simp

lemma fields_from_blank: "fields_from w (CHR '' '' # s) = nonempty w @ fields_from [] s"
proof -
  have "rune_len (CHR '' '' # s) = 1" "'' '' \<in> set space_runes" by (simp_all add: rune_len_def in_bytes_def space_runes_def)
  then show ?thesis by (simp add: fields_from.simps [of w])
qed

lemma Fields_Join:
  "\<forall>u\<in>set ws. u \<noteq> [] \<and> (\<forall>c\<in>set u. plain_char c) \<Longrightarrow> Fields (CHR '' '' # Join ws '' '') = ws"
proof (induction ws rule: induct_list012)
  case 1
  have "Fields '' '' = []" by code_simp
  then show ?case by simp
next
  case (2 u)
  then have "fields_from [] (u @ []) = [u]" by (subst fields_from_plain) (simp_all add: fields_from.simps nonempty_def)
  then show ?case by (simp add: Fields_def fields_from_blank nonempty_def)
next
  case (3 u v ws)
  then have "\<forall>c\<in>set u. plain_char c" by simp
  then have "fields_from [] (u @ CHR '' '' # t) = nonempty u @ fields_from [] t" for t
    using fields_from_plain [of u "[]" "CHR '' '' # t"] by (simp only: fields_from_blank append_Nil)
  moreover have "Join (u # v # ws) '' '' = u @ CHR '' '' # Join (v # ws) '' ''" by simp
  ultimately have "Fields (CHR '' '' # Join (u # v # ws) '' '') = nonempty u @ fields_from [] (Join (v # ws) '' '')"
    unfolding Fields_def fields_from_blank by (simp only: nonempty_def if_True append_Nil simp_thms)
  moreover have "fields_from [] (Join (v # ws) '' '') = v # ws"
    using 3 unfolding Fields_def fields_from_blank by (simp add: nonempty_def)
  ultimately show ?case using 3(3) by (simp add: nonempty_def)
qed

lemma share_line_indented: "\<forall>r\<in>set space_runes. c \<notin> set r \<Longrightarrow> c \<noteq> CHR ''['' \<Longrightarrow> share_line (CHR '' '' # CHR '' '' # c # t) = []"
  using TrimSpace_head [of c 2 t] by (auto simp: share_line_def numeral_2_eq_2)

lemma share_line_header:
  assumes "ShareName name = None"
  shows "share_line (''['' @ name @ '']'') = (if EqualFold name ''global'' then [] else [name])"
proof -
  have p: "\<forall>c\<in>set name. plain_char c" using ShareName_plain [OF assms] by blast
  then have pl: "\<forall>c\<in>set (''['' @ name @ '']''). plain_char c" by (auto simp: plain_char_def in_bytes_def)
  have f: "fold_canon (''['' @ name @ '']'') = ''['' @ map lower_char name @ '']''" "fold_canon name = map lower_char name"
    using fold_canon_plain [OF pl, of "[]"] fold_canon_plain [OF p, of "[]"] by (simp_all add: lower_char_def)
  have "fold_canon ''[global]'' = ''['' @ ''global'' @ '']''" "fold_canon ''global'' = ''global''" by code_simp+
  then have "EqualFold (''['' @ name @ '']'') ''[global]'' \<longleftrightarrow> EqualFold name ''global''"
    unfolding EqualFold_def f by (metis append_same_eq same_append_eq)
  moreover have "TrimSuffix (TrimPrefix (''['' @ name @ '']'') ''['') '']'' = name" by (simp only: TrimPrefix_append TrimSuffix_append)
  moreover have "HasSuffix (''['' @ name @ '']'') '']''" by (metis append.assoc suffixI)
  ultimately show ?thesis unfolding share_line_def Let_def TrimSpace_plain [OF pl] by simp
qed

lemma rendered_lines:
  "validateShare s = None \<Longrightarrow> lines_of (renderShare s) = share_lines s @ [[]]"
  unfolding renderShare_def by (rule split_at_lines) (rule share_lines_single)

lemma module_line_split:
  "CHR ''='' \<notin> set a \<Longrightarrow> module_line (a @ CHR ''='' # b) = (if TrimSpace (ToLower a) \<noteq> ''vfs objects'' then [] else Fields b)"
  by (simp add: module_line_def SplitN2_append)

lemma module_line_modules:
  assumes "set ms \<subseteq> set [''acl_xattr'', ''recycle'', ''full_audit'']"
  shows "module_line (''  vfs objects = '' @ Join ms '' '') = ms"
proof -
  have "TrimSpace (ToLower ''  vfs objects '') = ''vfs objects''" by code_simp
  moreover have "list_all (\<lambda>u. u \<noteq> [] \<and> list_all plain_char u) [''acl_xattr'', ''recycle'', ''full_audit'']" by code_simp
  then have "Fields (CHR '' '' # Join ms '' '') = ms" using assms unfolding list_all_iff by (intro Fields_Join) blast
  moreover have "CHR ''='' \<notin> set ''  vfs objects ''" by simp
  ultimately have "module_line (''  vfs objects '' @ CHR ''='' # CHR '' '' # Join ms '' '') = ms" by (simp only: module_line_split if_False not_True_eq_False simp_thms)
  then show ?thesis by simp
qed

lemma module_line_other:
  "module_line (''  comment = '' @ t) = []" "module_line (''  path = '' @ t) = []" "module_line (''  browseable = '' @ t) = []"
  "module_line (''  read only = '' @ t) = []" "module_line (''  guest ok = '' @ t) = []" "module_line (''  server smb encrypt = '' @ t) = []"
  "module_line (''  server signing = '' @ t) = []" "module_line (''  valid users = '' @ t) = []"
proof -
  have *: "module_line (a @ CHR ''='' # b) = []" if "CHR ''='' \<notin> set a \<and> TrimSpace (ToLower a) \<noteq> ''vfs objects''" for a b
    using that by (simp add: module_line_split)
  have k: "list_all (\<lambda>a. CHR ''='' \<notin> set a \<and> TrimSpace (ToLower a) \<noteq> ''vfs objects'')
     [''  comment '', ''  path '', ''  browseable '', ''  read only '', ''  guest ok '', ''  server smb encrypt '', ''  server signing '', ''  valid users '']"
    by code_simp
  show "module_line (''  comment = '' @ t) = []" using * [of "''  comment ''" "'' '' @ t"] k by (simp del: ToLower.simps)
  show "module_line (''  path = '' @ t) = []" using * [of "''  path ''" "'' '' @ t"] k by (simp del: ToLower.simps)
  show "module_line (''  browseable = '' @ t) = []" using * [of "''  browseable ''" "'' '' @ t"] k by (simp del: ToLower.simps)
  show "module_line (''  read only = '' @ t) = []" using * [of "''  read only ''" "'' '' @ t"] k by (simp del: ToLower.simps)
  show "module_line (''  guest ok = '' @ t) = []" using * [of "''  guest ok ''" "'' '' @ t"] k by (simp del: ToLower.simps)
  show "module_line (''  server smb encrypt = '' @ t) = []" using * [of "''  server smb encrypt ''" "'' '' @ t"] k by (simp del: ToLower.simps)
  show "module_line (''  server signing = '' @ t) = []" using * [of "''  server signing ''" "'' '' @ t"] k by (simp del: ToLower.simps)
  show "module_line (''  valid users = '' @ t) = []" using * [of "''  valid users ''" "'' '' @ t"] k by (simp del: ToLower.simps)
qed

lemma module_line_header: "ShareName name = None \<Longrightarrow> module_line (''['' @ name @ '']'') = []"
proof -
  assume "ShareName name = None"
  then have "CHR ''='' \<notin> set (''['' @ name @ '']'')" using ShareName_plain [of name] by auto
  then have "SplitN2 (''['' @ name @ '']'') (CHR ''='') = None" by (rule SplitN2_None [THEN iffD2])
  then show ?thesis unfolding module_line_def by (simp only: option.case)
qed

lemma Shares_of_rendered:
  assumes "validateShare s = None"
  shows "parseSambaShares (renderShare s) = (if EqualFold (sh_Name s) ''global'' then [] else [sh_Name s])"
    and "concat (map module_line (lines_of (renderShare s))) = slice (sh_VFSModules s)"
proof -
  note v = validateShare_None [OF assms]
  have k: "list_all (\<lambda>c. list_all (\<lambda>r. c \<notin> set r) space_runes) ''cpbrgsv''" by code_simp
  have i: "share_line (CHR '' '' # CHR '' '' # c # t) = []" if "c \<in> set ''cpbrgsv''" for c t
    using that k unfolding list_all_iff by (intro share_line_indented) auto
  have e: "share_line [] = []" "module_line [] = []" by code_simp+
  show "parseSambaShares (renderShare s) = (if EqualFold (sh_Name s) ''global'' then [] else [sh_Name s])"
    using share_line_header [OF v(1)] e
    unfolding parseSambaShares_def rendered_lines [OF assms] share_lines_def Let_def by (simp add: i)
  show "concat (map module_line (lines_of (renderShare s))) = slice (sh_VFSModules s)"
    using module_line_header [OF v(1)] module_line_modules [OF v(9)] e module_line_other
      module_line_other(3) [of "''yes''"] module_line_other(5) [of "''no''"]
    unfolding rendered_lines [OF assms] share_lines_def Let_def by simp
qed

text \<open>C29. The inventory reads back what the API renders: from the section of a valid share whose name is not \<open>global\<close>,
  the parsers of the Samba configuration find that share alone and exactly its modules, in whatever order Go ranges over them.\<close>

theorem rendered_share_is_read_back:
  assumes "validateShare s = None" "\<not> EqualFold (sh_Name s) ''global''" "\<And>xs. mset (order xs) = mset xs"
  shows "parseSambaShares (renderShare s) = [sh_Name s] \<and>
    set (parseVFSModules order (renderShare s)) = set (slice (sh_VFSModules s)) \<and> distinct (parseVFSModules order (renderShare s))"
proof -
  let ?ms = "remdups (slice (sh_VFSModules s))"
  have "parseVFSModules order (renderShare s) = order ?ms" by (simp add: parseVFSModules_def Shares_of_rendered(2) [OF assms(1)])
  moreover have "set (order ?ms) = set ?ms" using assms(3) [of ?ms] by (rule mset_eq_setD)
  moreover have "distinct (order ?ms)" using mset_eq_imp_distinct_iff [OF assms(3) [of ?ms]] by simp
  ultimately show ?thesis using Shares_of_rendered(1) [OF assms(1)] assms(2) by simp
qed

theorem rendered_share_is_read_back_witness:
  "parseSambaShares (renderShare sample_share) = [''dados''] \<and> set (parseVFSModules rev (renderShare sample_share)) = {''recycle''}"
proof -
  have "\<not> EqualFold (sh_Name sample_share) ''global''" by code_simp
  moreover have "mset (rev xs) = mset xs" for xs :: "string list" by simp
  moreover have "sh_Name sample_share = ''dados''" "slice (sh_VFSModules sample_share) = [''recycle'']" by code_simp+
  ultimately show ?thesis using rendered_share_is_read_back [OF sample_share_valid, of rev] by simp
qed

text \<open>A share may be called \<open>global\<close>: its section is then the global section, and the inventory does not list it.\<close>

lemma share_named_global:
  "let s = sample_share\<lparr>sh_Name := ''global''\<rparr> in validateShare s = None \<and> hd (lines_of (renderShare s)) = ''[global]'' \<and> parseSambaShares (renderShare s) = []"
  by code_simp

end
