(* ===== verification/FreeBsd.thy ===== *)
theory FreeBsd
  imports FreeBsdText
begin

text \<open>
  The privileged read-only boundary: the command policy and the bounded execution of
  \<open>src/backend/internal/adapters/freebsd/runner.go\<close> and the inventory of \<open>provider.go\<close>.  An inventory is a program (\<open>prog\<close> of
  \<open>Executor\<close>) that asks for commands and computes a record from the answers, so the same definition runs over the
  executor's catalog, over the host, or over a recorded collection.  The last section shows that no inventory asks for a command outside
  the allow-list of the runner and the catalog entry of its operation.
\<close>

section \<open>The command policy\<close>

definition exactArguments :: "string list list \<Rightarrow> string list \<Rightarrow> bool" where
  "exactArguments allowed actual = list_ex (\<lambda>expected. actual = expected) allowed"

definition allowedFile :: "string list \<Rightarrow> bool" where
  "allowedFile args =
     (length args = 1 \<and> args ! 0 \<in> set [''/etc/resolv.conf'', ''/etc/fstab'', ''/usr/local/etc/smb4.conf'', ''/etc/rc.conf''])"

definition allowedSysctl :: "string list \<Rightarrow> bool" where
  "allowedSysctl args =
     (length args = 2 \<and> args ! 0 = ''-n'' \<and>
      args ! 1 \<in> set [''kern.osrelease'', ''hw.machine'', ''hw.ncpu'', ''hw.physmem'', ''vm.loadavg'', ''kern.boottime'', ''vm.stats.vm.v_page_count'',
        ''vm.stats.vm.v_free_count'', ''hw.pagesize''])"

definition known_package :: "string \<Rightarrow> bool" where
  "known_package p \<longleftrightarrow> p = ''samba423'' \<or> p = ''cups''"

definition allowedPkg :: "string list \<Rightarrow> bool" where
  "allowedPkg args =
     (if length args = 3 \<and> args ! 0 = ''query'' \<and> args ! 1 = ''%n-%v'' then known_package (args ! 2)
      else if length args = 3 \<and> args ! 0 = ''info'' \<and> args ! 1 = ''-q'' then known_package (args ! 2)
      else if length args = 2 \<and> args ! 0 = ''info'' then known_package (args ! 1)
      else False)"

definition allowedServiceStatus :: "string list \<Rightarrow> bool" where
  "allowedServiceStatus args = (length args = 2 \<and> args ! 1 = ''status'' \<and> args ! 0 \<in> set [''samba_server'', ''cupsd'', ''winbindd''])"

definition allowed_invocations :: "(string \<times> (string list \<Rightarrow> bool)) list" where
  "allowed_invocations =
     [(''/bin/hostname'', exactArguments [[], [''-f'']]),
      (''/bin/df'', exactArguments [[''-k'']]),
      (''/bin/cat'', allowedFile),
      (''/bin/date'', exactArguments [[''+%Z'']]),
      (''/sbin/mount'', exactArguments [[''-p'']]),
      (''/sbin/ifconfig'', exactArguments [[''-l'']]),
      (''/sbin/sysctl'', allowedSysctl),
      (''/usr/bin/uptime'', exactArguments [[]]),
      (''/usr/local/sbin/pkg'', allowedPkg),
      (''/usr/local/sbin/smbd'', exactArguments [[''-V'']]),
      (''/usr/local/bin/testparm'', exactArguments [[''-s'']]),
      (''/usr/local/bin/smbstatus'', exactArguments [[''--shares''], [''--locks''], [''--processes'']]),
      (''/usr/local/bin/wbinfo'', exactArguments [[''--ping-dc''], [''--online-status''], [''--domain-name''], [''--own-domain'']]),
      (''/usr/local/bin/lpstat'', exactArguments [[''-p''], [''-v''], [''-o'']]),
      (''/usr/local/sbin/cupsd'', exactArguments [[''-t'']]),
      (''/usr/bin/ntpq'', exactArguments [[''-pn'']]),
      (''/usr/bin/quota'', exactArguments [[''-v'']]),
      (''/usr/sbin/service'', allowedServiceStatus)]"

definition allowedReadOnlyInvocation :: "string \<Rightarrow> string list \<Rightarrow> bool" where
  "allowedReadOnlyInvocation path args = (case map_of allowed_invocations path of None \<Rightarrow> False | Some validate \<Rightarrow> validate args)"

section \<open>Execution with bounded output\<close>

record limitedBuffer =
  lb_buffer :: string
  lb_limit :: int
  lb_exceeded :: bool

definition limitedBuffer_Write :: "limitedBuffer \<Rightarrow> string \<Rightarrow> limitedBuffer" where
  "limitedBuffer_Write b data =
     (if lb_limit b \<le> 0 then b
      else let remaining = lb_limit b - int (length (lb_buffer b))
        in if remaining \<le> 0 then b\<lparr>lb_exceeded := True\<rparr>
           else if int (length data) > remaining then b\<lparr>lb_buffer := lb_buffer b @ take (nat remaining) data, lb_exceeded := True\<rparr>
           else b\<lparr>lb_buffer := lb_buffer b @ data\<rparr>)"

text \<open>What the operating system does for one command; without a process state there is no exit code.\<close>

record process =
  ps_stdout :: "string list"
  ps_stderr :: "string list"
  ps_exitCode :: "int option"
  ps_error :: "exec_error option"

definition defaultMaxOutput :: int where "defaultMaxOutput = 2 ^ 20"

definition ExecRunner_Run :: "(string \<Rightarrow> string list \<Rightarrow> process) \<Rightarrow> int \<Rightarrow> string \<Rightarrow> string list \<Rightarrow> answer" where
  "ExecRunner_Run os MaxOutput path args =
     (if \<not> allowedReadOnlyInvocation path args then (empty_result, Some ErrCommandDenied)
      else let maxOutput = (if MaxOutput \<le> 0 then defaultMaxOutput else MaxOutput);
               p = os path args;
               empty = \<lparr>lb_buffer = [], lb_limit = maxOutput, lb_exceeded = False\<rparr>;
               out = foldl limitedBuffer_Write empty (ps_stdout p);
               err = foldl limitedBuffer_Write empty (ps_stderr p);
               result = \<lparr>cr_stdout = lb_buffer out, cr_stderr = lb_buffer err, cr_exitCode = (case ps_exitCode p of None \<Rightarrow> 0 | Some n \<Rightarrow> n)\<rparr>
        in if lb_exceeded out \<or> lb_exceeded err then (result, Some ErrOutputLimit) else (result, ps_error p))"

section \<open>Questions to the host\<close>

type_synonym 'a read = "(exec_error + 'a) prog"

definition run_command :: "string \<Rightarrow> string list \<Rightarrow> answer prog" where
  "run_command path args = Ask path args Return"

definition command_output :: "string \<Rightarrow> string list \<Rightarrow> string read" where
  "command_output path args =
     prog_bind (run_command path args) (\<lambda>(result, err). Return (case err of Some e \<Rightarrow> Inl e | None \<Rightarrow> Inr (TrimSpace (cr_stdout result))))"

definition optional :: "string \<Rightarrow> string list \<Rightarrow> string prog" where
  "optional path args = prog_bind (command_output path args) (\<lambda>r. Return (case r of Inl e \<Rightarrow> [] | Inr v \<Rightarrow> v))"

text \<open>\<open>if v, err := ...; err == nil { ... }\<close>: a failed question leaves the record as it is.\<close>

definition if_read :: "'a read \<Rightarrow> ('a \<Rightarrow> 's \<Rightarrow> 's) \<Rightarrow> 's \<Rightarrow> 's prog" where
  "if_read p f s = prog_bind p (\<lambda>r. Return (case r of Inl e \<Rightarrow> s | Inr v \<Rightarrow> f v s))"

definition value_or :: "'a \<Rightarrow> exec_error + 'a \<Rightarrow> 'a" where
  "value_or d r = (case r of Inl e \<Rightarrow> d | Inr v \<Rightarrow> v)"

definition fqdn :: "string \<Rightarrow> string prog" where
  "fqdn hostname = if_read (command_output ''/bin/hostname'' [''-f'']) (\<lambda>v h. if Contains v ''.'' then v else h) hostname"

definition nameserver_line :: "string \<Rightarrow> string list" where
  "nameserver_line line = (let fields = Fields line in if length fields = 2 \<and> fields ! 0 = ''nameserver'' then [fields ! 1] else [])"

definition dnsServers :: "string list prog" where
  "dnsServers = if_read (command_output ''/bin/cat'' [''/etc/resolv.conf'']) (\<lambda>content _. concat (map nameserver_line (lines_of content))) []"

definition ntpStatus :: "string prog" where
  "ntpStatus = if_read (command_output ''/usr/bin/ntpq'' [''-pn'']) (\<lambda>out s. if Contains out ''*'' then ''suportado'' else s) ''nao_verificado''"

definition stateFor :: "bool \<Rightarrow> string \<Rightarrow> string" where
  "stateFor ok otherwise = (if ok then ''suportado'' else otherwise)"

definition healthFromSamba :: "SambaInfo \<Rightarrow> string" where
  "healthFromSamba s = (if sb_Version s = [] then ''atencao'' else if sb_TestparmAvailable s then ''suportado'' else ''atencao'')"

definition dnsHealth :: "string list \<Rightarrow> string" where
  "dnsHealth servers = (if servers = [] then ''atencao'' else ''suportado'')"

definition aggregateDiskPercent :: "'f floats \<Rightarrow> 'f FileSystem list \<Rightarrow> 'f" where
  "aggregateDiskPercent F fs =
     (let used = foldl (fl_add F) (fl_of_int F 0) (map fy_UsedGiB fs); whole = foldl (fl_add F) (fl_of_int F 0) (map fy_SizeGiB fs)
      in if fl_eq F whole (fl_of_int F 0) then fl_of_int F 0
         else fl_div F (fl_round F (fl_mul F (fl_div F used whole) (fl_of_int F 1000))) (fl_of_int F 10))"

definition first :: "string list \<Rightarrow> string" where
  "first values = (case values of [] \<Rightarrow> [] | v # _ \<Rightarrow> v)"

definition intValue :: "string \<Rightarrow> int" where "intValue v = Atoi_value (TrimSpace v)"

definition uint64Value :: "string \<Rightarrow> nat" where "uint64Value v = ParseUint64_value (TrimSpace v)"

definition filesystemID :: "string \<Rightarrow> string \<Rightarrow> string" where
  "filesystemID device mountPoint =
     (let text1 = Replacer [(''/'', ''-''), ('' '', ''-''), ([CHR 0x5C], ''-'')] (TrimPrefix (device @ ''-'' @ mountPoint) ''/'')
      in ''fs-'' @ TrimByte text1 (CHR ''-''))"

section \<open>File systems, Samba, domain and CUPS\<close>

definition file_system :: "'f floats \<Rightarrow> (string \<rightharpoonup> 'f \<times> 'f) \<Rightarrow> (string \<rightharpoonup> string) \<Rightarrow> mountEntry \<Rightarrow> 'f FileSystem" where
  "file_system F usage fstab entry =
     (let (blocks, used) = (case usage (me_MountPoint entry) of None \<Rightarrow> (fl_of_int F 0, fl_of_int F 0) | Some u \<Rightarrow> u);
          options = splitOptions (me_Options entry);
          aclModel = (if contains_fold options ''nfsv4acls'' then ''nfsv4'' else if contains_fold options ''acls'' then ''posix'' else ''none'');
          persistent = (case fstab (me_MountPoint entry) of None \<Rightarrow> [] | Some l \<Rightarrow> l)
      in \<lparr>fy_ID = filesystemID (me_Device entry) (me_MountPoint entry), fy_Device = me_Device entry, fy_MountPoint = me_MountPoint entry,
          fy_Type = me_Type entry, fy_SizeGiB = kibToGiB F blocks, fy_UsedGiB = kibToGiB F used, fy_Writable = contains_fold options ''rw'',
          fy_MountOptions = options, fy_ACLModel = aclModel, fy_ExtendedAttributes = (aclModel \<noteq> ''none''),
          fy_UserQuota = contains_fold options ''userquota'', fy_GroupQuota = contains_fold options ''groupquota'',
          fy_FSTABPersistent = (persistent \<noteq> []), fy_AssociatedShares = [], fy_FSTABEntry = persistent\<rparr>)"

definition FileSystems :: "'f floats \<Rightarrow> 'f FileSystem list read" where
  "FileSystems F =
     prog_bind (command_output ''/sbin/mount'' [''-p'']) (\<lambda>r. case r of
        Inl e \<Rightarrow> Return (Inl e)
      | Inr mounts \<Rightarrow>
          prog_bind (optional ''/bin/df'' [''-k'']) (\<lambda>df.
          prog_bind (optional ''/bin/cat'' [''/etc/fstab'']) (\<lambda>fstab.
            Return (Inr (map (file_system F (parseDF F df) (parseFSTAB fstab))
              (filter (\<lambda>entry. me_Type entry = ''ufs'' \<or> me_Type entry = ''zfs'') (parseMountP mounts)))))))"

definition initial_samba :: SambaInfo where
  "initial_samba = zero_SambaInfo\<lparr>sb_ConfigurationPath := ''/usr/local/etc/smb4.conf'', sb_Origin := ''FreeBSD Ports / pkg'',
     sb_Binaries := Some [], sb_Shares := Some [], sb_VFSModules := Some [], sb_PackageBuildOptions := Some []\<rparr>"

definition with_config :: "(string list \<Rightarrow> string list) \<Rightarrow> string \<Rightarrow> SambaInfo \<Rightarrow> SambaInfo" where
  "with_config order config info =
     (let modules = parseVFSModules order config
      in info\<lparr>sb_TestparmAvailable := True, sb_EffectiveConfig := redactSambaConfig config, sb_Profile := parseSambaProfile config,
           sb_Shares := Some (parseSambaShares config), sb_VFSModules := Some modules,
           sb_FullAuditAvailable := (contains_fold modules ''full_audit'' \<or> Contains config ''vfs_full_audit''),
           sb_DFSAvailable := Contains (ToLower config) ''msdfs'', sb_PrintingAvailable := Contains (ToLower config) ''printing'',
           sb_Binaries := Some (slice (sb_Binaries info) @ [''/usr/local/bin/testparm''])\<rparr>)"

definition Samba :: "(string list \<Rightarrow> string list) \<Rightarrow> SambaInfo read" where
  "Samba order =
     prog_bind (command_output ''/usr/local/sbin/smbd'' [''-V'']) (\<lambda>r. case r of
        Inl e \<Rightarrow> Return (Inl e)
      | Inr version \<Rightarrow>
          if TrimSpace version = [] then Return (Inl ErrNotVerified)
          else
            prog_bind (Return (initial_samba\<lparr>sb_Version := TrimPrefix version ''Version '', sb_Binaries := Some [''/usr/local/sbin/smbd'']\<rparr>)) (\<lambda>info.
            prog_bind (if_read (command_output ''/usr/local/sbin/pkg'' [''query'', ''%n-%v'', ''samba423'']) (\<lambda>pkg. sb_Package_update (\<lambda>_. pkg)) info) (\<lambda>info.
            prog_bind (if_read (command_output ''/usr/local/sbin/pkg'' [''info'', ''samba423'']) (\<lambda>i. sb_PackageBuildOptions_update (\<lambda>_. Some (parsePackageOptions i))) info) (\<lambda>info.
            prog_bind (if_read (command_output ''/usr/local/bin/testparm'' [''-s'']) (with_config order) info) (\<lambda>info.
            prog_bind (if_read (command_output ''/usr/local/bin/smbstatus'' [''--shares'']) (\<lambda>s. sb_Sessions_update (\<lambda>_. countDataLines s)) info) (\<lambda>info.
            prog_bind (if_read (command_output ''/usr/local/bin/smbstatus'' [''--locks'']) (\<lambda>l. sb_OpenFiles_update (\<lambda>_. countDataLines l)) info) (\<lambda>info.
              Return (Inr info))))))))"

definition domain_test :: "string \<Rightarrow> string \<Rightarrow> string \<Rightarrow> DomainTest" where
  "domain_test name state details = \<lparr>dt_Name = name, dt_State = state, dt_Details = details\<rparr>"

definition domain_config :: "string \<Rightarrow> DomainState" where
  "domain_config config =
     (let values = parseSambaAssignments config;
          realm = (case values ''realm'' of None \<Rightarrow> [] | Some v \<Rightarrow> v);
          joined = (parseSambaProfile config = ''domain-member'')
      in zero_DomainState\<lparr>ds_DNSDomain := ToLower realm, ds_Realm := realm,
           ds_NetBIOS := (case values ''workgroup'' of None \<Rightarrow> [] | Some v \<Rightarrow> v), ds_IDMapStrategy := parseIDMapStrategy config,
           ds_UIDRange := fst (parseIDMapRanges config), ds_GIDRange := snd (parseIDMapRanges config), ds_Joined := joined,
           ds_Tests := [domain_test ''Samba profile'' (stateFor joined ''atencao'') (''Perfil detectado por testparm sem alterar a configura'' @ [CHR 0xC3, CHR 0xA7, CHR 0xC3, CHR 0xA3] @ ''o.'')]\<rparr>)"

definition add_test :: "DomainState \<Rightarrow> string \<Rightarrow> string \<Rightarrow> string \<Rightarrow> DomainState" where
  "add_test s name state details = s\<lparr>ds_Tests := ds_Tests s @ [domain_test name state details]\<rparr>"

definition authenticated_pending :: string where
  "authenticated_pending = (''A verifica'' @ [CHR 0xC3, CHR 0xA7, CHR 0xC3, CHR 0xA3] @ ''o autenticada requer credenciais tempor'' @ [CHR 0xC3, CHR 0xA1] @ ''rias e permanece fora do adapter de leitura.'')"

definition Domain :: "DomainState prog" where
  "Domain =
     prog_bind (command_output ''/usr/local/bin/testparm'' [''-s'']) (\<lambda>r. case r of
        Inl e \<Rightarrow> Return (add_test zero_DomainState ''Samba configuration'' ''indisponivel'' (''testparm n'' @ [CHR 0xC3, CHR 0xA3] @ ''o est'' @ [CHR 0xC3, CHR 0xA1] @ '' dispon'' @ [CHR 0xC3, CHR 0xAD] @ ''vel.''))
      | Inr config \<Rightarrow>
          prog_bind dnsServers (\<lambda>servers.
          prog_bind (run_command ''/usr/local/bin/wbinfo'' [''--ping-dc'']) (\<lambda>(ping, err).
            let s1 = (if servers \<noteq> [] then add_test (domain_config config) ''DNS'' ''suportado'' (''resolv.conf cont'' @ [CHR 0xC3, CHR 0xA9] @ ''m servidores DNS configurados.'')
                      else add_test (domain_config config) ''DNS'' ''atencao'' ''Nenhum nameserver foi identificado em resolv.conf.'');
                s2 = (if err = None \<and> cr_exitCode ping = 0 then add_test s1 ''winbind/DC'' ''suportado'' (''wbinfo --ping-dc foi conclu'' @ [CHR 0xC3, CHR 0xAD] @ ''do.'')
                      else add_test s1 ''winbind/DC'' ''atencao'' (''winbind ou DC n'' @ [CHR 0xC3, CHR 0xA3] @ ''o est'' @ [CHR 0xC3, CHR 0xA1] @ '' dispon'' @ [CHR 0xC3, CHR 0xAD] @ ''vel; nenhum ingresso foi tentado.''))
            in Return (add_test (add_test s2 ''Kerberos'' ''nao_verificado'' authenticated_pending) ''LDAP'' ''nao_verificado'' authenticated_pending))))"

definition cups_printer :: "string \<Rightarrow> Printer" where
  "cups_printer name = \<lparr>pr_ID = ''cups-'' @ ToLower name, pr_Name = name, pr_URI = [], pr_Model = [], pr_Driver = [], pr_Shared = False,
     pr_Paused = False, pr_Jobs = 0, pr_Windows11Validated = False\<rparr>"

definition cups_error :: "string \<Rightarrow> CupsInfo \<Rightarrow> CupsInfo" where
  "cups_error e info = info\<lparr>cu_Errors := Some (slice (cu_Errors info) @ [e])\<rparr>"

definition Cups :: "CupsInfo read" where
  "Cups =
     prog_bind (Return \<lparr>cu_Version = [], cu_Service = ''indisponivel'', cu_Printers = Some [], cu_Backends = Some [], cu_PPDs = Some [], cu_Errors = Some []\<rparr>) (\<lambda>info.
     prog_bind (if_read (command_output ''/usr/local/sbin/pkg'' [''query'', ''%n-%v'', ''cups'']) (\<lambda>pkg. cu_Version_update (\<lambda>_. pkg)) info) (\<lambda>info.
     prog_bind (command_output ''/usr/local/sbin/cupsd'' [''-t'']) (\<lambda>r. case r of
        Inl e \<Rightarrow> Return (Inl e)
      | Inr _ \<Rightarrow>
          prog_bind (command_output ''/usr/local/bin/lpstat'' [''-p'']) (\<lambda>p.
          prog_bind (command_output ''/usr/local/bin/lpstat'' [''-v'']) (\<lambda>v.
            let info1 = info\<lparr>cu_Service := ''valid''\<rparr>;
                info2 = (case p of Inl e \<Rightarrow> cups_error (''filas CUPS indispon'' @ [CHR 0xC3, CHR 0xAD] @ ''veis para consulta'') info1
                         | Inr printers \<Rightarrow> info1\<lparr>cu_Printers := Some (map cups_printer (parseLPStatPrinters printers))\<rparr>);
                info3 = (case v of Inl e \<Rightarrow> cups_error (''backends CUPS indispon'' @ [CHR 0xC3, CHR 0xAD] @ ''veis para consulta'') info2
                         | Inr devices \<Rightarrow> info2\<lparr>cu_Backends := Some (parseLPStatDevices devices)\<rparr>)
            in Return (Inr info3))))))"

section \<open>The whole system\<close>

definition or_text :: "string \<Rightarrow> string \<Rightarrow> string" where
  "or_text v d = (if v = [] then d else v)"

definition Inspect :: "'f floats \<Rightarrow> (string list \<Rightarrow> string list) \<Rightarrow> 'f SystemInfo read" where
  "Inspect F order =
     prog_bind (command_output ''/bin/hostname'' []) (\<lambda>r. case r of Inl e \<Rightarrow> Return (Inl e) | Inr hostname \<Rightarrow>
     prog_bind (command_output ''/sbin/sysctl'' [''-n'', ''kern.osrelease'']) (\<lambda>r. case r of Inl e \<Rightarrow> Return (Inl e) | Inr release \<Rightarrow>
     prog_bind (optional ''/sbin/sysctl'' [''-n'', ''hw.machine'']) (\<lambda>architecture.
     prog_bind (optional ''/sbin/sysctl'' [''-n'', ''hw.ncpu'']) (\<lambda>ncpu.
     prog_bind (optional ''/sbin/sysctl'' [''-n'', ''hw.physmem'']) (\<lambda>physmem.
     prog_bind (FileSystems F) (\<lambda>mounts.
     prog_bind (Samba order) (\<lambda>samba_or.
     prog_bind Domain (\<lambda>domain.
     prog_bind (optional ''/sbin/ifconfig'' [''-l'']) (\<lambda>interfaces.
     prog_bind Cups (\<lambda>cups_or.
     prog_bind (fqdn hostname) (\<lambda>full.
     prog_bind ntpStatus (\<lambda>timeSync.
     prog_bind dnsServers (\<lambda>dns1.
     prog_bind (optional ''/usr/bin/uptime'' []) (\<lambda>uptime.
     prog_bind (optional ''/sbin/sysctl'' [''-n'', ''vm.loadavg'']) (\<lambda>loadavg.
     prog_bind dnsServers (\<lambda>dns2.
     prog_bind ntpStatus (\<lambda>ntp.
     prog_bind (optional ''/bin/date'' [''+%Z'']) (\<lambda>timezone.
       let samba = value_or zero_SambaInfo samba_or; cups = value_or zero_CupsInfo cups_or
       in Return (Inr \<lparr>sy_Hostname = hostname, sy_FQDN = full, sy_FreeBSDVersion = release,
            sy_SambaVersion = or_text (sb_Version samba) (''indispon'' @ [CHR 0xC3, CHR 0xAD] @ ''vel''), sy_SambaPackage = or_text (sb_Package samba) (''indispon'' @ [CHR 0xC3, CHR 0xAD] @ ''vel''),
            sy_SambaOrigin = sb_Origin samba, sy_Profile = or_text (sb_Profile samba) ''standalone'', sy_Health = healthFromSamba samba,
            sy_DomainJoined = ds_Joined domain, sy_DomainName = ds_DNSDomain domain, sy_PreferredDC = first (slice (ds_PreferredDCs domain)),
            sy_TimeSync = timeSync, sy_DNSHealth = dnsHealth dns1, sy_CPUPercent = fl_of_int F 0, sy_MemoryPercent = fl_of_int F 0,
            sy_DiskPercent = aggregateDiskPercent F (value_or [] mounts), sy_SMBSessions = sb_Sessions samba, sy_OpenFiles = sb_OpenFiles samba,
            sy_SharesCount = length (slice (sb_Shares samba)), sy_PrintQueues = length (slice (cu_Printers cups)),
            sy_LogForwarding = ''nao_verificado'', sy_Architecture = architecture, sy_Uptime = uptime, sy_CPUCount = intValue ncpu,
            sy_MemoryBytes = uint64Value physmem, sy_LoadAverage = parseLoadAverage F loadavg, sy_Interfaces = Fields interfaces,
            sy_DNSServers = dns2, sy_NTPStatus = ntp, sy_Timezone = timezone\<rparr>)))))))))))))))))))"

definition capability_of :: "string \<Rightarrow> string \<Rightarrow> string \<Rightarrow> string \<Rightarrow> string \<Rightarrow> Capability" where
  "capability_of cid feature state scope evidence =
     \<lparr>ca_ID = cid, ca_Feature = feature, ca_State = state, ca_Scope = scope, ca_Evidence = evidence\<rparr>"

definition host_Capabilities :: "(string list \<Rightarrow> string list) \<Rightarrow> Capability list read" where
  "host_Capabilities order =
     prog_bind (Samba order) (\<lambda>samba_or.
     prog_bind (command_output ''/bin/cat'' [''/etc/fstab'']) (\<lambda>fstab.
     prog_bind (command_output ''/usr/local/sbin/cupsd'' [''-t'']) (\<lambda>cups.
     prog_bind Domain (\<lambda>domain.
       let samba = value_or zero_SambaInfo samba_or;
           ok = (\<lambda>r. case r of Inl e \<Rightarrow> False | Inr v \<Rightarrow> True);
           domainState = (if ds_Realm domain \<noteq> [] \<or> ds_NetBIOS domain \<noteq> [] then ''suportado_com_restricoes'' else ''nao_verificado'')
       in Return (Inr
         [capability_of ''system.inspect'' (''Invent'' @ [CHR 0xC3, CHR 0xA1] @ ''rio do sistema'') ''suportado'' ''FreeBSD'' (''sysctl, mount, df e hostname est'' @ [CHR 0xC3, CHR 0xA3] @ ''o dispon'' @ [CHR 0xC3, CHR 0xAD] @ ''veis.''),
          capability_of ''filesystem.read'' (''Invent'' @ [CHR 0xC3, CHR 0xA1] @ ''rio de sistemas de arquivos'') (stateFor (ok fstab) ''nao_verificado'') ''FreeBSD/UFS'' ''mount -p, df -k e /etc/fstab somente leitura.'',
          capability_of ''acl.nfsv4.read'' ''Leitura de ACL NFSv4'' ''nao_verificado'' ''UFS2'' (''Exige fixture de getfacl e homologa'' @ [CHR 0xC3, CHR 0xA7, CHR 0xC3, CHR 0xA3] @ ''o em UFS2.''),
          capability_of ''acl.nfsv4.write'' ''Escrita de ACL NFSv4'' ''indisponivel'' ''UFS2'' (''Bloqueada por pol'' @ [CHR 0xC3, CHR 0xAD] @ ''tica nesta release.''),
          capability_of ''samba.inspect'' (''Invent'' @ [CHR 0xC3, CHR 0xA1] @ ''rio Samba'') (stateFor (sb_Version samba \<noteq> []) ''indisponivel'') ''Samba'' (''Vers'' @ [CHR 0xC3, CHR 0xA3] @ ''o, pacote e configura'' @ [CHR 0xC3, CHR 0xA7, CHR 0xC3, CHR 0xA3] @ ''o s'' @ [CHR 0xC3, CHR 0xA3] @ ''o consultados por comandos fixos somente leitura.''),
          capability_of ''samba.testparm'' (''Valida'' @ [CHR 0xC3, CHR 0xA7, CHR 0xC3, CHR 0xA3] @ ''o Samba testparm'') (stateFor (sb_TestparmAvailable samba) ''indisponivel'') ''Samba'' (''Disponibilidade do bin'' @ [CHR 0xC3, CHR 0xA1] @ ''rio testparm e valida'' @ [CHR 0xC3, CHR 0xA7, CHR 0xC3, CHR 0xA3] @ ''o somente leitura.''),
          capability_of ''domain.member.diagnose'' (''Diagn'' @ [CHR 0xC3, CHR 0xB3] @ ''stico de membro AD'') domainState ''Samba member server'' (''Somente perfil Samba, DNS configurado e ping do winbind s'' @ [CHR 0xC3, CHR 0xA3] @ ''o consultados sem credenciais; SRV, Kerberos, LDAP e SMB permanecem pendentes.''),
          capability_of ''domain.member.join'' ''Ingresso como membro AD'' ''indisponivel'' ''Samba member server'' ''Feature flag de escrita permanece desabilitada.'',
          capability_of ''samba.ad_dc'' ''Samba AD DC'' ''nao_verificado'' (''M'' @ [CHR 0xC3, CHR 0xB3] @ ''dulo separado'') (''Op'' @ [CHR 0xC3, CHR 0xA7, CHR 0xC3, CHR 0xB5] @ ''es de pacote n'' @ [CHR 0xC3, CHR 0xA3] @ ''o substituem homologa'' @ [CHR 0xC3, CHR 0xA7, CHR 0xC3, CHR 0xA3] @ ''o de AD DC.''),
          capability_of ''cups.inspect'' (''Invent'' @ [CHR 0xC3, CHR 0xA1] @ ''rio CUPS'') (stateFor (ok cups) ''indisponivel'') ''CUPS'' ''cupsd -t e lpstat somente leitura.'',
          capability_of ''quota.ufs.read'' ''Leitura de quotas UFS'' ''nao_verificado'' ''UFS'' (''Exige ferramenta e op'' @ [CHR 0xC3, CHR 0xA7, CHR 0xC3, CHR 0xB5] @ ''es de quota verificadas.''),
          capability_of ''quota.ufs.write'' ''Escrita de quotas UFS'' ''indisponivel'' ''UFS'' (''Bloqueada por pol'' @ [CHR 0xC3, CHR 0xAD] @ ''tica nesta release.''),
          capability_of ''syslog.tls'' ''Syslog remoto TLS'' ''nao_verificado'' ''SIEM'' ''Requer agente ou daemon TLS homologado.''])))))"

section \<open>The collection of the executor\<close>

definition encoded :: "('a \<Rightarrow> json) \<Rightarrow> 'a read \<Rightarrow> json read" where
  "encoded enc p = prog_bind p (\<lambda>r. Return (case r of Inl e \<Rightarrow> Inl e | Inr v \<Rightarrow> Inr (enc v)))"

text \<open>The provider of \<open>executeInventory\<close>, by operation.\<close>

definition inventory :: "'f floats \<Rightarrow> (string list \<Rightarrow> string list) \<Rightarrow> string \<Rightarrow> json read" where
  "inventory F order op =
     (if op = ''system.inspect'' then encoded (SystemInfo_json F) (Inspect F order)
      else if op = ''capabilities.inspect'' then encoded (\<lambda>cs. JArr (map Capability_json cs)) (host_Capabilities order)
      else if op = ''filesystem.inspect'' then encoded (\<lambda>fs. JArr (map (FileSystem_json F) fs)) (FileSystems F)
      else if op = ''samba.inspect'' then encoded SambaInfo_json (Samba order)
      else if op = ''domain.member.diagnose'' then prog_bind Domain (\<lambda>d. Return (Inr (DomainState_json d)))
      else if op = ''cups.inspect'' then encoded CupsInfo_json Cups
      else Return (Inl ErrNotImplemented))"

section \<open>What an inventory asks for\<close>

text \<open>Every question of a program, whatever the answers are, is in \<open>P\<close>.\<close>

primrec asks_only :: "(string \<Rightarrow> string list \<Rightarrow> bool) \<Rightarrow> 'a prog \<Rightarrow> bool" where
  "asks_only P (Return v) = True"
| "asks_only P (Ask path args k) = (P path args \<and> (\<forall>a. asks_only P (k a)))"

lemma asks_only_bind: "asks_only P p \<Longrightarrow> (\<And>v. asks_only P (f v)) \<Longrightarrow> asks_only P (prog_bind p f)"
  by (induction p) auto

lemma asks_only_output: "P path args \<Longrightarrow> asks_only P (command_output path args)"
  by (auto simp: command_output_def run_command_def split: prod.splits)

lemma asks_only_optional: "P path args \<Longrightarrow> asks_only P (optional path args)"
  unfolding optional_def by (intro asks_only_bind asks_only_output) simp_all

lemma asks_only_if_read: "asks_only P p \<Longrightarrow> asks_only P (if_read p f s)"
  unfolding if_read_def by (intro asks_only_bind) simp_all

lemma asks_only_run: "P path args \<Longrightarrow> asks_only P (run_command path args)"
  by (simp add: run_command_def)

lemma asks_only_Return: "asks_only P (Return v)" by simp

lemma asks_only_case: "(\<And>e. asks_only P (f e)) \<Longrightarrow> (\<And>v. asks_only P (g v)) \<Longrightarrow> asks_only P (case r of Inl e \<Rightarrow> f e | Inr v \<Rightarrow> g v)"
  by (cases r) auto

lemma asks_only_let: "asks_only P (f a) \<Longrightarrow> asks_only P (let x = a in f x)"
  by (simp add: Let_def)

lemmas asks_only_intros = asks_only_case asks_only_let asks_only_bind asks_only_output asks_only_optional asks_only_if_read asks_only_run asks_only_Return

lemma asks_only_weaken: "asks_only P p \<Longrightarrow> (\<And>path args. P path args \<Longrightarrow> Q path args) \<Longrightarrow> asks_only Q p"
  by (induction p) auto

text \<open>The questions of each part, in the order in which it asks them.\<close>

definition filesystem_questions :: "(string \<times> string list) list" where
  "filesystem_questions = [(''/sbin/mount'', [''-p'']), (''/bin/df'', [''-k'']), (''/bin/cat'', [''/etc/fstab''])]"

definition samba_questions :: "(string \<times> string list) list" where
  "samba_questions =
     [(''/usr/local/sbin/smbd'', [''-V'']), (''/usr/local/sbin/pkg'', [''query'', ''%n-%v'', ''samba423'']),
      (''/usr/local/sbin/pkg'', [''info'', ''samba423'']), (''/usr/local/bin/testparm'', [''-s'']),
      (''/usr/local/bin/smbstatus'', [''--shares'']), (''/usr/local/bin/smbstatus'', [''--locks''])]"

definition domain_questions :: "(string \<times> string list) list" where
  "domain_questions = [(''/usr/local/bin/testparm'', [''-s'']), (''/bin/cat'', [''/etc/resolv.conf'']), (''/usr/local/bin/wbinfo'', [''--ping-dc''])]"

definition cups_questions :: "(string \<times> string list) list" where
  "cups_questions =
     [(''/usr/local/sbin/pkg'', [''query'', ''%n-%v'', ''cups'']), (''/usr/local/sbin/cupsd'', [''-t'']),
      (''/usr/local/bin/lpstat'', [''-p'']), (''/usr/local/bin/lpstat'', [''-v''])]"

definition system_questions :: "(string \<times> string list) list" where
  "system_questions =
     [(''/bin/hostname'', []), (''/bin/hostname'', [''-f'']), (''/sbin/sysctl'', [''-n'', ''kern.osrelease'']), (''/sbin/sysctl'', [''-n'', ''hw.machine'']),
      (''/sbin/sysctl'', [''-n'', ''hw.ncpu'']), (''/sbin/sysctl'', [''-n'', ''hw.physmem'']), (''/sbin/sysctl'', [''-n'', ''vm.loadavg'']),
      (''/sbin/ifconfig'', [''-l'']), (''/usr/bin/uptime'', []), (''/usr/bin/ntpq'', [''-pn'']), (''/bin/date'', [''+%Z''])]
     @ filesystem_questions @ samba_questions @ domain_questions @ cups_questions"

abbreviation within :: "(string \<times> string list) list \<Rightarrow> string \<Rightarrow> string list \<Rightarrow> bool" where
  "within qs path args \<equiv> (path, args) \<in> set qs"

lemma asks_FileSystems: "asks_only (within filesystem_questions) (FileSystems F)"
  unfolding FileSystems_def
  by (intro asks_only_intros) (auto simp: filesystem_questions_def intro!: asks_only_intros split: sum.split)

lemma asks_Samba: "asks_only (within samba_questions) (Samba order)"
  unfolding Samba_def
  by (intro asks_only_intros) (auto simp: samba_questions_def intro!: asks_only_intros split: sum.split)

lemma asks_Domain: "asks_only (within domain_questions) Domain"
  unfolding Domain_def dnsServers_def
  by (intro asks_only_intros) (auto simp: domain_questions_def Let_def intro!: asks_only_intros split: sum.split prod.split)

lemma asks_Cups: "asks_only (within cups_questions) Cups"
  unfolding Cups_def
  by (intro asks_only_intros) (auto simp: cups_questions_def Let_def intro!: asks_only_intros split: sum.split)

lemma asks_Inspect: "asks_only (within system_questions) (Inspect F order)"
proof -
  have parts: "asks_only (within system_questions) (FileSystems F)" "asks_only (within system_questions) (Samba order)"
      "asks_only (within system_questions) Domain" "asks_only (within system_questions) Cups"
    by (rule asks_only_weaken [OF asks_FileSystems] asks_only_weaken [OF asks_Samba] asks_only_weaken [OF asks_Domain] asks_only_weaken [OF asks_Cups];
        simp add: system_questions_def)+
  show ?thesis
    unfolding Inspect_def fqdn_def ntpStatus_def dnsServers_def
    by (intro asks_only_intros parts) (simp_all add: system_questions_def filesystem_questions_def domain_questions_def)
qed

section \<open>Running a program\<close>

text \<open>A host answers a question; \<open>run_on\<close> is the result of a program and \<open>asked\<close> its questions, in order.\<close>

type_synonym host = "string \<Rightarrow> string list \<Rightarrow> answer"

primrec run_on :: "host \<Rightarrow> 'a prog \<Rightarrow> 'a" where
  "run_on h (Return v) = v"
| "run_on h (Ask path args k) = run_on h (k (h path args))"

primrec asked :: "host \<Rightarrow> 'a prog \<Rightarrow> (string \<times> string list) list" where
  "asked h (Return v) = []"
| "asked h (Ask path args k) = (path, args) # asked h (k (h path args))"

lemma run_on_bind: "run_on h (prog_bind p f) = run_on h (f (run_on h p))"
  by (induction p) auto

lemma asked_bind: "asked h (prog_bind p f) = asked h p @ asked h (f (run_on h p))"
  by (induction p) auto

lemma asked_only: "asks_only P p \<Longrightarrow> q \<in> set (asked h p) \<Longrightarrow> P (fst q) (snd q)"
  by (induction p) (auto simp del: split_paired_All)

lemma collect_run_on:
  assumes "asks_only (\<lambda>path args. commandAllowed spec (command path args)) p"
  shows "fst (collect run spec limit p) = run_on (\<lambda>path args. run (command path args) limit) p"
  using assms by (induction p) (auto simp: catalogRunner_Run_def Let_def split_beta simp del: split_paired_All)

lemma run_on_cong:
  "(\<And>path args. (path, args) \<in> set (asked h p) \<Longrightarrow> h path args = h' path args) \<Longrightarrow> run_on h p = run_on h' p"
  by (induction p) auto

definition permitted :: "OperationSpec \<Rightarrow> string \<Rightarrow> string list \<Rightarrow> bool" where
  "permitted spec path args \<longleftrightarrow> commandAllowed spec (command path args) \<and> allowedReadOnlyInvocation path args"

lemma asks_encoded: "asks_only P p \<Longrightarrow> asks_only P (encoded enc p)"
  unfolding encoded_def by (intro asks_only_intros) simp_all

definition capability_questions :: "(string \<times> string list) list" where
  "capability_questions = (''/bin/cat'', [''/etc/fstab'']) # samba_questions @ domain_questions @ [(''/usr/local/sbin/cupsd'', [''-t''])]"

lemma asks_Capabilities: "asks_only (within capability_questions) (host_Capabilities order)"
proof -
  have parts: "asks_only (within capability_questions) (Samba order)" "asks_only (within capability_questions) Domain"
    by (rule asks_only_weaken [OF asks_Samba] asks_only_weaken [OF asks_Domain]; simp add: capability_questions_def)+
  then show ?thesis unfolding host_Capabilities_def by (intro asks_only_intros) (simp_all add: capability_questions_def)
qed

lemma questions_permitted:
  assumes "LookupOperation op = Some spec" "op \<in> set inventory_operations"
  shows "asks_only (permitted spec) (inventory F order op)"
proof -
  have ok: "asks_only (permitted sp) p" if "asks_only (within qs) p" "list_all (\<lambda>(path, args). permitted sp path args) qs" for sp qs and p :: "'b prog"
    using that(1) by (rule asks_only_weaken) (use that(2) in \<open>auto simp: list_all_iff\<close>)
  have "list_all (\<lambda>(path, args). permitted systemInspect path args) system_questions"
    "list_all (\<lambda>(path, args). permitted capabilitiesInspect path args) capability_questions"
    "list_all (\<lambda>(path, args). permitted filesystemInspect path args) filesystem_questions"
    "list_all (\<lambda>(path, args). permitted sambaInspect path args) samba_questions"
    "list_all (\<lambda>(path, args). permitted domainDiagnose path args) domain_questions"
    "list_all (\<lambda>(path, args). permitted cupsInspect path args) cups_questions"
    by code_simp+
  note all = ok [OF asks_Inspect this(1)] ok [OF asks_Capabilities this(2)] ok [OF asks_FileSystems this(3)] ok [OF asks_Samba this(4)]
    ok [OF asks_Domain this(5)] ok [OF asks_Cups this(6)]
  have found: "LookupOperation ''system.inspect'' = Some systemInspect" "LookupOperation ''capabilities.inspect'' = Some capabilitiesInspect"
    "LookupOperation ''filesystem.inspect'' = Some filesystemInspect" "LookupOperation ''samba.inspect'' = Some sambaInspect"
    "LookupOperation ''domain.member.diagnose'' = Some domainDiagnose" "LookupOperation ''cups.inspect'' = Some cupsInspect"
    by (simp_all add: LookupOperation_def Catalog_def)
  have dom: "asks_only (permitted domainDiagnose) (prog_bind Domain (\<lambda>d. Return (Inr (DomainState_json d))))"
    by (intro asks_only_intros all)
  have "op = ''system.inspect'' \<or> op = ''capabilities.inspect'' \<or> op = ''filesystem.inspect'' \<or> op = ''samba.inspect'' \<or>
      op = ''domain.member.diagnose'' \<or> op = ''cups.inspect''"
    using assms(2) by (simp add: inventory_operations_def)
  then show ?thesis
  proof (elim disjE)
  qed (use assms(1) in \<open>simp_all add: inventory_def found asks_encoded [OF all(1)] asks_encoded [OF all(2)] asks_encoded [OF all(3)]
      asks_encoded [OF all(4)] dom asks_encoded [OF all(6)]\<close>)
qed

text \<open>C27. The catalog and the allow-list of the runner are complete for the inventories: whatever the host answers, every command that
  an inventory asks for is permitted by the catalog entry of its operation and by the allow-list, so the executor's policy never
  refuses one and its result is the one of the commands themselves.\<close>

theorem inventory_commands_permitted:
  assumes "LookupOperation op = Some spec" "op \<in> set inventory_operations"
  shows "asks_only (\<lambda>path args. commandAllowed spec (command path args) \<and> allowedReadOnlyInvocation path args) (inventory F order op) \<and>
    fst (collect run spec limit (inventory F order op)) = run_on (\<lambda>path args. run (command path args) limit) (inventory F order op)"
proof
  show ask: "asks_only (\<lambda>path args. commandAllowed spec (command path args) \<and> allowedReadOnlyInvocation path args) (inventory F order op)"
    using questions_permitted [OF assms] unfolding permitted_def .
  show "fst (collect run spec limit (inventory F order op)) = run_on (\<lambda>path args. run (command path args) limit) (inventory F order op)"
    by (rule collect_run_on) (rule asks_only_weaken [OF ask], simp)
qed

definition sample_floats :: "int floats" where
  "sample_floats = \<lparr>fl_ParseFloat = (\<lambda>s. map_option int (ParseUint64 s)), fl_of_int = (\<lambda>n. n), fl_add = (+), fl_mul = (*), fl_div = (div),
     fl_round = (\<lambda>n. n), fl_eq = (=), fl_json = JNum\<rparr>"

theorem inventory_commands_permitted_witness:
  "\<not> isl (fst (collect echo_runner cupsInspect 1024 (inventory sample_floats rev ''cups.inspect'')))"
proof -
  have "LookupOperation ''cups.inspect'' = Some cupsInspect" by (simp add: LookupOperation_def Catalog_def)
  moreover have "''cups.inspect'' \<in> set inventory_operations" by (simp add: inventory_operations_def)
  ultimately have "fst (collect echo_runner cupsInspect 1024 (inventory sample_floats rev ''cups.inspect'')) =
      run_on (\<lambda>path args. echo_runner (command path args) 1024) (inventory sample_floats rev ''cups.inspect'')"
    using inventory_commands_permitted [of "''cups.inspect''" cupsInspect sample_floats rev echo_runner 1024] by simp
  moreover have "\<not> isl (run_on (\<lambda>path args. echo_runner (command path args) 1024) (inventory sample_floats rev ''cups.inspect''))"
    by code_simp
  ultimately show ?thesis by simp
qed

section \<open>The Samba inventory hides secrets\<close>

lemma run_on_if_read: "run_on h (if_read p f s) = (case run_on h p of Inl e \<Rightarrow> s | Inr v \<Rightarrow> f v s)"
  by (simp add: if_read_def run_on_bind)

text \<open>A field of the Samba inventory that only the configuration fills.\<close>

lemma Samba_field:
  assumes "run_on h (Samba order) = Inr info"
    and keep: "\<And>f s. g (sb_Version_update f s) = g s" "\<And>f s. g (sb_Binaries_update f s) = g s" "\<And>f s. g (sb_Package_update f s) = g s"
      "\<And>f s. g (sb_PackageBuildOptions_update f s) = g s" "\<And>f s. g (sb_Sessions_update f s) = g s" "\<And>f s. g (sb_OpenFiles_update f s) = g s"
    and config: "\<And>c s. g (with_config order c s) = field c"
  shows "g info = (case run_on h (command_output ''/usr/local/bin/testparm'' [''-s'']) of Inl e \<Rightarrow> g initial_samba | Inr c \<Rightarrow> field c)"
proof (cases "run_on h (command_output ''/usr/local/sbin/smbd'' [''-V''])")
  case (Inl e)
  then show ?thesis using assms(1) by (simp add: Samba_def run_on_bind)
next
  case (Inr version)
  define A :: "exec_error + string \<Rightarrow> (string \<Rightarrow> SambaInfo \<Rightarrow> SambaInfo) \<Rightarrow> SambaInfo \<Rightarrow> SambaInfo"
    where "A r f s = (case r of Inl e \<Rightarrow> s | Inr v \<Rightarrow> f v s)" for r f s
  have A: "run_on h (if_read p f s) = A (run_on h p) f s" for p f s by (simp add: run_on_if_read A_def)
  have kept: "g (A r (\<lambda>v. sb_Package_update (\<lambda>_. v)) s) = g s" "g (A r (\<lambda>v. sb_PackageBuildOptions_update (\<lambda>_. Some (parsePackageOptions v))) s) = g s"
    "g (A r (\<lambda>v. sb_Sessions_update (\<lambda>_. countDataLines v)) s) = g s" "g (A r (\<lambda>v. sb_OpenFiles_update (\<lambda>_. countDataLines v)) s) = g s"
    "g (A r (with_config order) s) = (case r of Inl e \<Rightarrow> g s | Inr c \<Rightarrow> field c)" for r s
    by (cases r; simp add: A_def keep config)+
  have "TrimSpace version \<noteq> []" using assms(1) Inr by (auto simp: Samba_def run_on_bind)
  then show ?thesis using assms(1) Inr
    unfolding Samba_def run_on_bind by (auto simp: run_on_bind A kept keep split: sum.splits)
qed

lemma Samba_config:
  assumes "run_on h (Samba order) = Inr info"
  shows "sb_EffectiveConfig info = [] \<or> (\<exists>config. sb_EffectiveConfig info = redactSambaConfig config)"
  using Samba_field [OF assms, of sb_EffectiveConfig redactSambaConfig]
  by (auto simp: with_config_def Let_def initial_samba_def zero_SambaInfo_def split: sum.splits)


definition sample_host :: host where
  "sample_host path args =
     (\<lparr>cr_stdout = (if path = ''/usr/local/sbin/smbd'' then ''Version 4.23.8''
        else if path = ''/usr/local/bin/testparm'' then ''[global]'' @ [newline] @ '' Ldap Admin DN = cn=admin'' @ [newline] @ ''[dados]'' else []),
       cr_stderr = [], cr_exitCode = 0\<rparr>, None)"


end
