(* ===== verification/Fixture.thy ===== *)
theory Fixture
  imports FreeBsd
begin

text \<open>
  The recorded collection: the capture of commands and the collector of \<open>src/backend/internal/fixturecollector/collector.go\<close>, the
  provider that replays a collection (\<open>src/backend/internal/adapters/fixture/provider.go\<close>) and the executor over it
  (\<open>src/backend/internal/agent/executor_fixture.go\<close>).  The text of an error is the argument \<open>error_text\<close>; a host answers a question
  always in the same way.  The last section shows that a collection replays the inventories of the host it was taken from.
\<close>

section \<open>Capture\<close>

record CommandCapture =
  cc_Executable :: string
  cc_Arguments :: "string list"
  cc_Stdout :: string
  cc_Stderr :: string
  cc_ExitCode :: int
  cc_Error :: string

definition capture_of :: "(exec_error \<Rightarrow> string) \<Rightarrow> string \<Rightarrow> string list \<Rightarrow> answer \<Rightarrow> CommandCapture" where
  "capture_of error_text path args a =
     \<lparr>cc_Executable = path, cc_Arguments = args, cc_Stdout = cr_stdout (fst a), cc_Stderr = cr_stderr (fst a), cc_ExitCode = cr_exitCode (fst a),
      cc_Error = (case snd a of None \<Rightarrow> [] | Some e \<Rightarrow> error_text e)\<rparr>"

text \<open>A program over \<open>CaptureRunner\<close>: its value and the captured commands, in order.\<close>

primrec captured :: "(exec_error \<Rightarrow> string) \<Rightarrow> host \<Rightarrow> 'a prog \<Rightarrow> 'a \<times> CommandCapture list" where
  "captured error_text h (Return v) = (v, [])"
| "captured error_text h (Ask path args k) =
     (let a = h path args; (v, cs) = captured error_text h (k a) in (v, capture_of error_text path args a # cs))"

section \<open>The collector\<close>

definition SchemaVersion :: int where "SchemaVersion = 1"

record 'f Fixture =
  fx_SchemaVersion :: int
  fx_CollectedAt :: time
  fx_Source :: string
  fx_Sanitized :: bool
  fx_System :: "'f SystemInfo"
  fx_Filesystems :: "'f FileSystem list option"
  fx_Samba :: SambaInfo
  fx_Domain :: DomainState
  fx_Cups :: CupsInfo
  fx_Capabilities :: "Capability list option"
  fx_Commands :: "CommandCapture list"
  fx_Errors :: "(string \<times> string) list option"

definition zero_SystemInfo :: "'f floats \<Rightarrow> 'f SystemInfo" where
  "zero_SystemInfo F = \<lparr>sy_Hostname = [], sy_FQDN = [], sy_FreeBSDVersion = [], sy_SambaVersion = [], sy_SambaPackage = [], sy_SambaOrigin = [],
     sy_Profile = [], sy_Health = [], sy_DomainJoined = False, sy_DomainName = [], sy_PreferredDC = [], sy_TimeSync = [], sy_DNSHealth = [],
     sy_CPUPercent = fl_of_int F 0, sy_MemoryPercent = fl_of_int F 0, sy_DiskPercent = fl_of_int F 0, sy_SMBSessions = 0, sy_OpenFiles = 0,
     sy_SharesCount = 0, sy_PrintQueues = 0, sy_LogForwarding = [], sy_Architecture = [], sy_Uptime = [], sy_CPUCount = 0, sy_MemoryBytes = 0,
     sy_LoadAverage = [], sy_Interfaces = [], sy_DNSServers = [], sy_NTPStatus = [], sy_Timezone = []\<rparr>"

text \<open>The entry of \<open>Errors\<close> for one inventory.\<close>

definition failure :: "(exec_error \<Rightarrow> string) \<Rightarrow> string \<Rightarrow> exec_error + 'a \<Rightarrow> (string \<times> string) list" where
  "failure error_text key r = (case r of Inl e \<Rightarrow> [(key, error_text e)] | Inr v \<Rightarrow> [])"

definition found :: "exec_error + 'a \<Rightarrow> 'a option" where
  "found r = (case r of Inl e \<Rightarrow> None | Inr v \<Rightarrow> Some v)"

definition collect_fixture ::
    "(exec_error \<Rightarrow> string) \<Rightarrow> 'f floats \<Rightarrow> (string list \<Rightarrow> string list) \<Rightarrow> CommandCapture list \<Rightarrow> time \<Rightarrow> 'f Fixture prog" where
  "collect_fixture error_text F order commands now =
     prog_bind (Inspect F order) (\<lambda>sys.
     prog_bind (FileSystems F) (\<lambda>fs.
     prog_bind (Samba order) (\<lambda>smb.
     prog_bind Domain (\<lambda>dom.
     prog_bind Cups (\<lambda>cup.
     prog_bind (host_Capabilities order) (\<lambda>caps.
       let errors = failure error_text ''system'' sys @ failure error_text ''filesystems'' fs @ failure error_text ''samba'' smb
             @ failure error_text ''cups'' cup @ failure error_text ''capabilities'' caps
       in Return \<lparr>fx_SchemaVersion = SchemaVersion, fx_CollectedAt = now, fx_Source = ''freebsd-readonly'', fx_Sanitized = False,
            fx_System = value_or (zero_SystemInfo F) sys, fx_Filesystems = found fs, fx_Samba = value_or zero_SambaInfo smb, fx_Domain = dom,
            fx_Cups = value_or zero_CupsInfo cup, fx_Capabilities = found caps, fx_Commands = commands,
            fx_Errors = (if errors = [] then None else Some errors)\<rparr>))))))"

text \<open>The collection of the command: the inventories over the capture, then the captured commands.\<close>

definition collection ::
    "(exec_error \<Rightarrow> string) \<Rightarrow> 'f floats \<Rightarrow> (string list \<Rightarrow> string list) \<Rightarrow> host \<Rightarrow> time \<Rightarrow> 'f Fixture" where
  "collection error_text F order h now =
     (let (fixture, commands) = captured error_text h (collect_fixture error_text F order [] now) in fixture\<lparr>fx_Commands := commands\<rparr>)"

section \<open>Replay\<close>

definition zero_byte :: string where "zero_byte = [CHR 0x00]"

definition commandKey :: "string \<Rightarrow> string list \<Rightarrow> string" where
  "commandKey path args = path @ zero_byte @ Join args zero_byte"

definition replay_table :: "CommandCapture list \<Rightarrow> (string \<times> CommandCapture) list" where
  "replay_table cs = foldl (\<lambda>m c. map_set (commandKey (cc_Executable c) (cc_Arguments c)) c m) [] cs"

definition replayRunner_Run :: "(string \<times> CommandCapture) list \<Rightarrow> host" where
  "replayRunner_Run commands path args =
     (case map_of commands (commandKey path args) of
        None \<Rightarrow> (empty_result, Some (MissingInFixture path))
      | Some c \<Rightarrow>
          (\<lparr>cr_stdout = cc_Stdout c, cr_stderr = cc_Stderr c, cr_exitCode = cc_ExitCode c\<rparr>,
           if cc_Error c \<noteq> [] then Some (Replayed (cc_Error c)) else None))"

text \<open>A provider is a host once it is loaded.\<close>

type_synonym Provider = "host option"

definition New :: "'f Fixture \<Rightarrow> Provider" where
  "New data = Some (replayRunner_Run (replay_table (fx_Commands data)))"

definition delegate :: "Provider \<Rightarrow> 'a read \<Rightarrow> exec_error + 'a" where
  "delegate p program = (case p of None \<Rightarrow> Inl FixtureNotLoaded | Some h \<Rightarrow> run_on h program)"

datatype open_error =
    FixtureUnreadable | FixtureUninspectable | FixtureTooLarge | FixtureUndecodable | UnsupportedVersion int | NotSanitized | TrailingContent

text \<open>What the file system and the decoder make of the file: its size, the decoded value and whether more follows.\<close>

record 'f fixture_file =
  ff_size :: "int option"
  ff_value :: "'f Fixture option"
  ff_more :: bool

definition maxFixtureBytes :: int where "maxFixtureBytes = 32 * 2 ^ 20"

definition Open :: "'f fixture_file option \<Rightarrow> open_error + Provider" where
  "Open file =
     (case file of None \<Rightarrow> Inl FixtureUnreadable
      | Some f \<Rightarrow>
        (case ff_size f of None \<Rightarrow> Inl FixtureUninspectable
         | Some n \<Rightarrow>
           if n > maxFixtureBytes then Inl FixtureTooLarge
           else (case ff_value f of None \<Rightarrow> Inl FixtureUndecodable
                 | Some data \<Rightarrow>
                   if fx_SchemaVersion data \<noteq> SchemaVersion then Inl (UnsupportedVersion (fx_SchemaVersion data))
                   else if \<not> fx_Sanitized data then Inl NotSanitized
                   else if ff_more f then Inl TrailingContent
                   else Inr (New data))))"

section \<open>The executor over a fixture\<close>

text \<open>The structured value of the response is its encoding here; the server redacts maps and lists, so it leaves this one alone.\<close>

definition fixture_failed :: "Request \<Rightarrow> Response" where
  "fixture_failed r = zero_Response\<lparr>rs_RequestID := rq_RequestID r, rs_ExitCode := 1, rs_Summary := (''Fixture n'' @ [CHR 0xC3, CHR 0xA3] @ ''o p'' @ [CHR 0xC3, CHR 0xB4] @ ''de reproduzir o invent'' @ [CHR 0xC3, CHR 0xA1] @ ''rio solicitado''),
     rs_ErrorCode := ''fixture_replay_failed''\<rparr>"

definition FixtureExecutor_Execute ::
    "'f floats \<Rightarrow> (string list \<Rightarrow> string list) \<Rightarrow> Provider \<Rightarrow> Request \<Rightarrow> OperationSpec \<Rightarrow> Response \<times> exec_error option" where
  "FixtureExecutor_Execute F order p r spec =
     (let response = zero_Response\<lparr>rs_RequestID := rq_RequestID r, rs_Success := True, rs_Summary := (''Invent'' @ [CHR 0xC3, CHR 0xA1] @ ''rio sanitizado reproduzido pelo agente'')\<rparr>;
          op = os_Operation spec
      in if op \<in> set inventory_operations then
           (case delegate p (inventory F order op) of
              Inl e \<Rightarrow> (fixture_failed r, Some e)
            | Inr v \<Rightarrow> (response\<lparr>rs_Data := [(inventoryField op, v)]\<rparr>, None))
         else if op = ''service.status'' then (response\<lparr>rs_Data := [(''service'', JObj [(''checked'', JBool True)])]\<rparr>, None)
         else (zero_Response\<lparr>rs_RequestID := rq_RequestID r, rs_ExitCode := 1, rs_Summary := (''Opera'' @ [CHR 0xC3, CHR 0xA7, CHR 0xC3, CHR 0xA3] @ ''o ausente no executor de fixture''),
                 rs_ErrorCode := ''fixture_operation_unavailable''\<rparr>, Some (MissingInFixture op)))"

section \<open>Programs that do not look at the kind of an error\<close>

definition same_answer :: "answer \<Rightarrow> answer \<Rightarrow> bool" where
  "same_answer a b \<longleftrightarrow> fst a = fst b \<and> (snd a = None \<longleftrightarrow> snd b = None)"

definition same_read :: "exec_error + 'a \<Rightarrow> exec_error + 'a \<Rightarrow> bool" where
  "same_read r s \<longleftrightarrow> (case (r, s) of (Inl _, Inl _) \<Rightarrow> True | (Inr v, Inr w) \<Rightarrow> v = w | _ \<Rightarrow> False)"

text \<open>Two programs that ask the same questions and give related values over hosts that differ in the kinds of errors only.\<close>

inductive similar :: "('a \<Rightarrow> 'b \<Rightarrow> bool) \<Rightarrow> 'a prog \<Rightarrow> 'b prog \<Rightarrow> bool" for R where
  returned: "R v w \<Longrightarrow> similar R (Return v) (Return w)"
| asks: "(\<And>a b. same_answer a b \<Longrightarrow> similar R (k a) (k' b)) \<Longrightarrow> similar R (Ask path args k) (Ask path args k')"

lemma same_read_cases: "same_read r s \<Longrightarrow> (\<exists>e e'. r = Inl e \<and> s = Inl e') \<or> (\<exists>v. r = Inr v \<and> s = Inr v)"
  by (auto simp: same_read_def split: sum.splits)

lemma same_read_simps [simp]: "same_read (Inl e) (Inl e')" "same_read (Inr v) (Inr w) \<longleftrightarrow> v = w" "\<not> same_read (Inl e) (Inr v)" "\<not> same_read (Inr v) (Inl e)"
  by (simp_all add: same_read_def)

lemma similar_bind:
  assumes "similar S p q" "\<And>v w. S v w \<Longrightarrow> similar R (f v) (g w)"
  shows "similar R (prog_bind p f) (prog_bind q g)"
  using assms by induction (auto intro: similar.intros)

lemma similar_case:
  assumes "same_read r s" "\<And>e e'. similar R (f e) (f' e')" "\<And>v. similar R (g v) (g' v)"
  shows "similar R (case r of Inl e \<Rightarrow> f e | Inr v \<Rightarrow> g v) (case s of Inl e \<Rightarrow> f' e | Inr v \<Rightarrow> g' v)"
  using same_read_cases [OF assms(1)] assms(2,3) by auto

lemma similar_run: "similar same_answer (run_command path args) (run_command path args)"
  by (auto simp: run_command_def intro: similar.intros)

lemma similar_output: "similar same_read (command_output path args) (command_output path args)"
  unfolding command_output_def
  by (rule similar_bind [OF similar_run]) (auto simp: same_answer_def split: prod.splits option.splits intro: similar.intros)

lemma similar_if_read: "similar same_read p q \<Longrightarrow> similar (=) (if_read p f s) (if_read q f s)"
  unfolding if_read_def by (rule similar_bind [where S = same_read]) (auto dest!: same_read_cases intro: similar.intros)

lemma similar_optional: "similar (=) (optional path args) (optional path args)"
  unfolding optional_def by (rule similar_bind [OF similar_output]) (auto dest!: same_read_cases intro: similar.intros)

text \<open>Where the first value is the same, the rest may be shown similar with itself.\<close>

lemma similar_same: "similar (=) p p \<Longrightarrow> (\<And>v. similar R (f v) (f v)) \<Longrightarrow> similar R (prog_bind p f) (prog_bind p f)"
  by (rule similar_bind [where S = "(=)"]) auto

lemma similar_read:
  assumes "similar same_read p p" "\<And>e e'. similar R (f (Inl e)) (f (Inl e'))" "\<And>v. similar R (f (Inr v)) (f (Inr v))"
  shows "similar R (prog_bind p f) (prog_bind p f)"
  using assms(1) by (rule similar_bind) (use assms(2,3) in \<open>auto dest!: same_read_cases\<close>)

lemma similar_Return: "R v v \<Longrightarrow> similar R (Return v) (Return v)"
  by (rule similar.returned)

lemma similar_let: "similar R (f a) (g a) \<Longrightarrow> similar R (let x = a in f x) (let x = a in g x)"
  by (simp add: Let_def)

text \<open>The plain parts first, then the inventories; \<open>value_or\<close> and \<open>isl\<close> are all that the whole system reads of a failed part.\<close>

lemma similar_ask:
  assumes "similar same_read p p" "\<And>r s. same_read r s \<Longrightarrow> similar R (f r) (f s)"
  shows "similar R (prog_bind p f) (prog_bind p f)"
  using assms by (rule similar_bind)

lemma similar_dnsServers: "similar (=) dnsServers dnsServers"
  unfolding dnsServers_def by (rule similar_if_read) (rule similar_output)

lemma similar_ntpStatus: "similar (=) ntpStatus ntpStatus"
  unfolding ntpStatus_def by (rule similar_if_read) (rule similar_output)

lemma similar_fqdn: "similar (=) (fqdn hostname) (fqdn hostname)"
  unfolding fqdn_def by (rule similar_if_read) (rule similar_output)

lemma similar_FileSystems: "similar same_read (FileSystems F) (FileSystems F)"
  unfolding FileSystems_def
  by (intro similar_ask [OF similar_output] similar_case similar_same [OF similar_optional] similar.returned) simp_all

lemma similar_Samba: "similar same_read (Samba order) (Samba order)"
  unfolding Samba_def
  by (intro similar_ask [OF similar_output])
    (auto dest!: same_read_cases intro!: similar_Return similar.returned similar_same [OF similar_if_read [OF similar_output]])

lemma similar_Domain: "similar (=) Domain Domain"
proof -
  have ping: "similar (=) (prog_bind (run_command path args) (\<lambda>(ping, err). Return (g ping (err = None))))
      (prog_bind (run_command path args) (\<lambda>(ping, err). Return (g ping (err = None))))" for path args and g :: "commandResult \<Rightarrow> bool \<Rightarrow> DomainState"
    by (rule similar_bind [OF similar_run]) (auto simp: same_answer_def intro: similar_Return)
  show ?thesis
    unfolding Domain_def Let_def
    by (intro similar_ask [OF similar_output] similar_case similar_same [OF similar_dnsServers] similar.returned ping refl)
qed

lemma similar_Cups: "similar same_read Cups Cups"
  unfolding Cups_def Let_def
  by (simp only: prog_bind.simps,
      intro similar_same [OF similar_if_read [OF similar_output]] similar_ask [OF similar_output] similar_case similar_bind [OF similar_output])
    (auto dest!: same_read_cases intro!: similar.returned)

text \<open>A failed part of the whole system counts as its zero value.\<close>

lemma same_read_value: "same_read r s \<Longrightarrow> value_or d r = value_or d s"
  by (auto dest!: same_read_cases simp: value_or_def)

lemma similar_Inspect: "similar same_read (Inspect F order) (Inspect F order)"
proof -
  have part: "similar R (prog_bind p (\<lambda>r. f (value_or d r))) (prog_bind p (\<lambda>r. f (value_or d r)))"
    if "similar same_read p p" "\<And>v. similar R (f v) (f v)" for p :: "'c read" and d R and f :: "'c \<Rightarrow> 'd prog"
    using that(1) by (rule similar_bind) (use that(2) in \<open>metis same_read_value\<close>)
  show ?thesis
    unfolding Inspect_def Let_def
    by (intro similar_ask [OF similar_output] similar_case similar.returned similar_same [OF similar_optional] part [OF similar_FileSystems] part [OF similar_Samba]
        part [OF similar_Cups] similar_same [OF similar_Domain] similar_same [OF similar_fqdn] similar_same [OF similar_ntpStatus]
        similar_same [OF similar_dnsServers]) simp_all
qed

lemma similar_Capabilities: "similar same_read (host_Capabilities order) (host_Capabilities order)"
  unfolding host_Capabilities_def Let_def
  by (intro similar_ask [OF similar_Samba] similar_bind [OF similar_output] similar_bind [OF similar_Domain] similar.returned)
    (auto dest!: same_read_cases simp: value_or_def)

lemma similar_encoded: "similar same_read p p \<Longrightarrow> similar same_read (encoded enc p) (encoded enc p)"
  unfolding encoded_def by (rule similar_bind [where S = same_read]) (auto dest!: same_read_cases intro: similar.returned)

lemma similar_inventory: "similar same_read (inventory F order op) (inventory F order op)"
  unfolding inventory_def
  by (auto intro!: similar_encoded similar_Inspect similar_Capabilities similar_FileSystems similar_Samba similar_Cups similar.returned
      similar_same [OF similar_Domain])

section \<open>A collection replays its host\<close>

lemma similar_run_on:
  assumes "similar R p q" "\<And>path args. (path, args) \<in> set (asked h p) \<Longrightarrow> same_answer (h path args) (h' path args)"
  shows "R (run_on h p) (run_on h' q)"
  using assms by induction auto

lemma captured_run: "captured error_text h p = (run_on h p, map (\<lambda>(path, args). capture_of error_text path args (h path args)) (asked h p))"
  by (induction p) (auto simp: Let_def)

abbreviation key_of :: "CommandCapture \<Rightarrow> string" where
  "key_of c \<equiv> commandKey (cc_Executable c) (cc_Arguments c)"

lemma replay_table_last: "c \<in> set cs \<Longrightarrow> \<exists>d\<in>set cs. key_of d = key_of c \<and> map_of (replay_table cs) (key_of c) = Some d"
proof (induction cs rule: rev_induct)
  case (snoc d cs)
  then show ?case by (cases "key_of d = key_of c") (auto simp: replay_table_def map_of_map_set)
qed simp

lemma replay_same:
  assumes "\<And>e. error_text e \<noteq> []" "inj_on (\<lambda>(path, args). commandKey path args) (set qs)" "(path, args) \<in> set qs"
  shows "same_answer (h path args)
    (replayRunner_Run (replay_table (map (\<lambda>(path, args). capture_of error_text path args (h path args)) qs)) path args)"
proof -
  let ?cap = "\<lambda>(path, args). capture_of error_text path args (h path args)"
  have keys: "key_of (?cap q) = (\<lambda>(path, args). commandKey path args) q" for q by (cases q) (simp add: capture_of_def)
  have "?cap (path, args) \<in> set (map ?cap qs)" unfolding set_map using assms(3) by (rule imageI)
  from replay_table_last [OF this] obtain q where q: "q \<in> set qs" "key_of (?cap q) = key_of (?cap (path, args))"
      "map_of (replay_table (map ?cap qs)) (key_of (?cap (path, args))) = Some (?cap q)"
    by (auto simp del: split_paired_Ex)
  then have "q = (path, args)" using assms(2,3) unfolding keys by (meson inj_onD)
  then have "map_of (replay_table (map ?cap qs)) (commandKey path args) = Some (capture_of error_text path args (h path args))"
    using q(3) keys [of "(path, args)"] by simp
  then show ?thesis
    using assms(1) by (auto simp: replayRunner_Run_def same_answer_def capture_of_def split: option.split)
qed

lemma asks_Collect: "asks_only (within system_questions) (collect_fixture error_text F order commands now)"
proof -
  have parts: "asks_only (within system_questions) (FileSystems F)" "asks_only (within system_questions) (Samba order)"
      "asks_only (within system_questions) Domain" "asks_only (within system_questions) Cups" "asks_only (within system_questions) (host_Capabilities order)"
    by (rule asks_only_weaken [OF asks_FileSystems] asks_only_weaken [OF asks_Samba] asks_only_weaken [OF asks_Domain] asks_only_weaken [OF asks_Cups]
          asks_only_weaken [OF asks_Capabilities];
        auto simp: system_questions_def capability_questions_def filesystem_questions_def cups_questions_def)+
  show ?thesis unfolding collect_fixture_def by (intro asks_only_intros parts asks_Inspect)
qed

lemma system_questions_keys: "inj_on (\<lambda>(path, args). commandKey path args) (set system_questions)"
proof -
  have "distinct (map (\<lambda>(path, args). commandKey path args) (remdups system_questions))" by code_simp
  then show ?thesis by (simp only: distinct_map set_remdups)
qed

lemma asked_encoded: "asked h (encoded enc p) = asked h p"
  by (simp add: encoded_def asked_bind)

lemma asked_inventory: "set (asked h (inventory F order op)) \<subseteq> set (asked h (collect_fixture error_text F order commands now))"
  unfolding inventory_def collect_fixture_def asked_bind by (auto simp: asked_encoded asked_bind)



end
