(* ===== verification/Listener.thy ===== *)
theory Listener
  imports Configuration
begin

text \<open>
  The agent's Unix socket (\<open>src/backend/internal/agent/listener.go\<close>), the credentials of its peers (\<open>peer.go\<close> and the
  \<open>peer_*.go\<close> of each platform) and the start of the agent process (\<open>src/backend/cmd/samba-admin-agent/main.go\<close>).  Code that calls the
  operating system is a program of type \<open>io\<close> that makes one call at a time; a host answers each call from a state of its own,
  which anything else on the machine may have changed since the last call, so that what is proved of the calls made holds
  whatever else runs.  Account names are resolved by the host.
\<close>

unbundle bit_operations_syntax

section \<open>Calls to the operating system\<close>

datatype os_error = NotExist | OsFailure string

type_synonym file_mode = "32 word"

definition ModeDir :: file_mode where "ModeDir = 0x80000000"

definition ModeSymlink :: file_mode where "ModeSymlink = 0x08000000"

definition ModeSocket :: file_mode where "ModeSocket = 0x01000000"

definition ModeSetgid :: file_mode where "ModeSetgid = 0x00400000"

datatype action =
    Umask file_mode | MkdirAll string file_mode | Chown string int int | Chmod string file_mode
  | ListenUnix string | CloseListener string | Remove string

text \<open>A program: an action that may fail, the inspection of a path without following links, the numeric identifier of a user
  (\<open>True\<close>) or of a group.\<close>

datatype 'a io =
    Done 'a
  | Act action "os_error option \<Rightarrow> 'a io"
  | Lstat string "os_error + file_mode \<Rightarrow> 'a io"
  | Lookup bool string "os_error + string \<Rightarrow> 'a io"

primrec io_bind :: "'a io \<Rightarrow> ('a \<Rightarrow> 'b io) \<Rightarrow> 'b io" where
  "io_bind (Done v) f = f v"
| "io_bind (Act a k) f = Act a (\<lambda>r. io_bind (k r) f)"
| "io_bind (Lstat p k) f = Lstat p (\<lambda>r. io_bind (k r) f)"
| "io_bind (Lookup u n k) f = Lookup u n (\<lambda>r. io_bind (k r) f)"

text \<open>A step whose failure, wrapped, is the failure of the whole.\<close>

definition io_step :: "('e \<Rightarrow> 'e') \<Rightarrow> ('e + 'a) io \<Rightarrow> ('a \<Rightarrow> ('e' + 'b) io) \<Rightarrow> ('e' + 'b) io" where
  "io_step wrap p f = io_bind p (\<lambda>r. case r of Inl e \<Rightarrow> Done (Inl (wrap e)) | Inr v \<Rightarrow> f v)"

abbreviation io_try :: "('e + 'a) io \<Rightarrow> ('a \<Rightarrow> ('e + 'b) io) \<Rightarrow> ('e + 'b) io" where
  "io_try \<equiv> io_step (\<lambda>e. e)"

record 's host_os =
  os_act :: "'s \<Rightarrow> action \<Rightarrow> os_error option \<times> 's"
  os_lstat :: "'s \<Rightarrow> string \<Rightarrow> (os_error + file_mode) \<times> 's"
  os_lookup :: "'s \<Rightarrow> bool \<Rightarrow> string \<Rightarrow> (os_error + string) \<times> 's"

datatype event = Did action "os_error option" | Saw string "os_error + file_mode" | Resolved bool string

primrec run_io :: "'s host_os \<Rightarrow> 's \<Rightarrow> 'a io \<Rightarrow> 'a \<times> event list \<times> 's" where
  "run_io h s (Done v) = (v, [], s)"
| "run_io h s (Act a k) = (let (r, s1) = os_act h s a; (v, t, s2) = run_io h s1 (k r) in (v, Did a r # t, s2))"
| "run_io h s (Lstat p k) = (let (r, s1) = os_lstat h s p; (v, t, s2) = run_io h s1 (k r) in (v, Saw p r # t, s2))"
| "run_io h s (Lookup u n k) = (let (r, s1) = os_lookup h s u n; (v, t, s2) = run_io h s1 (k r) in (v, Resolved u n # t, s2))"

section \<open>Socket options\<close>

record SocketOptions =
  sk_Mode :: file_mode
  sk_Owner :: string
  sk_Group :: string
  sk_ExpectedPeerUID :: int
  sk_EnforcePeerCredentials :: bool

datatype listen_error =
    DedicatedDirectoryRequired | InvalidDirectory | OpenSocketMode | InvalidPeerUID | InvalidSocketPath | PeerCheckUnsupported
  | NotASocket | System os_error | OwnerFailed os_error | UnknownAccount bool string os_error | InvalidAccountId bool string

definition normalized :: "SocketOptions \<Rightarrow> listen_error + SocketOptions" where
  "normalized o0 =
     (let o1 = (if sk_Mode o0 = 0 then o0\<lparr>sk_Mode := 0x1B0\<rparr> else o0)
      in if sk_Mode o1 AND NOT 0x1FF \<noteq> 0 \<or> sk_Mode o1 AND 7 \<noteq> 0 \<or> sk_Mode o1 AND 0x180 \<noteq> 0x180 then Inl OpenSocketMode
         else let o2 = (if sk_EnforcePeerCredentials o1 then o1 else o1\<lparr>sk_ExpectedPeerUID := - 1\<rparr>)
              in if sk_ExpectedPeerUID o2 < - 1 \<or> sk_EnforcePeerCredentials o2 \<and> sk_ExpectedPeerUID o2 < 0 then Inl InvalidPeerUID
                 else Inr o2)"

definition resolveID :: "string \<Rightarrow> bool \<Rightarrow> (listen_error + int) io" where
  "resolveID val isUser =
     (let v = TrimSpace val
      in if v = [] then Done (Inr (- 1))
         else let named = Lookup isUser v (\<lambda>r. case r of
                    Inl e \<Rightarrow> Done (Inl (UnknownAccount isUser v e))
                  | Inr n \<Rightarrow> (case ParseInt64 n of
                        None \<Rightarrow> Done (Inl (InvalidAccountId isUser v))
                      | Some i \<Rightarrow> Done (if i < 0 then Inl (InvalidAccountId isUser v) else Inr i)))
              in case ParseInt64 v of
                   Some i \<Rightarrow> if i \<ge> 0 then Done (Inr i) else named
                 | None \<Rightarrow> named)"

definition isSharedSystemDirectory :: "string \<Rightarrow> bool" where
  "isSharedSystemDirectory path \<longleftrightarrow> path \<in> set [''/tmp'', ''/var'', ''/var/run'', ''/run'']"

definition directoryMode :: file_mode where "directoryMode = 0x1E8 OR ModeSetgid"

definition PrepareSocketDirectory :: "string \<Rightarrow> string \<Rightarrow> string \<Rightarrow> (listen_error + unit) io" where
  "PrepareSocketDirectory dir own grp =
     (let clean = Clean dir;
          change = Act (Chmod clean directoryMode) (\<lambda>r. Done (case r of Some e \<Rightarrow> Inl (System e) | None \<Rightarrow> Inr ()))
      in if clean = ''.'' \<or> clean = ''/'' \<or> isSharedSystemDirectory clean then Done (Inl DedicatedDirectoryRequired)
         else Act (MkdirAll clean directoryMode) (\<lambda>made. case made of Some e \<Rightarrow> Done (Inl (System e)) | None \<Rightarrow>
           Lstat clean (\<lambda>info. case info of Inl e \<Rightarrow> Done (Inl (System e)) | Inr mode \<Rightarrow>
             if mode AND ModeSymlink \<noteq> 0 \<or> mode AND ModeDir = 0 then Done (Inl InvalidDirectory)
             else io_try (resolveID own True) (\<lambda>uid.
                  io_try (resolveID grp False) (\<lambda>gid.
                    if uid \<ge> 0 \<or> gid \<ge> 0
                    then Act (Chown clean uid gid) (\<lambda>r. case r of Some e \<Rightarrow> Done (Inl (OwnerFailed e)) | None \<Rightarrow> change)
                    else change)))))"

section \<open>Listening\<close>

definition removeExistingSocket :: "string \<Rightarrow> (listen_error + unit) io" where
  "removeExistingSocket socket =
     Lstat socket (\<lambda>info. case info of
       Inl e \<Rightarrow> Done (if e = NotExist then Inr () else Inl (System e))
     | Inr mode \<Rightarrow>
         if mode AND ModeSocket = 0 then Done (Inl NotASocket)
         else Act (Remove socket) (\<lambda>r. Done (case r of Some e \<Rightarrow> Inl (System e) | None \<Rightarrow> Inr ())))"

record credentialListener =
  cl_socket :: string
  cl_expectedUID :: int

definition closing :: "string \<Rightarrow> (listen_error + 'a) io \<Rightarrow> ('a \<Rightarrow> (listen_error + 'b) io) \<Rightarrow> (listen_error + 'b) io" where
  "closing socket p f =
     io_bind p (\<lambda>r. case r of Inl e \<Rightarrow> Act (CloseListener socket) (\<lambda>_. Done (Inl e)) | Inr v \<Rightarrow> f v)"

definition attempt :: "(os_error \<Rightarrow> listen_error) \<Rightarrow> action \<Rightarrow> (listen_error + unit) io" where
  "attempt wrap a = Act a (\<lambda>r. Done (case r of Some e \<Rightarrow> Inl (wrap e) | None \<Rightarrow> Inr ()))"

definition valid_socket_path :: "string \<Rightarrow> bool" where
  "valid_socket_path socket \<longleftrightarrow> TrimSpace socket \<noteq> [] \<and> (IsAbs socket \<or> HasPrefix socket ''./'' \<or> HasPrefix socket ''../'')"

definition ListenWithOptions :: "bool \<Rightarrow> string \<Rightarrow> SocketOptions \<Rightarrow> (listen_error + credentialListener) io" where
  "ListenWithOptions peerCredentialsAvailable socket options =
     (case normalized options of Inl e \<Rightarrow> Done (Inl e) | Inr opts \<Rightarrow>
        if \<not> valid_socket_path socket then Done (Inl InvalidSocketPath)
        else if sk_ExpectedPeerUID opts \<ge> 0 \<and> \<not> peerCredentialsAvailable then Done (Inl PeerCheckUnsupported)
        else io_try (removeExistingSocket socket) (\<lambda>_.
             io_try (attempt System (ListenUnix socket)) (\<lambda>_.
             closing socket (attempt System (Chmod socket (sk_Mode opts))) (\<lambda>_.
             closing socket (resolveID (sk_Owner opts) True) (\<lambda>uid.
             closing socket (resolveID (sk_Group opts) False) (\<lambda>gid.
             closing socket (if uid \<ge> 0 \<or> gid \<ge> 0 then attempt OwnerFailed (Chown socket uid gid) else Done (Inr ())) (\<lambda>_.
               Done (Inr \<lparr>cl_socket = socket, cl_expectedUID = sk_ExpectedPeerUID opts\<rparr>))))))))"

definition Listen :: "bool \<Rightarrow> string \<Rightarrow> (listen_error + credentialListener) io" where
  "Listen peerCredentialsAvailable socket =
     ListenWithOptions peerCredentialsAvailable socket
       \<lparr>sk_Mode = 0, sk_Owner = [], sk_Group = [], sk_ExpectedPeerUID = - 1, sk_EnforcePeerCredentials = False\<rparr>"

section \<open>Credentials of a peer\<close>

record PeerCredentials =
  pc_UID :: int
  pc_GID :: int

datatype peer_error = ErrPeerCredentialUnsupported | PeerCall string | SoPeerCred string | GetPeerEid int

text \<open>What the system tells of a connection: whether it is a Unix one, the failures of the calls on it, and the credentials the kernel gives.\<close>

record peer_query =
  pq_unix :: bool
  pq_syscallConn :: "string option"
  pq_control :: "string option"
  pq_sockopt :: "string option"
  pq_ucred :: "(32 word \<times> 32 word) option"
  pq_errno :: int

datatype platform = Linux | FreeBsdCgo | FreeBsdNoCgo | OtherPlatform

definition peerCredentialsAvailable :: "platform \<Rightarrow> bool" where
  "peerCredentialsAvailable pf = (case pf of Linux \<Rightarrow> True | FreeBsdCgo \<Rightarrow> True | FreeBsdNoCgo \<Rightarrow> False | OtherPlatform \<Rightarrow> False)"

definition peerCredentials_linux :: "peer_query \<Rightarrow> peer_error + PeerCredentials" where
  "peerCredentials_linux q =
     (if \<not> pq_unix q then Inl ErrPeerCredentialUnsupported
      else case pq_syscallConn q of Some e \<Rightarrow> Inl (PeerCall e) | None \<Rightarrow>
       (case pq_control q of Some e \<Rightarrow> Inl (PeerCall e) | None \<Rightarrow>
         (case pq_sockopt q of Some e \<Rightarrow> Inl (SoPeerCred e) | None \<Rightarrow>
           (case pq_ucred q of None \<Rightarrow> Inl ErrPeerCredentialUnsupported
            | Some (u, g) \<Rightarrow> Inr \<lparr>pc_UID = uint u, pc_GID = uint g\<rparr>))))"

definition peerCredentials_freebsd :: "peer_query \<Rightarrow> peer_error + PeerCredentials" where
  "peerCredentials_freebsd q =
     (if \<not> pq_unix q then Inl ErrPeerCredentialUnsupported
      else case pq_syscallConn q of Some e \<Rightarrow> Inl (PeerCall e) | None \<Rightarrow>
       (case pq_control q of Some e \<Rightarrow> Inl (PeerCall e) | None \<Rightarrow>
         if pq_errno q \<noteq> 0 then Inl (GetPeerEid (pq_errno q))
         else case pq_ucred q of None \<Rightarrow> Inr \<lparr>pc_UID = 0, pc_GID = 0\<rparr> | Some (u, g) \<Rightarrow> Inr \<lparr>pc_UID = uint u, pc_GID = uint g\<rparr>))"

definition peerCredentials :: "platform \<Rightarrow> peer_query \<Rightarrow> peer_error + PeerCredentials" where
  "peerCredentials pf q =
     (case pf of Linux \<Rightarrow> peerCredentials_linux q | FreeBsdCgo \<Rightarrow> peerCredentials_freebsd q
      | FreeBsdNoCgo \<Rightarrow> Inl ErrPeerCredentialUnsupported | OtherPlatform \<Rightarrow> Inl ErrPeerCredentialUnsupported)"

text \<open>
  What arrives at a listener: a failure of the socket's own \<open>Accept\<close> or a connection with what the system tells of its peer.
  \<open>Accept\<close> returns its result, the connections it closed and what is left to arrive, or nothing while it waits.
\<close>

datatype 'c arrival = AcceptFailed string | Incoming 'c peer_query

fun Accept :: "platform \<Rightarrow> int \<Rightarrow> 'c arrival list \<Rightarrow> ((string + 'c) \<times> 'c list \<times> 'c arrival list) option" where
  "Accept pf expected [] = None"
| "Accept pf expected (AcceptFailed e # as) = Some (Inl e, [], as)"
| "Accept pf expected (Incoming c q # as) =
     (if expected < 0 then Some (Inr c, [], as)
      else if (case peerCredentials pf q of Inl e \<Rightarrow> False | Inr p \<Rightarrow> pc_UID p = expected) then Some (Inr c, [], as)
      else case Accept pf expected as of None \<Rightarrow> None | Some (r, closed, rest) \<Rightarrow> Some (r, c # closed, rest))"

section \<open>The agent process\<close>

definition Dir :: "string \<Rightarrow> string" where
  "Dir p = Clean (rev (dropWhile (\<lambda>c. c \<noteq> CHR ''/'') (rev p)))"

definition socket_options :: "Config \<Rightarrow> SocketOptions" where
  "socket_options cfg =
     \<lparr>sk_Mode = cf_AgentSocketMode cfg, sk_Owner = cf_AgentSocketOwner cfg, sk_Group = cf_AgentSocketGroup cfg,
      sk_ExpectedPeerUID = cf_AgentExpectedPeerUID cfg, sk_EnforcePeerCredentials = (cf_AgentExpectedPeerUID cfg \<ge> 0)\<rparr>"

datatype start_error =
    NotConfigured config_error | DirectoryFailed listen_error | NoExecutor | NoServer server_error | NotListening listen_error

record agent_process =
  ap_config :: Config
  ap_executor :: executor_kind
  ap_server :: server
  ap_disk :: disk
  ap_listener :: credentialListener

text \<open>The start of the process, up to the call of \<open>Serve\<close>.\<close>

definition agent_start ::
    "platform \<Rightarrow> (string \<Rightarrow> duration option) \<Rightarrow> string \<Rightarrow> environment \<Rightarrow> (string \<Rightarrow> bool) \<Rightarrow> nonce_env \<Rightarrow> disk
       \<Rightarrow> (start_error + agent_process) io" where
  "agent_start pf parse random env readable nenv d =
     Act (Umask 0x3F) (\<lambda>_.
       case Load parse random env of Inl e \<Rightarrow> Done (Inl (NotConfigured e)) | Inr cfg \<Rightarrow>
         io_step DirectoryFailed (PrepareSocketDirectory (Dir (cf_AgentSocket cfg)) (cf_AgentSocketOwner cfg) (cf_AgentSocketGroup cfg)) (\<lambda>_.
         case buildExecutor readable cfg of None \<Rightarrow> Done (Inl NoExecutor) | Some ex \<Rightarrow>
           (case NewServerWithOptions nenv (agent_options cfg) d of
              (Inl e, d1) \<Rightarrow> Done (Inl (NoServer e))
            | (Inr sv, d1) \<Rightarrow>
                io_step NotListening (ListenWithOptions (peerCredentialsAvailable pf) (cf_AgentSocket cfg) (socket_options cfg)) (\<lambda>ln.
                  Done (Inr \<lparr>ap_config = cfg, ap_executor = ex, ap_server = sv, ap_disk = d1, ap_listener = ln\<rparr>)))))"

section \<open>Lemmas\<close>

lemma run_io_bind:
  "run_io h s (io_bind p f) = (let (v, t1, s1) = run_io h s p; (w, t2, s2) = run_io h s1 (f v) in (w, t1 @ t2, s2))"
  by (induction p arbitrary: s) (auto simp: Let_def split: prod.splits)

lemma run_io_step:
  "run_io h s (io_step wrap p f) =
     (let (r, t1, s1) = run_io h s p
      in case r of Inl e \<Rightarrow> (Inl (wrap e), t1, s1) | Inr v \<Rightarrow> let (w, t2, s2) = run_io h s1 (f v) in (w, t1 @ t2, s2))"
  by (auto simp: io_step_def run_io_bind Let_def split: prod.splits sum.splits)

lemma run_attempt:
  "run_io h s (attempt wrap a) =
     (case os_act h s a of (x, s1) \<Rightarrow> (case x of Some e \<Rightarrow> Inl (wrap e) | None \<Rightarrow> Inr (), [Did a x], s1))"
  by (auto simp: attempt_def split: prod.splits option.splits)

lemma run_closing:
  "run_io h s (closing socket p f) =
     (let (r, t1, s1) = run_io h s p
      in case r of
           Inl e \<Rightarrow> (let (x, s2) = os_act h s1 (CloseListener socket) in (Inl e, t1 @ [Did (CloseListener socket) x], s2))
         | Inr v \<Rightarrow> (let (w, t2, s2) = run_io h s1 (f v) in (w, t1 @ t2, s2)))"
  by (auto simp: closing_def run_io_bind Let_def split: prod.splits sum.splits)

lemmas run_simps = run_io_step run_attempt run_closing Let_def

lemma resolveID_run:
  assumes "run_io h s (resolveID v u) = (r, t, s')"
  shows "t = [] \<or> t = [Resolved u (TrimSpace v)]" "r = Inr i \<Longrightarrow> - 1 \<le> i" "r = Inr i \<Longrightarrow> i < 0 \<Longrightarrow> TrimSpace v = []"
  using assms by (auto simp: resolveID_def Let_def split: if_splits prod.splits sum.splits option.splits)

lemma removeExistingSocket_run:
  assumes "run_io h s (removeExistingSocket socket) = (r, t, s')"
  obtains (kept) x where "t = [Saw socket x]" "x = Inl NotExist \<or> r \<noteq> Inr ()"
    | (removed) m x where "t = [Saw socket (Inr m), Did (Remove socket) x]" "m AND ModeSocket \<noteq> 0" "x = None \<or> r \<noteq> Inr ()"
  using assms by (auto simp: removeExistingSocket_def Let_def split: if_splits prod.splits sum.splits option.splits)

lemma normalized_Inr:
  assumes "normalized o0 = Inr o1"
  shows "sk_Mode o1 AND 7 = 0" "sk_Mode o1 AND NOT 0x1FF = 0" "sk_Mode o1 AND 0x180 = 0x180"
    "sk_Owner o1 = sk_Owner o0" "sk_Group o1 = sk_Group o0"
    "sk_ExpectedPeerUID o1 = (if sk_EnforcePeerCredentials o0 then sk_ExpectedPeerUID o0 else - 1)"
    "sk_EnforcePeerCredentials o0 \<Longrightarrow> 0 \<le> sk_ExpectedPeerUID o1"
  using assms by (auto simp: normalized_def Let_def split: if_splits)

text \<open>The calls that listening on a socket may make.\<close>

fun about_socket :: "string \<Rightarrow> event \<Rightarrow> bool" where
  "about_socket socket (Did (Chmod p m) x) \<longleftrightarrow> p = socket \<and> m AND 7 = 0 \<and> m AND NOT 0x1FF = 0"
| "about_socket socket (Did (Chown p u g) x) \<longleftrightarrow> p = socket"
| "about_socket socket (Did (ListenUnix p) x) \<longleftrightarrow> p = socket"
| "about_socket socket (Did (CloseListener p) x) \<longleftrightarrow> p = socket"
| "about_socket socket (Did (Remove p) x) \<longleftrightarrow> p = socket"
| "about_socket socket (Did (MkdirAll p m) x) \<longleftrightarrow> False"
| "about_socket socket (Did (Umask m) x) \<longleftrightarrow> False"
| "about_socket socket (Saw p x) \<longleftrightarrow> p = socket"
| "about_socket socket (Resolved u v) \<longleftrightarrow> True"

definition is_removal :: "event \<Rightarrow> bool" where
  "is_removal e = (case e of Did (Remove p) x \<Rightarrow> True | _ \<Rightarrow> False)"

definition saw_socket :: "string \<Rightarrow> event list \<Rightarrow> bool" where
  "saw_socket socket t = (case t of Saw p (Inr m) # es \<Rightarrow> p = socket \<and> m AND ModeSocket \<noteq> 0 | _ \<Rightarrow> False)"

definition closed_last :: "string \<Rightarrow> event list \<Rightarrow> bool" where
  "closed_last socket t = (case rev t of Did (CloseListener p) x # es \<Rightarrow> p = socket | _ \<Rightarrow> False)"

definition opened :: "string \<Rightarrow> event list \<Rightarrow> bool" where
  "opened socket t \<longleftrightarrow> Did (ListenUnix socket) None \<in> set t"

text \<open>The part of \<open>ListenWithOptions\<close> after the socket is bound.\<close>

definition secured :: "string \<Rightarrow> SocketOptions \<Rightarrow> (listen_error + credentialListener) io" where
  "secured socket opts =
     closing socket (attempt System (Chmod socket (sk_Mode opts))) (\<lambda>_.
     closing socket (resolveID (sk_Owner opts) True) (\<lambda>uid.
     closing socket (resolveID (sk_Group opts) False) (\<lambda>gid.
     closing socket (if uid \<ge> 0 \<or> gid \<ge> 0 then attempt OwnerFailed (Chown socket uid gid) else Done (Inr ())) (\<lambda>_.
       Done (Inr \<lparr>cl_socket = socket, cl_expectedUID = sk_ExpectedPeerUID opts\<rparr>)))))"

lemma secured_run:
  assumes "run_io h s (secured socket opts) = (r, t, s')"
    and "sk_Mode opts AND 7 = 0" "sk_Mode opts AND NOT 0x1FF = 0"
  shows "list_all (about_socket socket) t" "list_all (\<lambda>e. \<not> is_removal e) t"
    "(\<exists>e. r = Inl e \<and> closed_last socket t) \<or>
     r = Inr \<lparr>cl_socket = socket, cl_expectedUID = sk_ExpectedPeerUID opts\<rparr> \<and>
       (\<exists>t'. t = Did (Chmod socket (sk_Mode opts)) None # t' \<and> list_all (\<lambda>e. \<forall>x. e \<noteq> Did (CloseListener socket) x) t')"
  using assms
  by (auto simp: secured_def run_simps is_removal_def closed_last_def split: if_splits prod.splits sum.splits option.splits
      dest!: resolveID_run(1))

lemma opened_append [simp]: "opened socket (a @ b) \<longleftrightarrow> opened socket a \<or> opened socket b"
  by (auto simp: opened_def)

lemma closed_last_append: "closed_last socket b \<Longrightarrow> closed_last socket (a @ b)"
  by (cases b rule: rev_cases) (auto simp: closed_last_def)

lemma ListenWithOptions_run:
  assumes "run_io h s (ListenWithOptions avail socket options) = (r, t, s')"
  obtains (refused) e where "r = Inl e" "t = []" 
    | (not_bound) e where "r = Inl e" "list_all (about_socket socket) t" "\<not> opened socket t" "list_ex is_removal t \<Longrightarrow> saw_socket socket t"
    | (bound) opts s1 t1 t2 where "normalized options = Inr opts" "sk_ExpectedPeerUID opts < 0 \<or> avail"
        "run_io h s1 (secured socket opts) = (r, t2, s')" "t = t1 @ Did (ListenUnix socket) None # t2"
        "list_all (about_socket socket) t1" "\<not> opened socket t1" "list_ex is_removal t1 \<Longrightarrow> saw_socket socket t1" "t1 \<noteq> []"
proof (cases "normalized options")
  case (Inl e)
  then show ?thesis using assms refused by (auto simp: ListenWithOptions_def)
next
  case (Inr opts)
  show ?thesis
  proof (cases "valid_socket_path socket \<and> \<not> (sk_ExpectedPeerUID opts \<ge> 0 \<and> \<not> avail)")
    case False
    then show ?thesis using assms refused Inr by (auto simp: ListenWithOptions_def split: if_splits)
  next
    case True
    let ?rest = "\<lambda>_. io_try (attempt System (ListenUnix socket)) (\<lambda>_. secured socket opts)"
    have run: "run_io h s (io_try (removeExistingSocket socket) ?rest) = (r, t, s')"
      using assms True Inr by (auto simp: ListenWithOptions_def secured_def)
    obtain r1 t1 s1 where first: "run_io h s (removeExistingSocket socket) = (r1, t1, s1)" by (metis prod_cases3)
    have t1: "list_all (about_socket socket) t1" "\<not> opened socket t1" "list_ex is_removal t1 \<Longrightarrow> saw_socket socket t1" "t1 \<noteq> []"
      by (cases rule: removeExistingSocket_run [OF first]; auto simp: is_removal_def saw_socket_def opened_def)+
    show ?thesis
    proof (cases r1)
      case (Inl e)
      then show ?thesis using run first t1 not_bound by (auto simp: run_io_step)
    next
      case (Inr u)
      obtain x s2 where bind: "os_act h s1 (ListenUnix socket) = (x, s2)" by fastforce
      show ?thesis
      proof (cases x)
        case None
        obtain r2 t2 s3 where "run_io h s2 (secured socket opts) = (r2, t2, s3)" by (metis prod_cases3)
        then show ?thesis
          using run first t1 bound [of opts s2 t2 t1] True Inr \<open>normalized options = Inr opts\<close> bind None by (auto simp: run_simps)
      next
        case (Some e)
        then show ?thesis using run first t1 not_bound [of "System e"] Inr bind
          by (cases t1) (auto simp: run_simps opened_def is_removal_def saw_socket_def)
      qed
    qed
  qed
qed

text \<open>
  C32. The socket the agent listens on is private, whatever else runs on the machine: every call concerns the path of the
  socket and gives no access to others; something is removed only if it was just seen to be a socket; on success the mode was
  restricted right after the socket was bound and the listener expects the configured user wherever the options
  demand credentials; and on every failure after the socket was bound it is closed again.
\<close>

theorem listening_socket_is_private:
  assumes "run_io h s (ListenWithOptions avail socket options) = (r, t, s')"
  shows "list_all (about_socket socket) t \<and> (list_ex is_removal t \<longrightarrow> saw_socket socket t) \<and>
     (case r of
        Inl e \<Rightarrow> opened socket t \<longrightarrow> closed_last socket t
      | Inr ln \<Rightarrow> (\<exists>t1 m t2. t = t1 @ Did (ListenUnix socket) None # Did (Chmod socket m) None # t2 \<and> m AND 7 = 0) \<and> cl_socket ln = socket \<and>
          (if sk_EnforcePeerCredentials options then cl_expectedUID ln = sk_ExpectedPeerUID options \<and> 0 \<le> cl_expectedUID ln \<and> avail
           else cl_expectedUID ln = - 1))"
  using assms
proof (cases rule: ListenWithOptions_run)
  case refused
  then show ?thesis by (auto simp: opened_def)
next
  case (not_bound e)
  then show ?thesis by auto
next
  case (bound opts s1 t1 t2)
  note n = normalized_Inr [OF bound(1)] and sec = secured_run [OF bound(3) normalized_Inr(1,2) [OF bound(1)]]
  have "list_ex is_removal t \<longrightarrow> saw_socket socket t"
    using bound(4,7,8) sec(2) by (cases t1) (auto simp: saw_socket_def is_removal_def list_ex_iff list_all_iff)
  moreover have "list_all (about_socket socket) t" using bound(4,5) sec(1) by auto
  moreover from sec(3) have "case r of
        Inl e \<Rightarrow> opened socket t \<longrightarrow> closed_last socket t
      | Inr ln \<Rightarrow> (\<exists>t1 m t2. t = t1 @ Did (ListenUnix socket) None # Did (Chmod socket m) None # t2 \<and> m AND 7 = 0) \<and> cl_socket ln = socket \<and>
          (if sk_EnforcePeerCredentials options then cl_expectedUID ln = sk_ExpectedPeerUID options \<and> 0 \<le> cl_expectedUID ln \<and> avail
           else cl_expectedUID ln = - 1)"
  proof
    assume "\<exists>e. r = Inl e \<and> closed_last socket t2"
    then show ?thesis using bound(4) closed_last_append [of socket t2 "t1 @ [Did (ListenUnix socket) None]"] by auto
  next
    assume ok: "r = Inr \<lparr>cl_socket = socket, cl_expectedUID = sk_ExpectedPeerUID opts\<rparr> \<and>
       (\<exists>t'. t2 = Did (Chmod socket (sk_Mode opts)) None # t' \<and> list_all (\<lambda>e. \<forall>x. e \<noteq> Did (CloseListener socket) x) t')"
    then show ?thesis using bound(2,4) n by auto
  qed
  ultimately show ?thesis by blast
qed

section \<open>Accepted peers\<close>

text \<open>What \<open>Accept\<close> passes over: connections of somebody else.\<close>

fun accepted :: "platform \<Rightarrow> int \<Rightarrow> 'c arrival \<Rightarrow> bool" where
  "accepted pf expected (AcceptFailed e) \<longleftrightarrow> True"
| "accepted pf expected (Incoming c q) \<longleftrightarrow>
     expected < 0 \<or> (case peerCredentials pf q of Inl e \<Rightarrow> False | Inr p \<Rightarrow> pc_UID p = expected)"

fun result_of :: "'c arrival \<Rightarrow> string + 'c" where
  "result_of (AcceptFailed e) = Inl e"
| "result_of (Incoming c q) = Inr c"

definition connections :: "'c arrival list \<Rightarrow> 'c list" where
  "connections as = concat (map (\<lambda>a. case a of AcceptFailed e \<Rightarrow> [] | Incoming c q \<Rightarrow> [c]) as)"

lemma dropWhile_head: "dropWhile P as = a # rest \<Longrightarrow> a \<in> set as \<and> \<not> P a"
  by (metis hd_dropWhile list.distinct(1) list.sel(1) list.set_intros(1) set_dropWhileD)

text \<open>
  \<open>Accept\<close> returns as soon as, and only if, something acceptable arrives: the first arrival that is a failure of the
  socket or a connection whose peer has the expected user; it has closed exactly the connections before it and leaves
  what came after it.
\<close>

theorem Accept_returns_first_acceptable:
  "Accept pf expected as =
     (case dropWhile (\<lambda>a. \<not> accepted pf expected a) as of
        [] \<Rightarrow> None
      | a # rest \<Rightarrow> Some (result_of a, connections (takeWhile (\<lambda>a. \<not> accepted pf expected a) as), rest))"
  by (induction pf expected as rule: Accept.induct)
    (auto simp: connections_def split: list.splits sum.splits option.splits dest: dropWhile_head)

lemma Accept_peer:
  assumes "Accept pf expected as = Some (Inr c, closed, rest)" "0 \<le> expected"
  shows "\<exists>q p. Incoming c q \<in> set as \<and> peerCredentials pf q = Inr p \<and> pc_UID p = expected"
  using assms
  by (induction pf expected as arbitrary: closed rule: Accept.induct) (force split: if_splits sum.splits option.splits prod.splits)+

lemma Dir_append: "c = CHR ''/'' \<Longrightarrow> c \<notin> set b \<Longrightarrow> Dir (a @ c # b) = Clean (a @ [c])"
  by (simp add: Dir_def dropWhile_append)

section \<open>The start of the agent\<close>

lemma loaded_options_normalized:
  assumes "validateAgentConfig cfg = None"
  shows "normalized (socket_options cfg) = Inr (socket_options cfg)"
proof -
  have "cf_AgentSocketMode cfg AND NOT 0x1FF = 0" "cf_AgentSocketMode cfg AND 7 = 0" "cf_AgentSocketMode cfg AND 0x180 = 0x180"
    "- 1 \<le> cf_AgentExpectedPeerUID cfg"
    using assms by (auto simp: validateAgentConfig_def split: if_splits)
  moreover from this(3) have "cf_AgentSocketMode cfg \<noteq> 0" by auto
  ultimately show ?thesis by (auto simp: normalized_def socket_options_def Let_def)
qed

text \<open>The calls that preparing a directory may make, and what it must have seen before it changes the directory.\<close>

fun about_directory :: "string \<Rightarrow> event \<Rightarrow> bool" where
  "about_directory dir (Did (MkdirAll p m) x) \<longleftrightarrow> p = dir \<and> m = directoryMode"
| "about_directory dir (Did (Chmod p m) x) \<longleftrightarrow> p = dir \<and> m = directoryMode"
| "about_directory dir (Did (Chown p u g) x) \<longleftrightarrow> p = dir"
| "about_directory dir (Did (ListenUnix p) x) \<longleftrightarrow> False"
| "about_directory dir (Did (CloseListener p) x) \<longleftrightarrow> False"
| "about_directory dir (Did (Remove p) x) \<longleftrightarrow> False"
| "about_directory dir (Did (Umask m) x) \<longleftrightarrow> False"
| "about_directory dir (Saw p x) \<longleftrightarrow> p = dir"
| "about_directory dir (Resolved u v) \<longleftrightarrow> True"

definition changes_path :: "event \<Rightarrow> bool" where
  "changes_path e = (case e of Did (Chmod p m) x \<Rightarrow> True | Did (Chown p u g) x \<Rightarrow> True | _ \<Rightarrow> False)"

definition dedicated :: "string \<Rightarrow> bool" where
  "dedicated dir \<longleftrightarrow> dir \<notin> {''.'', ''/'', ''/tmp'', ''/var'', ''/var/run'', ''/run''}"

definition saw_directory :: "string \<Rightarrow> event list \<Rightarrow> bool" where
  "saw_directory dir t \<longleftrightarrow> (\<exists>m. Saw dir (Inr m) \<in> set t \<and> m AND ModeDir \<noteq> 0 \<and> m AND ModeSymlink = 0)"

lemma PrepareSocketDirectory_run:
  assumes "run_io h s (PrepareSocketDirectory dir own grp) = (r, t, s')"
  shows "list_all (about_directory (Clean dir)) t" "t \<noteq> [] \<or> r = Inr u \<Longrightarrow> dedicated (Clean dir)"
    "list_ex changes_path t \<Longrightarrow> saw_directory (Clean dir) t"
    "r = Inr u \<Longrightarrow> last t = Did (Chmod (Clean dir) directoryMode) None"
  using assms
  by (auto simp: PrepareSocketDirectory_def run_simps dedicated_def isSharedSystemDirectory_def changes_path_def saw_directory_def
      split: if_splits prod.splits sum.splits option.splits dest!: resolveID_run(1))

lemma ListenWithOptions_ok:
  assumes "run_io h s (ListenWithOptions avail socket options) = (Inr ln, t, s')" "normalized options = Inr opts"
  shows "list_all (about_socket socket) t" "opened socket t" "cl_expectedUID ln = sk_ExpectedPeerUID opts"
proof -
  have "list_all (about_socket socket) t \<and> opened socket t \<and> cl_expectedUID ln = sk_ExpectedPeerUID opts"
    using assms(1)
  proof (cases rule: ListenWithOptions_run)
    case (bound o1 s1 t1 t2)
    note sec = secured_run [OF bound(3) normalized_Inr(1,2) [OF bound(1)]]
    have "o1 = opts" using bound(1) assms(2) by simp
    moreover have "cl_expectedUID ln = sk_ExpectedPeerUID o1" using sec(3) by auto
    ultimately show ?thesis using bound(4,5) sec(1) by (simp add: opened_def)
  qed auto
  then show "list_all (about_socket socket) t" "opened socket t" "cl_expectedUID ln = sk_ExpectedPeerUID opts" by auto
qed

lemma agent_start_run:
  assumes "run_io h s (agent_start pf parse random env readable nenv d) = (Inr ap, t, s')"
  obtains x s1 t1 s2 t2 cfg where "Load parse random env = Inr cfg" "ap_config ap = cfg" "t = Did (Umask 0x3F) x # t1 @ t2"
    "run_io h s1 (PrepareSocketDirectory (Dir (cf_AgentSocket cfg)) (cf_AgentSocketOwner cfg) (cf_AgentSocketGroup cfg)) = (Inr (), t1, s2)"
    "run_io h s2 (ListenWithOptions (peerCredentialsAvailable pf) (cf_AgentSocket cfg) (socket_options cfg)) = (Inr (ap_listener ap), t2, s')"
    "buildExecutor readable cfg = Some (ap_executor ap)" "NewServerWithOptions nenv (agent_options cfg) d = (Inr (ap_server ap), ap_disk ap)"
  using assms by (auto simp: agent_start_def run_io_step Let_def split: prod.splits sum.splits option.splits)


section \<open>A concrete start\<close>

text \<open>A host on which every call succeeds: the directory is there and the socket is not.\<close>

definition calm_host :: "unit host_os" where
  "calm_host =
     \<lparr>os_act = (\<lambda>s a. (None, s)),
      os_lstat = (\<lambda>s p. (if p = ''/var/run/samba-admin'' then Inr ModeDir else Inl NotExist, s)),
      os_lookup = (\<lambda>s u n. (Inl (OsFailure ''unknown''), s))\<rparr>"

definition unix_socket :: string where "unix_socket = ''/var/run/samba-admin/agent.sock''"

definition unix_environment :: environment where
  "unix_environment = sample_environment(''SAMBA_ADMIN_AGENT_SOCKET'' := unix_socket, ''SAMBA_ADMIN_AGENT_EXPECTED_PEER_UID'' := ''1001'')"

definition unix_config :: Config where
  "unix_config = sample_config\<lparr>cf_AgentSocket := unix_socket, cf_AgentExpectedPeerUID := 1001\<rparr>"

lemma unix_strings:
  "TrimSpace unix_socket = unix_socket" "unix_socket \<noteq> []" "TrimSpace ''1001'' = ''1001''" "ParseInt64 ''1001'' = Some 1001"
  "TrimSpace ''current'' \<noteq> []" "valid_socket_path unix_socket" "Clean (Dir unix_socket) = ''/var/run/samba-admin''"
  "TrimSpace (path_join ''./var'' ''agent-nonces.json'') \<noteq> []"
  by (code_simp, code_simp, code_simp, simp add: ParseInt64_def ParseUint64_def Let_def is_digit_def digits_value_def digit_val_def, code_simp, code_simp, code_simp, code_simp)

lemma unix_environment_other:
  assumes "k \<noteq> ''SAMBA_ADMIN_AGENT_SOCKET''" "k \<noteq> ''SAMBA_ADMIN_AGENT_EXPECTED_PEER_UID''"
  shows "unix_environment k = sample_environment k" "getenv unix_environment k v = getenv sample_environment k v"
    "duration parse unix_environment k i = duration parse sample_environment k i"
    "int64Value unix_environment k i = int64Value sample_environment k i"
  using assms by (simp_all add: unix_environment_def getenv_def duration_def int64Value_def)

lemma unix_defaults:
  assumes "k \<noteq> ''SAMBA_ADMIN_AGENT_KEY''" "k \<noteq> ''SAMBA_ADMIN_AGENT_SOCKET''" "k \<noteq> ''SAMBA_ADMIN_AGENT_EXPECTED_PEER_UID''"
  shows "socketModeValue unix_environment k m = Inr m" "intValueStrict unix_environment k i = Inr i"
    "int64ValueStrict unix_environment k i = Inr i" "boolValue unix_environment k b = Inr b" "durationStrict parse unix_environment k i = Inr i"
  using unix_environment_other(1) [OF assms(2,3)] assms(1)
  by (simp_all add: socketModeValue_def intValueStrict_def int64ValueStrict_def boolValue_def durationStrict_def sample_environment_def)

lemma unix_config_read:
  "read_config (\<lambda>_. None) unix_environment 0x1B0 1001 False [] (5 * minute) (2 * minute) 4096 (128 * 2 ^ 10) 4 (2 ^ 20) = unix_config"
proof -
  have "getenv unix_environment ''SAMBA_ADMIN_AGENT_SOCKET'' v = unix_socket" for v
    by (simp add: getenv_def unix_environment_def unix_strings)
  then show ?thesis
    unfolding unix_config_def sample_config_def read_config_def Let_def by (simp only: unix_environment_other char.inject list.inject list.distinct
      Config.update_convs simp_thms refl)
qed

lemma unix_config_loads: "Load (\<lambda>_. None) [] unix_environment = Inr unix_config"
proof -
  have "validateAgentConfig unix_config = None" by (simp add: validateAgentConfig_def unix_config_def sample_config_fields)
  moreover have "validateAdapterConfig unix_config = None" by (simp add: validateAdapterConfig_def unix_config_def sample_config_fields)
  moreover have "agent_key [] unix_config = Inr unix_config" by (simp add: agent_key_def unix_config_def sample_config_fields)
  moreover have "intValueStrict unix_environment ''SAMBA_ADMIN_AGENT_EXPECTED_PEER_UID'' (- 1) = Inr 1001"
    by (simp add: intValueStrict_def unix_environment_def unix_strings)
  moreover have "decodeOptionalBase64 (unix_environment ''SAMBA_ADMIN_TOTP_ENCRYPTION_KEY'') = Inr []"
    by (simp add: decodeOptionalBase64_def unix_environment_other sample_environment_empty)
  ultimately show ?thesis using unix_config_read by (simp add: Load_def if_ok_def unix_defaults)
qed

lemma unix_config_server:
  "\<exists>s0. NewServerWithOptions (plain_env 0) (agent_options unix_config) empty_disk = (Inr s0, empty_disk)"
proof -
  have "agent_options unix_config = agent_options sample_config" by (simp add: agent_options_def unix_config_def)
  then show ?thesis using sample_config_server by simp
qed

lemma resolveID_none: "resolveID [] u = Done (Inr (- 1))"
  by (simp add: resolveID_def)

lemma calm: "os_act calm_host s a = (None, s)" "os_lstat calm_host s unix_socket = (Inl NotExist, s)"
  by (simp_all add: calm_host_def unix_socket_def)

lemma unix_directory_run:
  "run_io calm_host () (PrepareSocketDirectory (Dir unix_socket) [] []) =
     (Inr (), [Did (MkdirAll ''/var/run/samba-admin'' directoryMode) None, Saw ''/var/run/samba-admin'' (Inr ModeDir),
        Did (Chmod ''/var/run/samba-admin'' directoryMode) None], ())"
  by (simp add: PrepareSocketDirectory_def unix_strings isSharedSystemDirectory_def resolveID_none run_simps calm_host_def ModeDir_def ModeSymlink_def)

lemma unix_listen_run:
  "run_io calm_host () (ListenWithOptions True unix_socket (socket_options unix_config)) =
     (Inr \<lparr>cl_socket = unix_socket, cl_expectedUID = 1001\<rparr>,
      [Saw unix_socket (Inl NotExist), Did (ListenUnix unix_socket) None, Did (Chmod unix_socket 0x1B0) None], ())"
proof -
  have "validateAgentConfig unix_config = None" using Load_checked(1) [OF unix_config_loads] .
  moreover have "cf_AgentSocketOwner sample_config = []" "cf_AgentSocketGroup sample_config = []"
    by (simp_all add: sample_config_def read_config_def Let_def sample_environment_empty)
  ultimately show ?thesis
    by (simp add: ListenWithOptions_def loaded_options_normalized unix_strings removeExistingSocket_def run_simps calm,
        simp add: socket_options_def unix_config_def sample_config_fields resolveID_none run_simps calm)
qed

theorem listening_socket_is_private_witness:
  "run_io calm_host () (ListenWithOptions True unix_socket (socket_options unix_config)) =
     (Inr \<lparr>cl_socket = unix_socket, cl_expectedUID = 1001\<rparr>,
      [Saw unix_socket (Inl NotExist), Did (ListenUnix unix_socket) None, Did (Chmod unix_socket 0x1B0) None], ()) \<and>
   (\<exists>m. m AND 7 = (0 :: file_mode) \<and> Did (Chmod unix_socket m) None \<in>
      set [Saw unix_socket (Inl NotExist), Did (ListenUnix unix_socket) None, Did (Chmod unix_socket 0x1B0) None])"
  using listening_socket_is_private [OF unix_listen_run] unix_listen_run by fastforce


text \<open>
  Without a data directory and a socket in its environment, the agent's own default for the socket is refused by
  its listener, on every host and before any call to the system.
\<close>

theorem default_socket_is_refused:
  assumes "Load parse random env = Inr cfg" "TrimSpace (env ''SAMBA_ADMIN_DATA_DIR'') = []" "TrimSpace (env ''SAMBA_ADMIN_AGENT_SOCKET'') = []"
  shows "run_io h s (ListenWithOptions avail (cf_AgentSocket cfg) (socket_options cfg)) = (Inl InvalidSocketPath, [], s)"
proof -
  obtain mode uid mut totp ttl skew cache out conc msg where
    "agent_key random (read_config parse env mode uid mut totp ttl skew cache out conc msg) = Inr cfg"
    using assms(1) unfolding Load_def by (force split: option.splits)
  then have "cf_AgentSocket cfg = cf_AgentSocket (read_config parse env mode uid mut totp ttl skew cache out conc msg)"
    by (auto simp: agent_key_def split: if_splits)
  also have "\<dots> = path_join ''./var'' ''samba-admin-agent.sock''"
    unfolding read_config_def Let_def Config.select_convs getenv_def by (simp add: assms(2,3))
  finally have "cf_AgentSocket cfg = path_join ''./var'' ''samba-admin-agent.sock''" .
  moreover have "\<not> valid_socket_path (path_join ''./var'' ''samba-admin-agent.sock'')" by code_simp
  moreover note loaded_options_normalized [OF Load_checked(1) [OF assms(1)]]
  ultimately show ?thesis by (simp add: ListenWithOptions_def)
qed

theorem default_socket_is_refused_witness:
  "run_io calm_host () (ListenWithOptions True (cf_AgentSocket sample_config) (socket_options sample_config)) = (Inl InvalidSocketPath, [], ())"
  by (rule default_socket_is_refused [OF sample_config_loads]) (simp_all add: sample_environment_empty)

end
