(* ===== verification/Connection.thy ===== *)
theory Connection
  imports Sqlite
begin

text \<open>
  The connection of \<open>src/backend/internal/sqlite/sqlite.go\<close>: one handle behind a mutex, statements, cursors that keep the
  mutex until they are closed, and the assignment of columns.  SQLite is the argument \<open>en\<close>: what it answers to a
  statement or a script from a state of its own.  An operation on a connection whose mutex is held does not return, which is
  the value \<open>None\<close>.  The handle is not used after it is closed.  The last section reads a whole result the way the queries of
  \<open>src/backend/internal/storage/store.go\<close> do.
\<close>

section \<open>SQLite\<close>

datatype 'f step = Row "'f sql_value list" | StepDone | StepFailed string

record ('s, 'f) engine =
  en_prepare :: "string \<Rightarrow> string option"
  en_bind :: "nat \<Rightarrow> 'f sql_value \<Rightarrow> int"
  en_steps :: "string \<Rightarrow> 'f sql_value list \<Rightarrow> 's \<Rightarrow> 'f step list \<times> 's"
  en_script :: "string \<Rightarrow> 's \<Rightarrow> string option option \<times> 's"
  en_changes :: "'s \<Rightarrow> int"
  en_close :: "'s \<Rightarrow> int"

datatype db_error =
    PrepareFailed string | BindFailed int | StepError string | ScriptError string | CloseFailed int | ErrNoRows
  | CountMismatch nat nat | ColumnError nat set_error

section \<open>The connection\<close>

record 's DB =
  cn_state :: 's
  cn_open :: bool
  cn_locked :: bool

text \<open>An operation between \<open>mu.Lock\<close> and the deferred \<open>mu.Unlock\<close>.\<close>

definition with_lock :: "('s DB \<Rightarrow> 'a \<times> 's DB) \<Rightarrow> 's DB \<Rightarrow> ('a \<times> 's DB) option" where
  "with_lock f c =
     (if cn_locked c then None else let (r, c1) = f (c\<lparr>cn_locked := True\<rparr>) in Some (r, c1\<lparr>cn_locked := False\<rparr>))"

definition Close :: "('s, 'f) engine \<Rightarrow> 's DB \<Rightarrow> ((db_error + unit) \<times> 's DB) option" where
  "Close en = with_lock (\<lambda>c.
     if \<not> cn_open c then (Inr (), c)
     else if en_close en (cn_state c) \<noteq> 0 then (Inl (CloseFailed (en_close en (cn_state c))), c)
     else (Inr (), c\<lparr>cn_open := False\<rparr>))"

definition ExecScript :: "('s, 'f) engine \<Rightarrow> string \<Rightarrow> 's DB \<Rightarrow> ((db_error + unit) \<times> 's DB) option" where
  "ExecScript en script = with_lock (\<lambda>c.
     let (e, s) = en_script en script (cn_state c)
     in (case e of None \<Rightarrow> Inr () | Some msg \<Rightarrow> Inl (ScriptError (case msg of None \<Rightarrow> ''sqlite error'' | Some m \<Rightarrow> m)), c\<lparr>cn_state := s\<rparr>))"

fun bindAll :: "('s, 'f) engine \<Rightarrow> nat \<Rightarrow> 'f argument list \<Rightarrow> db_error option" where
  "bindAll en idx [] = None"
| "bindAll en idx (a # as) =
     (let rc = en_bind en idx (bind_value a) in if rc \<noteq> 0 then Some (BindFailed rc) else bindAll en (Suc idx) as)"

text \<open>A statement that is prepared and bound, with what it is going to answer.\<close>

definition prepared :: "('s, 'f) engine \<Rightarrow> string \<Rightarrow> 'f argument list \<Rightarrow> 's DB \<Rightarrow> (db_error + 'f step list) \<times> 's DB" where
  "prepared en query args c =
     (case en_prepare en query of Some m \<Rightarrow> (Inl (PrepareFailed m), c)
      | None \<Rightarrow> (case bindAll en 1 args of Some e \<Rightarrow> (Inl e, c)
          | None \<Rightarrow> (let (steps, s) = en_steps en query (map bind_value args) (cn_state c) in (Inr steps, c\<lparr>cn_state := s\<rparr>))))"

fun run_steps :: "'f step list \<Rightarrow> db_error option" where
  "run_steps [] = None"
| "run_steps (Row vs # rest) = run_steps rest"
| "run_steps (StepDone # rest) = None"
| "run_steps (StepFailed m # rest) = Some (StepError m)"

definition Exec :: "('s, 'f) engine \<Rightarrow> string \<Rightarrow> 'f argument list \<Rightarrow> 's DB \<Rightarrow> ((db_error + int) \<times> 's DB) option" where
  "Exec en query args = with_lock (\<lambda>c.
     case prepared en query args c of
       (Inl e, c1) \<Rightarrow> (Inl e, c1)
     | (Inr steps, c1) \<Rightarrow> (case run_steps steps of Some e \<Rightarrow> Inl e | None \<Rightarrow> Inr (en_changes en (cn_state c1)), c1))"

definition Ping :: "('s, 'f) engine \<Rightarrow> 's DB \<Rightarrow> ((db_error + int) \<times> 's DB) option" where
  "Ping en = Exec en ''SELECT 1'' []"

section \<open>Cursors\<close>

record 'f Rows =
  rw_steps :: "'f step list"
  rw_current :: "'f sql_value list"
  rw_err :: "db_error option"
  rw_closed :: bool

text \<open>A cursor keeps the mutex; an error releases it.\<close>

definition Query :: "('s, 'f) engine \<Rightarrow> string \<Rightarrow> 'f argument list \<Rightarrow> 's DB \<Rightarrow> ((db_error + 'f Rows) \<times> 's DB) option" where
  "Query en query args c =
     (if cn_locked c then None
      else case prepared en query args (c\<lparr>cn_locked := True\<rparr>) of
             (Inl e, c1) \<Rightarrow> Some (Inl e, c1\<lparr>cn_locked := False\<rparr>)
           | (Inr steps, c1) \<Rightarrow> Some (Inr \<lparr>rw_steps = steps, rw_current = [], rw_err = None, rw_closed = False\<rparr>, c1))"

definition Rows_Next :: "'f Rows \<Rightarrow> bool \<times> 'f Rows" where
  "Rows_Next r =
     (if rw_closed r \<or> rw_err r \<noteq> None then (False, r)
      else case rw_steps r of
             [] \<Rightarrow> (False, r)
           | Row vs # rest \<Rightarrow> (True, r\<lparr>rw_steps := rest, rw_current := vs\<rparr>)
           | StepDone # rest \<Rightarrow> (False, r)
           | StepFailed m # rest \<Rightarrow> (False, r\<lparr>rw_err := Some (StepError m)\<rparr>))"

definition current_values :: "'f Rows \<Rightarrow> 'f sql_value list" where
  "current_values r = map column (rw_current r)"

definition Rows_Close :: "'f Rows \<Rightarrow> 's DB \<Rightarrow> 'f Rows \<times> 's DB" where
  "Rows_Close r c = (if rw_closed r then (r, c) else (r\<lparr>rw_closed := True\<rparr>, c\<lparr>cn_locked := False\<rparr>))"

type_synonym 'f single = "db_error + 'f sql_value list"

definition QueryRow :: "('s, 'f) engine \<Rightarrow> string \<Rightarrow> 'f argument list \<Rightarrow> 's DB \<Rightarrow> ('f single \<times> 's DB) option" where
  "QueryRow en query args c =
     (case Query en query args c of
        None \<Rightarrow> None
      | Some (Inl e, c1) \<Rightarrow> Some (Inl e, c1)
      | Some (Inr rows, c1) \<Rightarrow>
          (let (found, r1) = Rows_Next rows;
               row = (if found then Inr (current_values r1) else Inl (case rw_err r1 of Some e \<Rightarrow> e | None \<Rightarrow> ErrNoRows));
               (r2, c2) = Rows_Close r1 c1
           in Some (row, c2)))"

section \<open>Assignment\<close>

datatype destination = ToString | ToInt int | ToInt64 | ToFloat | ToNullString | ToBytes

datatype 'f assigned = IsString string | IsInt int | IsFloat 'f | IsNullString "string option" | IsBytes "string option"

text \<open>The conversions of Go's numbers and texts.\<close>

record 'f conversions =
  cv_sprint :: "'f \<Rightarrow> string"
  cv_trunc :: "'f \<Rightarrow> int"
  cv_float :: "int \<Rightarrow> 'f"
  cv_atoi :: "string \<Rightarrow> int option"

definition set_dest :: "'f conversions \<Rightarrow> destination \<Rightarrow> 'f sql_value \<Rightarrow> set_error + 'f assigned" where
  "set_dest cv dst src =
     (case dst of
        ToString \<Rightarrow> Inr (IsString (set_string (cv_sprint cv) src))
      | ToInt old \<Rightarrow> (case set_int (cv_atoi cv) (cv_trunc cv) old src of Inl e \<Rightarrow> Inl e | Inr n \<Rightarrow> Inr (IsInt n))
      | ToInt64 \<Rightarrow> (case src of SNull \<Rightarrow> Inr (IsInt 0) | SInteger n \<Rightarrow> Inr (IsInt n) | SFloat x \<Rightarrow> Inr (IsInt (cv_trunc cv x)) | _ \<Rightarrow> Inl CannotAssign)
      | ToFloat \<Rightarrow> (case src of SNull \<Rightarrow> Inr (IsFloat (cv_float cv 0)) | SFloat x \<Rightarrow> Inr (IsFloat x)
                     | SInteger n \<Rightarrow> Inr (IsFloat (cv_float cv n)) | _ \<Rightarrow> Inl CannotAssign)
      | ToNullString \<Rightarrow> Inr (IsNullString (set_NullString (cv_sprint cv) src))
      | ToBytes \<Rightarrow> (case src of SNull \<Rightarrow> Inr (IsBytes None) | SBlob b \<Rightarrow> Inr (IsBytes (Some b)) | SText s \<Rightarrow> Inr (IsBytes (Some s))
                     | _ \<Rightarrow> Inl CannotAssign))"

fun assign_from :: "'f conversions \<Rightarrow> nat \<Rightarrow> destination list \<Rightarrow> 'f sql_value list \<Rightarrow> db_error + 'f assigned list" where
  "assign_from cv i (d # ds) (v # vs) =
     (case set_dest cv d v of
        Inl e \<Rightarrow> Inl (ColumnError i e)
      | Inr a \<Rightarrow> (case assign_from cv (Suc i) ds vs of Inl e \<Rightarrow> Inl e | Inr as \<Rightarrow> Inr (a # as)))"
| "assign_from cv i _ _ = Inr []"

definition assign :: "'f conversions \<Rightarrow> destination list \<Rightarrow> 'f sql_value list \<Rightarrow> db_error + 'f assigned list" where
  "assign cv ds vs = (if length vs \<noteq> length ds then Inl (CountMismatch (length vs) (length ds)) else assign_from cv 0 ds vs)"

definition Rows_Scan :: "'f conversions \<Rightarrow> destination list \<Rightarrow> 'f Rows \<Rightarrow> db_error + 'f assigned list" where
  "Rows_Scan cv ds r = assign cv ds (current_values r)"

definition Row_Scan :: "'f conversions \<Rightarrow> destination list \<Rightarrow> 'f single \<Rightarrow> db_error + 'f assigned list" where
  "Row_Scan cv ds row = (case row of Inl e \<Rightarrow> Inl e | Inr vs \<Rightarrow> assign cv ds vs)"

section \<open>Reading a whole result\<close>

text \<open>The loop over \<open>rows.Next\<close> with \<open>rows.Scan\<close>, then \<open>rows.Err\<close>.\<close>

lemma Rows_Next_shorter: "Rows_Next r = (True, r1) \<Longrightarrow> length (rw_steps r1) < length (rw_steps r)"
  by (auto simp: Rows_Next_def split: if_splits list.splits step.splits)

function read_rows :: "'f conversions \<Rightarrow> destination list \<Rightarrow> 'f Rows \<Rightarrow> (db_error + 'f assigned list list) \<times> 'f Rows" where
  "read_rows cv ds r =
     (case Rows_Next r of
        (False, r1) \<Rightarrow> (case rw_err r1 of Some e \<Rightarrow> Inl e | None \<Rightarrow> Inr [], r1)
      | (True, r1) \<Rightarrow>
          (case Rows_Scan cv ds r1 of
             Inl e \<Rightarrow> (Inl e, r1)
           | Inr v \<Rightarrow> (case read_rows cv ds r1 of (Inl e, r2) \<Rightarrow> (Inl e, r2) | (Inr vs, r2) \<Rightarrow> (Inr (v # vs), r2))))"
  by pat_completeness auto
termination
  by (relation "measure (\<lambda>(cv, ds, r). length (rw_steps r))") (auto dest!: Rows_Next_shorter [OF sym])

declare read_rows.simps [simp del]

definition query_all ::
    "('s, 'f) engine \<Rightarrow> 'f conversions \<Rightarrow> destination list \<Rightarrow> string \<Rightarrow> 'f argument list \<Rightarrow> 's DB
       \<Rightarrow> ((db_error + 'f assigned list list) \<times> 's DB) option" where
  "query_all en cv ds query args c =
     (case Query en query args c of
        None \<Rightarrow> None
      | Some (Inl e, c1) \<Rightarrow> Some (Inl e, c1)
      | Some (Inr rows, c1) \<Rightarrow> (let (r, rows1) = read_rows cv ds rows; (rows2, c2) = Rows_Close rows1 c1 in Some (r, c2)))"

section \<open>The mutex\<close>

text \<open>What an operation does to the mutex: it waits for a held one, and leaves a free one free.\<close>

definition released :: "'s DB \<Rightarrow> ('a \<times> 's DB) option \<Rightarrow> bool" where
  "released c r = (case r of None \<Rightarrow> cn_locked c | Some (v, c1) \<Rightarrow> \<not> cn_locked c \<and> \<not> cn_locked c1)"

lemma with_lock_released: "released c (with_lock f c)"
  by (auto simp: with_lock_def released_def Let_def split: prod.splits)

lemma prepared_locked: "prepared en query args c = (r, c1) \<Longrightarrow> cn_locked c1 = cn_locked c"
  by (auto simp: prepared_def split: option.splits prod.splits)

lemma Query_lock:
  "case Query en query args c of
     None \<Rightarrow> cn_locked c
   | Some (Inl e, c1) \<Rightarrow> \<not> cn_locked c \<and> \<not> cn_locked c1
   | Some (Inr rows, c1) \<Rightarrow> \<not> cn_locked c \<and> cn_locked c1 \<and> \<not> rw_closed rows \<and> rw_err rows = None"
  by (auto simp: Query_def split: prod.splits sum.splits dest: prepared_locked)

lemma Rows_Next_closed: "Rows_Next r = (b, r1) \<Longrightarrow> rw_closed r1 = rw_closed r"
  by (auto simp: Rows_Next_def split: if_splits list.splits step.splits)

lemma read_rows_closed: "rw_closed (snd (read_rows cv ds r)) = rw_closed r"
proof (induction cv ds r rule: read_rows.induct)
  case (1 cv ds r)
  obtain b r1 where n: "Rows_Next r = (b, r1)" by fastforce
  have c: "rw_closed r1 = rw_closed r" using Rows_Next_closed [OF n] .
  show ?case
  proof (cases "b \<and> (\<exists>v. Rows_Scan cv ds r1 = Inr v)")
    case True
    then obtain v where v: "Rows_Scan cv ds r1 = Inr v" by blast
    have "rw_closed (snd (read_rows cv ds r1)) = rw_closed r1" using 1 [of b r1 v] n v True by simp
    then show ?thesis using n v c True by (subst read_rows.simps) (auto split: prod.splits sum.splits)
  next
    case False
    then show ?thesis using n c by (subst read_rows.simps) (auto split: bool.splits sum.splits)
  qed
qed

lemma QueryRow_lock: "released c (QueryRow en query args c)"
  using Query_lock [of c en query args]
  by (auto simp: released_def QueryRow_def Rows_Close_def Let_def split: option.splits prod.splits sum.splits if_splits dest: Rows_Next_closed)

lemma query_all_lock: "released c (query_all en cv ds query args c)"
proof (cases "Query en query args c")
  case None
  then show ?thesis using Query_lock [of c en query args] by (simp add: released_def query_all_def)
next
  case (Some a)
  obtain q c1 where a: "a = (q, c1)" by fastforce
  show ?thesis
  proof (cases q)
    case (Inl e)
    then show ?thesis using Some a Query_lock [of c en query args] by (simp add: released_def query_all_def)
  next
    case (Inr rows)
    obtain r rows1 where r: "read_rows cv ds rows = (r, rows1)" by fastforce
    have "\<not> rw_closed rows" "\<not> cn_locked c" using Some a Inr Query_lock [of c en query args] by simp_all
    moreover from this(1) have "\<not> rw_closed rows1" using read_rows_closed [of cv ds rows] r by simp
    ultimately show ?thesis using Some a Inr r by (simp add: released_def query_all_def Rows_Close_def)
  qed
qed

text \<open>
  C38. Every statement, script, single row and whole result that is started on a free connection returns and leaves the connection free
  whatever fails in it; only a cursor keeps it, every other operation waits for as long as it does, and closing the
  cursor frees it.
\<close>

theorem connection_released:
  "released c (Exec en query args c) \<and> released c (ExecScript en script c) \<and> released c (Close en c) \<and> released c (QueryRow en query args c) \<and>
   released c (query_all en cv ds query args c) \<and>
   (case Query en query args c of
      None \<Rightarrow> cn_locked c
    | Some (Inl e, c1) \<Rightarrow> \<not> cn_locked c \<and> \<not> cn_locked c1
    | Some (Inr rows, c1) \<Rightarrow> \<not> cn_locked c \<and> cn_locked c1 \<and> \<not> cn_locked (snd (Rows_Close rows c1)))"
proof (intro conjI)
  show "case Query en query args c of
      None \<Rightarrow> cn_locked c
    | Some (Inl e, c1) \<Rightarrow> \<not> cn_locked c \<and> \<not> cn_locked c1
    | Some (Inr rows, c1) \<Rightarrow> \<not> cn_locked c \<and> cn_locked c1 \<and> \<not> cn_locked (snd (Rows_Close rows c1))"
    using Query_lock [of c en query args] by (auto simp: Rows_Close_def split: option.splits prod.splits sum.splits)
qed (simp_all only: Exec_def ExecScript_def Close_def with_lock_released QueryRow_lock query_all_lock)

section \<open>Whole results\<close>

text \<open>The rows of an answer, up to its end or its failure.\<close>

fun answered :: "'f step list \<Rightarrow> 'f sql_value list list" where
  "answered (Row vs # rest) = vs # answered rest"
| "answered _ = []"

lemma read_rows_Inr:
  assumes "\<not> rw_closed r" "rw_err r = None"
  shows "fst (read_rows cv ds r) = Inr out \<longleftrightarrow>
    list_all2 (\<lambda>vs v. assign cv ds (map column vs) = Inr v) (answered (rw_steps r)) out \<and> run_steps (rw_steps r) = None"
  using assms
proof (induction "rw_steps r" arbitrary: r out)
  case Nil
  then show ?case by (subst read_rows.simps) (auto simp: Rows_Next_def)
next
  case (Cons st rest)
  show ?case
  proof (cases st)
    case (Row vs)
    let ?r1 = "r\<lparr>rw_steps := rest, rw_current := vs\<rparr>"
    have IH: "fst (read_rows cv ds ?r1) = Inr o1 \<longleftrightarrow>
        list_all2 (\<lambda>vs v. assign cv ds (map column vs) = Inr v) (answered rest) o1 \<and> run_steps rest = None" for o1
      using Cons(1) [of ?r1 o1] Cons(3,4) by simp
    have rs: "rw_steps r = Row vs # rest" using Cons(2) Row by simp
    have "Rows_Next r = (True, ?r1)" "Rows_Scan cv ds ?r1 = assign cv ds (map column vs)"
      using Cons(3,4) rs by (simp_all add: Rows_Next_def Rows_Scan_def current_values_def)
    then have "fst (read_rows cv ds r) =
        (case assign cv ds (map column vs) of Inl e \<Rightarrow> Inl e
         | Inr v \<Rightarrow> (case fst (read_rows cv ds ?r1) of Inl e \<Rightarrow> Inl e | Inr us \<Rightarrow> Inr (v # us)))"
      by (subst read_rows.simps) (auto split: sum.splits prod.splits)
    note head = this
    show ?thesis
    proof (cases "assign cv ds (map column vs)")
      case (Inl e)
      then show ?thesis using head rs by (simp add: list_all2_Cons1)
    next
      case (Inr v)
      have "fst (read_rows cv ds r) = Inr out \<longleftrightarrow> (\<exists>o1. out = v # o1 \<and> fst (read_rows cv ds ?r1) = Inr o1)"
        unfolding head Inr by (cases "fst (read_rows cv ds ?r1)") auto
      also have "\<dots> \<longleftrightarrow> (\<exists>o1. out = v # o1 \<and> list_all2 (\<lambda>vs v. assign cv ds (map column vs) = Inr v) (answered rest) o1 \<and> run_steps rest = None)"
        by (simp only: IH)
      finally show ?thesis using Inr rs by (auto simp: list_all2_Cons1)
    qed
  next
    case StepDone
    then show ?thesis using Cons(2) [symmetric] Cons(3,4) by (subst read_rows.simps) (auto simp: Rows_Next_def)
  next
    case (StepFailed m)
    then show ?thesis using Cons(2) [symmetric] Cons(3,4) by (subst read_rows.simps) (auto simp: Rows_Next_def)
  qed
qed

text \<open>
  C39. A query that reads a whole result returns all of it or an error: it succeeds exactly when the statement was prepared and
  bound, no step failed and every row was assigned, and then it has one entry for each row, in order; a result cut short by
  a failure is never taken for the whole.
\<close>

theorem whole_result_or_error:
  assumes "\<not> cn_locked c"
  shows "(\<exists>c1. query_all en cv ds query args c = Some (Inr out, c1)) \<longleftrightarrow>
     en_prepare en query = None \<and> bindAll en 1 args = None \<and>
     (let steps = fst (en_steps en query (map bind_value args) (cn_state c))
      in run_steps steps = None \<and> list_all2 (\<lambda>vs v. assign cv ds (map column vs) = Inr v) (answered steps) out)"
proof (cases "en_prepare en query = None \<and> bindAll en 1 args = None")
  case True
  obtain steps s where st: "en_steps en query (map bind_value args) (cn_state c) = (steps, s)" by fastforce
  let ?rows = "\<lparr>rw_steps = steps, rw_current = [], rw_err = None, rw_closed = False\<rparr>"
  obtain r rows1 where read: "read_rows cv ds ?rows = (r, rows1)" by fastforce
  let ?c1 = "c\<lparr>cn_locked := True, cn_state := s\<rparr>"
  have "Query en query args c = Some (Inr ?rows, ?c1)" using True st assms by (simp add: Query_def prepared_def)
  then have "query_all en cv ds query args c = Some (r, snd (Rows_Close rows1 ?c1))"
    unfolding query_all_def using read by (simp add: Let_def case_prod_beta del: DB.update_convs)
  then have "(\<exists>c1. query_all en cv ds query args c = Some (Inr out, c1)) \<longleftrightarrow> fst (read_rows cv ds ?rows) = Inr out"
    using read by simp
  also have "\<dots> \<longleftrightarrow> list_all2 (\<lambda>vs v. assign cv ds (map column vs) = Inr v) (answered steps) out \<and> run_steps steps = None"
    using read_rows_Inr [of ?rows] by simp
  finally show ?thesis using True st by auto
next
  case False
  then show ?thesis using assms by (auto simp: query_all_def Query_def prepared_def split: option.splits)
qed

definition sample_engine :: "(unit, int) engine" where
  "sample_engine =
     \<lparr>en_prepare = (\<lambda>q. None), en_bind = (\<lambda>i v. 0), en_steps = (\<lambda>q as s. ([Row [SText ''admin''], Row [SText ''operator''], StepDone], s)),
      en_script = (\<lambda>q s. (None, s)), en_changes = (\<lambda>s. 0), en_close = (\<lambda>s. 0)\<rparr>"

definition sample_conversions :: "int conversions" where
  "sample_conversions = \<lparr>cv_sprint = (\<lambda>x. []), cv_trunc = id, cv_float = id, cv_atoi = (\<lambda>s. None)\<rparr>"

theorem whole_result_or_error_witness:
  "\<exists>c1. query_all sample_engine sample_conversions [ToString] ''SELECT name FROM roles'' [] \<lparr>cn_state = (), cn_open = True, cn_locked = False\<rparr>
     = Some (Inr [[IsString ''admin''], [IsString ''operator'']], c1)"
proof -
  have "\<not> cn_locked \<lparr>cn_state = (), cn_open = True, cn_locked = False\<rparr>" by simp
  from whole_result_or_error [OF this, of sample_engine sample_conversions "[ToString]" "''SELECT name FROM roles''" "[]"
      "[[IsString ''admin''], [IsString ''operator'']]"]
  show ?thesis
    by (simp add: sample_engine_def assign_def set_dest_def set_string_def column_def GoString_def)
qed

end
