(* ===== verification/Migrations.thy ===== *)
theory Migrations
  imports JsonRound Connection
begin

text \<open>
  Opening the database and bringing its schema up to date: \<open>Open\<close>, \<open>applyMigrations\<close>, \<open>stripGooseDirectives\<close> and
  \<open>splitLines\<close> of \<open>src/backend/internal/storage/store.go\<close>.  The tables are a state that scripts change; what a script does to
  it, and whether it fails after some of its statements, is the argument \<open>script\<close>.  The n-th statement of
  the program fails with \<open>fault n\<close>, and \<open>files\<close> are the embedded migrations by name, a directory being \<open>None\<close>.
\<close>

section \<open>The scripts\<close>

definition line_feed :: char where "line_feed = CHR 0x0A"

text \<open>The loop over the bytes with the start of the current line; the rest is a line if it is not empty.\<close>

fun lines_from :: "string \<Rightarrow> string \<Rightarrow> string list" where
  "lines_from cur [] = (if cur = [] then [] else [rev cur])"
| "lines_from cur (c # cs) = (if c = line_feed then rev cur # lines_from [] cs else lines_from (c # cur) cs)"

definition splitLines :: "string \<Rightarrow> string list" where
  "splitLines s = lines_from [] s"

fun up_lines :: "string list \<Rightarrow> string" where
  "up_lines [] = []"
| "up_lines (l # ls) =
     (if l = ''-- +goose Down'' then []
      else if length l \<ge> 9 \<and> take 9 l = ''-- +goose'' then up_lines ls
      else l @ line_feed # up_lines ls)"

definition stripGooseDirectives :: "string \<Rightarrow> string" where
  "stripGooseDirectives s = up_lines (splitLines s)"

section \<open>The database\<close>

record 's schema =
  sc_tables :: 's
  sc_versions :: "(string \<times> string) list option"
  sc_tick :: nat
  sc_closed :: bool

datatype migration_error =
    StatementFailed string | NoVersionTable | VersionRecorded string | ScriptFailed string string | Unreadable string

type_synonym faults = "nat \<Rightarrow> string option"

text \<open>A statement: it may fail, and otherwise does what it says.\<close>

definition statement :: "faults \<Rightarrow> ('s schema \<Rightarrow> (migration_error + 'a) \<times> 's schema) \<Rightarrow> 's schema \<Rightarrow> (migration_error + 'a) \<times> 's schema" where
  "statement fault f d =
     (let d1 = d\<lparr>sc_tick := Suc (sc_tick d)\<rparr>
      in case fault (sc_tick d) of Some m \<Rightarrow> (Inl (StatementFailed m), d1) | None \<Rightarrow> f d1)"

definition create_version_table :: "faults \<Rightarrow> 's schema \<Rightarrow> (migration_error + unit) \<times> 's schema" where
  "create_version_table fault =
     statement fault (\<lambda>d. (Inr (), d\<lparr>sc_versions := Some (case sc_versions d of None \<Rightarrow> [] | Some vs \<Rightarrow> vs)\<rparr>))"

definition version_recorded :: "faults \<Rightarrow> string \<Rightarrow> 's schema \<Rightarrow> (migration_error + bool) \<times> 's schema" where
  "version_recorded fault version =
     statement fault (\<lambda>d. (case sc_versions d of None \<Rightarrow> Inl NoVersionTable | Some vs \<Rightarrow> Inr (version \<in> fst ` set vs), d))"

definition record_version :: "faults \<Rightarrow> string \<Rightarrow> string \<Rightarrow> 's schema \<Rightarrow> (migration_error + unit) \<times> 's schema" where
  "record_version fault version now =
     statement fault (\<lambda>d. case sc_versions d of
         None \<Rightarrow> (Inl NoVersionTable, d)
       | Some vs \<Rightarrow> if version \<in> fst ` set vs then (Inl (VersionRecorded version), d)
                    else (Inr (), d\<lparr>sc_versions := Some (vs @ [(version, now)])\<rparr>))"

definition run_script :: "faults \<Rightarrow> (string \<Rightarrow> 's \<Rightarrow> string option \<times> 's) \<Rightarrow> string \<Rightarrow> string \<Rightarrow> 's schema \<Rightarrow> (migration_error + unit) \<times> 's schema" where
  "run_script fault script version content =
     statement fault (\<lambda>d. let (e, s) = script (stripGooseDirectives content) (sc_tables d)
       in (case e of Some m \<Rightarrow> Inl (ScriptFailed version m) | None \<Rightarrow> Inr (), d\<lparr>sc_tables := s\<rparr>))"

section \<open>Migrations\<close>

type_synonym migration_files = "(string \<times> string option) list"

fun apply_versions ::
    "faults \<Rightarrow> (string \<Rightarrow> 's \<Rightarrow> string option \<times> 's) \<Rightarrow> migration_files \<Rightarrow> string \<Rightarrow> string list \<Rightarrow> 's schema
       \<Rightarrow> migration_error option \<times> 's schema" where
  "apply_versions fault script files now [] d = (None, d)"
| "apply_versions fault script files now (v # vs) d =
     (case version_recorded fault v d of
        (Inl e, d1) \<Rightarrow> (Some e, d1)
      | (Inr True, d1) \<Rightarrow> apply_versions fault script files now vs d1
      | (Inr False, d1) \<Rightarrow>
          (case map_of files v of
             Some (Some content) \<Rightarrow>
               (case run_script fault script v content d1 of
                  (Inl e, d2) \<Rightarrow> (Some e, d2)
                | (Inr _, d2) \<Rightarrow>
                    (case record_version fault v now d2 of
                       (Inl e, d3) \<Rightarrow> (Some e, d3)
                     | (Inr _, d3) \<Rightarrow> apply_versions fault script files now vs d3))
           | _ \<Rightarrow> (Some (Unreadable v), d1)))"

definition version_files :: "migration_files \<Rightarrow> string list" where
  "version_files files = map fst (sort_keys (filter (\<lambda>(name, content). content \<noteq> None \<and> HasSuffix name ''.sql'') files))"

definition applyMigrations ::
    "faults \<Rightarrow> (string \<Rightarrow> 's \<Rightarrow> string option \<times> 's) \<Rightarrow> migration_files \<Rightarrow> string \<Rightarrow> 's schema \<Rightarrow> migration_error option \<times> 's schema" where
  "applyMigrations fault script files now d =
     (case create_version_table fault d of
        (Inl e, d1) \<Rightarrow> (Some e, d1)
      | (Inr _, d1) \<Rightarrow> apply_versions fault script files now (version_files files) d1)"

section \<open>Opening\<close>

datatype store_open_error = DirectoryNotMade string | NotOpened string | PragmaFailed migration_error | MigrationFailed migration_error

definition pragmas :: "string list" where
  "pragmas = [''PRAGMA journal_mode=WAL;'', ''PRAGMA foreign_keys=ON;'', ''PRAGMA busy_timeout=5000;'']"

fun run_pragmas :: "faults \<Rightarrow> string list \<Rightarrow> 's schema \<Rightarrow> migration_error option \<times> 's schema" where
  "run_pragmas fault [] d = (None, d)"
| "run_pragmas fault (p # ps) d =
     (case statement fault (\<lambda>d. (Inr (), d)) d of (Inl e, d1) \<Rightarrow> (Some e, d1) | (Inr _, d1) \<Rightarrow> run_pragmas fault ps d1)"

text \<open>\<open>mkdir\<close> and \<open>opened\<close> are the failures of making the directory and of opening the file.\<close>

definition Open_store ::
    "string option \<Rightarrow> string option \<Rightarrow> faults \<Rightarrow> (string \<Rightarrow> 's \<Rightarrow> string option \<times> 's) \<Rightarrow> migration_files \<Rightarrow> string \<Rightarrow> string \<Rightarrow> 's schema
       \<Rightarrow> store_open_error option \<times> 's schema" where
  "Open_store mkdir opened fault script files now path d =
     (if path \<noteq> '':memory:'' \<and> mkdir \<noteq> None then (Some (DirectoryNotMade (the mkdir)), d)
      else case opened of Some m \<Rightarrow> (Some (NotOpened m), d) | None \<Rightarrow>
        (case run_pragmas fault pragmas (d\<lparr>sc_closed := False\<rparr>) of
           (Some e, d1) \<Rightarrow> (Some (PragmaFailed e), d1\<lparr>sc_closed := True\<rparr>)
         | (None, d1) \<Rightarrow>
             (case applyMigrations fault script files now d1 of
                (Some e, d2) \<Rightarrow> (Some (MigrationFailed e), d2\<lparr>sc_closed := True\<rparr>)
              | (None, d2) \<Rightarrow> (None, d2))))"

section \<open>What is run of a script\<close>

lemma lines_from_split:
  "line_feed \<notin> set cur \<Longrightarrow> lines_from cur s = (let ls = split_at line_feed (rev cur @ s) in if last ls = [] then butlast ls else ls)"
proof (induction cur s rule: lines_from.induct)
  case (1 cur)
  then show ?case by (simp add: split_at_absent)
next
  case (2 cur c cs)
  show ?case
  proof (cases "c = line_feed")
    case True
    then have "split_at line_feed (rev cur @ c # cs) = rev cur # split_at line_feed cs" using 2(3) by (simp add: split_at_append)
    then show ?thesis using 2(1) True by (simp add: Let_def)
  next
    case False
    then show ?thesis using 2(2,3) by simp
  qed
qed

lemma goose_prefix: "(length l \<ge> 9 \<and> take 9 l = ''-- +goose'') = HasPrefix l ''-- +goose''"
proof -
  have n: "length ''-- +goose'' = 9" by simp
  have "HasPrefix l ''-- +goose'' \<longleftrightarrow> take 9 l = ''-- +goose''"
    using n by (metis append_eq_conv_conj prefix_def take_is_prefix)
  moreover have "take 9 l = ''-- +goose'' \<Longrightarrow> length l \<ge> 9" using n by (metis length_take min.cobounded1)
  ultimately show ?thesis by blast
qed

lemma up_lines_spec:
  "up_lines ls = concat (map (\<lambda>l. l @ [line_feed]) (filter (\<lambda>l. \<not> HasPrefix l ''-- +goose'') (takeWhile (\<lambda>l. l \<noteq> ''-- +goose Down'') ls)))"
  by (induction ls) (simp_all only: up_lines.simps goose_prefix, auto)

text \<open>
  What is run of a migration is its lines before the line that opens the way down, without the directives, in order and each
  with a line feed.
\<close>

theorem only_way_up_is_run:
  "stripGooseDirectives s =
     concat (map (\<lambda>l. l @ [line_feed])
       (filter (\<lambda>l. \<not> HasPrefix l ''-- +goose'')
         (takeWhile (\<lambda>l. l \<noteq> ''-- +goose Down'')
           (let ls = split_at line_feed s in if last ls = [] then butlast ls else ls))))"
  by (simp add: stripGooseDirectives_def splitLines_def up_lines_spec lines_from_split)

section \<open>What is recorded\<close>

text \<open>The script of a version, what a list of scripts leaves, and that each of them succeeds.\<close>

definition script_of :: "migration_files \<Rightarrow> string \<Rightarrow> string" where
  "script_of files v = stripGooseDirectives (case map_of files v of Some (Some content) \<Rightarrow> content | _ \<Rightarrow> [])"

fun after_scripts :: "(string \<Rightarrow> 's \<Rightarrow> string option \<times> 's) \<Rightarrow> string list \<Rightarrow> 's \<Rightarrow> 's" where
  "after_scripts script [] s = s"
| "after_scripts script (t # ts) s = after_scripts script ts (snd (script t s))"

fun all_succeed :: "(string \<Rightarrow> 's \<Rightarrow> string option \<times> 's) \<Rightarrow> string list \<Rightarrow> 's \<Rightarrow> bool" where
  "all_succeed script [] s = True"
| "all_succeed script (t # ts) s \<longleftrightarrow> fst (script t s) = None \<and> all_succeed script ts (snd (script t s))"

definition pending :: "(string \<times> string) list \<Rightarrow> string list \<Rightarrow> string list" where
  "pending rec vs = filter (\<lambda>v. v \<notin> fst ` set rec) vs"

lemma pending_recorded: "v \<notin> set vs \<Longrightarrow> pending (rec @ [(v, now)]) vs = pending rec vs"
  by (auto simp: pending_def intro!: filter_cong)

text \<open>What a run has done, after it recorded the first \<open>k\<close> of the pending versions: the next script may have run as well.\<close>

definition progress ::
    "(string \<Rightarrow> 's \<Rightarrow> string option \<times> 's) \<Rightarrow> migration_files \<Rightarrow> string \<Rightarrow> string list \<Rightarrow> (string \<times> string) list \<Rightarrow> 's
       \<Rightarrow> migration_error option \<Rightarrow> 's schema \<Rightarrow> nat \<Rightarrow> bool" where
  "progress script files now todo rec s r d k \<longleftrightarrow>
     k \<le> length todo \<and> sc_versions d = Some (rec @ map (\<lambda>v. (v, now)) (take k todo)) \<and>
     all_succeed script (map (script_of files) (take k todo)) s \<and>
     (sc_tables d = after_scripts script (map (script_of files) (take k todo)) s \<or>
      r \<noteq> None \<and> k < length todo \<and> sc_tables d = after_scripts script (map (script_of files) (take (Suc k) todo)) s) \<and>
     (r = None \<longrightarrow> k = length todo)"

lemma statement_cases:
  assumes "statement fault f d = (r, d1)"
  obtains (failed) m where "r = Inl (StatementFailed m)" "sc_tables d1 = sc_tables d" "sc_versions d1 = sc_versions d"
    | (ran) "f (d\<lparr>sc_tick := Suc (sc_tick d)\<rparr>) = (r, d1)"
  using assms by (auto simp: statement_def Let_def split: option.splits)

lemma version_recorded_cases:
  assumes "version_recorded fault v d = (r, d1)" "sc_versions d = Some rec"
  shows "sc_tables d1 = sc_tables d" "sc_versions d1 = Some rec" "r = Inr b \<Longrightarrow> b \<longleftrightarrow> v \<in> fst ` set rec"
  using assms(1) unfolding version_recorded_def by (cases rule: statement_cases; use assms(2) in auto)+

lemma run_script_cases:
  assumes "run_script fault script v content d = (r, d1)" "sc_versions d = Some rec"
  shows "sc_versions d1 = Some rec"
    "r = Inr u \<Longrightarrow> sc_tables d1 = snd (script (stripGooseDirectives content) (sc_tables d)) \<and> fst (script (stripGooseDirectives content) (sc_tables d)) = None"
    "sc_tables d1 = sc_tables d \<or> sc_tables d1 = snd (script (stripGooseDirectives content) (sc_tables d))"
  using assms(1) unfolding run_script_def
  by (cases rule: statement_cases; use assms(2) in \<open>auto simp: Let_def split: prod.splits option.splits\<close>)+

lemma record_version_cases:
  assumes "record_version fault v now d = (r, d1)" "sc_versions d = Some rec"
  shows "sc_tables d1 = sc_tables d" "sc_versions d1 = Some (if r = Inr () then rec @ [(v, now)] else rec)"
  using assms(1) unfolding record_version_def by (cases rule: statement_cases; use assms(2) in \<open>auto split: if_splits\<close>)+

lemma progress_none:
  "sc_versions d = Some rec \<Longrightarrow> sc_tables d = s \<Longrightarrow> r \<noteq> None \<or> todo = [] \<Longrightarrow> progress script files now todo rec s r d 0"
  by (auto simp: progress_def)

text \<open>One version more.\<close>

lemma progress_Cons:
  assumes "progress script files now todo (rec @ [(v, now)]) (snd (script (script_of files v) s)) r d k" "fst (script (script_of files v) s) = None"
  shows "progress script files now (v # todo) rec s r d (Suc k)"
  using assms by (auto simp: progress_def)

lemma apply_versions_progress:
  assumes "distinct vs" "sc_versions d = Some rec" "apply_versions fault script files now vs d = (r, d1)"
  shows "\<exists>k. progress script files now (pending rec vs) rec (sc_tables d) r d1 k"
  using assms
proof (induction vs arbitrary: d rec)
  case Nil
  then show ?case by (intro exI [of _ 0] progress_none) (simp_all add: pending_def)
next
  case (Cons v vs)
  obtain q d2 where q: "version_recorded fault v d = (q, d2)" by fastforce
  note q1 = version_recorded_cases [OF q Cons.prems(2)]
  show ?case
  proof (cases q)
    case (Inl e)
    then show ?thesis using Cons.prems(3) q q1 by (intro exI [of _ 0] progress_none) auto
  next
    case (Inr b)
    note b = q1(3) [OF Inr]
    show ?thesis
    proof (cases b)
      case True
      then have "apply_versions fault script files now vs d2 = (r, d1)" using Cons.prems(3) q Inr by simp
      then show ?thesis using Cons.IH [of d2 rec] Cons.prems(1) q1(1,2) b True by (simp add: pending_def)
    next
      case False
      then have todo: "pending rec (v # vs) = v # pending rec vs" using b by (simp add: pending_def)
      show ?thesis
      proof (cases "\<exists>content. map_of files v = Some (Some content)")
        case False
        then have "r = Some (Unreadable v)" "d1 = d2"
          using Cons.prems(3) q Inr \<open>\<not> b\<close> by (auto split: option.splits)
        then show ?thesis using q1 by (intro exI [of _ 0] progress_none) auto
      next
        case True
        then obtain content where c: "map_of files v = Some (Some content)" by blast
        then have sc: "script_of files v = stripGooseDirectives content" by (simp add: script_of_def)
        obtain u d3 where u: "run_script fault script v content d2 = (u, d3)" by fastforce
        note u1 = run_script_cases [OF u q1(2)]
        show ?thesis
        proof (cases u)
          case (Inl e)
          then have "r = Some e" "d1 = d3" using Cons.prems(3) q Inr \<open>\<not> b\<close> c u by auto
          then show ?thesis using u1(1,3) q1(1) todo sc by (intro exI [of _ 0]) (auto simp: progress_def \<open>q = Inr b\<close>)
        next
          case ran: (Inr x)
          obtain w d4 where w: "record_version fault v now d3 = (w, d4)" by fastforce
          note w1 = record_version_cases [OF w u1(1)]
          note tables = u1(2) [OF ran]
          show ?thesis
          proof (cases w)
            case (Inl e)
            then have "r = Some e" "d1 = d4" using Cons.prems(3) q \<open>q = Inr b\<close> \<open>\<not> b\<close> c u ran w by auto
            then show ?thesis using w1 Inl tables q1(1) todo sc by (intro exI [of _ 0]) (auto simp: progress_def)
          next
            case rec: (Inr y)
            then have run: "apply_versions fault script files now vs d4 = (r, d1)"
              using Cons.prems(3) q \<open>q = Inr b\<close> \<open>\<not> b\<close> c u ran w by simp
            have "sc_versions d4 = Some (rec @ [(v, now)])" using w1(2) rec by (cases y) simp
            from Cons.IH [OF _ this run] obtain k
              where "progress script files now (pending (rec @ [(v, now)]) vs) (rec @ [(v, now)]) (sc_tables d4) r d1 k"
              using Cons.prems(1) by auto
            then have "progress script files now (pending rec vs) (rec @ [(v, now)]) (snd (script (script_of files v) (sc_tables d))) r d1 k"
              using Cons.prems(1) w1(1) tables q1(1) sc by (simp add: pending_recorded)
            then show ?thesis using progress_Cons tables q1(1) sc todo by metis
          qed
        qed
      qed
    qed
  qed
qed

lemma version_files_distinct: "distinct (map fst files) \<Longrightarrow> distinct (version_files files)"
  unfolding version_files_def by (simp add: distinct_map_filter)

lemma create_version_table_cases:
  assumes "create_version_table fault d = (r, d1)"
  shows "sc_tables d1 = sc_tables d" "r = Inl e \<Longrightarrow> sc_versions d1 = sc_versions d"
    "r = Inr u \<Longrightarrow> sc_versions d1 = Some (case sc_versions d of None \<Rightarrow> [] | Some vs \<Rightarrow> vs)"
  using assms unfolding create_version_table_def by (cases rule: statement_cases; auto)+

lemma applyMigrations_progress:
  assumes "distinct (map fst files)" "applyMigrations fault script files now d = (r, d1)"
  shows "r \<noteq> None \<and> sc_tables d1 = sc_tables d \<and> sc_versions d1 = sc_versions d \<or>
     (let rec = (case sc_versions d of None \<Rightarrow> [] | Some vs \<Rightarrow> vs)
      in \<exists>k. progress script files now (pending rec (version_files files)) rec (sc_tables d) r d1 k)"
proof -
  obtain q d2 where q: "create_version_table fault d = (q, d2)" by fastforce
  note q1 = create_version_table_cases [OF q]
  show ?thesis
  proof (cases q)
    case (Inl e)
    then show ?thesis using assms(2) q q1 by (auto simp: applyMigrations_def)
  next
    case (Inr u)
    then have "apply_versions fault script files now (version_files files) d2 = (r, d1)"
      using assms(2) q by (simp add: applyMigrations_def)
    from apply_versions_progress [OF version_files_distinct [OF assms(1)] q1(3) [OF Inr] this]
    show ?thesis using q1(1) by (simp add: Let_def)
  qed
qed

text \<open>
  C37. Whatever fails, the versions recorded are those recorded before and then the first of the pending ones in the order of
  their names, each with a script that ran without error; nothing but their scripts, and possibly that of the next one, has
  changed the tables; and a run that succeeds has recorded them all.
\<close>

theorem migrations_recorded_in_order:
  assumes "distinct (map fst files)" "applyMigrations fault script files now d = (r, d1)"
  shows "r \<noteq> None \<and> sc_tables d1 = sc_tables d \<and> sc_versions d1 = sc_versions d \<or>
     (let rec = (case sc_versions d of None \<Rightarrow> [] | Some vs \<Rightarrow> vs);
          todo = pending rec (version_files files);
          scripts = map (script_of files) todo
      in \<exists>k\<le>length todo. sc_versions d1 = Some (rec @ map (\<lambda>v. (v, now)) (take k todo)) \<and> all_succeed script (take k scripts) (sc_tables d) \<and>
           (sc_tables d1 = after_scripts script (take k scripts) (sc_tables d) \<or>
            r \<noteq> None \<and> k < length todo \<and> sc_tables d1 = after_scripts script (take (Suc k) scripts) (sc_tables d)) \<and>
           (r = None \<longrightarrow> k = length todo))"
  using applyMigrations_progress [OF assms] by (auto simp: progress_def Let_def take_map)

lemma applyMigrations_all:
  assumes "distinct (map fst files)" "applyMigrations fault script files now d = (None, d1)"
  shows "set (version_files files) \<subseteq> fst ` set (the (sc_versions d1))"
proof -
  let ?rec = "case sc_versions d of None \<Rightarrow> [] | Some vs \<Rightarrow> vs"
  have v1: "sc_versions d1 = Some (?rec @ map (\<lambda>v. (v, now)) (pending ?rec (version_files files)))"
    using applyMigrations_progress [OF assms] by (auto simp: progress_def Let_def)
  show ?thesis unfolding v1 by (auto simp: pending_def image_Un image_image)
qed

lemma pending_done: "set (version_files files) \<subseteq> fst ` set rec \<Longrightarrow> pending rec (version_files files) = []"
  by (auto simp: pending_def filter_empty_conv)

text \<open>
  A migration is applied once: after a run that succeeded every version is recorded, and any further run, with the same files and
  whatever it meets, leaves the tables and the recorded versions as they are.
\<close>

theorem migrations_run_once:
  assumes "distinct (map fst files)" "applyMigrations fault script files now d = (None, d1)"
    and "applyMigrations fault' script' files now' d1 = (r, d2)"
  shows "set (version_files files) \<subseteq> fst ` set (the (sc_versions d1)) \<and> sc_tables d2 = sc_tables d1 \<and> sc_versions d2 = sc_versions d1"
proof -
  let ?rec = "case sc_versions d of None \<Rightarrow> [] | Some vs \<Rightarrow> vs"
  have v1: "sc_versions d1 = Some (?rec @ map (\<lambda>v. (v, now)) (pending ?rec (version_files files)))"
    using applyMigrations_progress [OF assms(1,2)] by (auto simp: progress_def Let_def)
  have all: "set (version_files files) \<subseteq> fst ` set (the (sc_versions d1))" by (rule applyMigrations_all [OF assms(1,2)])
  then have "pending (the (sc_versions d1)) (version_files files) = []" by (rule pending_done)
  then have "sc_tables d2 = sc_tables d1 \<and> sc_versions d2 = sc_versions d1"
    using applyMigrations_progress [OF assms(1,3)] v1 by (auto simp: progress_def Let_def)
  then show ?thesis using all by blast
qed

text \<open>Only \<open>Open\<close> closes the database.\<close>

lemma statement_closed:
  "(\<And>d. sc_closed (snd (f d)) = sc_closed d) \<Longrightarrow> sc_closed (snd (statement fault f d)) = sc_closed d"
  by (auto simp: statement_def Let_def split: option.split)

lemma steps_closed:
  "sc_closed (snd (create_version_table fault d)) = sc_closed d"
  "sc_closed (snd (version_recorded fault v d)) = sc_closed d"
  "sc_closed (snd (record_version fault v now d)) = sc_closed d"
  "sc_closed (snd (run_script fault script v content d)) = sc_closed d"
  unfolding create_version_table_def version_recorded_def record_version_def run_script_def
  by (rule statement_closed; simp add: Let_def split: option.split prod.split)+

lemma step_closed:
  "create_version_table fault d = (r0, d1) \<Longrightarrow> sc_closed d1 = sc_closed d"
  "version_recorded fault v d = (r1, d1) \<Longrightarrow> sc_closed d1 = sc_closed d"
  "record_version fault v now d = (r2, d1) \<Longrightarrow> sc_closed d1 = sc_closed d"
  "run_script fault script v content d = (r3, d1) \<Longrightarrow> sc_closed d1 = sc_closed d"
  by (metis steps_closed snd_conv)+

lemma apply_versions_closed: "apply_versions fault script files now vs d = (r, d1) \<Longrightarrow> sc_closed d1 = sc_closed d"
proof (induction vs arbitrary: d)
  case (Cons v vs)
  show ?case using Cons.prems Cons.IH
    by (auto split: prod.splits sum.splits bool.splits option.splits dest!: step_closed)
qed simp

lemma applyMigrations_closed: "applyMigrations fault script files now d = (r, d1) \<Longrightarrow> sc_closed d1 = sc_closed d"
  by (auto simp: applyMigrations_def split: prod.splits sum.splits dest!: step_closed apply_versions_closed)

lemma run_pragmas_closed: "run_pragmas fault ps d = (r, d1) \<Longrightarrow> sc_closed d1 = sc_closed d"
proof (induction ps arbitrary: d)
  case (Cons p ps)
  have "statement fault (\<lambda>d. (Inr (), d)) d = (q, d2) \<Longrightarrow> sc_closed d2 = sc_closed d" for q :: "migration_error + unit" and d2
    using statement_closed [of "\<lambda>d. (Inr () :: migration_error + unit, d)" fault d] by simp
  then show ?case using Cons by (auto split: prod.splits sum.splits)
qed simp

section \<open>Concrete runs\<close>

text \<open>Three files with the names of the program's migrations; a script is noted in the tables.\<close>

definition sample_files :: migration_files where
  "sample_files =
     [(''00003_idempotency_scope.sql'', Some ''C''), (''00001_init.sql'', Some ''A''), (''archive'', None),
      (''00002_security_and_approvals.sql'', Some ''B''), (''README.md'', Some ''D'')]"

definition note_script :: "string \<Rightarrow> string list \<Rightarrow> string option \<times> string list" where
  "note_script t s = (None, s @ [t])"

definition empty_schema :: "string list schema" where
  "empty_schema = \<lparr>sc_tables = [], sc_versions = None, sc_tick = 0, sc_closed = False\<rparr>"

definition sound :: faults where "sound = (\<lambda>n. None)"

lemma sample_run:
  "applyMigrations sound note_script sample_files ''t0'' empty_schema =
     (None, \<lparr>sc_tables = [''A'' @ [line_feed], ''B'' @ [line_feed], ''C'' @ [line_feed]],
        sc_versions = Some [(''00001_init.sql'', ''t0''), (''00002_security_and_approvals.sql'', ''t0''), (''00003_idempotency_scope.sql'', ''t0'')],
        sc_tick = 10, sc_closed = False\<rparr>)"
  by code_simp

theorem migrations_recorded_in_order_witness:
  "distinct (map fst sample_files) \<and>
   (\<exists>d1. applyMigrations sound note_script sample_files ''t0'' empty_schema = (None, d1) \<and>
      all_succeed note_script (map (script_of sample_files) (version_files sample_files)) [])"
proof -
  have d: "distinct (map fst sample_files)" by code_simp
  from migrations_recorded_in_order [OF d sample_run]
  have "all_succeed note_script (map (script_of sample_files) (version_files sample_files)) []"
    by (auto simp: empty_schema_def pending_def simp del: all_succeed.simps)
  then show ?thesis using d sample_run by blast
qed

theorem migrations_run_once_witness:
  "\<exists>d1 d2. applyMigrations sound note_script sample_files ''t0'' empty_schema = (None, d1) \<and>
     applyMigrations sound note_script sample_files ''t1'' d1 = (None, d2) \<and> sc_tables d2 = sc_tables d1"
proof -
  have d: "distinct (map fst sample_files)" by code_simp
  let ?d1 = "snd (applyMigrations sound note_script sample_files ''t0'' empty_schema)"
  have first: "applyMigrations sound note_script sample_files ''t0'' empty_schema = (None, ?d1)" using sample_run by simp
  have "fst (applyMigrations sound note_script sample_files ''t1'' ?d1) = None" by code_simp
  then obtain d2 where again: "applyMigrations sound note_script sample_files ''t1'' ?d1 = (None, d2)" by (metis prod.collapse)
  show ?thesis using migrations_run_once [OF d first again] first again by blast
qed

text \<open>
  A script and the record of it are two statements: when the second fails, after the first has been carried out, the next run carries
  the script out again.
\<close>

lemma interrupted_migration_runs_again:
  "let (r, d1) = applyMigrations (\<lambda>n. if n = 3 then Some ''disk full'' else None) note_script sample_files ''t0'' empty_schema
   in r = Some (StatementFailed ''disk full'') \<and>
      take 2 (sc_tables (snd (applyMigrations sound note_script sample_files ''t1'' d1))) = [''A'' @ [line_feed], ''A'' @ [line_feed]]"
  by code_simp

end
