(* ===== verification/Contract.thy ===== *)
theory Contract
  imports Approval Shares Api FreeBsd Reads
begin

text \<open>
  The enumerations of the public contract, with the \<open>Valid\<close> functions of \<open>src/backend/api/generated/models.gen.go\<close>, and the
  proof that what the program stores, accepts and reports stays within them.
\<close>

section \<open>Enumerations\<close>

definition CapabilityState_Valid :: "string \<Rightarrow> bool" where
  "CapabilityState_Valid e \<longleftrightarrow> e \<in> set [''experimental'', ''indisponivel'', ''nao_verificado'', ''not_verified'', ''restrito'', ''suportado'',
     ''suportado_com_restricoes'', ''supported'', ''supported_with_restrictions'', ''unavailable'']"

definition ChangeRequestRisk_Valid :: "string \<Rightarrow> bool" where
  "ChangeRequestRisk_Valid e \<longleftrightarrow> e \<in> set [''destructive'', ''emergency'', ''high'', ''low'', ''medium'', ''read'']"

definition ChangeRequestStatus_Valid :: "string \<Rightarrow> bool" where
  "ChangeRequestStatus_Valid e \<longleftrightarrow> e \<in> set [''approved'', ''cancelled'', ''completed'', ''executing'', ''expired'', ''failed'', ''pending_approval'',
     ''rejected'', ''rolled_back'']"

definition ShareAclModel_Valid :: "string \<Rightarrow> bool" where
  "ShareAclModel_Valid e \<longleftrightarrow> e \<in> set [''nfsv4'', ''none'', ''posix'']"

definition ShareAuditProfile_Valid :: "string \<Rightarrow> bool" where
  "ShareAuditProfile_Valid e \<longleftrightarrow> e \<in> set [''changes'', ''complete'', ''minimum'', ''off'', ''security'']"

definition ShareEncryption_Valid :: "string \<Rightarrow> bool" where
  "ShareEncryption_Valid e \<longleftrightarrow> e \<in> set [''desired'', ''disabled'', ''required'']"

definition ShareSigning_Valid :: "string \<Rightarrow> bool" where
  "ShareSigning_Valid e \<longleftrightarrow> e \<in> set [''default'', ''mandatory'']"

definition SystemInfoProfile_Valid :: "string \<Rightarrow> bool" where
  "SystemInfoProfile_Valid e \<longleftrightarrow> e \<in> set [''ad-dc'', ''additional-dc'', ''domain-member'', ''standalone'']"

definition AclConversionTarget_Valid :: "string \<Rightarrow> bool" where
  "AclConversionTarget_Valid e \<longleftrightarrow> e \<in> set [''nfsv4'', ''posix'']"

definition ListChangeRequestsStatus_Valid :: "string \<Rightarrow> bool" where
  "ListChangeRequestsStatus_Valid e \<longleftrightarrow> e \<in> set [''approved'', ''cancelled'', ''completed'', ''executing'', ''expired'', ''failed'', ''pending_approval'',
     ''rejected'', ''rolled_back'']"

definition ServiceAction_Valid :: "string \<Rightarrow> bool" where
  "ServiceAction_Valid e \<longleftrightarrow> e \<in> set [''health-check'', ''reload'', ''restart'', ''start'', ''stop'']"

section \<open>Change requests\<close>

lemma PolicyFor_risk: "ChangeRequestRisk_Valid (po_Risk (PolicyFor operation))"
proof -
  have "\<forall>p\<in>set Policies. ChangeRequestRisk_Valid (po_Risk (snd p))" by code_simp
  moreover have "ChangeRequestRisk_Valid (po_Risk (guarded_policy ''high'' []))" by code_simp
  ultimately show ?thesis unfolding PolicyFor_def by (force split: option.splits dest: map_of_SomeD)
qed

text \<open>A row within the contract: its status is one of the enumeration and its risk is that of its operation.\<close>

definition conforms :: "change_row \<Rightarrow> bool" where
  "conforms r \<longleftrightarrow> ChangeRequestStatus_Valid (cg_status r) \<and> cg_risk r = po_Risk (PolicyFor (cg_operation r))"

lemma edges_valid: "(a, b) \<in> set status_edges \<Longrightarrow> ChangeRequestStatus_Valid b"
  by (auto simp: status_edges_def ChangeRequestStatus_Valid_def)

lemma moves_conforms: "moves A r r' \<Longrightarrow> conforms r \<Longrightarrow> conforms r'"
  by (cases r; cases r') (auto simp: moves_def same_request_def conforms_def dest: edges_valid)

lemma fresh_conforms: "fresh_row rows r \<Longrightarrow> conforms r"
  by (auto simp: fresh_row_def conforms_def ChangeRequestStatus_Valid_def)

lemma reachable_conforms: "approvals_reachable st \<Longrightarrow> \<forall>r\<in>set (db_changes (fst st)). conforms r"
proof (induction rule: approvals_reachable.induct)
  case (later st st')
  from approvals_step_evolves [OF later(2)] obtain f new where
    "db_changes (fst st') = map f (db_changes (fst st)) @ new" "\<forall>r. moves (set (snd st)) r (f r)"
    "\<forall>r\<in>set new. fresh_row (db_changes (fst st)) r" by (auto simp: evolves_def)
  then show ?case using later(3) moves_conforms fresh_conforms by (metis (no_types, lifting) Un_iff imageE set_append set_map)
qed simp

text \<open>
  C40. Every change request that can ever be stored, and so every one that the program returns, has a status and a risk of the public
  contract, and the contract lets a client list requests by exactly these statuses.
\<close>

theorem change_requests_conform:
  assumes "approvals_reachable (d, p)" "r \<in> set (db_changes d)"
  shows "ChangeRequestStatus_Valid (cq_Status (fromRecord r)) \<and> ChangeRequestRisk_Valid (cq_Risk (fromRecord r)) \<and>
     ListChangeRequestsStatus_Valid (cq_Status (fromRecord r))"
proof -
  have "conforms r" using reachable_conforms [OF assms(1)] assms(2) by simp
  then have "ChangeRequestStatus_Valid (cg_status r)" "ChangeRequestRisk_Valid (cg_risk r)"
    using PolicyFor_risk by (auto simp: conforms_def)
  then show ?thesis
    by (simp add: fromRecord_def ListChangeRequestsStatus_Valid_def ChangeRequestStatus_Valid_def)
qed

theorem change_requests_conform_witness:
  "\<exists>r\<in>set (db_changes sample_approved). ChangeRequestStatus_Valid (cq_Status (fromRecord r)) \<and> ChangeRequestRisk_Valid (cq_Risk (fromRecord r))"
proof -
  have "length (db_changes sample_approved) = 1" by code_simp
  then obtain r where r: "r \<in> set (db_changes sample_approved)" by (metis length_0_conv last_in_set zero_neq_one)
  show ?thesis using change_requests_conform [OF sample_approved_reachable r] r by blast
qed

section \<open>Shares and actions\<close>

text \<open>
  What the handlers accept is what the contract enumerates: a share that passes validation has an ACL model, an audit profile, an
  encryption and a signing of the contract.
\<close>

theorem accepted_shares_conform:
  assumes "validateShare s = None"
  shows "ShareAclModel_Valid (sh_ACLModel s) \<and> ShareAuditProfile_Valid (sh_AuditProfile s) \<and> ShareEncryption_Valid (sh_Encryption s) \<and>
     ShareSigning_Valid (sh_Signing s)"
  using assms
  by (auto simp: validateShare_def oneOf_def ShareAclModel_Valid_def ShareAuditProfile_Valid_def ShareEncryption_Valid_def ShareSigning_Valid_def
      split: if_splits)

theorem accepted_shares_conform_witness:
  "validateShare sample_share = None \<and> ShareEncryption_Valid (sh_Encryption sample_share)"
  using accepted_shares_conform [OF sample_share_valid] sample_share_valid by blast

lemma actions_conform: "map_of actionLabels action \<noteq> None \<longleftrightarrow> ServiceAction_Valid action" "ServiceAction_Valid action \<longleftrightarrow> map_of action_operations action \<noteq> None"
  by (auto simp: actionLabels_def action_operations_def ServiceAction_Valid_def)

section \<open>Inventories\<close>

lemma parseSambaProfile_valid: "SystemInfoProfile_Valid (parseSambaProfile config)"
  by (simp add: parseSambaProfile_def SystemInfoProfile_Valid_def Let_def)

lemma Samba_profile:
  assumes "run_on h (Samba order) = Inr info"
  shows "sb_Profile info = [] \<or> SystemInfoProfile_Valid (sb_Profile info)"
  using Samba_field [OF assms, of sb_Profile parseSambaProfile]
  by (auto simp: with_config_def Let_def initial_samba_def zero_SambaInfo_def parseSambaProfile_valid split: sum.splits)

lemma Inspect_profile:
  assumes "run_on h (Inspect F order) = Inr info"
  shows "sy_Profile info = or_text (sb_Profile (value_or zero_SambaInfo (run_on h (Samba order)))) ''standalone''"
  using assms unfolding Inspect_def run_on_bind by (auto simp: run_on_bind Let_def split: sum.splits)

text \<open>
  Whatever the host answers, the states of the capabilities that the adapter reports and the profile in its inventory are of the public
  contract, as are the states of the capability table.
\<close>

theorem reported_inventory_conforms:
  "(case run_on h (host_Capabilities order) of Inl e \<Rightarrow> True | Inr cs \<Rightarrow> list_all (\<lambda>c. CapabilityState_Valid (ca_State c)) cs) \<and>
   (case run_on h (Inspect F order) of Inl e \<Rightarrow> True | Inr info \<Rightarrow> SystemInfoProfile_Valid (sy_Profile info)) \<and>
   list_all (\<lambda>(i, state). CapabilityState_Valid state) Capabilities"
proof (intro conjI)
  show "case run_on h (host_Capabilities order) of Inl e \<Rightarrow> True | Inr cs \<Rightarrow> list_all (\<lambda>c. CapabilityState_Valid (ca_State c)) cs"
    unfolding host_Capabilities_def run_on_bind Let_def
    by (simp add: capability_of_def stateFor_def CapabilityState_Valid_def)
  show "case run_on h (Inspect F order) of Inl e \<Rightarrow> True | Inr info \<Rightarrow> SystemInfoProfile_Valid (sy_Profile info)"
  proof (cases "run_on h (Inspect F order)")
    case (Inr info)
    have "SystemInfoProfile_Valid ''standalone''" by (simp add: SystemInfoProfile_Valid_def)
    then show ?thesis using Inspect_profile [OF Inr] Samba_profile [of h order] Inr
      by (cases "run_on h (Samba order)") (auto simp: or_text_def value_or_def zero_SambaInfo_def)
  qed simp
  show "list_all (\<lambda>(i, state). CapabilityState_Valid state) Capabilities" by code_simp
qed

end
