(* ===== verification/App.thy ===== *)
theory App
  imports Migrations Login Configuration Client Fixture
begin

text \<open>
  The application: \<open>Build\<close> and \<open>Close\<close> of \<open>src/backend/internal/app/app.go\<close> and the start of
  \<open>src/backend/cmd/samba-admin-api/main.go\<close>, up to the call of \<open>ListenAndServe\<close>, which is the library's.  The database is the
  one of \<open>Migrations\<close> with the tables of \<open>Store\<close>; what the host makes of its directory, its file and its statements, and the
  file of a recorded collection, are arguments.
\<close>

section \<open>The parts\<close>

datatype agent_client = ViaSocket UnixClient | Mocked string

definition uses_agent :: "Config \<Rightarrow> bool" where
  "uses_agent cfg \<longleftrightarrow> cf_AdapterMode cfg = ''agent'' \<or> cf_AdapterMode cfg = ''freebsd-readonly''"

definition agentClient :: "Config \<Rightarrow> agent_client" where
  "agentClient cfg =
     (if uses_agent cfg then ViaSocket (NewUnixClientWithKeyID (cf_AgentSocket cfg) (cf_AgentSharedKey cfg) (cf_AgentKeyID cfg))
      else Mocked (cf_DevScenario cfg))"

text \<open>The provider of the readings: the fixtures of \<open>src/backend/internal/adapters/mock/provider.go\<close>, the agent, or a collection.\<close>

datatype read_provider = MockProvider | AgentProvider agent_client | FixtureProvider Provider

definition agentadapter_New :: "agent_client option \<Rightarrow> unit + read_provider" where
  "agentadapter_New client = (case client of None \<Rightarrow> Inl () | Some c \<Rightarrow> Inr (AgentProvider c))"

datatype build_error = StoreNotOpened store_open_error | NotBootstrapped auth_error | NoAgentClient | CollectionNotOpened open_error

record http_server =
  hs_Addr :: string
  hs_ReadHeaderTimeout :: duration
  hs_ReadTimeout :: duration
  hs_WriteTimeout :: duration
  hs_IdleTimeout :: duration
  hs_MaxHeaderBytes :: int

definition httpServer :: "Config \<Rightarrow> http_server" where
  "httpServer cfg = \<lparr>hs_Addr = cf_HTTPAddr cfg, hs_ReadHeaderTimeout = 10 * second, hs_ReadTimeout = cf_RequestTimeout cfg,
     hs_WriteTimeout = 0, hs_IdleTimeout = 120 * second, hs_MaxHeaderBytes = 2 ^ 20\<rparr>"

record Application =
  an_Config :: Config
  an_auth :: Service
  an_client :: agent_client
  an_readOnly :: read_provider
  an_HTTP :: http_server

section \<open>Building\<close>

text \<open>What the program finds around it while it starts.\<close>

record 'f surroundings =
  su_mkdir :: "string option"
  su_opened :: "string option"
  su_fault :: "nat \<Rightarrow> string option"
  su_script :: "string \<Rightarrow> db \<Rightarrow> string option \<times> db"
  su_files :: migration_files
  su_stamp :: string
  su_crypto :: crypto
  su_now :: time
  su_salt :: "string option"
  su_userID :: string
  su_recording :: "'f fixture_file option"

definition auth_service :: "Config \<Rightarrow> Service" where
  "auth_service cfg = NewWithOptions (cf_SessionTTL cfg)
     \<lparr>op_TOTPEncryptionKey = cf_TOTPEncryptionKey cfg, op_MFARequiredRoles = cf_MFARequiredRoles cfg, op_ChallengeTTL = 0\<rparr>"

definition choose_provider :: "'f fixture_file option \<Rightarrow> Config \<Rightarrow> build_error + read_provider" where
  "choose_provider recording cfg =
     (if uses_agent cfg then (case agentadapter_New (Some (agentClient cfg)) of Inl _ \<Rightarrow> Inl NoAgentClient | Inr p \<Rightarrow> Inr p)
      else if cf_AdapterMode cfg = ''fixture'' then (case Fixture.Open recording of Inl e \<Rightarrow> Inl (CollectionNotOpened e) | Inr p \<Rightarrow> Inr (FixtureProvider p))
      else Inr MockProvider)"

definition closed_schema :: "'s schema \<Rightarrow> 's schema" where
  "closed_schema d = d\<lparr>sc_closed := True\<rparr>"

definition bootstrapped :: "'f surroundings \<Rightarrow> Config \<Rightarrow> db schema \<Rightarrow> (auth_error + unit) \<times> db schema" where
  "bootstrapped su cfg d =
     (if cf_AuthMode cfg = ''development-bypass'' then (Inr (), d)
      else let (r, t) = Bootstrap (su_crypto su) (su_now su) (su_salt su) (su_userID su) (cf_BootstrapUser cfg) (cf_BootstrapPassword cfg) (sc_tables d)
           in (r, d\<lparr>sc_tables := t\<rparr>))"

definition Build :: "'f surroundings \<Rightarrow> Config \<Rightarrow> db schema \<Rightarrow> (build_error + Application) \<times> db schema" where
  "Build su cfg d =
     (case Open_store (su_mkdir su) (su_opened su) (su_fault su) (su_script su) (su_files su) (su_stamp su) (cf_DatabasePath cfg) d of
        (Some e, d1) \<Rightarrow> (Inl (StoreNotOpened e), d1)
      | (None, d1) \<Rightarrow>
          (case bootstrapped su cfg d1 of
             (Inl e, d2) \<Rightarrow> (Inl (NotBootstrapped e), closed_schema d2)
           | (Inr _, d2) \<Rightarrow>
               (case choose_provider (su_recording su) cfg of
                  Inl e \<Rightarrow> (Inl e, closed_schema d2)
                | Inr p \<Rightarrow> (Inr \<lparr>an_Config = cfg, an_auth = auth_service cfg, an_client = agentClient cfg, an_readOnly = p,
                             an_HTTP = httpServer cfg\<rparr>, d2))))"

definition Application_Close :: "db schema \<Rightarrow> db schema" where
  "Application_Close d = closed_schema d"

text \<open>The start of the program: the configuration, then the application; anything else is \<open>log.Fatal\<close>.\<close>

datatype main_error = ConfigurationRefused config_error | NotBuilt build_error

definition api_main ::
    "(string \<Rightarrow> duration option) \<Rightarrow> string \<Rightarrow> environment \<Rightarrow> 'f surroundings \<Rightarrow> db schema \<Rightarrow> (main_error + Application) \<times> db schema" where
  "api_main parse random env su d =
     (case Load parse random env of
        Inl e \<Rightarrow> (Inl (ConfigurationRefused e), d)
      | Inr cfg \<Rightarrow> (case Build su cfg d of (Inl e, d1) \<Rightarrow> (Inl (NotBuilt e), d1) | (Inr a, d1) \<Rightarrow> (Inr a, d1)))"


section \<open>Starting\<close>

lemma ensure_roles_Inr:
  assumes "ensure_roles rs d = (Inr u, d1)"
  shows "\<exists>R n. d1 = d\<lparr>db_roles := db_roles d @ R, db_tick := n\<rparr> \<and> (\<forall>r\<in>set rs. \<exists>(i, m)\<in>set (db_roles d @ R). i = r \<or> m = r)"
  using assms
proof (induction rs arbitrary: d)
  case Nil
  then have "d1 = d\<lparr>db_roles := db_roles d @ [], db_tick := db_tick d\<rparr>" by (simp add: return_def)
  then show ?case by fastforce
next
  case (Cons r rs)
  obtain d2 where d2: "EnsureRole r r d = (Inr (), d2)" "ensure_roles rs d2 = (Inr u, d1)"
    using Cons.prems by (auto simp: andThen_Inr)
  let ?R = "if list_ex (\<lambda>(i, m). i = r \<or> m = r) (db_roles d) then [] else [(r, r)]"
  have "d2 = d\<lparr>db_roles := db_roles d @ ?R, db_tick := Suc (db_tick d)\<rparr>"
    using d2(1) by (auto simp: EnsureRole_def exec_Inr split: if_splits)
  moreover have "\<exists>(i, m)\<in>set (db_roles d @ ?R). i = r \<or> m = r" by (auto simp: list_ex_iff)
  ultimately obtain R where R: "d2 = d\<lparr>db_roles := db_roles d @ R, db_tick := Suc (db_tick d)\<rparr>" "\<exists>(i, m)\<in>set (db_roles d @ R). i = r \<or> m = r"
    by blast
  from Cons.IH [OF d2(2)] obtain R' n where "d1 = d2\<lparr>db_roles := db_roles d2 @ R', db_tick := n\<rparr>"
      "\<forall>r\<in>set rs. \<exists>(i, m)\<in>set (db_roles d2 @ R'). i = r \<or> m = r" by blast
  then have "d1 = d\<lparr>db_roles := db_roles d @ (R @ R'), db_tick := n\<rparr> \<and>
      (\<forall>r\<in>set (r # rs). \<exists>(i, m)\<in>set (db_roles d @ (R @ R')). i = r \<or> m = r)"
    using R by auto
  then show ?case by blast
qed


text \<open>A first start: the rows of the only account, which may do everything.\<close>

abbreviation administrator :: string where
  "administrator \<equiv> ''administrador do sistema''"

definition no_accounts :: "db \<Rightarrow> bool" where
  "no_accounts t \<longleftrightarrow> db_users t = [] \<and> db_security t = [] \<and> db_roles t = [] \<and> db_user_roles t = [] \<and> db_sessions t = [] \<and> db_totp t = []"

definition first_account :: "time \<Rightarrow> string \<Rightarrow> string \<Rightarrow> string \<Rightarrow> db \<Rightarrow> bool" where
  "first_account now uid user hash t \<longleftrightarrow>
     (\<exists>display. db_users t = [\<lparr>us_id = uid, us_username = user, us_display_name = display, us_password_hash = hash, us_failed_attempts = 0,
        us_locked_until = None, us_created_at = format_time now\<rparr>]) \<and>
     db_security t = [(default_security uid)\<lparr>se_break_glass := True\<rparr>] \<and> db_roles t = map (\<lambda>r. (r, r)) builtin_roles \<and>
     db_user_roles t = [(uid, administrator)] \<and> db_sessions t = [] \<and> db_totp t = []"

lemma ensure_roles_new:
  assumes "ensure_roles rs d = (Inr u, d1)" "distinct rs" "\<forall>(i, m)\<in>set (db_roles d). i \<notin> set rs \<and> m \<notin> set rs"
  shows "\<exists>n. d1 = d\<lparr>db_roles := db_roles d @ map (\<lambda>r. (r, r)) rs, db_tick := n\<rparr>"
  using assms
proof (induction rs arbitrary: d)
  case Nil
  then have "d1 = d\<lparr>db_roles := db_roles d @ map (\<lambda>r. (r, r)) [], db_tick := db_tick d\<rparr>" by (simp add: return_def)
  then show ?case by (rule exI)
next
  case (Cons r rs)
  obtain d2 where d2: "EnsureRole r r d = (Inr (), d2)" "ensure_roles rs d2 = (Inr u, d1)"
    using Cons.prems(1) by (auto simp: andThen_Inr)
  have "\<not> list_ex (\<lambda>(i, m). i = r \<or> m = r) (db_roles d)" using Cons.prems(3) by (auto simp: list_ex_iff)
  then have new: "d2 = d\<lparr>db_roles := db_roles d @ [(r, r)], db_tick := Suc (db_tick d)\<rparr>"
    using d2(1) by (auto simp: EnsureRole_def exec_Inr)
  then obtain n where "d1 = d2\<lparr>db_roles := db_roles d2 @ map (\<lambda>r. (r, r)) rs, db_tick := n\<rparr>"
    using Cons.IH [OF d2(2)] Cons.prems(2,3) by auto
  then show ?case using new by fastforce
qed

lemma ensure_builtin_fresh:
  assumes "ensure_roles builtin_roles d = (Inr u, d1)" "db_roles d = []"
  shows "\<exists>n. d1 = d\<lparr>db_roles := map (\<lambda>r. (r, r)) builtin_roles, db_tick := n\<rparr>"
proof -
  have "distinct builtin_roles" by code_simp
  from ensure_roles_new [OF assms(1) this] show ?thesis by (simp add: assms(2))
qed

lemma Bootstrap_users:
  assumes "Bootstrap ci now salt uid user password t = (Inr u, t1)"
  shows "db_users t1 \<noteq> []" "\<forall>r\<in>set builtin_roles. \<exists>(i, m)\<in>set (db_roles t1). i = r \<or> m = r"
proof -
  obtain t2 where e: "ensure_roles builtin_roles t = (Inr (), t2)"
    and rest: "andThen (lifted AuthStore UserCount) (\<lambda>n.
       if n > 0 then return ()
       else if password = [] then raise BootstrapPasswordRequired
       else case HashPassword (ci_argon2 ci) salt password of
         Inl e \<Rightarrow> raise (HashingFailed e)
       | Inr h \<Rightarrow>
           lifted AuthStore (andThen (InsertUser now uid user (''Administrador local de emerg'' @ [CHR 0xC3, CHR 0xAA] @ ''ncia'') h)
             (\<lambda>_. andThen (SetBreakGlass uid True) (\<lambda>_. AssignRole uid ''administrador do sistema'')))) t2 = (Inr u, t1)"
    using assms by (auto simp: Bootstrap_def andThen_Inr lifted_Inr)
  have roles: "db_roles t1 = db_roles t2" "db_users t1 \<noteq> []"
    using rest
    by (auto simp: andThen_Inr lifted_Inr UserCount_def exec_Inr return_def raise_def InsertUser_def SetBreakGlass_def upsert_security_def
        AssignRole_def split: if_splits sum.splits)
  show "db_users t1 \<noteq> []" by (rule roles(2))
  show "\<forall>r\<in>set builtin_roles. \<exists>(i, m)\<in>set (db_roles t1). i = r \<or> m = r"
    using ensure_roles_Inr [OF e] roles(1) by auto
qed

lemma Bootstrap_fresh:
  assumes "Bootstrap ci now salt uid user password t = (Inr u, t1)" "no_accounts t"
  shows "\<exists>h. HashPassword (ci_argon2 ci) salt password = Inr h \<and> first_account now uid user h t1 \<and> db_fault t1 = db_fault t"
proof -
  obtain t2 where "ensure_roles builtin_roles t = (Inr (), t2)"
    and rest: "andThen (lifted AuthStore UserCount) (\<lambda>n.
       if n > 0 then return ()
       else if password = [] then raise BootstrapPasswordRequired
       else case HashPassword (ci_argon2 ci) salt password of
         Inl e \<Rightarrow> raise (HashingFailed e)
       | Inr h \<Rightarrow>
           lifted AuthStore (andThen (InsertUser now uid user (''Administrador local de emerg'' @ [CHR 0xC3, CHR 0xAA] @ ''ncia'') h)
             (\<lambda>_. andThen (SetBreakGlass uid True) (\<lambda>_. AssignRole uid ''administrador do sistema'')))) t2 = (Inr u, t1)"
    using assms(1) by (auto simp: Bootstrap_def andThen_Inr lifted_Inr)
  then obtain n where t2: "t2 = t\<lparr>db_roles := map (\<lambda>r. (r, r)) builtin_roles, db_tick := n\<rparr>"
    using ensure_builtin_fresh assms(2) unfolding no_accounts_def by blast
  show ?thesis using rest assms(2) unfolding t2
    by (auto simp: andThen_Inr lifted_Inr UserCount_def exec_Inr return_def raise_def InsertUser_def SetBreakGlass_def upsert_security_def
        AssignRole_def no_accounts_def first_account_def user_exists_def update_where_def default_security_def split: if_splits sum.splits)
qed


lemma Open_store_opened:
  assumes "distinct (map fst files)" "Open_store mkdir opened fault script files stamp path d = (None, d1)"
  shows "\<not> sc_closed d1" "set (version_files files) \<subseteq> fst ` set (the (sc_versions d1))"
proof -
  obtain d2 where p: "run_pragmas fault pragmas (d\<lparr>sc_closed := False\<rparr>) = (None, d2)" and m: "applyMigrations fault script files stamp d2 = (None, d1)"
    using assms(2) by (auto simp: Open_store_def split: if_splits option.splits prod.splits)
  show "\<not> sc_closed d1" using run_pragmas_closed [OF p] applyMigrations_closed [OF m] by simp
  show "set (version_files files) \<subseteq> fst ` set (the (sc_versions d1))" by (rule applyMigrations_all [OF assms(1) m])
qed

lemma Open_store_failed:
  assumes "Open_store mkdir opened fault script files stamp path d = (Some e, d1)"
  shows "d1 = d \<or> sc_closed d1"
  using assms by (auto simp: Open_store_def split: if_splits option.splits prod.splits)

lemma Build_Inr:
  assumes "Build su cfg d = (Inr a, d1)"
  obtains d2 where "Open_store (su_mkdir su) (su_opened su) (su_fault su) (su_script su) (su_files su) (su_stamp su) (cf_DatabasePath cfg) d = (None, d2)"
    "bootstrapped su cfg d2 = (Inr (), d1)" "choose_provider (su_recording su) cfg = Inr (an_readOnly a)"
    "an_Config a = cfg" "an_auth a = auth_service cfg" "an_client a = agentClient cfg" "an_HTTP a = httpServer cfg"
  using assms by (auto simp: Build_def split: prod.splits option.splits sum.splits)


lemma choose_provider_recording:
  assumes "choose_provider recording cfg = Inr (FixtureProvider p)"
  shows "\<not> uses_agent cfg \<and> (\<exists>f data. recording = Some f \<and> ff_value f = Some data \<and> fx_Sanitized data \<and> p = Fixture.New data)"
  using assms
  by (auto simp: choose_provider_def agentadapter_New_def Fixture.Open_def split: if_splits option.splits sum.splits)


section \<open>The first login\<close>

text \<open>A hash verifies the password it was made of.\<close>

lemma HashPassword_verified:
  assumes "\<And>p s m i l n out. argon2 p s m i l n = Some out \<Longrightarrow> length out = n" "HashPassword argon2 drawn password = Inr h"
  shows "VerifyPassword argon2 h password = Inr True"
proof -
  obtain salt hash where "argon2 password salt argon2_memory argon2_iterations argon2_parallelism keyLength = Some hash" "h = encoded_hash salt hash"
    using assms(2) by (auto simp: HashPassword_def derive_def split: if_splits option.splits)
  then show ?thesis using assms(1) by (simp add: VerifyPassword_encoded)
qed

lemma first_login:
  assumes "first_account now uid user hash t" "db_fault t = (\<lambda>_. False)" "VerifyPassword (ci_argon2 ci) hash password = Inr True"
  shows "fst (BeginLogin ci s t0 (Some x, Some y) user password ip ua t) =
     (if administrator \<in> set (sv_mfaRequiredRoles s) then Inl ErrMFAEnrollmentRequired
      else Inr \<lparr>lr_User = \<lparr>u_ID = uid, u_Username = user, u_DisplayName = us_display_name (hd (db_users t)), u_Roles = [administrator],
             u_BreakGlass = True, u_MFAEnabled = False\<rparr>,
           lr_Session = RawURL_EncodeToString x, lr_CSRF = RawURL_EncodeToString y, lr_ExpiresAt = t0 + sv_ttl s,
           lr_MFARequired = False, lr_MFAChallengeID = []\<rparr>)"
proof -
  have roles: "map snd (filter (\<lambda>(i, n). i = administrator) (map (\<lambda>r. (r, r)) builtin_roles)) = [administrator]" by code_simp
  obtain display where u: "db_users t = [\<lparr>us_id = uid, us_username = user, us_display_name = display, us_password_hash = hash,
      us_failed_attempts = 0, us_locked_until = None, us_created_at = format_time now\<rparr>]"
    and rest: "db_security t = [(default_security uid)\<lparr>se_break_glass := True\<rparr>]" "db_roles t = map (\<lambda>r. (r, r)) builtin_roles"
      "db_user_roles t = [(uid, administrator)]" "db_sessions t = []" "db_totp t = []"
    using assms(1) by (auto simp: first_account_def)
  have noerr: "account_error t0 ip (user_record (hd (db_users t)) (Some ((default_security uid)\<lparr>se_break_glass := True\<rparr>))) = None"
    by (simp add: account_error_def user_record_def default_security_def u allowedByCIDRs_def coalesce_def)
  show ?thesis
    using noerr assms(3) roles
    by (simp add: BeginLogin_def FindUser_def act_simps assms(2) u rest Let_def accepted_password_def ResetLoginFailures_def UserRoles_def update_where_def
        default_security_def user_record_def login_user_def roleRequiresMFA_def begin_challenge_def ActiveTOTP_def createSession_def CreateSession_def
        randomToken_def user_exists_def list_ex_iff)
qed



section \<open>Concrete starts\<close>

definition first_surroundings :: "int surroundings" where
  "first_surroundings = \<lparr>su_mkdir = None, su_opened = None, su_fault = sound, su_script = (\<lambda>text t. (None, t)), su_files = sample_files,
     su_stamp = ''t0'', su_crypto = sample_crypto, su_now = 0, su_salt = Some ''0123456789abcdef'', su_userID = ''user-1'', su_recording = None\<rparr>"

definition empty_store :: "db schema" where
  "empty_store = \<lparr>sc_tables = empty_db, sc_versions = None, sc_tick = 0, sc_closed = True\<rparr>"

definition guarded_config :: Config where
  "guarded_config = sample_config\<lparr>cf_AuthMode := ''local'', cf_BootstrapUser := ''admin'', cf_BootstrapPassword := ''correct horse battery'',
     cf_MFARequiredRoles := []\<rparr>"

lemma opened_once:
  "Open_store None None sound (\<lambda>text t. (None, t)) sample_files ''t0'' path \<lparr>sc_tables = t, sc_versions = None, sc_tick = 0, sc_closed = True\<rparr> =
     (None, \<lparr>sc_tables = t, sc_versions = Some [(''00001_init.sql'', ''t0''), (''00002_security_and_approvals.sql'', ''t0''), (''00003_idempotency_scope.sql'', ''t0'')],
        sc_tick = 13, sc_closed = False\<rparr>)"
proof -
  have files: "version_files sample_files = [''00001_init.sql'', ''00002_security_and_approvals.sql'', ''00003_idempotency_scope.sql'']" by code_simp
  have contents: "map_of sample_files ''00001_init.sql'' = Some (Some ''A'')" "map_of sample_files ''00002_security_and_approvals.sql'' = Some (Some ''B'')"
      "map_of sample_files ''00003_idempotency_scope.sql'' = Some (Some ''C'')"
    by (simp_all add: sample_files_def)
  show ?thesis
    by (simp add: Open_store_def pragmas_def contents statement_def sound_def applyMigrations_def create_version_table_def files version_recorded_def run_script_def
        record_version_def Let_def)
qed


lemma guarded_config_builds:
  "\<exists>a t1. Build first_surroundings guarded_config empty_store = (Inr a, t1) \<and>
     sv_mfaRequiredRoles (an_auth a) = []"
proof -
  have boot: "fst (Bootstrap sample_crypto 0 (Some ''0123456789abcdef'') ''user-1'' ''admin'' ''correct horse battery'' empty_db) = Inr ()"
    by (simp add: Bootstrap_def builtin_roles_def act_simps EnsureRole_def UserCount_def HashPassword_def derive_def sample_crypto_def sample_argon2_def
        InsertUser_def SetBreakGlass_def upsert_security_def AssignRole_def empty_db_def user_exists_def Let_def default_security_def)
  then show ?thesis
    by (auto simp: Build_def first_surroundings_def empty_store_def opened_once bootstrapped_def guarded_config_def choose_provider_def uses_agent_def
        sample_config_fields Let_def auth_service_def NewWithOptions_def split: prod.split sum.split)
qed



text \<open>
  The statements of a first start are not one transaction: when the last one fails the next start finds an account, and the
  administrator never gets the role.
\<close>

lemma interrupted_bootstrap_leaves_no_administrator:
  "let start = Bootstrap sample_crypto 0 (Some ''0123456789abcdef'') ''user-1'' ''admin'' ''correct horse battery'';
       (r, t) = start (empty_db\<lparr>db_fault := (\<lambda>n. n = 10)\<rparr>); (r', t') = start t
   in r = Inl (AuthStore IOFault) \<and> r' = Inr () \<and> length (db_users t') = 1 \<and> db_user_roles t' = []"
  by (simp add: Bootstrap_def builtin_roles_def act_simps EnsureRole_def UserCount_def HashPassword_def derive_def sample_crypto_def sample_argon2_def
      InsertUser_def SetBreakGlass_def upsert_security_def AssignRole_def empty_db_def user_exists_def Let_def default_security_def)

end
