(* ===== verification/GoRegexp.thy ===== *)
theory GoRegexp
  imports Prelude
begin

text \<open>
  The part of Go's \<open>regexp\<close> that the program uses: expressions over bytes, their matches in the order of preference
  (a match of the first alternative and a longer repetition first), and the replacement of the leftmost matches that do not overlap.
  A position is the byte before it, if any, with the rest of the text.  The expressions of the program never match the empty text.
\<close>

section \<open>Expressions\<close>

datatype rx = RxEmpty | RxByte "char \<Rightarrow> bool" | RxSeq rx rx | RxAlt rx rx | RxStar rx | RxEdge | RxStart

definition RxOpt :: "rx \<Rightarrow> rx" where
  "RxOpt r = RxAlt r RxEmpty"

definition RxPlus :: "rx \<Rightarrow> rx" where
  "RxPlus r = RxSeq r (RxStar r)"

fun RxTimes :: "nat \<Rightarrow> rx \<Rightarrow> rx" where
  "RxTimes 0 r = RxEmpty"
| "RxTimes (Suc n) r = RxSeq r (RxTimes n r)"

fun RxUpto :: "nat \<Rightarrow> rx \<Rightarrow> rx" where
  "RxUpto 0 r = RxEmpty"
| "RxUpto (Suc n) r = RxOpt (RxSeq r (RxUpto n r))"

definition RxRange :: "nat \<Rightarrow> nat \<Rightarrow> rx \<Rightarrow> rx" where
  "RxRange m n r = RxSeq (RxTimes m r) (RxUpto (n - m) r)"

fun RxAny :: "rx list \<Rightarrow> rx" where
  "RxAny [] = RxByte (\<lambda>c. False)"
| "RxAny [r] = r"
| "RxAny (r # rs) = RxAlt r (RxAny rs)"

fun RxAll :: "rx list \<Rightarrow> rx" where
  "RxAll [] = RxEmpty"
| "RxAll [r] = r"
| "RxAll (r # rs) = RxSeq r (RxAll rs)"

definition RxText :: "string \<Rightarrow> rx" where
  "RxText s = RxAll (map (\<lambda>c. RxByte (\<lambda>d. d = c)) s)"

text \<open>A letter under \<open>(?i)\<close>: U+017F folds with \<open>s\<close> and U+212A with \<open>k\<close>.\<close>

definition fold_byte :: "char \<Rightarrow> rx" where
  "fold_byte c =
     (let r = RxByte (\<lambda>d. lower_char d = lower_char c)
      in if lower_char c = CHR ''s'' then RxAlt r (RxText [CHR 0xC5, CHR 0xBF])
         else if lower_char c = CHR ''k'' then RxAlt r (RxText [CHR 0xE2, CHR 0x84, CHR 0xAA]) else r)"

definition fold_text :: "string \<Rightarrow> rx" where
  "fold_text s = RxAll (map fold_byte s)"

text \<open>\<open>[a-z]\<close> and more under \<open>(?i)\<close>.\<close>

definition fold_class :: "(char \<Rightarrow> bool) \<Rightarrow> rx" where
  "fold_class P = RxAny [RxByte (\<lambda>c. is_lower c \<or> is_upper c \<or> P c), RxText [CHR 0xC5, CHR 0xBF], RxText [CHR 0xE2, CHR 0x84, CHR 0xAA]]"

text \<open>An expression between word boundaries.\<close>

definition bounded :: "rx \<Rightarrow> rx" where
  "bounded r = RxSeq RxEdge (RxSeq r RxEdge)"

section \<open>Matches\<close>

type_synonym pos = "char option \<times> string"

definition is_word :: "char \<Rightarrow> bool" where
  "is_word c \<longleftrightarrow> is_alnum c \<or> c = CHR ''_''"

definition word_before :: "char option \<Rightarrow> bool" where
  "word_before p \<longleftrightarrow> (case p of None \<Rightarrow> False | Some c \<Rightarrow> is_word c)"

definition word_after :: "string \<Rightarrow> bool" where
  "word_after s \<longleftrightarrow> (case s of [] \<Rightarrow> False | c # _ \<Rightarrow> is_word c)"

fun star_ends :: "(pos \<Rightarrow> pos list) \<Rightarrow> nat \<Rightarrow> pos \<Rightarrow> pos list" where
  "star_ends f 0 x = [x]"
| "star_ends f (Suc n) x = concat (map (star_ends f n) (filter (\<lambda>y. length (snd y) < length (snd x)) (f x))) @ [x]"

primrec ends :: "rx \<Rightarrow> pos \<Rightarrow> pos list" where
  "ends RxEmpty x = [x]"
| "ends (RxByte P) x = (case snd x of [] \<Rightarrow> [] | c # s \<Rightarrow> if P c then [(Some c, s)] else [])"
| "ends (RxSeq a b) x = concat (map (ends b) (ends a x))"
| "ends (RxAlt a b) x = ends a x @ ends b x"
| "ends (RxStar r) x = star_ends (ends r) (length (snd x)) x"
| "ends RxEdge x = (if word_before (fst x) \<noteq> word_after (snd x) then [x] else [])"
| "ends RxStart x = (if fst x = None then [x] else [])"

datatype piece = Kept char | Match string

function pieces :: "rx \<Rightarrow> char option \<Rightarrow> string \<Rightarrow> piece list" where
  "pieces r p [] = []"
| "pieces r p (c # s) =
     (case ends r (p, c # s) of
        (q, t) # _ \<Rightarrow>
          if length t \<le> length s then Match (take (Suc (length s) - length t) (c # s)) # pieces r q t
          else Kept c # pieces r (Some c) s
      | [] \<Rightarrow> Kept c # pieces r (Some c) s)"
  by pat_completeness auto
termination
  by (relation "measure (\<lambda>(r, p, s). length s)") auto

definition emit :: "(string \<Rightarrow> string) \<Rightarrow> piece \<Rightarrow> string" where
  "emit f x = (case x of Kept c \<Rightarrow> [c] | Match m \<Rightarrow> f m)"

definition ReplaceAllFunc :: "rx \<Rightarrow> (string \<Rightarrow> string) \<Rightarrow> string \<Rightarrow> string" where
  "ReplaceAllFunc r f s = concat (map (emit f) (pieces r None s))"

definition MatchString :: "rx \<Rightarrow> string \<Rightarrow> bool" where
  "MatchString r s = list_ex (\<lambda>x. case x of Kept c \<Rightarrow> False | Match m \<Rightarrow> True) (pieces r None s)"

section \<open>What is a match\<close>

definition after :: "char option \<Rightarrow> string \<Rightarrow> char option" where
  "after p u = (if u = [] then p else Some (last u))"

text \<open>\<open>derives r p u t\<close>: the expression matches \<open>u\<close> between the byte \<open>p\<close> and the text \<open>t\<close>.\<close>

inductive derives :: "rx \<Rightarrow> char option \<Rightarrow> string \<Rightarrow> string \<Rightarrow> bool" where
  empty: "derives RxEmpty p [] t"
| byte: "P c \<Longrightarrow> derives (RxByte P) p [c] t"
| seq: "derives a p u (v @ t) \<Longrightarrow> derives b (after p u) v t \<Longrightarrow> derives (RxSeq a b) p (u @ v) t"
| left: "derives a p u t \<Longrightarrow> derives (RxAlt a b) p u t"
| right: "derives b p u t \<Longrightarrow> derives (RxAlt a b) p u t"
| none: "derives (RxStar r) p [] t"
| more: "derives r p u (v @ t) \<Longrightarrow> u \<noteq> [] \<Longrightarrow> derives (RxStar r) (after p u) v t \<Longrightarrow> derives (RxStar r) p (u @ v) t"
| edge: "word_before p \<noteq> word_after t \<Longrightarrow> derives RxEdge p [] t"
| start: "derives RxStart None [] t"

inductive_cases derives_Empty: "derives RxEmpty p u t"
inductive_cases derives_Byte: "derives (RxByte P) p u t"
inductive_cases derives_Seq: "derives (RxSeq a b) p u t"
inductive_cases derives_Alt: "derives (RxAlt a b) p u t"
inductive_cases derives_Edge: "derives RxEdge p u t"
inductive_cases derives_Start: "derives RxStart p u t"

lemmas derives_elims = derives_Empty derives_Byte derives_Seq derives_Alt derives_Edge derives_Start

lemma after_simps [simp]: "after p [] = p" "after (after p u) v = after p (u @ v)" "after p (u @ [c]) = Some c"
  by (auto simp: after_def)

definition found_at :: "rx \<Rightarrow> pos \<Rightarrow> pos \<Rightarrow> bool" where
  "found_at r x y \<longleftrightarrow> (\<exists>u. snd x = u @ snd y \<and> fst y = after (fst x) u \<and> derives r (fst x) u (snd y))"

lemma star_sound:
  assumes "\<And>x y. y \<in> set (ends r x) \<Longrightarrow> found_at r x y" "y \<in> set (star_ends (ends r) n x)"
  shows "found_at (RxStar r) x y"
  using assms(2)
proof (induction n arbitrary: x)
  case 0
  then show ?case by (auto simp: found_at_def intro: derives.none)
next
  case (Suc n)
  then consider "y = x" | z where "z \<in> set (ends r x)" "length (snd z) < length (snd x)" "y \<in> set (star_ends (ends r) n z)" by auto
  then show ?case
  proof cases
    case 2
    from Suc.IH [OF 2(3)] obtain v where v: "snd z = v @ snd y" "fst y = after (fst z) v" "derives (RxStar r) (fst z) v (snd y)"
      by (auto simp: found_at_def)
    from assms(1) [OF 2(1)] obtain u where u: "snd x = u @ snd z" "fst z = after (fst x) u" "derives r (fst x) u (snd z)"
      by (auto simp: found_at_def)
    have "u \<noteq> []" using u(1) 2(2) by auto
    then have "derives (RxStar r) (fst x) (u @ v) (snd y)" using u v by (auto intro: derives.more)
    then show ?thesis using u v by (auto simp: found_at_def)
  qed (auto simp: found_at_def intro: derives.none)
qed

lemma star_complete:
  assumes "derives q p w t" "q = RxStar r" "\<And>p u t. derives r p u t \<Longrightarrow> (after p u, t) \<in> set (ends r (p, u @ t))" "length (w @ t) \<le> n"
  shows "(after p w, t) \<in> set (star_ends (ends r) n (p, w @ t))"
  using assms(1,2,4)
proof (induction q p w t arbitrary: n)
  case (none r' p t)
  then show ?case by (cases n) auto
next
  case (more r' p u v t)
  then obtain k where k: "n = Suc k" "length (v @ t) \<le> k" by (cases n; cases u) auto
  have "(after p u, v @ t) \<in> set (ends r (p, u @ (v @ t)))" using assms(3) more.hyps(1) more.prems(1) by blast
  moreover have "(after (after p u) v, t) \<in> set (star_ends (ends r) k (after p u, v @ t))"
    using more.IH(2) more.prems(1) k(2) by blast
  ultimately have "(after p (u @ v), t) \<in> set (concat (map (star_ends (ends r) k)
      (filter (\<lambda>y. length (snd y) < length (u @ v @ t)) (ends r (p, u @ (v @ t))))))"
    using more.hyps(2) unfolding set_concat set_map set_filter after_simps(2) by (intro UN_I) auto
  then show ?case using k(1) by simp
qed auto

text \<open>The ends of a position are exactly the matches that start there.\<close>

lemma ends_sound: "y \<in> set (ends r x) \<Longrightarrow> found_at r x y"
proof (induction r arbitrary: x y)
  case (RxSeq a b)
  then obtain z where z: "z \<in> set (ends a x)" "y \<in> set (ends b z)" by auto
  from RxSeq.IH(1) [OF z(1)] RxSeq.IH(2) [OF z(2)] show ?case
    unfolding found_at_def by (metis append.assoc derives.seq after_simps(2))
next
  case (RxStar r)
  then show ?case by (auto intro: star_sound)
next
  case (RxAlt a b)
  from RxAlt.prems have "y \<in> set (ends a x) \<or> y \<in> set (ends b x)" by simp
  then have "found_at a x y \<or> found_at b x y" using RxAlt.IH by blast
  then show ?case by (auto simp: found_at_def intro: derives.left derives.right)
next
  case (RxByte P)
  then have "\<exists>c. snd x = c # snd y \<and> P c \<and> fst y = Some c" by (auto split: list.splits if_splits)
  then obtain c where "snd x = c # snd y" "P c" "fst y = Some c" by blast
  then show ?case unfolding found_at_def by (intro exI [of _ "[c]"]) (simp add: after_def derives.byte)
next
  case RxEdge
  then show ?case by (auto simp: found_at_def intro!: exI [of _ "[]"] derives.edge split: if_splits)
next
  case RxStart
  then have "y = x" "fst x = None" by (auto split: if_splits)
  then show ?case unfolding found_at_def by (intro exI [of _ "[]"]) (simp add: derives.start)
next
  case RxEmpty
  then show ?case by (simp add: found_at_def derives.empty)
qed

lemma ends_complete: "derives r p u t \<Longrightarrow> (after p u, t) \<in> set (ends r (p, u @ t))"
proof (induction r arbitrary: p u t)
  case (RxSeq a b)
  from RxSeq.prems obtain v w where "u = v @ w" "derives a p v (w @ t)" "derives b (after p v) w t" by (auto elim: derives_Seq)
  then show ?case using RxSeq.IH(1) [of p v "w @ t"] RxSeq.IH(2) [of "after p v" w t] by force
next
  case (RxStar r)
  then show ?case using star_complete [OF RxStar.prems refl] by auto
next
  case (RxAlt a b)
  from RxAlt.prems have "derives a p u t \<or> derives b p u t" by (rule derives_Alt) simp_all
  then show ?case using RxAlt.IH by auto
next
  case (RxByte P)
  from RxByte.prems obtain c where "u = [c]" "P c" by (rule derives_Byte)
  then show ?case by (simp add: after_def)
next
  case RxEdge
  from RxEdge.prems show ?case by (cases rule: derives_Edge) auto
next
  case RxStart
  from RxStart.prems show ?case by (cases rule: derives_Start) auto
next
  case RxEmpty
  from RxEmpty.prems show ?case by (cases rule: derives_Empty) auto
qed

lemma ends_iff: "(q, t) \<in> set (ends r (p, s)) \<longleftrightarrow> (\<exists>u. s = u @ t \<and> q = after p u \<and> derives r p u t)"
  using ends_sound [of "(q, t)" r "(p, s)"] ends_complete by (auto simp: found_at_def)


section \<open>What is kept and what is replaced\<close>

text \<open>A text cut into pieces: nothing matches at a kept byte, and a match is one of the expression, not empty.\<close>

primrec piece_text :: "piece \<Rightarrow> string" where
  "piece_text (Kept c) = [c]"
| "piece_text (Match m) = m"

lemma pieces_cases:
  obtains (match) q t m ys where "ends r (p, c # s) = (q, t) # ys" "c # s = m @ t" "m \<noteq> []" "q = Some (last m)" "derives r p m t"
      "pieces r p (c # s) = Match m # pieces r (Some (last m)) t"
    | (kept) "pieces r p (c # s) = Kept c # pieces r (Some c) s"
      "ends r (p, c # s) = [] \<or> snd (hd (ends r (p, c # s))) = c # s"
proof (cases "ends r (p, c # s)")
  case Nil
  then show ?thesis using kept by simp
next
  case (Cons y ys)
  obtain q t where y: "y = (q, t)" by (cases y)
  then obtain m where m: "c # s = m @ t" "q = after p m" "derives r p m t" using ends_iff [of q t r p "c # s"] Cons by auto
  show ?thesis
  proof (cases "length t \<le> length s")
    case True
    then have ne: "m \<noteq> []" using m(1) by auto
    have len: "Suc (length s) = length m + length t" using arg_cong [OF m(1), of length] by simp
    have tk: "take (Suc (length s) - length t) (c # s) = m" unfolding len m(1) by simp
    have q: "q = Some (last m)" using m(2) ne by (simp add: after_def)
    have here: "ends r (p, c # s) = (q, t) # ys" using Cons y by simp
    have "pieces r p (c # s) = Match m # pieces r (Some (last m)) t" unfolding pieces.simps here using True tk q by simp
    then show ?thesis by (rule match [OF here m(1) ne q m(3)])
  next
    case False
    then have "m = []" using arg_cong [OF m(1), of length] by (cases m) auto
    moreover have here: "ends r (p, c # s) = (q, t) # ys" using Cons y by simp
    moreover have "pieces r p (c # s) = Kept c # pieces r (Some c) s" unfolding pieces.simps here using False by simp
    ultimately show ?thesis using kept m(1) by simp
  qed
qed

lemma pieces_induct [case_names Nil Match Kept]:
  assumes "\<And>p. Q p []"
    and "\<And>p c s m t q ys. c # s = m @ t \<Longrightarrow> m \<noteq> [] \<Longrightarrow> derives r p m t \<Longrightarrow> ends r (p, c # s) = (q, t) # ys \<Longrightarrow>
      pieces r p (c # s) = Match m # pieces r (Some (last m)) t \<Longrightarrow> Q (Some (last m)) t \<Longrightarrow> Q p (c # s)"
    and "\<And>p c s. pieces r p (c # s) = Kept c # pieces r (Some c) s \<Longrightarrow> ends r (p, c # s) = [] \<or> snd (hd (ends r (p, c # s))) = c # s \<Longrightarrow>
      Q (Some c) s \<Longrightarrow> Q p (c # s)"
  shows "Q p s"
proof (induction "length s" arbitrary: p s rule: less_induct)
  case less
  show ?case
  proof (cases s)
    case Nil
    then show ?thesis using assms(1) by simp
  next
    case (Cons c s')
    show ?thesis
    proof (cases rule: pieces_cases [of r p c s'])
      case (match q t m ys)
      have "length t < length s" using arg_cong [OF match(2), of length] match(3) Cons by (cases m) auto
      then show ?thesis using assms(2) [OF match(2,3,5,1,6)] less Cons by simp
    next
      case kept
      then show ?thesis using assms(3) [OF kept] less Cons by simp
    qed
  qed
qed

lemma pieces_text: "concat (map piece_text (pieces r p s)) = s"
  by (induction p s rule: pieces_induct [where r = r]) simp_all

definition never_empty :: "rx \<Rightarrow> bool" where
  "never_empty r \<longleftrightarrow> (\<forall>p t. \<not> derives r p [] t)"

lemma kept_no_match:
  assumes "never_empty r" "ends r (p, s) = [] \<or> snd (hd (ends r (p, s))) = s"
  shows "s \<noteq> u @ t \<or> \<not> derives r p u t"
proof (cases "ends r (p, s)")
  case Nil
  then show ?thesis using ends_complete [of r p u t] by auto
next
  case (Cons y ys)
  then have "y \<in> set (ends r (p, s))" by simp
  from ends_sound [OF this] obtain v where "s = v @ snd y" "derives r p v (snd y)" by (auto simp: found_at_def)
  then have "snd y \<noteq> s" using assms(1) by (auto simp: never_empty_def)
  then show ?thesis using assms(2) Cons by simp
qed

text \<open>A text contains a match.\<close>

definition contains_match :: "rx \<Rightarrow> string \<Rightarrow> bool" where
  "contains_match r s \<longleftrightarrow> (\<exists>a u b. s = a @ u @ b \<and> derives r (after None a) u b)"

lemma MatchString_iff:
  assumes "never_empty r"
  shows "MatchString r s \<longleftrightarrow> contains_match r s"
proof -
  have "list_ex (\<lambda>x. case x of Kept c \<Rightarrow> False | Match m \<Rightarrow> True) (pieces r p s) \<longleftrightarrow> (\<exists>a u b. s = a @ u @ b \<and> derives r (after p a) u b)" for p
  proof (induction p s rule: pieces_induct [where r = r])
    case (Nil p)
    show ?case using assms by (auto simp: never_empty_def)
  next
    case (Match p c s m t q ys)
    have "\<exists>a u b. c # s = a @ u @ b \<and> derives r (after p a) u b" using Match(1,3) by (intro exI [of _ "[]"] exI [of _ m] exI [of _ t]) simp
    then show ?case using Match(5) by simp
  next
    case (Kept p c s)
    have "(\<exists>a u b. c # s = a @ u @ b \<and> derives r (after p a) u b) \<longleftrightarrow> (\<exists>a u b. s = a @ u @ b \<and> derives r (after (Some c) a) u b)" (is "?l \<longleftrightarrow> ?r")
    proof
      assume ?l
      then obtain a u b where aub: "c # s = a @ u @ b" "derives r (after p a) u b" by blast
      then have "a \<noteq> []" using kept_no_match [OF assms Kept(2)] by (metis append_Nil after_simps(1))
      then obtain a' where "a = c # a'" "s = a' @ u @ b" using aub(1) by (cases a) auto
      then show ?r using aub(2) by (auto simp: after_def split: if_splits)
    next
      assume ?r
      then obtain a u b where "s = a @ u @ b" "derives r (after (Some c) a) u b" by blast
      then show ?l by (intro exI [of _ "c # a"] exI [of _ u] exI [of _ b]) (auto simp: after_def split: if_splits)
    qed
    then show ?case using Kept(1,3) by simp
  qed
  then show ?thesis by (simp add: MatchString_def contains_match_def)
qed


section \<open>Replacements that leave no match\<close>

lemma derives_bounded:
  "derives (bounded r) p u t \<longleftrightarrow>
     word_before p \<noteq> word_after (u @ t) \<and> derives r p u t \<and> word_before (after p u) \<noteq> word_after t"
proof
  assume "derives (bounded r) p u t"
  then show "word_before p \<noteq> word_after (u @ t) \<and> derives r p u t \<and> word_before (after p u) \<noteq> word_after t"
    by (auto simp: bounded_def elim!: derives_Seq derives_Edge)
next
  assume a: "word_before p \<noteq> word_after (u @ t) \<and> derives r p u t \<and> word_before (after p u) \<noteq> word_after t"
  then have "derives (RxSeq r RxEdge) p (u @ []) t" by (intro derives.seq derives.edge) simp_all
  moreover have "derives RxEdge p [] (u @ t)" using a by (intro derives.edge) simp
  ultimately show "derives (bounded r) p u t" unfolding bounded_def using derives.seq [of RxEdge p "[]" "u" t "RxSeq r RxEdge"] by simp
qed

lemma word_simps [simp]: "word_before (Some c) \<longleftrightarrow> is_word c" "\<not> word_before None" "word_after (c # s) \<longleftrightarrow> is_word c" "\<not> word_after []"
  by (simp_all add: word_before_def word_after_def)

lemma word_after_append: "u \<noteq> [] \<Longrightarrow> word_after (u @ t) \<longleftrightarrow> is_word (hd u)"
  by (cases u) simp_all

lemma after_nonempty: "u \<noteq> [] \<Longrightarrow> after p u = Some (last u)"
  by (simp add: after_def)

text \<open>A text that is edited: bytes stay, or a part is replaced by a token in braces.\<close>

datatype edit = Same char | Put string string

primrec old_text :: "edit \<Rightarrow> string" where
  "old_text (Same c) = [c]"
| "old_text (Put m tok) = m"

primrec new_text :: "edit \<Rightarrow> string" where
  "new_text (Same c) = [c]"
| "new_text (Put m tok) = tok"

abbreviation old_of :: "edit list \<Rightarrow> string" where "old_of es \<equiv> concat (map old_text es)"
abbreviation new_of :: "edit list \<Rightarrow> string" where "new_of es \<equiv> concat (map new_text es)"

definition braced :: "string \<Rightarrow> bool" where
  "braced tok \<longleftrightarrow> (\<exists>x. tok = CHR ''{'' # x @ [CHR ''}''])"

text \<open>What is replaced is cut at the boundaries of words.\<close>

fun cut_at_words :: "char option \<Rightarrow> edit list \<Rightarrow> bool" where
  "cut_at_words p [] \<longleftrightarrow> True"
| "cut_at_words p (Same c # es) \<longleftrightarrow> cut_at_words (Some c) es"
| "cut_at_words p (Put m tok # es) \<longleftrightarrow>
     m \<noteq> [] \<and> braced tok \<and> (is_word (hd m) \<longrightarrow> \<not> word_before p) \<and> (is_word (last m) \<longrightarrow> \<not> word_after (old_of es)) \<and>
     cut_at_words (Some (last m)) es"

fun unmatched :: "rx \<Rightarrow> char option \<Rightarrow> edit list \<Rightarrow> bool" where
  "unmatched r p [] \<longleftrightarrow> True"
| "unmatched r p (Same c # es) \<longleftrightarrow> (\<forall>u t. c # old_of es = u @ t \<longrightarrow> \<not> derives r p u t) \<and> unmatched r (Some c) es"
| "unmatched r p (Put m tok # es) \<longleftrightarrow> unmatched r (Some (last m)) es"

lemma kept_prefix: "new_of es = u @ b \<Longrightarrow> CHR ''{'' \<notin> set u \<Longrightarrow> cut_at_words p es \<Longrightarrow> \<exists>es2. es = map Same u @ es2 \<and> b = new_of es2"
proof (induction u arbitrary: es p)
  case (Cons c u)
  then obtain e es' where es: "es = e # es'" by (cases es) auto
  then have "e = Same c" using Cons.prems by (cases e) (auto simp: braced_def)
  then show ?case using Cons.IH [of es'] Cons.prems es by auto
qed simp

lemma old_of_Same [simp]: "old_of (map Same u) = u" "new_of (map Same u) = u"
  by (induction u) simp_all

lemma texts_Same [simp]: "concat (map (old_text \<circ> Same) u) = u" "concat (map (new_text \<circ> Same) u) = u"
  by (induction u) simp_all

lemma cut_at_words_Same: "cut_at_words p (map Same u @ es) \<longleftrightarrow> cut_at_words (after p u) es"
  by (induction u arbitrary: p) (auto simp: after_def)

text \<open>The edits of a replacement by one token.\<close>

primrec edit_of :: "string \<Rightarrow> piece \<Rightarrow> edit" where
  "edit_of tok (Kept c) = Same c"
| "edit_of tok (Match m) = Put m tok"

definition edits :: "rx \<Rightarrow> string \<Rightarrow> char option \<Rightarrow> string \<Rightarrow> edit list" where
  "edits r tok p s = map (edit_of tok) (pieces r p s)"

lemma edits_simps [simp]:
  "edits r tok p [] = []"
  "pieces r p s = x # pieces r q t \<Longrightarrow> edits r tok p s = edit_of tok x # edits r tok q t"
  by (simp_all add: edits_def)

lemma edits_old: "old_of (edits r tok p s) = s"
  by (induction p s rule: pieces_induct [where r = r]) simp_all

lemma edits_new: "new_of (edits r tok None s) = ReplaceAllFunc r (\<lambda>m. tok) s"
proof -
  have "new_of (map (edit_of tok) ps) = concat (map (emit (\<lambda>m. tok)) ps)" for ps
  proof (induction ps)
    case (Cons x ps)
    then show ?case by (cases x) (simp_all add: emit_def)
  qed simp
  then show ?thesis by (simp add: ReplaceAllFunc_def edits_def del: map_map)
qed

lemma edits_tokens: "Put m tok' \<in> set (edits r tok p s) \<Longrightarrow> tok' = tok"
proof -
  have "Put m tok' = edit_of tok x \<Longrightarrow> tok' = tok" for x by (cases x) auto
  then show "Put m tok' \<in> set (edits r tok p s) \<Longrightarrow> tok' = tok" by (auto simp: edits_def)
qed

lemma edits_cut: "braced tok \<Longrightarrow> cut_at_words p (edits (bounded q) tok p s)"
proof (induction p s rule: pieces_induct [where r = "bounded q"])
  case (Match p c s m t q' ys)
  then have "word_before p \<noteq> word_after (m @ t) \<and> word_before (after p m) \<noteq> word_after t" by (simp add: derives_bounded)
  then show ?case using Match edits_old [of "bounded q" tok "Some (last m)" t] by (auto simp: word_after_append after_nonempty)
qed simp_all

lemma edits_unmatched: "never_empty r \<Longrightarrow> unmatched r p (edits r tok p s)"
proof (induction p s rule: pieces_induct [where r = r])
  case (Kept p c s)
  then show ?case using kept_no_match [OF Kept(4,2)] edits_old [of r tok "Some c" s] by auto
qed simp_all

lemma contains_unmatched:
  "(\<forall>a u b. old_of es = a @ u @ b \<longrightarrow> \<not> derives r (after p a) u b) \<Longrightarrow> cut_at_words p es \<Longrightarrow> unmatched r p es"
proof (induction es arbitrary: p)
  case (Cons e es)
  have front: "old_text e @ old_of es = u @ t \<Longrightarrow> \<not> derives r p u t" for u t
    using Cons.prems(1) by (metis append_Nil after_simps(1) concat.simps(2) list.simps(9))
  have rest: "\<forall>a u b. old_of es = a @ u @ b \<longrightarrow> \<not> derives r (after (after p (old_text e)) a) u b"
    using Cons.prems(1) by (metis after_simps(2) append.assoc concat.simps(2) list.simps(9))
  show ?case
  proof (cases e)
    case (Same c)
    then show ?thesis using front Cons.IH [OF rest] Cons.prems(2) by (simp add: after_def)
  next
    case (Put m tok)
    then show ?thesis using Cons.IH [OF rest] Cons.prems(2) by (simp add: after_nonempty)
  qed
qed simp

text \<open>
  An address: an expression that does not look around, whose words begin and end with word bytes and have a separator and no brace.
\<close>

locale address =
  fixes r :: rx and sep :: char
  assumes anywhere: "derives r p u t \<Longrightarrow> derives r p' u t'"
    and shape: "derives r p u t \<Longrightarrow> u \<noteq> [] \<and> is_word (hd u) \<and> is_word (last u) \<and> sep \<in> set u \<and> CHR ''{'' \<notin> set u \<and> CHR ''}'' \<notin> set u"
begin

lemma derives_iff:
  "derives (bounded r) p u t \<longleftrightarrow> derives r p u t \<and> \<not> word_before p \<and> \<not> word_after t"
  using shape [of p u t] by (auto simp: derives_bounded word_after_append after_nonempty)

lemma never_empty_bounded: "never_empty (bounded r)"
  using shape by (auto simp: never_empty_def derives_iff)

lemma none_at_front:
  assumes "cut_at_words p es" "unmatched (bounded r) p es" "word_before p' = word_before p \<or> \<not> word_after (old_of es)" "new_of es = u @ b"
  shows "\<not> derives (bounded r) p' u b"
proof
  assume d: "derives (bounded r) p' u b"
  then have sh: "derives r p' u b" "\<not> word_before p'" "\<not> word_after b" and u: "u \<noteq> []" "is_word (hd u)" "is_word (last u)" "CHR ''{'' \<notin> set u"
    using shape [of p' u b] by (simp_all add: derives_iff)
  from kept_prefix [OF assms(4) u(4) assms(1)] obtain es2 where es: "es = map Same u @ es2" "b = new_of es2" by blast
  have old: "old_of es = u @ old_of es2" by (simp only: es(1) map_append concat_append old_of_Same)
  then have "\<not> word_before p" using assms(3) sh(2) u(1,2) by (simp add: word_after_append)
  moreover have "\<not> word_after (old_of es2)"
  proof (cases es2)
    case (Cons e es3)
    have "cut_at_words (Some (last u)) es2" using assms(1) u(1) by (simp add: es(1) cut_at_words_Same after_nonempty)
    then show ?thesis using Cons sh(3) es(2) u(3) by (cases e) (auto simp: word_after_append)
  qed simp
  ultimately have "derives (bounded r) p u (old_of es2)" using anywhere [OF sh(1)] by (simp add: derives_iff)
  moreover obtain c u' where "u = c # u'" using u(1) by (cases u) auto
  ultimately show False using assms(2) old es(1) by auto
qed

lemma none_inside:
  assumes "cut_at_words p es" "unmatched (bounded r) p es" "word_before p' = word_before p \<or> \<not> word_after (old_of es)"
    and "\<forall>m tok. Put m tok \<in> set es \<longrightarrow> sep \<notin> set tok" "new_of es = a @ u @ b"
  shows "\<not> derives (bounded r) (after p' a) u b"
  using assms
proof (induction es arbitrary: p p' a)
  case Nil
  then show ?case using shape by (auto simp: derives_iff)
next
  case (Cons e es)
  show ?case
  proof (cases "a = []")
    case True
    then show ?thesis using none_at_front [OF Cons.prems(1,2,3), of u b] Cons.prems(5) by simp
  next
    case a: False
    show ?thesis
    proof (cases e)
      case (Same c)
      then obtain a' where "a = c # a'" "new_of es = a' @ u @ b" using Cons.prems(5) a by (cases a) auto
      then show ?thesis using Cons.IH [of "Some c" "Some c" a'] Cons.prems Same by (auto simp: after_def split: if_splits)
    next
      case (Put m tok)
      have new: "tok @ new_of es = a @ u @ b" using Cons.prems(5) Put by simp
      from new obtain us where "tok = a @ us \<and> us @ new_of es = u @ b \<or> a = tok @ us \<and> new_of es = us @ u @ b"
        unfolding append_eq_append_conv2 by blast
      then consider (later) a' where "a = tok @ a'" "new_of es = a' @ u @ b" | (within) v where "tok = a @ v" "v \<noteq> []" "v @ new_of es = u @ b"
        by (cases "us = []") auto
      then show ?thesis
      proof cases
        case later
        have tok: "tok \<noteq> []" "last tok = CHR ''}''" using Cons.prems(1) Put by (auto simp: braced_def)
        have "after p' a = after (Some (CHR ''}'')) a'" using later(1) tok by (auto simp: after_def)
        moreover have "word_before (Some (CHR ''}'')) = word_before (Some (last m)) \<or> \<not> word_after (old_of es)"
          using Cons.prems(1) Put by (auto simp: is_word_def is_alnum_def is_lower_def is_upper_def is_digit_def)
        ultimately show ?thesis
          using Cons.IH [of "Some (last m)" "Some (CHR ''}'')" a'] Cons.prems(1,2,4) Put later(2) by auto
      next
        case within
        have "last tok = CHR ''}''" using Cons.prems(1) Put by (auto simp: braced_def)
        then have "last v = CHR ''}''" using within(1,2) by simp
        show ?thesis
        proof
          assume "derives (bounded r) (after p' a) u b"
          then have u: "sep \<in> set u" "CHR ''}'' \<notin> set u" using shape by (auto simp: derives_iff)
          from within(3) obtain us where "v = u @ us \<or> u = v @ us" unfolding append_eq_append_conv2 by blast
          moreover have "CHR ''}'' \<in> set v" using \<open>last v = CHR ''}''\<close> within(2) last_in_set by metis
          ultimately have "prefix u v" using u(2) by auto
          then have "sep \<in> set tok" using u(1) within(1) by (auto simp: prefix_def)
          then show False using Cons.prems(4) Put by auto
        qed
      qed
    qed
  qed
qed

lemma replaced_gone:
  assumes "braced tok" "sep \<notin> set tok"
  shows "\<not> contains_match (bounded r) (ReplaceAllFunc (bounded r) (\<lambda>m. tok) s)"
proof -
  note none = none_inside [OF edits_cut [OF assms(1)] edits_unmatched [OF never_empty_bounded], of None None s]
  have "\<forall>m tok'. Put m tok' \<in> set (edits (bounded r) tok None s) \<longrightarrow> sep \<notin> set tok'" using assms(2) edits_tokens by metis
  then show ?thesis unfolding contains_match_def using none by (auto simp: edits_new)
qed

lemma kept_gone:
  assumes "braced tok" "sep \<notin> set tok" "\<not> contains_match (bounded r) s"
  shows "\<not> contains_match (bounded r) (ReplaceAllFunc (bounded q) (\<lambda>m. tok) s)"
proof -
  have "unmatched (bounded r) None (edits (bounded q) tok None s)"
    using assms(3) by (intro contains_unmatched edits_cut [OF assms(1)]) (auto simp: contains_match_def edits_old)
  note none = none_inside [OF edits_cut [OF assms(1)] this, of None]
  have "\<forall>m tok'. Put m tok' \<in> set (edits (bounded q) tok None s) \<longrightarrow> sep \<notin> set tok'" using assms(2) edits_tokens by metis
  then show ?thesis unfolding contains_match_def using none by (auto simp: edits_new)
qed

end

section \<open>Expressions that do not look around\<close>

primrec plain :: "rx \<Rightarrow> bool" where
  "plain RxEmpty = True"
| "plain (RxByte P) = True"
| "plain (RxSeq a b) \<longleftrightarrow> plain a \<and> plain b"
| "plain (RxAlt a b) \<longleftrightarrow> plain a \<and> plain b"
| "plain (RxStar r) = plain r"
| "plain RxEdge = False"
| "plain RxStart = False"

primrec rx_bytes :: "rx \<Rightarrow> char set" where
  "rx_bytes RxEmpty = {}"
| "rx_bytes (RxByte P) = Collect P"
| "rx_bytes (RxSeq a b) = rx_bytes a \<union> rx_bytes b"
| "rx_bytes (RxAlt a b) = rx_bytes a \<union> rx_bytes b"
| "rx_bytes (RxStar r) = rx_bytes r"
| "rx_bytes RxEdge = {}"
| "rx_bytes RxStart = {}"

lemma plain_anywhere: "derives r p u t \<Longrightarrow> plain r \<Longrightarrow> derives r p' u t'"
  by (induction r p u t arbitrary: p' t' rule: derives.induct) (auto intro: derives.intros)

lemma derives_bytes: "derives r p u t \<Longrightarrow> set u \<subseteq> rx_bytes r"
  by (induction rule: derives.induct) auto

lemma plain_repeats [simp]: "plain r \<Longrightarrow> plain (RxTimes n r)" "plain r \<Longrightarrow> plain (RxUpto n r)" "plain r \<Longrightarrow> plain (RxRange m n r)"
proof -
  show times: "plain r \<Longrightarrow> plain (RxTimes n r)" for n by (induction n) simp_all
  show upto: "plain r \<Longrightarrow> plain (RxUpto n r)" for n by (induction n) (simp_all add: RxOpt_def)
  show "plain r \<Longrightarrow> plain (RxRange m n r)" using times upto by (simp add: RxRange_def)
qed

lemma bytes_repeats: "rx_bytes (RxTimes n r) \<subseteq> rx_bytes r" "rx_bytes (RxUpto n r) \<subseteq> rx_bytes r" "rx_bytes (RxRange m n r) \<subseteq> rx_bytes r"
proof -
  show times: "rx_bytes (RxTimes n r) \<subseteq> rx_bytes r" for n by (induction n) auto
  show upto: "rx_bytes (RxUpto n r) \<subseteq> rx_bytes r" for n by (induction n) (auto simp: RxOpt_def)
  show "rx_bytes (RxRange m n r) \<subseteq> rx_bytes r" using times upto by (simp add: RxRange_def)
qed

text \<open>Groups of bytes, each closed by a separator, and one more group: the form of an address.\<close>

lemma derives_range:
  assumes "derives (RxRange (Suc m) n (RxByte P)) p u t"
  shows "u \<noteq> [] \<and> (\<forall>c\<in>set u. P c)"
proof -
  have "set u \<subseteq> Collect P" using derives_bytes [OF assms] bytes_repeats(3) [of "Suc m" n "RxByte P"] by auto
  moreover have "u \<noteq> []" using assms by (auto simp: RxRange_def elim!: derives_Seq derives_Byte)
  ultimately show ?thesis by auto
qed

abbreviation group_of :: "nat \<Rightarrow> (char \<Rightarrow> bool) \<Rightarrow> char \<Rightarrow> rx" where
  "group_of n P sep \<equiv> RxSeq (RxRange 1 n (RxByte P)) (RxByte (\<lambda>c. c \<in> set [sep]))"

lemma derives_groups:
  assumes "derives (RxTimes (Suc m) (group_of n P sep)) p u t"
  shows "u \<noteq> [] \<and> P (hd u) \<and> sep \<in> set u"
proof -
  obtain a b where "u = a @ sep # b" "derives (RxRange (Suc 0) n (RxByte P)) p a (sep # b @ t)"
    using assms by (auto elim!: derives_Seq derives_Byte)
  then show ?thesis using derives_range [of 0 n P p a] by (cases a) auto
qed

lemma address_groups:
  assumes "\<And>c. P c \<Longrightarrow> is_word c" "\<not> is_word sep" "sep \<noteq> CHR ''{''" "sep \<noteq> CHR ''}''"
  shows "address (RxSeq (RxRange (Suc k) m (group_of n P sep)) (RxRange 1 n (RxByte P))) sep"
proof
  let ?r = "RxSeq (RxRange (Suc k) m (group_of n P sep)) (RxRange 1 n (RxByte P))"
  show "derives ?r p u t \<Longrightarrow> derives ?r p' u t'" for p u t p' t' by (rule plain_anywhere) simp_all
  show "u \<noteq> [] \<and> is_word (hd u) \<and> is_word (last u) \<and> sep \<in> set u \<and> CHR ''{'' \<notin> set u \<and> CHR ''}'' \<notin> set u" if d: "derives ?r p u t" for p u t
  proof -
    obtain v w x where u: "u = (v @ w) @ x" and v: "derives (RxTimes (Suc k) (group_of n P sep)) p v (w @ x @ t)"
      and x: "derives (RxRange (Suc 0) n (RxByte P)) (after p (v @ w)) x t"
      using d unfolding RxRange_def [of "Suc k"] by (auto elim!: derives_Seq [of "RxSeq _ _"] derives_Seq [of "RxTimes (Suc k) _"] simp del: RxTimes.simps)
    have bytes: "set u \<subseteq> Collect P \<union> {sep}"
      using derives_bytes [OF d] bytes_repeats(3) [of "Suc k" m "group_of n P sep"] bytes_repeats(3) [of 1 n "RxByte P"] by auto
    note v1 = derives_groups [OF v] and x1 = derives_range [OF x]
    have "\<not> is_word (CHR ''{'')" "\<not> is_word (CHR ''}'')" by (simp_all add: is_word_def is_alnum_def is_lower_def is_upper_def is_digit_def)
    then have "CHR ''{'' \<notin> set u \<and> CHR ''}'' \<notin> set u" using bytes assms by auto
    moreover have "hd u = hd v" "last u = last x" using v1 x1 u by simp_all
    moreover have "last x \<in> set x" using x1 by simp
    ultimately show ?thesis using v1 x1 u assms(1) by auto
  qed
qed

section \<open>The longest run\<close>

lemma star_first: "length s \<le> n \<Longrightarrow> \<exists>q ys. star_ends (ends (RxByte P)) n (p, s) = (q, dropWhile P s) # ys"
proof (induction n arbitrary: p s)
  case (Suc n)
  show ?case
  proof (cases s)
    case (Cons c s')
    show ?thesis
    proof (cases "P c")
      case True
      then obtain q ys where "star_ends (ends (RxByte P)) n (Some c, s') = (q, dropWhile P s') # ys" using Suc Cons by fastforce
      moreover have "star_ends (ends (RxByte P)) (Suc n) (p, c # s') = star_ends (ends (RxByte P)) n (Some c, s') @ [(p, c # s')]"
        using True by simp
      ultimately show ?thesis using Cons True by (simp del: star_ends.simps ends.simps)
    next
      case False
      then show ?thesis using Cons by simp
    qed
  qed simp
qed simp

lemma concat_Cons_D: "concat xss = y # ys \<Longrightarrow> \<exists>xs\<in>set xss. \<exists>zs. xs = y # zs"
proof (induction xss)
  case (Cons xs xss)
  then show ?case by (cases xs) auto
qed simp

lemma ends_plus_first: "ends (RxPlus (RxByte P)) x = (q, t) # ys \<Longrightarrow> t = [] \<or> \<not> P (hd t)"
proof -
  assume e: "ends (RxPlus (RxByte P)) x = (q, t) # ys"
  obtain p s where x: "x = (p, s)" by (cases x)
  obtain c s' where s: "s = c # s'" "P c" using e x by (cases s) (auto simp: RxPlus_def split: if_splits)
  obtain q' ys' where "star_ends (ends (RxByte P)) (length s') (Some c, s') = (q', dropWhile P s') # ys'"
    using star_first [of s' "length s'" P "Some c"] by blast
  then have "t = dropWhile P s'" using e x s by (simp add: RxPlus_def)
  then show "t = [] \<or> \<not> P (hd t)" using hd_dropWhile by (metis)
qed

lemma ends_seq_plus_first: "ends (RxSeq a (RxPlus (RxByte P))) x = (q, t) # ys \<Longrightarrow> t = [] \<or> \<not> P (hd t)"
  unfolding ends.simps by (drule concat_Cons_D) (auto dest: ends_plus_first)

text \<open>The byte before a position does not matter to an expression that does not look around.\<close>

lemma snd_concat: "(\<And>q t. map snd (h (q, t)) = g t) \<Longrightarrow> map snd (concat (map h L)) = concat (map g (map snd L))"
  by (induction L) auto

lemma star_context:
  assumes "\<And>p s. map snd (f (p, s)) = g s"
  shows "map snd (star_ends f n (p, s)) = map snd (star_ends f n (None, s))"
proof (induction n arbitrary: p s)
  case (Suc n)
  let ?K = "\<lambda>p. filter (\<lambda>y. length (snd y) < length s) (f (p, s))"
  have "map snd (?K p) = filter (\<lambda>t. length t < length s) (g s)" for p
    by (simp add: assms [of p s, symmetric] filter_map comp_def)
  moreover have "map snd (concat (map (star_ends f n) (?K p))) = concat (map (\<lambda>t. map snd (star_ends f n (None, t))) (map snd (?K p)))" for p
    by (rule snd_concat) (rule Suc.IH)
  ultimately have "map snd (concat (map (star_ends f n) (?K p))) = map snd (concat (map (star_ends f n) (?K None)))"
    by (simp only:)
  then show ?case by (simp only: star_ends.simps map_append snd_conv list.map)
qed simp

lemma plain_context: "plain r \<Longrightarrow> map snd (ends r (p, s)) = map snd (ends r (None, s))"
proof (induction r arbitrary: p s)
  case (RxSeq a b)
  have "map snd (concat (map (ends b) (ends a (p, s)))) = concat (map (\<lambda>t. map snd (ends b (None, t))) (map snd (ends a (p, s))))" for p
    by (rule snd_concat) (rule RxSeq.IH(2), use RxSeq.prems in simp)
  moreover have "map snd (ends a (p, s)) = map snd (ends a (None, s))" by (rule RxSeq.IH(1)) (use RxSeq.prems in simp)
  ultimately show ?case by (simp only: ends.simps)
next
  case (RxAlt a b)
  have "map snd (ends a (p, s)) = map snd (ends a (None, s))" "map snd (ends b (p, s)) = map snd (ends b (None, s))"
    by (rule RxAlt.IH; use RxAlt.prems in simp)+
  then show ?case by (simp only: ends.simps map_append)
next
  case (RxStar r)
  have "map snd (ends r (p, s)) = map snd (ends r (None, s))" for p s by (rule RxStar.IH) (use RxStar.prems in simp)
  from star_context [of "ends r", OF this] show ?case by (simp only: ends.simps snd_conv)
qed (simp_all split: list.split)

lemma plain_pieces: "plain r \<Longrightarrow> pieces r p s = pieces r None s"
proof (induction "length s" arbitrary: p s rule: less_induct)
  case less
  show ?case
  proof (cases s)
    case (Cons c s')
    have ctx: "map snd (ends r (p, s)) = map snd (ends r (None, s))" by (rule plain_context [OF less.prems])
    show ?thesis
    proof (cases "ends r (p, s)")
      case Nil
      then have "ends r (None, s) = []" using ctx by simp
      then show ?thesis using Nil by (simp add: Cons)
    next
      case e: (Cons y ys)
      obtain q t where y: "y = (q, t)" by (cases y)
      then have "map snd (ends r (None, s)) = t # map snd ys" using ctx e by simp
      then obtain q' ys' where e': "ends r (None, s) = (q', t) # ys'" by (auto simp: map_eq_Cons_conv)
      have "length t \<le> length s' \<Longrightarrow> pieces r q t = pieces r q' t" using less Cons by (metis le_imp_less_Suc length_Cons)
      then show ?thesis using e e' y Cons by simp
    qed
  qed simp
qed

text \<open>What follows a byte that an expression cannot match does not matter to it.\<close>

lemma star_fuel: "length (snd x) \<le> n \<Longrightarrow> length (snd x) \<le> m \<Longrightarrow> star_ends f n x = star_ends f m x"
proof (induction n arbitrary: m x)
  case 0
  then show ?case by (cases m) auto
next
  case (Suc n)
  show ?case
  proof (cases m)
    case 0
    then show ?thesis using Suc.prems by simp
  next
    case (Suc m')
    have "star_ends f n y = star_ends f m' y" if "length (snd y) < length (snd x)" for y
      using that Suc.IH [of y m'] Suc.prems Suc by simp
    then have "map (star_ends f n) (filter (\<lambda>y. length (snd y) < length (snd x)) (f x)) =
        map (star_ends f m') (filter (\<lambda>y. length (snd y) < length (snd x)) (f x))" by (intro map_cong) auto
    then show ?thesis by (simp only: Suc star_ends.simps)
  qed
qed

definition with_rest :: "string \<Rightarrow> pos \<Rightarrow> pos" where
  "with_rest y x = (fst x, snd x @ y)"

lemma ends_keep: "c \<notin> rx_bytes r \<Longrightarrow> (q, t) \<in> set (ends r (p, w @ [c])) \<Longrightarrow> \<exists>w'. t = w' @ [c]"
proof -
  assume c: "c \<notin> rx_bytes r" and e: "(q, t) \<in> set (ends r (p, w @ [c]))"
  from ends_sound [OF e] obtain u where u: "w @ [c] = u @ t" "derives r p u t" by (auto simp: found_at_def)
  then have "c \<notin> set u" using c derives_bytes [OF u(2)] by auto
  then show "\<exists>w'. t = w' @ [c]" using u(1) by (cases t rule: rev_cases) auto
qed

lemma concat_extend: "\<forall>x\<in>set K. h (e x) = map e (h x) \<Longrightarrow> concat (map h (map e K)) = map e (concat (map h K))"
  by (induction K) auto

lemma star_extend:
  assumes "\<And>p w. f (p, w @ c # y) = map (with_rest y) (f (p, w @ [c]))" "\<And>p w q t. (q, t) \<in> set (f (p, w @ [c])) \<Longrightarrow> \<exists>w'. t = w' @ [c]"
  shows "star_ends f n (p, w @ c # y) = map (with_rest y) (star_ends f n (p, w @ [c]))"
proof (induction n arbitrary: p w)
  case (Suc n)
  let ?K = "filter (\<lambda>x. length (snd x) < length (w @ [c])) (f (p, w @ [c]))"
  have "filter (\<lambda>x. length (snd x) < length (w @ c # y)) (map (with_rest y) (f (p, w @ [c]))) = map (with_rest y) ?K"
    by (simp add: filter_map comp_def with_rest_def)
  moreover have "\<forall>x\<in>set ?K. star_ends f n (with_rest y x) = map (with_rest y) (star_ends f n x)"
  proof
    fix x
    assume "x \<in> set ?K"
    moreover obtain q t where x: "x = (q, t)" by fastforce
    ultimately have "(q, t) \<in> set (f (p, w @ [c]))" by simp
    then obtain w' where "x = (q, w' @ [c])" using assms(2) x by blast
    then show "star_ends f n (with_rest y x) = map (with_rest y) (star_ends f n x)" using Suc.IH by (simp add: with_rest_def)
  qed
  then have "concat (map (star_ends f n) (map (with_rest y) ?K)) = map (with_rest y) (concat (map (star_ends f n) ?K))" by (rule concat_extend)
  ultimately have "concat (map (star_ends f n) (filter (\<lambda>x. length (snd x) < length (w @ c # y)) (f (p, w @ c # y)))) =
      map (with_rest y) (concat (map (star_ends f n) ?K))"
    by (simp only: assms(1))
  then show ?case by (simp add: with_rest_def)
qed (simp add: with_rest_def)

lemma seq_extend:
  assumes "c \<notin> rx_bytes a" "\<And>p w. ends a (p, w @ c # y) = map (with_rest y) (ends a (p, w @ [c]))"
    "\<And>p w. ends b (p, w @ c # y) = map (with_rest y) (ends b (p, w @ [c]))"
  shows "ends (RxSeq a b) (p, w @ c # y) = map (with_rest y) (ends (RxSeq a b) (p, w @ [c]))"
proof -
  let ?K = "ends a (p, w @ [c])"
  have "\<forall>x\<in>set ?K. ends b (with_rest y x) = map (with_rest y) (ends b x)"
  proof
    fix x
    assume "x \<in> set ?K"
    moreover obtain q t where "x = (q, t)" by fastforce
    ultimately obtain w' where "x = (q, w' @ [c])" using ends_keep [OF assms(1)] by blast
    then show "ends b (with_rest y x) = map (with_rest y) (ends b x)" using assms(3) by (simp add: with_rest_def)
  qed
  from concat_extend [OF this] show ?thesis using assms(2) by simp
qed

lemma byte_extend: "ends (RxByte P) (p, w @ c # y) = map (with_rest y) (ends (RxByte P) (p, w @ [c]))"
  by (cases w) (auto simp: with_rest_def)

lemma ends_extend: "c \<notin> rx_bytes r \<Longrightarrow> plain r \<Longrightarrow> ends r (p, w @ c # y) = map (with_rest y) (ends r (p, w @ [c]))"
proof (induction r arbitrary: p w)
  case (RxSeq a b)
  show ?case by (rule seq_extend) (use RxSeq in simp_all)
next
  case (RxStar r)
  have "star_ends (ends r) (length (w @ c # y)) (p, w @ c # y) = map (with_rest y) (star_ends (ends r) (length (w @ c # y)) (p, w @ [c]))"
    by (rule star_extend) (use RxStar ends_keep in auto)
  moreover have "star_ends (ends r) (length (w @ c # y)) (p, w @ [c]) = star_ends (ends r) (length (w @ [c])) (p, w @ [c])"
    by (rule star_fuel) simp_all
  ultimately show ?case by (simp only: ends.simps snd_conv)
next
  case (RxByte P)
  show ?case by (rule byte_extend)
qed (simp_all add: with_rest_def)

primrec avoids :: "char \<Rightarrow> rx \<Rightarrow> bool" where
  "avoids c RxEmpty = True"
| "avoids c (RxByte P) = (\<not> P c)"
| "avoids c (RxSeq a b) \<longleftrightarrow> avoids c a \<and> avoids c b"
| "avoids c (RxAlt a b) \<longleftrightarrow> avoids c a \<and> avoids c b"
| "avoids c (RxStar r) = avoids c r"
| "avoids c RxEdge = True"
| "avoids c RxStart = True"

lemma avoids_iff: "avoids c r \<longleftrightarrow> c \<notin> rx_bytes r"
  by (induction r) auto

lemma RxAll_facts [simp]: "plain (RxAll rs) \<longleftrightarrow> list_all plain rs" "avoids c (RxAll rs) \<longleftrightarrow> list_all (avoids c) rs"
  by (induction rs rule: RxAll.induct) auto

lemma RxAny_facts [simp]: "plain (RxAny rs) \<longleftrightarrow> list_all plain rs" "avoids c (RxAny rs) \<longleftrightarrow> list_all (avoids c) rs"
  by (induction rs rule: RxAny.induct) auto

lemma RxText_facts [simp]: "plain (RxText s)" "avoids c (RxText s) \<longleftrightarrow> c \<notin> set s"
  by (auto simp: RxText_def list_all_iff)

lemma fold_byte_facts:
  "plain (fold_byte d)"
  "lower_char c = c \<Longrightarrow> c \<notin> set [CHR 0xC5, CHR 0xBF, CHR 0xE2, CHR 0x84, CHR 0xAA] \<Longrightarrow> avoids c (fold_byte d) \<longleftrightarrow> lower_char d \<noteq> c"
  by (auto simp: fold_byte_def Let_def)

lemma fold_text_facts [simp]:
  "plain (fold_text s)"
  "lower_char c = c \<Longrightarrow> c \<notin> set [CHR 0xC5, CHR 0xBF, CHR 0xE2, CHR 0x84, CHR 0xAA] \<Longrightarrow> avoids c (fold_text s) \<longleftrightarrow> list_all (\<lambda>d. lower_char d \<noteq> c) s"
  by (simp_all add: fold_text_def list_all_iff fold_byte_facts)

text \<open>Simple matches.\<close>

lemma derives_star_bytes: "list_all P u \<Longrightarrow> derives (RxStar (RxByte P)) p u t"
proof (induction u arbitrary: p)
  case (Cons c u)
  then have "derives (RxStar (RxByte P)) p ([c] @ u) t" by (intro derives.more derives.byte) simp_all
  then show ?case by simp
qed (simp add: derives.none)

lemma derives_RxAll_Cons: "derives r p u (v @ t) \<Longrightarrow> derives (RxAll rs) (after p u) v t \<Longrightarrow> derives (RxAll (r # rs)) p (u @ v) t"
  by (cases rs) (auto intro: derives.seq elim: derives_Empty)

lemma derives_fold_text: "map lower_char u = map lower_char s \<Longrightarrow> derives (fold_text s) p u t"
proof (induction s arbitrary: u p)
  case (Cons c s)
  then obtain d v where u: "u = d # v" "lower_char d = lower_char c" "map lower_char v = map lower_char s" by (cases u) auto
  have "derives (RxByte (\<lambda>d. lower_char d = lower_char c)) p [d] (v @ t)" by (rule derives.byte) (rule u(2))
  then have "derives (fold_byte c) p [d] (v @ t)"
    unfolding fold_byte_def Let_def by (auto simp only: split: if_splits intro: derives.left)
  then have "derives (RxAll (fold_byte c # map fold_byte s)) p ([d] @ v) t"
    using Cons.IH [OF u(3)] by (intro derives_RxAll_Cons) (simp_all add: fold_text_def)
  then show ?case by (simp add: fold_text_def u(1))
qed (simp add: fold_text_def derives.empty)

lemma derives_RxAny: "r \<in> set rs \<Longrightarrow> derives r p u t \<Longrightarrow> derives (RxAny rs) p u t"
  by (induction rs rule: RxAny.induct) (auto intro: derives.left derives.right)

end
