(* ===== verification/Sanitize.thy ===== *)
theory Sanitize
  imports Fixture JsonRound GoRegexp
begin

text \<open>
  Sanitising a collection: \<open>src/backend/internal/fixturecollector/sanitize.go\<close>.  Decoding the sanitised document into the records is
  the argument \<open>unmarshal\<close>, the order in which the entries of an object are visited is \<open>order\<close>, and \<open>orbit\<close> is what a rune
  beyond ASCII folds with.  Numbers pass through \<open>float64\<close>, which keeps those of a collection.
\<close>

section \<open>Expressions\<close>

record SanitizeOptions =
  so_Hostname :: bool
  so_IPs :: bool
  so_Domains :: bool
  so_Users :: bool
  so_SIDs :: bool
  so_Paths :: bool

definition SafeSanitizeOptions :: SanitizeOptions where
  "SafeSanitizeOptions = \<lparr>so_Hostname = True, so_IPs = True, so_Domains = True, so_Users = True, so_SIDs = True, so_Paths = True\<rparr>"

abbreviation byte_of :: "char list \<Rightarrow> rx" where
  "byte_of cs \<equiv> RxByte (\<lambda>c. c \<in> set cs)"

definition is_hex :: "char \<Rightarrow> bool" where
  "is_hex c \<longleftrightarrow> is_digit c \<or> c \<in> set ''abcdefABCDEF''"

definition ipv4_address :: rx where
  "ipv4_address = RxSeq (RxRange 3 3 (RxSeq (RxRange 1 3 (RxByte is_digit)) (byte_of ''.''))) (RxRange 1 3 (RxByte is_digit))"

definition ipv6_address :: rx where
  "ipv6_address = RxSeq (RxRange 2 7 (RxSeq (RxRange 1 4 (RxByte is_hex)) (byte_of '':''))) (RxRange 1 4 (RxByte is_hex))"

definition ipv4Pattern :: rx where
  "ipv4Pattern = bounded ipv4_address"

definition ipv6Pattern :: rx where
  "ipv6Pattern = bounded ipv6_address"

definition label_pattern :: rx where
  "label_pattern = RxSeq (fold_class is_digit)
     (RxOpt (RxSeq (RxStar (fold_class (\<lambda>c. is_digit c \<or> c = CHR ''-''))) (fold_class is_digit)))"

definition domainPattern :: rx where
  "domainPattern = bounded (RxSeq (RxPlus (RxSeq label_pattern (byte_of ''.''))) (RxRange 2 63 (fold_class (\<lambda>c. False))))"

definition sidPattern :: rx where
  "sidPattern = bounded (RxAll [fold_text ''S-1-'', RxRange 1 14 (RxSeq (RxPlus (RxByte is_digit)) (byte_of ''-'')), RxPlus (RxByte is_digit)])"

definition backslash :: char where "backslash = CHR 0x5C"

definition domainUserPattern :: rx where
  "domainUserPattern = bounded (RxAll [RxPlus (RxByte (\<lambda>c. is_alnum c \<or> c \<in> set ''_.-'')), RxByte (\<lambda>c. c = backslash),
     RxPlus (RxByte (\<lambda>c. is_alnum c \<or> c \<in> set ''_.@ -''))])"

definition path_char :: "char \<Rightarrow> bool" where
  "path_char c \<longleftrightarrow> is_alnum c \<or> c \<in> set ''._@%+,-''"

definition pathPattern :: rx where
  "pathPattern = RxSeq
     (RxSeq (RxAlt RxStart (byte_of ([CHR 0x09, CHR 0x0A, CHR 0x0B, CHR 0x0C, CHR 0x0D, CHR 0x20, CHR 0x22, CHR 0x27] @ ''=:('')))
       (RxSeq (byte_of ''/'') (RxStar (RxSeq (RxPlus (RxByte path_char)) (byte_of ''/'')))))
     (RxPlus (RxByte path_char))"

definition secret_words :: "rx list" where
  "secret_words = [fold_text ''password'', fold_text ''passwd'', fold_text ''secret'', fold_text ''token'', fold_text ''credential'',
     fold_text ''authorization'', fold_text ''cookie'', RxAll [fold_text ''private'', RxOpt (byte_of ''_ -''), fold_text ''key''],
     fold_text ''keytab'', fold_text ''totp'', fold_text ''otp'', RxAll [fold_text ''recovery'', RxOpt (byte_of ''_ -''), fold_text ''code'']]"

definition line_end :: "char \<Rightarrow> bool" where
  "line_end c \<longleftrightarrow> c = CHR 0x0A \<or> c = CHR 0x0D"

text \<open>The group of \<open>secretAssignment\<close>, and what follows it on the line.\<close>

definition secret_group :: rx where
  "secret_group = RxAll [RxAny secret_words, RxStar (RxByte (\<lambda>c. \<not> line_end c \<and> c \<noteq> CHR ''='' \<and> c \<noteq> CHR '':'')), byte_of ''=:'']"

definition secretAssignment :: rx where
  "secretAssignment = RxSeq secret_group (RxStar (RxByte (\<lambda>c. \<not> line_end c)))"

definition privateKeyPattern :: rx where
  "privateKeyPattern = RxAll [fold_text ''-----BEGIN '', RxStar (fold_class (\<lambda>c. is_digit c \<or> c = CHR '' '')), fold_text ''PRIVATE KEY-----'']"

definition ticketPattern :: rx where
  "ticketPattern = RxAny [fold_text ''ticket cache:'', fold_text ''krb5ccname='']"

section \<open>Texts\<close>

record tokens =
  tk_paths :: "(string \<times> string) list"
  tk_sequence :: nat

definition no_tokens :: tokens where
  "no_tokens = \<lparr>tk_paths = [], tk_sequence = 0\<rparr>"

definition system_prefixes :: "string list" where
  "system_prefixes = [''/bin/'', ''/sbin/'', ''/usr/'', ''/etc/'', ''/dev/'', ''/var/run/'', ''/var/log/'']"

definition path_token :: "nat \<Rightarrow> string" where
  "path_token n = ''{PATH_'' @ FormatUint n @ ''}''"

definition redactor_path :: "string \<Rightarrow> tokens \<Rightarrow> string \<times> tokens" where
  "redactor_path v st =
     (if list_ex (HasPrefix v) system_prefixes then (v, st)
      else case map_of (tk_paths st) v of
        Some token \<Rightarrow> (token, st)
      | None \<Rightarrow>
          (let n = Suc (tk_sequence st); token = path_token n
           in (token, \<lparr>tk_paths = map_set v token (tk_paths st), tk_sequence = n\<rparr>)))"

definition replaced_path :: "string \<Rightarrow> tokens \<Rightarrow> string \<times> tokens" where
  "replaced_path m st =
     (if HasPrefix m ''/'' then redactor_path m st
      else let (token, st1) = redactor_path (drop 1 m) st in (take 1 m @ token, st1))"

text \<open>The replacement that numbers the paths, piece by piece.\<close>

fun path_pieces :: "piece list \<Rightarrow> tokens \<Rightarrow> string \<times> tokens" where
  "path_pieces [] st = ([], st)"
| "path_pieces (Kept c # ps) st = (let (out, st1) = path_pieces ps st in (c # out, st1))"
| "path_pieces (Match m # ps) st =
     (let (token, st1) = replaced_path m st; (out, st2) = path_pieces ps st1 in (token @ out, st2))"

function runes :: "string \<Rightarrow> string list" where
  "runes s = (if s = [] then [] else let n = max 1 (rune_len s) in take n s # runes (drop n s))"
  by pat_completeness auto
termination
  by (relation "measure length") auto

declare runes.simps [simp del]

definition fold_rune :: "(string \<Rightarrow> string list) \<Rightarrow> string \<Rightarrow> rx" where
  "fold_rune orbit r =
     (case r of
        [c] \<Rightarrow> if is_lower c \<or> is_upper c then fold_byte c else RxText r
      | _ \<Rightarrow> RxAny (map RxText (r # orbit r)))"

definition replaceFold :: "(string \<Rightarrow> string list) \<Rightarrow> string \<Rightarrow> string \<Rightarrow> string \<Rightarrow> string" where
  "replaceFold orbit v old replacement = ReplaceAllFunc (RxAll (map (fold_rune orbit) (runes old))) (\<lambda>m. replacement) v"

fun replace_hostnames :: "(string \<Rightarrow> string list) \<Rightarrow> string list \<Rightarrow> string \<Rightarrow> string" where
  "replace_hostnames orbit [] v = v"
| "replace_hostnames orbit (h # hs) v =
     replace_hostnames orbit hs (if TrimSpace h \<noteq> [] then replaceFold orbit v h ''{HOSTNAME}'' else v)"

text \<open>\<open>${1}\<close> is the text of the group: the group's first match within the match.\<close>

definition group_text :: "string \<Rightarrow> string" where
  "group_text m = (case ends secret_group (None, m) of [] \<Rightarrow> [] | (q, t) # _ \<Rightarrow> take (length m - length t) m)"

definition redact_secrets :: "string \<Rightarrow> string" where
  "redact_secrets v = ReplaceAllFunc secretAssignment (\<lambda>m. group_text m @ ''[REDACTED]'') v"

definition enabled :: "bool \<Rightarrow> ('a \<Rightarrow> 'a) \<Rightarrow> 'a \<Rightarrow> 'a" where
  "enabled b f v = (if b then f v else v)"

text \<open>The replacements that need no state, in their order.\<close>

definition redact_identity :: "(string \<Rightarrow> string list) \<Rightarrow> SanitizeOptions \<Rightarrow> string list \<Rightarrow> string \<Rightarrow> string" where
  "redact_identity orbit op hostnames v =
     (let v1 = redact_secrets v;
          v2 = enabled (so_Hostname op) (replace_hostnames orbit hostnames) v1;
          v3 = enabled (so_SIDs op) (ReplaceAllFunc sidPattern (\<lambda>m. ''{SID}'')) v2
      in enabled (so_Users op) (ReplaceAllFunc domainUserPattern (\<lambda>m. ''{DOMAIN_USER}'')) v3)"

definition redact_addresses :: "SanitizeOptions \<Rightarrow> string \<Rightarrow> string" where
  "redact_addresses op v =
     (let v1 = enabled (so_IPs op) (\<lambda>w. ReplaceAllFunc ipv6Pattern (\<lambda>m. ''{IPV6}'') (ReplaceAllFunc ipv4Pattern (\<lambda>m. ''{IP}'') w)) v
      in enabled (so_Domains op) (ReplaceAllFunc domainPattern (\<lambda>m. ''{DOMAIN}'')) v1)"

definition redactor_string :: "(string \<Rightarrow> string list) \<Rightarrow> SanitizeOptions \<Rightarrow> string list \<Rightarrow> string \<Rightarrow> tokens \<Rightarrow> string \<times> tokens" where
  "redactor_string orbit op hostnames v st =
     (let w = redact_addresses op (redact_identity orbit op hostnames v)
      in if so_Paths op then path_pieces (pieces pathPattern None w) st else (w, st))"

section \<open>Documents\<close>

definition key_markers :: "string list" where
  "key_markers = [''password'', ''passwd'', ''secret'', ''token'', ''credential'', ''authorization'', ''cookie'', ''privatekey'', ''keytab'',
     ''ticket'', ''totp'', ''otp'', ''recoverycode'']"

definition secret_key :: "string \<Rightarrow> bool" where
  "secret_key key =
     (let normalized = ToLower (remove_chars {CHR ''_'', CHR ''-''} key) in list_ex (Contains normalized) key_markers)"

text \<open>The two values that are left alone: the id of a capability, and the path of the configuration.\<close>

definition exempt :: "object \<Rightarrow> string \<Rightarrow> json \<Rightarrow> bool" where
  "exempt m key item \<longleftrightarrow>
     key = ''id'' \<and> map_of m ''feature'' \<noteq> None \<and> map_of m ''state'' \<noteq> None \<or>
     key = ''configurationPath'' \<and> item = JStr ''/usr/local/etc/smb4.conf''"

fun visit_all :: "('s \<Rightarrow> 'a \<times> 's) list \<Rightarrow> 's \<Rightarrow> 'a list \<times> 's" where
  "visit_all [] st = ([], st)"
| "visit_all (f # fs) st = (let (x, st1) = f st; (xs, st2) = visit_all fs st1 in (x # xs, st2))"

definition visit_entry :: "object \<Rightarrow> (string \<times> (tokens \<Rightarrow> json \<times> tokens)) list \<Rightarrow> string \<Rightarrow> tokens \<Rightarrow> (string \<times> json) \<times> tokens" where
  "visit_entry m visits key st =
     (case (map_of m key, map_of visits key) of
        (Some item, Some visit) \<Rightarrow>
          if secret_key key then ((key, JStr ''[REDACTED]''), st)
          else if exempt m key item then ((key, item), st)
          else let (v, st1) = visit st in ((key, v), st1)
      | _ \<Rightarrow> ((key, JNull), st))"

definition in_place :: "object \<Rightarrow> object \<Rightarrow> object" where
  "in_place m new = map (\<lambda>(key, item). (key, case map_of new key of None \<Rightarrow> item | Some v \<Rightarrow> v)) m"

primrec redactValue :: "(string list \<Rightarrow> string list) \<Rightarrow> (string \<Rightarrow> tokens \<Rightarrow> string \<times> tokens) \<Rightarrow> json \<Rightarrow> tokens \<Rightarrow> json \<times> tokens" where
  "redactValue order f JNull = (\<lambda>st. (JNull, st))"
| "redactValue order f (JBool b) = (\<lambda>st. (JBool b, st))"
| "redactValue order f (JNum n) = (\<lambda>st. (JNum n, st))"
| "redactValue order f (JStr s) = (\<lambda>st. let (t, st1) = f s st in (JStr t, st1))"
| "redactValue order f (JArr vs) = (\<lambda>st. let (ws, st1) = visit_all (map (redactValue order f) vs) st in (JArr ws, st1))"
| "redactValue order f (JObj m) = (\<lambda>st.
     let (new, st1) = visit_all (map (visit_entry m (map (map_prod id (redactValue order f)) m)) (order (map fst m))) st
     in (JObj (in_place m new), st1))"
| "redactValue order f JUnencodable = (\<lambda>st. (JUnencodable, st))"

section \<open>Collections\<close>

definition CommandCapture_json :: "CommandCapture \<Rightarrow> json" where
  "CommandCapture_json c = JObj
     ([(''executable'', JStr (cc_Executable c)), (''arguments'', strings_json (cc_Arguments c))]
      @ omitempty ''stdout'' (cc_Stdout c) @ omitempty ''stderr'' (cc_Stderr c) @ [(''exitCode'', JNum (cc_ExitCode c))]
      @ omitempty ''error'' (cc_Error c))"

definition Fixture_json :: "'f floats \<Rightarrow> 'f Fixture \<Rightarrow> json" where
  "Fixture_json F x = JObj
     ([(''schemaVersion'', JNum (fx_SchemaVersion x)), (''collectedAt'', JStr (RFC3339Nano (fx_CollectedAt x))), (''source'', JStr (fx_Source x)),
       (''sanitized'', JBool (fx_Sanitized x)), (''system'', SystemInfo_json F (fx_System x)),
       (''filesystems'', slice_json (FileSystem_json F) (fx_Filesystems x)), (''samba'', SambaInfo_json (fx_Samba x)),
       (''domain'', DomainState_json (fx_Domain x)), (''cups'', CupsInfo_json (fx_Cups x)),
       (''capabilities'', slice_json Capability_json (fx_Capabilities x)), (''commands'', JArr (map CommandCapture_json (fx_Commands x)))]
      @ (case fx_Errors x of None \<Rightarrow> [] | Some es \<Rightarrow> unless (es = []) ''errors'' (JObj (sort_keys (map (\<lambda>(k, e). (k, JStr e)) es)))))"

datatype sanitize_error = NotSerialised | ForbiddenMaterial | BadHostname | NotDecoded

definition restored :: "CommandCapture list \<Rightarrow> CommandCapture list \<Rightarrow> CommandCapture list" where
  "restored input result =
     map (\<lambda>(c, old). c\<lparr>cc_Executable := cc_Executable old, cc_Arguments := cc_Arguments old\<rparr>) (zip result input) @ drop (length input) result"

text \<open>\<open>json.Marshal\<close> of a record keeps the order of its fields.\<close>

primrec printed :: "json \<Rightarrow> string" where
  "printed JNull = ''null''"
| "printed (JBool b) = (if b then ''true'' else ''false'')"
| "printed (JNum n) = FormatInt n"
| "printed (JStr s) = quote s"
| "printed (JArr vs) = ''['' @ Join (map printed vs) '','' @ '']''"
| "printed (JObj m) = ''{'' @ Join (map (\<lambda>(k, v). quote k @ '':'' @ v) (map (map_prod id printed) m)) '','' @ ''}''"
| "printed JUnencodable = []"

text \<open>The document of a collection, sanitised; a hostname that is no UTF-8 makes \<open>regexp.MustCompile\<close> panic.\<close>

definition sanitized_document ::
    "(string list \<Rightarrow> string list) \<Rightarrow> (string \<Rightarrow> string list) \<Rightarrow> 'f floats \<Rightarrow> 'f Fixture \<Rightarrow> SanitizeOptions \<Rightarrow> sanitize_error + json" where
  "sanitized_document order orbit F input op =
     (let doc = Fixture_json F input; hostnames = [sy_FQDN (fx_System input), sy_Hostname (fx_System input)]
      in if \<not> encodable doc then Inl NotSerialised
         else if MatchString privateKeyPattern (printed doc) \<or> MatchString ticketPattern (printed doc) then Inl ForbiddenMaterial
         else if so_Hostname op \<and> list_ex (\<lambda>h. TrimSpace h \<noteq> [] \<and> valid_utf8 h \<noteq> h) hostnames then Inl BadHostname
         else Inr (fst (redactValue order (redactor_string orbit op hostnames) (decoded doc) no_tokens)))"

definition Sanitize ::
    "(string list \<Rightarrow> string list) \<Rightarrow> (string \<Rightarrow> string list) \<Rightarrow> (json \<Rightarrow> 'f Fixture option) \<Rightarrow> 'f floats \<Rightarrow> 'f Fixture \<Rightarrow> SanitizeOptions
       \<Rightarrow> sanitize_error + 'f Fixture" where
  "Sanitize order orbit unmarshal F input op =
     (case sanitized_document order orbit F input op of
        Inl e \<Rightarrow> Inl e
      | Inr document \<Rightarrow>
          (case unmarshal (decoded document) of
             None \<Rightarrow> Inl NotDecoded
           | Some result \<Rightarrow>
               Inr (result\<lparr>fx_Commands := restored (fx_Commands input) (fx_Commands result), fx_Sanitized := True\<rparr>)))"

section \<open>No address is left\<close>

lemma is_word_digit: "is_digit c \<Longrightarrow> is_word c"
  by (simp add: is_word_def is_alnum_def)

lemma is_word_hex: "is_hex c \<Longrightarrow> is_word c"
  by (auto simp: is_hex_def is_word_def is_alnum_def is_lower_def is_upper_def)

lemma not_word: "\<not> is_word (CHR ''.'')" "\<not> is_word (CHR '':'')" "\<not> is_word (CHR ''/'')"
  by (simp_all add: is_word_def is_alnum_def is_lower_def is_upper_def is_digit_def)

interpretation ipv4: address ipv4_address "CHR ''.''"
  using address_groups [where P = is_digit and sep = "CHR ''.''" and k = 2 and m = 3 and n = 3] is_word_digit not_word
  by (simp add: ipv4_address_def eval_nat_numeral del: RxTimes.simps)

interpretation ipv6: address ipv6_address "CHR '':''"
  using address_groups [where P = is_hex and sep = "CHR '':''" and k = 1 and m = 7 and n = 4] is_word_hex not_word
  by (simp add: ipv6_address_def eval_nat_numeral del: RxTimes.simps)

text \<open>The tokens have braces and neither separator.\<close>

lemma bracedI: "braced (CHR ''{'' # x @ [CHR ''}''])"
  by (auto simp: braced_def)

lemma addresses_tokens:
  "braced ''{IP}''" "braced ''{IPV6}''" "braced ''{DOMAIN}''"
  using bracedI [of "''IP''"] bracedI [of "''IPV6''"] bracedI [of "''DOMAIN''"] by simp_all

definition no_address :: "string \<Rightarrow> bool" where
  "no_address s \<longleftrightarrow> \<not> contains_match ipv4Pattern s \<and> \<not> contains_match ipv6Pattern s"

lemma redact_addresses_none: "so_IPs op \<Longrightarrow> no_address (redact_addresses op v)"
proof -
  assume ips: "so_IPs op"
  let ?w = "ReplaceAllFunc ipv4Pattern (\<lambda>m. ''{IP}'') v"
  let ?x = "ReplaceAllFunc ipv6Pattern (\<lambda>m. ''{IPV6}'') ?w"
  have w: "\<not> contains_match ipv4Pattern ?w" unfolding ipv4Pattern_def by (rule ipv4.replaced_gone) (simp_all add: addresses_tokens)
  have x: "\<not> contains_match ipv4Pattern ?x" "\<not> contains_match ipv6Pattern ?x"
    using ipv4.kept_gone [OF addresses_tokens(2), of ?w ipv6_address] ipv6.replaced_gone [OF addresses_tokens(2), of ?w] w
    by (simp_all add: ipv4Pattern_def ipv6Pattern_def)
  have "no_address (ReplaceAllFunc domainPattern (\<lambda>m. ''{DOMAIN}'') ?x)"
    using x ipv4.kept_gone [OF addresses_tokens(3), of ?x] ipv6.kept_gone [OF addresses_tokens(3), of ?x]
    by (simp add: no_address_def domainPattern_def ipv4Pattern_def ipv6Pattern_def)
  then show ?thesis using ips x by (simp add: redact_addresses_def enabled_def no_address_def Let_def)
qed

text \<open>The replacement of paths as edits.\<close>

definition path_edit :: "string \<Rightarrow> string \<Rightarrow> edit list" where
  "path_edit m out = (if out = m then map Same m else if HasPrefix m ''/'' then [Put m out] else [Same (hd m), Put (tl m) (tl out)])"

fun path_edits :: "piece list \<Rightarrow> tokens \<Rightarrow> edit list" where
  "path_edits [] st = []"
| "path_edits (Kept c # ps) st = Same c # path_edits ps st"
| "path_edits (Match m # ps) st = (let (out, st1) = replaced_path m st in path_edit m out @ path_edits ps st1)"

definition tokens_sound :: "tokens \<Rightarrow> bool" where
  "tokens_sound st \<longleftrightarrow>
     (\<forall>(v, token)\<in>set (tk_paths st). \<exists>n. 1 \<le> n \<and> n \<le> tk_sequence st \<and> token = path_token n) \<and> distinct (map snd (tk_paths st)) \<and>
     distinct (map fst (tk_paths st))"

lemma no_tokens_sound: "tokens_sound no_tokens"
  by (simp add: tokens_sound_def no_tokens_def)

lemma path_token_inject: "path_token m = path_token n \<Longrightarrow> m = n"
  by (simp add: path_token_def) (metis digits_value_FormatUint)

lemma redactor_path_cases:
  assumes "redactor_path v st = (out, st1)" "tokens_sound st"
  shows "tokens_sound st1 \<and> map_of (tk_paths st) \<subseteq>\<^sub>m map_of (tk_paths st1) \<and>
    (list_ex (HasPrefix v) system_prefixes \<and> out = v \<or>
     \<not> list_ex (HasPrefix v) system_prefixes \<and> (\<exists>n. out = path_token n) \<and> map_of (tk_paths st1) v = Some out)"
proof (cases "list_ex (HasPrefix v) system_prefixes")
  case True
  then show ?thesis using assms by (simp add: redactor_path_def)
next
  case new: False
  show ?thesis
  proof (cases "map_of (tk_paths st) v")
    case None
    then have fresh: "v \<notin> fst ` set (tk_paths st)" by (simp add: map_of_eq_None_iff)
    let ?n = "Suc (tk_sequence st)"
    have st1: "st1 = \<lparr>tk_paths = tk_paths st @ [(v, path_token ?n)], tk_sequence = ?n\<rparr>" "out = path_token ?n"
      using assms(1) new None by (auto simp: redactor_path_def Let_def map_set_new [OF fresh])
    have "path_token ?n \<notin> snd ` set (tk_paths st)"
    proof
      assume "path_token ?n \<in> snd ` set (tk_paths st)"
      then obtain w where "(w, path_token ?n) \<in> set (tk_paths st)" by force
      then obtain k where k: "k \<le> tk_sequence st" "path_token ?n = path_token k" using assms(2) unfolding tokens_sound_def by blast
      then show False using path_token_inject [OF k(2)] by simp
    qed
    moreover have "\<forall>(w, token)\<in>set (tk_paths st). \<exists>n. 1 \<le> n \<and> n \<le> ?n \<and> token = path_token n"
    proof clarify
      fix w token
      assume "(w, token) \<in> set (tk_paths st)"
      then obtain k where "1 \<le> k" "k \<le> tk_sequence st" "token = path_token k" using assms(2) unfolding tokens_sound_def by blast
      then show "\<exists>n. 1 \<le> n \<and> n \<le> ?n \<and> token = path_token n" by (intro exI [of _ k]) simp
    qed
    ultimately have "tokens_sound st1" using assms(2) fresh unfolding st1(1) by (auto simp: tokens_sound_def)
    moreover have "map_of (tk_paths st1) = (map_of (tk_paths st))(v \<mapsto> out)" using None st1 by (auto simp: fun_eq_iff map_add_def split: option.split)
    ultimately show ?thesis using new None st1(2) by (auto simp: map_le_def)
  next
    case (Some token)
    then have "(v, token) \<in> set (tk_paths st)" by (rule map_of_SomeD)
    then have "\<exists>n. token = path_token n" using assms(2) by (auto simp: tokens_sound_def)
    then show ?thesis using assms new Some by (auto simp: redactor_path_def)
  qed
qed

lemma path_token_braced: "braced (path_token n) \<and> CHR ''.'' \<notin> set (path_token n) \<and> CHR '':'' \<notin> set (path_token n)"
proof -
  have "braced (path_token n)" using bracedI [of "''PATH_'' @ FormatUint n"] by (simp add: path_token_def)
  moreover have "CHR ''.'' \<notin> set (FormatUint n)" "CHR '':'' \<notin> set (FormatUint n)"
    using FormatUint_digits [of n] by (auto simp: list_all_iff is_digit_def)
  ultimately show ?thesis by (simp add: path_token_def)
qed

text \<open>A path is found after the start of the text or one byte, and is followed by no byte of a path.\<close>

definition path_match :: "string \<Rightarrow> bool" where
  "path_match m \<longleftrightarrow> (\<exists>m'. m = CHR ''/'' # m') \<or> (\<exists>c m'. m = c # CHR ''/'' # m' \<and> c \<noteq> CHR ''/'')"

lemma pathPattern_shape: "derives pathPattern p m t \<Longrightarrow> path_match m"
  unfolding pathPattern_def path_match_def
  by (auto elim!: derives_Seq derives_Alt derives_Start derives_Byte)

lemma pathPattern_follow: "ends pathPattern x = (q, t) # ys \<Longrightarrow> \<not> word_after t"
proof -
  assume "ends pathPattern x = (q, t) # ys"
  then have "t = [] \<or> \<not> path_char (hd t)" unfolding pathPattern_def by (rule ends_seq_plus_first)
  then show "\<not> word_after t" by (cases t) (auto simp: path_char_def is_word_def)
qed

lemma path_edit_unchanged:
  "m \<noteq> [] \<Longrightarrow> old_of (path_edit m m) = m \<and> new_of (path_edit m m) = m \<and> (\<forall>old tok. Put old tok \<notin> set (path_edit m m)) \<and>
     cut_at_words p (path_edit m m @ es) = cut_at_words (Some (last m)) es"
  by (auto simp: path_edit_def cut_at_words_Same after_nonempty)

lemma replaced_path_cases:
  assumes "replaced_path m st = (out, st1)" "tokens_sound st" "path_match m"
  shows "tokens_sound st1 \<and> old_of (path_edit m out) = m \<and> new_of (path_edit m out) = out \<and>
     (\<forall>old tok. Put old tok \<in> set (path_edit m out) \<longrightarrow> CHR ''.'' \<notin> set tok \<and> CHR '':'' \<notin> set tok) \<and>
     (\<not> word_after (old_of es) \<longrightarrow> cut_at_words p (path_edit m out @ es) = cut_at_words (Some (last m)) es)"
proof -
  have m0: "m \<noteq> []" using assms(3) by (auto simp: path_match_def)
  obtain pre path token where m: "m = pre @ path" "prefix ''/'' path" "redactor_path path st = (token, st1)" "out = pre @ token"
      and pre: "pre = [] \<or> (\<exists>c. pre = [c] \<and> \<not> HasPrefix m ''/'')"
  proof (cases "HasPrefix m ''/''")
    case True
    then show ?thesis using that [of "[]" m out] assms(1) by (simp add: replaced_path_def)
  next
    case False
    then have "\<not> (\<exists>m'. m = CHR ''/'' # m')" by auto
    then obtain c m' where m: "m = c # CHR ''/'' # m'" using assms(3) unfolding path_match_def by blast
    obtain token where "redactor_path (CHR ''/'' # m') st = (token, st1)" "out = c # token"
      using assms(1) False m by (auto simp: replaced_path_def Let_def split: prod.splits)
    then show ?thesis using that [of "[c]" "CHR ''/'' # m'" token] m False by simp
  qed
  note tk = redactor_path_cases [OF m(3) assms(2)]
  show ?thesis
  proof (cases "list_ex (HasPrefix path) system_prefixes")
    case True
    then have "out = m" using tk m by simp
    then show ?thesis using path_edit_unchanged [OF m0, of p es] tk by auto
  next
    case False
    then obtain n where n: "token = path_token n" using tk by blast
    obtain path' where path: "path = CHR ''/'' # path'" using m(2) by (cases path) auto
    have ne: "token \<noteq> path" using path by (simp add: n path_token_def)
    have edit: "path_edit m out = map Same pre @ [Put path token]"
      using pre ne m(1,4) path by (auto simp: path_edit_def)
    have texts: "old_of (path_edit m out) = m \<and> new_of (path_edit m out) = out" unfolding edit using m(1,4) by simp
    have toks: "\<forall>old tok. Put old tok \<in> set (path_edit m out) \<longrightarrow> CHR ''.'' \<notin> set tok \<and> CHR '':'' \<notin> set tok"
      using path_token_braced [of n] by (auto simp: edit n)
    have "last m = last path" using m(1) path by simp
    then have "\<not> word_after (old_of es) \<longrightarrow> cut_at_words p (path_edit m out @ es) = cut_at_words (Some (last m)) es"
      using path_token_braced [of n] not_word(3) path by (simp add: edit n cut_at_words_Same)
    then show ?thesis using tk texts toks by blast
  qed
qed

lemma path_edits_facts:
  assumes "tokens_sound st"
  shows "old_of (path_edits (pieces pathPattern p s) st) = s \<and>
     new_of (path_edits (pieces pathPattern p s) st) = fst (path_pieces (pieces pathPattern p s) st) \<and>
     cut_at_words p (path_edits (pieces pathPattern p s) st) \<and> tokens_sound (snd (path_pieces (pieces pathPattern p s) st)) \<and>
     (\<forall>old tok. Put old tok \<in> set (path_edits (pieces pathPattern p s) st) \<longrightarrow> CHR ''.'' \<notin> set tok \<and> CHR '':'' \<notin> set tok)"
  using assms
proof (induction p s arbitrary: st rule: pieces_induct [where r = pathPattern])
  case (Nil p)
  then show ?case by simp
next
  case (Match p c s m t q ys)
  obtain out st1 where r: "replaced_path m st = (out, st1)" by (cases "replaced_path m st")
  note shape = pathPattern_shape [OF Match(3)] and follow = pathPattern_follow [OF Match(4)]
  have sound: "tokens_sound st1" using replaced_path_cases [OF r Match.prems shape] by blast
  note here = replaced_path_cases [OF r Match.prems shape, where es = "path_edits (pieces pathPattern (Some (last m)) t) st1" and p = p]
  show ?case using here Match.IH [OF sound] follow Match(1) unfolding Match(5)
    by (auto simp: r Let_def split: prod.split)
next
  case (Kept p c s)
  obtain out st1 where r: "path_pieces (pieces pathPattern (Some c) s) st = (out, st1)" by (cases "path_pieces (pieces pathPattern (Some c) s) st")
  show ?case using Kept.IH [OF Kept.prems] unfolding Kept(1) by (simp add: r)
qed

lemma redactor_string_sound:
  assumes "tokens_sound st"
  shows "(so_IPs op \<longrightarrow> no_address (fst (redactor_string orbit op hostnames v st))) \<and> tokens_sound (snd (redactor_string orbit op hostnames v st))"
proof (cases "so_Paths op")
  case True
  let ?w = "redact_addresses op (redact_identity orbit op hostnames v)"
  let ?es = "path_edits (pieces pathPattern None ?w) st"
  note facts = path_edits_facts [OF assms, of None ?w]
  have "no_address (new_of ?es)" if "so_IPs op"
  proof -
    have "no_address ?w" by (rule redact_addresses_none [OF that])
    then have "unmatched ipv4Pattern None ?es" "unmatched ipv6Pattern None ?es"
      using facts by (auto intro!: contains_unmatched simp: no_address_def contains_match_def)
    then show ?thesis
      using ipv4.none_inside [of None ?es None] ipv6.none_inside [of None ?es None] facts
      unfolding no_address_def contains_match_def ipv4Pattern_def ipv6Pattern_def by blast
  qed
  then show ?thesis using True facts by (simp add: redactor_string_def Let_def)
next
  case False
  then show ?thesis using assms redact_addresses_none by (simp add: redactor_string_def Let_def)
qed

section \<open>Whole documents\<close>

text \<open>Every text of a document, but the exempt values, satisfies \<open>P\<close>, and the value of every secret key is the mark.\<close>

primrec redacted_document :: "(string \<Rightarrow> bool) \<Rightarrow> json \<Rightarrow> bool" where
  "redacted_document P JNull = True"
| "redacted_document P (JBool b) = True"
| "redacted_document P (JNum n) = True"
| "redacted_document P (JStr s) = P s"
| "redacted_document P (JArr vs) = list_all id (map (redacted_document P) vs)"
| "redacted_document P (JObj m) =
     list_all (\<lambda>((key, item), (_, ok)). if secret_key key then item = JStr ''[REDACTED]'' else exempt m key item \<or> ok)
       (zip m (map (map_prod id (redacted_document P)) m))"
| "redacted_document P JUnencodable = True"

lemma redacted_JObj:
  "redacted_document P (JObj m) \<longleftrightarrow>
     (\<forall>(key, item)\<in>set m. if secret_key key then item = JStr ''[REDACTED]'' else exempt m key item \<or> redacted_document P item)"
proof -
  have "zip m (map (map_prod id (redacted_document P)) m) = map (\<lambda>(key, item). ((key, item), (key, redacted_document P item))) m"
    by (induction m) auto
  then show ?thesis by (auto simp: list_all_iff)
qed

lemma redacted_weaker:
  assumes "redacted_document P v" "\<And>s. P s \<Longrightarrow> Q s"
  shows "redacted_document Q v"
  using assms(1)
proof (induction v)
  case (JArr vs)
  then show ?case by (auto simp: list_all_iff)
next
  case (JObj m)
  show ?case
    unfolding redacted_JObj
  proof clarify
    fix key item
    assume entry: "(key, item) \<in> set m"
    then have "redacted_document P item \<Longrightarrow> redacted_document Q item" using JObj.IH [of "(key, item)" item] by (simp add: snds.simps)
    then show "if secret_key key then item = JStr ''[REDACTED]'' else exempt m key item \<or> redacted_document Q item"
      using JObj.prems entry unfolding redacted_JObj by (auto split: if_splits)
  qed
qed (use assms(2) in auto)

text \<open>A state that every step keeps is kept by all of them, and each result is that of a step from such a state.\<close>

lemma visit_all_results:
  assumes "I st" "\<forall>f\<in>set fs. \<forall>st. I st \<longrightarrow> I (snd (f st))"
  shows "I (snd (visit_all fs st)) \<and> length (fst (visit_all fs st)) = length fs \<and>
    (\<forall>i<length fs. \<exists>st1. I st1 \<and> fst (visit_all fs st) ! i = fst ((fs ! i) st1))"
  using assms
proof (induction fs arbitrary: st)
  case (Cons f fs)
  obtain x st1 where f: "f st = (x, st1)" by (cases "f st")
  then have "I st1" using Cons.prems by (metis list.set_intros(1) snd_conv)
  note IH = Cons.IH [OF this]
  obtain xs st2 where r: "visit_all fs st1 = (xs, st2)" by (cases "visit_all fs st1")
  have "\<exists>st'. I st' \<and> (x # xs) ! i = fst (((f # fs) ! i) st')" if "i < Suc (length fs)" for i
  proof (cases i)
    case 0
    then show ?thesis using f Cons.prems(1) by (intro exI [of _ st]) simp
  next
    case (Suc j)
    then show ?thesis using IH Cons.prems(2) that r by auto
  qed
  then show ?case using IH Cons.prems(2) f r by auto
qed simp

lemma exempt_in_place: "exempt m key item \<Longrightarrow> exempt (in_place m new) key item"
proof -
  have "map_of (in_place m new) x = None \<longleftrightarrow> map_of m x = None" for x by (induction m) (auto simp: in_place_def)
  then show "exempt m key item \<Longrightarrow> exempt (in_place m new) key item" by (simp add: exempt_def)
qed

text \<open>What a visit makes of an entry.\<close>

definition entry_redacted :: "(string \<Rightarrow> bool) \<Rightarrow> object \<Rightarrow> string \<Rightarrow> json \<Rightarrow> bool" where
  "entry_redacted P m key v \<longleftrightarrow>
     (if secret_key key then v = JStr ''[REDACTED]'' else exempt m key v \<or> redacted_document P v)"

lemma in_place_redacted:
  assumes "map fst new = ks" "set ks = fst ` set m" "\<forall>(key, v)\<in>set new. entry_redacted P m key v"
  shows "redacted_document P (JObj (in_place m new))"
  unfolding redacted_JObj
proof clarify
  fix key w
  assume "(key, w) \<in> set (in_place m new)"
  then obtain item where item: "(key, item) \<in> set m" "w = (case map_of new key of None \<Rightarrow> item | Some v \<Rightarrow> v)" by (auto simp: in_place_def)
  then have "key \<in> fst ` set new" using assms(1,2) by (metis image_eqI fst_conv set_map)
  then obtain v where v: "map_of new key = Some v" by (metis map_of_eq_None_iff not_None_eq)
  then have "entry_redacted P m key w" using item(2) assms(3) map_of_SomeD [OF v] by auto
  then show "if secret_key key then w = JStr ''[REDACTED]'' else exempt (in_place m new) key w \<or> redacted_document P w"
    using exempt_in_place by (auto simp: entry_redacted_def split: if_splits)
qed

lemma redactValue_redacted:
  assumes "\<And>s st. I st \<Longrightarrow> P (fst (f s st)) \<and> I (snd (f s st))" "\<And>ks. set (order ks) = set ks" "I st"
  shows "redacted_document P (fst (redactValue order f v st)) \<and> I (snd (redactValue order f v st))"
  using assms(3)
proof (induction v arbitrary: st)
  case (JStr s)
  then show ?case using assms(1) by (simp add: split_beta Let_def)
next
  case (JArr vs)
  let ?fs = "map (redactValue order f) vs"
  have "\<forall>g\<in>set ?fs. \<forall>st. I st \<longrightarrow> I (snd (g st))" using JArr.IH by auto
  from visit_all_results [of I, OF JArr.prems this] have v: "I (snd (visit_all ?fs st))" "length (fst (visit_all ?fs st)) = length vs"
      "\<forall>i<length vs. \<exists>st1. I st1 \<and> fst (visit_all ?fs st) ! i = fst ((?fs ! i) st1)" by auto
  have "redacted_document P (fst (visit_all ?fs st) ! i)" if "i < length vs" for i
    using v(3) that JArr.IH [of "vs ! i"] nth_mem by fastforce
  then show ?case using v by (simp add: split_beta Let_def list_all_length)
next
  case (JObj m)
  let ?visits = "map (map_prod id (redactValue order f)) m"
  let ?fs = "map (visit_entry m ?visits) (order (map fst m))"
  have visit: "map_of ?visits key = map_option (redactValue order f) (map_of m key)" for key by (induction m) auto
  have item: "map_of m key = Some item \<Longrightarrow> I st1 \<Longrightarrow> redacted_document P (fst (redactValue order f item st1)) \<and> I (snd (redactValue order f item st1))"
    for key item st1
    using JObj.IH [of "(key, item)" item st1] by (auto dest!: map_of_SomeD simp: snds.simps)
  have keep: "\<forall>g\<in>set ?fs. \<forall>st. I st \<longrightarrow> I (snd (g st))"
    using item by (auto simp: visit_entry_def visit split_beta Let_def split: option.split)
  let ?new = "fst (visit_all ?fs st)"
  from visit_all_results [of I, OF JObj.prems keep] have all: "I (snd (visit_all ?fs st))" "length ?new = length ?fs"
      "\<forall>i<length ?fs. \<exists>st1. I st1 \<and> ?new ! i = fst ((?fs ! i) st1)" by auto
  have name: "fst (fst (visit_entry m ?visits key st1)) = key" for key st1
    by (auto simp: visit_entry_def split: option.split prod.split)
  have "map fst ?new = order (map fst m)"
    using all(2,3) name by (intro nth_equalityI) auto
  moreover have "set (order (map fst m)) = fst ` set m" using assms(2) by simp
  moreover have "\<forall>(key, v)\<in>set ?new. entry_redacted P m key v"
  proof clarify
    fix key v
    assume "(key, v) \<in> set ?new"
    then obtain i where i: "i < length ?fs" "?new ! i = (key, v)" using all(2) by (metis in_set_conv_nth)
    then obtain st1 where st1: "I st1" "(key, v) = fst (visit_entry m ?visits (order (map fst m) ! i) st1)" using all(3) by fastforce
    then have k: "key = order (map fst m) ! i" using name by (metis fst_conv)
    then have "key \<in> fst ` set m" using i(1) assms(2) [of "map fst m"] by (metis length_map nth_mem set_map)
    then obtain item0 where it: "map_of m key = Some item0" by (metis map_of_eq_None_iff not_None_eq)
    show "entry_redacted P m key v"
      using st1(2) item [OF it st1(1)] unfolding k [symmetric]
      by (auto simp: visit_entry_def visit it entry_redacted_def split: if_splits prod.splits)
  qed
  ultimately have "redacted_document P (JObj (in_place m ?new))" by (rule in_place_redacted)
  then show ?case using all(1) by (simp add: split_beta Let_def del: redacted_document.simps)
qed simp_all

lemma document_redacted:
  assumes "\<And>ks. set (order ks) = set ks" "sanitized_document order orbit F input op = Inr document"
  shows "redacted_document (\<lambda>s. so_IPs op \<longrightarrow> no_address s) document"
proof -
  obtain hostnames where "document = fst (redactValue order (redactor_string orbit op hostnames) (decoded (Fixture_json F input)) no_tokens)"
    using assms(2) by (auto simp: sanitized_document_def Let_def split: if_splits)
  then show ?thesis
    using redactValue_redacted [where I = tokens_sound and P = "\<lambda>s. so_IPs op \<longrightarrow> no_address s" and
        f = "redactor_string orbit op hostnames" and order = order] redactor_string_sound no_tokens_sound assms(1) by blast
qed

text \<open>
  In a sanitised document, at any depth, the value of every secret key is the mark, and no text but the identifiers of capabilities and
  the fixed path of the configuration has an IPv4 or IPv6 address that the expressions find: the replacements that follow do not bring one
  back.
\<close>

theorem sanitized_document_hides:
  assumes "\<And>ks. set (order ks) = set ks" "so_IPs op" "sanitized_document order orbit F input op = Inr document"
  shows "redacted_document no_address document"
  using document_redacted [OF assms(1,3)] assms(2) by simp

section \<open>Paths\<close>

lemma visited_paths:
  assumes "visit_all (map redactor_path vs) st = (ts, st1)" "tokens_sound st"
  shows "tokens_sound st1 \<and> map_of (tk_paths st) \<subseteq>\<^sub>m map_of (tk_paths st1) \<and> length ts = length vs \<and>
    (\<forall>i<length vs. list_ex (HasPrefix (vs ! i)) system_prefixes \<and> ts ! i = vs ! i \<or>
       \<not> list_ex (HasPrefix (vs ! i)) system_prefixes \<and> map_of (tk_paths st1) (vs ! i) = Some (ts ! i))"
  using assms
proof (induction vs arbitrary: st ts)
  case (Cons v vs)
  obtain t st2 where v: "redactor_path v st = (t, st2)" by (cases "redactor_path v st")
  obtain ts' where vs: "visit_all (map redactor_path vs) st2 = (ts', st1)" "ts = t # ts'"
    using Cons.prems(1) v by (auto simp: split_beta Let_def prod_eq_iff)
  note here = redactor_path_cases [OF v Cons.prems(2)]
  then have "tokens_sound st2" by blast
  note rest = Cons.IH [OF vs(1) this]
  have "map_of (tk_paths st) \<subseteq>\<^sub>m map_of (tk_paths st1)" using here rest map_le_trans by blast
  moreover have "map_of (tk_paths st1) v = Some t" if "map_of (tk_paths st2) v = Some t"
    using rest that by (metis domI map_le_def)
  ultimately show ?case using here rest vs(2) by (auto simp: less_Suc_eq_0_disj)
qed simp

text \<open>
  The tokens of a collection tell its paths apart: of the paths replaced one after the other, two become the same text exactly
  when they are the same path.
\<close>

theorem path_tokens_distinguish:
  assumes "visit_all (map redactor_path vs) no_tokens = (ts, st)" "i < length vs" "j < length vs"
  shows "ts ! i = ts ! j \<longleftrightarrow> vs ! i = vs ! j"
proof -
  note all = visited_paths [OF assms(1) no_tokens_sound]
  have token: "\<exists>n. t = path_token n" if "map_of (tk_paths st) v = Some t" for v t
    using all map_of_SomeD [OF that] by (auto simp: tokens_sound_def)
  have "distinct (map snd (tk_paths st))" using all by (simp add: tokens_sound_def)
  then have one: "v = w" if "map_of (tk_paths st) v = Some t" "map_of (tk_paths st) w = Some t" for v w t
    using map_of_SomeD [OF that(1)] map_of_SomeD [OF that(2)] unfolding distinct_map inj_on_def by fastforce
  have system: "t \<noteq> path_token n" if "list_ex (HasPrefix t) system_prefixes" for t n
    using that by (auto simp: system_prefixes_def path_token_def prefix_def)
  note i = all [THEN conjunct2, THEN conjunct2, THEN conjunct2, rule_format, OF assms(2)]
  note j = all [THEN conjunct2, THEN conjunct2, THEN conjunct2, rule_format, OF assms(3)]
  show ?thesis
  proof
    assume eq: "ts ! i = ts ! j"
    show "vs ! i = vs ! j"
    proof (cases "list_ex (HasPrefix (vs ! i)) system_prefixes")
      case True
      then show ?thesis using i j eq token system by (metis)
    next
      case False
      then show ?thesis using i j eq token system one by (metis)
    qed
  next
    assume "vs ! i = vs ! j"
    then show "ts ! i = ts ! j" using i j by auto
  qed
qed

theorem path_tokens_distinguish_witness:
  "fst (visit_all (map redactor_path [''/data/a'', ''/etc/passwd'', ''/data/a'', ''/data/b'']) no_tokens) ! 0 =
     fst (visit_all (map redactor_path [''/data/a'', ''/etc/passwd'', ''/data/a'', ''/data/b'']) no_tokens) ! 2"
proof -
  obtain ts st where r: "visit_all (map redactor_path [''/data/a'', ''/etc/passwd'', ''/data/a'', ''/data/b'']) no_tokens = (ts, st)"
    by (cases "visit_all (map redactor_path [''/data/a'', ''/etc/passwd'', ''/data/a'', ''/data/b'']) no_tokens")
  from path_tokens_distinguish [OF r, of 0 2] show ?thesis unfolding r by simp
qed

text \<open>The short form of an IPv6 address is no match.\<close>

lemma compressed_ipv6_survives:
  "ReplaceAllFunc ipv6Pattern (\<lambda>m. ''{IPV6}'') ''2001:db8::1'' = ''2001:db8::1''"
  by code_simp

section \<open>Secrets\<close>

abbreviation in_line :: "char \<Rightarrow> bool" where
  "in_line c \<equiv> \<not> line_end c"

lemma group_facts:
  "plain secret_group" "avoids (CHR 0x0A) secret_group" "avoids (CHR 0x0D) secret_group"
  "c \<in> set ''=:'' \<Longrightarrow> c \<notin> rx_bytes (RxAny secret_words)" "plain (RxAny secret_words)"
proof -
  note words = secret_words_def RxOpt_def lower_char_def
  have w: "avoids c (RxAny secret_words)" if "c \<in> set [CHR 0x0A, CHR 0x0D, CHR ''='', CHR '':'']" for c
    using that by (auto simp: words)
  show "plain (RxAny secret_words)" by (simp add: words)
  then show "plain secret_group" by (simp add: secret_group_def)
  show "avoids (CHR 0x0A) secret_group" "avoids (CHR 0x0D) secret_group" using w by (simp_all add: secret_group_def line_end_def)
  show "c \<in> set ''=:'' \<Longrightarrow> c \<notin> rx_bytes (RxAny secret_words)" using w [of c] by (auto simp: avoids_iff)
qed

lemma group_extend: "c \<in> set ''=:'' \<Longrightarrow> ends secret_group (p, w @ c # y) = map (with_rest y) (ends secret_group (p, w @ [c]))"
  unfolding secret_group_def RxAll.simps
  by (intro seq_extend byte_extend ends_extend group_facts(4,5)) auto

lemma group_derives: "derives secret_group p g t \<Longrightarrow> \<exists>g' c. g = g' @ [c] \<and> c \<in> set ''=:'' \<and> list_all in_line g"
proof -
  assume d: "derives secret_group p g t"
  have "CHR 0x0A \<notin> set g" "CHR 0x0D \<notin> set g" using derives_bytes [OF d] group_facts(2,3) by (auto simp: avoids_iff)
  moreover have "\<exists>g' c. g = g' @ [c] \<and> c \<in> set ''=:''" using d unfolding secret_group_def RxAll.simps by (force elim!: derives_Seq derives_Byte)
  ultimately show ?thesis by (auto simp: line_end_def list_all_iff)
qed

text \<open>One step of the replacement: nothing starts here, or the group stays and the rest of its line goes.\<close>

lemma assignment_ends:
  "ends secret_group x = [] \<Longrightarrow> ends secretAssignment x = []"
  "ends secret_group x = (q, t) # ys \<Longrightarrow> \<exists>q' ys'. ends secretAssignment x = (q', dropWhile in_line t) # ys'"
  using star_first [of t "length t" in_line q] by (auto simp: secretAssignment_def simp del: ends.simps(2))

lemma redact_secrets_kept: "ends secret_group (None, d # s) = [] \<Longrightarrow> redact_secrets (d # s) = d # redact_secrets s"
  using assignment_ends(1) [of "(None, d # s)"] plain_pieces [of secretAssignment "Some d" s] group_facts(1)
  by (simp add: redact_secrets_def ReplaceAllFunc_def emit_def secretAssignment_def del: ends.simps)

lemma redact_secrets_match:
  assumes "ends secret_group (None, s) = (q, t) # ys" "s = u @ t"
  shows "redact_secrets s = u @ ''[REDACTED]'' @ redact_secrets (dropWhile in_line t)"
proof -
  have "(q, t) \<in> set (ends secret_group (None, s))" using assms(1) by simp
  from ends_sound [OF this] have d: "derives secret_group None u t" using assms(2) by (auto simp: found_at_def)
  from group_derives [OF d] obtain w c where u: "u = w @ [c]" "c \<in> set ''=:''" by blast
  let ?m = "u @ takeWhile in_line t"
  obtain q' ys' where a: "ends secretAssignment (None, s) = (q', dropWhile in_line t) # ys'" using assignment_ends(2) [OF assms(1)] by blast
  have "ends secret_group (None, w @ c # t) = map (with_rest t) (ends secret_group (None, w @ [c]))" by (rule group_extend [OF u(2)])
  then obtain q0 zs where "ends secret_group (None, w @ [c]) = (q0, []) # zs"
    using assms u(1) by (auto simp: with_rest_def map_eq_Cons_conv)
  then have "ends secret_group (None, w @ c # takeWhile in_line t) = (q0, takeWhile in_line t) # map (with_rest (takeWhile in_line t)) zs"
    using group_extend [OF u(2), of None w "takeWhile in_line t"] by (simp add: with_rest_def)
  then have grp: "group_text ?m = u" by (simp add: group_text_def u(1))
  have "s \<noteq> []" using assms(2) u(1) by simp
  then obtain d s' where s: "s = d # s'" by (meson neq_Nil_conv)
  have split: "s = ?m @ dropWhile in_line t" using assms(2) by simp
  have len: "length (dropWhile in_line t) \<le> length s'" "take (Suc (length s') - length (dropWhile in_line t)) s = ?m"
  proof -
    have m: "Suc (length s') = length ?m + length (dropWhile in_line t)" using arg_cong [OF split, of length] s
      by (simp only: length_append length_Cons)
    have "1 \<le> length ?m" using u(1) by simp
    then show "length (dropWhile in_line t) \<le> length s'" using m by linarith
    have "Suc (length s') - length (dropWhile in_line t) = length ?m" using m by linarith
    then show "take (Suc (length s') - length (dropWhile in_line t)) s = ?m" using split by (metis append_eq_conv_conj)
  qed
  have "pieces secretAssignment None s = Match ?m # pieces secretAssignment q' (dropWhile in_line t)"
    using a len unfolding s pieces.simps by simp
  moreover have "plain secretAssignment" using group_facts(1) by (simp add: secretAssignment_def)
  ultimately show ?thesis using plain_pieces [of secretAssignment q'] grp
    by (simp add: redact_secrets_def ReplaceAllFunc_def emit_def)
qed

text \<open>A text that ends in an assignment, and two values for it.\<close>

lemma same_redaction:
  assumes "w @ [c] = a @ g" "derives secret_group None g []" "list_all in_line y" "list_all in_line y'" "z = [] \<or> line_end (hd z)"
  shows "redact_secrets (w @ c # y @ z) = redact_secrets (w @ c # y' @ z)"
  using assms(1)
proof (induction "length w" arbitrary: w a rule: less_induct)
  case less
  from group_derives [OF assms(2)] obtain g' d where g: "g = g' @ [d]" "d \<in> set ''=:''" "list_all in_line g" by blast
  then have c: "c \<in> set ''=:''" using less.prems by (metis append_assoc last_snoc)
  note ends_y = group_extend [OF c, of None w]
  show ?case
  proof (cases "ends secret_group (None, w @ [c])")
    case Nil
    have "a \<noteq> []"
    proof
      assume "a = []"
      then have "ends secret_group (None, w @ [c]) \<noteq> []" using ends_complete [OF assms(2)] less.prems by force
      then show False using Nil by simp
    qed
    then obtain b a' where a: "a = b # a'" by (cases a) auto
    then obtain w' where w: "w = b # w'" "w' @ [c] = a' @ g" using less.prems g(1) by (cases w) auto
    have "redact_secrets (w @ c # v) = b # redact_secrets (w' @ c # v)" for v
      using redact_secrets_kept [of b "w' @ c # v"] ends_y [of v] Nil w(1) by simp
    then show ?thesis using less.hyps [OF _ w(2)] w(1) by simp
  next
    case (Cons x ys)
    obtain q t where x: "x = (q, t)" by (cases x)
    then have "(q, t) \<in> set (ends secret_group (None, w @ [c]))" using Cons by simp
    from ends_sound [OF this] obtain u where u: "w @ [c] = u @ t" "derives secret_group None u t" by (auto simp: found_at_def)
    have u0: "u \<noteq> []" using group_derives [OF u(2)] by auto
    have step: "redact_secrets (w @ c # v) = u @ ''[REDACTED]'' @ redact_secrets (dropWhile in_line (t @ v))" for v
    proof -
      have "ends secret_group (None, w @ c # v) = (q, t @ v) # map (with_rest v) ys" using ends_y [of v] Cons x by (simp add: with_rest_def)
      moreover have "w @ c # v = u @ (t @ v)" using arg_cong [OF u(1), of "\<lambda>s. s @ v"] by simp
      ultimately show ?thesis by (rule redact_secrets_match)
    qed
    show ?thesis
    proof (cases "list_all in_line t")
      case True
      have "dropWhile in_line (t @ v @ z) = z" if "list_all in_line v" for v
        using True that assms(5) by (cases z) (auto simp: list_all_iff dropWhile_append2 dropWhile_append)
      then show ?thesis using step [of "y @ z"] step [of "y' @ z"] assms(3,4) by simp
    next
      case False
      let ?t = "dropWhile in_line t"
      have t: "?t \<noteq> []" "line_end (hd ?t)" using False hd_dropWhile [of in_line t] by (auto simp: list_all_iff)
      have long: "dropWhile in_line (t @ v) = ?t @ v" for v using False by (auto simp: list_all_iff dropWhile_append)
      have whole: "w @ [c] = (u @ takeWhile in_line t) @ ?t" using u(1) by simp
      then obtain w1 where w1: "?t = w1 @ [c]" using t(1) by (metis append_butlast_last_id last_appendR last_snoc)
      have "length w1 < length w" using arg_cong [OF whole, of length] u0 by (simp add: w1 del: takeWhile_dropWhile_id)
      moreover obtain a1 where "w1 @ [c] = a1 @ g"
      proof -
        from whole less.prems have "(u @ takeWhile in_line t) @ ?t = a @ g" by simp
        then obtain us where "u @ takeWhile in_line t = a @ us \<and> us @ ?t = g \<or> (u @ takeWhile in_line t) @ us = a \<and> ?t = us @ g"
          unfolding append_eq_append_conv2 by blast
        moreover have "us @ ?t \<noteq> g" using g(3) t by (cases "?t") auto
        ultimately show ?thesis using that [of us] w1 by auto
      qed
      ultimately have "redact_secrets (w1 @ c # y @ z) = redact_secrets (w1 @ c # y' @ z)" by (rule less.hyps)
      then show ?thesis using step long w1 by simp
    qed
  qed
qed

text \<open>
  C36. What follows an assignment of a secret on its line has no influence on the sanitised text: a text with one value and the text
  with another become the same, whatever stands before and on later lines.
\<close>

theorem secret_values_do_not_matter:
  assumes "derives secret_group None g []" "list_all in_line y" "list_all in_line y'" "z = [] \<or> line_end (hd z)"
  shows "redactor_string orbit op hostnames (a @ g @ y @ z) st = redactor_string orbit op hostnames (a @ g @ y' @ z) st"
proof -
  from group_derives [OF assms(1)] obtain g' c where g: "g = g' @ [c]" by blast
  have "redact_secrets (a @ g @ y @ z) = redact_secrets (a @ g @ y' @ z)"
    using same_redaction [where w = "a @ g'" and c = c and a = a and g = g, OF _ assms] by (simp add: g)
  then show ?thesis by (simp add: redactor_string_def redact_identity_def)
qed

theorem secret_values_do_not_matter_witness:
  "redactor_string (\<lambda>r. []) SafeSanitizeOptions [] (''user root'' @ [CHR 0x0A] @ ''ldap admin password ='' @ ''hunter2'' @ [CHR 0x0A]) no_tokens =
   redactor_string (\<lambda>r. []) SafeSanitizeOptions [] (''user root'' @ [CHR 0x0A] @ ''ldap admin password ='' @ ''other'' @ [CHR 0x0A]) no_tokens"
proof -
  have "derives (fold_text ''password'') None ''password'' ('' ='' @ [])" by (rule derives_fold_text) (rule refl)
  then have "derives (RxAny secret_words) None ''password'' ('' ='' @ [])" by (rule derives_RxAny [rotated]) (simp add: secret_words_def)
  moreover have "derives (RxStar (RxByte (\<lambda>c. \<not> line_end c \<and> c \<noteq> CHR ''='' \<and> c \<noteq> CHR '':''))) (Some (CHR ''d'')) '' '' (''='' @ [])"
    by (rule derives_star_bytes) (simp add: line_end_def)
  moreover have "derives (byte_of ''=:'') (Some (CHR '' '')) ''='' []" by (rule derives.byte) simp
  ultimately have "derives secret_group None (''password'' @ '' '' @ ''='') []"
    unfolding secret_group_def RxAll.simps by (intro derives.seq) (simp_all add: after_def)
  then have g: "derives secret_group None ''password ='' []" by simp
  from secret_values_do_not_matter [OF g, where a = "''user root'' @ [CHR 0x0A] @ ''ldap admin ''" and y = "''hunter2''" and y' = "''other''" and z = "[CHR 0x0A]"]
  show ?thesis by (simp add: line_end_def)
qed

text \<open>A whole collection.\<close>

definition sample_collection :: "int Fixture" where
  "sample_collection = \<lparr>fx_SchemaVersion = 1, fx_CollectedAt = 0, fx_Source = ''freebsd-readonly'', fx_Sanitized = False,
     fx_System = (zero_SystemInfo sample_floats)\<lparr>sy_Hostname := ''srv1''\<rparr>, fx_Filesystems = None, fx_Samba = zero_SambaInfo, fx_Domain = zero_DomainState,
     fx_Cups = zero_CupsInfo, fx_Capabilities = None,
     fx_Commands = [\<lparr>cc_Executable = ''/bin/x'', cc_Arguments = [], cc_Stdout = ''srv1:10.0.0.1'', cc_Stderr = [], cc_ExitCode = 0, cc_Error = []\<rparr>],
     fx_Errors = None\<rparr>"

text \<open>The bytes that escape others in a text, and those between the texts of an encoding.\<close>

definition escape_marks :: "char set" where
  "escape_marks = insert (CHR 0x5C) (insert (CHR 0x22) (set ''0123456789abcdefnrtu''))"

definition punctuation :: "char set" where
  "punctuation = set ''0123456789nultrefas:,[]{}-''"

primrec json_all :: "(string \<Rightarrow> bool) \<Rightarrow> json \<Rightarrow> bool" where
  "json_all P JNull = True"
| "json_all P (JBool b) = True"
| "json_all P (JNum n) = True"
| "json_all P (JStr s) = P s"
| "json_all P (JArr vs) = list_all id (map (json_all P) vs)"
| "json_all P (JObj m) = list_all (\<lambda>(k, ok). P k \<and> ok) (map (map_prod id (json_all P)) m)"
| "json_all P JUnencodable = True"

lemma escape_ascii_bytes: "set (escape_ascii a) \<subseteq> insert a escape_marks"
proof -
  have hex: "hex_char n \<in> escape_marks" if "n < 16" for n
  proof -
    have "hex_char n \<in> set ''0123456789abcdef''" unfolding hex_char_def by (rule nth_mem) (use that in simp)
    then show ?thesis by (auto simp: escape_marks_def)
  qed
  have "(of_char a :: nat) div 16 < 16" "(of_char a :: nat) mod 16 < 16" by (simp_all add: div_less_iff_less_mult)
  from hex [OF this(1)] hex [OF this(2)] show ?thesis by (auto simp: escape_ascii_def Let_def escape_marks_def)
qed

lemma escape_bytes: "set (escape s) \<subseteq> set s \<union> escape_marks"
proof (induction s rule: escape.induct)
  case (1 s)
  show ?case
  proof (cases "s = []")
    case False
    let ?n = "rune_len s"
    have parts: "set (take ?n s) \<subseteq> set s" "set (drop k s) \<subseteq> set s" "hd s \<in> set s" for k using False by (auto dest: in_set_takeD in_set_dropD)
    have lits: "set (CHR 0x5C # ''ufffd'') \<subseteq> escape_marks" "set (CHR 0x5C # ''u2028'') \<subseteq> escape_marks" "set (CHR 0x5C # ''u2029'') \<subseteq> escape_marks"
      by (auto simp: escape_marks_def)
    show ?thesis
    proof (cases "?n = 0")
      case True
      then have "escape s = (CHR 0x5C # ''ufffd'') @ escape (drop 1 s)" using False by (subst escape.simps) simp
      then show ?thesis using 1(1) False True lits(1) parts(2) [of 1] by auto
    next
      case n: False
      have "set (escape (drop ?n s)) \<subseteq> set s \<union> escape_marks" using 1(2) [OF False refl refl n] parts(2) [of ?n] by auto
      moreover have "set (escape_ascii (hd s)) \<subseteq> set s \<union> escape_marks" using escape_ascii_bytes [of "hd s"] parts(3) by auto
      ultimately show ?thesis using False n lits parts(1) by (subst escape.simps) (auto simp: Let_def)
    qed
  qed simp
qed

lemma digit_punctuation: "is_digit c \<Longrightarrow> c \<in> punctuation"
proof -
  assume "is_digit c"
  then have "(of_char c :: nat) \<in> {48 ..< 58}" by (simp add: is_digit_def)
  then have "char_of (of_char c :: nat) \<in> char_of ` {48 ..< (58::nat)}" by (rule imageI)
  moreover have "char_of ` {48 ..< (58::nat)} = set ''0123456789''" unfolding set_upt [symmetric] by code_simp
  ultimately have "c \<in> set ''0123456789''" by simp
  then show ?thesis by (auto simp: punctuation_def)
qed

text \<open>
  What every match of the forbidden phrases has, by its bytes.  A text is calm if no part of it without a quote is suspect, and only
  punctuation stands before its first quote and after its last.
\<close>

definition suspect :: "string \<Rightarrow> bool" where
  "suspect u \<longleftrightarrow> CHR ''='' \<in> set u \<or>
     CHR '' '' \<in> set u \<and> (CHR '':'' \<in> set u \<or> CHR ''-'' \<in> set u \<and> list_ex (\<lambda>d. lower_char d = CHR ''g'') u)"

definition calm :: "string \<Rightarrow> bool" where
  "calm t \<longleftrightarrow>
     (\<forall>a u b. t = a @ u @ b \<and> CHR 0x22 \<notin> set u \<longrightarrow> \<not> suspect u) \<and>
     (\<forall>u b. t = u @ b \<and> CHR 0x22 \<notin> set u \<longrightarrow> set u \<subseteq> punctuation) \<and>
     (\<forall>a u. t = a @ u \<and> CHR 0x22 \<notin> set u \<longrightarrow> set u \<subseteq> punctuation)"

lemma suspect_mono: "suspect u \<Longrightarrow> set u \<subseteq> set v \<Longrightarrow> suspect v"
  by (auto simp: suspect_def list_ex_iff)

lemma punctuation_clear: "set u \<subseteq> punctuation \<Longrightarrow> \<not> suspect u"
proof -
  have "CHR ''='' \<notin> punctuation" "CHR '' '' \<notin> punctuation" by (simp_all add: punctuation_def)
  then show "set u \<subseteq> punctuation \<Longrightarrow> \<not> suspect u" by (auto simp: suspect_def)
qed

lemma calmD:
  assumes "calm t" "CHR 0x22 \<notin> set u"
  shows "t = a @ u @ b \<Longrightarrow> \<not> suspect u" "t = u @ b \<Longrightarrow> set u \<subseteq> punctuation" "t = a @ u \<Longrightarrow> set u \<subseteq> punctuation"
proof -
  note c = assms(1) [unfolded calm_def]
  show "t = a @ u @ b \<Longrightarrow> \<not> suspect u" using c [THEN conjunct1, rule_format, of a u b] assms(2) by simp
  show "t = u @ b \<Longrightarrow> set u \<subseteq> punctuation" using c [THEN conjunct2, THEN conjunct1, rule_format, of u b] assms(2) by simp
  show "t = a @ u \<Longrightarrow> set u \<subseteq> punctuation" using c [THEN conjunct2, THEN conjunct2, rule_format, of a u] assms(2) by simp
qed

lemma punctuation_calm: "set t \<subseteq> punctuation \<Longrightarrow> calm t"
  unfolding calm_def by (intro conjI allI impI) (auto dest!: punctuation_clear)

lemma calm_signs: "calm '',''" "calm '':''" "calm ''[''" "calm '']''" "calm ''{''" "calm ''}''" "calm ''null''" "calm ''true''" "calm ''false''" "calm []"
  by (intro punctuation_calm; simp add: punctuation_def)+

lemma calm_append:
  assumes "calm s" "calm t"
  shows "calm (s @ t)"
  unfolding calm_def
proof (intro conjI allI impI; elim conjE)
  fix a u b
  assume eq: "s @ t = a @ u @ b" and u: "CHR 0x22 \<notin> set u"
  from eq obtain w where "a = s @ w \<and> w @ u @ b = t \<or> a @ w = s \<and> u @ b = w @ t" by (auto simp: append_eq_append_conv2)
  then consider w where "t = w @ u @ b" | z where "s = a @ u @ z" | w z where "u = w @ z" "s = a @ w" "t = z @ b"
    by (fastforce simp: append_eq_append_conv2)
  then show "\<not> suspect u"
  proof cases
    case 3
    then have "set u \<subseteq> punctuation" using u calmD(3) [OF assms(1), of w a] calmD(2) [OF assms(2), of z b] by auto
    then show ?thesis by (rule punctuation_clear)
  qed (use calmD(1) [OF assms(1) u] calmD(1) [OF assms(2) u] in blast)+
next
  fix u b
  assume eq: "s @ t = u @ b" and u: "CHR 0x22 \<notin> set u"
  then consider z where "s = u @ z" | z where "u = s @ z" "t = z @ b" by (auto simp: append_eq_append_conv2)
  then show "set u \<subseteq> punctuation"
  proof cases
    case 2
    then show ?thesis using u calmD(2) [OF assms(1), of s "[]"] calmD(2) [OF assms(2), of z b] by auto
  qed (use calmD(2) [OF assms(1) u] in blast)
next
  fix a u
  assume eq: "s @ t = a @ u" and u: "CHR 0x22 \<notin> set u"
  then consider z where "t = z @ u" | z where "u = z @ t" "s = a @ z" by (auto simp: append_eq_append_conv2)
  then show "set u \<subseteq> punctuation"
  proof cases
    case 2
    then show ?thesis using u calmD(3) [OF assms(1), of z a] calmD(3) [OF assms(2), of t "[]"] by auto
  qed (use calmD(3) [OF assms(2) u] in blast)
qed

lemma calm_Join: "\<forall>x\<in>set xs. calm x \<Longrightarrow> calm (Join xs '','')"
proof (induction xs "'',''" rule: Join.induct)
  case (3 x y xs)
  then have "calm x" "calm (Join (y # xs) '','')" by simp_all
  then show ?case unfolding Join.simps by (intro calm_append calm_signs)
qed (simp_all add: calm_signs)

lemma calm_quote: "\<not> suspect s \<Longrightarrow> calm (quote s)"
proof -
  assume s: "\<not> suspect s"
  have marks: "CHR ''='' \<notin> escape_marks" "CHR '' '' \<notin> escape_marks" "CHR '':'' \<notin> escape_marks" "CHR ''-'' \<notin> escape_marks"
    "\<forall>d\<in>escape_marks. lower_char d \<noteq> CHR ''g''"
    by (simp_all add: escape_marks_def lower_char_def)
  have "\<not> suspect u" if "set u \<subseteq> set (quote s)" for u
  proof -
    have "CHR 0x22 \<in> escape_marks" by (simp add: escape_marks_def)
    then have "set u \<subseteq> set s \<union> escape_marks" using that escape_bytes [of s] by (auto simp: quote_def)
    then show ?thesis using s marks unfolding suspect_def list_ex_iff by blast
  qed
  moreover have "set u \<subseteq> punctuation" if "quote s = u @ b" "CHR 0x22 \<notin> set u" for u b
    using that by (cases u) (auto simp: quote_def)
  moreover have "set u \<subseteq> punctuation" if "quote s = a @ u" "CHR 0x22 \<notin> set u" for a u
    using that by (cases u rule: rev_cases) (auto simp: quote_def)
  ultimately show "calm (quote s)" unfolding calm_def by (metis Un_iff set_append subsetI)
qed

lemma printed_calm: "json_all (\<lambda>s. \<not> suspect s) v \<Longrightarrow> calm (printed v)"
proof (induction v)
  case (JNum n)
  have "set (FormatUint k) \<subseteq> punctuation" for k using FormatUint_digits [of k] digit_punctuation by (auto simp: list_all_iff)
  then show ?case by (intro punctuation_calm) (auto simp: FormatInt_def punctuation_def)
next
  case (JStr s)
  then show ?case by (simp add: calm_quote)
next
  case (JArr vs)
  then have "calm (Join (map printed vs) '','')" by (intro calm_Join) (auto simp: list_all_iff)
  then show ?case unfolding printed.simps by (intro calm_append calm_signs)
next
  case (JObj m)
  have entry: "calm ((\<lambda>(k, v). quote k @ '':'' @ v) x)" if x: "x \<in> set (map (map_prod id printed) m)" for x
  proof -
    obtain k v where v: "(k, v) \<in> set m" "x = (k, printed v)" using x by auto
    then have "\<not> suspect k" "json_all (\<lambda>s. \<not> suspect s) v" using JObj.prems by (auto simp: list_all_iff)
    then have "calm (quote k)" "calm (printed v)" using JObj.IH [of "(k, v)" v] v(1) calm_quote by (auto simp: snds.simps)
    then show ?thesis unfolding v(2) prod.case by (intro calm_append calm_signs)
  qed
  have "calm (Join (map (\<lambda>(k, v). quote k @ '':'' @ v) (map (map_prod id printed) m)) '','')"
    by (rule calm_Join) (unfold list.set_map [of _ "map _ _"], use entry in blast)
  then show ?case unfolding printed.simps by (intro calm_append calm_signs)
qed (simp_all add: calm_signs)

text \<open>Every match of a phrase has its signs, and no quote.\<close>

lemma derives_part: "derives (RxAll rs) p u t \<Longrightarrow> r \<in> set rs \<Longrightarrow> \<exists>q v w. derives r q v w \<and> set v \<subseteq> set u"
proof (induction rs arbitrary: p u rule: RxAll.induct)
  case (3 r1 r2 rs)
  from 3(2) obtain v w where d: "u = v @ w" "derives r1 p v (w @ t)" "derives (RxAll (r2 # rs)) (after p v) w t"
    by (auto elim: derives_Seq)
  show ?case
  proof (cases "r = r1")
    case True
    then show ?thesis using d by auto
  next
    case False
    then have "r \<in> set (r2 # rs)" using 3(3) by simp
    from 3(1) [OF d(3) this] show ?thesis using d(1) by auto
  qed
qed auto

lemma fold_text_has:
  assumes "derives (fold_text s) p u t" "c \<in> set s" "lower_char c \<notin> set ''sk''"
  shows "\<exists>d\<in>set u. lower_char d = lower_char c"
proof -
  have "fold_byte c \<in> set (map fold_byte s)" using assms(2) by simp
  from derives_part [OF assms(1) [unfolded fold_text_def] this] obtain q v w where v: "derives (fold_byte c) q v w" "set v \<subseteq> set u" by blast
  then have "derives (RxByte (\<lambda>d. lower_char d = lower_char c)) q v w" using assms(3) by (simp add: fold_byte_def Let_def)
  then obtain d where "v = [d]" "lower_char d = lower_char c" by (rule derives_Byte)
  then show ?thesis using v(2) by auto
qed

lemma lower_char_sign: "lower_char d = c \<Longrightarrow> c \<in> set '' =:-'' \<Longrightarrow> d = c"
proof (rule ccontr)
  let ?n = "of_char d :: nat"
  assume c: "lower_char d = c" "c \<in> set '' =:-''" "d \<noteq> c"
  then have n: "65 \<le> ?n" "?n \<le> 90" "c = char_of (?n + 32)" by (auto simp: lower_char_def Let_def split: if_splits)
  then have "(of_char c :: nat) = ?n + 32" by simp
  then show False using c(2) n(1) by auto
qed

lemma fold_text_sign:
  assumes "derives (fold_text s) p u t" "c \<in> set s" "c \<in> set '' =:-''"
  shows "c \<in> set u"
proof -
  have "lower_char c = c \<and> c \<notin> set ''sk''" using assms(3) by (auto simp: lower_char_def)
  then obtain d where d: "d \<in> set u" "lower_char d = c" using fold_text_has [OF assms(1,2)] by auto
  show ?thesis using lower_char_sign [OF d(2) assms(3)] d(1) by simp
qed

lemma phrases_suspect:
  "derives privateKeyPattern p u t \<Longrightarrow> suspect u \<and> CHR 0x22 \<notin> set u"
  "derives ticketPattern p u t \<Longrightarrow> suspect u \<and> CHR 0x22 \<notin> set u"
proof -
  assume d: "derives privateKeyPattern p u t"
  from derives_part [OF this [unfolded privateKeyPattern_def], of "fold_text ''-----BEGIN ''"]
  obtain q v w where v: "derives (fold_text ''-----BEGIN '') q v w" "set v \<subseteq> set u" by auto
  have "lower_char (CHR ''G'') = CHR ''g''" by code_simp
  then have "suspect v" unfolding suspect_def list_ex_iff
    using fold_text_sign [OF v(1), of "CHR '' ''"] fold_text_sign [OF v(1), of "CHR ''-''"] fold_text_has [OF v(1), of "CHR ''G''"] by auto
  moreover have "avoids (CHR 0x22) privateKeyPattern" by code_simp
  ultimately show "suspect u \<and> CHR 0x22 \<notin> set u" using v(2) suspect_mono derives_bytes [OF d] by (auto simp: avoids_iff)
next
  assume d: "derives ticketPattern p u t"
  then consider "derives (fold_text ''ticket cache:'') p u t" | "derives (fold_text ''krb5ccname='') p u t"
    unfolding ticketPattern_def RxAny.simps by (auto elim!: derives_Alt)
  then have "suspect u"
  proof cases
    case 1
    from fold_text_sign [OF 1, of "CHR '' ''"] fold_text_sign [OF 1, of "CHR '':''"] show ?thesis by (simp add: suspect_def)
  next
    case 2
    from fold_text_sign [OF 2, of "CHR ''=''"] show ?thesis by (simp add: suspect_def)
  qed
  moreover have "avoids (CHR 0x22) ticketPattern" by (simp add: ticketPattern_def lower_char_def)
  ultimately show "suspect u \<and> CHR 0x22 \<notin> set u" using derives_bytes [OF d] by (auto simp: avoids_iff)
qed

lemma no_forbidden_material:
  assumes "json_all (\<lambda>s. \<not> suspect s) v"
  shows "\<not> MatchString privateKeyPattern (printed v)" "\<not> MatchString ticketPattern (printed v)"
proof -
  have some: "suspect u \<Longrightarrow> u \<noteq> []" for u by (auto simp: suspect_def)
  have never: "never_empty privateKeyPattern" "never_empty ticketPattern"
    using phrases_suspect some unfolding never_empty_def by metis+
  show "\<not> MatchString privateKeyPattern (printed v)" "\<not> MatchString ticketPattern (printed v)"
    unfolding MatchString_iff [OF never(1)] MatchString_iff [OF never(2)] contains_match_def
    using phrases_suspect calmD(1) [OF printed_calm [OF assms]] by metis+
qed

theorem sanitized_document_hides_witness:
  "\<exists>document. sanitized_document rev (\<lambda>r. []) sample_floats sample_collection SafeSanitizeOptions = Inr document \<and>
     redacted_document no_address document"
proof -
  let ?doc = "Fixture_json sample_floats sample_collection"
  have "json_all (\<lambda>s. \<not> suspect s) ?doc" by code_simp
  note clean = no_forbidden_material [OF this]
  have "encodable ?doc" by code_simp
  moreover have "\<not> list_ex (\<lambda>h. TrimSpace h \<noteq> [] \<and> valid_utf8 h \<noteq> h) [sy_FQDN (fx_System sample_collection), sy_Hostname (fx_System sample_collection)]"
    by code_simp
  ultimately obtain document where r: "sanitized_document rev (\<lambda>r. []) sample_floats sample_collection SafeSanitizeOptions = Inr document"
    using clean by (simp add: sanitized_document_def Let_def)
  have "so_IPs SafeSanitizeOptions" by (simp add: SafeSanitizeOptions_def)
  from sanitized_document_hides [OF _ this r] r show ?thesis by auto
qed

end
