(* ===== verification/Collector.thy ===== *)
theory Collector
  imports Sanitize Configuration
begin

text \<open>
  The command that records a collection: \<open>src/backend/cmd/samba-admin-fixture-collector/main.go\<close>, with the part of Go's
  \<open>flag\<close> package that reads its options.  The files it makes are the actions of its run; which of them fail is \<open>fails\<close>.
  \<open>time.ParseDuration\<close> is the argument \<open>parse\<close>.
\<close>

section \<open>Options\<close>

record options =
  op_output :: string
  op_timeout :: duration
  op_sanitize :: SanitizeOptions

definition default_options :: options where
  "default_options = \<lparr>op_output = ''-'', op_timeout = 15 * second, op_sanitize = SafeSanitizeOptions\<rparr>"

text \<open>\<open>FlagSet.parseOne\<close>: an argument is no option, ends the options, is malformed, or names an option with or without a value.\<close>

datatype flag_word = NoOption | EndOfOptions | Malformed | Option string "string option"

definition split_name :: "string \<Rightarrow> string \<times> string option" where
  "split_name s =
     (let rest = dropWhile (\<lambda>c. c \<noteq> CHR ''='') (tl s); name = hd s # takeWhile (\<lambda>c. c \<noteq> CHR ''='') (tl s)
      in (name, if rest = [] then None else Some (tl rest)))"

definition read_word :: "string \<Rightarrow> flag_word" where
  "read_word s =
     (if length s < 2 \<or> hd s \<noteq> CHR ''-'' then NoOption
      else if s = ''--'' then EndOfOptions
      else let name = (if s ! 1 = CHR ''-'' then drop 2 s else drop 1 s)
        in if hd name = CHR ''-'' \<or> hd name = CHR ''='' then Malformed
           else let (n, v) = split_name name in Option n v)"

type_synonym switch = "bool \<Rightarrow> SanitizeOptions \<Rightarrow> SanitizeOptions"

definition switches :: "(string \<times> switch) list" where
  "switches =
     [(''sanitize-hostname'', \<lambda>b op. op\<lparr>so_Hostname := b\<rparr>), (''sanitize-ips'', \<lambda>b op. op\<lparr>so_IPs := b\<rparr>),
      (''sanitize-domains'', \<lambda>b op. op\<lparr>so_Domains := b\<rparr>), (''sanitize-users'', \<lambda>b op. op\<lparr>so_Users := b\<rparr>),
      (''sanitize-sids'', \<lambda>b op. op\<lparr>so_SIDs := b\<rparr>), (''sanitize-paths'', \<lambda>b op. op\<lparr>so_Paths := b\<rparr>)]"

datatype flag_error = BadSyntax string | HelpAsked | NotDefined string | NeedsArgument string | BadValue string string

definition set_switch :: "string \<Rightarrow> switch \<Rightarrow> string option \<Rightarrow> options \<Rightarrow> flag_error + options" where
  "set_switch name f v op =
     (let text = (case v of None \<Rightarrow> ''true'' | Some t \<Rightarrow> t)
      in case ParseBool text of None \<Rightarrow> Inl (BadValue name text) | Some b \<Rightarrow> Inr (op\<lparr>op_sanitize := f b (op_sanitize op)\<rparr>))"

definition set_value :: "(string \<Rightarrow> duration option) \<Rightarrow> string \<Rightarrow> string \<Rightarrow> options \<Rightarrow> flag_error + options" where
  "set_value parse name text op =
     (if name = ''output'' then Inr (op\<lparr>op_output := text\<rparr>)
      else case parse text of None \<Rightarrow> Inl (BadValue name text) | Some d \<Rightarrow> Inr (op\<lparr>op_timeout := d\<rparr>))"

fun Parse :: "(string \<Rightarrow> duration option) \<Rightarrow> options \<Rightarrow> string list \<Rightarrow> flag_error + options" where
  "Parse parse op [] = Inr op"
| "Parse parse op (s # rest) =
     (case read_word s of
        NoOption \<Rightarrow> Inr op
      | EndOfOptions \<Rightarrow> Inr op
      | Malformed \<Rightarrow> Inl (BadSyntax s)
      | Option name v \<Rightarrow>
          (case map_of switches name of
             Some f \<Rightarrow> (case set_switch name f v op of Inl e \<Rightarrow> Inl e | Inr op1 \<Rightarrow> Parse parse op1 rest)
           | None \<Rightarrow>
               if name = ''output'' \<or> name = ''timeout'' then
                 (case v of
                    Some text \<Rightarrow> (case set_value parse name text op of Inl e \<Rightarrow> Inl e | Inr op1 \<Rightarrow> Parse parse op1 rest)
                  | None \<Rightarrow>
                      (case rest of
                         [] \<Rightarrow> Inl (NeedsArgument name)
                       | text # rest1 \<Rightarrow>
                           (case set_value parse name text op of Inl e \<Rightarrow> Inl e | Inr op1 \<Rightarrow> Parse parse op1 rest1)))
               else if name = ''help'' \<or> name = ''h'' then Inl HelpAsked
               else Inl (NotDefined name)))"

section \<open>The document\<close>

text \<open>\<open>Encoder.Encode\<close> with \<open>SetIndent("", "  ")\<close>: every element on a line of its own, indented by its depth.\<close>

definition new_line :: "nat \<Rightarrow> string" where
  "new_line depth = CHR 0x0A # replicate (2 * depth) (CHR '' '')"

definition bracketed :: "nat \<Rightarrow> string \<Rightarrow> string list \<Rightarrow> string \<Rightarrow> string" where
  "bracketed depth left items right =
     (if items = [] then left @ right
      else left @ new_line (Suc depth) @ Join items (CHR '','' # new_line (Suc depth)) @ new_line depth @ right)"

primrec indented :: "json \<Rightarrow> nat \<Rightarrow> string" where
  "indented JNull depth = ''null''"
| "indented (JBool b) depth = (if b then ''true'' else ''false'')"
| "indented (JNum n) depth = FormatInt n"
| "indented (JStr s) depth = quote s"
| "indented (JArr vs) depth = bracketed depth ''['' (map (\<lambda>f. f (Suc depth)) (map indented vs)) '']''"
| "indented (JObj m) depth =
     bracketed depth ''{'' (map (\<lambda>(k, f). quote k @ '': '' @ f (Suc depth)) (map (map_prod id indented) m)) ''}''"
| "indented JUnencodable depth = []"

definition Encode :: "json \<Rightarrow> string option" where
  "Encode v = (if encodable v then Some (indented v 0 @ [CHR 0x0A]) else None)"

section \<open>The output\<close>

datatype file_action = CreateNew string nat | WriteOut "string option" string | SyncFile string | CloseFile string

datatype collector_error =
    FlagsRefused flag_error | NotFreeBSD string | TimeoutOutOfRange | NotSanitised sanitize_error | BadOutput | OutputNotCreated
  | OutputNotWritten | OutputNotClosed

text \<open>The writer is standard output, \<open>None\<close>, or a file that did not exist before.\<close>

definition outputWriter :: "(file_action \<Rightarrow> bool) \<Rightarrow> string \<Rightarrow> (collector_error + string option) \<times> file_action list" where
  "outputWriter fails path =
     (if path = ''-'' then (Inr None, [])
      else if TrimSpace path = [] \<or> \<not> HasSuffix (ToLower path) ''.json'' then (Inl BadOutput, [])
      else let a = CreateNew path 0x180 in if fails a then (Inl OutputNotCreated, [a]) else (Inr (Some path), [a]))"

definition closeWriter :: "(file_action \<Rightarrow> bool) \<Rightarrow> string option \<Rightarrow> bool \<times> file_action list" where
  "closeWriter fails w =
     (case w of None \<Rightarrow> (True, []) | Some path \<Rightarrow> (\<not> fails (SyncFile path) \<and> \<not> fails (CloseFile path), [SyncFile path, CloseFile path]))"

definition write_document :: "(file_action \<Rightarrow> bool) \<Rightarrow> string option \<Rightarrow> json \<Rightarrow> collector_error option \<times> file_action list" where
  "write_document fails w document =
     (case Encode document of
        None \<Rightarrow> (Some OutputNotWritten, snd (closeWriter fails w))
      | Some text \<Rightarrow>
          (let a = WriteOut w text
           in if fails a then (Some OutputNotWritten, a # snd (closeWriter fails w))
              else let (closed, as) = closeWriter fails w in (if closed then None else Some OutputNotClosed, a # as)))"

section \<open>The run\<close>

text \<open>What the program finds: the host, the clock, the texts of its errors, and the library's decoding.\<close>

record 'f collector =
  co_parse :: "string \<Rightarrow> duration option"
  co_GOOS :: string
  co_os :: "duration \<Rightarrow> string \<Rightarrow> string list \<Rightarrow> process"
  co_error_text :: "exec_error \<Rightarrow> string"
  co_floats :: "'f floats"
  co_order :: "string list \<Rightarrow> string list"
  co_orbit :: "string \<Rightarrow> string list"
  co_unmarshal :: "json \<Rightarrow> 'f Fixture option"
  co_now :: time
  co_fails :: "file_action \<Rightarrow> bool"

definition collected :: "'f collector \<Rightarrow> duration \<Rightarrow> 'f Fixture" where
  "collected co timeout = collection (co_error_text co) (co_floats co) (co_order co) (ExecRunner_Run (co_os co timeout) (2 ^ 20)) (co_now co)"

definition sanitised :: "'f collector \<Rightarrow> options \<Rightarrow> sanitize_error + 'f Fixture" where
  "sanitised co op =
     Sanitize (co_order co) (co_orbit co) (co_unmarshal co) (co_floats co) (collected co (op_timeout op)) (op_sanitize op)"

definition write_collection :: "(file_action \<Rightarrow> bool) \<Rightarrow> string \<Rightarrow> json \<Rightarrow> collector_error option \<times> file_action list" where
  "write_collection fails path document =
     (case outputWriter fails path of
        (Inl e, as) \<Rightarrow> (Some e, as)
      | (Inr w, as) \<Rightarrow> (let (r, bs) = write_document fails w document in (r, as @ bs)))"

definition collector_run :: "'f collector \<Rightarrow> string list \<Rightarrow> collector_error option \<times> file_action list" where
  "collector_run co arguments =
     (case Parse (co_parse co) default_options arguments of
        Inl e \<Rightarrow> (Some (FlagsRefused e), [])
      | Inr op \<Rightarrow>
          if co_GOOS co \<noteq> ''freebsd'' then (Some (NotFreeBSD (co_GOOS co)), [])
          else if op_timeout op < second \<or> op_timeout op > minute then (Some TimeoutOutOfRange, [])
          else case sanitised co op of
            Inl e \<Rightarrow> (Some (NotSanitised e), [])
          | Inr fixture \<Rightarrow> write_collection (co_fails co) (op_output op) (Fixture_json (co_floats co) fixture))"

section \<open>What is switched off\<close>

text \<open>An option is switched off by an argument that says so.\<close>

definition switched_off :: "string \<Rightarrow> string list \<Rightarrow> bool" where
  "switched_off name arguments \<longleftrightarrow>
     list_ex (\<lambda>s. case read_word s of Option n (Some v) \<Rightarrow> n = name \<and> ParseBool v = Some False | _ \<Rightarrow> False) arguments"

definition reads_switch :: "string \<Rightarrow> (SanitizeOptions \<Rightarrow> bool) \<Rightarrow> bool" where
  "reads_switch name g \<longleftrightarrow> (\<forall>(n, f)\<in>set switches. \<forall>b op. g (f b op) = (if n = name then b else g op))"

lemma switches_read:
  "reads_switch ''sanitize-hostname'' so_Hostname" "reads_switch ''sanitize-ips'' so_IPs" "reads_switch ''sanitize-domains'' so_Domains"
  "reads_switch ''sanitize-users'' so_Users" "reads_switch ''sanitize-sids'' so_SIDs" "reads_switch ''sanitize-paths'' so_Paths"
  by (simp_all add: reads_switch_def switches_def)

lemma set_switch_read:
  assumes "reads_switch name g" "map_of switches n = Some f" "set_switch n f v op = Inr op1" "g (op_sanitize op)"
  shows "g (op_sanitize op1) \<or> n = name \<and> (\<exists>t. v = Some t \<and> ParseBool t = Some False)"
proof -
  have f: "(n, f) \<in> set switches" using assms(2) by (rule map_of_SomeD)
  obtain b where b: "ParseBool (case v of None \<Rightarrow> ''true'' | Some t \<Rightarrow> t) = Some b" "op1 = op\<lparr>op_sanitize := f b (op_sanitize op)\<rparr>"
    using assms(3) by (auto simp: set_switch_def Let_def split: option.splits)
  have "g (op_sanitize op1) = (if n = name then b else g (op_sanitize op))" using assms(1) f b(2) by (auto simp: reads_switch_def)
  moreover have "v = None \<Longrightarrow> b" using b(1) by (simp add: ParseBool_def)
  ultimately show ?thesis using assms(4) b(1) by (cases v) (auto split: if_splits)
qed

lemma set_value_read: "set_value parse name text op = Inr op1 \<Longrightarrow> op_sanitize op1 = op_sanitize op"
  by (auto simp: set_value_def split: if_splits option.splits)

lemma Parse_keeps:
  assumes "reads_switch name g" "Parse parse op arguments = Inr op1" "g (op_sanitize op)"
  shows "g (op_sanitize op1) \<or> switched_off name arguments"
  using assms(2,3)
proof (induction parse op arguments rule: Parse.induct)
  case (2 parse op s rest)
  show ?case
  proof (cases "read_word s")
    case (Option n v)
    show ?thesis
    proof (cases "map_of switches n")
      case (Some f)
      then obtain op2 where op2: "set_switch n f v op = Inr op2" "Parse parse op2 rest = Inr op1"
        using 2 Option by (auto split: sum.splits)
      from set_switch_read [OF assms(1) Some op2(1) 2(5)] show ?thesis
        using 2(3) [OF Option Some op2(1) op2(2)] Option by (auto simp: switched_off_def)
    next
      case None
      have known: "n = ''output'' \<or> n = ''timeout''" using 2(4) Option None by (auto split: if_splits)
      show ?thesis
      proof (cases v)
        case (Some val)
        then obtain op2 where op2: "set_value parse n val op = Inr op2" "Parse parse op2 rest = Inr op1"
          using 2(4) Option None known by (auto split: sum.splits)
        then show ?thesis using 2(2) [OF Option None known Some op2(1) op2(2)] 2(5) set_value_read [OF op2(1)] by (auto simp: switched_off_def)
      next
        case none: None
        then obtain val rest1 op2 where op2: "rest = val # rest1" "set_value parse n val op = Inr op2" "Parse parse op2 rest1 = Inr op1"
          using 2(4) Option None known by (auto split: sum.splits list.splits)
        then show ?thesis using 2(1) [OF Option None known none op2(1,2,3)] 2(5) set_value_read [OF op2(2)] by (auto simp: switched_off_def)
      qed
    qed
  qed (use 2 in auto)
qed simp

text \<open>Options that nothing switches off stay on.\<close>

lemma default_kept:
  assumes "Parse parse default_options arguments = Inr op"
  shows "so_Hostname (op_sanitize op) \<or> switched_off ''sanitize-hostname'' arguments" "so_IPs (op_sanitize op) \<or> switched_off ''sanitize-ips'' arguments"
    "so_Domains (op_sanitize op) \<or> switched_off ''sanitize-domains'' arguments" "so_Users (op_sanitize op) \<or> switched_off ''sanitize-users'' arguments"
    "so_SIDs (op_sanitize op) \<or> switched_off ''sanitize-sids'' arguments" "so_Paths (op_sanitize op) \<or> switched_off ''sanitize-paths'' arguments"
  using switches_read [THEN Parse_keeps, OF assms] by (simp_all add: default_options_def SafeSanitizeOptions_def)

section \<open>What is written\<close>

lemma write_document_writes:
  assumes "write_document fails w document = (r, as)" "WriteOut w' out \<in> set as"
  shows "w' = w \<and> encodable document \<and> out = indented document 0 @ [CHR 0x0A] \<and> (r = None \<longleftrightarrow> (\<forall>a\<in>set as. \<not> fails a))"
  using assms by (auto simp: write_document_def closeWriter_def Encode_def Let_def split: option.splits if_splits prod.splits)

lemma outputWriter_opened:
  assumes "outputWriter fails path = (Inr w, as)"
  shows "case w of None \<Rightarrow> path = ''-'' \<and> as = []
    | Some p \<Rightarrow> p = path \<and> HasSuffix (ToLower path) ''.json'' \<and> as = [CreateNew path 0x180] \<and> \<not> fails (CreateNew path 0x180)"
  using assms by (auto simp: outputWriter_def Let_def split: if_splits)

lemma outputWriter_refused:
  assumes "outputWriter fails path = (Inl e, as)"
  shows "WriteOut w out \<notin> set as"
  using assms by (auto simp: outputWriter_def Let_def split: if_splits)

lemma write_collection_writes:
  assumes "write_collection fails path document = (r, as)" "WriteOut w out \<in> set as"
  shows "out = indented document 0 @ [CHR 0x0A] \<and> (r = None \<longleftrightarrow> (\<forall>a\<in>set as. \<not> fails a)) \<and>
    (case w of None \<Rightarrow> path = ''-''
     | Some p \<Rightarrow> p = path \<and> HasSuffix (ToLower p) ''.json'' \<and> CreateNew p 0x180 \<in> set as \<and> \<not> fails (CreateNew p 0x180))"
proof -
  obtain x bs where x: "outputWriter fails path = (x, bs)" by fastforce
  show ?thesis
  proof (cases x)
    case (Inl e)
    then show ?thesis using assms x outputWriter_refused [of fails path e bs w out] by (simp add: write_collection_def)
  next
    case (Inr w')
    note opened = outputWriter_opened [OF x [unfolded Inr]]
    obtain cs where cs: "write_document fails w' document = (r, cs)" "as = bs @ cs"
      using assms(1) by (cases "write_document fails w' document") (simp add: write_collection_def x Inr)
    have "WriteOut w out \<notin> set bs" using opened by (auto split: option.splits)
    then have "WriteOut w out \<in> set cs" using assms(2) cs(2) by auto
    from write_document_writes [OF cs(1) this] show ?thesis using opened cs(2) by (cases w') auto
  qed
qed

lemma collector_run_writes:
  assumes "collector_run co arguments = (r, as)" "WriteOut w out \<in> set as"
  obtains op fixture where "Parse (co_parse co) default_options arguments = Inr op" "co_GOOS co = ''freebsd''" "sanitised co op = Inr fixture"
    "write_collection (co_fails co) (op_output op) (Fixture_json (co_floats co) fixture) = (r, as)"
  using assms unfolding collector_run_def by (auto split: sum.splits if_splits)


text \<open>A host on which every command fails, and a run that writes a file and another one that leaves the addresses in.\<close>

definition sample_collector :: "int collector" where
  "sample_collector = \<lparr>co_parse = (\<lambda>t. None), co_GOOS = ''freebsd'',
     co_os = (\<lambda>timeout path args. \<lparr>ps_stdout = [], ps_stderr = [], ps_exitCode = Some 1, ps_error = Some (OsError ''x'')\<rparr>),
     co_error_text = (\<lambda>e. ''error''), co_floats = sample_floats, co_order = rev, co_orbit = (\<lambda>r. []),
     co_unmarshal = (\<lambda>v. Some sample_collection), co_now = 0, co_fails = (\<lambda>a. False)\<rparr>"

definition sample_arguments :: "string list" where
  "sample_arguments = [''--output'', ''host.JSON'', ''-sanitize-users=f'']"

definition sample_options :: options where
  "sample_options = \<lparr>op_output = ''host.JSON'', op_timeout = 15 * second, op_sanitize = SafeSanitizeOptions\<lparr>so_Users := False\<rparr>\<rparr>"

lemma sample_collector_run:
  "\<exists>document out. sanitized_document rev (\<lambda>r. []) sample_floats (collected sample_collector (15 * second)) (op_sanitize sample_options) = Inr document \<and>
     WriteOut (Some ''host.JSON'') out \<in> set (snd (collector_run sample_collector sample_arguments))"
proof -
  let ?doc = "Fixture_json sample_floats (collected sample_collector (15 * second))"
  let ?fixture = "sample_collection\<lparr>fx_Commands := restored (fx_Commands (collected sample_collector (15 * second))) (fx_Commands sample_collection),
     fx_Sanitized := True\<rparr>"
  have "json_all (\<lambda>s. \<not> suspect s) ?doc" by code_simp
  note clean = no_forbidden_material [OF this]
  moreover have "encodable ?doc" by code_simp
  moreover have "\<not> list_ex (\<lambda>h. TrimSpace h \<noteq> [] \<and> valid_utf8 h \<noteq> h)
      [sy_FQDN (fx_System (collected sample_collector (15 * second))), sy_Hostname (fx_System (collected sample_collector (15 * second)))]"
    by code_simp
  ultimately obtain document where r: "sanitized_document rev (\<lambda>r. []) sample_floats (collected sample_collector (15 * second)) (op_sanitize sample_options) = Inr document"
    by (simp add: sanitized_document_def Let_def)
  have fields: "co_order sample_collector = rev" "co_orbit sample_collector = (\<lambda>r. [])" "co_floats sample_collector = sample_floats"
    "co_unmarshal sample_collector = (\<lambda>v. Some sample_collection)" "op_timeout sample_options = 15 * second" "co_GOOS sample_collector = ''freebsd''"
    "co_fails sample_collector = (\<lambda>a. False)" "op_output sample_options = ''host.JSON''"
    by (simp_all add: sample_collector_def sample_options_def)
  have f: "sanitised sample_collector sample_options = Inr ?fixture" unfolding sanitised_def fields Sanitize_def r by simp
  have "Parse (co_parse sample_collector) default_options sample_arguments = Inr sample_options" by code_simp
  then have run: "collector_run sample_collector sample_arguments = write_collection (\<lambda>a. False) ''host.JSON'' (Fixture_json sample_floats ?fixture)"
    unfolding collector_run_def by (simp add: f fields)
  have "outputWriter (\<lambda>a. False) ''host.JSON'' = (Inr (Some ''host.JSON''), [CreateNew ''host.JSON'' 0x180])" by code_simp
  moreover have "encodable (Fixture_json sample_floats ?fixture)" by code_simp
  ultimately show ?thesis using r unfolding run
    by (simp add: write_collection_def write_document_def Encode_def closeWriter_def)
qed


end
