(* ===== verification/Spec2Isabelle.thy ===== *)
theory Spec2Isabelle
  imports Rbac Paths AgentServer Store Approval Events AuditLog JobRuns SecondFactor Execution Routes Client Fixture Listener Migrations Contract App Collector
begin

text \<open>
  Verification development of the samba-admin backend (the Go code under \<open>src/backend\<close>).

  \<^bold>\<open>The program.\<close>  An unprivileged HTTP API manages a Samba server.  It keeps its accounts, sessions, jobs, change requests and
  audit log in one SQLite database, and does nothing on the host by itself: it sends signed requests over a Unix socket to a
  privileged agent, which executes only the operations of a closed catalog, read-only unless it is configured otherwise.  An
  operation that needs approval goes through a change request; one that takes time is a job; what happens is announced
  to subscribers and recorded in a chain of hashes.  A third command records the answers of a host and sanitises them, so that the agent
  and the API can run on the recording instead.

  \<^bold>\<open>How it is modelled.\<close>  Everything is a function of explicit arguments: a struct is a record, an enumeration a datatype, an
  error a value of \<open>error + 'a\<close> with a constructor for every place that returns one, an association list a Go map in some order of
  iteration, a \<open>string\<close> the bytes of a Go string.  Time is an \<open>int\<close> of nanoseconds and the clock an argument.  Words keep their width
  where the code relies on it (\<open>Hash\<close>, \<open>Otp\<close>, modes of files).  The database is a record with a list of rows per table, and a statement
  fails when \<open>db_fault\<close> says so, at the number of statements executed so far; an operation of the store is a function of the
  database that returns an error or a value with the new database.  What talks to the operating system is a program, a tree of
  questions or actions that any host may answer (\<open>prog\<close> of \<open>Executor\<close>, \<open>io\<close> of \<open>Listener\<close>), so that its theorems
  hold for every answer and every failure.  Requests, goroutines and processes that run together are step relations over the
  operations of the components.

  \<^bold>\<open>Theories and code\<close> (paths under \<open>src/backend/internal\<close> unless they begin with \<open>cmd\<close> or \<open>api\<close>).
  \<^item> Shared vocabulary: \<open>Prelude\<close>, \<open>GoTime\<close>, \<open>GoText\<close>, \<open>GoRegexp\<close>, \<open>Json\<close>, \<open>JsonRound\<close>, \<open>Hash\<close>, \<open>Base64\<close>, \<open>NetAddr\<close> are the
    parts of Go's library that the program calls (\<open>strings\<close>, \<open>strconv\<close>, \<open>time\<close>, \<open>regexp\<close>, \<open>encoding/json\<close>, SHA-1, SHA-256 and
    HMAC, \<open>net\<close>), with the lemmas about them that the components share.
  \<^item> Policy and input: \<open>Rbac\<close> (\<open>rbac/rbac.go\<close>), \<open>Paths\<close> (\<open>validation/paths.go\<close>), \<open>Configuration\<close> (\<open>config/config.go\<close>).
  \<^item> The agent: \<open>Protocol\<close> (catalog and payload schemas, \<open>agent/protocol.go\<close>), \<open>Signing\<close>, \<open>Nonce\<close> (replay cache and its file),
    \<open>Executor\<close> (mock and read-only executors, command policy, redaction), \<open>AgentServer\<close> (\<open>agent/server.go\<close>: one request in three steps, gate,
    admission and end, and the interleavings of many), \<open>Listener\<close> (socket, peer credentials and start of the process),
    \<open>Client\<close> (\<open>agent/client.go\<close>, \<open>adapters/agent\<close>, and both ends together).
  \<^item> The host: \<open>Inventory\<close> (\<open>models/models.go\<close>), \<open>FreeBsdText\<close> and \<open>FreeBsd\<close> (\<open>adapters/freebsd\<close>), \<open>Fixture\<close> (collection and
    replay, \<open>fixturecollector/collector.go\<close>, \<open>adapters/fixture\<close>), \<open>Sanitize\<close> (\<open>fixturecollector/sanitize.go\<close>), \<open>Collector\<close>
    (\<open>cmd/samba-admin-fixture-collector\<close>).
  \<^item> Storage: \<open>Sqlite\<close> and \<open>Connection\<close> (\<open>sqlite/sqlite.go\<close>: conversions, and the handle behind its mutex), \<open>Store\<close>
    (\<open>storage/store.go\<close>), \<open>Migrations\<close> (opening and migrating).
  \<^item> Services: \<open>Auth\<close>, \<open>Password\<close>, \<open>Otp\<close> (\<open>auth\<close>) with their properties in \<open>Login\<close> and \<open>SecondFactor\<close>; \<open>Approval\<close>; \<open>Jobs\<close> with the
    interleavings of all jobs in \<open>JobRuns\<close>; \<open>Events\<close>; \<open>AuditLog\<close>.
  \<^item> The API: \<open>Http\<close> (\<open>middleware/context.go\<close>), \<open>Idempotency\<close>, \<open>Shares\<close>, \<open>Api\<close>, \<open>ChangesApi\<close>, \<open>AuthApi\<close>, \<open>Reads\<close> (the handlers of
    \<open>httpapi/server.go\<close>), \<open>Routes\<close> (\<open>api/generated/server.gen.go\<close> and \<open>httpapi/openapi_handler.go\<close>), \<open>Execution\<close> (approvals,
    jobs and API together), \<open>Contract\<close> (\<open>api/generated/models.gen.go\<close>), \<open>App\<close> (\<open>app/app.go\<close>, \<open>cmd/samba-admin-api\<close>).

  \<^bold>\<open>What is shown.\<close>
  \<^item> Agent: exactly which requests reach the executor; a request executed once is not executed again while its signature lasts, also
    across a restart; the number of executions at once; what a reply may contain; which commands run; the socket stays private and the peer
    is the configured user, whatever else runs on the machine; a permitted call is carried out and its answer accepted.
  \<^item> API: an operation is reached only with the session, permission and token it asks for; a repeated request takes effect once; an
    execution is answered 202 only for an approved change and then starts one job.
  \<^item> Services: the life cycle of change requests and the separation of duties in every reachable state; locks of resources, end of every
    job and at most one call of the agent under every interleaving and any failing statements; logins, lock-out and second factor; the chain
    of the audit log against SHA-256 collisions; replay of events.
  \<^item> Storage: the connection is released on every path, a result is read as a whole or an error is returned, migrations are applied in order
    and recorded; a start leaves the database in one of the states described and its first administrator can log in.
  \<^item> Host: every command of an inventory is allowed and listed; secrets of the configuration are not shown; rendering and parsing of shares;
    a collection replays its host, what is written of it has no addresses that the expressions find, and values of secrets have no influence.
  Three locales state contracts: \<open>replay_guard\<close> of \<open>Nonce\<close> (a cache that refuses what it has accepted), \<open>lease\<close> of \<open>Jobs\<close> (one holder
  at a time until it expires) and \<open>address\<close> of \<open>GoRegexp\<close> (an expression whose matches can be replaced for good).  Each is interpreted on the
  model's own definitions.

  \<^bold>\<open>Bounds and fuel.\<close>  Loops are structural or come with a measure; \<open>star_ends\<close> of \<open>GoRegexp\<close> takes the length of the text as
  its fuel, and every repetition shortens the text, so that no match is lost (the ends of a position are shown to be exactly the
  matches there).  Numbers in JSON are integers; \<open>float64\<close> is a type variable with its operations in a record.

  \<^bold>\<open>Parameters\<close>, for code that is not under \<open>src\<close>: argon2id and AES-GCM (an output of the length asked for, decryption that inverts
  encryption), the SQLite library (answers of \<open>sqlite3_prepare\<close> and \<open>sqlite3_step\<close>, the effect of a script of a migration), \<open>time.ParseDuration\<close>,
  decoding of documents into records, random bytes, the order of iteration over maps, the Unicode folding of a rune beyond ASCII, the host
  with its files, commands and credentials of peers.

  \<^bold>\<open>Not modelled.\<close>  Of the generated code: declarations of types of the wire format and the adapters of the strict server, which have no
  behaviour of their own; the fixtures of \<open>fixtures/data.go\<close> other than the capability table, and the mock provider that returns
  them, constants shown as they are; the interfaces of \<open>adapters/contracts.go\<close>; \<open>Recover\<close> and \<open>AccessLog\<close>, which observe handlers;
  process groups and signals (\<open>agent/process_*.go\<close>), system calls only; \<open>ListenAndServe\<close> and \<open>Shutdown\<close>, library code; the two test tools
  (\<open>cmd/samba-admin-e2e-*\<close>); the web client, scripts and packaging, which are not Go.
\<close>

end
